(* ===== verification/Prelude.thy ===== *)
theory Prelude
  imports Main
begin

text \<open>
  Shared vocabulary of the development: identifiers, instants and amounts, the
  exceptions the services throw, the early-return combinators of the handlers, and
  tables as row lists with the four statements the services issue (find first,
  find many, update where, insert).

  A handler of the program runs inside one database transaction
  (database/tenant-aware-db.service.ts, runInTenantContext): a thrown exception rolls
  every write back.  Handlers are therefore functions from the database to
  \<^term>\<open>Inl e\<close> (thrown, database unchanged) or \<^term>\<open>Inr (result, db')\<close>.
  Row-level security is written out: every query of a handler carries the caller's
  tenant in its row predicate.  The locale tenant_isolation states what this
  gives across interleaved callers, the locale status_machine what the status tables
  of the several state machines share.
\<close>

type_synonym uuid = nat
type_synonym instant = int  \<comment> \<open>milliseconds since 1970-01-01T00:00Z, a Date\<close>
type_synonym cents = int

named_theorems exec_simps \<open>evaluation of handlers and their combinators\<close>
named_theorems row_simps \<open>what an update of a row leaves alone\<close>

text \<open>The caller of a handler: tenant, user and role (packages/shared/src/constants/roles.ts).\<close>

datatype role = Owner | Admin | Manager | Dispatcher | Driver | Accounting | Auditor

record ctx =
  ctx_tenantId :: uuid
  ctx_userId :: uuid
  ctx_role :: "role option"

text \<open>Truthiness of an optional string, and a patch of a field that may be absent (undefined).\<close>

definition truthy :: "string option \<Rightarrow> string option" where
  "truthy s = (if s = Some [] then None else s)"

definition patched :: "'a option \<Rightarrow> 'a \<Rightarrow> 'a" where
  "patched p old = (case p of None \<Rightarrow> old | Some v \<Rightarrow> v)"

section \<open>Thrown exceptions\<close>

text \<open>The NestJS exceptions with the error code and message the source gives them; a plain
  \<open>Error\<close> (HTTP 500) is \<open>Failure\<close>, a \<open>RangeError\<close> of the Date API its own case.\<close>

datatype exn =
    NotFound string
  | Conflict string string
  | BadRequest string string
  | Forbidden string string
  | Unauthorized string string
  | RangeError string
  | Failure string

definition quoted :: "string \<Rightarrow> string" where
  "quoted s = [CHR 0x27] @ s @ [CHR 0x27]"

definition ensure :: "bool \<Rightarrow> exn \<Rightarrow> (exn + 'a) \<Rightarrow> exn + 'a" where
  "ensure b e k = (if b then k else Inl e)"

definition require :: "'a option \<Rightarrow> exn \<Rightarrow> ('a \<Rightarrow> exn + 'b) \<Rightarrow> exn + 'b" where
  "require r e k = (case r of None \<Rightarrow> Inl e | Some x \<Rightarrow> k x)"

definition attempt :: "(exn + 'a) \<Rightarrow> ('a \<Rightarrow> exn + 'b) \<Rightarrow> exn + 'b" where
  "attempt r k = (case r of Inl e \<Rightarrow> Inl e | Inr x \<Rightarrow> k x)"

text \<open>Evaluated as case distinctions, so that a continuation is entered once its argument is known.\<close>

declare ensure_def [code_unfold] require_def [code_unfold] attempt_def [code_unfold]

lemma ensure_Inr [simp]: "ensure b e k = Inr y \<longleftrightarrow> b \<and> k = Inr y"
  by (simp add: ensure_def)

lemma require_Inr [simp]: "require r e k = Inr y \<longleftrightarrow> (\<exists>x. r = Some x \<and> k x = Inr y)"
  by (simp add: require_def split: option.split)

lemma attempt_Inr [simp]: "attempt r k = Inr y \<longleftrightarrow> (\<exists>x. r = Inr x \<and> k x = Inr y)"
  by (simp add: attempt_def split: sum.split)

lemma ensure_eval [exec_simps]: "ensure True e k = k" "ensure False e k = Inl e"
  by (simp_all add: ensure_def)

lemma require_eval [exec_simps]: "require (Some x) e f = f x" "require None e f = Inl e"
  by (simp_all add: require_def)

lemma attempt_eval [exec_simps]: "attempt (Inr x) f = f x" "attempt (Inl e) f = Inl e"
  by (simp_all add: attempt_def)

lemma ensure_cong: "b = b' \<Longrightarrow> (b' \<Longrightarrow> k = k') \<Longrightarrow> ensure b e k = ensure b' e k'"
  by (simp add: ensure_def)

text \<open>A thrown exception leaves the database as it was.\<close>

definition committed :: "'s \<Rightarrow> exn + 'a \<times> 's \<Rightarrow> 's" where
  "committed s r = (case r of Inl _ \<Rightarrow> s | Inr (_, s') \<Rightarrow> s')"

lemma committed_simps [simp]: "committed s (Inl e) = s" "committed s (Inr (x, s')) = s'"
  by (simp_all add: committed_def)

section \<open>Tables\<close>

definition select_first :: "('r \<Rightarrow> bool) \<Rightarrow> 'r list \<Rightarrow> 'r option" where
  "select_first P tbl = List.find P tbl"

definition select_where :: "('r \<Rightarrow> bool) \<Rightarrow> 'r list \<Rightarrow> 'r list" where
  "select_where P tbl = filter P tbl"

definition update_where :: "('r \<Rightarrow> bool) \<Rightarrow> ('r \<Rightarrow> 'r) \<Rightarrow> 'r list \<Rightarrow> 'r list" where
  "update_where P f tbl = map (\<lambda>r. if P r then f r else r) tbl"

definition insert_into :: "'r \<Rightarrow> 'r list \<Rightarrow> 'r list" where
  "insert_into r tbl = tbl @ [r]"

definition delete_where :: "('r \<Rightarrow> bool) \<Rightarrow> 'r list \<Rightarrow> 'r list" where
  "delete_where P tbl = filter (\<lambda>r. \<not> P r) tbl"

text \<open>\<open>.update(t).set(f).where(P).returning()\<close>, destructured as \<open>[row]\<close>: the first updated
  row, if any, and the table.\<close>

definition update_returning ::
    "('r \<Rightarrow> bool) \<Rightarrow> ('r \<Rightarrow> 'r) \<Rightarrow> 'r list \<Rightarrow> 'r option \<times> 'r list" where
  "update_returning P f tbl = (map_option f (select_first P tbl), update_where P f tbl)"

lemma select_first_Some:
  "select_first P tbl = Some r \<Longrightarrow> P r \<and> r \<in> set tbl"
  by (auto simp: select_first_def find_Some_iff)

lemma select_first_SomeD:
  assumes "select_first P tbl = Some r"
  shows "P r" "r \<in> set tbl"
  using select_first_Some [OF assms] by simp_all

lemma select_first_None:
  "select_first P tbl = None \<longleftrightarrow> (\<forall>r \<in> set tbl. \<not> P r)"
  by (auto simp: select_first_def find_None_iff)

lemma select_first_ex: "r \<in> set tbl \<Longrightarrow> P r \<Longrightarrow> \<exists>r'. select_first P tbl = Some r'"
  by (cases "select_first P tbl") (auto simp: select_first_None)

lemma select_first_Nil [exec_simps]: "select_first P [] = None"
  by (simp add: select_first_def)

lemma select_first_Cons [exec_simps]:
  "select_first P (r # tbl) = (if P r then Some r else select_first P tbl)"
  by (simp add: select_first_def)

lemma set_select_where [simp]: "set (select_where P tbl) = {r \<in> set tbl. P r}"
  by (simp add: select_where_def)

lemma set_update_where:
  "set (update_where P f tbl) = {r \<in> set tbl. \<not> P r} \<union> f ` {r \<in> set tbl. P r}"
  by (auto simp: update_where_def)

lemma in_update_where:
  "r \<in> set (update_where P f tbl) \<Longrightarrow>
    (r \<in> set tbl \<and> \<not> P r) \<or> (\<exists>r0 \<in> set tbl. P r0 \<and> r = f r0)"
  by (auto simp: set_update_where)

lemma set_insert_into [simp]: "set (insert_into r tbl) = insert r (set tbl)"
  by (simp add: insert_into_def)

lemma insert_into_eq [simp]: "insert_into r tbl = insert_into r' tbl \<longleftrightarrow> r = r'"
  by (simp add: insert_into_def)

lemma set_delete_where [simp]: "set (delete_where P tbl) = {r \<in> set tbl. \<not> P r}"
  by (auto simp: delete_where_def)

lemma length_update_where [simp]: "length (update_where P f tbl) = length tbl"
  by (simp add: update_where_def)

lemma map_update_where:
  assumes "\<And>r. P r \<Longrightarrow> g (f r) = g r"
  shows "map g (update_where P f tbl) = map g tbl"
  using assms by (simp add: update_where_def)

lemma update_where_none:
  "(\<And>r. r \<in> set tbl \<Longrightarrow> \<not> P r) \<Longrightarrow> update_where P f tbl = tbl"
  by (induction tbl) (auto simp: update_where_def)

lemma filter_update_where_frame:
  assumes "\<And>r. P r \<Longrightarrow> \<not> Q r \<and> \<not> Q (f r)"
  shows "filter Q (update_where P f tbl) = filter Q tbl"
  using assms by (induction tbl) (auto simp: update_where_def)

lemma filter_update_where_commute:
  assumes "\<And>r. P r \<Longrightarrow> Q (f r) = Q r"
  shows "filter Q (update_where P f tbl) = update_where P f (filter Q tbl)"
  using assms by (induction tbl) (auto simp: update_where_def)

text \<open>An update whose predicate names the tenant \<open>t\<close>.\<close>

lemma filter_update_where_tenant:
  assumes "\<And>r. g (f r) = g r" "\<And>r. P r \<Longrightarrow> g r = t"
  shows "filter (\<lambda>r. g r = u) (update_where P f tbl)
    = (if u = t then update_where P f (filter (\<lambda>r. g r = u) tbl) else filter (\<lambda>r. g r = u) tbl)"
  using assms by (induction tbl) (auto simp: update_where_def)

lemma length_filter_update_where:
  assumes "\<And>r. P r \<Longrightarrow> Q (f r) \<Longrightarrow> Q r"
  shows "length (filter Q (update_where P f tbl)) \<le> length (filter Q tbl)"
  using assms by (induction tbl) (auto simp: update_where_def)

lemma select_first_update_where:
  assumes "\<And>r. P (f r) = P r" "\<And>r. P r \<Longrightarrow> Q r"
  shows "select_first P (update_where Q f tbl) = map_option f (select_first P tbl)"
  using assms by (induction tbl) (auto simp: select_first_def update_where_def)

lemma select_first_filter:
  assumes "\<And>r. P r \<Longrightarrow> Q r"
  shows "select_first P (filter Q tbl) = select_first P tbl"
  using assms by (induction tbl) (auto simp: select_first_def)

lemma select_where_filter:
  assumes "\<And>r. P r \<Longrightarrow> Q r"
  shows "select_where P (filter Q tbl) = select_where P tbl"
  using assms by (induction tbl) (auto simp: select_where_def)

lemma filter_insert_into:
  "filter Q (insert_into r tbl) = (if Q r then insert_into r (filter Q tbl) else filter Q tbl)"
  by (simp add: insert_into_def)

lemma filter_delete_where_commute:
  "filter Q (delete_where P tbl) = delete_where P (filter Q tbl)"
  by (simp add: delete_where_def conj_commute)

text \<open>Inserting where none was found keeps at most one, and updating a row in place changes no count.\<close>

lemma insert_keeps_one:
  assumes "length (filter P tbl) \<le> 1" "P row \<Longrightarrow> select_first P tbl = None"
  shows "length (filter P (insert_into row tbl)) \<le> 1"
  using assms by (auto simp: filter_insert_into insert_into_def select_first_None filter_empty_conv)

lemma update_keeps_one:
  assumes "length (filter P tbl) \<le> (1 :: nat)" "\<And>r. P (f r) = P r"
  shows "length (filter P (update_where Q f tbl)) \<le> 1"
  using length_filter_update_where [of Q P f tbl] assms by simp

lemma length_filter_update_in:
  assumes "\<And>r. r \<in> set tbl \<Longrightarrow> P r \<Longrightarrow> Q (f r) \<Longrightarrow> Q r"
  shows "length (filter Q (update_where P f tbl)) \<le> length (filter Q tbl)"
  using assms
proof (induction tbl)
  case Nil
  then show ?case by (simp add: update_where_def)
next
  case (Cons r tbl)
  then have "length (filter Q (update_where P f tbl)) \<le> length (filter Q tbl)" by simp
  then show ?case using Cons.prems [of r] by (auto simp: update_where_def)
qed

text \<open>With a unique key, the rows after an update of the row found.\<close>

lemma set_update_found:
  assumes "distinct (map key tbl)" "select_first P tbl = Some r" "\<And>x y. P x \<Longrightarrow> P y \<Longrightarrow> key x = key y"
  shows "set (update_where P f tbl) = insert (f r) (set tbl - {r})"
proof -
  have r: "P r" "r \<in> set tbl" using select_first_SomeD [OF assms(2)] .
  have "P x \<longleftrightarrow> x = r" if "x \<in> set tbl" for x
    using that r assms(1,3) by (auto simp: distinct_map dest: inj_onD)
  then show ?thesis using r unfolding set_update_where by auto
qed

text \<open>A property of the outcome holds whether the handler throws or commits.\<close>

lemma committed_intro: "P s \<Longrightarrow> (\<And>x s'. r = Inr (x, s') \<Longrightarrow> P s') \<Longrightarrow> P (committed s r)"
  by (auto simp: committed_def split: sum.split)

text \<open>What a handler leaves alone, read off its body.\<close>

definition keeps :: "('s \<Rightarrow> 'b) \<Rightarrow> 's \<Rightarrow> exn + 'a \<times> 's \<Rightarrow> bool" where
  "keeps g s r \<longleftrightarrow> g (committed s r) = g s"

lemma keeps_rules:
  "keeps g s (Inl e)"
  "g s' = g s \<Longrightarrow> keeps g s (Inr (x, s'))"
  "keeps g s k \<Longrightarrow> keeps g s (ensure b e k)"
  "(\<And>x. keeps g s (f x)) \<Longrightarrow> keeps g s (require r e f)"
  "(\<And>x. keeps g s (f x)) \<Longrightarrow> keeps g s (attempt m f)"
  "keeps g s k1 \<Longrightarrow> keeps g s k2 \<Longrightarrow> keeps g s (if c then k1 else k2)"
  "keeps g s n \<Longrightarrow> (\<And>x. keeps g s (h x)) \<Longrightarrow> keeps g s (case opt of None \<Rightarrow> n | Some x \<Rightarrow> h x)"
  "(\<And>a b. keeps g s (u a b)) \<Longrightarrow> keeps g s (case p of (a, b) \<Rightarrow> u a b)"
  by (auto simp: keeps_def ensure_def require_def attempt_def split: option.split sum.split prod.split)

text \<open>Pushing a map of the result through the combinators.\<close>

lemma map_sum_combinators:
  "map_sum id g (ensure b e k) = ensure b e (map_sum id g k)"
  "map_sum id g (require r e f) = require r e (\<lambda>x. map_sum id g (f x))"
  "map_sum id g (attempt m h) = attempt m (\<lambda>x. map_sum id g (h x))"
  by (simp_all add: ensure_def require_def attempt_def split: option.split sum.split)

section \<open>Tenant isolation\<close>

text \<open>Handlers of several tenants run against the shared tables.  \<open>restrict t s\<close> keeps the rows
  of tenant \<open>t\<close>.  A handler that reads and writes its caller's rows only (row-level security)
  satisfies both laws; the lemma is the guarantee the program gives its tenants.\<close>

locale tenant_isolation =
  fixes exec :: "'op \<Rightarrow> 's \<Rightarrow> 's"
    and caller :: "'op \<Rightarrow> uuid"
    and restrict :: "uuid \<Rightarrow> 's \<Rightarrow> 's"
  assumes own_rows: "restrict (caller op) (exec op s) = exec op (restrict (caller op) s)"
    and other_rows: "t \<noteq> caller op \<Longrightarrow> restrict t (exec op s) = restrict t s"
begin

lemma noninterference:
  "restrict t (fold exec ops s) = fold exec (filter (\<lambda>op. caller op = t) ops) (restrict t s)"
proof (induction ops arbitrary: s)
  case Nil
  then show ?case by simp
next
  case (Cons op ops)
  show ?case
    using Cons.IH [of "exec op s"] own_rows [of op s] other_rows [of t op s] by auto
qed

lemma same_view:
  "restrict t s1 = restrict t s2 \<Longrightarrow>
    restrict t (fold exec ops s1) = restrict t (fold exec ops s2)"
  by (simp add: noninterference)

end

section \<open>Status machines\<close>

text \<open>A table of legal moves and the set of terminal states.\<close>

locale status_machine =
  fixes can :: "'st \<Rightarrow> 'st \<Rightarrow> bool"
    and terminal :: "'st \<Rightarrow> bool"
  assumes terminal_stuck: "terminal s \<Longrightarrow> can s t \<Longrightarrow> t = s"
begin

lemma terminal_forever: "can\<^sup>*\<^sup>* s t \<Longrightarrow> terminal s \<Longrightarrow> t = s"
  by (induction rule: rtranclp_induct) (auto dest: terminal_stuck)

lemma not_from_terminal: "can s t \<Longrightarrow> s \<noteq> t \<Longrightarrow> \<not> terminal s"
  using terminal_stuck by blast

end

text \<open>A log of status changes that starts at \<open>s0\<close>, chains, and ends at \<open>s\<close>.\<close>

fun legal_log :: "('st \<Rightarrow> 'st \<Rightarrow> bool) \<Rightarrow> 'st \<Rightarrow> ('st \<times> 'st) list \<Rightarrow> 'st \<Rightarrow> bool" where
  "legal_log can s0 [] s \<longleftrightarrow> s0 = s"
| "legal_log can s0 ((a, b) # log) s \<longleftrightarrow> s0 = a \<and> can a b \<and> legal_log can b log s"

lemma legal_log_snoc:
  "legal_log can s0 (log @ [(a, b)]) s \<longleftrightarrow> legal_log can s0 log a \<and> can a b \<and> b = s"
  by (induction log arbitrary: s0) auto

lemma legal_log_path: "legal_log can s0 log s \<Longrightarrow> can\<^sup>*\<^sup>* s0 s"
proof (induction log arbitrary: s0)
  case Nil
  then show ?case by simp
next
  case (Cons p log)
  then show ?case by (cases p) (auto intro: converse_rtranclp_into_rtranclp)
qed

lemma legal_log_end: "legal_log can s0 log s \<Longrightarrow> legal_log can s0 log t \<Longrightarrow> s = t"
  by (induction log arbitrary: s0) auto

lemma legal_log_append:
  "legal_log can s0 (l1 @ l2) s \<longleftrightarrow> (\<exists>m. legal_log can s0 l1 m \<and> legal_log can m l2 s)"
  by (induction l1 arbitrary: s0) auto

end
