(* ===== verification/JobStateMachine.thy ===== *)
theory JobStateMachine
  imports Prelude
begin

text \<open>
  jobs/job-state-machine.ts: the statuses of a job, the table of legal moves and the
  functions over it.
\<close>

datatype job_status =
    Job_new | Job_dispatched | Job_enroute | Job_on_scene | Job_in_progress
  | Job_completed | Job_cancelled | Job_goa

fun job_status_text :: "job_status \<Rightarrow> string" where
  "job_status_text Job_new = ''new''"
| "job_status_text Job_dispatched = ''dispatched''"
| "job_status_text Job_enroute = ''enroute''"
| "job_status_text Job_on_scene = ''on_scene''"
| "job_status_text Job_in_progress = ''in_progress''"
| "job_status_text Job_completed = ''completed''"
| "job_status_text Job_cancelled = ''cancelled''"
| "job_status_text Job_goa = ''goa''"

fun TRANSITION_MAP :: "job_status \<Rightarrow> job_status list" where
  "TRANSITION_MAP Job_new = [Job_dispatched, Job_cancelled]"
| "TRANSITION_MAP Job_dispatched = [Job_enroute, Job_new, Job_cancelled, Job_goa]"
| "TRANSITION_MAP Job_enroute = [Job_on_scene, Job_cancelled, Job_goa]"
| "TRANSITION_MAP Job_on_scene = [Job_in_progress, Job_goa, Job_cancelled]"
| "TRANSITION_MAP Job_in_progress = [Job_completed, Job_cancelled]"
| "TRANSITION_MAP Job_completed = []"
| "TRANSITION_MAP Job_cancelled = []"
| "TRANSITION_MAP Job_goa = []"

definition TERMINAL_STATUSES :: "job_status list" where
  "TERMINAL_STATUSES = [Job_completed, Job_cancelled, Job_goa]"

definition canTransition :: "job_status \<Rightarrow> job_status \<Rightarrow> bool" where
  "canTransition from to \<longleftrightarrow> to \<in> set (TRANSITION_MAP from)"

definition allowedTransitions :: "job_status \<Rightarrow> job_status list" where
  "allowedTransitions from = TRANSITION_MAP from"

definition isTerminal :: "job_status \<Rightarrow> bool" where
  "isTerminal s \<longleftrightarrow> s \<in> set TERMINAL_STATUSES"

text \<open>The keys of the table in declaration order, as \<open>Object.keys\<close> lists them.\<close>

definition job_statuses :: "job_status list" where
  "job_statuses = [Job_new, Job_dispatched, Job_enroute, Job_on_scene, Job_in_progress,
     Job_completed, Job_cancelled, Job_goa]"

definition VALID_TRANSITIONS :: "(job_status \<times> job_status) list" where
  "VALID_TRANSITIONS =
     concat (map (\<lambda>from. map (\<lambda>to. (from, to)) (TRANSITION_MAP from)) job_statuses)"

definition INVALID_TRANSITIONS :: "(job_status \<times> job_status) list" where
  "INVALID_TRANSITIONS = concat (map (\<lambda>from. map (\<lambda>to. (from, to))
     (filter (\<lambda>to. from \<noteq> to \<and> \<not> canTransition from to) job_statuses)) job_statuses)"

definition transition_message :: "job_status \<Rightarrow> job_status \<Rightarrow> string" where
  "transition_message from to = ''Cannot transition job from '' @ quoted (job_status_text from)
     @ '' to '' @ quoted (job_status_text to)"

text \<open>\<open>assertCanTransition\<close> throws an \<open>InvalidJobTransitionError\<close>; both callers turn it into
  this exception.\<close>

definition assertCanTransition :: "job_status \<Rightarrow> job_status \<Rightarrow> exn + unit" where
  "assertCanTransition from to =
     ensure (canTransition from to)
       (BadRequest ''INVALID_STATE_TRANSITION'' (transition_message from to)) (Inr ())"

lemma job_statuses_all: "set job_statuses = UNIV"
proof -
  have "s \<in> set job_statuses" for s by (cases s) (simp_all add: job_statuses_def)
  then show ?thesis by blast
qed

lemma canTransition_simps [simp]:
  "canTransition Job_new t \<longleftrightarrow> t = Job_dispatched \<or> t = Job_cancelled"
  "canTransition Job_dispatched t \<longleftrightarrow>
     t = Job_enroute \<or> t = Job_new \<or> t = Job_cancelled \<or> t = Job_goa"
  "canTransition Job_enroute t \<longleftrightarrow> t = Job_on_scene \<or> t = Job_cancelled \<or> t = Job_goa"
  "canTransition Job_on_scene t \<longleftrightarrow> t = Job_in_progress \<or> t = Job_goa \<or> t = Job_cancelled"
  "canTransition Job_in_progress t \<longleftrightarrow> t = Job_completed \<or> t = Job_cancelled"
  "canTransition Job_completed t \<longleftrightarrow> False"
  "canTransition Job_cancelled t \<longleftrightarrow> False"
  "canTransition Job_goa t \<longleftrightarrow> False"
  by (auto simp: canTransition_def)

lemma isTerminal_simps [simp]:
  "isTerminal s \<longleftrightarrow> s = Job_completed \<or> s = Job_cancelled \<or> s = Job_goa"
  by (auto simp: isTerminal_def TERMINAL_STATUSES_def)

interpretation job_machine: status_machine canTransition isTerminal
  by unfold_locales auto

text \<open>The two expanded tables partition the pairs of distinct statuses.\<close>

lemma transitions_partition:
  "set VALID_TRANSITIONS = {(a, b). canTransition a b}"
  "set INVALID_TRANSITIONS = {(a, b). a \<noteq> b \<and> \<not> canTransition a b}"
  by (auto simp: VALID_TRANSITIONS_def INVALID_TRANSITIONS_def canTransition_def job_statuses_all)

text \<open>A job is completed only by way of every operational stage.\<close>

definition stage :: "job_status \<Rightarrow> nat" where
  "stage s = (case s of Job_new \<Rightarrow> 0 | Job_dispatched \<Rightarrow> 1 | Job_enroute \<Rightarrow> 2 | Job_on_scene \<Rightarrow> 3
     | Job_in_progress \<Rightarrow> 4 | Job_completed \<Rightarrow> 5 | Job_cancelled \<Rightarrow> 0 | Job_goa \<Rightarrow> 0)"

lemma stage_step: "canTransition s t \<Longrightarrow> stage t \<le> stage s + 1"
  by (cases s; cases t) (simp_all add: stage_def)

lemma legal_log_stages:
  "legal_log canTransition s0 log s \<Longrightarrow> stage s0 \<le> k \<Longrightarrow> k \<le> stage s \<Longrightarrow>
     stage s0 = k \<or> (\<exists>(a, b) \<in> set log. stage b = k)"
proof (induction log arbitrary: s0)
  case Nil
  then show ?case by auto
next
  case (Cons p log)
  obtain a b where p: "p = (a, b)" by (cases p)
  with Cons.prems have ab: "s0 = a" "canTransition a b" "legal_log canTransition b log s" by auto
  show ?case
  proof (cases "stage b \<le> k")
    case True
    then show ?thesis using Cons.IH [OF ab(3) True] Cons.prems(3) p by auto
  next
    case False
    then have "stage s0 = k" using stage_step [OF ab(2)] ab(1) Cons.prems(2) by simp
    then show ?thesis ..
  qed
qed

end
