(* ===== verification/JsText.thy ===== *)
theory JsText
  imports Prelude
begin

text \<open>
  The string operations of the language the modules use on numbers: \<open>String(n)\<close> of a
  natural number, \<open>padStart\<close>, and reading a string of digits back.  Printing and reading
  are inverse, also under zero padding, which is what makes the numbers the program hands
  out (job numbers, invoice numbers, dates) unambiguous.
\<close>

definition digit_char :: "nat \<Rightarrow> char" where
  "digit_char d = char_of (48 + d)"

definition is_digit :: "char \<Rightarrow> bool" where
  "is_digit c \<longleftrightarrow> 48 \<le> (of_char c :: nat) \<and> (of_char c :: nat) \<le> 57"

definition digit_val :: "char \<Rightarrow> nat" where
  "digit_val c = of_char c - 48"

fun show_nat :: "nat \<Rightarrow> string" where
  "show_nat n = (if n < 10 then [digit_char n] else show_nat (n div 10) @ [digit_char (n mod 10)])"

declare show_nat.simps [simp del]

definition padStart :: "nat \<Rightarrow> char \<Rightarrow> string \<Rightarrow> string" where
  "padStart w c s = replicate (w - length s) c @ s"

definition pad_nat :: "nat \<Rightarrow> nat \<Rightarrow> string" where
  "pad_nat w n = padStart w (CHR ''0'') (show_nat n)"

definition show_int :: "int \<Rightarrow> string" where
  "show_int i = (if i < 0 then CHR ''-'' # show_nat (nat (- i)) else show_nat (nat i))"

definition read_digits :: "string \<Rightarrow> nat" where
  "read_digits s = foldl (\<lambda>a c. 10 * a + digit_val c) 0 s"

definition read_nat :: "string \<Rightarrow> nat option" where
  "read_nat s = (if s \<noteq> [] \<and> list_all is_digit s then Some (read_digits s) else None)"

lemma of_char_digit [simp]: "d < 10 \<Longrightarrow> (of_char (digit_char d) :: nat) = 48 + d"
  by (simp add: digit_char_def)

lemma digit_val_char [simp]: "d < 10 \<Longrightarrow> digit_val (digit_char d) = d"
  by (simp add: digit_val_def)

lemma is_digit_char [simp]: "d < 10 \<Longrightarrow> is_digit (digit_char d)"
  by (simp add: is_digit_def)

lemma zero_char: "CHR ''0'' = digit_char 0"
  by code_simp

lemma read_digits_snoc [simp]: "read_digits (s @ [c]) = 10 * read_digits s + digit_val c"
  by (simp add: read_digits_def)

lemma read_digits_zeros [simp]: "read_digits (replicate k (CHR ''0'') @ s) = read_digits s"
  by (induction k) (simp_all add: read_digits_def zero_char)

lemma show_nat_digits: "list_all is_digit (show_nat n)"
  by (induction n rule: show_nat.induct) (subst show_nat.simps, auto)

lemma show_nat_nonempty [simp]: "show_nat n \<noteq> []"
  by (subst show_nat.simps) simp

lemma read_digits_show [simp]: "read_digits (show_nat n) = n"
proof (induction n rule: show_nat.induct)
  case (1 n)
  show ?case
  proof (cases "n < 10")
    case True
    then show ?thesis by (simp add: show_nat.simps read_digits_def)
  next
    case False
    then show ?thesis using 1 by (simp add: show_nat.simps [of n])
  qed
qed

lemma read_show_nat: "read_nat (show_nat n) = Some n"
  using show_nat_digits by (simp add: read_nat_def)

lemma list_all_replicate: "P c \<Longrightarrow> list_all P (replicate k c)"
  by (induction k) simp_all

lemma pad_nat_digits: "list_all is_digit (pad_nat w n)"
  using show_nat_digits [of n] by (simp add: pad_nat_def padStart_def zero_char list_all_replicate)

lemma pad_nat_nonempty [simp]: "pad_nat w n \<noteq> []"
  by (simp add: pad_nat_def padStart_def)

lemma read_digits_pad [simp]: "read_digits (pad_nat w n) = n"
  by (simp add: pad_nat_def padStart_def)

lemma read_pad_nat: "read_nat (pad_nat w n) = Some n"
  using pad_nat_digits by (simp add: read_nat_def)

lemma pad_nat_inj [simp]: "pad_nat w m = pad_nat w n \<longleftrightarrow> m = n"
  using read_digits_pad by metis

lemma length_show_nat_le: "n < 10 ^ w \<Longrightarrow> 0 < w \<Longrightarrow> length (show_nat n) \<le> w"
proof (induction w arbitrary: n)
  case 0
  then show ?case by simp
next
  case (Suc w)
  show ?case
  proof (cases "n < 10")
    case True
    then show ?thesis by (simp add: show_nat.simps)
  next
    case False
    with Suc.prems have "n div 10 < 10 ^ w" "0 < w"
      by (simp_all add: less_mult_imp_div_less mult.commute) (cases w, simp_all)
    then show ?thesis using False Suc.IH [of "n div 10"] by (simp add: show_nat.simps [of n])
  qed
qed

lemma length_pad_nat: "n < 10 ^ w \<Longrightarrow> 0 < w \<Longrightarrow> length (pad_nat w n) = w"
  using length_show_nat_le by (simp add: pad_nat_def padStart_def)

lemma length_pad2 [simp]: "n < 100 \<Longrightarrow> length (pad_nat 2 n) = 2"
  using length_pad_nat [of n 2] by simp

lemma length_pad4 [simp]: "n < 10000 \<Longrightarrow> length (pad_nat 4 n) = 4"
  using length_pad_nat [of n 4] by simp

lemma length_pad_ge: "w \<le> length (pad_nat w n)"
  by (simp add: pad_nat_def padStart_def)

lemma digit_not_dash: "list_all is_digit s \<Longrightarrow> CHR ''-'' \<notin> set s"
  by (induction s) (auto simp: is_digit_def)

text \<open>Splitting at the first separator that the first part cannot contain.\<close>

lemma append_sep_inj:
  "c \<notin> set a \<Longrightarrow> c \<notin> set b \<Longrightarrow> a @ c # x = b @ c # y \<longleftrightarrow> a = b \<and> x = y"
proof (induction a arbitrary: b)
  case Nil
  then show ?case by (cases b) auto
next
  case (Cons z a)
  then show ?case by (cases b) auto
qed

end
