(* ===== verification/DispatchDb.thy ===== *)
theory DispatchDb
  imports JobStateMachine JsText
begin

text \<open>
  The tables the dispatch services share: jobs, drivers, trucks, driver_shifts,
  job_status_transitions, job_driver_assignments, job_number_sequences and the customer and
  vehicle directories (packages/db/src/schema), with the broadcast events in the order they
  are emitted.  A unique index of a table is a check on the insert.
\<close>

datatype service_type = Tow | Jump_start | Lockout | Tire_change | Fuel | Winch | Recovery
  | Impound | Repo | Other_service

datatype duty_class = Light | Medium | Heavy

datatype vehicle_class = Light_duty | Medium_duty | Heavy_duty | Motorcycle | Commercial | Rv
  | Unknown_class

datatype authorized_by = By_customer | By_account_contact | By_motor_club | By_police | By_other

datatype tier_enforcement = Tier_accepted | Tier_declined | Tier_pending | Tier_none

record job_row =
  job_id :: uuid
  job_tenantId :: uuid
  job_jobNumber :: string
  job_status :: job_status
  job_serviceType :: service_type
  job_dutyClass :: duty_class
  job_customerId :: "uuid option"
  job_vehicleId :: "uuid option"
  job_accountId :: "uuid option"
  job_pickupAddress :: string
  job_dropoffAddress :: "string option"
  job_authorizedBy :: authorized_by
  job_authorizedByName :: "string option"
  job_rateQuotedCents :: cents
  job_enrouteMiles :: "string option"
  job_intowMiles :: "string option"
  job_tierOffer :: "(uuid \<times> uuid) option"
  job_tierOfferEnforcementStatus :: tier_enforcement
  job_notes :: "string option"
  job_cancelledReason :: "string option"
  job_assignedDriverId :: "uuid option"
  job_assignedTruckId :: "uuid option"
  job_assignedShiftId :: "uuid option"
  job_assignedAt :: "instant option"
  job_createdByUserId :: "uuid option"
  job_createdAt :: instant
  job_updatedAt :: instant
  job_deletedAt :: "instant option"

record driver_row =
  driver_id :: uuid
  driver_tenantId :: uuid
  driver_userId :: "uuid option"
  driver_active :: bool
  driver_deletedAt :: "instant option"

record truck_row =
  truck_id :: uuid
  truck_tenantId :: uuid
  truck_inService :: bool
  truck_deletedAt :: "instant option"

datatype shift_status = Shift_available | Shift_en_route | Shift_on_scene | Shift_in_progress
  | Shift_returning | Shift_break

record shift_row =
  shift_id :: uuid
  shift_tenantId :: uuid
  shift_driverId :: uuid
  shift_truckId :: "uuid option"
  shift_status :: shift_status
  shift_currentJobId :: "uuid option"
  shift_lastPosition :: "(string \<times> string \<times> instant) option"
  shift_startedAt :: instant
  shift_endedAt :: "instant option"
  shift_updatedAt :: instant
  shift_deletedAt :: "instant option"
  shift_createdBy :: "uuid option"

datatype transition_metadata =
    No_metadata
  | Assigned_to uuid "uuid option" uuid "uuid option"
  | Unassigned_from "uuid option"

record transition_row =
  tr_id :: uuid
  tr_tenantId :: uuid
  tr_jobId :: uuid
  tr_fromStatus :: job_status
  tr_toStatus :: job_status
  tr_actorUserId :: uuid
  tr_reason :: "string option"
  tr_metadata :: transition_metadata

record crew_row =
  crew_id :: uuid
  crew_tenantId :: uuid
  crew_jobId :: uuid
  crew_driverId :: uuid
  crew_role :: string

record customer_row =
  customer_id :: uuid
  customer_tenantId :: uuid
  customer_deletedAt :: "instant option"

record vehicle_row =
  vehicle_id :: uuid
  vehicle_tenantId :: uuid
  vehicle_vehicleClass :: vehicle_class
  vehicle_deletedAt :: "instant option"

record job_sequence_row =
  jseq_tenantId :: uuid
  jseq_dayKey :: string
  jseq_lastSeq :: nat

datatype dispatch_event =
    JOB_CREATED uuid
  | JOB_ASSIGNED uuid uuid "uuid option" uuid "uuid option"
  | JOB_UNASSIGNED uuid "uuid option" "string option"
  | JOB_STATUS_CHANGED uuid job_status job_status
  | JOB_DUTY_CLASS_CHANGED uuid duty_class
  | DRIVER_SHIFT_STARTED uuid uuid "uuid option"
  | DRIVER_SHIFT_ENDED uuid uuid
  | DRIVER_STATUS_CHANGED uuid uuid shift_status
  | DRIVER_LOCATION_CHANGED uuid uuid string string

record dispatch_db =
  jobs :: "job_row list"
  drivers :: "driver_row list"
  trucks :: "truck_row list"
  driverShifts :: "shift_row list"
  jobStatusTransitions :: "transition_row list"
  jobDriverAssignments :: "crew_row list"
  customers :: "customer_row list"
  vehicles :: "vehicle_row list"
  jobNumberSequences :: "job_sequence_row list"
  events :: "(uuid \<times> dispatch_event) list"

definition emit :: "uuid \<Rightarrow> dispatch_event \<Rightarrow> dispatch_db \<Rightarrow> dispatch_db" where
  "emit t e db = db\<lparr>events := events db @ [(t, e)]\<rparr>"

text \<open>The row predicates of the queries, row-level security included.\<close>

definition live_job :: "uuid \<Rightarrow> uuid \<Rightarrow> job_row \<Rightarrow> bool" where
  "live_job t i j \<longleftrightarrow> job_tenantId j = t \<and> job_id j = i \<and> job_deletedAt j = None"

definition own_job :: "uuid \<Rightarrow> uuid \<Rightarrow> job_row \<Rightarrow> bool" where
  "own_job t i j \<longleftrightarrow> job_tenantId j = t \<and> job_id j = i"

definition live_driver :: "uuid \<Rightarrow> uuid \<Rightarrow> driver_row \<Rightarrow> bool" where
  "live_driver t i d \<longleftrightarrow> driver_tenantId d = t \<and> driver_id d = i \<and> driver_deletedAt d = None"

definition live_truck :: "uuid \<Rightarrow> uuid \<Rightarrow> truck_row \<Rightarrow> bool" where
  "live_truck t i r \<longleftrightarrow> truck_tenantId r = t \<and> truck_id r = i \<and> truck_deletedAt r = None"

definition own_shift :: "uuid \<Rightarrow> uuid \<Rightarrow> shift_row \<Rightarrow> bool" where
  "own_shift t i s \<longleftrightarrow> shift_tenantId s = t \<and> shift_id s = i"

definition live_shift :: "uuid \<Rightarrow> uuid \<Rightarrow> shift_row \<Rightarrow> bool" where
  "live_shift t i s \<longleftrightarrow> own_shift t i s \<and> shift_deletedAt s = None"

definition is_open_shift :: "shift_row \<Rightarrow> bool" where
  "is_open_shift s \<longleftrightarrow> shift_endedAt s = None \<and> shift_deletedAt s = None"

definition open_shift_of :: "uuid \<Rightarrow> uuid \<Rightarrow> shift_row \<Rightarrow> bool" where
  "open_shift_of t d s \<longleftrightarrow> shift_tenantId s = t \<and> shift_driverId s = d \<and> is_open_shift s"

definition open_shift_on :: "uuid \<Rightarrow> uuid \<Rightarrow> shift_row \<Rightarrow> bool" where
  "open_shift_on t r s \<longleftrightarrow> shift_tenantId s = t \<and> shift_truckId s = Some r \<and> is_open_shift s"

lemmas row_predicates = live_job_def own_job_def live_driver_def live_truck_def own_shift_def
  live_shift_def is_open_shift_def open_shift_of_def open_shift_on_def

text \<open>What one tenant sees of the database.\<close>

definition tenant_rows :: "uuid \<Rightarrow> dispatch_db \<Rightarrow> dispatch_db" where
  "tenant_rows t db = \<lparr>
     jobs = filter (\<lambda>r. job_tenantId r = t) (jobs db),
     drivers = filter (\<lambda>r. driver_tenantId r = t) (drivers db),
     trucks = filter (\<lambda>r. truck_tenantId r = t) (trucks db),
     driverShifts = filter (\<lambda>r. shift_tenantId r = t) (driverShifts db),
     jobStatusTransitions = filter (\<lambda>r. tr_tenantId r = t) (jobStatusTransitions db),
     jobDriverAssignments = filter (\<lambda>r. crew_tenantId r = t) (jobDriverAssignments db),
     customers = filter (\<lambda>r. customer_tenantId r = t) (customers db),
     vehicles = filter (\<lambda>r. vehicle_tenantId r = t) (vehicles db),
     jobNumberSequences = filter (\<lambda>r. jseq_tenantId r = t) (jobNumberSequences db),
     events = filter (\<lambda>e. fst e = t) (events db)\<rparr>"

end
