(* ===== verification/Calendar.thy ===== *)
theory Calendar
  imports JsText
begin

text \<open>
  The proleptic Gregorian calendar, as the Date objects of ECMAScript define it: days
  counted from 1970-01-01 and civil dates, with the proof that the two conversions are
  inverse.  Division and remainder are the flooring ones of the standard.
\<close>

section \<open>Days and civil dates\<close>

text \<open>Days in the years 0 to y-1, and the day number (from 0000-01-01) of 1970-01-01.\<close>

definition days_before_year :: "int \<Rightarrow> int" where
  "days_before_year y = 365 * y + (y + 3) div 4 - (y + 99) div 100 + (y + 399) div 400"

definition leap :: "int \<Rightarrow> bool" where
  "leap y \<longleftrightarrow> y mod 4 = 0 \<and> (y mod 100 \<noteq> 0 \<or> y mod 400 = 0)"

definition epoch_day :: int where
  "epoch_day = 719528"

definition year_of_day :: "int \<Rightarrow> int" where
  "year_of_day d = (let y = (400 * d) div 146097 in
     if days_before_year (y + 1) \<le> d then y + 1
     else if days_before_year y \<le> d then y else y - 1)"

definition month_start :: "bool \<Rightarrow> int \<Rightarrow> int" where
  "month_start lp m = (let l = (if lp then 1 else 0) in
     if m \<le> 1 then 0 else if m = 2 then 31 else if m = 3 then 59 + l else if m = 4 then 90 + l
     else if m = 5 then 120 + l else if m = 6 then 151 + l else if m = 7 then 181 + l
     else if m = 8 then 212 + l else if m = 9 then 243 + l else if m = 10 then 273 + l
     else if m = 11 then 304 + l else if m = 12 then 334 + l else 365 + l)"

definition days_in_month :: "int \<Rightarrow> int \<Rightarrow> int" where
  "days_in_month y m = month_start (leap y) (m + 1) - month_start (leap y) m"

definition month_of_yday :: "bool \<Rightarrow> int \<Rightarrow> int" where
  "month_of_yday lp k = (let s = month_start lp in
     if k < s 2 then 1 else if k < s 3 then 2 else if k < s 4 then 3 else if k < s 5 then 4
     else if k < s 6 then 5 else if k < s 7 then 6 else if k < s 8 then 7 else if k < s 9 then 8
     else if k < s 10 then 9 else if k < s 11 then 10 else if k < s 12 then 11 else 12)"

definition civil_of_day :: "int \<Rightarrow> int \<times> int \<times> int" where
  "civil_of_day n = (let d = n + epoch_day; y = year_of_day d; k = d - days_before_year y;
     m = month_of_yday (leap y) k in (y, m, k - month_start (leap y) m + 1))"

definition day_of_civil :: "int \<Rightarrow> int \<Rightarrow> int \<Rightarrow> int" where
  "day_of_civil y m d = days_before_year y + month_start (leap y) m + d - 1 - epoch_day"

definition valid_civil :: "int \<Rightarrow> int \<Rightarrow> int \<Rightarrow> bool" where
  "valid_civil y m d \<longleftrightarrow> 1 \<le> m \<and> m \<le> 12 \<and> 1 \<le> d \<and> d \<le> days_in_month y m"

lemma div_bounds:
  assumes "0 < (n::int)"
  shows "z - (n - 1) \<le> n * (z div n)" "n * (z div n) \<le> z"
  using pos_mod_bound [OF assms, of z] pos_mod_sign [OF assms, of z] mult_div_mod_eq [of n z]
  by linarith+

lemma div_step:
  assumes "0 < (n::int)"
  shows "(y + n) div n = (y + (n - 1)) div n + (if n dvd y then 1 else 0)"
proof (cases "n dvd y")
  case True
  then obtain q where q: "y = n * q" ..
  have "(n * q + (n - 1)) div n = q" using assms by (simp add: div_pos_pos_trivial)
  then show ?thesis using assms q by simp
next
  case False
  let ?r = "y mod n"
  have r: "0 < ?r" "?r < n"
    using False assms pos_mod_sign [OF assms, of y] pos_mod_bound [OF assms, of y]
    by (simp_all add: dvd_eq_mod_eq_0)
  have "y + (n - 1) = (?r - 1) + n * (y div n + 1)"
    using mult_div_mod_eq [of n y] by (simp add: distrib_left)
  then have "(y + (n - 1)) div n = ((?r - 1) + n * (y div n + 1)) div n" by (rule arg_cong)
  also have "\<dots> = y div n + 1"
  proof -
    have "0 \<le> ?r - 1" "?r - 1 < n" using r by linarith+
    then have "(?r - 1) div n = 0" by (rule div_pos_pos_trivial)
    then show ?thesis using assms by simp
  qed
  finally show ?thesis using False assms div_add_self2 [of n y] by simp
qed

lemma leap_dvd: "leap y \<longleftrightarrow> 4 dvd y \<and> (\<not> 100 dvd y \<or> 400 dvd y)"
  by (simp add: leap_def dvd_eq_mod_eq_0)

lemma year_length: "days_before_year (y + 1) = days_before_year y + (if leap y then 366 else 365)"
proof -
  have imp: "400 dvd y \<Longrightarrow> 100 dvd y" "100 dvd y \<Longrightarrow> 4 dvd y"
    using dvd_trans [of 100 400 y] dvd_trans [of 4 100 y] by simp_all
  have shift: "y + 1 + 3 = y + 4" "y + 1 + 99 = y + 100" "y + 1 + 399 = y + 400"
    "(4 - 1 :: int) = 3" "(100 - 1 :: int) = 99" "(400 - 1 :: int) = 399" by simp_all
  have s: "(y + 1 + 3) div 4 = (y + 3) div 4 + (if 4 dvd y then 1 else 0)"
    unfolding shift by (rule div_step [of 4 y, unfolded shift, OF zero_less_numeral])
  have t: "(y + 1 + 99) div 100 = (y + 99) div 100 + (if 100 dvd y then 1 else 0)"
    unfolding shift by (rule div_step [of 100 y, unfolded shift, OF zero_less_numeral])
  have u: "(y + 1 + 399) div 400 = (y + 399) div 400 + (if 400 dvd y then 1 else 0)"
    unfolding shift by (rule div_step [of 400 y, unfolded shift, OF zero_less_numeral])
  have "365 * (y + 1) + (a + (if p then 1 else 0)) - (b + (if q then 1 else 0))
      + (c + (if r then 1 else 0))
    = 365 * y + a - b + c + (if p \<and> (\<not> q \<or> r) then 366 else 365)"
    if "r \<Longrightarrow> q" "q \<Longrightarrow> p" for a b c :: int and p q r :: bool using that by auto
  from this [OF imp] show ?thesis unfolding days_before_year_def leap_dvd s t u .
qed

text \<open>\<open>days_before_year y\<close> is 365.2425 y up to less than two days.\<close>

lemma days_before_year_approx:
  "146097 * y - 396 \<le> 400 * days_before_year y" "400 * days_before_year y \<le> 146097 * y + 699"
proof -
  have *: "146097 * y - 396 \<le> 400 * (365 * y + a - b + c)
      \<and> 400 * (365 * y + a - b + c) \<le> 146097 * y + 699"
    if "y \<le> 4 * a" "4 * a \<le> y + 3" "y \<le> 100 * b" "100 * b \<le> y + 99"
      "y \<le> 400 * c" "400 * c \<le> y + 399" for a b c :: int
    using that by simp
  have "y \<le> 4 * ((y + 3) div 4)" "4 * ((y + 3) div 4) \<le> y + 3"
    using div_bounds [of 4 "y + 3"] by simp_all
  moreover have "y \<le> 100 * ((y + 99) div 100)" "100 * ((y + 99) div 100) \<le> y + 99"
    using div_bounds [of 100 "y + 99"] by simp_all
  moreover have "y \<le> 400 * ((y + 399) div 400)" "400 * ((y + 399) div 400) \<le> y + 399"
    using div_bounds [of 400 "y + 399"] by simp_all
  ultimately show "146097 * y - 396 \<le> 400 * days_before_year y"
    "400 * days_before_year y \<le> 146097 * y + 699"
    unfolding days_before_year_def using * by blast+
qed

lemma days_before_year_step: "days_before_year y < days_before_year (y + 1)"
  by (simp add: year_length)

lemma days_before_year_mono:
  assumes "a < b" shows "days_before_year a < days_before_year b"
proof -
  have "days_before_year a < days_before_year (a + 1 + int n)" for n
  proof (induction n)
    case 0
    then show ?case using days_before_year_step by simp
  next
    case (Suc n)
    then show ?case using days_before_year_step [of "a + 1 + int n"] by (simp add: algebra_simps)
  qed
  from this [of "nat (b - a - 1)"] assms show ?thesis by simp
qed

lemma year_of_day_bounds:
  "days_before_year (year_of_day d) \<le> d \<and> d < days_before_year (year_of_day d + 1)"
proof -
  define y where "y = (400 * d) div 146097"
  have y: "146097 * y \<le> 400 * d" "400 * d < 146097 * y + 146097"
    using div_bounds [of 146097 "400 * d"] unfolding y_def [symmetric] by simp_all
  have lo: "days_before_year (y - 1) \<le> d"
    using y days_before_year_approx(2) [of "y - 1"] by simp
  have hi: "d < days_before_year (y + 2)"
    using y days_before_year_approx(1) [of "y + 2"] by simp
  from lo hi show ?thesis
    unfolding year_of_day_def Let_def y_def [symmetric]
    by (auto simp: algebra_simps)
qed

lemma year_of_day_unique:
  assumes "days_before_year y \<le> d" "d < days_before_year (y + 1)"
  shows "year_of_day d = y"
proof -
  have "\<not> y < year_of_day d"
    using days_before_year_mono [of "y + 1" "year_of_day d"] assms year_of_day_bounds [of d]
    by (cases "y + 1 = year_of_day d") auto
  moreover have "\<not> year_of_day d < y"
    using days_before_year_mono [of "year_of_day d + 1" y] assms year_of_day_bounds [of d]
    by (cases "year_of_day d + 1 = y") auto
  ultimately show ?thesis by simp
qed

lemma month_of_yday_bounds:
  assumes "0 \<le> k" "k < (if lp then 366 else 365)"
  shows "1 \<le> month_of_yday lp k \<and> month_of_yday lp k \<le> 12
    \<and> month_start lp (month_of_yday lp k) \<le> k \<and> k < month_start lp (month_of_yday lp k + 1)"
  using assms by (cases lp) (auto simp: month_of_yday_def month_start_def Let_def)

lemma twelve_months: "1 \<le> m \<Longrightarrow> m \<le> (12::int) \<Longrightarrow>
    m = 1 \<or> m = 2 \<or> m = 3 \<or> m = 4 \<or> m = 5 \<or> m = 6 \<or> m = 7 \<or> m = 8 \<or> m = 9 \<or> m = 10 \<or> m = 11 \<or> m = 12"
  by presburger

lemma month_of_yday_unique:
  assumes "1 \<le> m" "m \<le> 12" "month_start lp m \<le> k" "k < month_start lp (m + 1)"
  shows "month_of_yday lp k = m"
  using twelve_months [OF assms(1,2)] assms(3,4)
  by (cases lp) (auto simp: month_of_yday_def month_start_def Let_def)

lemma day_of_civil_of_day:
  "(case civil_of_day n of (y, m, d) \<Rightarrow> day_of_civil y m d) = n"
  by (simp add: civil_of_day_def day_of_civil_def Let_def)

lemma civil_of_day_valid:
  "case civil_of_day n of (y, m, d) \<Rightarrow> valid_civil y m d"
proof -
  define d where "d = n + epoch_day"
  define y where "y = year_of_day d"
  define k where "k = d - days_before_year y"
  have k: "0 \<le> k" "k < (if leap y then 366 else 365)"
    using year_of_day_bounds [of d] year_length [of y] by (auto simp: k_def y_def)
  show ?thesis
    using month_of_yday_bounds [OF k]
    by (auto simp: civil_of_day_def Let_def valid_civil_def days_in_month_def
        d_def [symmetric] y_def [symmetric] k_def [symmetric])
qed

lemma month_start_range:
  assumes "1 \<le> m" "m \<le> 12"
  shows "0 \<le> month_start lp m" "month_start lp (m + 1) \<le> (if lp then 366 else 365)"
  using twelve_months [OF assms] by (cases lp; auto simp: month_start_def Let_def)+

lemma civil_of_day_of_civil:
  assumes "valid_civil y m d"
  shows "civil_of_day (day_of_civil y m d) = (y, m, d)"
proof -
  have m: "1 \<le> m" "m \<le> 12" "1 \<le> d" "d \<le> days_in_month y m"
    using assms by (auto simp: valid_civil_def)
  define k where "k = month_start (leap y) m + d - 1"
  have k: "month_start (leap y) m \<le> k" "k < month_start (leap y) (m + 1)"
    using m by (auto simp: k_def days_in_month_def)
  have yr: "year_of_day (days_before_year y + k) = y"
    using k month_start_range [OF m(1,2), of "leap y"] year_length [of y]
    by (intro year_of_day_unique) auto
  have "civil_of_day (day_of_civil y m d) =
      (let m' = month_of_yday (leap y) k in (y, m', k - month_start (leap y) m' + 1))"
    using yr by (simp add: civil_of_day_def day_of_civil_def k_def Let_def algebra_simps)
  also have "\<dots> = (y, m, d)"
    using month_of_yday_unique [OF m(1,2) k] by (simp add: k_def)
  finally show ?thesis .
qed

end
