(* ===== verification/Dates.thy ===== *)
theory Dates
  imports Calendar
begin

text \<open>
  Calendar dates as the modules handle them: 'YYYY-MM-DD' strings in UTC, produced by
  \<open>toISOString().slice(0, 10)\<close>, read back by \<open>Date.parse\<close>, and moved by whole days
  (impound/impound-fees.logic.ts, used by the lien, yard and storage-billing modules).
  A time value outside the range of a Date is an exception, an unparsable string NaN
  (\<^term>\<open>None\<close>).  The locale day_codec is what the clients of these functions
  rely on; it is interpreted on them at the end.
\<close>

section \<open>Dates as strings\<close>

definition day_ms :: int where
  "day_ms = 86400000"

definition max_time :: int where
  "max_time = 8640000000000000"

definition invalid_time :: exn where
  "invalid_time = RangeError ''Invalid time value''"

text \<open>\<open>toISOString().slice(0, 10)\<close>: years outside 0 to 9999 print with a sign and six digits.\<close>

definition iso_date :: "int \<Rightarrow> string" where
  "iso_date n = (case civil_of_day n of (y, m, d) \<Rightarrow>
     if 0 \<le> y \<and> y \<le> 9999
     then pad_nat 4 (nat y) @ ''-'' @ pad_nat 2 (nat m) @ ''-'' @ pad_nat 2 (nat d)
     else take 10 ((if y < 0 then ''-'' else ''+'') @ pad_nat 6 (nat (abs y)) @ ''-''
            @ pad_nat 2 (nat m) @ ''-'' @ pad_nat 2 (nat d)))"

definition toUtcDateString :: "instant \<Rightarrow> exn + string" where
  "toUtcDateString t = ensure (abs t \<le> max_time) invalid_time (Inr (iso_date (t div day_ms)))"

text \<open>\<open>Date.parse(`${s}T00:00:00.000Z`)\<close> for the YYYY-MM-DD form, the only one a date column
  yields; any other string is NaN here.\<close>

definition parse_midnight :: "string \<Rightarrow> instant option" where
  "parse_midnight s = (if length s = 10 \<and> s ! 4 = CHR ''-'' \<and> s ! 7 = CHR ''-'' then
     (case (read_nat (take 4 s), read_nat (take 2 (drop 5 s)), read_nat (drop 8 s)) of
        (Some y, Some m, Some d) \<Rightarrow>
          if valid_civil (int y) (int m) (int d)
          then Some (day_of_civil (int y) (int m) (int d) * day_ms) else None
      | _ \<Rightarrow> None) else None)"

definition addUtcDays :: "string \<Rightarrow> int \<Rightarrow> exn + string" where
  "addUtcDays s n = require (parse_midnight s) invalid_time (\<lambda>t. toUtcDateString (t + n * day_ms))"

text \<open>\<open>Math.round(x / n)\<close> of an integer quotient: halves go up.\<close>

definition js_round_div :: "int \<Rightarrow> int \<Rightarrow> int" where
  "js_round_div x n = (2 * x + n) div (2 * n)"

definition diffUtcDays :: "string \<Rightarrow> string \<Rightarrow> int option" where
  "diffUtcDays a b = (case (parse_midnight a, parse_midnight b) of
      (Some x, Some y) \<Rightarrow> Some (js_round_div (y - x) day_ms) | _ \<Rightarrow> None)"

text \<open>The days whose date has a four-digit year.\<close>

definition plain_day :: "int \<Rightarrow> bool" where
  "plain_day n \<longleftrightarrow> -719528 \<le> n \<and> n \<le> 2932896"

lemma js_round_div_mult [simp]: "0 < n \<Longrightarrow> js_round_div (k * n) n = k"
proof -
  assume "0 < n"
  then have "2 * (k * n) + n = n + k * (2 * n)" by simp
  with \<open>0 < n\<close> show ?thesis unfolding js_round_div_def by (simp only: div_mult_self1) simp
qed

lemma plain_day_year:
  assumes "plain_day n" "civil_of_day n = (y, m, d)"
  shows "0 \<le> y" "y \<le> 9999"
proof -
  have y: "y = year_of_day (n + epoch_day)"
    using assms(2) by (simp add: civil_of_day_def Let_def)
  have b: "days_before_year y \<le> n + epoch_day" "n + epoch_day < days_before_year (y + 1)"
    using year_of_day_bounds [of "n + epoch_day"] y by auto
  have n: "0 \<le> n + epoch_day" "n + epoch_day < 3652425"
    using assms(1) by (simp_all add: plain_day_def epoch_day_def)
  show "0 \<le> y"
  proof (rule ccontr)
    assume "\<not> 0 \<le> y"
    then have "days_before_year (y + 1) \<le> days_before_year 0"
      using days_before_year_mono [of "y + 1" 0] by (cases "y + 1 = 0") auto
    then show False using b(2) n(1) by (simp add: days_before_year_def)
  qed
  show "y \<le> 9999"
  proof (rule ccontr)
    assume "\<not> y \<le> 9999"
    then have "days_before_year 10000 \<le> days_before_year y"
      using days_before_year_mono [of 10000 y] by (cases "y = 10000") auto
    then show False using b(1) n(2) by (simp add: days_before_year_def)
  qed
qed

lemma days_in_month_le: "1 \<le> m \<Longrightarrow> m \<le> 12 \<Longrightarrow> days_in_month y m \<le> 31"
  using twelve_months [of m] by (auto simp: days_in_month_def month_start_def Let_def)

lemma parse_iso_date:
  assumes "plain_day n"
  shows "parse_midnight (iso_date n) = Some (n * day_ms)"
proof -
  obtain y m d where c: "civil_of_day n = (y, m, d)" by (cases "civil_of_day n") auto
  have y: "0 \<le> y" "y \<le> 9999" using plain_day_year [OF assms c] .
  have v: "valid_civil y m d" using civil_of_day_valid [of n] c by simp
  then have m: "1 \<le> m" "m \<le> 12" "1 \<le> d" "d \<le> 31"
    using days_in_month_le [of m y] by (auto simp: valid_civil_def)
  let ?Y = "pad_nat 4 (nat y)" and ?M = "pad_nat 2 (nat m)" and ?D = "pad_nat 2 (nat d)"
  have len: "length ?Y = 4" "length ?M = 2" "length ?D = 2" using y m by simp_all
  have s: "iso_date n = ?Y @ ''-'' @ ?M @ ''-'' @ ?D" using y c by (simp add: iso_date_def)
  have parts: "length (iso_date n) = 10" "iso_date n ! 4 = CHR ''-''" "iso_date n ! 7 = CHR ''-''"
    "take 4 (iso_date n) = ?Y" "take 2 (drop 5 (iso_date n)) = ?M" "drop 8 (iso_date n) = ?D"
    unfolding s using len by (simp_all add: nth_append)
  have "day_of_civil y m d = n" using day_of_civil_of_day [of n] c by simp
  then show ?thesis
    unfolding parse_midnight_def parts read_pad_nat using v y m by simp
qed

lemma iso_date_inj:
  assumes "plain_day a" "plain_day b" "iso_date a = iso_date b" shows "a = b"
proof -
  have "a * day_ms = b * day_ms"
    using parse_iso_date [OF assms(1)] parse_iso_date [OF assms(2)] assms(3) by (metis option.inject)
  then show ?thesis by (simp add: day_ms_def)
qed

lemma toUtcDateString_midnight:
  assumes "plain_day n" shows "toUtcDateString (n * day_ms) = Inr (iso_date n)"
proof -
  have "abs (n * day_ms) \<le> max_time"
    using assms by (intro abs_leI) (simp_all add: plain_day_def day_ms_def max_time_def)
  then show ?thesis by (simp add: toUtcDateString_def ensure_def day_ms_def)
qed

lemma addUtcDays_iso:
  assumes "plain_day n" "plain_day (n + k)"
  shows "addUtcDays (iso_date n) k = Inr (iso_date (n + k))"
  using toUtcDateString_midnight [OF assms(2)] parse_iso_date [OF assms(1)]
  by (simp add: addUtcDays_def require_def distrib_right)

lemma diffUtcDays_iso:
  assumes "plain_day a" "plain_day b"
  shows "diffUtcDays (iso_date a) (iso_date b) = Some (b - a)"
  using parse_iso_date assms js_round_div_mult [of day_ms "b - a"]
  by (simp add: diffUtcDays_def day_ms_def left_diff_distrib)

text \<open>An instant is on a plain day when its date string has a four-digit year.\<close>

definition plain_instant :: "instant \<Rightarrow> bool" where
  "plain_instant t \<longleftrightarrow> plain_day (t div day_ms)"

lemma toUtcDateString_plain:
  assumes "plain_instant t"
  shows "toUtcDateString t = Inr (iso_date (t div day_ms))"
proof -
  have "-719528 \<le> t div 86400000" "t div 86400000 \<le> 2932896"
    using assms by (simp_all add: plain_instant_def plain_day_def day_ms_def)
  then have "abs t \<le> max_time"
    using div_bounds [of 86400000 t] by (simp add: max_time_def)
  then show ?thesis by (simp add: toUtcDateString_def ensure_def)
qed

section \<open>What the clients of dates rely on\<close>

locale day_codec =
  fixes ok :: "int \<Rightarrow> bool" and print :: "int \<Rightarrow> string"
    and plus :: "string \<Rightarrow> int \<Rightarrow> exn + string" and diff :: "string \<Rightarrow> string \<Rightarrow> int option"
  assumes plus_print: "ok n \<Longrightarrow> ok (n + k) \<Longrightarrow> plus (print n) k = Inr (print (n + k))"
    and diff_print: "ok a \<Longrightarrow> ok b \<Longrightarrow> diff (print a) (print b) = Some (b - a)"
    and ok_between: "ok a \<Longrightarrow> ok b \<Longrightarrow> a \<le> n \<Longrightarrow> n \<le> b \<Longrightarrow> ok n"
begin

lemma print_inj: "ok a \<Longrightarrow> ok b \<Longrightarrow> print a = print b \<longleftrightarrow> a = b"
  using diff_print [of a b] diff_print [of a a] by auto

lemma distinct_prints:
  assumes "ok a" "ok b" shows "distinct (map print [a..b])"
proof -
  have "inj_on print {a..b}"
  proof (rule inj_onI)
    fix x y assume "x \<in> {a..b}" "y \<in> {a..b}" "print x = print y"
    moreover from this have "ok x" "ok y" using ok_between [OF assms] by auto
    ultimately show "x = y" using print_inj by blast
  qed
  then show ?thesis by (simp add: distinct_map)
qed

lemma diff_plus:
  "ok n \<Longrightarrow> ok (n + k) \<Longrightarrow> plus (print n) k = Inr s \<Longrightarrow> diff (print n) s = Some k"
  using plus_print diff_print by auto

lemma print_in_range:
  assumes "ok a" "ok b" "ok n" shows "print n \<in> print ` {a..b} \<longleftrightarrow> a \<le> n \<and> n \<le> b"
proof
  assume "print n \<in> print ` {a..b}"
  then obtain x where x: "a \<le> x" "x \<le> b" "print n = print x" by auto
  then have "n = x" using ok_between [OF assms(1,2) x(1,2)] print_inj assms(3) by blast
  then show "a \<le> n \<and> n \<le> b" using x by simp
qed auto

end

interpretation utc: day_codec plain_day iso_date addUtcDays diffUtcDays
  by unfold_locales (auto simp: addUtcDays_iso diffUtcDays_iso plain_day_def)

end
