(* ===== verification/Jobs.thy ===== *)
theory Jobs
  imports DispatchDb Dates
begin

text \<open>
  jobs/jobs.service.ts: creation of a job with its day-bucketed number, crew membership,
  duty class, assignment, unassignment and the generic status transition, each the whole
  handler (guards in source order, every table it writes, the events it emits).
  \<open>now\<close> is the instant of the handler and the fresh uuids it draws are arguments.
\<close>

definition job_not_found :: exn where
  "job_not_found = NotFound ''Job not found''"

definition bad_transition :: "string \<Rightarrow> exn" where
  "bad_transition m = BadRequest ''INVALID_STATE_TRANSITION'' m"

section \<open>Creation\<close>

text \<open>packages/shared/src/capacity/duty-class.ts.\<close>

fun VEHICLE_CLASS_TO_DUTY :: "vehicle_class \<Rightarrow> duty_class" where
  "VEHICLE_CLASS_TO_DUTY Light_duty = Light"
| "VEHICLE_CLASS_TO_DUTY Motorcycle = Light"
| "VEHICLE_CLASS_TO_DUTY Unknown_class = Light"
| "VEHICLE_CLASS_TO_DUTY Medium_duty = Medium"
| "VEHICLE_CLASS_TO_DUTY Commercial = Medium"
| "VEHICLE_CLASS_TO_DUTY Rv = Medium"
| "VEHICLE_CLASS_TO_DUTY Heavy_duty = Heavy"

definition deriveJobDutyClass :: "service_type \<Rightarrow> vehicle_class option \<Rightarrow> duty_class" where
  "deriveJobDutyClass service vc =
     (let by_service = (if service = Recovery \<or> service = Winch then Medium else Light) in
      case vc of None \<Rightarrow> by_service
      | Some c \<Rightarrow> (let mapped = VEHICLE_CLASS_TO_DUTY c in
          if mapped \<noteq> Light then mapped
          else if c \<noteq> Unknown_class then Light else by_service))"

definition formatDayKey :: "instant \<Rightarrow> string" where
  "formatDayKey t = (case civil_of_day (t div day_ms) of (y, m, d) \<Rightarrow>
     show_int y @ pad_nat 2 (nat m) @ pad_nat 2 (nat d))"

definition job_number_text :: "string \<Rightarrow> nat \<Rightarrow> string" where
  "job_number_text dayKey seq = dayKey @ ''-'' @ pad_nat 4 seq"

text \<open>\<open>INSERT ... ON CONFLICT (tenant_id, day_key) DO UPDATE SET last_seq = last_seq + 1
  RETURNING last_seq\<close>.\<close>

definition bump_job_sequence ::
    "uuid \<Rightarrow> string \<Rightarrow> job_sequence_row list \<Rightarrow> nat \<times> job_sequence_row list" where
  "bump_job_sequence t key tbl =
     (let P = (\<lambda>r. jseq_tenantId r = t \<and> jseq_dayKey r = key) in
      case select_first P tbl of
        None \<Rightarrow> (1, insert_into \<lparr>jseq_tenantId = t, jseq_dayKey = key, jseq_lastSeq = 1\<rparr> tbl)
      | Some r \<Rightarrow> (jseq_lastSeq r + 1,
          update_where P (\<lambda>q. q\<lparr>jseq_lastSeq := jseq_lastSeq q + 1\<rparr>) tbl))"

definition allocateJobNumber :: "uuid \<Rightarrow> instant \<Rightarrow> dispatch_db \<Rightarrow> string \<times> dispatch_db" where
  "allocateJobNumber t when db =
     (let dayKey = formatDayKey when; (seq, tbl) = bump_job_sequence t dayKey (jobNumberSequences db)
      in (job_number_text dayKey seq, db\<lparr>jobNumberSequences := tbl\<rparr>))"

text \<open>The unique index on (tenant_id, job_number).\<close>

definition number_taken :: "uuid \<Rightarrow> string \<Rightarrow> job_row list \<Rightarrow> bool" where
  "number_taken t number js \<longleftrightarrow> (\<exists>j \<in> set js. job_tenantId j = t \<and> job_jobNumber j = number)"

record create_input =
  ci_customerId :: uuid
  ci_vehicleId :: uuid
  ci_accountId :: "uuid option"
  ci_serviceType :: service_type
  ci_pickupAddress :: string
  ci_dropoffAddress :: "string option"
  ci_authorizedBy :: authorized_by
  ci_authorizedByName :: "string option"
  ci_notes :: "string option"

text \<open>What \<open>create\<close> asks of its read-only collaborators: the road miles of the directions
  service and the resolution of tierOfferEnforcement.resolveForJob, \<open>None\<close> for
  'no_active_offer'.\<close>

type_synonym miles = "string option \<times> string option"
type_synonym tier_resolution = "(tier_enforcement \<times> uuid \<times> uuid) option"

definition create_job :: "ctx \<Rightarrow> instant \<Rightarrow> uuid \<Rightarrow> create_input \<Rightarrow> miles \<Rightarrow> tier_resolution \<Rightarrow>
    dispatch_db \<Rightarrow> exn + job_row \<times> dispatch_db" where
  "create_job ctx now newId inp miles offer db =
    (let t = ctx_tenantId ctx in
     require (select_first (\<lambda>c. customer_tenantId c = t \<and> customer_id c = ci_customerId inp
         \<and> customer_deletedAt c = None) (customers db)) (NotFound ''Customer not found'') (\<lambda>_.
     require (select_first (\<lambda>v. vehicle_tenantId v = t \<and> vehicle_id v = ci_vehicleId inp
         \<and> vehicle_deletedAt v = None) (vehicles db)) (NotFound ''Vehicle not found'') (\<lambda>vehicle.
     (let (number, db1) = allocateJobNumber t now db;
          row = \<lparr>job_id = newId, job_tenantId = t, job_jobNumber = number, job_status = Job_new,
            job_serviceType = ci_serviceType inp,
            job_dutyClass = deriveJobDutyClass (ci_serviceType inp) (Some (vehicle_vehicleClass vehicle)),
            job_customerId = Some (ci_customerId inp), job_vehicleId = Some (ci_vehicleId inp),
            job_accountId = ci_accountId inp, job_pickupAddress = ci_pickupAddress inp,
            job_dropoffAddress = ci_dropoffAddress inp, job_authorizedBy = ci_authorizedBy inp,
            job_authorizedByName = ci_authorizedByName inp, job_rateQuotedCents = 0,
            job_enrouteMiles = fst miles, job_intowMiles = snd miles,
            job_tierOffer = map_option snd offer,
            job_tierOfferEnforcementStatus = (case offer of None \<Rightarrow> Tier_none | Some (k, _) \<Rightarrow> k),
            job_notes = ci_notes inp, job_cancelledReason = None,
            job_assignedDriverId = None, job_assignedTruckId = None, job_assignedShiftId = None,
            job_assignedAt = None, job_createdByUserId = Some (ctx_userId ctx),
            job_createdAt = now, job_updatedAt = now, job_deletedAt = None\<rparr>
      in ensure (\<not> number_taken t number (jobs db1))
           (Failure ''jobs_tenant_job_number_unique'')
           (Inr (row, emit t (JOB_CREATED newId)
              (db1\<lparr>jobs := insert_into row (jobs db1)\<rparr>)))))))"

section \<open>Crew and duty class\<close>

definition addDriver :: "ctx \<Rightarrow> uuid \<Rightarrow> uuid \<Rightarrow> uuid \<Rightarrow> string option \<Rightarrow> dispatch_db \<Rightarrow>
    exn + job_row \<times> dispatch_db" where
  "addDriver ctx newId jobId driverId role db =
    (let t = ctx_tenantId ctx in
     require (select_first (live_job t jobId) (jobs db)) job_not_found (\<lambda>job.
     require (select_first (live_driver t driverId) (drivers db)) (NotFound ''Driver not found'') (\<lambda>_.
     (case select_first (\<lambda>c. crew_tenantId c = t \<and> crew_jobId c = jobId \<and> crew_driverId c = driverId)
          (jobDriverAssignments db) of
        Some _ \<Rightarrow> Inr (job, db)
      | None \<Rightarrow> Inr (job, db\<lparr>jobDriverAssignments := insert_into
          \<lparr>crew_id = newId, crew_tenantId = t, crew_jobId = jobId, crew_driverId = driverId,
           crew_role = (case role of None \<Rightarrow> ''support'' | Some r \<Rightarrow> r)\<rparr>
          (jobDriverAssignments db)\<rparr>)))))"

definition setDutyClass :: "ctx \<Rightarrow> instant \<Rightarrow> uuid \<Rightarrow> duty_class \<Rightarrow> dispatch_db \<Rightarrow>
    exn + job_row \<times> dispatch_db" where
  "setDutyClass ctx now jobId dutyClass db =
    (let t = ctx_tenantId ctx;
         (updated, tbl) = update_returning (live_job t jobId)
           (\<lambda>j. j\<lparr>job_dutyClass := dutyClass, job_updatedAt := now\<rparr>) (jobs db)
     in require updated job_not_found (\<lambda>row.
          Inr (row, emit t (JOB_DUTY_CLASS_CHANGED jobId dutyClass) (db\<lparr>jobs := tbl\<rparr>))))"

section \<open>Assignment\<close>

record assign_input =
  ai_driverId :: uuid
  ai_truckId :: "uuid option"
  ai_shiftId :: "uuid option"

text \<open>Lines 754 to 771: the shift of the input, else the driver's open shift.\<close>

definition resolve_shift :: "uuid \<Rightarrow> assign_input \<Rightarrow> dispatch_db \<Rightarrow> exn + uuid" where
  "resolve_shift t inp db = (case ai_shiftId inp of
      Some s \<Rightarrow> Inr s
    | None \<Rightarrow> require (select_first (open_shift_of t (ai_driverId inp)) (driverShifts db))
        (Conflict ''DRIVER_OFF_SHIFT'' ''Driver has no active shift'') (\<lambda>s. Inr (shift_id s)))"

definition check_truck :: "uuid \<Rightarrow> uuid option \<Rightarrow> dispatch_db \<Rightarrow> exn + unit" where
  "check_truck t truckId db = (case truckId of
      None \<Rightarrow> Inr ()
    | Some i \<Rightarrow> require (select_first (live_truck t i) (trucks db)) (NotFound ''Truck not found'')
        (\<lambda>truck. ensure (truck_inService truck)
           (Conflict ''TRUCK_NOT_IN_SERVICE'' ''Truck is out of service'') (Inr ())))"

text \<open>Lines 829 to 850: clear the previous driver's open shifts, point the new shift here.\<close>

definition move_shifts ::
    "uuid \<Rightarrow> instant \<Rightarrow> uuid \<Rightarrow> uuid option \<Rightarrow> uuid \<Rightarrow> uuid \<Rightarrow> shift_row list \<Rightarrow> shift_row list" where
  "move_shifts t now jobId previous driverId shiftId tbl =
    (let cleared = (case previous of
         Some p \<Rightarrow> if p \<noteq> driverId
           then update_where (open_shift_of t p)
             (\<lambda>s. s\<lparr>shift_currentJobId := None, shift_updatedAt := now\<rparr>) tbl
           else tbl
       | None \<Rightarrow> tbl)
     in update_where (own_shift t shiftId)
          (\<lambda>s. s\<lparr>shift_currentJobId := Some jobId, shift_status := Shift_en_route,
            shift_updatedAt := now\<rparr>) cleared)"

text \<open>Lines 811 to 890: the writes, once every guard has passed.\<close>

definition assigned_row :: "instant \<Rightarrow> assign_input \<Rightarrow> uuid \<Rightarrow> job_row \<Rightarrow> job_row" where
  "assigned_row now inp shiftId j = j\<lparr>job_status := Job_dispatched,
     job_assignedDriverId := Some (ai_driverId inp), job_assignedTruckId := ai_truckId inp,
     job_assignedShiftId := Some shiftId, job_assignedAt := Some now, job_updatedAt := now\<rparr>"

definition assign_writes ::
    "ctx \<Rightarrow> instant \<Rightarrow> uuid \<Rightarrow> assign_input \<Rightarrow> uuid \<Rightarrow> job_row \<Rightarrow> dispatch_db \<Rightarrow> dispatch_db" where
  "assign_writes ctx now newId inp shiftId job db =
    (let t = ctx_tenantId ctx; jobId = job_id job; previous = job_assignedDriverId job;
         db1 = db\<lparr>
           jobs := update_where (own_job t jobId) (assigned_row now inp shiftId) (jobs db),
           driverShifts := move_shifts t now jobId previous (ai_driverId inp) shiftId
             (driverShifts db)\<rparr>;
         assigned = JOB_ASSIGNED jobId (ai_driverId inp) (ai_truckId inp) shiftId previous
     in if job_status job \<noteq> Job_dispatched
        then emit t (JOB_STATUS_CHANGED jobId (job_status job) Job_dispatched)
          (emit t assigned (db1\<lparr>jobStatusTransitions := insert_into
             \<lparr>tr_id = newId, tr_tenantId = t, tr_jobId = jobId,
              tr_fromStatus = job_status job, tr_toStatus = Job_dispatched,
              tr_actorUserId = ctx_userId ctx, tr_reason = None,
              tr_metadata = Assigned_to (ai_driverId inp) (ai_truckId inp) shiftId previous\<rparr>
             (jobStatusTransitions db1)\<rparr>))
        else emit t assigned db1)"

definition assign :: "ctx \<Rightarrow> instant \<Rightarrow> uuid \<Rightarrow> uuid \<Rightarrow> assign_input \<Rightarrow> dispatch_db \<Rightarrow>
    exn + job_row \<times> dispatch_db" where
  "assign ctx now newId jobId inp db =
    (let t = ctx_tenantId ctx in
     require (select_first (live_job t jobId) (jobs db)) job_not_found (\<lambda>job.
     ensure (\<not> isTerminal (job_status job))
       (bad_transition (''Cannot assign a '' @ job_status_text (job_status job) @ '' job'')) (
     ensure (job_status job = Job_new \<or> job_status job = Job_dispatched)
       (bad_transition (''Cannot reassign a job in '' @ quoted (job_status_text (job_status job))
          @ '' state. Unassign first.'')) (
     require (select_first (live_driver t (ai_driverId inp)) (drivers db))
       (NotFound ''Driver not found'') (\<lambda>driver.
     ensure (driver_active driver) (Conflict ''DRIVER_OFF_SHIFT'' ''Driver is not active'') (
     attempt (resolve_shift t inp db) (\<lambda>shiftId.
     attempt (check_truck t (ai_truckId inp) db) (\<lambda>_.
     attempt (if job_status job \<noteq> Job_dispatched
              then assertCanTransition (job_status job) Job_dispatched else Inr ()) (\<lambda>_.
     require (select_first (own_job t jobId) (jobs db)) job_not_found (\<lambda>row.
       Inr (assigned_row now inp shiftId row,
            assign_writes ctx now newId inp shiftId job db)))))))))))"

definition unassign :: "ctx \<Rightarrow> instant \<Rightarrow> uuid \<Rightarrow> uuid \<Rightarrow> string option \<Rightarrow> dispatch_db \<Rightarrow>
    exn + job_row \<times> dispatch_db" where
  "unassign ctx now newId jobId reason db =
    (let t = ctx_tenantId ctx in
     require (select_first (live_job t jobId) (jobs db)) job_not_found (\<lambda>job.
     ensure (job_status job = Job_dispatched)
       (bad_transition (''Cannot unassign a job in '' @ quoted (job_status_text (job_status job))
          @ '' state'')) (
     (let (updated, tbl) = update_returning (own_job t jobId)
            (\<lambda>j. j\<lparr>job_status := Job_new, job_assignedDriverId := None,
               job_assignedTruckId := None, job_assignedShiftId := None,
               job_assignedAt := None, job_updatedAt := now\<rparr>) (jobs db);
          previous = job_assignedDriverId job
      in require updated job_not_found (\<lambda>row.
        (let shifts = (case previous of None \<Rightarrow> driverShifts db
               | Some p \<Rightarrow> update_where (open_shift_of t p)
                   (\<lambda>s. s\<lparr>shift_currentJobId := None, shift_status := Shift_available,
                      shift_updatedAt := now\<rparr>) (driverShifts db));
             db1 = db\<lparr>jobs := tbl, driverShifts := shifts,
               jobStatusTransitions := insert_into
                 \<lparr>tr_id = newId, tr_tenantId = t, tr_jobId = jobId,
                  tr_fromStatus = Job_dispatched, tr_toStatus = Job_new,
                  tr_actorUserId = ctx_userId ctx, tr_reason = reason,
                  tr_metadata = Unassigned_from previous\<rparr> (jobStatusTransitions db)\<rparr>
         in Inr (row, emit t (JOB_STATUS_CHANGED jobId Job_dispatched Job_new)
              (emit t (JOB_UNASSIGNED jobId previous reason) db1))))))))"

section \<open>Status transitions\<close>

text \<open>Lines 1015 to 1035: what a transition does to the shift the job is assigned to.\<close>

definition sync_shift ::
    "uuid \<Rightarrow> instant \<Rightarrow> uuid option \<Rightarrow> job_status \<Rightarrow> shift_row list \<Rightarrow> shift_row list" where
  "sync_shift t now assigned toStatus tbl = (case assigned of
      None \<Rightarrow> tbl
    | Some s \<Rightarrow>
        if isTerminal toStatus then update_where (own_shift t s)
          (\<lambda>r. r\<lparr>shift_currentJobId := None, shift_status := Shift_available,
             shift_updatedAt := now\<rparr>) tbl
        else if toStatus = Job_enroute \<or> toStatus = Job_on_scene \<or> toStatus = Job_in_progress
        then update_where (own_shift t s)
          (\<lambda>r. r\<lparr>shift_status := (if toStatus = Job_enroute then Shift_en_route
             else if toStatus = Job_on_scene then Shift_on_scene else Shift_in_progress),
             shift_updatedAt := now\<rparr>) tbl
        else tbl)"

definition transition_updates ::
    "instant \<Rightarrow> job_status \<Rightarrow> string option \<Rightarrow> job_row \<Rightarrow> job_row" where
  "transition_updates now toStatus reason j =
    (let j1 = j\<lparr>job_status := toStatus, job_updatedAt := now\<rparr>;
         j2 = (if toStatus = Job_cancelled \<and> reason \<noteq> None \<and> reason \<noteq> Some ''''
               then j1\<lparr>job_cancelledReason := reason\<rparr> else j1)
     in if isTerminal toStatus then j2\<lparr>job_assignedAt := None\<rparr> else j2)"

definition transition :: "ctx \<Rightarrow> instant \<Rightarrow> uuid \<Rightarrow> uuid \<Rightarrow> job_status \<Rightarrow> string option \<Rightarrow>
    dispatch_db \<Rightarrow> exn + job_row \<times> dispatch_db" where
  "transition ctx now newId jobId toStatus reason db =
    (let t = ctx_tenantId ctx in
     require (select_first (live_job t jobId) (jobs db)) job_not_found (\<lambda>job.
     attempt (assertCanTransition (job_status job) toStatus) (\<lambda>_.
     (let (updated, tbl) = update_returning (own_job t jobId)
            (transition_updates now toStatus reason) (jobs db)
      in require updated job_not_found (\<lambda>row.
        (let db1 = db\<lparr>jobs := tbl,
               driverShifts := sync_shift t now (job_assignedShiftId job) toStatus (driverShifts db),
               jobStatusTransitions := insert_into
                 \<lparr>tr_id = newId, tr_tenantId = t, tr_jobId = jobId,
                  tr_fromStatus = job_status job, tr_toStatus = toStatus,
                  tr_actorUserId = ctx_userId ctx, tr_reason = reason,
                  tr_metadata = No_metadata\<rparr> (jobStatusTransitions db)\<rparr>
         in Inr (row, emit t (JOB_STATUS_CHANGED jobId (job_status job) toStatus) db1)))))))"

definition cancel_job :: "ctx \<Rightarrow> instant \<Rightarrow> uuid \<Rightarrow> uuid \<Rightarrow> string \<Rightarrow> dispatch_db \<Rightarrow>
    exn + job_row \<times> dispatch_db" where
  "cancel_job ctx now newId jobId reason db =
     transition ctx now newId jobId Job_cancelled (Some reason) db"

end
