(* ===== verification/Shifts.thy ===== *)
theory Shifts
  imports DispatchDb
begin

text \<open>
  dispatch/drivers.service.ts: clocking a driver on and off, and the status and position a
  shift reports.  Drivers may act on their own shift only.
\<close>

definition resolveSelfDriverId :: "uuid \<Rightarrow> uuid \<Rightarrow> dispatch_db \<Rightarrow> exn + uuid" where
  "resolveSelfDriverId t userId db =
     require (select_first (\<lambda>d. driver_tenantId d = t \<and> driver_userId d = Some userId
         \<and> driver_deletedAt d = None) (drivers db))
       (Forbidden ''FORBIDDEN'' ''No driver record is linked to this user'')
       (\<lambda>d. Inr (driver_id d))"

text \<open>The guard the four operations share: a caller with the driver role must be the driver.\<close>

definition own_driver_only :: "ctx \<Rightarrow> uuid \<Rightarrow> string \<Rightarrow> dispatch_db \<Rightarrow> exn + unit" where
  "own_driver_only ctx driverId msg db =
     (if ctx_role ctx = Some Driver
      then attempt (resolveSelfDriverId (ctx_tenantId ctx) (ctx_userId ctx) db) (\<lambda>self.
        ensure (self = driverId) (Forbidden ''FORBIDDEN'' msg) (Inr ()))
      else Inr ())"

definition truck_free :: "uuid \<Rightarrow> uuid option \<Rightarrow> dispatch_db \<Rightarrow> exn + unit" where
  "truck_free t truckId db = (case truckId of
      None \<Rightarrow> Inr ()
    | Some i \<Rightarrow> require (select_first (live_truck t i) (trucks db)) (NotFound ''Truck not found'')
        (\<lambda>truck. ensure (truck_inService truck)
           (Conflict ''TRUCK_NOT_IN_SERVICE'' ''Truck is out of service'')
        (ensure (select_first (open_shift_on t i) (driverShifts db) = None)
           (Conflict ''TRUCK_ALREADY_ASSIGNED'' ''Truck is already on an active shift'')
           (Inr ()))))"

definition startShift :: "ctx \<Rightarrow> instant \<Rightarrow> uuid \<Rightarrow> uuid \<Rightarrow> uuid option \<Rightarrow> dispatch_db \<Rightarrow>
    exn + shift_row \<times> dispatch_db" where
  "startShift ctx now newId driverId truckId db =
    (let t = ctx_tenantId ctx in
     attempt (own_driver_only ctx driverId ''Drivers may only start their own shift'' db) (\<lambda>_.
     require (select_first (live_driver t driverId) (drivers db)) (NotFound ''Driver not found'')
       (\<lambda>driver.
     ensure (driver_active driver) (Conflict ''DRIVER_OFF_SHIFT'' ''Driver is not active'') (
     ensure (select_first (open_shift_of t driverId) (driverShifts db) = None)
       (Conflict ''DRIVER_ALREADY_ON_SHIFT'' ''Driver already has an active shift'') (
     attempt (truck_free t truckId db) (\<lambda>_.
     (let row = \<lparr>shift_id = newId, shift_tenantId = t, shift_driverId = driverId,
            shift_truckId = truckId, shift_status = Shift_available, shift_currentJobId = None,
            shift_lastPosition = None, shift_startedAt = now, shift_endedAt = None,
            shift_updatedAt = now, shift_deletedAt = None,
            shift_createdBy = (if ctx_role ctx = None \<or> ctx_role ctx = Some Driver then None
              else Some (ctx_userId ctx))\<rparr>
      in Inr (row, emit t (DRIVER_SHIFT_STARTED newId driverId truckId)
           (db\<lparr>driverShifts := insert_into row (driverShifts db)\<rparr>)))))))))"

definition endShift :: "ctx \<Rightarrow> instant \<Rightarrow> uuid \<Rightarrow> dispatch_db \<Rightarrow> exn + shift_row \<times> dispatch_db" where
  "endShift ctx now shiftId db =
    (let t = ctx_tenantId ctx in
     require (select_first (live_shift t shiftId) (driverShifts db)) (NotFound ''Shift not found'')
       (\<lambda>existing.
     attempt (own_driver_only ctx (shift_driverId existing)
       ''Drivers may only end their own shift'' db) (\<lambda>_.
     ensure (shift_endedAt existing = None) (Conflict ''CONFLICT'' ''Shift already ended'') (
     ensure (shift_currentJobId existing = None) (Conflict ''CONFLICT''
       ''Cannot end a shift with an in-flight job. Reassign or complete first.'') (
     (let (updated, tbl) = update_returning (own_shift t shiftId)
            (\<lambda>s. s\<lparr>shift_endedAt := Some now, shift_updatedAt := now\<rparr>) (driverShifts db)
      in require updated (Failure ''update driver_shifts .. returning() yielded no row'') (\<lambda>row.
         Inr (row, emit t (DRIVER_SHIFT_ENDED shiftId (shift_driverId row))
           (db\<lparr>driverShifts := tbl\<rparr>)))))))))"

definition active_shift :: "uuid \<Rightarrow> uuid \<Rightarrow> dispatch_db \<Rightarrow> (shift_row \<Rightarrow> exn + 'a) \<Rightarrow> exn + 'a" where
  "active_shift t shiftId db k =
     require (select_first (live_shift t shiftId) (driverShifts db))
       (NotFound ''Active shift not found'') (\<lambda>existing.
     ensure (shift_endedAt existing = None) (NotFound ''Active shift not found'') (k existing))"

definition updateShiftStatus :: "ctx \<Rightarrow> instant \<Rightarrow> uuid \<Rightarrow> shift_status \<Rightarrow> dispatch_db \<Rightarrow>
    exn + shift_row \<times> dispatch_db" where
  "updateShiftStatus ctx now shiftId st db =
    (let t = ctx_tenantId ctx in
     active_shift t shiftId db (\<lambda>existing.
     attempt (own_driver_only ctx (shift_driverId existing)
       ''Drivers may only update their own shift'' db) (\<lambda>_.
     (let (updated, tbl) = update_returning (own_shift t shiftId)
            (\<lambda>s. s\<lparr>shift_status := st, shift_updatedAt := now\<rparr>) (driverShifts db)
      in require updated (Failure ''update driver_shifts .. returning() yielded no row'') (\<lambda>row.
         Inr (row, emit t (DRIVER_STATUS_CHANGED shiftId (shift_driverId row) st)
           (db\<lparr>driverShifts := tbl\<rparr>)))))))"

text \<open>The coordinates are kept as the text \<open>String(lat)\<close>, \<open>String(lng)\<close> the columns hold.\<close>

definition updateShiftLocation :: "ctx \<Rightarrow> instant \<Rightarrow> uuid \<Rightarrow> string \<Rightarrow> string \<Rightarrow> dispatch_db \<Rightarrow>
    exn + shift_row \<times> dispatch_db" where
  "updateShiftLocation ctx now shiftId lat lng db =
    (let t = ctx_tenantId ctx in
     active_shift t shiftId db (\<lambda>existing.
     attempt (own_driver_only ctx (shift_driverId existing)
       ''Drivers may only update their own shift'' db) (\<lambda>_.
     (let (updated, tbl) = update_returning (own_shift t shiftId)
            (\<lambda>s. s\<lparr>shift_lastPosition := Some (lat, lng, now), shift_updatedAt := now\<rparr>)
            (driverShifts db)
      in require updated (Failure ''update driver_shifts .. returning() yielded no row'') (\<lambda>row.
         Inr (row, emit t (DRIVER_LOCATION_CHANGED shiftId (shift_driverId row) lat lng)
           (db\<lparr>driverShifts := tbl\<rparr>)))))))"

end
