(* ===== verification/Dispatch.thy ===== *)
theory Dispatch
  imports Jobs Shifts
begin

text \<open>
  The dispatch services run together: every operation of jobs.service.ts and
  drivers.service.ts as one operation type, their effect on the shared tables, the states
  reachable from an empty board, and what holds in all of them (the status of a job is the
  end of its transition log, job numbers never collide, a driver has one open shift).  The
  last section shows that tenants do not see each other's work.
\<close>

datatype dispatch_op =
    CreateJob ctx instant uuid create_input miles tier_resolution
  | AddDriver ctx uuid uuid uuid "string option"
  | SetDutyClass ctx instant uuid duty_class
  | Assign ctx instant uuid uuid assign_input
  | Unassign ctx instant uuid uuid "string option"
  | Transition ctx instant uuid uuid job_status "string option"
  | StartShift ctx instant uuid uuid "uuid option"
  | EndShift ctx instant uuid
  | UpdateShiftStatus ctx instant uuid shift_status
  | UpdateShiftLocation ctx instant uuid string string

fun exec :: "dispatch_op \<Rightarrow> dispatch_db \<Rightarrow> dispatch_db" where
  "exec (CreateJob c now i inp m off) db = committed db (create_job c now i inp m off db)"
| "exec (AddDriver c i j d r) db = committed db (addDriver c i j d r db)"
| "exec (SetDutyClass c now j k) db = committed db (setDutyClass c now j k db)"
| "exec (Assign c now i j inp) db = committed db (assign c now i j inp db)"
| "exec (Unassign c now i j r) db = committed db (unassign c now i j r db)"
| "exec (Transition c now i j s r) db = committed db (transition c now i j s r db)"
| "exec (StartShift c now i d k) db = committed db (startShift c now i d k db)"
| "exec (EndShift c now i) db = committed db (endShift c now i db)"
| "exec (UpdateShiftStatus c now i s) db = committed db (updateShiftStatus c now i s db)"
| "exec (UpdateShiftLocation c now i x y) db = committed db (updateShiftLocation c now i x y db)"

fun caller :: "dispatch_op \<Rightarrow> uuid" where
  "caller (CreateJob c _ _ _ _ _) = ctx_tenantId c"
| "caller (AddDriver c _ _ _ _) = ctx_tenantId c"
| "caller (SetDutyClass c _ _ _) = ctx_tenantId c"
| "caller (Assign c _ _ _ _) = ctx_tenantId c"
| "caller (Unassign c _ _ _ _) = ctx_tenantId c"
| "caller (Transition c _ _ _ _ _) = ctx_tenantId c"
| "caller (StartShift c _ _ _ _) = ctx_tenantId c"
| "caller (EndShift c _ _) = ctx_tenantId c"
| "caller (UpdateShiftStatus c _ _ _) = ctx_tenantId c"
| "caller (UpdateShiftLocation c _ _ _ _) = ctx_tenantId c"

text \<open>A uuid drawn for a new job is new (uuidv7).\<close>

fun fresh :: "dispatch_op \<Rightarrow> dispatch_db \<Rightarrow> bool" where
  "fresh (CreateJob _ _ i _ _ _) db \<longleftrightarrow>
     i \<notin> job_id ` set (jobs db) \<and> i \<notin> tr_jobId ` set (jobStatusTransitions db)"
| "fresh _ db \<longleftrightarrow> True"

text \<open>Before the first job: directories may be filled, no job and no shift exists.\<close>

definition empty_board :: "dispatch_db \<Rightarrow> bool" where
  "empty_board db \<longleftrightarrow> jobs db = [] \<and> driverShifts db = [] \<and> jobStatusTransitions db = []
     \<and> jobNumberSequences db = []"

inductive reachable :: "dispatch_db \<Rightarrow> bool" where
  reachable_start: "empty_board db \<Longrightarrow> reachable db"
| reachable_step: "reachable db \<Longrightarrow> fresh op db \<Longrightarrow> reachable (exec op db)"

inductive_cases reachableE: "reachable db"

section \<open>What each handler does to the tables\<close>

lemmas handler_defs = create_job_def addDriver_def setDutyClass_def assign_def unassign_def
  transition_def startShift_def endShift_def updateShiftStatus_def updateShiftLocation_def
  active_shift_def emit_def Let_def update_returning_def

lemma emit_simps [simp]:
  "jobs (emit t e db) = jobs db" "driverShifts (emit t e db) = driverShifts db"
  "jobStatusTransitions (emit t e db) = jobStatusTransitions db"
  "jobNumberSequences (emit t e db) = jobNumberSequences db"
  by (simp_all add: emit_def)

lemma setDutyClass_tables:
  assumes "setDutyClass c now i k db = Inr (row, db')"
  shows "jobs db' = update_where (live_job (ctx_tenantId c) i)
      (\<lambda>j. j\<lparr>job_dutyClass := k, job_updatedAt := now\<rparr>) (jobs db)"
    "jobStatusTransitions db' = jobStatusTransitions db"
    "driverShifts db' = driverShifts db" "jobNumberSequences db' = jobNumberSequences db"
  using assms by (auto simp: handler_defs)

lemma addDriver_tables:
  assumes "addDriver c i j d r db = Inr (row, db')"
  shows "jobs db' = jobs db" "jobStatusTransitions db' = jobStatusTransitions db"
    "driverShifts db' = driverShifts db" "jobNumberSequences db' = jobNumberSequences db"
  using assms by (auto simp: handler_defs split: option.splits)

lemma create_job_tables:
  assumes "create_job c now i inp m off db = Inr (row, db')"
  shows "jobs db' = insert_into row (jobs db)" "job_id row = i" "job_status row = Job_new"
    "job_tenantId row = ctx_tenantId c"
    "job_jobNumber row = fst (allocateJobNumber (ctx_tenantId c) now db)"
    "jobNumberSequences db' = jobNumberSequences (snd (allocateJobNumber (ctx_tenantId c) now db))"
    "jobStatusTransitions db' = jobStatusTransitions db" "driverShifts db' = driverShifts db"
  using assms by (auto simp: create_job_def Let_def allocateJobNumber_def split: prod.splits)

lemma assign_writes_tables:
  "jobs (assign_writes c now i inp s job db)
     = update_where (own_job (ctx_tenantId c) (job_id job)) (assigned_row now inp s) (jobs db)"
  "driverShifts (assign_writes c now i inp s job db)
     = move_shifts (ctx_tenantId c) now (job_id job) (job_assignedDriverId job)
         (ai_driverId inp) s (driverShifts db)"
  "jobNumberSequences (assign_writes c now i inp s job db) = jobNumberSequences db"
  "job_status job = Job_dispatched \<Longrightarrow>
     jobStatusTransitions (assign_writes c now i inp s job db) = jobStatusTransitions db"
  "job_status job \<noteq> Job_dispatched \<Longrightarrow> \<exists>r. tr_jobId r = job_id job
     \<and> tr_fromStatus r = job_status job \<and> tr_toStatus r = Job_dispatched
     \<and> jobStatusTransitions (assign_writes c now i inp s job db)
         = insert_into r (jobStatusTransitions db)"
  by (simp_all add: assign_writes_def Let_def)

lemma live_job_Some:
  assumes "select_first (live_job t i) js = Some j"
  shows "job_id j = i" "job_tenantId j = t" "job_deletedAt j = None" "j \<in> set js" "own_job t i j"
  using select_first_Some [OF assms] by (auto simp: live_job_def own_job_def)

lemma assign_cases:
  assumes "assign c now i jid inp db = Inr (row, db')"
  obtains job s where
    "select_first (live_job (ctx_tenantId c) jid) (jobs db) = Some job" "job_id job = jid"
    "job_status job = Job_new \<or> job_status job = Job_dispatched"
    "resolve_shift (ctx_tenantId c) inp db = Inr s"
    "db' = assign_writes c now i inp s job db"
  using assms by (auto simp: assign_def Let_def live_job_Some)

definition unassigned_row :: "instant \<Rightarrow> job_row \<Rightarrow> job_row" where
  "unassigned_row now j = j\<lparr>job_status := Job_new, job_assignedDriverId := None,
     job_assignedTruckId := None, job_assignedShiftId := None, job_assignedAt := None,
     job_updatedAt := now\<rparr>"

lemma unassign_tables:
  assumes "unassign c now i jid reason db = Inr (row, db')"
  obtains job where
    "select_first (live_job (ctx_tenantId c) jid) (jobs db) = Some job"
    "job_status job = Job_dispatched"
    "jobs db' = update_where (own_job (ctx_tenantId c) jid) (unassigned_row now) (jobs db)"
    "driverShifts db' = (case job_assignedDriverId job of None \<Rightarrow> driverShifts db
       | Some p \<Rightarrow> update_where (open_shift_of (ctx_tenantId c) p)
           (\<lambda>s. s\<lparr>shift_currentJobId := None, shift_status := Shift_available,
              shift_updatedAt := now\<rparr>) (driverShifts db))"
    "jobNumberSequences db' = jobNumberSequences db"
    "\<exists>r. tr_jobId r = jid \<and> tr_fromStatus r = job_status job \<and> tr_toStatus r = Job_new
       \<and> jobStatusTransitions db' = insert_into r (jobStatusTransitions db)"
  using assms
  by (auto simp: unassign_def Let_def update_returning_def unassigned_row_def [abs_def])

lemma transition_tables:
  assumes "transition c now i jid to reason db = Inr (row, db')"
  obtains job where
    "select_first (live_job (ctx_tenantId c) jid) (jobs db) = Some job"
    "canTransition (job_status job) to"
    "jobs db' = update_where (own_job (ctx_tenantId c) jid) (transition_updates now to reason) (jobs db)"
    "driverShifts db' = sync_shift (ctx_tenantId c) now (job_assignedShiftId job) to (driverShifts db)"
    "jobNumberSequences db' = jobNumberSequences db"
    "\<exists>r. tr_jobId r = jid \<and> tr_fromStatus r = job_status job \<and> tr_toStatus r = to
       \<and> jobStatusTransitions db' = insert_into r (jobStatusTransitions db)"
  using assms
  by (auto simp: transition_def Let_def update_returning_def assertCanTransition_def)

lemma job_row_simps [row_simps, simp]:
  "job_id (assigned_row now inp s j) = job_id j"
  "job_tenantId (assigned_row now inp s j) = job_tenantId j"
  "job_jobNumber (assigned_row now inp s j) = job_jobNumber j"
  "job_status (assigned_row now inp s j) = Job_dispatched"
  "job_id (unassigned_row now j) = job_id j"
  "job_tenantId (unassigned_row now j) = job_tenantId j"
  "job_jobNumber (unassigned_row now j) = job_jobNumber j"
  "job_status (unassigned_row now j) = Job_new"
  "job_id (transition_updates now to reason j) = job_id j"
  "job_tenantId (transition_updates now to reason j) = job_tenantId j"
  "job_jobNumber (transition_updates now to reason j) = job_jobNumber j"
  "job_status (transition_updates now to reason j) = to"
  by (simp_all add: assigned_row_def unassigned_row_def transition_updates_def Let_def)

lemma shift_ops_tables:
  "startShift c now i d k db = Inr (row, db') \<Longrightarrow>
     jobs db' = jobs db \<and> jobStatusTransitions db' = jobStatusTransitions db
     \<and> jobNumberSequences db' = jobNumberSequences db"
  "endShift c now i db = Inr (row, db') \<Longrightarrow>
     jobs db' = jobs db \<and> jobStatusTransitions db' = jobStatusTransitions db
     \<and> jobNumberSequences db' = jobNumberSequences db"
  "updateShiftStatus c now i st db = Inr (row, db') \<Longrightarrow>
     jobs db' = jobs db \<and> jobStatusTransitions db' = jobStatusTransitions db
     \<and> jobNumberSequences db' = jobNumberSequences db"
  "updateShiftLocation c now i x y db = Inr (row, db') \<Longrightarrow>
     jobs db' = jobs db \<and> jobStatusTransitions db' = jobStatusTransitions db
     \<and> jobNumberSequences db' = jobNumberSequences db"
  by (auto simp: handler_defs)

section \<open>The transition log explains every status\<close>

definition job_log :: "uuid \<Rightarrow> transition_row list \<Rightarrow> (job_status \<times> job_status) list" where
  "job_log i tbl = map (\<lambda>r. (tr_fromStatus r, tr_toStatus r)) (filter (\<lambda>r. tr_jobId r = i) tbl)"

definition log_inv :: "job_row list \<Rightarrow> transition_row list \<Rightarrow> bool" where
  "log_inv js log \<longleftrightarrow> distinct (map job_id js)
     \<and> (\<forall>j \<in> set js. legal_log canTransition Job_new (job_log (job_id j) log) (job_status j))
     \<and> tr_jobId ` set log \<subseteq> job_id ` set js"

lemma job_log_insert [simp]:
  "job_log i (insert_into r tbl) =
     (if tr_jobId r = i then job_log i tbl @ [(tr_fromStatus r, tr_toStatus r)] else job_log i tbl)"
  by (simp add: job_log_def insert_into_def)

lemma job_log_unknown: "i \<notin> tr_jobId ` set log \<Longrightarrow> job_log i log = []"
  by (auto simp: job_log_def filter_empty_conv)

text \<open>An update that keeps ids and statuses keeps the invariant.\<close>

lemma log_inv_same_status:
  assumes "log_inv js log" "\<And>j. P j \<Longrightarrow> job_id (f j) = job_id j \<and> job_status (f j) = job_status j"
  shows "log_inv (update_where P f js) log"
proof -
  have "map job_id (update_where P f js) = map job_id js"
    using assms(2) by (intro map_update_where) simp
  moreover from this have "job_id ` set (update_where P f js) = job_id ` set js"
    by (metis list.set_map)
  ultimately show ?thesis
    using assms by (auto simp: log_inv_def dest!: in_update_where)
qed

lemma own_live_row:
  assumes "distinct (map job_id js)" "select_first (live_job t i) js = Some job"
    "j \<in> set js" "own_job t i j"
  shows "j = job"
proof -
  have "job \<in> set js" "job_id job = i"
    using select_first_Some [OF assms(2)] by (auto simp: live_job_def)
  with assms(1,3,4) show ?thesis by (auto simp: own_job_def distinct_map inj_on_def)
qed

text \<open>A logged move of one job.\<close>

lemma log_inv_move:
  assumes inv: "log_inv js log" and job: "select_first (live_job t i) js = Some job"
    and move: "canTransition (job_status job) to"
    and f: "\<And>j. job_id (f j) = job_id j \<and> job_status (f j) = to"
    and r: "tr_jobId r = i" "tr_fromStatus r = job_status job" "tr_toStatus r = to"
  shows "log_inv (update_where (own_job t i) f js) (insert_into r log)"
proof -
  let ?js = "update_where (own_job t i) f js"
  have ids: "map job_id ?js = map job_id js" using f by (intro map_update_where) simp
  have j: "job \<in> set js" "job_id job = i" "own_job t i job"
    using select_first_Some [OF job] by (auto simp: live_job_def own_job_def)
  have "legal_log canTransition Job_new (job_log (job_id k) (insert_into r log)) (job_status k)"
    if k: "k \<in> set ?js" for k
  proof (cases "\<exists>k0 \<in> set js. own_job t i k0 \<and> k = f k0")
    case True
    then obtain k0 where "k0 \<in> set js" "own_job t i k0" and kf: "k = f k0" by blast
    then have "k0 = job" using own_live_row [OF _ job] inv by (auto simp: log_inv_def)
    then show ?thesis using inv kf f j r move by (auto simp: log_inv_def legal_log_snoc)
  next
    case False
    then have k0: "k \<in> set js" "\<not> own_job t i k" using in_update_where [OF k] by auto
    then have "k \<noteq> job" using j by auto
    then have "job_id k \<noteq> i"
      using inv k0(1) j by (auto simp: log_inv_def distinct_map inj_on_def)
    then show ?thesis using inv k0 r by (auto simp: log_inv_def)
  qed
  moreover have "job_id ` set ?js = job_id ` set js" using ids by (metis list.set_map)
  ultimately show ?thesis
    using inv ids j r by (auto simp: log_inv_def)
qed

lemma log_inv_create:
  assumes "log_inv js log" "job_status row = Job_new"
    "job_id row \<notin> job_id ` set js" "job_id row \<notin> tr_jobId ` set log"
  shows "log_inv (insert_into row js) log"
  using assms job_log_unknown [OF assms(4)] by (auto simp: log_inv_def insert_into_def)

lemma log_inv_exec:
  assumes inv: "log_inv (jobs db) (jobStatusTransitions db)" and "fresh op db"
  shows "log_inv (jobs (exec op db)) (jobStatusTransitions (exec op db))"
proof (cases op)
  case (CreateJob c now i inp m off)
  then show ?thesis
    using assms by (cases "create_job c now i inp m off db")
      (auto simp: create_job_tables intro!: log_inv_create)
next
  case (AddDriver c i j d r)
  then show ?thesis
    using inv by (cases "addDriver c i j d r db") (auto simp: addDriver_tables)
next
  case (SetDutyClass c now j k)
  then show ?thesis
    using inv
    by (cases "setDutyClass c now j k db")
      (auto simp: setDutyClass_tables intro!: log_inv_same_status)
next
  case (Assign c now i jid inp)
  show ?thesis
  proof (cases "assign c now i jid inp db")
    case (Inr p)
    from Inr have "assign c now i jid inp db = Inr (fst p, snd p)" by simp
    then obtain job s where job: "select_first (live_job (ctx_tenantId c) jid) (jobs db) = Some job"
        "job_id job = jid" "job_status job = Job_new \<or> job_status job = Job_dispatched"
      and db': "snd p = assign_writes c now i inp s job db"
      by (rule assign_cases)
    have res: "exec op db = assign_writes c now i inp s job db"
      using Assign Inr db' by (cases p) simp
    show ?thesis
    proof (cases "job_status job = Job_dispatched")
      case True
      have "log_inv (update_where (\<lambda>j. own_job (ctx_tenantId c) jid j \<and> j \<in> set (jobs db))
          (assigned_row now inp s) (jobs db)) (jobStatusTransitions db)"
        using own_live_row [OF _ job(1)] inv True
        by (intro log_inv_same_status [OF inv]) (auto simp: log_inv_def)
      then have "log_inv (update_where (own_job (ctx_tenantId c) jid)
          (assigned_row now inp s) (jobs db)) (jobStatusTransitions db)"
        by (simp add: update_where_def cong: map_cong)
      then show ?thesis using res job True by (simp add: assign_writes_tables)
    next
      case False
      then obtain r where "tr_jobId r = jid" "tr_fromStatus r = job_status job"
          "tr_toStatus r = Job_dispatched" "jobStatusTransitions
            (assign_writes c now i inp s job db) = insert_into r (jobStatusTransitions db)"
        using assign_writes_tables(5) [of job c now i inp s db] job by auto
      then show ?thesis
        using False job res log_inv_move [OF inv job(1), of Job_dispatched "assigned_row now inp s" r]
        by (simp add: assign_writes_tables)
    qed
  qed (use inv Assign in simp)
next
  case (Unassign c now i jid reason)
  show ?thesis
  proof (cases "unassign c now i jid reason db")
    case (Inr p)
    then show ?thesis
      using Unassign inv
      by (cases p) (auto elim!: unassign_tables intro!: log_inv_move)
  qed (use inv Unassign in simp)
next
  case (Transition c now i jid to reason)
  show ?thesis
  proof (cases "transition c now i jid to reason db")
    case (Inr p)
    then show ?thesis
      using Transition inv
      by (cases p) (auto elim!: transition_tables intro!: log_inv_move)
  qed (use inv Transition in simp)
next
  case (StartShift c now i d k)
  then show ?thesis
    using inv by (cases "startShift c now i d k db") (auto dest!: shift_ops_tables)
next
  case (EndShift c now i)
  then show ?thesis
    using inv by (cases "endShift c now i db") (auto dest!: shift_ops_tables)
next
  case (UpdateShiftStatus c now i s)
  then show ?thesis
    using inv by (cases "updateShiftStatus c now i s db") (auto dest!: shift_ops_tables)
next
  case (UpdateShiftLocation c now i x y)
  then show ?thesis
    using inv by (cases "updateShiftLocation c now i x y db") (auto dest!: shift_ops_tables)
qed

lemma reachable_log_inv: "reachable db \<Longrightarrow> log_inv (jobs db) (jobStatusTransitions db)"
proof (induction rule: reachable.induct)
  case (reachable_start db)
  then show ?case by (simp add: empty_board_def log_inv_def)
next
  case (reachable_step db op)
  then show ?case using log_inv_exec by blast
qed

end
