(* ===== verification/Sequences.thy ===== *)
theory Sequences
  imports JsText
begin

text \<open>
  Numbers handed out from a table of last used sequence values, one row per tenant and key, by
  \<open>INSERT ... ON CONFLICT DO UPDATE SET last_seq = last_seq + 1 RETURNING last_seq\<close>.  The locale
  states what the jobs and the billing services use of it: a number that was handed out is never
  handed out again.
\<close>

text \<open>The text of the numbers: key, dash, sequence padded to four digits.\<close>

definition number_text :: "string \<Rightarrow> nat \<Rightarrow> string" where
  "number_text k n = k @ ''-'' @ pad_nat 4 n"

lemma number_text_inj:
  assumes "number_text k m = number_text k' n"
  shows "k = k' \<and> m = n"
proof -
  have "rev (pad_nat 4 m) @ CHR ''-'' # rev k = rev (pad_nat 4 n) @ CHR ''-'' # rev k'"
    using arg_cong [OF assms, of rev] by (simp add: number_text_def)
  moreover have "CHR ''-'' \<notin> set (rev (pad_nat 4 x))" for x
    using digit_not_dash [OF pad_nat_digits] by simp
  ultimately show ?thesis by (simp add: append_sep_inj)
qed

text \<open>The current value of a key, 0 when it has no row; a number at or below it was handed out.\<close>

definition sequence_value :: "('s \<Rightarrow> uuid) \<Rightarrow> ('s \<Rightarrow> string) \<Rightarrow> ('s \<Rightarrow> nat) \<Rightarrow> uuid \<Rightarrow> string \<Rightarrow> 's list \<Rightarrow> nat" where
  "sequence_value tenant key val t k seqs =
     (case select_first (\<lambda>r. tenant r = t \<and> key r = k) seqs of None \<Rightarrow> 0 | Some r \<Rightarrow> val r)"

definition handed_out :: "(uuid \<Rightarrow> string \<Rightarrow> 's \<Rightarrow> nat) \<Rightarrow> uuid \<Rightarrow> string \<Rightarrow> 's \<Rightarrow> bool" where
  "handed_out cur t x seqs \<longleftrightarrow> (\<exists>k n. n \<le> cur t k seqs \<and> x = number_text k n)"

locale numbering =
  fixes cur :: "uuid \<Rightarrow> string \<Rightarrow> 's \<Rightarrow> nat"
    and bump :: "uuid \<Rightarrow> string \<Rightarrow> 's \<Rightarrow> nat \<times> 's"
  assumes bump_next: "bump t k seqs = (n, seqs') \<Longrightarrow> n = cur t k seqs + 1 \<and> cur t k seqs' = n"
    and bump_other: "bump t k seqs = (n, seqs') \<Longrightarrow> (t', k') \<noteq> (t, k) \<Longrightarrow>
      cur t' k' seqs' = cur t' k' seqs"
begin

lemma new_number:
  assumes "handed_out cur t x seqs" "bump t k seqs = (n, seqs')"
  shows "x \<noteq> number_text k n"
  using assms bump_next [OF assms(2)] number_text_inj by (fastforce simp: handed_out_def)

lemma keeps_numbers:
  assumes "handed_out cur t' x seqs" "bump t k seqs = (n, seqs')"
  shows "handed_out cur t' x seqs'"
proof -
  from assms(1) obtain k' m where m: "m \<le> cur t' k' seqs" "x = number_text k' m"
    by (auto simp: handed_out_def)
  have "cur t' k' seqs \<le> cur t' k' seqs'"
    using bump_next [OF assms(2)] bump_other [OF assms(2), of t' k'] by (cases "(t', k') = (t, k)") auto
  with m have "m \<le> cur t' k' seqs' \<and> x = number_text k' m" by simp
  then show ?thesis unfolding handed_out_def by (intro exI)
qed

lemma hands_out: "bump t k seqs = (n, seqs') \<Longrightarrow> handed_out cur t (number_text k n) seqs'"
  using bump_next [of t k seqs n seqs'] unfolding handed_out_def
  by (intro exI [of _ k] exI [of _ n]) simp

end

text \<open>The upsert on a list of rows meets the contract.\<close>

lemma sequence_value_insert:
  assumes "tenant new = t" "key new = k" "select_first (\<lambda>r. tenant r = t \<and> key r = k) seqs = None"
  shows "sequence_value tenant key val t k (insert_into new seqs) = val new"
    "(t', k') \<noteq> (t, k) \<Longrightarrow> sequence_value tenant key val t' k' (insert_into new seqs)
       = sequence_value tenant key val t' k' seqs"
proof -
  have app: "select_first P (insert_into new seqs)
      = (case select_first P seqs of None \<Rightarrow> (if P new then Some new else None) | Some r \<Rightarrow> Some r)" for P
    by (induction seqs) (auto simp: select_first_def insert_into_def)
  show "sequence_value tenant key val t k (insert_into new seqs) = val new"
    using assms by (simp add: sequence_value_def app)
  show "(t', k') \<noteq> (t, k) \<Longrightarrow> sequence_value tenant key val t' k' (insert_into new seqs)
       = sequence_value tenant key val t' k' seqs"
    using assms(1,2) by (auto simp: sequence_value_def app split: option.split)
qed

lemma select_first_update_other:
  assumes "\<And>r. Q r \<Longrightarrow> \<not> P r \<and> \<not> P (f r)"
  shows "select_first P (update_where Q f tbl) = select_first P tbl"
  using assms by (induction tbl) (auto simp: select_first_def update_where_def)

lemma sequence_value_update:
  assumes keep: "\<And>r. tenant (f r) = tenant r \<and> key (f r) = key r"
  shows "select_first (\<lambda>r. tenant r = t \<and> key r = k) seqs = Some q \<Longrightarrow>
      sequence_value tenant key val t k (update_where (\<lambda>r. tenant r = t \<and> key r = k) f seqs) = val (f q)"
    "(t', k') \<noteq> (t, k) \<Longrightarrow>
      sequence_value tenant key val t' k' (update_where (\<lambda>r. tenant r = t \<and> key r = k) f seqs)
        = sequence_value tenant key val t' k' seqs"
proof -
  show "select_first (\<lambda>r. tenant r = t \<and> key r = k) seqs = Some q \<Longrightarrow>
      sequence_value tenant key val t k (update_where (\<lambda>r. tenant r = t \<and> key r = k) f seqs) = val (f q)"
    using keep by (simp add: sequence_value_def select_first_update_where)
  assume "(t', k') \<noteq> (t, k)"
  then have "select_first (\<lambda>r. tenant r = t' \<and> key r = k') (update_where (\<lambda>r. tenant r = t \<and> key r = k) f seqs)
      = select_first (\<lambda>r. tenant r = t' \<and> key r = k') seqs"
    using keep by (intro select_first_update_other) auto
  then show "sequence_value tenant key val t' k' (update_where (\<lambda>r. tenant r = t \<and> key r = k) f seqs)
        = sequence_value tenant key val t' k' seqs"
    by (simp add: sequence_value_def)
qed

end
