(* ===== verification/DispatchSafety.thy ===== *)
theory DispatchSafety
  imports Dispatch Sequences
begin

text \<open>
  More of what holds on every reachable dispatch board: job numbers are unique per tenant (the
  unique index never rejects an insert), a driver and a truck have at most one open shift, and
  the operations of one tenant are invisible to another.
\<close>

section \<open>Job numbers\<close>

abbreviation job_seq :: "uuid \<Rightarrow> string \<Rightarrow> job_sequence_row list \<Rightarrow> nat" where
  "job_seq \<equiv> sequence_value jseq_tenantId jseq_dayKey jseq_lastSeq"

interpretation job_numbers: numbering job_seq bump_job_sequence
proof
  fix t k seqs n seqs' assume b: "bump_job_sequence t k seqs = (n, seqs')"
  show "n = job_seq t k seqs + 1 \<and> job_seq t k seqs' = n"
    using b by (auto simp: bump_job_sequence_def Let_def sequence_value_insert(1) sequence_value_update(1)
        split: option.splits) (simp_all add: sequence_value_def)
  show "(t', k') \<noteq> (t, k) \<Longrightarrow> job_seq t' k' seqs' = job_seq t' k' seqs" for t' k'
    using b by (auto simp: bump_job_sequence_def Let_def sequence_value_insert(2) sequence_value_update(2)
        split: option.splits)
qed

abbreviation numbered :: "job_row \<Rightarrow> job_sequence_row list \<Rightarrow> bool" where
  "numbered j seqs \<equiv> handed_out job_seq (job_tenantId j) (job_jobNumber j) seqs"

definition number_inv :: "job_row list \<Rightarrow> job_sequence_row list \<Rightarrow> bool" where
  "number_inv js seqs \<longleftrightarrow> (\<forall>j \<in> set js. numbered j seqs)
     \<and> distinct (map (\<lambda>j. (job_tenantId j, job_jobNumber j)) js)"

lemma create_number:
  assumes inv: "number_inv (jobs db) (jobNumberSequences db)"
    and alloc: "allocateJobNumber t now db = (number, db1)"
  shows "\<forall>j \<in> set (jobs db). job_tenantId j = t \<longrightarrow> job_jobNumber j \<noteq> number"
    "jobs db1 = jobs db"
    "job_tenantId row = t \<Longrightarrow> job_jobNumber row = number \<Longrightarrow>
       number_inv (insert_into row (jobs db)) (jobNumberSequences db1)"
proof -
  obtain n seqs where b: "bump_job_sequence t (formatDayKey now) (jobNumberSequences db) = (n, seqs)"
    by (cases "bump_job_sequence t (formatDayKey now) (jobNumberSequences db)")
  have a: "number = number_text (formatDayKey now) n" "db1 = db\<lparr>jobNumberSequences := seqs\<rparr>"
    using alloc b by (auto simp: allocateJobNumber_def Let_def job_number_text_def number_text_def)
  show new: "\<forall>j \<in> set (jobs db). job_tenantId j = t \<longrightarrow> job_jobNumber j \<noteq> number"
    using job_numbers.new_number [OF _ b] inv a by (auto simp: number_inv_def)
  show "jobs db1 = jobs db" using a by simp
  assume row: "job_tenantId row = t" "job_jobNumber row = number"
  have "numbered row seqs" using job_numbers.hands_out [OF b] row a by simp
  then show "number_inv (insert_into row (jobs db)) (jobNumberSequences db1)"
    using inv new row a job_numbers.keeps_numbers [OF _ b]
    by (auto simp: number_inv_def insert_into_def)
qed

lemma number_inv_update:
  assumes "number_inv js seqs"
    "\<And>j. job_tenantId (f j) = job_tenantId j \<and> job_jobNumber (f j) = job_jobNumber j"
  shows "number_inv (update_where P f js) seqs"
proof -
  have "map (\<lambda>j. (job_tenantId j, job_jobNumber j)) (update_where P f js)
      = map (\<lambda>j. (job_tenantId j, job_jobNumber j)) js"
    using assms(2) by (intro map_update_where) simp
  then show ?thesis
    using assms by (auto simp: number_inv_def dest!: in_update_where)
qed

lemma number_inv_exec:
  assumes inv: "number_inv (jobs db) (jobNumberSequences db)"
  shows "number_inv (jobs (exec op db)) (jobNumberSequences (exec op db))"
proof (cases op)
  case (CreateJob c now i inp m off)
  then show ?thesis
    using inv create_number(3) [OF inv prod.collapse [symmetric], of _ "ctx_tenantId c" now]
    by (cases "create_job c now i inp m off db") (auto simp: create_job_tables)
next
  case (AddDriver c i j d r)
  then show ?thesis using inv by (cases "addDriver c i j d r db") (auto simp: addDriver_tables)
next
  case (SetDutyClass c now j k)
  then show ?thesis
    using inv by (cases "setDutyClass c now j k db")
      (auto simp: setDutyClass_tables intro!: number_inv_update)
next
  case (Assign c now i jid inp)
  then show ?thesis
    using inv by (cases "assign c now i jid inp db")
      (auto simp: assign_writes_tables elim!: assign_cases intro!: number_inv_update)
next
  case (Unassign c now i jid reason)
  then show ?thesis
    using inv by (cases "unassign c now i jid reason db")
      (auto elim!: unassign_tables intro!: number_inv_update)
next
  case (Transition c now i jid to reason)
  then show ?thesis
    using inv by (cases "transition c now i jid to reason db")
      (auto elim!: transition_tables intro!: number_inv_update)
next
  case (StartShift c now i d k)
  then show ?thesis using inv by (cases "startShift c now i d k db") (auto dest!: shift_ops_tables)
next
  case (EndShift c now i)
  then show ?thesis using inv by (cases "endShift c now i db") (auto dest!: shift_ops_tables)
next
  case (UpdateShiftStatus c now i s)
  then show ?thesis
    using inv by (cases "updateShiftStatus c now i s db") (auto dest!: shift_ops_tables)
next
  case (UpdateShiftLocation c now i x y)
  then show ?thesis
    using inv by (cases "updateShiftLocation c now i x y db") (auto dest!: shift_ops_tables)
qed

lemma reachable_number_inv: "reachable db \<Longrightarrow> number_inv (jobs db) (jobNumberSequences db)"
proof (induction rule: reachable.induct)
  case (reachable_start db)
  then show ?case by (simp add: empty_board_def number_inv_def)
next
  case (reachable_step db op)
  then show ?case using number_inv_exec by blast
qed

section \<open>Open shifts\<close>

lemmas shift_handler_defs = endShift_def updateShiftStatus_def updateShiftLocation_def
  active_shift_def Let_def update_returning_def

definition shift_inv :: "shift_row list \<Rightarrow> bool" where
  "shift_inv tbl \<longleftrightarrow>
     (\<forall>t d. length (filter (open_shift_of t d) tbl) \<le> 1)
     \<and> (\<forall>t k. length (filter (open_shift_on t k) tbl) \<le> 1)"

text \<open>Updates that do not reopen, reassign or move a shift to another truck.\<close>

definition keeps_shift :: "(shift_row \<Rightarrow> shift_row) \<Rightarrow> bool" where
  "keeps_shift f \<longleftrightarrow> (\<forall>s. shift_tenantId (f s) = shift_tenantId s
     \<and> shift_driverId (f s) = shift_driverId s \<and> shift_truckId (f s) = shift_truckId s
     \<and> shift_deletedAt (f s) = shift_deletedAt s
     \<and> (shift_endedAt (f s) = None \<longrightarrow> shift_endedAt s = None))"

lemma shift_inv_update:
  assumes "shift_inv tbl" "keeps_shift f"
  shows "shift_inv (update_where P f tbl)"
proof -
  have "length (filter (open_shift_of t d) (update_where P f tbl)) \<le> length (filter (open_shift_of t d) tbl)"
    for t d using assms(2)
    by (intro length_filter_update_where) (auto simp: keeps_shift_def row_predicates)
  moreover have "length (filter (open_shift_on t k) (update_where P f tbl))
      \<le> length (filter (open_shift_on t k) tbl)" for t k using assms(2)
    by (intro length_filter_update_where) (auto simp: keeps_shift_def row_predicates)
  ultimately show ?thesis using assms(1) unfolding shift_inv_def by (meson order_trans)
qed

lemma move_shifts_inv: "shift_inv tbl \<Longrightarrow> shift_inv (move_shifts t now j p d s tbl)"
  by (auto simp: move_shifts_def Let_def keeps_shift_def intro!: shift_inv_update split: option.split)

lemma sync_shift_inv: "shift_inv tbl \<Longrightarrow> shift_inv (sync_shift t now a s tbl)"
  by (auto simp: sync_shift_def keeps_shift_def intro!: shift_inv_update split: option.split)

lemma startShift_inv:
  assumes "startShift c now i d k db = Inr (row, db')" "shift_inv (driverShifts db)"
  shows "shift_inv (driverShifts db')"
proof -
  have free: "\<forall>s \<in> set (driverShifts db). \<not> open_shift_of (ctx_tenantId c) d s"
    and truck: "k = Some x \<Longrightarrow> \<forall>s \<in> set (driverShifts db). \<not> open_shift_on (ctx_tenantId c) x s" for x
    using assms(1) by (auto simp: startShift_def truck_free_def Let_def select_first_None)
  obtain row where db': "driverShifts db' = insert_into row (driverShifts db)"
      "shift_tenantId row = ctx_tenantId c" "shift_driverId row = d" "shift_truckId row = k"
    using assms(1) by (auto simp: startShift_def Let_def)
  have "length (filter (open_shift_of t e) (driverShifts db')) \<le> 1" for t e
    using assms(2) free db' unfolding shift_inv_def
    by (auto simp: filter_insert_into open_shift_of_def insert_into_def filter_empty_conv)
  moreover have "length (filter (open_shift_on t e) (driverShifts db')) \<le> 1" for t e
    using assms(2) truck db' unfolding shift_inv_def
    by (auto simp: filter_insert_into open_shift_on_def insert_into_def filter_empty_conv)
  ultimately show ?thesis by (simp add: shift_inv_def)
qed

lemma shift_updates_keep:
  "endShift c now i db = Inr (row, db') \<Longrightarrow> shift_inv (driverShifts db) \<Longrightarrow> shift_inv (driverShifts db')"
  "updateShiftStatus c now i st db = Inr (row, db') \<Longrightarrow> shift_inv (driverShifts db) \<Longrightarrow>
     shift_inv (driverShifts db')"
  "updateShiftLocation c now i x y db = Inr (row, db') \<Longrightarrow> shift_inv (driverShifts db) \<Longrightarrow>
     shift_inv (driverShifts db')"
  by (auto simp: shift_handler_defs keeps_shift_def intro!: shift_inv_update)

lemma shift_inv_exec:
  assumes inv: "shift_inv (driverShifts db)" shows "shift_inv (driverShifts (exec op db))"
proof (cases op)
  case (CreateJob c now i inp m off)
  then show ?thesis
    using inv by (cases "create_job c now i inp m off db") (auto simp: create_job_tables)
next
  case (AddDriver c i j d r)
  then show ?thesis using inv by (cases "addDriver c i j d r db") (auto simp: addDriver_tables)
next
  case (SetDutyClass c now j k)
  then show ?thesis using inv by (cases "setDutyClass c now j k db") (auto simp: setDutyClass_tables)
next
  case (Assign c now i jid inp)
  then show ?thesis
    using inv by (cases "assign c now i jid inp db")
      (auto simp: assign_writes_tables elim!: assign_cases intro!: move_shifts_inv)
next
  case (Unassign c now i jid reason)
  then show ?thesis
    using inv by (cases "unassign c now i jid reason db")
      (auto elim!: unassign_tables split: option.split
        intro!: shift_inv_update simp: keeps_shift_def)
next
  case (Transition c now i jid to reason)
  then show ?thesis
    using inv by (cases "transition c now i jid to reason db")
      (auto elim!: transition_tables intro!: sync_shift_inv)
next
  case (StartShift c now i d k)
  then show ?thesis
    using inv by (cases "startShift c now i d k db") (auto intro: startShift_inv)
next
  case (EndShift c now i)
  then show ?thesis
    using inv by (cases "endShift c now i db") (auto intro: shift_updates_keep)
next
  case (UpdateShiftStatus c now i s)
  then show ?thesis
    using inv by (cases "updateShiftStatus c now i s db") (auto intro: shift_updates_keep)
next
  case (UpdateShiftLocation c now i x y)
  then show ?thesis
    using inv by (cases "updateShiftLocation c now i x y db") (auto intro: shift_updates_keep)
qed

lemma reachable_shift_inv: "reachable db \<Longrightarrow> shift_inv (driverShifts db)"
proof (induction rule: reachable.induct)
  case (reachable_start db)
  then show ?case by (simp add: empty_board_def shift_inv_def)
next
  case (reachable_step db op)
  then show ?case using shift_inv_exec by blast
qed

section \<open>Tenants\<close>

lemma tenant_rows_simps [simp]:
  "jobs (tenant_rows t db) = filter (\<lambda>r. job_tenantId r = t) (jobs db)"
  "drivers (tenant_rows t db) = filter (\<lambda>r. driver_tenantId r = t) (drivers db)"
  "trucks (tenant_rows t db) = filter (\<lambda>r. truck_tenantId r = t) (trucks db)"
  "driverShifts (tenant_rows t db) = filter (\<lambda>r. shift_tenantId r = t) (driverShifts db)"
  "jobStatusTransitions (tenant_rows t db)
     = filter (\<lambda>r. tr_tenantId r = t) (jobStatusTransitions db)"
  "jobDriverAssignments (tenant_rows t db)
     = filter (\<lambda>r. crew_tenantId r = t) (jobDriverAssignments db)"
  "customers (tenant_rows t db) = filter (\<lambda>r. customer_tenantId r = t) (customers db)"
  "vehicles (tenant_rows t db) = filter (\<lambda>r. vehicle_tenantId r = t) (vehicles db)"
  "jobNumberSequences (tenant_rows t db) = filter (\<lambda>r. jseq_tenantId r = t) (jobNumberSequences db)"
  "events (tenant_rows t db) = filter (\<lambda>e. fst e = t) (events db)"
  by (simp_all add: tenant_rows_def)

lemma tenant_rows_update [simp]:
  "tenant_rows t (db\<lparr>jobs := a\<rparr>) = (tenant_rows t db)\<lparr>jobs := filter (\<lambda>r. job_tenantId r = t) a\<rparr>"
  "tenant_rows t (db\<lparr>driverShifts := b\<rparr>)
     = (tenant_rows t db)\<lparr>driverShifts := filter (\<lambda>r. shift_tenantId r = t) b\<rparr>"
  "tenant_rows t (db\<lparr>jobStatusTransitions := c\<rparr>)
     = (tenant_rows t db)\<lparr>jobStatusTransitions := filter (\<lambda>r. tr_tenantId r = t) c\<rparr>"
  "tenant_rows t (db\<lparr>jobDriverAssignments := d\<rparr>)
     = (tenant_rows t db)\<lparr>jobDriverAssignments := filter (\<lambda>r. crew_tenantId r = t) d\<rparr>"
  "tenant_rows t (db\<lparr>jobNumberSequences := e\<rparr>)
     = (tenant_rows t db)\<lparr>jobNumberSequences := filter (\<lambda>r. jseq_tenantId r = t) e\<rparr>"
  by (simp_all add: tenant_rows_def)

lemma tenant_rows_emit [simp]:
  "tenant_rows t (emit t' e db) = (if t' = t then emit t e (tenant_rows t db) else tenant_rows t db)"
  by (simp add: emit_def tenant_rows_def)

text \<open>The queries of a caller see the caller's rows only.\<close>

lemma own_queries [simp]:
  "select_first (live_job t i) (filter (\<lambda>r. job_tenantId r = t) js) = select_first (live_job t i) js"
  "select_first (own_job t i) (filter (\<lambda>r. job_tenantId r = t) js) = select_first (own_job t i) js"
  "select_first (live_driver t i) (filter (\<lambda>r. driver_tenantId r = t) ds)
     = select_first (live_driver t i) ds"
  "select_first (live_truck t i) (filter (\<lambda>r. truck_tenantId r = t) ts)
     = select_first (live_truck t i) ts"
  "select_first (own_shift t i) (filter (\<lambda>r. shift_tenantId r = t) ss) = select_first (own_shift t i) ss"
  "select_first (live_shift t i) (filter (\<lambda>r. shift_tenantId r = t) ss)
     = select_first (live_shift t i) ss"
  "select_first (open_shift_of t i) (filter (\<lambda>r. shift_tenantId r = t) ss)
     = select_first (open_shift_of t i) ss"
  "select_first (open_shift_on t i) (filter (\<lambda>r. shift_tenantId r = t) ss)
     = select_first (open_shift_on t i) ss"
  by (auto simp: row_predicates intro!: select_first_filter)

lemma own_queries_written [simp]:
  "select_first (\<lambda>c. customer_tenantId c = t \<and> P c) (filter (\<lambda>r. customer_tenantId r = t) cs)
     = select_first (\<lambda>c. customer_tenantId c = t \<and> P c) cs"
  "select_first (\<lambda>v. vehicle_tenantId v = t \<and> Q v) (filter (\<lambda>r. vehicle_tenantId r = t) vs)
     = select_first (\<lambda>v. vehicle_tenantId v = t \<and> Q v) vs"
  "select_first (\<lambda>d. driver_tenantId d = t \<and> R d) (filter (\<lambda>r. driver_tenantId r = t) ds)
     = select_first (\<lambda>d. driver_tenantId d = t \<and> R d) ds"
  "select_first (\<lambda>c. crew_tenantId c = t \<and> S c) (filter (\<lambda>r. crew_tenantId r = t) cr)
     = select_first (\<lambda>c. crew_tenantId c = t \<and> S c) cr"
  "select_first (\<lambda>q. jseq_tenantId q = t \<and> U q) (filter (\<lambda>r. jseq_tenantId r = t) qs)
     = select_first (\<lambda>q. jseq_tenantId q = t \<and> U q) qs"
  by (auto intro!: select_first_filter)

text \<open>Updates under a caller's predicate commute with the restriction and do not touch others.\<close>

lemma own_job_update:
  assumes "\<And>j. job_tenantId (f j) = job_tenantId j"
  shows "filter (\<lambda>r. job_tenantId r = u) (update_where (own_job t i) f js)
      = (if u = t then update_where (own_job t i) f (filter (\<lambda>r. job_tenantId r = u) js)
         else filter (\<lambda>r. job_tenantId r = u) js)"
    "filter (\<lambda>r. job_tenantId r = u) (update_where (live_job t i) f js)
      = (if u = t then update_where (live_job t i) f (filter (\<lambda>r. job_tenantId r = u) js)
         else filter (\<lambda>r. job_tenantId r = u) js)"
  by (rule filter_update_where_tenant; simp add: assms row_predicates)+

lemma own_shift_update:
  assumes "\<And>s. shift_tenantId (f s) = shift_tenantId s"
  shows "filter (\<lambda>r. shift_tenantId r = u) (update_where (own_shift t i) f ss)
      = (if u = t then update_where (own_shift t i) f (filter (\<lambda>r. shift_tenantId r = u) ss)
         else filter (\<lambda>r. shift_tenantId r = u) ss)"
    "filter (\<lambda>r. shift_tenantId r = u) (update_where (open_shift_of t i) f ss)
      = (if u = t then update_where (open_shift_of t i) f (filter (\<lambda>r. shift_tenantId r = u) ss)
         else filter (\<lambda>r. shift_tenantId r = u) ss)"
  by (rule filter_update_where_tenant; simp add: assms row_predicates)+

lemmas tenant_updates = own_job_update own_shift_update filter_insert_into

lemma move_shifts_tenant:
  "filter (\<lambda>r. shift_tenantId r = u) (move_shifts t now j p d s ss)
    = (if u = t then move_shifts t now j p d s (filter (\<lambda>r. shift_tenantId r = u) ss)
       else filter (\<lambda>r. shift_tenantId r = u) ss)"
  by (auto simp: move_shifts_def Let_def own_shift_update split: option.split)

lemma sync_shift_tenant:
  "filter (\<lambda>r. shift_tenantId r = u) (sync_shift t now a to ss)
    = (if u = t then sync_shift t now a to (filter (\<lambda>r. shift_tenantId r = u) ss)
       else filter (\<lambda>r. shift_tenantId r = u) ss)"
  by (auto simp: sync_shift_def own_shift_update split: option.split)

lemma bump_tenant:
  "map_prod id (filter (\<lambda>r. jseq_tenantId r = t)) (bump_job_sequence t k qs)
     = bump_job_sequence t k (filter (\<lambda>r. jseq_tenantId r = t) qs)"
  using filter_update_where_commute [of "\<lambda>r. jseq_tenantId r = t \<and> jseq_dayKey r = k"
      "\<lambda>r. jseq_tenantId r = t" "\<lambda>q. q\<lparr>jseq_lastSeq := jseq_lastSeq q + 1\<rparr>" qs]
  by (auto simp: bump_job_sequence_def Let_def filter_insert_into split: option.split)

lemma bump_other:
  "u \<noteq> t \<Longrightarrow> filter (\<lambda>r. jseq_tenantId r = u) (snd (bump_job_sequence t k qs))
     = filter (\<lambda>r. jseq_tenantId r = u) qs"
  using filter_update_where_frame [of "\<lambda>r. jseq_tenantId r = t \<and> jseq_dayKey r = k"
      "\<lambda>r. jseq_tenantId r = u" "\<lambda>q. q\<lparr>jseq_lastSeq := jseq_lastSeq q + 1\<rparr>" qs]
  by (auto simp: bump_job_sequence_def Let_def filter_insert_into split: option.split)

text \<open>Each handler run on the caller's rows is the handler run on all rows, restricted.\<close>

lemma guards_tenant [simp]:
  "resolve_shift t inp (tenant_rows t db) = resolve_shift t inp db"
  "check_truck t k (tenant_rows t db) = check_truck t k db"
  "truck_free t k (tenant_rows t db) = truck_free t k db"
  "resolveSelfDriverId t v (tenant_rows t db) = resolveSelfDriverId t v db"
  by (auto simp: resolve_shift_def check_truck_def truck_free_def resolveSelfDriverId_def
      split: option.split)

lemma own_driver_only_tenant [simp]:
  "own_driver_only c d m (tenant_rows (ctx_tenantId c) db) = own_driver_only c d m db"
  by (simp add: own_driver_only_def)

lemma assign_writes_tenant:
  "tenant_rows u (assign_writes c now i inp s job db) =
     (if u = ctx_tenantId c then assign_writes c now i inp s job (tenant_rows u db)
      else tenant_rows u db)"
  by (simp add: assign_writes_def Let_def own_job_update move_shifts_tenant filter_insert_into
      assigned_row_def [abs_def])

definition restricted :: "uuid \<Rightarrow> exn + 'a \<times> dispatch_db \<Rightarrow> exn + 'a \<times> dispatch_db" where
  "restricted t = map_sum id (map_prod id (tenant_rows t))"

lemma restricted_simps [simp]:
  "restricted t (Inr (x, db)) = Inr (x, tenant_rows t db)" "restricted t (Inl e) = Inl e"
  "restricted t (ensure b e k) = ensure b e (restricted t k)"
  "restricted t (require r e f) = require r e (\<lambda>x. restricted t (f x))"
  "restricted t (attempt m h) = attempt m (\<lambda>x. restricted t (h x))"
  by (simp_all add: restricted_def map_sum_combinators)

lemma committed_restricted:
  "tenant_rows t (committed db r) = committed (tenant_rows t db) (restricted t r)"
  by (auto simp: committed_def restricted_def split: sum.split)

lemma sync_shift_None [simp]: "sync_shift t now None to ss = ss"
  by (simp add: sync_shift_def)

lemma handlers_own_rows:
  "restricted (ctx_tenantId c) (setDutyClass c now j k db)
     = setDutyClass c now j k (tenant_rows (ctx_tenantId c) db)"
  "restricted (ctx_tenantId c) (assign c now i j inp db)
     = assign c now i j inp (tenant_rows (ctx_tenantId c) db)"
  "restricted (ctx_tenantId c) (transition c now i j to r db)
     = transition c now i j to r (tenant_rows (ctx_tenantId c) db)"
  "restricted (ctx_tenantId c) (startShift c now i d h db)
     = startShift c now i d h (tenant_rows (ctx_tenantId c) db)"
  "restricted (ctx_tenantId c) (endShift c now i db)
     = endShift c now i (tenant_rows (ctx_tenantId c) db)"
  "restricted (ctx_tenantId c) (updateShiftStatus c now i st db)
     = updateShiftStatus c now i st (tenant_rows (ctx_tenantId c) db)"
  "restricted (ctx_tenantId c) (updateShiftLocation c now i x y db)
     = updateShiftLocation c now i x y (tenant_rows (ctx_tenantId c) db)"
  by (simp_all add: setDutyClass_def assign_def transition_def startShift_def endShift_def
      updateShiftStatus_def updateShiftLocation_def active_shift_def Let_def update_returning_def
      assign_writes_tenant sync_shift_tenant tenant_updates)

lemma addDriver_own_rows:
  "restricted (ctx_tenantId c) (addDriver c i j d r db)
     = addDriver c i j d r (tenant_rows (ctx_tenantId c) db)"
  by (simp add: addDriver_def Let_def filter_insert_into
      option.case_distrib [of "restricted (ctx_tenantId c)"] cong: option.case_cong)

lemma unassign_own_rows:
  "restricted (ctx_tenantId c) (unassign c now i j r db)
     = unassign c now i j r (tenant_rows (ctx_tenantId c) db)"
  by (simp add: unassign_def Let_def update_returning_def tenant_updates
      option.case_distrib [of "filter (\<lambda>s. shift_tenantId s = ctx_tenantId c)"]
      cong: option.case_cong)

lemma allocate_tenant:
  "allocateJobNumber t now (tenant_rows t db)
     = map_prod id (tenant_rows t) (allocateJobNumber t now db)"
  by (simp add: allocateJobNumber_def Let_def split_beta flip: bump_tenant)

lemma number_taken_tenant [simp]:
  "number_taken t n (filter (\<lambda>r. job_tenantId r = t) js) = number_taken t n js"
  by (auto simp: number_taken_def)

lemma create_job_own_rows:
  "restricted (ctx_tenantId c) (create_job c now i inp m off db)
     = create_job c now i inp m off (tenant_rows (ctx_tenantId c) db)"
  by (simp add: create_job_def Let_def split_beta allocate_tenant filter_insert_into)

lemma exec_own_rows: "tenant_rows (caller op) (exec op db) = exec op (tenant_rows (caller op) db)"
  by (cases op) (simp_all add: committed_restricted create_job_own_rows addDriver_own_rows
      handlers_own_rows unassign_own_rows)

text \<open>Nothing of another tenant changes.\<close>

lemma bump_other_rows:
  "u \<noteq> t \<Longrightarrow> tenant_rows u (snd (allocateJobNumber t now db)) = tenant_rows u db"
proof -
  assume "u \<noteq> t"
  then have "tenant_rows u (db\<lparr>jobNumberSequences := snd (bump_job_sequence t k (jobNumberSequences db))\<rparr>)
      = tenant_rows u db" for k
    by (simp add: bump_other tenant_rows_def)
  then show ?thesis by (simp add: allocateJobNumber_def Let_def split_beta)
qed

lemma tenant_rows_same [simp]:
  "(tenant_rows u db)\<lparr>jobs := filter (\<lambda>r. job_tenantId r = u) (jobs db)\<rparr> = tenant_rows u db"
  "(tenant_rows u db)\<lparr>driverShifts := filter (\<lambda>r. shift_tenantId r = u) (driverShifts db)\<rparr>
     = tenant_rows u db"
  "(tenant_rows u db)\<lparr>jobStatusTransitions := filter (\<lambda>r. tr_tenantId r = u) (jobStatusTransitions db)\<rparr>
     = tenant_rows u db"
  "(tenant_rows u db)\<lparr>jobDriverAssignments := filter (\<lambda>r. crew_tenantId r = u) (jobDriverAssignments db)\<rparr>
     = tenant_rows u db"
  by (simp_all add: tenant_rows_def)

lemma frame_of_result:
  assumes "\<And>x db'. r = Inr (x, db') \<Longrightarrow> tenant_rows u db' = tenant_rows u db"
  shows "tenant_rows u (committed db r) = tenant_rows u db"
  using assms by (auto simp: committed_def split: sum.split)

lemma exec_other_rows:
  assumes "u \<noteq> caller op" shows "tenant_rows u (exec op db) = tenant_rows u db"
proof (cases op)
  case (CreateJob c now i inp m off)
  then have u: "u \<noteq> ctx_tenantId c" using assms by simp
  show ?thesis unfolding CreateJob exec.simps
  proof (rule frame_of_result)
    fix x db' assume "create_job c now i inp m off db = Inr (x, db')"
    then have "\<exists>row. job_tenantId row = ctx_tenantId c
        \<and> db' = emit (ctx_tenantId c) (JOB_CREATED i)
          ((snd (allocateJobNumber (ctx_tenantId c) now db))\<lparr>jobs := insert_into row
             (jobs (snd (allocateJobNumber (ctx_tenantId c) now db)))\<rparr>)"
      by (intro exI [of _ x]) (auto simp: create_job_def Let_def split_beta)
    then show "tenant_rows u db' = tenant_rows u db"
      using u bump_other_rows [OF u, of now db] by (auto simp: filter_insert_into simp flip: tenant_rows_simps(1))
  qed
next
  case (AddDriver c i j d r)
  then have u: "u \<noteq> ctx_tenantId c" using assms by simp
  show ?thesis unfolding AddDriver exec.simps
    using u by (intro frame_of_result)
      (auto simp: addDriver_def Let_def filter_insert_into split: option.splits)
next
  case (SetDutyClass c now j k)
  then show ?thesis using assms
    by (auto intro!: frame_of_result simp: setDutyClass_def Let_def update_returning_def tenant_updates)
next
  case (Assign c now i jid inp)
  then show ?thesis using assms
    by (auto intro!: frame_of_result elim!: assign_cases simp: assign_writes_tenant)
next
  case (Unassign c now i jid reason)
  then have u: "u \<noteq> ctx_tenantId c" using assms by simp
  show ?thesis unfolding Unassign exec.simps
    using u by (intro frame_of_result)
      (auto simp: unassign_def Let_def update_returning_def tenant_updates split: option.splits)
next
  case (Transition c now i jid to reason)
  then show ?thesis using assms
    by (auto intro!: frame_of_result
        simp: transition_def Let_def update_returning_def tenant_updates sync_shift_tenant)
next
  case (StartShift c now i d k)
  then show ?thesis using assms
    by (auto intro!: frame_of_result simp: startShift_def Let_def tenant_updates)
next
  case (EndShift c now i)
  then show ?thesis using assms
    by (auto intro!: frame_of_result simp: shift_handler_defs tenant_updates)
next
  case (UpdateShiftStatus c now i s)
  then show ?thesis using assms
    by (auto intro!: frame_of_result simp: shift_handler_defs tenant_updates)
next
  case (UpdateShiftLocation c now i x y)
  then show ?thesis using assms
    by (auto intro!: frame_of_result simp: shift_handler_defs tenant_updates)
qed

interpretation dispatch_rls: tenant_isolation exec caller tenant_rows
  by unfold_locales (rule exec_own_rows, rule exec_other_rows)

end
