(* ===== verification/DispatchProperties.thy ===== *)
theory DispatchProperties
  imports DispatchSafety
begin

text \<open>
  What the dispatch services promise, stated over the handlers and the reachable boards, with
  an example board that the witnesses run on.
\<close>

section \<open>The log only grows\<close>

definition dispatch_step :: "dispatch_db \<Rightarrow> dispatch_db \<Rightarrow> bool" where
  "dispatch_step db db' \<longleftrightarrow> (\<exists>op. fresh op db \<and> db' = exec op db)"

definition log_extends :: "dispatch_db \<Rightarrow> dispatch_db \<Rightarrow> bool" where
  "log_extends db db' \<longleftrightarrow> job_id ` set (jobs db) \<subseteq> job_id ` set (jobs db')
     \<and> (\<exists>ext. jobStatusTransitions db' = jobStatusTransitions db @ ext)"

lemma log_extends_refl [simp]: "log_extends db db"
  by (simp add: log_extends_def)

lemma log_extends_trans: "log_extends a b \<Longrightarrow> log_extends b c \<Longrightarrow> log_extends a c"
  unfolding log_extends_def by (auto simp: subset_iff)

lemma ids_update_where:
  "(\<And>j. job_id (f j) = job_id j) \<Longrightarrow> job_id ` set (update_where P f js) = job_id ` set js"
  by (metis list.set_map map_update_where)

lemma log_extendsI:
  assumes "\<And>x db'. r = Inr (x, db') \<Longrightarrow> log_extends db db'" shows "log_extends db (committed db r)"
  using assms by (auto simp: committed_def split: sum.split)

lemma exec_log_extends: "log_extends db (exec op db)"
proof (cases op)
  case (CreateJob c now i inp m off)
  show ?thesis unfolding CreateJob exec.simps
    by (intro log_extendsI) (auto simp: log_extends_def create_job_tables)
next
  case (AddDriver c i j d r)
  show ?thesis unfolding AddDriver exec.simps
    by (intro log_extendsI) (auto simp: log_extends_def addDriver_tables)
next
  case (SetDutyClass c now j k)
  show ?thesis unfolding SetDutyClass exec.simps
    by (intro log_extendsI) (auto simp: log_extends_def setDutyClass_tables ids_update_where)
next
  case (Assign c now i jid inp)
  have "log_extends db (assign_writes c now i inp s job db)" for s job
    using assign_writes_tables(4,5) [of job c now i inp s db]
    by (cases "job_status job = Job_dispatched")
      (auto simp: log_extends_def assign_writes_tables(1) ids_update_where insert_into_def)
  then show ?thesis unfolding Assign exec.simps
    by (intro log_extendsI) (auto elim!: assign_cases)
next
  case (Unassign c now i jid reason)
  show ?thesis unfolding Unassign exec.simps
    by (intro log_extendsI)
      (auto elim!: unassign_tables simp: log_extends_def ids_update_where insert_into_def)
next
  case (Transition c now i jid to reason)
  show ?thesis unfolding Transition exec.simps
    by (intro log_extendsI)
      (auto elim!: transition_tables simp: log_extends_def ids_update_where insert_into_def)
qed (simp_all, (rule log_extendsI, drule shift_ops_tables, simp add: log_extends_def)+)

lemma steps_log_extends: "dispatch_step\<^sup>*\<^sup>* db db' \<Longrightarrow> log_extends db db'"
  by (induction rule: rtranclp_induct)
    (auto simp: dispatch_step_def intro: log_extends_trans exec_log_extends)

lemma steps_reachable: "dispatch_step\<^sup>*\<^sup>* db db' \<Longrightarrow> reachable db \<Longrightarrow> reachable db'"
  by (induction rule: rtranclp_induct) (auto simp: dispatch_step_def intro: reachable_step)

section \<open>An example board\<close>

text \<open>Tenant 1 with a dispatcher (user 7), a customer, a vehicle and two drivers.\<close>

definition example_ctx :: ctx where
  "example_ctx = \<lparr>ctx_tenantId = 1, ctx_userId = 7, ctx_role = Some Dispatcher\<rparr>"

definition example_start :: dispatch_db where
  "example_start = \<lparr>jobs = [],
     drivers = [\<lparr>driver_id = 20, driver_tenantId = 1, driver_userId = None, driver_active = True,
                 driver_deletedAt = None\<rparr>],
     trucks = [], driverShifts = [], jobStatusTransitions = [], jobDriverAssignments = [],
     customers = [\<lparr>customer_id = 30, customer_tenantId = 1, customer_deletedAt = None\<rparr>],
     vehicles = [\<lparr>vehicle_id = 40, vehicle_tenantId = 1, vehicle_vehicleClass = Heavy_duty,
                  vehicle_deletedAt = None\<rparr>],
     jobNumberSequences = [], events = []\<rparr>"

definition example_input :: create_input where
  "example_input = \<lparr>ci_customerId = 30, ci_vehicleId = 40, ci_accountId = None,
     ci_serviceType = Tow, ci_pickupAddress = ''1 Main St'', ci_dropoffAddress = None,
     ci_authorizedBy = By_customer, ci_authorizedByName = None, ci_notes = None\<rparr>"

text \<open>A job is created and driver 20 clocks on; then the job is assigned, and run to its end.\<close>

definition example_created :: dispatch_db where
  "example_created = fold exec
     [CreateJob example_ctx 1778284800000 100 example_input (None, None) None,
      StartShift example_ctx 1778284800000 200 20 None] example_start"

definition example_assigned :: dispatch_db where
  "example_assigned = exec (Assign example_ctx 1778284860000 300 100
     \<lparr>ai_driverId = 20, ai_truckId = None, ai_shiftId = None\<rparr>) example_created"

definition example_completed :: dispatch_db where
  "example_completed = fold exec
     [Transition example_ctx 1778284920000 301 100 Job_enroute None,
      Transition example_ctx 1778284980000 302 100 Job_on_scene None,
      Transition example_ctx 1778285040000 303 100 Job_in_progress None,
      Transition example_ctx 1778285100000 304 100 Job_completed None] example_assigned"

lemma example_values:
  "map (\<lambda>j. (job_id j, job_jobNumber j, job_status j, job_assignedDriverId j)) (jobs example_created)
     = [(100, ''20260509-0001'', Job_new, None)]"
  "map (\<lambda>j. (job_id j, job_status j, job_assignedDriverId j)) (jobs example_assigned)
     = [(100, Job_dispatched, Some 20)]"
  "map (\<lambda>j. (job_id j, job_status j)) (jobs example_completed) = [(100, Job_completed)]"
  by code_simp+

lemma example_reachable: "reachable example_created" "reachable example_assigned"
  "reachable example_completed"
proof -
  have s: "reachable example_start"
    by (rule reachable_start) (simp add: empty_board_def example_start_def)
  have "fresh (CreateJob example_ctx 1778284800000 100 example_input (None, None) None) example_start"
    by (simp add: example_start_def)
  from reachable_step [OF s this] show c: "reachable example_created"
    unfolding example_created_def by (simp add: reachable_step del: exec.simps)
  show a: "reachable example_assigned"
    unfolding example_assigned_def by (rule reachable_step [OF c]) simp
  show "reachable example_completed"
    unfolding example_completed_def using a by (simp add: reachable_step del: exec.simps)
qed

section \<open>Properties\<close>

text \<open>C1: On every reachable board the status of a job is explained by its transition log: the
  logged moves start at 'new', chain, are legal moves of the table and end at the stored status.\<close>

theorem job_status_explained:
  assumes "reachable db" "j \<in> set (jobs db)"
  shows "legal_log canTransition Job_new (job_log (job_id j) (jobStatusTransitions db)) (job_status j)"
  using reachable_log_inv [OF assms(1)] assms(2) by (simp add: log_inv_def)

lemma example_job: "\<exists>j \<in> set (jobs example_completed). job_id j = 100 \<and> job_status j = Job_completed"
  using example_values(3) by (auto simp: map_eq_Cons_conv)

theorem job_status_explained_witness:
  "legal_log canTransition Job_new (job_log 100 (jobStatusTransitions example_completed)) Job_completed"
proof -
  obtain j where j: "j \<in> set (jobs example_completed)" "job_id j = 100" "job_status j = Job_completed"
    using example_job by blast
  from job_status_explained [OF example_reachable(3) j(1)] j(2,3) show ?thesis by simp
qed

text \<open>A job that reads 'completed' was logged entering 'dispatched', 'enroute', 'on_scene' and
  'in_progress': no stage of the work can be skipped.\<close>

theorem completed_job_passed_every_stage:
  assumes "reachable db" "j \<in> set (jobs db)" "job_status j = Job_completed"
    "s \<in> {Job_dispatched, Job_enroute, Job_on_scene, Job_in_progress}"
  shows "s \<in> snd ` set (job_log (job_id j) (jobStatusTransitions db))"
proof -
  let ?log = "job_log (job_id j) (jobStatusTransitions db)"
  have log: "legal_log canTransition Job_new ?log Job_completed"
    using reachable_log_inv [OF assms(1)] assms(2,3) by (auto simp: log_inv_def)
  have "stage s \<in> {1, 2, 3, 4}" using assms(4) by (auto simp: stage_def)
  then have "\<exists>(a, b) \<in> set ?log. stage b = stage s"
    using legal_log_stages [OF log, of "stage s"] by (auto simp: stage_def)
  then obtain a b where ab: "(a, b) \<in> set ?log" "stage b = stage s" by auto
  then have "b = s" using assms(4) by (cases b) (auto simp: stage_def)
  then show ?thesis using ab(1) by force
qed

theorem completed_job_passed_every_stage_witness:
  "Job_on_scene \<in> snd ` set (job_log 100 (jobStatusTransitions example_completed))"
proof -
  obtain j where j: "j \<in> set (jobs example_completed)" "job_id j = 100" "job_status j = Job_completed"
    using example_job by blast
  from completed_job_passed_every_stage [OF example_reachable(3) j(1,3), of Job_on_scene] j(2)
  show ?thesis by simp
qed

text \<open>C2: A completed, cancelled or goa job keeps that status through any further operations of
  any caller.\<close>

theorem terminal_job_is_final:
  assumes "reachable db" "j \<in> set (jobs db)" "isTerminal (job_status j)" "dispatch_step\<^sup>*\<^sup>* db db'"
  shows "\<exists>j' \<in> set (jobs db'). job_id j' = job_id j \<and> job_status j' = job_status j"
proof -
  from steps_log_extends [OF assms(4)] obtain ext where
      ids: "job_id ` set (jobs db) \<subseteq> job_id ` set (jobs db')"
      and ext: "jobStatusTransitions db' = jobStatusTransitions db @ ext"
    by (auto simp: log_extends_def)
  from ids assms(2) obtain j' where j': "j' \<in> set (jobs db')" "job_id j' = job_id j" by auto
  have old: "legal_log canTransition Job_new (job_log (job_id j) (jobStatusTransitions db)) (job_status j)"
    using reachable_log_inv [OF assms(1)] assms(2) by (simp add: log_inv_def)
  have "legal_log canTransition Job_new
      (job_log (job_id j) (jobStatusTransitions db) @ job_log (job_id j) ext) (job_status j')"
    using reachable_log_inv [OF steps_reachable [OF assms(4,1)]] j' ext
    by (force simp: log_inv_def job_log_def)
  then obtain m where m: "legal_log canTransition Job_new (job_log (job_id j) (jobStatusTransitions db)) m"
      "legal_log canTransition m (job_log (job_id j) ext) (job_status j')"
    by (auto simp: legal_log_append)
  have "m = job_status j" using legal_log_end [OF m(1) old] .
  with m(2) have "canTransition\<^sup>*\<^sup>* (job_status j) (job_status j')" by (simp add: legal_log_path)
  then have "job_status j' = job_status j"
    using job_machine.terminal_forever assms(3) by blast
  with j' show ?thesis by blast
qed

theorem terminal_job_is_final_witness:
  "\<exists>j' \<in> set (jobs (exec (Transition example_ctx 1778285200000 305 100 Job_new None)
      example_completed)). job_id j' = 100 \<and> job_status j' = Job_completed"
proof -
  obtain j where j: "j \<in> set (jobs example_completed)" "job_id j = 100" "job_status j = Job_completed"
    using example_job by blast
  have "dispatch_step\<^sup>*\<^sup>* example_completed
      (exec (Transition example_ctx 1778285200000 305 100 Job_new None) example_completed)"
    by (rule r_into_rtranclp)
      (auto simp: dispatch_step_def simp del: exec.simps
        intro!: exI [of _ "Transition example_ctx 1778285200000 305 100 Job_new None"])
  from terminal_job_is_final [OF example_reachable(3) j(1) _ this] j show ?thesis by simp
qed

text \<open>C3: On a reachable board a job for a live customer and vehicle of the tenant is always
  created: the number handed out differs from every job number of the tenant, so the unique
  index never rejects the insert.\<close>

theorem create_job_number_is_new:
  assumes "reachable db"
    "select_first (\<lambda>c. customer_tenantId c = ctx_tenantId ctx \<and> customer_id c = ci_customerId inp
       \<and> customer_deletedAt c = None) (customers db) = Some cust"
    "select_first (\<lambda>v. vehicle_tenantId v = ctx_tenantId ctx \<and> vehicle_id v = ci_vehicleId inp
       \<and> vehicle_deletedAt v = None) (vehicles db) = Some veh"
  shows "\<exists>row db'. create_job ctx now i inp m off db = Inr (row, db') \<and> job_status row = Job_new
    \<and> (\<forall>j \<in> set (jobs db). job_tenantId j = job_tenantId row \<longrightarrow> job_jobNumber j \<noteq> job_jobNumber row)"
proof -
  obtain number db1 where a: "allocateJobNumber (ctx_tenantId ctx) now db = (number, db1)"
    by (cases "allocateJobNumber (ctx_tenantId ctx) now db")
  note n = create_number [OF reachable_number_inv [OF assms(1)] a]
  have "\<not> number_taken (ctx_tenantId ctx) number (jobs db1)"
    using n(1,2) by (auto simp: number_taken_def)
  then show ?thesis
    using assms(2,3) a n(1) by (simp add: create_job_def Let_def exec_simps)
qed

theorem create_job_number_is_new_witness:
  "\<exists>row db'. create_job example_ctx 1778284900000 101 example_input (None, None) None example_created
      = Inr (row, db')"
proof -
  have "customers example_created = customers example_start"
    "vehicles example_created = vehicles example_start" by code_simp+
  then have "select_first (\<lambda>c. customer_tenantId c = ctx_tenantId example_ctx
      \<and> customer_id c = ci_customerId example_input \<and> customer_deletedAt c = None)
      (customers example_created) = Some (hd (customers example_start))"
    "select_first (\<lambda>v. vehicle_tenantId v = ctx_tenantId example_ctx
      \<and> vehicle_id v = ci_vehicleId example_input \<and> vehicle_deletedAt v = None)
      (vehicles example_created) = Some (hd (vehicles example_start))"
    by (simp_all add: example_start_def example_ctx_def example_input_def select_first_def)
  from create_job_number_is_new [OF example_reachable(1) this] show ?thesis by blast
qed

text \<open>C4: On a reachable board a driver has at most one open shift, and so has a truck.\<close>

theorem one_open_shift:
  assumes "reachable db"
  shows "length (select_where (open_shift_of t d) (driverShifts db)) \<le> 1
    \<and> length (select_where (open_shift_on t k) (driverShifts db)) \<le> 1"
  using reachable_shift_inv [OF assms] by (simp_all add: shift_inv_def select_where_def)

theorem one_open_shift_witness:
  "length (select_where (open_shift_of 1 20) (driverShifts example_completed)) \<le> 1"
  using one_open_shift [OF example_reachable(3)] by blast

text \<open>C5: Whatever the tenants do and however their calls interleave, what a tenant ends up with
  is what its own calls alone produce from its own rows.\<close>

theorem tenants_do_not_interfere:
  "tenant_rows t (fold exec ops db)
     = fold exec (filter (\<lambda>op. caller op = t) ops) (tenant_rows t db)"
  by (rule dispatch_rls.noninterference)

text \<open>A successful assignment makes the job 'dispatched' with the driver and a shift, and that
  shift (the given one, else the driver's open one) shows the job and 'en_route'.\<close>

theorem assign_result:
  assumes "assign ctx now i jid inp db = Inr (row, db')"
  shows "\<exists>s. resolve_shift (ctx_tenantId ctx) inp db = Inr s
    \<and> job_id row = jid \<and> job_status row = Job_dispatched
    \<and> job_assignedDriverId row = Some (ai_driverId inp) \<and> job_assignedShiftId row = Some s
    \<and> row \<in> set (jobs db')
    \<and> (\<forall>sh \<in> set (driverShifts db'). own_shift (ctx_tenantId ctx) s sh \<longrightarrow>
          shift_currentJobId sh = Some jid \<and> shift_status sh = Shift_en_route)"
proof -
  obtain job s row0 where *:
      "select_first (live_job (ctx_tenantId ctx) jid) (jobs db) = Some job"
      "resolve_shift (ctx_tenantId ctx) inp db = Inr s"
      "select_first (own_job (ctx_tenantId ctx) jid) (jobs db) = Some row0"
      "row = assigned_row now inp s row0" "db' = assign_writes ctx now i inp s job db"
    using assms by (auto simp: assign_def Let_def)
  have r0: "own_job (ctx_tenantId ctx) jid row0" "row0 \<in> set (jobs db)"
    using select_first_SomeD [OF *(3)] .
  have jid: "job_id job = jid" using live_job_Some [OF *(1)] by simp
  have "row \<in> set (jobs db')"
    using r0 *(4,5) jid by (auto simp: assign_writes_tables set_update_where)
  moreover have "shift_currentJobId sh = Some jid \<and> shift_status sh = Shift_en_route"
    if "sh \<in> set (driverShifts db')" "own_shift (ctx_tenantId ctx) s sh" for sh
    using that *(5) jid
    by (auto simp: assign_writes_tables move_shifts_def Let_def own_shift_def dest!: in_update_where)
  ultimately show ?thesis
    using * r0(1) by (auto simp: assigned_row_def own_job_def)
qed

theorem assign_result_witness:
  "\<exists>sh \<in> set (driverShifts example_assigned). shift_currentJobId sh = Some 100
     \<and> shift_status sh = Shift_en_route"
proof -
  let ?inp = "\<lparr>ai_driverId = 20, ai_truckId = None, ai_shiftId = None\<rparr>"
  obtain row db' where r: "assign example_ctx 1778284860000 300 100 ?inp example_created = Inr (row, db')"
  proof -
    have "\<not> isl (assign example_ctx 1778284860000 300 100 ?inp example_created)" by code_simp
    then show thesis using that
      by (cases "assign example_ctx 1778284860000 300 100 ?inp example_created") auto
  qed
  have "resolve_shift (ctx_tenantId example_ctx) ?inp example_created = Inr 200" by code_simp
  moreover have "db' = example_assigned" using r by (simp add: example_assigned_def)
  moreover have "\<exists>sh \<in> set (driverShifts example_assigned). own_shift (ctx_tenantId example_ctx) 200 sh"
    by code_simp
  ultimately show ?thesis using assign_result [OF r] by fastforce
qed

text \<open>The generic status endpoint accepts 'new' to 'dispatched' for a job that has no driver: the
  job leaves the queue as dispatched while nobody is assigned to it.\<close>

theorem transition_dispatches_without_driver:
  assumes "select_first (live_job (ctx_tenantId ctx) jid) (jobs db) = Some job"
    "job_status job = Job_new" "job_assignedDriverId job = None"
    "select_first (own_job (ctx_tenantId ctx) jid) (jobs db) = Some job"
  shows "\<exists>row db'. transition ctx now i jid Job_dispatched reason db = Inr (row, db')
    \<and> job_status row = Job_dispatched \<and> job_assignedDriverId row = None
    \<and> driverShifts db' = driverShifts db"
  using assms
  by (auto simp: transition_def Let_def update_returning_def assertCanTransition_def exec_simps
      transition_updates_def sync_shift_def split: option.split)

theorem transition_dispatches_without_driver_witness:
  "\<exists>row db'. transition example_ctx 1778284860000 300 100 Job_dispatched None example_created
      = Inr (row, db') \<and> job_status row = Job_dispatched \<and> job_assignedDriverId row = None"
proof -
  obtain j where j: "jobs example_created = [j]" "job_id j = 100" "job_status j = Job_new"
      "job_assignedDriverId j = None"
    using example_values(1) by auto
  have "map job_tenantId (jobs example_created) = [1]" "map job_deletedAt (jobs example_created) = [None]"
    by code_simp+
  with j have "select_first (live_job (ctx_tenantId example_ctx) 100) (jobs example_created) = Some j"
    "select_first (own_job (ctx_tenantId example_ctx) 100) (jobs example_created) = Some j"
    by (simp_all add: select_first_def live_job_def own_job_def example_ctx_def)
  from transition_dispatches_without_driver [OF this(1) j(3,4) this(2)] show ?thesis by blast
qed

end
