(* ===== verification/ImpoundFees.thy ===== *)
theory ImpoundFees
  imports Dates
begin

text \<open>
  impound/impound-fees.logic.ts and impound/impound-release.logic.ts: which calendar days a
  stored vehicle owes a daily storage fee for, lien eligibility, the fee total, and the gate a
  release has to pass.
\<close>

datatype impound_status = Stored | Pending_release | Released | Transferred | Disposed

fun impound_status_text :: "impound_status \<Rightarrow> string" where
  "impound_status_text Stored = ''stored''"
| "impound_status_text Pending_release = ''pending_release''"
| "impound_status_text Released = ''released''"
| "impound_status_text Transferred = ''transferred''"
| "impound_status_text Disposed = ''disposed''"

definition ACCRUING_STATUSES :: "impound_status list" where
  "ACCRUING_STATUSES = [Stored, Pending_release]"

definition LIEN_ELIGIBLE_AFTER_DAYS :: int where
  "LIEN_ELIGIBLE_AFTER_DAYS = 30"

definition MAX_BACKFILL_DAYS :: nat where
  "MAX_BACKFILL_DAYS = 3660"

record accrual_input =
  ai_storageStartedAt :: instant
  ai_lastAccruedOn :: "string option"
  ai_dailyFeeCents :: cents
  ai_status :: impound_status

record accrual_plan =
  daysToAccrue :: "string list"
  totalCents :: cents
  newLastAccruedOn :: "string option"

text \<open>The loop of lines 94 to 98; the first argument is what the guard leaves.\<close>

fun accrual_days :: "nat \<Rightarrow> string \<Rightarrow> string \<Rightarrow> exn + string list" where
  "accrual_days g cursor todayStr =
     (if g = 0 then Inr []
      else case diffUtcDays cursor todayStr of
          None \<Rightarrow> Inr []
        | Some k \<Rightarrow> if 0 \<le> k
            then attempt (addUtcDays cursor 1) (\<lambda>c. attempt (accrual_days (g - 1) c todayStr)
              (\<lambda>ds. Inr (cursor # ds)))
            else Inr [])"

declare accrual_days.simps [simp del]

text \<open>Lines 85 to 87: the first day that is owed.\<close>

definition accrual_start :: "accrual_input \<Rightarrow> exn + string" where
  "accrual_start inp = (case truthy (ai_lastAccruedOn inp) of
      Some l \<Rightarrow> addUtcDays l 1
    | None \<Rightarrow> toUtcDateString (ai_storageStartedAt inp))"

definition planDailyAccrual :: "accrual_input \<Rightarrow> instant \<Rightarrow> exn + accrual_plan" where
  "planDailyAccrual inp today =
    (let unchanged = \<lparr>daysToAccrue = [], totalCents = 0, newLastAccruedOn = ai_lastAccruedOn inp\<rparr>
     in if ai_status inp \<notin> set ACCRUING_STATUSES then Inr unchanged
        else if ai_dailyFeeCents inp \<le> 0 then Inr unchanged
        else attempt (toUtcDateString today) (\<lambda>todayStr.
          attempt (accrual_start inp) (\<lambda>startStr.
          if (case diffUtcDays startStr todayStr of None \<Rightarrow> False | Some k \<Rightarrow> k < 0)
          then Inr unchanged
          else attempt (accrual_days MAX_BACKFILL_DAYS startStr todayStr) (\<lambda>days.
            if days = [] then Inr unchanged
            else Inr \<lparr>daysToAccrue = days, totalCents = int (length days) * ai_dailyFeeCents inp,
              newLastAccruedOn = Some (last days)\<rparr>))))"

text \<open>\<open>Math.max(0, NaN)\<close> is NaN, and NaN is not at least 30.\<close>

definition daysStored :: "instant \<Rightarrow> instant \<Rightarrow> exn + int option" where
  "daysStored started today = attempt (toUtcDateString started) (\<lambda>a.
     attempt (toUtcDateString today) (\<lambda>b. Inr (map_option (max 0) (diffUtcDays a b))))"

definition computeLienEligibility :: "instant \<Rightarrow> instant \<Rightarrow> exn + bool \<times> int option" where
  "computeLienEligibility started today = attempt (daysStored started today) (\<lambda>d.
     Inr (case d of None \<Rightarrow> False | Some k \<Rightarrow> LIEN_ELIGIBLE_AFTER_DAYS \<le> k, d))"

text \<open>The fees as pairs of an amount and the time of a soft delete.\<close>

definition sumFeeCents :: "(cents \<times> instant option) list \<Rightarrow> cents" where
  "sumFeeCents fees = foldl (\<lambda>acc f. if snd f \<noteq> None then acc else acc + fst f) 0 fees"

record gate_input =
  gi_recordStatus :: impound_status
  gi_activeHoldCount :: nat
  gi_idVerified :: bool
  gi_ownershipDocVerified :: bool

definition evaluateReleaseGate :: "gate_input \<Rightarrow> bool \<times> string list" where
  "evaluateReleaseGate inp =
    (let reasons =
        (if gi_recordStatus inp = Released then [''Record is already released.''] else [])
      @ (if gi_recordStatus inp = Transferred \<or> gi_recordStatus inp = Disposed
         then [''Record is '' @ impound_status_text (gi_recordStatus inp)
           @ '' and cannot be released.''] else [])
      @ (if 0 < gi_activeHoldCount inp
         then [show_nat (gi_activeHoldCount inp)
           @ '' active hold(s) must be released before the vehicle can leave the yard.''] else [])
      @ (if \<not> gi_idVerified inp
         then [''Government-issued ID must be verified before release.''] else [])
      @ (if \<not> gi_ownershipDocVerified inp
         then [''Proof of ownership must be verified before release.''] else [])
     in (reasons = [], reasons))"

lemma evaluateReleaseGate_ok:
  "fst (evaluateReleaseGate inp) \<longleftrightarrow>
     (gi_recordStatus inp = Stored \<or> gi_recordStatus inp = Pending_release)
     \<and> gi_activeHoldCount inp = 0 \<and> gi_idVerified inp \<and> gi_ownershipDocVerified inp"
  by (cases "gi_recordStatus inp") (auto simp: evaluateReleaseGate_def Let_def)

lemma evaluateReleaseGate_eq:
  "evaluateReleaseGate inp = (ok, reasons) \<Longrightarrow> ok \<longleftrightarrow> reasons = []"
  by (auto simp: evaluateReleaseGate_def Let_def)

section \<open>The accrual loop in closed form\<close>

lemma upto_Cons: "a \<le> b \<Longrightarrow> [a..b] = a # [a + 1..b :: int]"
  by (subst upto.simps) simp

lemma accrual_days_iso:
  assumes "plain_day a" "plain_day t" "plain_day (t + 1)" "a \<le> t + 1"
  shows "accrual_days g (iso_date a) (iso_date t)
    = Inr (map iso_date [a .. min t (a + int g - 1)])"
  using assms(1,4)
proof (induction g arbitrary: a)
  case 0
  then show ?case by (subst accrual_days.simps) simp
next
  case (Suc g)
  show ?case
  proof (cases "a \<le> t")
    case True
    have p: "plain_day (a + 1)" using True Suc.prems assms(2,3) by (auto simp: plain_day_def)
    have "accrual_days g (iso_date (a + 1)) (iso_date t)
        = Inr (map iso_date [a + 1 .. min t (a + int (Suc g) - 1)])"
      using Suc.IH [OF p] True by (simp add: algebra_simps)
    moreover have "[a .. min t (a + int (Suc g) - 1)] = a # [a + 1 .. min t (a + int (Suc g) - 1)]"
      using True by (intro upto_Cons) simp
    ultimately show ?thesis
      using True Suc.prems p assms(2)
      by (subst accrual_days.simps) (simp add: diffUtcDays_iso addUtcDays_iso exec_simps)
  next
    case False
    then show ?thesis
      using Suc.prems assms(2)
      by (subst accrual_days.simps) (simp add: diffUtcDays_iso)
  qed
qed

lemma truthy_iso [simp]: "truthy (Some (iso_date n)) = Some (iso_date n)" "truthy None = None"
proof -
  have "iso_date n \<noteq> []"
    by (auto simp: iso_date_def split: prod.splits)
  then show "truthy (Some (iso_date n)) = Some (iso_date n)" "truthy None = None"
    by (simp_all add: truthy_def)
qed

text \<open>The first day that is owed: after the last accrued day, else the storage start.\<close>

definition first_owed :: "instant \<Rightarrow> int option \<Rightarrow> int" where
  "first_owed started l = (case l of None \<Rightarrow> started div day_ms | Some n \<Rightarrow> n + 1)"

lemma accrual_start_iso:
  assumes "ai_lastAccruedOn inp = map_option iso_date l" "\<And>n. l = Some n \<Longrightarrow> plain_day n"
    "plain_day (first_owed (ai_storageStartedAt inp) l)"
  shows "accrual_start inp = Inr (iso_date (first_owed (ai_storageStartedAt inp) l))"
  using assms
  by (cases l) (auto simp: accrual_start_def first_owed_def addUtcDays_iso toUtcDateString_plain
      plain_instant_def)

lemma planDailyAccrual_closed:
  fixes l :: "int option"
  assumes last: "ai_lastAccruedOn inp = map_option iso_date l" "\<And>n. l = Some n \<Longrightarrow> plain_day n"
    and plain: "plain_instant today" "plain_day (today div day_ms + 1)"
      "plain_day (first_owed (ai_storageStartedAt inp) l)"
    and acc: "ai_status inp \<in> set ACCRUING_STATUSES" "0 < ai_dailyFeeCents inp"
    and order: "first_owed (ai_storageStartedAt inp) l \<le> today div day_ms + 1"
  defines "s \<equiv> first_owed (ai_storageStartedAt inp) l"
  defines "e \<equiv> min (today div day_ms) (s + int MAX_BACKFILL_DAYS - 1)"
  shows "planDailyAccrual inp today = Inr \<lparr>daysToAccrue = map iso_date [s..e],
    totalCents = int (length [s..e]) * ai_dailyFeeCents inp,
    newLastAccruedOn = (if [s..e] = [] then map_option iso_date l else Some (iso_date e))\<rparr>"
proof -
  let ?t = "today div day_ms"
  have t: "plain_day ?t" using plain(1) by (simp add: plain_instant_def)
  have start: "accrual_start inp = Inr (iso_date s)"
    using accrual_start_iso [OF last plain(3)] by (simp add: s_def)
  have loop: "accrual_days MAX_BACKFILL_DAYS (iso_date s) (iso_date ?t) = Inr (map iso_date [s..e])"
    using accrual_days_iso [of s ?t MAX_BACKFILL_DAYS] t plain(2,3) order by (simp add: s_def e_def)
  have "last (map iso_date [s..e]) = iso_date e" if "[s..e] \<noteq> []"
  proof -
    have "s \<le> e" using that by simp
    then have "[s..e] = [s..e - 1] @ [e]" by (rule upto_rec2)
    then show ?thesis by simp
  qed
  moreover have "diffUtcDays (iso_date s) (iso_date ?t) = Some (?t - s)"
    using t plain(3) by (simp add: s_def diffUtcDays_iso)
  moreover have "?t < s \<Longrightarrow> [s..e] = []" by (simp add: e_def)
  ultimately show ?thesis
    using acc plain(1) start loop last(1)
    by (auto simp: planDailyAccrual_def Let_def exec_simps toUtcDateString_plain)
qed

end
