(* ===== verification/Impound.thy ===== *)
theory Impound
  imports ImpoundFees
begin

text \<open>
  impound/impound.service.ts and impound/impound-fee-accrual.cron.ts: the yards, the impound
  records with their holds, fees and releases, and the nightly fee accrual.  The tables form an
  extensible record, so that the lien, yard and auction modules can add theirs.  \<open>now\<close> is
  the instant of a handler and fresh uuids are arguments.
\<close>

section \<open>Tables\<close>

record yard_row =
  yard_id :: uuid
  yard_tenantId :: uuid
  yard_name :: string
  yard_code :: string
  yard_addressLine1 :: "string option"
  yard_addressLine2 :: "string option"
  yard_city :: "string option"
  yard_state :: "string option"
  yard_postalCode :: "string option"
  yard_capacity :: "int option"
  yard_isActive :: bool
  yard_notes :: "string option"
  yard_updatedAt :: instant
  yard_deletedAt :: "instant option"

record impound_row =
  imp_id :: uuid
  imp_tenantId :: uuid
  imp_yardId :: uuid
  imp_jobId :: "uuid option"
  imp_vehicleId :: "uuid option"
  imp_vehicleMake :: "string option"
  imp_vehicleModel :: "string option"
  imp_vehicleYear :: "int option"
  imp_vehicleColor :: "string option"
  imp_vehicleVin :: "string option"
  imp_licensePlate :: "string option"
  imp_licenseState :: "string option"
  imp_status :: impound_status
  imp_arrivedAt :: instant
  imp_storageStartedAt :: instant
  imp_releasedAt :: "instant option"
  imp_dailyFeeCents :: cents
  imp_intakeMileage :: "int option"
  imp_intakePhotoKeys :: "string list"
  imp_conditionNotes :: "string option"
  imp_lienEligible :: bool
  imp_lienEligibleAt :: "instant option"
  imp_accruedFeeCents :: cents
  imp_lastAccruedOn :: "string option"
  imp_createdBy :: "uuid option"
  imp_updatedAt :: instant
  imp_deletedAt :: "instant option"

datatype hold_type = Hold_police | Hold_abandoned | Hold_accident | Hold_owner_request

record hold_row =
  hold_id :: uuid
  hold_tenantId :: uuid
  hold_impoundRecordId :: uuid
  hold_holdType :: hold_type
  hold_authorityName :: "string option"
  hold_authorityReference :: "string option"
  hold_reason :: "string option"
  hold_placedBy :: "uuid option"
  hold_placedAt :: instant
  hold_releasedAt :: "instant option"
  hold_releasedBy :: "uuid option"
  hold_notes :: "string option"
  hold_updatedAt :: instant
  hold_deletedAt :: "instant option"

datatype fee_type = Fee_daily_storage | Fee_intake | Fee_administrative | Fee_lien_processing
  | Fee_gate | Fee_other

record fee_row =
  fee_id :: uuid
  fee_tenantId :: uuid
  fee_impoundRecordId :: uuid
  fee_feeType :: fee_type
  fee_description :: "string option"
  fee_amountCents :: cents
  fee_accruedForDate :: "string option"
  fee_createdBy :: "uuid option"
  fee_deletedAt :: "instant option"

datatype released_to_type = To_owner | To_agent | To_insurance | To_lienholder | To_salvage | To_other

datatype release_method = Pay_cash | Pay_card | Pay_check | Pay_ach | Pay_waived | Pay_other

record release_row =
  rel_id :: uuid
  rel_tenantId :: uuid
  rel_impoundRecordId :: uuid
  rel_releasedToName :: string
  rel_releasedToType :: released_to_type
  rel_idVerified :: bool
  rel_ownershipDocVerified :: bool
  rel_authorizationDocRef :: "string option"
  rel_paymentReceivedCents :: cents
  rel_paymentMethod :: "release_method option"
  rel_totalFeesCents :: cents
  rel_releasedBy :: "uuid option"
  rel_releasedAt :: instant
  rel_notes :: "string option"
  rel_deletedAt :: "instant option"

datatype impound_event =
    IMPOUND_OPENED uuid uuid impound_status
  | IMPOUND_RELEASED uuid string cents

record impound_db =
  impoundYards :: "yard_row list"
  impoundRecords :: "impound_row list"
  impoundHolds :: "hold_row list"
  impoundFees :: "fee_row list"
  impoundReleases :: "release_row list"
  impoundEvents :: "(uuid \<times> impound_event) list"

definition live_yard :: "uuid \<Rightarrow> uuid \<Rightarrow> yard_row \<Rightarrow> bool" where
  "live_yard t i y \<longleftrightarrow> yard_tenantId y = t \<and> yard_id y = i \<and> yard_deletedAt y = None"

definition live_impound :: "uuid \<Rightarrow> uuid \<Rightarrow> impound_row \<Rightarrow> bool" where
  "live_impound t i r \<longleftrightarrow> imp_tenantId r = t \<and> imp_id r = i \<and> imp_deletedAt r = None"

definition own_impound :: "uuid \<Rightarrow> uuid \<Rightarrow> impound_row \<Rightarrow> bool" where
  "own_impound t i r \<longleftrightarrow> imp_tenantId r = t \<and> imp_id r = i"

definition live_hold_of :: "uuid \<Rightarrow> uuid \<Rightarrow> hold_row \<Rightarrow> bool" where
  "live_hold_of t i h \<longleftrightarrow> hold_tenantId h = t \<and> hold_impoundRecordId h = i \<and> hold_deletedAt h = None"

definition live_fee_of :: "uuid \<Rightarrow> uuid \<Rightarrow> fee_row \<Rightarrow> bool" where
  "live_fee_of t i f \<longleftrightarrow> fee_tenantId f = t \<and> fee_impoundRecordId f = i \<and> fee_deletedAt f = None"

definition in_storage :: "impound_status \<Rightarrow> bool" where
  "in_storage s \<longleftrightarrow> s = Stored \<or> s = Pending_release"

definition impound_not_found :: exn where
  "impound_not_found = NotFound ''Impound record not found''"

section \<open>Yards\<close>

definition lower_char :: "char \<Rightarrow> char" where
  "lower_char c = (if 65 \<le> (of_char c :: nat) \<and> (of_char c :: nat) \<le> 90
     then char_of ((of_char c :: nat) + 32) else c)"

text \<open>The unique index on (tenant_id, lower(code)) over live yards.\<close>

definition yard_code_taken :: "uuid \<Rightarrow> string \<Rightarrow> yard_row list \<Rightarrow> bool" where
  "yard_code_taken t code ys \<longleftrightarrow> (\<exists>y \<in> set ys. yard_tenantId y = t \<and> yard_deletedAt y = None
     \<and> map lower_char (yard_code y) = map lower_char code)"

record create_yard_input =
  cy_name :: string
  cy_code :: string
  cy_addressLine1 :: "string option"
  cy_addressLine2 :: "string option"
  cy_city :: "string option"
  cy_state :: "string option"
  cy_postalCode :: "string option"
  cy_capacity :: "int option"
  cy_isActive :: bool
  cy_notes :: "string option"

definition createYard :: "ctx \<Rightarrow> instant \<Rightarrow> uuid \<Rightarrow> create_yard_input \<Rightarrow> 'a impound_db_scheme \<Rightarrow>
    exn + yard_row \<times> 'a impound_db_scheme" where
  "createYard ctx now newId inp db =
    (let t = ctx_tenantId ctx;
         row = \<lparr>yard_id = newId, yard_tenantId = t, yard_name = cy_name inp,
           yard_code = cy_code inp, yard_addressLine1 = cy_addressLine1 inp,
           yard_addressLine2 = cy_addressLine2 inp, yard_city = cy_city inp,
           yard_state = cy_state inp, yard_postalCode = cy_postalCode inp,
           yard_capacity = cy_capacity inp, yard_isActive = cy_isActive inp,
           yard_notes = cy_notes inp, yard_updatedAt = now, yard_deletedAt = None\<rparr>
     in ensure (\<not> yard_code_taken t (cy_code inp) (impoundYards db))
          (Failure ''impound_yards_tenant_code_unique'')
          (Inr (row, db\<lparr>impoundYards := insert_into row (impoundYards db)\<rparr>)))"

text \<open>A patch: an absent field is \<^term>\<open>None\<close>, a nullable one set to null \<^term>\<open>Some None\<close>.\<close>

record update_yard_input =
  uy_name :: "string option"
  uy_code :: "string option"
  uy_addressLine1 :: "string option option"
  uy_addressLine2 :: "string option option"
  uy_city :: "string option option"
  uy_state :: "string option option"
  uy_postalCode :: "string option option"
  uy_capacity :: "int option option"
  uy_isActive :: "bool option"
  uy_notes :: "string option option"

definition updateYard :: "ctx \<Rightarrow> instant \<Rightarrow> uuid \<Rightarrow> update_yard_input \<Rightarrow> 'a impound_db_scheme \<Rightarrow>
    exn + yard_row \<times> 'a impound_db_scheme" where
  "updateYard ctx now yardId inp db =
    (let t = ctx_tenantId ctx in
     require (select_first (live_yard t yardId) (impoundYards db)) (NotFound ''Yard not found'')
       (\<lambda>existing.
     ensure (case uy_code inp of None \<Rightarrow> True | Some c \<Rightarrow>
         \<not> yard_code_taken t c (filter (\<lambda>y. \<not> live_yard t yardId y) (impoundYards db)))
       (Failure ''impound_yards_tenant_code_unique'') (
     (let (updated, tbl) = update_returning (live_yard t yardId)
            (\<lambda>y. y\<lparr>yard_name := patched (uy_name inp) (yard_name y),
               yard_code := patched (uy_code inp) (yard_code y),
               yard_addressLine1 := patched (uy_addressLine1 inp) (yard_addressLine1 y),
               yard_addressLine2 := patched (uy_addressLine2 inp) (yard_addressLine2 y),
               yard_city := patched (uy_city inp) (yard_city y),
               yard_state := patched (uy_state inp) (yard_state y),
               yard_postalCode := patched (uy_postalCode inp) (yard_postalCode y),
               yard_capacity := patched (uy_capacity inp) (yard_capacity y),
               yard_isActive := patched (uy_isActive inp) (yard_isActive y),
               yard_notes := patched (uy_notes inp) (yard_notes y),
               yard_updatedAt := now\<rparr>) (impoundYards db)
      in require updated (NotFound ''Yard not found'') (\<lambda>row.
           Inr (row, db\<lparr>impoundYards := tbl\<rparr>))))))"

text \<open>The guard looks at one live record of the yard (\<open>findFirst\<close>), whichever comes first.\<close>

definition softDeleteYard :: "ctx \<Rightarrow> instant \<Rightarrow> uuid \<Rightarrow> 'a impound_db_scheme \<Rightarrow>
    exn + unit \<times> 'a impound_db_scheme" where
  "softDeleteYard ctx now yardId db =
    (let t = ctx_tenantId ctx in
     require (select_first (live_yard t yardId) (impoundYards db)) (NotFound ''Yard not found'')
       (\<lambda>existing.
     ensure (case select_first (\<lambda>r. imp_tenantId r = t \<and> imp_yardId r = yardId
          \<and> imp_deletedAt r = None) (impoundRecords db) of
         None \<Rightarrow> True | Some live \<Rightarrow> \<not> in_storage (imp_status live))
       (Conflict ''INVALID_STATE'' ''Cannot delete a yard that still holds active vehicles.'') (
     Inr ((), db\<lparr>impoundYards := update_where (\<lambda>y. yard_tenantId y = t \<and> yard_id y = yardId)
        (\<lambda>y. y\<lparr>yard_deletedAt := Some now\<rparr>) (impoundYards db)\<rparr>))))"

section \<open>Records\<close>

record intake_input =
  ii_yardId :: uuid
  ii_jobId :: "uuid option"
  ii_vehicleId :: "uuid option"
  ii_vehicleMake :: "string option"
  ii_vehicleModel :: "string option"
  ii_vehicleYear :: "int option"
  ii_vehicleColor :: "string option"
  ii_vehicleVin :: "string option"
  ii_licensePlate :: "string option"
  ii_licenseState :: "string option"
  ii_arrivedAt :: "instant option"
  ii_storageStartedAt :: "instant option"
  ii_dailyFeeCents :: cents
  ii_intakeMileage :: "int option"
  ii_intakePhotoKeys :: "string list"
  ii_conditionNotes :: "string option"

definition intakeRecord :: "ctx \<Rightarrow> instant \<Rightarrow> uuid \<Rightarrow> intake_input \<Rightarrow> 'a impound_db_scheme \<Rightarrow>
    exn + impound_row \<times> 'a impound_db_scheme" where
  "intakeRecord ctx now newId inp db =
    (let t = ctx_tenantId ctx in
     require (select_first (live_yard t (ii_yardId inp)) (impoundYards db))
       (NotFound ''Yard not found in this tenant'') (\<lambda>yard.
     (let arrivedAt = (case ii_arrivedAt inp of Some a \<Rightarrow> a | None \<Rightarrow> now);
          storageStartedAt = (case ii_storageStartedAt inp of Some a \<Rightarrow> a | None \<Rightarrow> arrivedAt);
          row = \<lparr>imp_id = newId, imp_tenantId = t, imp_yardId = ii_yardId inp,
            imp_jobId = ii_jobId inp, imp_vehicleId = ii_vehicleId inp,
            imp_vehicleMake = ii_vehicleMake inp, imp_vehicleModel = ii_vehicleModel inp,
            imp_vehicleYear = ii_vehicleYear inp, imp_vehicleColor = ii_vehicleColor inp,
            imp_vehicleVin = ii_vehicleVin inp, imp_licensePlate = ii_licensePlate inp,
            imp_licenseState = ii_licenseState inp, imp_status = Stored,
            imp_arrivedAt = arrivedAt, imp_storageStartedAt = storageStartedAt,
            imp_releasedAt = None, imp_dailyFeeCents = ii_dailyFeeCents inp,
            imp_intakeMileage = ii_intakeMileage inp,
            imp_intakePhotoKeys = ii_intakePhotoKeys inp,
            imp_conditionNotes = ii_conditionNotes inp, imp_lienEligible = False,
            imp_lienEligibleAt = None, imp_accruedFeeCents = 0, imp_lastAccruedOn = None,
            imp_createdBy = Some (ctx_userId ctx), imp_updatedAt = now, imp_deletedAt = None\<rparr>
      in Inr (row, db\<lparr>impoundRecords := insert_into row (impoundRecords db),
           impoundEvents := impoundEvents db @ [(t, IMPOUND_OPENED newId (ii_yardId inp) Stored)]\<rparr>))))"

record update_record_input =
  ur_yardId :: "uuid option"
  ur_vehicleMake :: "string option option"
  ur_vehicleModel :: "string option option"
  ur_vehicleYear :: "int option option"
  ur_vehicleColor :: "string option option"
  ur_vehicleVin :: "string option option"
  ur_licensePlate :: "string option option"
  ur_licenseState :: "string option option"
  ur_dailyFeeCents :: "cents option"
  ur_intakeMileage :: "int option option"
  ur_conditionNotes :: "string option option"

definition updateRecord :: "ctx \<Rightarrow> instant \<Rightarrow> uuid \<Rightarrow> update_record_input \<Rightarrow> 'a impound_db_scheme \<Rightarrow>
    exn + impound_row \<times> 'a impound_db_scheme" where
  "updateRecord ctx now recordId inp db =
    (let t = ctx_tenantId ctx in
     require (select_first (live_impound t recordId) (impoundRecords db)) impound_not_found
       (\<lambda>existing.
     ensure (in_storage (imp_status existing))
       (Conflict ''INVALID_STATE'' (''Cannot edit a record in ''
          @ quoted (impound_status_text (imp_status existing)) @ '' state.'')) (
     attempt (case ur_yardId inp of None \<Rightarrow> Inr ()
       | Some y \<Rightarrow> if y = imp_yardId existing then Inr ()
           else require (select_first (live_yard t y) (impoundYards db))
             (NotFound ''Target yard not found'') (\<lambda>_. Inr ())) (\<lambda>_.
     (let (updated, tbl) = update_returning (live_impound t recordId)
            (\<lambda>r. r\<lparr>imp_yardId := patched (ur_yardId inp) (imp_yardId r),
               imp_vehicleMake := patched (ur_vehicleMake inp) (imp_vehicleMake r),
               imp_vehicleModel := patched (ur_vehicleModel inp) (imp_vehicleModel r),
               imp_vehicleYear := patched (ur_vehicleYear inp) (imp_vehicleYear r),
               imp_vehicleColor := patched (ur_vehicleColor inp) (imp_vehicleColor r),
               imp_vehicleVin := patched (ur_vehicleVin inp) (imp_vehicleVin r),
               imp_licensePlate := patched (ur_licensePlate inp) (imp_licensePlate r),
               imp_licenseState := patched (ur_licenseState inp) (imp_licenseState r),
               imp_dailyFeeCents := patched (ur_dailyFeeCents inp) (imp_dailyFeeCents r),
               imp_intakeMileage := patched (ur_intakeMileage inp) (imp_intakeMileage r),
               imp_conditionNotes := patched (ur_conditionNotes inp) (imp_conditionNotes r),
               imp_updatedAt := now\<rparr>) (impoundRecords db)
      in require updated impound_not_found (\<lambda>row.
           Inr (row, db\<lparr>impoundRecords := tbl\<rparr>)))))))"

text \<open>\<open>Array.from(new Set(xs))\<close> keeps the first occurrence of each element.\<close>

definition js_unique :: "'a list \<Rightarrow> 'a list" where
  "js_unique xs = rev (remdups (rev xs))"

definition registerPhotos :: "ctx \<Rightarrow> instant \<Rightarrow> uuid \<Rightarrow> string list \<Rightarrow> 'a impound_db_scheme \<Rightarrow>
    exn + impound_row \<times> 'a impound_db_scheme" where
  "registerPhotos ctx now recordId keys db =
    (let t = ctx_tenantId ctx in
     require (select_first (live_impound t recordId) (impoundRecords db)) impound_not_found
       (\<lambda>existing.
     (let merged = take 50 (js_unique (imp_intakePhotoKeys existing @ keys));
          (updated, tbl) = update_returning (own_impound t recordId)
            (\<lambda>r. r\<lparr>imp_intakePhotoKeys := merged, imp_updatedAt := now\<rparr>) (impoundRecords db)
      in require updated impound_not_found (\<lambda>row. Inr (row, db\<lparr>impoundRecords := tbl\<rparr>)))))"

datatype disposition = Close_transferred | Close_disposed

fun disposition_status :: "disposition \<Rightarrow> impound_status" where
  "disposition_status Close_transferred = Transferred"
| "disposition_status Close_disposed = Disposed"

text \<open>The note lines 359 to 361 and 427 to 429 append: old notes, a newline, a tag, the new note.\<close>

definition merged_note :: "string option \<Rightarrow> string \<Rightarrow> string option \<Rightarrow> string option" where
  "merged_note old tag new = (case truthy new of None \<Rightarrow> old
     | Some n \<Rightarrow> Some ((case truthy old of None \<Rightarrow> [] | Some o' \<Rightarrow> o' @ [CHR 0x0A])
         @ ''['' @ tag @ ''] '' @ n))"

definition closeRecord :: "ctx \<Rightarrow> instant \<Rightarrow> uuid \<Rightarrow> disposition \<Rightarrow> string option \<Rightarrow>
    'a impound_db_scheme \<Rightarrow> exn + impound_row \<times> 'a impound_db_scheme" where
  "closeRecord ctx now recordId disp notes db =
    (let t = ctx_tenantId ctx; tag = impound_status_text (disposition_status disp) in
     require (select_first (live_impound t recordId) (impoundRecords db)) impound_not_found
       (\<lambda>existing.
     ensure (in_storage (imp_status existing))
       (Conflict ''INVALID_STATE'' (''Record is ''
          @ quoted (impound_status_text (imp_status existing)) @ '' and cannot be '' @ tag @ ''.'')) (
     (let (updated, tbl) = update_returning (own_impound t recordId)
            (\<lambda>r. r\<lparr>imp_status := disposition_status disp, imp_releasedAt := Some now,
               imp_conditionNotes := merged_note (imp_conditionNotes existing) tag notes,
               imp_updatedAt := now\<rparr>) (impoundRecords db)
      in require updated impound_not_found (\<lambda>row. Inr (row, db\<lparr>impoundRecords := tbl\<rparr>))))))"

section \<open>Holds and fees\<close>

record add_hold_input =
  ah_holdType :: hold_type
  ah_authorityName :: "string option"
  ah_authorityReference :: "string option"
  ah_reason :: "string option"
  ah_notes :: "string option"

definition addHold :: "ctx \<Rightarrow> instant \<Rightarrow> uuid \<Rightarrow> uuid \<Rightarrow> add_hold_input \<Rightarrow> 'a impound_db_scheme \<Rightarrow>
    exn + hold_row \<times> 'a impound_db_scheme" where
  "addHold ctx now newId recordId inp db =
    (let t = ctx_tenantId ctx in
     require (select_first (live_impound t recordId) (impoundRecords db)) impound_not_found (\<lambda>record.
     (let row = \<lparr>hold_id = newId, hold_tenantId = t, hold_impoundRecordId = recordId,
            hold_holdType = ah_holdType inp, hold_authorityName = ah_authorityName inp,
            hold_authorityReference = ah_authorityReference inp, hold_reason = ah_reason inp,
            hold_placedBy = Some (ctx_userId ctx), hold_placedAt = now, hold_releasedAt = None,
            hold_releasedBy = None, hold_notes = ah_notes inp, hold_updatedAt = now,
            hold_deletedAt = None\<rparr>
      in Inr (row, db\<lparr>impoundHolds := insert_into row (impoundHolds db)\<rparr>))))"

definition releaseHold :: "ctx \<Rightarrow> instant \<Rightarrow> uuid \<Rightarrow> uuid \<Rightarrow> string option \<Rightarrow>
    'a impound_db_scheme \<Rightarrow> exn + hold_row \<times> 'a impound_db_scheme" where
  "releaseHold ctx now recordId holdId notes db =
    (let t = ctx_tenantId ctx in
     require (select_first (\<lambda>h. hold_tenantId h = t \<and> hold_id h = holdId \<and> hold_deletedAt h = None)
         (impoundHolds db)) (NotFound ''Hold not found'') (\<lambda>hold.
     ensure (hold_impoundRecordId hold = recordId) (NotFound ''Hold not found'') (
     if hold_releasedAt hold \<noteq> None then Inr (hold, db)
     else (let (updated, tbl) = update_returning (\<lambda>h. hold_tenantId h = t \<and> hold_id h = holdId)
            (\<lambda>h. h\<lparr>hold_releasedAt := Some now, hold_releasedBy := Some (ctx_userId ctx),
               hold_notes := merged_note (hold_notes hold) ''released'' notes,
               hold_updatedAt := now\<rparr>) (impoundHolds db)
      in require updated (NotFound ''Hold not found'') (\<lambda>row.
           Inr (row, db\<lparr>impoundHolds := tbl\<rparr>))))))"

definition addFee :: "ctx \<Rightarrow> uuid \<Rightarrow> uuid \<Rightarrow> fee_type \<Rightarrow> string option \<Rightarrow> cents \<Rightarrow>
    'a impound_db_scheme \<Rightarrow> exn + fee_row \<times> 'a impound_db_scheme" where
  "addFee ctx newId recordId feeType description amountCents db =
    (let t = ctx_tenantId ctx in
     require (select_first (live_impound t recordId) (impoundRecords db)) impound_not_found (\<lambda>record.
     (let row = \<lparr>fee_id = newId, fee_tenantId = t, fee_impoundRecordId = recordId,
            fee_feeType = feeType, fee_description = description, fee_amountCents = amountCents,
            fee_accruedForDate = None, fee_createdBy = Some (ctx_userId ctx), fee_deletedAt = None\<rparr>
      in ensure (0 \<le> amountCents) (Failure ''impound_fees_amount_nonneg'') (
         ensure (feeType \<noteq> Fee_daily_storage) (Failure ''impound_fees_daily_requires_date'')
           (Inr (row, db\<lparr>impoundFees := insert_into row (impoundFees db)\<rparr>))))))"

section \<open>Release\<close>

record release_input =
  ri_releasedToName :: string
  ri_releasedToType :: released_to_type
  ri_idVerified :: bool
  ri_ownershipDocVerified :: bool
  ri_authorizationDocRef :: "string option"
  ri_paymentReceivedCents :: cents
  ri_paymentMethod :: "release_method option"
  ri_notes :: "string option"

definition active_holds :: "uuid \<Rightarrow> uuid \<Rightarrow> 'a impound_db_scheme \<Rightarrow> hold_row list" where
  "active_holds t recordId db = filter (\<lambda>h. hold_releasedAt h = None)
     (select_where (live_hold_of t recordId) (impoundHolds db))"

definition record_fees :: "uuid \<Rightarrow> uuid \<Rightarrow> 'a impound_db_scheme \<Rightarrow> (cents \<times> instant option) list" where
  "record_fees t recordId db = map (\<lambda>f. (fee_amountCents f, fee_deletedAt f))
     (select_where (live_fee_of t recordId) (impoundFees db))"

text \<open>\<open>reasons.join(' ')\<close>.\<close>

fun join_words :: "string list \<Rightarrow> string" where
  "join_words [] = []"
| "join_words [w] = w"
| "join_words (w # ws) = w @ '' '' @ join_words ws"

definition releaseRecord :: "ctx \<Rightarrow> instant \<Rightarrow> uuid \<Rightarrow> uuid \<Rightarrow> release_input \<Rightarrow>
    'a impound_db_scheme \<Rightarrow> exn + (impound_row \<times> release_row) \<times> 'a impound_db_scheme" where
  "releaseRecord ctx now newId recordId inp db =
    (let t = ctx_tenantId ctx in
     require (select_first (live_impound t recordId) (impoundRecords db)) impound_not_found (\<lambda>record.
     (let (ok, reasons) = evaluateReleaseGate
            \<lparr>gi_recordStatus = imp_status record,
             gi_activeHoldCount = length (active_holds t recordId db),
             gi_idVerified = ri_idVerified inp,
             gi_ownershipDocVerified = ri_ownershipDocVerified inp\<rparr>
      in ensure ok (Conflict ''RELEASE_BLOCKED'' (join_words reasons)) (
     (let row = \<lparr>rel_id = newId, rel_tenantId = t, rel_impoundRecordId = recordId,
            rel_releasedToName = ri_releasedToName inp, rel_releasedToType = ri_releasedToType inp,
            rel_idVerified = ri_idVerified inp,
            rel_ownershipDocVerified = ri_ownershipDocVerified inp,
            rel_authorizationDocRef = ri_authorizationDocRef inp,
            rel_paymentReceivedCents = ri_paymentReceivedCents inp,
            rel_paymentMethod = ri_paymentMethod inp,
            rel_totalFeesCents = sumFeeCents (record_fees t recordId db),
            rel_releasedBy = Some (ctx_userId ctx), rel_releasedAt = now,
            rel_notes = ri_notes inp, rel_deletedAt = None\<rparr>;
          (updated, tbl) = update_returning (own_impound t recordId)
            (\<lambda>r. r\<lparr>imp_status := Released, imp_releasedAt := Some now, imp_updatedAt := now\<rparr>)
            (impoundRecords db)
      in ensure (\<not> (\<exists>r \<in> set (impoundReleases db). rel_impoundRecordId r = recordId
             \<and> rel_deletedAt r = None)) (Failure ''impound_releases_record_unique'') (
         require updated impound_not_found (\<lambda>recordRow.
           Inr ((recordRow, row),
             db\<lparr>impoundReleases := insert_into row (impoundReleases db),
               impoundRecords := tbl,
               impoundEvents := impoundEvents db @ [(t, IMPOUND_RELEASED recordId
                 (ri_releasedToName inp) (rel_totalFeesCents row))]\<rparr>))))))))"

section \<open>Nightly accrual\<close>

text \<open>The partial unique index on (impound_record_id, accrued_for_date) over live daily fees.\<close>

definition day_billed :: "uuid \<Rightarrow> string \<Rightarrow> fee_row list \<Rightarrow> bool" where
  "day_billed recordId day fees \<longleftrightarrow> (\<exists>f \<in> set fees. fee_impoundRecordId f = recordId
     \<and> fee_accruedForDate f = Some day \<and> fee_feeType f = Fee_daily_storage \<and> fee_deletedAt f = None)"

text \<open>The description is the text 'Daily storage', a dash and the day; only its ASCII part is
  kept.\<close>

definition daily_fee :: "uuid \<Rightarrow> impound_row \<Rightarrow> string \<Rightarrow> fee_row" where
  "daily_fee newId record day = \<lparr>fee_id = newId, fee_tenantId = imp_tenantId record,
     fee_impoundRecordId = imp_id record, fee_feeType = Fee_daily_storage,
     fee_description = Some (''Daily storage '' @ day), fee_amountCents = imp_dailyFeeCents record,
     fee_accruedForDate = Some day, fee_createdBy = None, fee_deletedAt = None\<rparr>"

text \<open>\<open>insert(...).values(days).onConflictDoNothing().returning()\<close>: the inserted rows and the table.\<close>

fun insert_daily_fees :: "(nat \<Rightarrow> uuid) \<Rightarrow> impound_row \<Rightarrow> string list \<Rightarrow> fee_row list \<Rightarrow>
    fee_row list \<times> fee_row list" where
  "insert_daily_fees ids record [] fees = ([], fees)"
| "insert_daily_fees ids record (day # days) fees =
     (if day_billed (imp_id record) day fees
      then insert_daily_fees (\<lambda>k. ids (Suc k)) record days fees
      else let row = daily_fee (ids 0) record day;
               (rows, tbl) = insert_daily_fees (\<lambda>k. ids (Suc k)) record days (insert_into row fees)
           in (row # rows, tbl))"

record accrual_result =
  ar_daysAccrued :: nat
  ar_centsAccrued :: cents
  ar_lienFlagged :: bool

text \<open>Lines 150 to 160: the patch of the record.\<close>

definition accrual_patch ::
    "instant \<Rightarrow> impound_row \<Rightarrow> accrual_plan \<Rightarrow> nat \<Rightarrow> bool \<Rightarrow> impound_row \<Rightarrow> impound_row" where
  "accrual_patch now record plan daysAccrued newlyLienEligible r =
    (let r1 = r\<lparr>imp_updatedAt := now\<rparr>;
         r2 = (if 0 < daysAccrued
           then r1\<lparr>imp_accruedFeeCents := imp_accruedFeeCents record
               + int daysAccrued * imp_dailyFeeCents record,
             imp_lastAccruedOn := newLastAccruedOn plan\<rparr> else r1)
     in if newlyLienEligible
        then r2\<lparr>imp_lienEligible := True, imp_lienEligibleAt := Some now\<rparr> else r2)"

definition accrual_input_of :: "impound_row \<Rightarrow> accrual_input" where
  "accrual_input_of r = \<lparr>ai_storageStartedAt = imp_storageStartedAt r,
     ai_lastAccruedOn = imp_lastAccruedOn r, ai_dailyFeeCents = imp_dailyFeeCents r,
     ai_status = imp_status r\<rparr>"

definition accrueOne :: "instant \<Rightarrow> (nat \<Rightarrow> uuid) \<Rightarrow> uuid \<Rightarrow> 'a impound_db_scheme \<Rightarrow>
    exn + accrual_result \<times> 'a impound_db_scheme" where
  "accrueOne now ids recordId db =
    (case select_first (\<lambda>r. imp_id r = recordId \<and> imp_deletedAt r = None) (impoundRecords db) of
       None \<Rightarrow> Inr (\<lparr>ar_daysAccrued = 0, ar_centsAccrued = 0, ar_lienFlagged = False\<rparr>, db)
     | Some record \<Rightarrow>
       attempt (planDailyAccrual (accrual_input_of record) now) (\<lambda>plan.
       (let (inserted, fees) = insert_daily_fees ids record (daysToAccrue plan) (impoundFees db);
            daysAccrued = length inserted
        in attempt (computeLienEligibility (imp_storageStartedAt record) now) (\<lambda>(eligible, _).
           (let newlyLienEligible = (eligible \<and> \<not> imp_lienEligible record)
            in Inr (\<lparr>ar_daysAccrued = daysAccrued,
                  ar_centsAccrued = int daysAccrued * imp_dailyFeeCents record,
                  ar_lienFlagged = newlyLienEligible\<rparr>,
                db\<lparr>impoundFees := fees,
                  impoundRecords := (if 0 < daysAccrued \<or> newlyLienEligible
                    then update_where (\<lambda>r. imp_id r = imp_id record)
                      (accrual_patch now record plan daysAccrued newlyLienEligible)
                      (impoundRecords db)
                    else impoundRecords db)\<rparr>))))))"

record tick_result =
  tk_recordsScanned :: nat
  tk_recordsAccrued :: nat
  tk_daysAccrued :: nat
  tk_centsAccrued :: cents
  tk_lienFlagged :: nat

text \<open>One record of the sweep; its failure is logged and does not abort the sweep.\<close>

definition tick_step :: "instant \<Rightarrow> (uuid \<Rightarrow> nat \<Rightarrow> uuid) \<Rightarrow> uuid \<Rightarrow>
    tick_result \<times> 'a impound_db_scheme \<Rightarrow> tick_result \<times> 'a impound_db_scheme" where
  "tick_step now ids i st = (case st of (res, db) \<Rightarrow>
     (case accrueOne now (ids i) i db of
        Inl _ \<Rightarrow> (res, db)
      | Inr (one, db') \<Rightarrow>
          (res\<lparr>tk_recordsAccrued := tk_recordsAccrued res + (if 0 < ar_daysAccrued one then 1 else 0),
            tk_daysAccrued := tk_daysAccrued res + ar_daysAccrued one,
            tk_centsAccrued := tk_centsAccrued res + ar_centsAccrued one,
            tk_lienFlagged := tk_lienFlagged res + (if ar_lienFlagged one then 1 else 0)\<rparr>, db')))"

definition accrual_candidates :: "'a impound_db_scheme \<Rightarrow> uuid list" where
  "accrual_candidates db = map imp_id (select_where
     (\<lambda>r. in_storage (imp_status r) \<and> imp_deletedAt r = None) (impoundRecords db))"

definition tick :: "instant \<Rightarrow> (uuid \<Rightarrow> nat \<Rightarrow> uuid) \<Rightarrow> 'a impound_db_scheme \<Rightarrow>
    tick_result \<times> 'a impound_db_scheme" where
  "tick now ids db = fold (tick_step now ids) (accrual_candidates db)
     (\<lparr>tk_recordsScanned = length (accrual_candidates db), tk_recordsAccrued = 0,
       tk_daysAccrued = 0, tk_centsAccrued = 0, tk_lienFlagged = 0\<rparr>, db)"

end
