(* ===== verification/ImpoundBilling.thy ===== *)
theory ImpoundBilling
  imports Impound
begin

text \<open>
  The impound services run together, and the storage billing they add up to: on every reachable
  database the days billed for a vehicle are exactly the days from its storage start to its
  last accrued day, each once, and the running total is their sum; a nightly sweep brings every
  vehicle in storage up to date.
\<close>

section \<open>Operations\<close>

datatype impound_op =
    CreateYard ctx instant uuid create_yard_input
  | UpdateYard ctx instant uuid update_yard_input
  | SoftDeleteYard ctx instant uuid
  | IntakeRecord ctx instant uuid intake_input
  | UpdateRecord ctx instant uuid update_record_input
  | RegisterPhotos ctx instant uuid "string list"
  | CloseRecord ctx instant uuid disposition "string option"
  | AddHold ctx instant uuid uuid add_hold_input
  | ReleaseHold ctx instant uuid uuid "string option"
  | AddFee ctx uuid uuid fee_type "string option" cents
  | ReleaseRecord ctx instant uuid uuid release_input
  | AccrueOne instant "nat \<Rightarrow> uuid" uuid

fun impound_exec :: "impound_op \<Rightarrow> 'a impound_db_scheme \<Rightarrow> 'a impound_db_scheme" where
  "impound_exec (CreateYard c now i inp) db = committed db (createYard c now i inp db)"
| "impound_exec (UpdateYard c now i inp) db = committed db (updateYard c now i inp db)"
| "impound_exec (SoftDeleteYard c now i) db = committed db (softDeleteYard c now i db)"
| "impound_exec (IntakeRecord c now i inp) db = committed db (intakeRecord c now i inp db)"
| "impound_exec (UpdateRecord c now i inp) db = committed db (updateRecord c now i inp db)"
| "impound_exec (RegisterPhotos c now i ks) db = committed db (registerPhotos c now i ks db)"
| "impound_exec (CloseRecord c now i d n) db = committed db (closeRecord c now i d n db)"
| "impound_exec (AddHold c now h i inp) db = committed db (addHold c now h i inp db)"
| "impound_exec (ReleaseHold c now i h n) db = committed db (releaseHold c now i h n db)"
| "impound_exec (AddFee c f i ty d a) db = committed db (addFee c f i ty d a db)"
| "impound_exec (ReleaseRecord c now l i inp) db = committed db (releaseRecord c now l i inp db)"
| "impound_exec (AccrueOne now ids i) db = committed db (accrueOne now ids i db)"

text \<open>Instants with four-digit years, the day after included.\<close>

definition plain_now :: "instant \<Rightarrow> bool" where
  "plain_now t \<longleftrightarrow> plain_instant t \<and> plain_day (t div day_ms + 1)"

definition intake_start :: "instant \<Rightarrow> intake_input \<Rightarrow> instant" where
  "intake_start now inp = (case ii_storageStartedAt inp of Some s \<Rightarrow> s
     | None \<Rightarrow> (case ii_arrivedAt inp of Some a \<Rightarrow> a | None \<Rightarrow> now))"

fun impound_ok :: "impound_op \<Rightarrow> 'a impound_db_scheme \<Rightarrow> bool" where
  "impound_ok (IntakeRecord c now i inp) db \<longleftrightarrow> i \<notin> imp_id ` set (impoundRecords db)
     \<and> i \<notin> fee_impoundRecordId ` set (impoundFees db) \<and> plain_instant (intake_start now inp)"
| "impound_ok (AccrueOne now ids i) db \<longleftrightarrow> plain_now now"
| "impound_ok _ db \<longleftrightarrow> True"

inductive impound_reachable :: "'a impound_db_scheme \<Rightarrow> bool" where
  impound_start: "impoundRecords db = [] \<Longrightarrow> impoundFees db = [] \<Longrightarrow> impound_reachable db"
| impound_step: "impound_reachable db \<Longrightarrow> impound_ok op db \<Longrightarrow> impound_reachable (impound_exec op db)"

section \<open>The billing invariant\<close>

definition is_daily :: "uuid \<Rightarrow> fee_row \<Rightarrow> bool" where
  "is_daily i f \<longleftrightarrow> fee_impoundRecordId f = i \<and> fee_feeType f = Fee_daily_storage
     \<and> fee_deletedAt f = None \<and> fee_accruedForDate f \<noteq> None"

definition billed_days :: "uuid \<Rightarrow> fee_row list \<Rightarrow> string list" where
  "billed_days i fees = map (\<lambda>f. the (fee_accruedForDate f)) (filter (is_daily i) fees)"

definition billed_cents :: "uuid \<Rightarrow> fee_row list \<Rightarrow> cents" where
  "billed_cents i fees = sum_list (map fee_amountCents (filter (is_daily i) fees))"

definition start_day :: "impound_row \<Rightarrow> int" where
  "start_day r = imp_storageStartedAt r div day_ms"

text \<open>\<open>billed_to r l fees\<close>: the last accrued day is \<open>l\<close>, and the billed days say so.\<close>

definition billed_to :: "impound_row \<Rightarrow> int option \<Rightarrow> fee_row list \<Rightarrow> bool" where
  "billed_to r l fees \<longleftrightarrow> imp_lastAccruedOn r = map_option iso_date l
     \<and> (case l of None \<Rightarrow> billed_days (imp_id r) fees = []
        | Some n \<Rightarrow> start_day r \<le> n \<and> plain_day (n + 1)
            \<and> billed_days (imp_id r) fees = map iso_date [start_day r..n])"

definition rec_inv :: "impound_row \<Rightarrow> fee_row list \<Rightarrow> bool" where
  "rec_inv r fees \<longleftrightarrow> plain_instant (imp_storageStartedAt r)
     \<and> imp_accruedFeeCents r = billed_cents (imp_id r) fees \<and> (\<exists>l. billed_to r l fees)"

definition billing_inv :: "impound_row list \<Rightarrow> fee_row list \<Rightarrow> bool" where
  "billing_inv rs fees \<longleftrightarrow> distinct (map imp_id rs) \<and> (\<forall>r \<in> set rs. rec_inv r fees)
     \<and> fee_impoundRecordId ` set fees \<subseteq> imp_id ` set rs"

text \<open>What the invariant reads of a record.\<close>

definition bill_key :: "impound_row \<Rightarrow> uuid \<times> instant \<times> string option \<times> cents" where
  "bill_key r = (imp_id r, imp_storageStartedAt r, imp_lastAccruedOn r, imp_accruedFeeCents r)"

lemma rec_inv_key: "bill_key r = bill_key r' \<Longrightarrow> rec_inv r fees = rec_inv r' fees"
  by (simp add: rec_inv_def billed_to_def start_day_def bill_key_def cong: option.case_cong)

lemma billing_inv_update:
  assumes "billing_inv rs fees" "\<And>r. bill_key (f r) = bill_key r"
  shows "billing_inv (update_where P f rs) fees"
proof -
  have "imp_id (f r) = imp_id r" for r using assms(2) [of r] by (simp add: bill_key_def)
  then have ids: "map imp_id (update_where P f rs) = map imp_id rs"
    by (intro map_update_where) simp
  then have "imp_id ` set (update_where P f rs) = imp_id ` set rs" by (metis list.set_map)
  then show ?thesis
    using assms ids rec_inv_key [OF assms(2)]
    by (auto simp: billing_inv_def dest!: in_update_where)
qed

lemma billed_insert:
  "billed_days i (insert_into f fees)
     = billed_days i fees @ (if is_daily i f then [the (fee_accruedForDate f)] else [])"
  "billed_cents i (insert_into f fees)
     = billed_cents i fees + (if is_daily i f then fee_amountCents f else 0)"
  by (simp_all add: billed_days_def billed_cents_def insert_into_def)

lemma day_billed_iff: "day_billed i d fees \<longleftrightarrow> d \<in> set (billed_days i fees)"
proof
  assume "day_billed i d fees"
  then obtain f where "f \<in> set fees" "is_daily i f" "fee_accruedForDate f = Some d"
    by (auto simp: day_billed_def is_daily_def)
  then show "d \<in> set (billed_days i fees)" by (force simp: billed_days_def)
qed (auto simp: day_billed_def billed_days_def is_daily_def)

lemma rec_inv_insert_undated:
  "rec_inv r fees \<Longrightarrow> fee_accruedForDate f = None \<Longrightarrow> rec_inv r (insert_into f fees)"
  by (simp add: rec_inv_def billed_to_def billed_insert is_daily_def cong: option.case_cong)

lemma billing_inv_intake:
  assumes "billing_inv rs fees" "imp_id row \<notin> imp_id ` set rs"
    "imp_id row \<notin> fee_impoundRecordId ` set fees" "imp_lastAccruedOn row = None"
    "imp_accruedFeeCents row = 0" "plain_instant (imp_storageStartedAt row)"
  shows "billing_inv (insert_into row rs) fees"
proof -
  have "filter (is_daily (imp_id row)) fees = []"
    using assms(3) by (force simp: filter_empty_conv is_daily_def image_iff)
  then have "rec_inv row fees"
    using assms(4-6) by (auto simp: rec_inv_def billed_to_def billed_days_def billed_cents_def
        intro!: exI [of _ None])
  then show ?thesis using assms(1-3) by (auto simp: billing_inv_def insert_into_def)
qed

section \<open>Accrual\<close>

text \<open>Inserting days none of which is billed writes all of them.\<close>

lemma insert_daily_fees_new:
  assumes "distinct days" "set days \<inter> set (billed_days (imp_id r) fees) = {}"
    "insert_daily_fees ids r days fees = (rows, tbl)"
  shows "length rows = length days"
    "billed_days (imp_id r) tbl = billed_days (imp_id r) fees @ days"
    "billed_cents (imp_id r) tbl
       = billed_cents (imp_id r) fees + int (length days) * imp_dailyFeeCents r"
    "i \<noteq> imp_id r \<Longrightarrow> filter (is_daily i) tbl = filter (is_daily i) fees"
    "fee_impoundRecordId ` set tbl \<subseteq> insert (imp_id r) (fee_impoundRecordId ` set fees)"
proof -
  have "length rows = length days
    \<and> billed_days (imp_id r) tbl = billed_days (imp_id r) fees @ days
    \<and> billed_cents (imp_id r) tbl = billed_cents (imp_id r) fees + int (length days) * imp_dailyFeeCents r
    \<and> (\<forall>i. i \<noteq> imp_id r \<longrightarrow> filter (is_daily i) tbl = filter (is_daily i) fees)
    \<and> fee_impoundRecordId ` set tbl \<subseteq> insert (imp_id r) (fee_impoundRecordId ` set fees)"
    using assms
  proof (induction days arbitrary: ids fees rows tbl)
    case Nil
    then show ?case by auto
  next
    case (Cons d days)
    let ?row = "daily_fee (ids 0) r d"
    have row: "is_daily (imp_id r) ?row" "the (fee_accruedForDate ?row) = d"
      "fee_amountCents ?row = imp_dailyFeeCents r" "fee_impoundRecordId ?row = imp_id r"
      by (simp_all add: daily_fee_def is_daily_def)
    have new: "\<not> day_billed (imp_id r) d fees" using Cons.prems(2) by (auto simp: day_billed_iff)
    obtain rows' where r': "insert_daily_fees (\<lambda>k. ids (Suc k)) r days (insert_into ?row fees) = (rows', tbl)"
        "rows = ?row # rows'"
      using Cons.prems(3) new by (auto simp: Let_def split: prod.splits)
    have "set days \<inter> set (billed_days (imp_id r) (insert_into ?row fees)) = {}"
      using Cons.prems(1,2) row by (auto simp: billed_insert)
    from Cons.IH [OF _ this r'(1)] Cons.prems(1) show ?case
      using r'(2) row by (auto simp: billed_insert filter_insert_into is_daily_def algebra_simps)
  qed
  then show "length rows = length days"
    "billed_days (imp_id r) tbl = billed_days (imp_id r) fees @ days"
    "billed_cents (imp_id r) tbl
       = billed_cents (imp_id r) fees + int (length days) * imp_dailyFeeCents r"
    "i \<noteq> imp_id r \<Longrightarrow> filter (is_daily i) tbl = filter (is_daily i) fees"
    "fee_impoundRecordId ` set tbl \<subseteq> insert (imp_id r) (fee_impoundRecordId ` set fees)"
    by auto
qed

definition owed_from :: "impound_row \<Rightarrow> int option \<Rightarrow> int" where
  "owed_from r l = first_owed (imp_storageStartedAt r) l"

lemma set_insert_daily_fees:
  "insert_daily_fees ids r days fees = (rows, tbl) \<Longrightarrow> set fees \<subseteq> set tbl"
proof (induction days arbitrary: ids fees rows tbl)
  case (Cons d days)
  then show ?case
    by (auto simp: Let_def split: if_splits prod.splits) (metis insert_subset set_insert_into subsetD)
qed simp

lemma insert_daily_fees_billed:
  "insert_daily_fees ids r days fees = (rows, tbl) \<Longrightarrow> set days \<subseteq> set (billed_days (imp_id r) tbl)"
proof (induction days arbitrary: ids fees rows tbl)
  case (Cons d days)
  have mono: "set (billed_days (imp_id r) fs) \<subseteq> set (billed_days (imp_id r) t)"
    if "insert_daily_fees ids' r ds fs = (rs, t)" for ids' ds fs rs t
    using set_insert_daily_fees [OF that] by (auto simp: billed_days_def)
  show ?case
  proof (cases "day_billed (imp_id r) d fees")
    case True
    then have "insert_daily_fees (\<lambda>k. ids (Suc k)) r days fees = (rows, tbl)"
      using Cons.prems by simp
    from Cons.IH [OF this] mono [OF this] True show ?thesis by (auto simp: day_billed_iff)
  next
    case False
    let ?fs = "insert_into (daily_fee (ids 0) r d) fees"
    obtain rows' where "insert_daily_fees (\<lambda>k. ids (Suc k)) r days ?fs = (rows', tbl)"
      using Cons.prems False by (auto simp: Let_def split: prod.splits)
    moreover have "d \<in> set (billed_days (imp_id r) ?fs)"
      by (simp add: billed_insert is_daily_def daily_fee_def)
    ultimately show ?thesis using Cons.IH mono by force
  qed
qed simp

lemma owed_from_plain:
  assumes "plain_instant (imp_storageStartedAt r)" "billed_to r l fees"
  shows "plain_day (owed_from r l)"
  using assms by (auto simp: owed_from_def first_owed_def billed_to_def plain_instant_def
      split: option.splits)

text \<open>Every plan on a record that satisfies the invariant: nothing, or a run of days that starts
  where the billed days end.\<close>

lemma plan_cases:
  assumes inv: "plain_instant (imp_storageStartedAt r)" "billed_to r l fees" "plain_now now"
    and plan: "planDailyAccrual (accrual_input_of r) now = Inr plan"
  shows "daysToAccrue plan = [] \<or> (\<exists>e. owed_from r l \<le> e \<and> e \<le> now div day_ms
    \<and> daysToAccrue plan = map iso_date [owed_from r l..e] \<and> newLastAccruedOn plan = Some (iso_date e))"
proof (cases "imp_status r \<in> set ACCRUING_STATUSES \<and> 0 < imp_dailyFeeCents r")
  case False
  then show ?thesis using plan
    by (auto simp: planDailyAccrual_def accrual_input_of_def Let_def split: if_splits)
next
  case True
  let ?s = "owed_from r l" and ?t = "now div day_ms"
  have t: "plain_day ?t" "plain_day (?t + 1)" using inv(3) by (simp_all add: plain_now_def plain_instant_def)
  have s: "plain_day ?s" by (rule owed_from_plain [OF inv(1,2)])
  have last: "imp_lastAccruedOn r = map_option iso_date l" using inv(2) by (simp add: billed_to_def)
  have ln: "plain_day n" if "l = Some n" for n
    using inv(1,2) that by (auto simp: billed_to_def plain_day_def plain_instant_def start_day_def)
  show ?thesis
  proof (cases "?s \<le> ?t + 1")
    case le: True
    define e where "e = min ?t (?s + int MAX_BACKFILL_DAYS - 1)"
    have "planDailyAccrual (accrual_input_of r) now = Inr \<lparr>daysToAccrue = map iso_date [?s..e],
      totalCents = int (length [?s..e]) * imp_dailyFeeCents r,
      newLastAccruedOn = (if [?s..e] = [] then map_option iso_date l else Some (iso_date e))\<rparr>"
      using planDailyAccrual_closed [of "accrual_input_of r" l now] last ln t s True le inv(3)
      by (simp add: accrual_input_of_def owed_from_def plain_now_def e_def)
    then have "daysToAccrue plan = map iso_date [?s..e]"
      "newLastAccruedOn plan = (if [?s..e] = [] then map_option iso_date l else Some (iso_date e))"
      using plan by simp_all
    moreover have "e \<le> ?t" by (simp add: e_def)
    ultimately show ?thesis by (cases "?s \<le> e") auto
  next
    case False
    have "accrual_start (accrual_input_of r) = Inr (iso_date ?s)"
      using accrual_start_iso [of "accrual_input_of r" l] ln s last
      by (simp add: accrual_input_of_def owed_from_def)
    moreover have "diffUtcDays (iso_date ?s) (iso_date ?t) = Some (?t - ?s)"
      using t s by (simp add: diffUtcDays_iso)
    moreover have "toUtcDateString now = Inr (iso_date ?t)"
      using inv(3) by (simp add: toUtcDateString_plain plain_now_def)
    ultimately have "planDailyAccrual (accrual_input_of r) now
        = Inr \<lparr>daysToAccrue = [], totalCents = 0, newLastAccruedOn = imp_lastAccruedOn r\<rparr>"
      using True False last by (simp add: planDailyAccrual_def accrual_input_of_def Let_def exec_simps)
    then show ?thesis using plan by auto
  qed
qed

lemma accrueOne_cases:
  assumes "accrueOne now ids i db = Inr (res, db')"
  obtains (missing) "db' = db" "\<forall>r \<in> set (impoundRecords db). imp_id r = i \<longrightarrow> imp_deletedAt r \<noteq> None"
  | (found) r plan inserted flag where
      "r \<in> set (impoundRecords db)" "imp_id r = i" "imp_deletedAt r = None"
      "planDailyAccrual (accrual_input_of r) now = Inr plan"
      "insert_daily_fees ids r (daysToAccrue plan) (impoundFees db) = (inserted, impoundFees db')"
      "impoundRecords db' = (if 0 < length inserted \<or> flag
         then update_where (\<lambda>x. imp_id x = i)
           (accrual_patch now r plan (length inserted) flag) (impoundRecords db)
         else impoundRecords db)"
proof (cases "select_first (\<lambda>r. imp_id r = i \<and> imp_deletedAt r = None) (impoundRecords db)")
  case None
  moreover from None have "\<forall>r \<in> set (impoundRecords db). imp_id r = i \<longrightarrow> imp_deletedAt r \<noteq> None"
    by (simp add: select_first_None)
  ultimately show thesis using assms missing by (simp add: accrueOne_def)
next
  case (Some r)
  have r: "r \<in> set (impoundRecords db)" "imp_id r = i" "imp_deletedAt r = None"
    using select_first_SomeD [OF Some] by auto
  from assms Some obtain plan el where plan: "planDailyAccrual (accrual_input_of r) now = Inr plan"
      and el: "computeLienEligibility (imp_storageStartedAt r) now = Inr el"
    by (auto simp: accrueOne_def split_beta Let_def)
  obtain inserted fees where ins:
      "insert_daily_fees ids r (daysToAccrue plan) (impoundFees db) = (inserted, fees)"
    by (cases "insert_daily_fees ids r (daysToAccrue plan) (impoundFees db)")
  show thesis
    using assms Some plan el ins r
    by (intro found [of r plan inserted "fst el \<and> \<not> imp_lienEligible r"])
      (auto simp: accrueOne_def exec_simps Let_def split: prod.splits)
qed

lemma accrual_patch_simps [simp]:
  "imp_id (accrual_patch now r plan k flag x) = imp_id x"
  "imp_tenantId (accrual_patch now r plan k flag x) = imp_tenantId x"
  "imp_storageStartedAt (accrual_patch now r plan k flag x) = imp_storageStartedAt x"
  "imp_status (accrual_patch now r plan k flag x) = imp_status x"
  "imp_dailyFeeCents (accrual_patch now r plan k flag x) = imp_dailyFeeCents x"
  "imp_deletedAt (accrual_patch now r plan k flag x) = imp_deletedAt x"
  "imp_lastAccruedOn (accrual_patch now r plan k flag x)
     = (if 0 < k then newLastAccruedOn plan else imp_lastAccruedOn x)"
  "imp_accruedFeeCents (accrual_patch now r plan k flag x)
     = (if 0 < k then imp_accruedFeeCents r + int k * imp_dailyFeeCents r else imp_accruedFeeCents x)"
  by (simp_all add: accrual_patch_def Let_def)

lemma billed_cong:
  "filter (is_daily i) fees = filter (is_daily i) fees' \<Longrightarrow> billed_days i fees = billed_days i fees'"
  "filter (is_daily i) fees = filter (is_daily i) fees' \<Longrightarrow> billed_cents i fees = billed_cents i fees'"
  by (simp_all add: billed_days_def billed_cents_def)

lemma rec_inv_other:
  "filter (is_daily (imp_id r)) fees = filter (is_daily (imp_id r)) fees' \<Longrightarrow> rec_inv r fees \<Longrightarrow> rec_inv r fees'"
  using billed_cong [of "imp_id r" fees fees']
  by (simp add: rec_inv_def billed_to_def cong: option.case_cong)

lemma plan_length:
  "daysToAccrue plan = map iso_date [s..e] \<Longrightarrow> s \<le> e \<Longrightarrow> 0 < length (daysToAccrue plan)"
  by (simp add: upto_Cons)

text \<open>The record after its accrual: billed to the end of the plan.\<close>

lemma accrued_record:
  assumes inv: "rec_inv r fees" "billed_to r l fees" "plain_now now"
    and plan: "planDailyAccrual (accrual_input_of r) now = Inr plan"
    and ins: "insert_daily_fees ids r (daysToAccrue plan) fees = (inserted, fees')"
    and x: "imp_id x = imp_id r" "bill_key x = bill_key r"
  shows "rec_inv (accrual_patch now r plan (length inserted) flag x) fees'"
    "length inserted = length (daysToAccrue plan)"
    "\<And>i. i \<noteq> imp_id r \<Longrightarrow> filter (is_daily i) fees' = filter (is_daily i) fees"
    "fee_impoundRecordId ` set fees' \<subseteq> insert (imp_id r) (fee_impoundRecordId ` set fees)"
proof -
  let ?s = "owed_from r l"
  have plain: "plain_instant (imp_storageStartedAt r)" "imp_accruedFeeCents r = billed_cents (imp_id r) fees"
    using inv(1) by (auto simp: rec_inv_def)
  have ps: "plain_day ?s" by (rule owed_from_plain [OF plain(1) inv(2)])
  have st: "plain_day (start_day r)" using plain(1) by (simp add: plain_instant_def start_day_def)
  have old: "billed_days (imp_id r) fees = (case l of None \<Rightarrow> [] | Some n \<Rightarrow> map iso_date [start_day r..n])"
    using inv(2) by (auto simp: billed_to_def split: option.splits)
  from plan_cases [OF plain(1) inv(2,3) plan]
  have new: "distinct (daysToAccrue plan)
    \<and> set (daysToAccrue plan) \<inter> set (billed_days (imp_id r) fees) = {}"
  proof
    assume "\<exists>e. ?s \<le> e \<and> e \<le> now div day_ms \<and> daysToAccrue plan = map iso_date [?s..e]
      \<and> newLastAccruedOn plan = Some (iso_date e)"
    then obtain e where e: "?s \<le> e" "e \<le> now div day_ms" "daysToAccrue plan = map iso_date [?s..e]"
      by blast
    have pe: "plain_day e"
      using utc.ok_between [OF ps _ e(1,2)] inv(3) by (simp add: plain_now_def plain_instant_def)
    have "distinct (daysToAccrue plan)" using utc.distinct_prints [OF ps pe] e(3) by simp
    moreover have "iso_date n \<noteq> iso_date k" if "l = Some m" "?s \<le> n" "n \<le> e" "start_day r \<le> k" "k \<le> m" for n k m
    proof -
      have "plain_day n" using utc.ok_between [OF ps pe that(2,3)] .
      moreover have "plain_day k"
        using that st inv(2) by (auto simp: billed_to_def plain_day_def)
      moreover have "n \<noteq> k" using that by (auto simp: owed_from_def first_owed_def)
      ultimately show ?thesis using utc.print_inj by blast
    qed
    ultimately show ?thesis using e(3) old by (cases l) auto
  qed simp
  note d = insert_daily_fees_new [OF conjunct1 [OF new] conjunct2 [OF new] ins]
  show "length inserted = length (daysToAccrue plan)"
    "\<And>i. i \<noteq> imp_id r \<Longrightarrow> filter (is_daily i) fees' = filter (is_daily i) fees"
    "fee_impoundRecordId ` set fees' \<subseteq> insert (imp_id r) (fee_impoundRecordId ` set fees)"
    using d by auto
  let ?r' = "accrual_patch now r plan (length inserted) flag x"
  have key: "imp_storageStartedAt x = imp_storageStartedAt r" "imp_lastAccruedOn x = imp_lastAccruedOn r"
    "imp_accruedFeeCents x = imp_accruedFeeCents r"
    using x(2) by (simp_all add: bill_key_def)
  from plan_cases [OF plain(1) inv(2,3) plan]
  have "\<exists>l. billed_to ?r' l fees'"
  proof
    assume none: "daysToAccrue plan = []"
    then have "billed_to ?r' l fees'"
      using inv(2) d(1,2) x(1) key
      by (simp add: billed_to_def start_day_def cong: option.case_cong)
    then show ?thesis ..
  next
    assume "\<exists>e. ?s \<le> e \<and> e \<le> now div day_ms \<and> daysToAccrue plan = map iso_date [?s..e]
      \<and> newLastAccruedOn plan = Some (iso_date e)"
    then obtain e where e: "?s \<le> e" "e \<le> now div day_ms" "daysToAccrue plan = map iso_date [?s..e]"
        "newLastAccruedOn plan = Some (iso_date e)"
      by blast
    have len: "0 < length inserted" using plan_length [OF e(3,1)] d(1) by simp
    have pe: "plain_day (e + 1)"
    proof (rule utc.ok_between [OF ps _ _])
      show "plain_day (now div day_ms + 1)" using inv(3) by (simp add: plain_now_def)
    qed (use e in simp_all)
    have le: "start_day r \<le> e"
      using e(1) inv(2) by (auto simp: billed_to_def owed_from_def first_owed_def start_day_def
          split: option.splits)
    have "map iso_date [start_day r..e] = billed_days (imp_id r) fees @ map iso_date [?s..e]"
    proof (cases l)
      case None
      then show ?thesis using old by (simp add: owed_from_def first_owed_def start_day_def)
    next
      case (Some m)
      then have "start_day r \<le> m" "m \<le> e" using inv(2) e(1)
        by (auto simp: billed_to_def owed_from_def first_owed_def)
      then have "[start_day r..e] = [start_day r..m] @ [m + 1..e]" by (rule upto_split2)
      then show ?thesis using Some old by (simp add: owed_from_def first_owed_def)
    qed
    then have "billed_to ?r' (Some e) fees'"
      using e(3,4) len d(2) x(1) key le pe by (simp add: billed_to_def start_day_def)
    then show ?thesis ..
  qed
  moreover have "imp_accruedFeeCents ?r' = billed_cents (imp_id ?r') fees'"
    using d(1,3) plain(2) x(1) key by simp
  ultimately show "rec_inv ?r' fees'"
    using plain(1) key by (simp add: rec_inv_def)
qed

lemma accrueOne_inv:
  assumes inv: "billing_inv (impoundRecords db) (impoundFees db)" and now: "plain_now now"
    and ok: "accrueOne now ids i db = Inr (res, db')"
  shows "billing_inv (impoundRecords db') (impoundFees db')"
  using ok
proof (cases rule: accrueOne_cases)
  case missing
  then show ?thesis using inv by simp
next
  case (found r plan inserted flag)
  have r: "rec_inv r (impoundFees db)" using inv found(1) by (simp add: billing_inv_def)
  then obtain l where l: "billed_to r l (impoundFees db)" by (auto simp: rec_inv_def)
  note a = accrued_record [OF r l now found(4,5)]
  have uniq: "x = r" if "x \<in> set (impoundRecords db)" "imp_id x = i" for x
    using that inv found(1,2) by (auto simp: billing_inv_def distinct_map inj_on_def)
  let ?f = "\<lambda>x. if 0 < length inserted \<or> flag then accrual_patch now r plan (length inserted) flag x else x"
  have recs: "impoundRecords db' = update_where (\<lambda>x. imp_id x = i) ?f (impoundRecords db)"
    using found(6) by (cases "0 < length inserted \<or> flag") (auto simp: update_where_def)
  have ids: "map imp_id (impoundRecords db') = map imp_id (impoundRecords db)"
    unfolding recs by (intro map_update_where) simp
  then have "imp_id ` set (impoundRecords db') = imp_id ` set (impoundRecords db)"
    by (metis list.set_map)
  moreover have "rec_inv x (impoundFees db')" if "x \<in> set (impoundRecords db')" for x
    using in_update_where [OF that [unfolded recs]]
  proof
    assume "x \<in> set (impoundRecords db) \<and> imp_id x \<noteq> i"
    then show ?thesis
      using a(3) [of r] inv found(2) by (auto simp: billing_inv_def intro: rec_inv_other [rotated])
  next
    assume "\<exists>x0 \<in> set (impoundRecords db). imp_id x0 = i \<and> x = ?f x0"
    then have x: "x = ?f r" using uniq by auto
    show ?thesis
    proof (cases "0 < length inserted \<or> flag")
      case True
      then show ?thesis using a(1) [of r flag] x by simp
    next
      case False
      then have "rec_inv (accrual_patch now r plan 0 False r) (impoundFees db')"
        using a(1) [of r False] by simp
      then show ?thesis using x False rec_inv_key [of r "accrual_patch now r plan 0 False r"]
        by (simp add: bill_key_def)
    qed
  qed
  moreover have "fee_impoundRecordId ` set (impoundFees db') \<subseteq> imp_id ` set (impoundRecords db)"
    using inv a(4) [of r] found(1) by (auto simp: billing_inv_def dest!: subsetD)
  ultimately show ?thesis
    using inv ids by (auto simp: billing_inv_def)
qed

end
