(* ===== verification/ImpoundProperties.thy ===== *)
theory ImpoundProperties
  imports ImpoundBilling
begin

text \<open>
  The invariant of storage billing on every reachable database, the nightly sweep, the release
  gate and the yard guard.
\<close>

lemmas impound_defs = createYard_def updateYard_def softDeleteYard_def intakeRecord_def
  updateRecord_def registerPhotos_def closeRecord_def addHold_def releaseHold_def addFee_def
  releaseRecord_def Let_def update_returning_def

lemma committed_inv:
  assumes "Q db" "\<And>x db'. r = Inr (x, db') \<Longrightarrow> Q db'" shows "Q (committed db r)"
  using assms by (auto simp: committed_def split: sum.split)

abbreviation billing_ok :: "'a impound_db_scheme \<Rightarrow> bool" where
  "billing_ok db \<equiv> billing_inv (impoundRecords db) (impoundFees db)"

lemma billing_handlers:
  assumes inv: "billing_ok db"
  shows "createYard c now i yi db = Inr (y, db') \<Longrightarrow> billing_ok db'"
    "updateYard c now i yu db = Inr (y, db') \<Longrightarrow> billing_ok db'"
    "softDeleteYard c now i db = Inr (u, db') \<Longrightarrow> billing_ok db'"
    "updateRecord c now i ui db = Inr (r, db') \<Longrightarrow> billing_ok db'"
    "registerPhotos c now i ks db = Inr (r, db') \<Longrightarrow> billing_ok db'"
    "closeRecord c now i d n db = Inr (r, db') \<Longrightarrow> billing_ok db'"
    "addHold c now h i hi db = Inr (k, db') \<Longrightarrow> billing_ok db'"
    "releaseHold c now i h n db = Inr (k, db') \<Longrightarrow> billing_ok db'"
    "releaseRecord c now l i ri db = Inr (rr, db') \<Longrightarrow> billing_ok db'"
  using inv
  by (auto simp: impound_defs split_beta bill_key_def split: if_splits intro!: billing_inv_update)

lemma billing_addFee:
  assumes inv: "billing_ok db" and ok: "addFee c f i ty d a db = Inr (x, db')"
  shows "billing_ok db'"
proof -
  from ok obtain r where r: "r \<in> set (impoundRecords db)" "imp_id r = i"
      and db': "impoundRecords db' = impoundRecords db" "impoundFees db' = insert_into x (impoundFees db)"
      "fee_accruedForDate x = None" "fee_impoundRecordId x = i"
    by (auto simp: addFee_def Let_def live_impound_def dest!: select_first_Some)
  then show ?thesis using inv by (auto simp: billing_inv_def intro: rec_inv_insert_undated)
qed

lemma billing_intake:
  assumes "billing_ok db" "intakeRecord c now i inp db = Inr (x, db')"
    "impound_ok (IntakeRecord c now i inp) db"
  shows "billing_ok db'"
  using assms
  by (auto simp: intakeRecord_def Let_def intake_start_def intro!: billing_inv_intake
      split: option.splits)

lemma billing_exec:
  assumes "billing_ok db" "impound_ok op db" shows "billing_ok (impound_exec op db)"
  using assms
  by (cases op)
    (auto intro!: committed_inv [where Q = billing_ok]
      intro: billing_handlers billing_addFee billing_intake accrueOne_inv)

lemma reachable_billing: "impound_reachable db \<Longrightarrow> billing_ok db"
proof (induction rule: impound_reachable.induct)
  case (impound_start db)
  then show ?case by (simp add: billing_inv_def)
next
  case (impound_step db op)
  then show ?case using billing_exec by blast
qed

section \<open>The sweep\<close>

definition record_facts :: "impound_row \<Rightarrow> uuid \<times> instant \<times> impound_status \<times> cents \<times> instant option" where
  "record_facts r = (imp_id r, imp_storageStartedAt r, imp_status r, imp_dailyFeeCents r, imp_deletedAt r)"

definition paid_through :: "uuid \<Rightarrow> int \<Rightarrow> int \<Rightarrow> fee_row list \<Rightarrow> bool" where
  "paid_through i a b fees \<longleftrightarrow> iso_date ` {a..b} \<subseteq> set (billed_days i fees)"

lemma accrueOne_facts:
  assumes "accrueOne now ids i db = Inr (res, db')"
  shows "map record_facts (impoundRecords db') = map record_facts (impoundRecords db)"
  using assms
proof (cases rule: accrueOne_cases)
  case (found r plan inserted flag)
  have "map record_facts (update_where (\<lambda>x. imp_id x = i)
      (accrual_patch now r plan (length inserted) flag) (impoundRecords db)) = map record_facts (impoundRecords db)"
    by (intro map_update_where) (simp add: record_facts_def)
  then show ?thesis using found(6) by (cases "0 < length inserted \<or> flag") simp_all
qed simp

lemma accrueOne_keeps_billed:
  assumes "accrueOne now ids i db = Inr (res, db')"
  shows "set (billed_days j (impoundFees db)) \<subseteq> set (billed_days j (impoundFees db'))"
  using assms
proof (cases rule: accrueOne_cases)
  case (found r plan inserted flag)
  then have "set (impoundFees db) \<subseteq> set (impoundFees db')" using set_insert_daily_fees by blast
  then show ?thesis by (auto simp: billed_days_def)
qed simp

text \<open>A record in storage with a fee and less than ten years of unbilled days is billed through
  today by its accrual, which does not fail.\<close>

definition due :: "instant \<Rightarrow> impound_row \<Rightarrow> bool" where
  "due now r \<longleftrightarrow> imp_deletedAt r = None \<and> in_storage (imp_status r) \<and> 0 < imp_dailyFeeCents r
     \<and> now div day_ms - start_day r < int MAX_BACKFILL_DAYS"

lemma accrueOne_due:
  assumes inv: "billing_ok db" and now: "plain_now now"
    and r: "r \<in> set (impoundRecords db)" "due now r"
  shows "\<exists>res db'. accrueOne now ids (imp_id r) db = Inr (res, db')
    \<and> paid_through (imp_id r) (start_day r) (now div day_ms) (impoundFees db')"
proof -
  let ?t = "now div day_ms"
  have ri: "rec_inv r (impoundFees db)" using inv r(1) by (simp add: billing_inv_def)
  then obtain l where l: "billed_to r l (impoundFees db)" by (auto simp: rec_inv_def)
  have plain: "plain_instant (imp_storageStartedAt r)" using ri by (simp add: rec_inv_def)
  have t: "plain_day ?t" "plain_day (?t + 1)" "plain_instant now"
    using now by (simp_all add: plain_now_def plain_instant_def)
  have first: "select_first (\<lambda>x. imp_id x = imp_id r \<and> imp_deletedAt x = None) (impoundRecords db) = Some r"
  proof -
    obtain x where x: "select_first (\<lambda>x. imp_id x = imp_id r \<and> imp_deletedAt x = None) (impoundRecords db) = Some x"
      using select_first_ex [OF r(1), of "\<lambda>x. imp_id x = imp_id r \<and> imp_deletedAt x = None"] r(2)
      by (auto simp: due_def)
    then have "x \<in> set (impoundRecords db)" "imp_id x = imp_id r" using select_first_SomeD by fastforce+
    then have "x = r" using inv r(1) by (auto simp: billing_inv_def distinct_map inj_on_def)
    with x show ?thesis by simp
  qed
  have elig: "\<exists>el. computeLienEligibility (imp_storageStartedAt r) now = Inr el"
    using plain t(3) by (simp add: computeLienEligibility_def daysStored_def toUtcDateString_plain exec_simps)
  have last: "imp_lastAccruedOn r = map_option iso_date l" using l by (simp add: billed_to_def)
  have ln: "plain_day n" if "l = Some n" for n
    using plain l that by (auto simp: billed_to_def plain_day_def plain_instant_def start_day_def)
  have ps: "plain_day (owed_from r l)" by (rule owed_from_plain [OF plain l])
  have acc: "imp_status r \<in> set ACCRUING_STATUSES" "0 < imp_dailyFeeCents r"
    using r(2) by (auto simp: due_def in_storage_def ACCRUING_STATUSES_def)
  have plan: "\<exists>plan. planDailyAccrual (accrual_input_of r) now = Inr plan"
  proof (cases "owed_from r l \<le> ?t + 1")
    case True
    then show ?thesis
      using planDailyAccrual_closed [of "accrual_input_of r" l now] last ln t ps acc
      by (simp add: accrual_input_of_def owed_from_def)
  next
    case False
    have "accrual_start (accrual_input_of r) = Inr (iso_date (owed_from r l))"
      using accrual_start_iso [of "accrual_input_of r" l] ln ps last
      by (simp add: accrual_input_of_def owed_from_def)
    then show ?thesis
      using False t ps by (simp add: planDailyAccrual_def Let_def exec_simps toUtcDateString_plain
          diffUtcDays_iso)
  qed
  from plan elig obtain res db' where ok: "accrueOne now ids (imp_id r) db = Inr (res, db')"
    using first by (auto simp: accrueOne_def exec_simps Let_def split_beta)
  have "paid_through (imp_id r) (start_day r) ?t (impoundFees db')"
  proof (cases "owed_from r l \<le> ?t + 1")
    case False
    then have "paid_through (imp_id r) (start_day r) ?t (impoundFees db)"
      using l by (cases l) (auto simp: paid_through_def billed_to_def owed_from_def first_owed_def
          start_day_def)
    then show ?thesis using accrueOne_keeps_billed [OF ok] by (auto simp: paid_through_def)
  next
    case True
    from ok show ?thesis
    proof (cases rule: accrueOne_cases)
      case missing
      then show ?thesis using r by (auto simp: due_def)
    next
      case (found r' plan inserted flag)
      have "r' = r" using found(1,2) inv r(1) by (auto simp: billing_inv_def distinct_map inj_on_def)
      note found = found [unfolded this]
      let ?s = "owed_from r l"
      have gap: "?t \<le> ?s + int MAX_BACKFILL_DAYS - 1"
        using r(2) l by (auto simp: due_def owed_from_def first_owed_def start_day_def billed_to_def
            split: option.splits)
      then have days: "daysToAccrue plan = map iso_date [?s..?t]"
        using planDailyAccrual_closed [of "accrual_input_of r" l now] last ln t ps acc True found(4)
        by (auto simp: accrual_input_of_def owed_from_def min_absorb1)
      have new: "set (daysToAccrue plan) \<subseteq> set (billed_days (imp_id r) (impoundFees db'))"
        using insert_daily_fees_billed [OF found(5)] .
      have "iso_date d \<in> set (billed_days (imp_id r) (impoundFees db'))"
        if "start_day r \<le> d" "d \<le> ?t" for d
      proof (cases "?s \<le> d")
        case True
        then show ?thesis using new days that by auto
      next
        case False
        then have "\<exists>n. l = Some n \<and> d \<le> n"
          using that by (cases l) (auto simp: owed_from_def first_owed_def start_day_def)
        then have "iso_date d \<in> set (billed_days (imp_id r) (impoundFees db))"
          using l that by (auto simp: billed_to_def)
        then show ?thesis using accrueOne_keeps_billed [OF ok] by blast
      qed
      then show ?thesis by (auto simp: paid_through_def)
    qed
  qed
  with ok show ?thesis by blast
qed

text \<open>The sweep: every candidate that was due when it started is billed through today.\<close>

lemma tick_step_inv:
  assumes "billing_ok db" "plain_now now"
  shows "billing_ok (snd (tick_step now ids i (res, db)))
    \<and> map record_facts (impoundRecords (snd (tick_step now ids i (res, db))))
        = map record_facts (impoundRecords db)
    \<and> set (billed_days j (impoundFees db))
        \<subseteq> set (billed_days j (impoundFees (snd (tick_step now ids i (res, db)))))"
  using assms accrueOne_inv accrueOne_facts accrueOne_keeps_billed
  by (auto simp: tick_step_def split: sum.splits prod.splits) fastforce+

lemma tick_fold:
  assumes "billing_ok db" "plain_now now" "r \<in> set (impoundRecords db)" "due now r"
    "imp_id r \<in> set is \<or> paid_through (imp_id r) (start_day r) (now div day_ms) (impoundFees db)"
  shows "billing_ok (snd (fold (tick_step now ids) is (res, db)))
    \<and> paid_through (imp_id r) (start_day r) (now div day_ms)
        (impoundFees (snd (fold (tick_step now ids) is (res, db))))"
  using assms
proof (induction "is" arbitrary: res db r)
  case Nil
  then show ?case by simp
next
  case (Cons i "is")
  obtain res1 db1 where st: "tick_step now ids i (res, db) = (res1, db1)"
    by (cases "tick_step now ids i (res, db)")
  note inv = tick_step_inv [OF Cons.prems(1,2), of ids i res, unfolded st, simplified]
  have "record_facts r \<in> set (map record_facts (impoundRecords db1))"
    using inv Cons.prems(3) by simp
  then obtain r1 where r1: "r1 \<in> set (impoundRecords db1)" "record_facts r1 = record_facts r" by auto
  then have same: "imp_id r1 = imp_id r" "start_day r1 = start_day r" "due now r1 \<longleftrightarrow> due now r"
    by (simp_all add: record_facts_def due_def start_day_def)
  have "imp_id r \<in> set is \<or> paid_through (imp_id r) (start_day r) (now div day_ms) (impoundFees db1)"
  proof (cases "imp_id r = i")
    case True
    obtain one db' where "accrueOne now (ids i) (imp_id r) db = Inr (one, db')"
        "paid_through (imp_id r) (start_day r) (now div day_ms) (impoundFees db')"
      using accrueOne_due [OF Cons.prems(1,2,3,4), of "ids i"] by blast
    then show ?thesis using st True by (auto simp: tick_step_def)
  next
    case False
    then show ?thesis using Cons.prems(5) inv by (auto simp: paid_through_def)
  qed
  then show ?case
    using Cons.IH [of db1 r1 res1] inv Cons.prems(2,4) r1(1) same st by simp
qed

section \<open>An example yard\<close>

text \<open>Tenant 1, yard 50; a car stored on 2026-05-01 at 35.00 a day, swept on 2026-05-03.\<close>

definition impound_ctx :: ctx where
  "impound_ctx = \<lparr>ctx_tenantId = 1, ctx_userId = 7, ctx_role = Some Dispatcher\<rparr>"

definition example_yard :: yard_row where
  "example_yard = \<lparr>yard_id = 50, yard_tenantId = 1, yard_name = ''Main'', yard_code = ''M1'',
     yard_addressLine1 = None, yard_addressLine2 = None, yard_city = None, yard_state = Some ''OH'',
     yard_postalCode = None, yard_capacity = None, yard_isActive = True, yard_notes = None,
     yard_updatedAt = 0, yard_deletedAt = None\<rparr>"

definition example_intake :: intake_input where
  "example_intake = \<lparr>ii_yardId = 50, ii_jobId = None, ii_vehicleId = None, ii_vehicleMake = None,
     ii_vehicleModel = None, ii_vehicleYear = None, ii_vehicleColor = None, ii_vehicleVin = None,
     ii_licensePlate = None, ii_licenseState = None, ii_arrivedAt = None,
     ii_storageStartedAt = None, ii_dailyFeeCents = 3500, ii_intakeMileage = None,
     ii_intakePhotoKeys = [], ii_conditionNotes = None\<rparr>"

definition example_lot :: impound_db where
  "example_lot = \<lparr>impoundYards = [example_yard], impoundRecords = [], impoundHolds = [],
     impoundFees = [], impoundReleases = [], impoundEvents = []\<rparr>"

definition example_stored :: impound_db where
  "example_stored = impound_exec (IntakeRecord impound_ctx 1777600800000 60 example_intake) example_lot"

definition example_swept :: impound_db where
  "example_swept = impound_exec (AccrueOne 1777773600000 (\<lambda>k. 900 + k) 60) example_stored"

lemma example_lot_values:
  "map (\<lambda>r. (imp_id r, imp_status r, imp_dailyFeeCents r, imp_deletedAt r, imp_storageStartedAt r))
     (impoundRecords example_stored) = [(60, Stored, 3500, None, 1777600800000)]"
  "impoundFees example_stored = []"
  by code_simp+

lemma example_lot_reachable: "impound_reachable example_stored" "impound_reachable example_swept"
proof -
  have "impound_reachable example_lot"
    by (rule impound_start) (simp_all add: example_lot_def)
  moreover have "impound_ok (IntakeRecord impound_ctx 1777600800000 60 example_intake) example_lot"
    by (simp add: example_lot_def intake_start_def example_intake_def plain_instant_def plain_day_def
        day_ms_def)
  ultimately show s: "impound_reachable example_stored"
    unfolding example_stored_def by (rule impound_step)
  have "impound_ok (AccrueOne 1777773600000 (\<lambda>k. 900 + k) 60) example_stored"
    by (simp add: plain_now_def plain_instant_def plain_day_def day_ms_def)
  with s show "impound_reachable example_swept" unfolding example_swept_def by (rule impound_step)
qed

section \<open>Properties\<close>

text \<open>C6: On every reachable database the daily storage fees of a record are for the days from its
  storage start to its last accrued day, each day once and none else, and the running total of
  the record is their sum.\<close>

theorem storage_billed_once_per_day:
  assumes "impound_reachable db" "r \<in> set (impoundRecords db)"
  shows "(case imp_lastAccruedOn r of None \<Rightarrow> billed_days (imp_id r) (impoundFees db) = []
      | Some s \<Rightarrow> \<exists>n. s = iso_date n
          \<and> billed_days (imp_id r) (impoundFees db) = map iso_date [start_day r..n])
    \<and> distinct (billed_days (imp_id r) (impoundFees db))
    \<and> imp_accruedFeeCents r = billed_cents (imp_id r) (impoundFees db)"
proof -
  have inv: "rec_inv r (impoundFees db)"
    using reachable_billing [OF assms(1)] assms(2) by (simp add: billing_inv_def)
  then obtain l where l: "billed_to r l (impoundFees db)" by (auto simp: rec_inv_def)
  have s: "plain_day (start_day r)" using inv by (simp add: rec_inv_def plain_instant_def start_day_def)
  show ?thesis
  proof (cases l)
    case None
    then show ?thesis using l inv by (simp add: billed_to_def rec_inv_def)
  next
    case (Some n)
    then have n: "start_day r \<le> n" "plain_day (n + 1)"
        "billed_days (imp_id r) (impoundFees db) = map iso_date [start_day r..n]"
      using l by (simp_all add: billed_to_def)
    have "plain_day n" using s n by (simp add: plain_day_def)
    from utc.distinct_prints [OF s this] show ?thesis
      using Some l n inv by (auto simp: billed_to_def rec_inv_def)
  qed
qed

theorem storage_billed_once_per_day_witness:
  "\<exists>r \<in> set (impoundRecords example_swept). imp_id r = 60
     \<and> distinct (billed_days 60 (impoundFees example_swept))
     \<and> imp_accruedFeeCents r = billed_cents 60 (impoundFees example_swept)"
proof -
  have "map record_facts (impoundRecords example_swept) = map record_facts (impoundRecords example_stored)"
    unfolding example_swept_def impound_exec.simps
    by (cases "accrueOne 1777773600000 (\<lambda>k. 900 + k) 60 example_stored") (auto dest: accrueOne_facts)
  moreover have "map imp_id (impoundRecords example_stored) = [60]" by code_simp
  moreover have "map fst (map record_facts rs) = map imp_id rs" for rs
    by (simp add: record_facts_def)
  ultimately have "map imp_id (impoundRecords example_swept) = [60]" by metis
  then obtain r where r: "r \<in> set (impoundRecords example_swept)" "imp_id r = 60" by auto
  with storage_billed_once_per_day [OF example_lot_reachable(2) r(1)] show ?thesis by auto
qed

text \<open>C7: A nightly sweep bills every record that is in storage, has a daily fee and fewer than
  3660 days since its storage start: after it a fee exists for each day from the storage start
  through the day of the sweep, whatever the sweep does to the other records.\<close>

theorem sweep_bills_through_today:
  assumes "impound_reachable db" "plain_now now" "r \<in> set (impoundRecords db)"
    "imp_deletedAt r = None" "in_storage (imp_status r)" "0 < imp_dailyFeeCents r"
    "now div day_ms - start_day r < int MAX_BACKFILL_DAYS"
    "start_day r \<le> d" "d \<le> now div day_ms"
  shows "iso_date d \<in> set (billed_days (imp_id r) (impoundFees (snd (tick now ids db))))"
proof -
  have "due now r" using assms(4-7) by (simp add: due_def)
  moreover have "imp_id r \<in> set (accrual_candidates db)"
    using assms(3-5) by (auto simp: accrual_candidates_def)
  ultimately have "paid_through (imp_id r) (start_day r) (now div day_ms)
      (impoundFees (snd (tick now ids db)))"
    using tick_fold [OF reachable_billing [OF assms(1)] assms(2,3)] by (simp add: tick_def)
  then show ?thesis using assms(8,9) by (auto simp: paid_through_def)
qed

theorem sweep_bills_through_today_witness:
  "''2026-05-03'' \<in> set (billed_days 60 (impoundFees (snd (tick 1777773600000 (\<lambda>i k. k) example_stored))))"
proof -
  obtain r where r: "r \<in> set (impoundRecords example_stored)" "imp_id r = 60" "imp_status r = Stored"
      "imp_dailyFeeCents r = 3500" "imp_deletedAt r = None" "imp_storageStartedAt r = 1777600800000"
    using example_lot_values(1) by (auto simp: map_eq_Cons_conv)
  have "iso_date 20576 = ''2026-05-03''" by code_simp
  with sweep_bills_through_today [OF example_lot_reachable(1) _ r(1), of 1777773600000 20576 "\<lambda>i k. k"] r
  show ?thesis
    by (simp add: plain_now_def plain_instant_def plain_day_def day_ms_def in_storage_def
        start_day_def MAX_BACKFILL_DAYS_def)
qed

text \<open>What a plan charges: for a record in storage with a positive fee, exactly the calendar
  days after the last accrued one (or from the storage start) through today, both ends
  included, at most 3660 of them, and the total is the fee times their number.\<close>

theorem plan_charges_each_day:
  assumes "ai_lastAccruedOn inp = map_option iso_date l" "\<And>n. l = Some n \<Longrightarrow> plain_day n"
    "plain_now today" "plain_day (first_owed (ai_storageStartedAt inp) l)"
    "in_storage (ai_status inp)" "0 < ai_dailyFeeCents inp"
    "first_owed (ai_storageStartedAt inp) l \<le> today div day_ms + 1"
  shows "\<exists>plan. planDailyAccrual inp today = Inr plan
    \<and> daysToAccrue plan = map iso_date [first_owed (ai_storageStartedAt inp) l ..
        min (today div day_ms) (first_owed (ai_storageStartedAt inp) l + 3659)]
    \<and> totalCents plan = int (length (daysToAccrue plan)) * ai_dailyFeeCents inp"
  using planDailyAccrual_closed [OF assms(1,2) _ _ assms(4), of today] assms(3,5-7)
  by (auto simp: plain_now_def in_storage_def ACCRUING_STATUSES_def MAX_BACKFILL_DAYS_def add.commute)

theorem plan_charges_each_day_witness:
  "\<exists>plan. planDailyAccrual \<lparr>ai_storageStartedAt = 1777600800000, ai_lastAccruedOn = Some (iso_date 20574),
      ai_dailyFeeCents = 3500, ai_status = Stored\<rparr> 1777773600000 = Inr plan
    \<and> daysToAccrue plan = map iso_date [20575..20576]"
  using plan_charges_each_day [of "\<lparr>ai_storageStartedAt = 1777600800000,
      ai_lastAccruedOn = Some (iso_date 20574), ai_dailyFeeCents = 3500, ai_status = Stored\<rparr>"
      "Some 20574" 1777773600000]
  by (auto simp: plain_now_def plain_instant_def plain_day_def day_ms_def in_storage_def first_owed_def)

lemma sumFeeCents_live:
  "sumFeeCents (record_fees t i db)
     = sum_list (map fee_amountCents (select_where (live_fee_of t i) (impoundFees db)))"
proof -
  have fold: "foldl (\<lambda>acc f. if snd f \<noteq> None then acc else acc + fst f) a
      (map (\<lambda>f. (fee_amountCents f, fee_deletedAt f)) fs) = a + sum_list (map fee_amountCents fs)"
    if "\<forall>f \<in> set fs. fee_deletedAt f = None" for a fs
    using that by (induction fs arbitrary: a) auto
  have "\<forall>f \<in> set (select_where (live_fee_of t i) (impoundFees db)). fee_deletedAt f = None"
    by (simp add: live_fee_of_def)
  from fold [OF this, of 0] show ?thesis unfolding sumFeeCents_def record_fees_def by simp
qed

text \<open>C8: A vehicle leaves through the impound release only when it is in storage, carries no
  active legal hold and both identity and ownership were verified; the release then records
  the sum of the live fees.\<close>

theorem release_passes_gate:
  assumes "releaseRecord ctx now newId recordId inp db = Inr ((r, rel), db')"
  shows "active_holds (ctx_tenantId ctx) recordId db = []
    \<and> ri_idVerified inp \<and> ri_ownershipDocVerified inp
    \<and> (\<exists>r0. select_first (live_impound (ctx_tenantId ctx) recordId) (impoundRecords db) = Some r0
          \<and> in_storage (imp_status r0))
    \<and> imp_status r = Released
    \<and> rel_totalFeesCents rel = sum_list (map fee_amountCents
          (select_where (live_fee_of (ctx_tenantId ctx) recordId) (impoundFees db)))"
proof -
  obtain r0 where "select_first (live_impound (ctx_tenantId ctx) recordId) (impoundRecords db) = Some r0"
      "fst (evaluateReleaseGate \<lparr>gi_recordStatus = imp_status r0,
             gi_activeHoldCount = length (active_holds (ctx_tenantId ctx) recordId db),
             gi_idVerified = ri_idVerified inp,
             gi_ownershipDocVerified = ri_ownershipDocVerified inp\<rparr>)"
      "imp_status r = Released" "rel_totalFeesCents rel = sumFeeCents (record_fees (ctx_tenantId ctx) recordId db)"
    using assms by (auto simp: releaseRecord_def Let_def split_beta update_returning_def)
  then show ?thesis by (auto simp: evaluateReleaseGate_ok in_storage_def sumFeeCents_live)
qed

definition example_release :: release_input where
  "example_release = \<lparr>ri_releasedToName = ''A. Owner'', ri_releasedToType = To_owner,
     ri_idVerified = True, ri_ownershipDocVerified = True, ri_authorizationDocRef = None,
     ri_paymentReceivedCents = 10500, ri_paymentMethod = Some Pay_cash, ri_notes = None\<rparr>"

theorem release_passes_gate_witness:
  "\<exists>r rel db'. releaseRecord impound_ctx 1777773700000 70 60 example_release example_stored
      = Inr ((r, rel), db') \<and> imp_status r = Released"
proof -
  have "\<not> isl (releaseRecord impound_ctx 1777773700000 70 60 example_release example_stored)"
    by code_simp
  then obtain r rel db' where "releaseRecord impound_ctx 1777773700000 70 60 example_release example_stored
      = Inr ((r, rel), db')"
    by (cases "releaseRecord impound_ctx 1777773700000 70 60 example_release example_stored") auto
  with release_passes_gate [OF this] show ?thesis by blast
qed

text \<open>The guard of a yard deletion inspects one record: when the first live record of the yard
  is already released, the yard is deleted although another vehicle is still stored in it.\<close>

theorem yard_deleted_under_stored_vehicle:
  assumes "select_first (live_yard (ctx_tenantId ctx) y) (impoundYards db) = Some yard"
    "select_first (\<lambda>r. imp_tenantId r = ctx_tenantId ctx \<and> imp_yardId r = y
       \<and> imp_deletedAt r = None) (impoundRecords db) = Some first" "imp_status first = Released"
    "stored \<in> set (impoundRecords db)" "imp_yardId stored = y" "imp_status stored = Stored"
  shows "\<exists>db'. softDeleteYard ctx now y db = Inr ((), db')
    \<and> stored \<in> set (impoundRecords db') \<and> select_first (live_yard (ctx_tenantId ctx) y) (impoundYards db') = None"
  using assms
  by (auto simp: softDeleteYard_def Let_def exec_simps in_storage_def select_first_None live_yard_def
      dest!: in_update_where)

theorem yard_deleted_under_stored_vehicle_witness:
  "\<exists>(db :: impound_db) db'. softDeleteYard impound_ctx 1777773800000 50 db = Inr ((), db')
     \<and> (\<exists>r \<in> set (impoundRecords db'). imp_yardId r = 50 \<and> imp_status r = Stored)"
proof -
  define db where "db = impound_exec (IntakeRecord impound_ctx 1777773700000 61 example_intake)
    (impound_exec (ReleaseRecord impound_ctx 1777773700000 70 60 example_release) example_stored)"
  have v: "map (\<lambda>r. (imp_id r, imp_tenantId r, imp_yardId r, imp_status r, imp_deletedAt r)) (impoundRecords db)
      = [(60, 1, 50, Released, None), (61, 1, 50, Stored, None)]"
    unfolding db_def by code_simp
  obtain a b where ab: "impoundRecords db = [a, b]" "imp_tenantId a = 1" "imp_yardId a = 50"
      "imp_status a = Released" "imp_deletedAt a = None" "imp_yardId b = 50" "imp_status b = Stored"
    using v by auto
  have "impoundYards db = impoundYards example_lot" unfolding db_def by code_simp
  then have "select_first (live_yard (ctx_tenantId impound_ctx) 50) (impoundYards db) = Some example_yard"
    by (simp add: example_lot_def select_first_def live_yard_def example_yard_def impound_ctx_def)
  moreover have "select_first (\<lambda>r. imp_tenantId r = ctx_tenantId impound_ctx \<and> imp_yardId r = 50
      \<and> imp_deletedAt r = None) (impoundRecords db) = Some a"
    using ab by (simp add: select_first_def impound_ctx_def)
  moreover have "b \<in> set (impoundRecords db)" using ab by simp
  ultimately obtain db' where "softDeleteYard impound_ctx 1777773800000 50 db = Inr ((), db')"
      "b \<in> set (impoundRecords db')"
    using yard_deleted_under_stored_vehicle [OF _ _ ab(4) _ ab(6,7), of impound_ctx db _ 1777773800000]
    by blast
  then show ?thesis using ab by blast
qed

end
