(* ===== verification/LienConfig.thy ===== *)
theory LienConfig
  imports Prelude
begin

text \<open>
  lien-processing/state-rules.config.ts: the statutory rule table of the lien workflow, one
  definition per jurisdiction (50 states and DC), in the order of the file.  Day counts are
  numbers of days, thresholds cents.
\<close>

record lien_rules =
  statute :: string
  dmvLookupWindowDays :: int
  ownerNoticeWaitDays :: int
  lienholderNoticeWaitDays :: int
  publicationRequired :: bool
  publicationWaitDays :: int
  minDaysToSale :: int
  lowValuePublicationExempt :: bool
  lowMaxCents :: cents
  highMinCents :: cents

definition lien_rules_CA :: lien_rules where
  "lien_rules_CA = \<lparr>statute = ''CA Civil Code 3068.1 / Vehicle Code 22851.12, 22851.10 (low-value)'',
     dmvLookupWindowDays = 3, ownerNoticeWaitDays = 10, lienholderNoticeWaitDays = 10,
     publicationRequired = True, publicationWaitDays = 10, minDaysToSale = 30,
     lowValuePublicationExempt = True, lowMaxCents = 400000, highMinCents = 1000000\<rparr>"

definition lien_rules_TX :: lien_rules where
  "lien_rules_TX = \<lparr>statute = ''TX Occupations Code 2303 / Property Code 70.006'',
     dmvLookupWindowDays = 5, ownerNoticeWaitDays = 30, lienholderNoticeWaitDays = 30,
     publicationRequired = False, publicationWaitDays = 0, minDaysToSale = 30,
     lowValuePublicationExempt = True, lowMaxCents = 250000, highMinCents = 1000000\<rparr>"

definition lien_rules_FL :: lien_rules where
  "lien_rules_FL = \<lparr>statute = ''FL Statutes 713.78 / 713.585'',
     dmvLookupWindowDays = 7, ownerNoticeWaitDays = 30, lienholderNoticeWaitDays = 30,
     publicationRequired = True, publicationWaitDays = 10, minDaysToSale = 35,
     lowValuePublicationExempt = False, lowMaxCents = 300000, highMinCents = 1000000\<rparr>"

definition lien_rules_NY :: lien_rules where
  "lien_rules_NY = \<lparr>statute = ''NY Lien Law 184 / 200-204'',
     dmvLookupWindowDays = 5, ownerNoticeWaitDays = 20, lienholderNoticeWaitDays = 20,
     publicationRequired = True, publicationWaitDays = 10, minDaysToSale = 30,
     lowValuePublicationExempt = True, lowMaxCents = 150000, highMinCents = 1000000\<rparr>"

definition lien_rules_GA :: lien_rules where
  "lien_rules_GA = \<lparr>statute = ''GA Code 40-11-1 through 40-11-19 / 44-1-13'',
     dmvLookupWindowDays = 5, ownerNoticeWaitDays = 10, lienholderNoticeWaitDays = 10,
     publicationRequired = True, publicationWaitDays = 10, minDaysToSale = 30,
     lowValuePublicationExempt = True, lowMaxCents = 250000, highMinCents = 1000000\<rparr>"

definition lien_rules_NC :: lien_rules where
  "lien_rules_NC = \<lparr>statute = ''NC Gen Stat 44A-1 through 44A-4 (Chapter 44A Article 1)'',
     dmvLookupWindowDays = 7, ownerNoticeWaitDays = 10, lienholderNoticeWaitDays = 10,
     publicationRequired = True, publicationWaitDays = 10, minDaysToSale = 30,
     lowValuePublicationExempt = True, lowMaxCents = 300000, highMinCents = 1000000\<rparr>"

definition lien_rules_OH :: lien_rules where
  "lien_rules_OH = \<lparr>statute = ''OH Rev Code 4505.101 / 4513.60-.62'',
     dmvLookupWindowDays = 5, ownerNoticeWaitDays = 15, lienholderNoticeWaitDays = 15,
     publicationRequired = False, publicationWaitDays = 0, minDaysToSale = 30,
     lowValuePublicationExempt = True, lowMaxCents = 250000, highMinCents = 1000000\<rparr>"

definition lien_rules_IL :: lien_rules where
  "lien_rules_IL = \<lparr>statute = ''IL 625 ILCS 5/4-201 through 5/4-214 / 770 ILCS 50'',
     dmvLookupWindowDays = 7, ownerNoticeWaitDays = 15, lienholderNoticeWaitDays = 15,
     publicationRequired = True, publicationWaitDays = 10, minDaysToSale = 30,
     lowValuePublicationExempt = True, lowMaxCents = 250000, highMinCents = 1000000\<rparr>"

definition lien_rules_PA :: lien_rules where
  "lien_rules_PA = \<lparr>statute = ''PA 75 Pa.C.S. 7301-7305 / Abandoned Vehicle provisions'',
     dmvLookupWindowDays = 7, ownerNoticeWaitDays = 15, lienholderNoticeWaitDays = 15,
     publicationRequired = True, publicationWaitDays = 10, minDaysToSale = 30,
     lowValuePublicationExempt = True, lowMaxCents = 250000, highMinCents = 1000000\<rparr>"

definition lien_rules_MI :: lien_rules where
  "lien_rules_MI = \<lparr>statute = ''MI Comp Laws 257.252 / 570.521-570.530'',
     dmvLookupWindowDays = 7, ownerNoticeWaitDays = 20, lienholderNoticeWaitDays = 20,
     publicationRequired = True, publicationWaitDays = 10, minDaysToSale = 30,
     lowValuePublicationExempt = True, lowMaxCents = 250000, highMinCents = 1000000\<rparr>"

definition lien_rules_AK :: lien_rules where
  "lien_rules_AK = \<lparr>statute = ''AK Stat. 28.10.471 / 28.10.502 / 34.35.165 (storage lien)'',
     dmvLookupWindowDays = 7, ownerNoticeWaitDays = 30, lienholderNoticeWaitDays = 30,
     publicationRequired = False, publicationWaitDays = 0, minDaysToSale = 45,
     lowValuePublicationExempt = True, lowMaxCents = 250000, highMinCents = 1000000\<rparr>"

definition lien_rules_AL :: lien_rules where
  "lien_rules_AL = \<lparr>statute = ''AL Code 32-13-1 et seq / 35-11-110 (garage lien)'',
     dmvLookupWindowDays = 7, ownerNoticeWaitDays = 30, lienholderNoticeWaitDays = 30,
     publicationRequired = True, publicationWaitDays = 10, minDaysToSale = 45,
     lowValuePublicationExempt = True, lowMaxCents = 250000, highMinCents = 1000000\<rparr>"

definition lien_rules_AR :: lien_rules where
  "lien_rules_AR = \<lparr>statute = ''AR Code 27-50-1201 et seq / 18-45-201 (storage lien)'',
     dmvLookupWindowDays = 7, ownerNoticeWaitDays = 30, lienholderNoticeWaitDays = 30,
     publicationRequired = True, publicationWaitDays = 10, minDaysToSale = 45,
     lowValuePublicationExempt = True, lowMaxCents = 250000, highMinCents = 1000000\<rparr>"

definition lien_rules_AZ :: lien_rules where
  "lien_rules_AZ = \<lparr>statute = ''AZ Rev. Stat. 28-4801 et seq / 33-1022 (ADOT abandoned)'',
     dmvLookupWindowDays = 5, ownerNoticeWaitDays = 20, lienholderNoticeWaitDays = 20,
     publicationRequired = False, publicationWaitDays = 0, minDaysToSale = 30,
     lowValuePublicationExempt = True, lowMaxCents = 250000, highMinCents = 1000000\<rparr>"

definition lien_rules_CO :: lien_rules where
  "lien_rules_CO = \<lparr>statute = ''CO Rev. Stat. 42-4-2101 et seq / 42-4-2103 (abandoned)'',
     dmvLookupWindowDays = 7, ownerNoticeWaitDays = 30, lienholderNoticeWaitDays = 30,
     publicationRequired = False, publicationWaitDays = 0, minDaysToSale = 30,
     lowValuePublicationExempt = True, lowMaxCents = 250000, highMinCents = 1000000\<rparr>"

definition lien_rules_CT :: lien_rules where
  "lien_rules_CT = \<lparr>statute = ''CT Gen. Stat. 14-150 / 14-66 (storage lien)'',
     dmvLookupWindowDays = 7, ownerNoticeWaitDays = 15, lienholderNoticeWaitDays = 15,
     publicationRequired = True, publicationWaitDays = 10, minDaysToSale = 45,
     lowValuePublicationExempt = True, lowMaxCents = 250000, highMinCents = 1000000\<rparr>"

definition lien_rules_DC :: lien_rules where
  "lien_rules_DC = \<lparr>statute = ''DC Code 50-2421.01 et seq (abandoned & junk vehicles)'',
     dmvLookupWindowDays = 7, ownerNoticeWaitDays = 30, lienholderNoticeWaitDays = 30,
     publicationRequired = True, publicationWaitDays = 10, minDaysToSale = 45,
     lowValuePublicationExempt = True, lowMaxCents = 250000, highMinCents = 1000000\<rparr>"

definition lien_rules_DE :: lien_rules where
  "lien_rules_DE = \<lparr>statute = ''DE Code tit. 21 4406 / tit. 25 3901 (garage lien)'',
     dmvLookupWindowDays = 7, ownerNoticeWaitDays = 30, lienholderNoticeWaitDays = 30,
     publicationRequired = True, publicationWaitDays = 10, minDaysToSale = 45,
     lowValuePublicationExempt = True, lowMaxCents = 250000, highMinCents = 1000000\<rparr>"

definition lien_rules_HI :: lien_rules where
  "lien_rules_HI = \<lparr>statute = ''HI Rev. Stat. 290-1 et seq / 507-18 (storage lien)'',
     dmvLookupWindowDays = 10, ownerNoticeWaitDays = 30, lienholderNoticeWaitDays = 30,
     publicationRequired = True, publicationWaitDays = 15, minDaysToSale = 60,
     lowValuePublicationExempt = True, lowMaxCents = 250000, highMinCents = 1000000\<rparr>"

definition lien_rules_IA :: lien_rules where
  "lien_rules_IA = \<lparr>statute = ''IA Code 321.89 / 321.90 (abandoned vehicles)'',
     dmvLookupWindowDays = 7, ownerNoticeWaitDays = 20, lienholderNoticeWaitDays = 20,
     publicationRequired = False, publicationWaitDays = 0, minDaysToSale = 30,
     lowValuePublicationExempt = True, lowMaxCents = 250000, highMinCents = 1000000\<rparr>"

definition lien_rules_ID :: lien_rules where
  "lien_rules_ID = \<lparr>statute = ''ID Code 49-1801 et seq / 45-805 (possessory lien)'',
     dmvLookupWindowDays = 7, ownerNoticeWaitDays = 25, lienholderNoticeWaitDays = 25,
     publicationRequired = True, publicationWaitDays = 10, minDaysToSale = 30,
     lowValuePublicationExempt = True, lowMaxCents = 250000, highMinCents = 1000000\<rparr>"

definition lien_rules_IN :: lien_rules where
  "lien_rules_IN = \<lparr>statute = ''IN Code 9-22-1 et seq / 32-33-10 (possessory lien)'',
     dmvLookupWindowDays = 7, ownerNoticeWaitDays = 25, lienholderNoticeWaitDays = 25,
     publicationRequired = False, publicationWaitDays = 0, minDaysToSale = 30,
     lowValuePublicationExempt = True, lowMaxCents = 250000, highMinCents = 1000000\<rparr>"

definition lien_rules_KS :: lien_rules where
  "lien_rules_KS = \<lparr>statute = ''KS Stat. 8-1102 / 8-1103 (abandoned/storage lien)'',
     dmvLookupWindowDays = 7, ownerNoticeWaitDays = 15, lienholderNoticeWaitDays = 15,
     publicationRequired = True, publicationWaitDays = 10, minDaysToSale = 30,
     lowValuePublicationExempt = True, lowMaxCents = 250000, highMinCents = 1000000\<rparr>"

definition lien_rules_KY :: lien_rules where
  "lien_rules_KY = \<lparr>statute = ''KY Rev. Stat. 376.270 / 376.275 (storage lien)'',
     dmvLookupWindowDays = 7, ownerNoticeWaitDays = 30, lienholderNoticeWaitDays = 30,
     publicationRequired = True, publicationWaitDays = 10, minDaysToSale = 45,
     lowValuePublicationExempt = True, lowMaxCents = 250000, highMinCents = 1000000\<rparr>"

definition lien_rules_LA :: lien_rules where
  "lien_rules_LA = \<lparr>statute = ''LA Rev. Stat. 32:1711 et seq / 9:4501 (vehicle lien)'',
     dmvLookupWindowDays = 7, ownerNoticeWaitDays = 30, lienholderNoticeWaitDays = 30,
     publicationRequired = True, publicationWaitDays = 15, minDaysToSale = 60,
     lowValuePublicationExempt = True, lowMaxCents = 250000, highMinCents = 1000000\<rparr>"

definition lien_rules_MA :: lien_rules where
  "lien_rules_MA = \<lparr>statute = ''MA Gen. Laws ch. 90 31A / ch. 255 39A (garage lien)'',
     dmvLookupWindowDays = 7, ownerNoticeWaitDays = 30, lienholderNoticeWaitDays = 45,
     publicationRequired = True, publicationWaitDays = 14, minDaysToSale = 45,
     lowValuePublicationExempt = True, lowMaxCents = 250000, highMinCents = 1000000\<rparr>"

definition lien_rules_MD :: lien_rules where
  "lien_rules_MD = \<lparr>statute = ''MD Transp. 25-201 et seq / Com. Law 16-201 (garage lien)'',
     dmvLookupWindowDays = 7, ownerNoticeWaitDays = 30, lienholderNoticeWaitDays = 30,
     publicationRequired = True, publicationWaitDays = 10, minDaysToSale = 45,
     lowValuePublicationExempt = True, lowMaxCents = 250000, highMinCents = 1000000\<rparr>"

definition lien_rules_ME :: lien_rules where
  "lien_rules_ME = \<lparr>statute = ''ME Rev. Stat. tit. 29-A 1351 et seq / tit. 10 3801'',
     dmvLookupWindowDays = 7, ownerNoticeWaitDays = 20, lienholderNoticeWaitDays = 20,
     publicationRequired = True, publicationWaitDays = 10, minDaysToSale = 30,
     lowValuePublicationExempt = True, lowMaxCents = 250000, highMinCents = 1000000\<rparr>"

definition lien_rules_MN :: lien_rules where
  "lien_rules_MN = \<lparr>statute = ''MN Stat. 168B.01 et seq / 514.18 (vehicle lien)'',
     dmvLookupWindowDays = 7, ownerNoticeWaitDays = 20, lienholderNoticeWaitDays = 20,
     publicationRequired = False, publicationWaitDays = 0, minDaysToSale = 30,
     lowValuePublicationExempt = True, lowMaxCents = 250000, highMinCents = 1000000\<rparr>"

definition lien_rules_MO :: lien_rules where
  "lien_rules_MO = \<lparr>statute = ''MO Rev. Stat. 304.155 et seq / 430.082 (towing lien)'',
     dmvLookupWindowDays = 7, ownerNoticeWaitDays = 30, lienholderNoticeWaitDays = 30,
     publicationRequired = False, publicationWaitDays = 0, minDaysToSale = 30,
     lowValuePublicationExempt = True, lowMaxCents = 250000, highMinCents = 1000000\<rparr>"

definition lien_rules_MS :: lien_rules where
  "lien_rules_MS = \<lparr>statute = ''MS Code 63-23-1 et seq / 85-7-251 (vehicle lien)'',
     dmvLookupWindowDays = 7, ownerNoticeWaitDays = 30, lienholderNoticeWaitDays = 30,
     publicationRequired = True, publicationWaitDays = 10, minDaysToSale = 45,
     lowValuePublicationExempt = True, lowMaxCents = 250000, highMinCents = 1000000\<rparr>"

definition lien_rules_MT :: lien_rules where
  "lien_rules_MT = \<lparr>statute = ''MT Code 61-12-401 et seq / 71-3-1201 (vehicle lien)'',
     dmvLookupWindowDays = 7, ownerNoticeWaitDays = 20, lienholderNoticeWaitDays = 20,
     publicationRequired = True, publicationWaitDays = 10, minDaysToSale = 30,
     lowValuePublicationExempt = True, lowMaxCents = 250000, highMinCents = 1000000\<rparr>"

definition lien_rules_ND :: lien_rules where
  "lien_rules_ND = \<lparr>statute = ''ND Cent. Code 39-26-01 et seq / 35-13-01 (vehicle lien)'',
     dmvLookupWindowDays = 7, ownerNoticeWaitDays = 20, lienholderNoticeWaitDays = 20,
     publicationRequired = True, publicationWaitDays = 10, minDaysToSale = 30,
     lowValuePublicationExempt = True, lowMaxCents = 250000, highMinCents = 1000000\<rparr>"

definition lien_rules_NE :: lien_rules where
  "lien_rules_NE = \<lparr>statute = ''NE Rev. Stat. 60-1901 et seq / 52-601.01 (vehicle lien)'',
     dmvLookupWindowDays = 7, ownerNoticeWaitDays = 20, lienholderNoticeWaitDays = 20,
     publicationRequired = True, publicationWaitDays = 10, minDaysToSale = 30,
     lowValuePublicationExempt = True, lowMaxCents = 250000, highMinCents = 1000000\<rparr>"

definition lien_rules_NH :: lien_rules where
  "lien_rules_NH = \<lparr>statute = ''NH Rev. Stat. 262:31 et seq / 450:1 (garage lien)'',
     dmvLookupWindowDays = 7, ownerNoticeWaitDays = 25, lienholderNoticeWaitDays = 25,
     publicationRequired = True, publicationWaitDays = 10, minDaysToSale = 45,
     lowValuePublicationExempt = True, lowMaxCents = 250000, highMinCents = 1000000\<rparr>"

definition lien_rules_NJ :: lien_rules where
  "lien_rules_NJ = \<lparr>statute = ''NJ Stat. 39:10A-1 et seq / 2A:44-20 (garage lien)'',
     dmvLookupWindowDays = 7, ownerNoticeWaitDays = 30, lienholderNoticeWaitDays = 30,
     publicationRequired = True, publicationWaitDays = 10, minDaysToSale = 45,
     lowValuePublicationExempt = True, lowMaxCents = 250000, highMinCents = 1000000\<rparr>"

definition lien_rules_NM :: lien_rules where
  "lien_rules_NM = \<lparr>statute = ''NM Stat. 66-3-1 et seq / 48-3-19 (vehicle lien)'',
     dmvLookupWindowDays = 7, ownerNoticeWaitDays = 20, lienholderNoticeWaitDays = 20,
     publicationRequired = True, publicationWaitDays = 10, minDaysToSale = 30,
     lowValuePublicationExempt = True, lowMaxCents = 250000, highMinCents = 1000000\<rparr>"

definition lien_rules_NV :: lien_rules where
  "lien_rules_NV = \<lparr>statute = ''NV Rev. Stat. 487.230 et seq / 108.270 (storage lien)'',
     dmvLookupWindowDays = 7, ownerNoticeWaitDays = 20, lienholderNoticeWaitDays = 20,
     publicationRequired = False, publicationWaitDays = 0, minDaysToSale = 30,
     lowValuePublicationExempt = True, lowMaxCents = 250000, highMinCents = 1000000\<rparr>"

definition lien_rules_OK :: lien_rules where
  "lien_rules_OK = \<lparr>statute = ''OK Stat. tit. 47 901 et seq / tit. 42 91A (vehicle lien)'',
     dmvLookupWindowDays = 7, ownerNoticeWaitDays = 30, lienholderNoticeWaitDays = 30,
     publicationRequired = True, publicationWaitDays = 10, minDaysToSale = 45,
     lowValuePublicationExempt = True, lowMaxCents = 250000, highMinCents = 1000000\<rparr>"

definition lien_rules_OR :: lien_rules where
  "lien_rules_OR = \<lparr>statute = ''OR Rev. Stat. 819.100 et seq / 98.812 (towed vehicle)'',
     dmvLookupWindowDays = 7, ownerNoticeWaitDays = 20, lienholderNoticeWaitDays = 20,
     publicationRequired = False, publicationWaitDays = 0, minDaysToSale = 30,
     lowValuePublicationExempt = True, lowMaxCents = 250000, highMinCents = 1000000\<rparr>"

definition lien_rules_RI :: lien_rules where
  "lien_rules_RI = \<lparr>statute = ''RI Gen. Laws 31-43-1 et seq / 34-47-1 (garage lien)'',
     dmvLookupWindowDays = 7, ownerNoticeWaitDays = 30, lienholderNoticeWaitDays = 30,
     publicationRequired = True, publicationWaitDays = 10, minDaysToSale = 45,
     lowValuePublicationExempt = True, lowMaxCents = 250000, highMinCents = 1000000\<rparr>"

definition lien_rules_SC :: lien_rules where
  "lien_rules_SC = \<lparr>statute = ''SC Code 56-5-5630 et seq / 29-15-10 (vehicle lien)'',
     dmvLookupWindowDays = 7, ownerNoticeWaitDays = 30, lienholderNoticeWaitDays = 30,
     publicationRequired = True, publicationWaitDays = 10, minDaysToSale = 45,
     lowValuePublicationExempt = True, lowMaxCents = 250000, highMinCents = 1000000\<rparr>"

definition lien_rules_SD :: lien_rules where
  "lien_rules_SD = \<lparr>statute = ''SD Codified Laws 32-30-1 et seq / 32-36 (vehicle lien)'',
     dmvLookupWindowDays = 7, ownerNoticeWaitDays = 20, lienholderNoticeWaitDays = 20,
     publicationRequired = True, publicationWaitDays = 10, minDaysToSale = 30,
     lowValuePublicationExempt = True, lowMaxCents = 250000, highMinCents = 1000000\<rparr>"

definition lien_rules_TN :: lien_rules where
  "lien_rules_TN = \<lparr>statute = ''TN Code 55-16-101 et seq / 66-19-103 (garage lien)'',
     dmvLookupWindowDays = 7, ownerNoticeWaitDays = 20, lienholderNoticeWaitDays = 20,
     publicationRequired = False, publicationWaitDays = 0, minDaysToSale = 30,
     lowValuePublicationExempt = True, lowMaxCents = 250000, highMinCents = 1000000\<rparr>"

definition lien_rules_UT :: lien_rules where
  "lien_rules_UT = \<lparr>statute = ''UT Code 41-6a-1401 et seq / 72-9-603 / 38-2-1 (lien)'',
     dmvLookupWindowDays = 7, ownerNoticeWaitDays = 20, lienholderNoticeWaitDays = 20,
     publicationRequired = True, publicationWaitDays = 10, minDaysToSale = 30,
     lowValuePublicationExempt = True, lowMaxCents = 250000, highMinCents = 1000000\<rparr>"

definition lien_rules_VA :: lien_rules where
  "lien_rules_VA = \<lparr>statute = ''VA Code 46.2-1200 et seq / 43-32 (garage lien)'',
     dmvLookupWindowDays = 7, ownerNoticeWaitDays = 30, lienholderNoticeWaitDays = 30,
     publicationRequired = True, publicationWaitDays = 10, minDaysToSale = 45,
     lowValuePublicationExempt = True, lowMaxCents = 250000, highMinCents = 1000000\<rparr>"

definition lien_rules_VT :: lien_rules where
  "lien_rules_VT = \<lparr>statute = ''VT Stat. tit. 23 2151 et seq / tit. 9 1961 (vehicle lien)'',
     dmvLookupWindowDays = 7, ownerNoticeWaitDays = 20, lienholderNoticeWaitDays = 20,
     publicationRequired = True, publicationWaitDays = 10, minDaysToSale = 30,
     lowValuePublicationExempt = True, lowMaxCents = 250000, highMinCents = 1000000\<rparr>"

definition lien_rules_WA :: lien_rules where
  "lien_rules_WA = \<lparr>statute = ''WA Rev. Code 46.55 / 60.10 (impound & chattel lien)'',
     dmvLookupWindowDays = 5, ownerNoticeWaitDays = 15, lienholderNoticeWaitDays = 15,
     publicationRequired = False, publicationWaitDays = 0, minDaysToSale = 30,
     lowValuePublicationExempt = True, lowMaxCents = 250000, highMinCents = 1000000\<rparr>"

definition lien_rules_WI :: lien_rules where
  "lien_rules_WI = \<lparr>statute = ''WI Stat. 342.40 / 779.41 (towing lien)'',
     dmvLookupWindowDays = 7, ownerNoticeWaitDays = 20, lienholderNoticeWaitDays = 20,
     publicationRequired = True, publicationWaitDays = 10, minDaysToSale = 30,
     lowValuePublicationExempt = True, lowMaxCents = 250000, highMinCents = 1000000\<rparr>"

definition lien_rules_WV :: lien_rules where
  "lien_rules_WV = \<lparr>statute = ''WV Code 17-24-1 et seq / 38-13-1 (vehicle lien)'',
     dmvLookupWindowDays = 7, ownerNoticeWaitDays = 30, lienholderNoticeWaitDays = 30,
     publicationRequired = True, publicationWaitDays = 10, minDaysToSale = 45,
     lowValuePublicationExempt = True, lowMaxCents = 250000, highMinCents = 1000000\<rparr>"

definition lien_rules_WY :: lien_rules where
  "lien_rules_WY = \<lparr>statute = ''WY Stat. 31-13-101 et seq / 29-7-101 (vehicle lien)'',
     dmvLookupWindowDays = 7, ownerNoticeWaitDays = 20, lienholderNoticeWaitDays = 20,
     publicationRequired = True, publicationWaitDays = 10, minDaysToSale = 30,
     lowValuePublicationExempt = True, lowMaxCents = 250000, highMinCents = 1000000\<rparr>"

definition LIEN_STATE_RULES :: "(string \<times> lien_rules) list" where
  "LIEN_STATE_RULES = [
     (''CA'', lien_rules_CA), (''TX'', lien_rules_TX), (''FL'', lien_rules_FL),
     (''NY'', lien_rules_NY), (''GA'', lien_rules_GA), (''NC'', lien_rules_NC),
     (''OH'', lien_rules_OH), (''IL'', lien_rules_IL), (''PA'', lien_rules_PA),
     (''MI'', lien_rules_MI), (''AK'', lien_rules_AK), (''AL'', lien_rules_AL),
     (''AR'', lien_rules_AR), (''AZ'', lien_rules_AZ), (''CO'', lien_rules_CO),
     (''CT'', lien_rules_CT), (''DC'', lien_rules_DC), (''DE'', lien_rules_DE),
     (''HI'', lien_rules_HI), (''IA'', lien_rules_IA), (''ID'', lien_rules_ID),
     (''IN'', lien_rules_IN), (''KS'', lien_rules_KS), (''KY'', lien_rules_KY),
     (''LA'', lien_rules_LA), (''MA'', lien_rules_MA), (''MD'', lien_rules_MD),
     (''ME'', lien_rules_ME), (''MN'', lien_rules_MN), (''MO'', lien_rules_MO),
     (''MS'', lien_rules_MS), (''MT'', lien_rules_MT), (''ND'', lien_rules_ND),
     (''NE'', lien_rules_NE), (''NH'', lien_rules_NH), (''NJ'', lien_rules_NJ),
     (''NM'', lien_rules_NM), (''NV'', lien_rules_NV), (''OK'', lien_rules_OK),
     (''OR'', lien_rules_OR), (''RI'', lien_rules_RI), (''SC'', lien_rules_SC),
     (''SD'', lien_rules_SD), (''TN'', lien_rules_TN), (''UT'', lien_rules_UT),
     (''VA'', lien_rules_VA), (''VT'', lien_rules_VT), (''WA'', lien_rules_WA),
     (''WI'', lien_rules_WI), (''WV'', lien_rules_WV), (''WY'', lien_rules_WY)]"

definition getStateRules :: "string \<Rightarrow> lien_rules option" where
  "getStateRules state = map_of LIEN_STATE_RULES state"

lemmas lien_rule_defs = lien_rules_CA_def lien_rules_TX_def lien_rules_FL_def lien_rules_NY_def
  lien_rules_GA_def lien_rules_NC_def lien_rules_OH_def lien_rules_IL_def
  lien_rules_PA_def lien_rules_MI_def lien_rules_AK_def lien_rules_AL_def
  lien_rules_AR_def lien_rules_AZ_def lien_rules_CO_def lien_rules_CT_def
  lien_rules_DC_def lien_rules_DE_def lien_rules_HI_def lien_rules_IA_def
  lien_rules_ID_def lien_rules_IN_def lien_rules_KS_def lien_rules_KY_def
  lien_rules_LA_def lien_rules_MA_def lien_rules_MD_def lien_rules_ME_def
  lien_rules_MN_def lien_rules_MO_def lien_rules_MS_def lien_rules_MT_def
  lien_rules_ND_def lien_rules_NE_def lien_rules_NH_def lien_rules_NJ_def
  lien_rules_NM_def lien_rules_NV_def lien_rules_OK_def lien_rules_OR_def
  lien_rules_RI_def lien_rules_SC_def lien_rules_SD_def lien_rules_TN_def
  lien_rules_UT_def lien_rules_VA_def lien_rules_VT_def lien_rules_WA_def
  lien_rules_WI_def lien_rules_WV_def lien_rules_WY_def

text \<open>What the engine relies on for every jurisdiction.\<close>

definition rules_wf :: "lien_rules \<Rightarrow> bool" where
  "rules_wf r \<longleftrightarrow> 0 < dmvLookupWindowDays r \<and> dmvLookupWindowDays r < minDaysToSale r
     \<and> 0 < ownerNoticeWaitDays r \<and> ownerNoticeWaitDays r \<le> minDaysToSale r
     \<and> 0 < lienholderNoticeWaitDays r \<and> lienholderNoticeWaitDays r \<le> minDaysToSale r
     \<and> (publicationRequired r \<longleftrightarrow> 0 < publicationWaitDays r) \<and> 0 \<le> publicationWaitDays r
     \<and> 30 \<le> minDaysToSale r \<and> 0 < lowMaxCents r \<and> lowMaxCents r < highMinCents r"

lemma all_rules_wf: "list_all (\<lambda>(s, r). rules_wf r) LIEN_STATE_RULES"
  unfolding LIEN_STATE_RULES_def by (simp add: rules_wf_def lien_rule_defs)

lemma lien_states_distinct: "distinct (map fst LIEN_STATE_RULES)" "length LIEN_STATE_RULES = 51"
  by (simp_all add: LIEN_STATE_RULES_def)

lemma getStateRules_wf: "getStateRules s = Some r \<Longrightarrow> rules_wf r"
  using all_rules_wf by (auto simp: getStateRules_def list_all_iff dest!: map_of_SomeD)

end
