(* ===== verification/LienRules.thy ===== *)
theory LienRules
  imports LienConfig Dates
begin

text \<open>
  lien-processing/lien-rules.logic.ts: the pure engine that, from the facts of a lien case, the
  rules of its state and the present instant, computes the next operator action, when it is
  due, and whether the case is blocked from sale.  Instants are milliseconds and stay within
  the range of a Date, so printing one does not fail.
\<close>

datatype value_tier = Tier_low | Tier_mid | Tier_high

datatype lien_status = Lien_open | Lien_ready_for_sale | Lien_sold | Lien_closed | Lien_canceled

datatype lien_step = Step_opened | Step_dmv_lookup_requested | Step_dmv_lookup_complete
  | Step_owner_notice_sent | Step_lienholder_notice_sent | Step_publication_complete
  | Step_waiting_period | Step_ready_for_sale | Step_sold | Step_closed

datatype lien_action = Request_dmv_lookup | Complete_dmv_lookup | Send_owner_notice
  | Send_lienholder_notice | Publish_notice | Await_waiting_period | Mark_ready_for_sale
  | Conduct_sale | Resolve_claim | No_action

text \<open>\<open>addUtcDays\<close> of this file moves an instant, unlike the one on date strings.\<close>

definition add_days :: "instant \<Rightarrow> int \<Rightarrow> instant" where
  "add_days d n = d + n * day_ms"

definition maxDate :: "instant option list \<Rightarrow> instant option" where
  "maxDate ds = foldl (\<lambda>best d. case d of None \<Rightarrow> best
     | Some x \<Rightarrow> (case best of None \<Rightarrow> Some x | Some b \<Rightarrow> if b < x then Some x else best)) None ds"

definition computeValueTier :: "cents option \<Rightarrow> lien_rules \<Rightarrow> value_tier" where
  "computeValueTier estimated rules = (case estimated of
      None \<Rightarrow> Tier_mid
    | Some v \<Rightarrow> if v \<le> lowMaxCents rules then Tier_low
        else if highMinCents rules \<le> v then Tier_high else Tier_mid)"

record lien_facts =
  lf_status :: lien_status
  lf_currentStep :: lien_step
  lf_valueTier :: value_tier
  lf_ownerFound :: bool
  lf_lienholderFound :: bool
  lf_openedAt :: instant
  lf_dmvLookupCompletedAt :: "instant option"
  lf_ownerNoticeSentAt :: "instant option"
  lf_lienholderNoticeSentAt :: "instant option"
  lf_publicationCompletedAt :: "instant option"
  lf_ownerResponseAt :: "instant option"
  lf_lienholderResponseAt :: "instant option"

record next_action =
  na_action :: lien_action
  na_dueAt :: "instant option"
  na_blocking :: bool
  na_reasons :: "string list"

definition isPublicationRequired :: "lien_facts \<Rightarrow> lien_rules \<Rightarrow> bool" where
  "isPublicationRequired facts rules =
     (if \<not> publicationRequired rules then False
      else if \<not> lf_ownerFound facts then True
      else if lf_valueTier facts = Tier_low \<and> lowValuePublicationExempt rules then False
      else True)"

definition sale_candidates :: "lien_facts \<Rightarrow> lien_rules \<Rightarrow> instant option list" where
  "sale_candidates facts rules =
     [Some (add_days (lf_openedAt facts) (minDaysToSale rules))]
     @ (case lf_ownerNoticeSentAt facts of None \<Rightarrow> []
        | Some s \<Rightarrow> [Some (add_days s (ownerNoticeWaitDays rules))])
     @ (case lf_lienholderNoticeSentAt facts of None \<Rightarrow> []
        | Some s \<Rightarrow> [Some (add_days s (lienholderNoticeWaitDays rules))])
     @ (if isPublicationRequired facts rules
        then (case lf_publicationCompletedAt facts of None \<Rightarrow> []
          | Some s \<Rightarrow> [Some (add_days s (publicationWaitDays rules))]) else [])"

definition computeEarliestSaleDate :: "lien_facts \<Rightarrow> lien_rules \<Rightarrow> instant" where
  "computeEarliestSaleDate facts rules = the (maxDate (sale_candidates facts rules))"

definition or_today :: "instant option \<Rightarrow> instant \<Rightarrow> instant option" where
  "or_today d today = (case d of None \<Rightarrow> Some today | Some x \<Rightarrow> Some x)"

definition waitingAction :: "lien_facts \<Rightarrow> lien_rules \<Rightarrow> instant \<Rightarrow> next_action" where
  "waitingAction facts rules today =
    (let earliest = computeEarliestSaleDate facts rules in
     if earliest \<le> today
     then \<lparr>na_action = Mark_ready_for_sale, na_dueAt = Some earliest, na_blocking = True,
       na_reasons = [''The statutory waiting period has elapsed; mark the case ready for sale.'']\<rparr>
     else \<lparr>na_action = Await_waiting_period, na_dueAt = Some earliest, na_blocking = True,
       na_reasons = [''The statutory waiting period ends '' @ iso_date (earliest div day_ms) @ ''.'']\<rparr>)"

definition publish_action :: "instant option \<Rightarrow> next_action" where
  "publish_action due = \<lparr>na_action = Publish_notice, na_dueAt = due, na_blocking = True,
     na_reasons = [''Publish the lien-sale notice in a newspaper of general circulation.'']\<rparr>"

definition computeNextAction :: "lien_facts \<Rightarrow> lien_rules \<Rightarrow> instant \<Rightarrow> next_action" where
  "computeNextAction facts rules today =
    (let nothing = \<lparr>na_action = No_action, na_dueAt = None, na_blocking = False, na_reasons = []\<rparr>;
         needs_publication = (isPublicationRequired facts rules
           \<and> lf_publicationCompletedAt facts = None)
     in if lf_status facts = Lien_sold \<or> lf_status facts = Lien_closed \<or> lf_status facts = Lien_canceled
        then nothing
        else if lf_ownerResponseAt facts \<noteq> None \<or> lf_lienholderResponseAt facts \<noteq> None
        then \<lparr>na_action = Resolve_claim, na_dueAt = None, na_blocking = True,
          na_reasons = [''A notice response/claim was recorded; resolve it before any sale.'']\<rparr>
        else if lf_status facts = Lien_ready_for_sale \<or> lf_currentStep facts = Step_ready_for_sale
        then \<lparr>na_action = Conduct_sale, na_dueAt = None, na_blocking = False,
          na_reasons = [''Statutory prerequisites satisfied; the vehicle may be sold.'']\<rparr>
        else (case lf_currentStep facts of
          Step_opened \<Rightarrow> \<lparr>na_action = Request_dmv_lookup,
            na_dueAt = Some (add_days (lf_openedAt facts) (dmvLookupWindowDays rules)),
            na_blocking = True, na_reasons =
              [''Request the DMV owner/lienholder lookup to identify notice recipients.'']\<rparr>
        | Step_dmv_lookup_requested \<Rightarrow> \<lparr>na_action = Complete_dmv_lookup,
            na_dueAt = Some (add_days (lf_openedAt facts) (dmvLookupWindowDays rules)),
            na_blocking = True,
            na_reasons = [''Record the DMV lookup result (owner / lienholder found).'']\<rparr>
        | Step_dmv_lookup_complete \<Rightarrow> \<lparr>na_action = Send_owner_notice,
            na_dueAt = or_today (lf_dmvLookupCompletedAt facts) today, na_blocking = True,
            na_reasons = [''Send certified notice of pending lien sale to the registered owner.'']\<rparr>
        | Step_owner_notice_sent \<Rightarrow>
            if lf_lienholderFound facts \<and> lf_lienholderNoticeSentAt facts = None
            then \<lparr>na_action = Send_lienholder_notice,
              na_dueAt = or_today (lf_ownerNoticeSentAt facts) today, na_blocking = True,
              na_reasons = [''Send certified notice to the recorded lienholder.'']\<rparr>
            else if needs_publication
            then publish_action (or_today (lf_ownerNoticeSentAt facts) today)
            else waitingAction facts rules today
        | Step_lienholder_notice_sent \<Rightarrow>
            if needs_publication
            then publish_action (or_today (lf_lienholderNoticeSentAt facts) today)
            else waitingAction facts rules today
        | Step_publication_complete \<Rightarrow> waitingAction facts rules today
        | Step_waiting_period \<Rightarrow> waitingAction facts rules today
        | _ \<Rightarrow> nothing))"

section \<open>The earliest sale date\<close>

lemma maxDate_foldl:
  "foldl (\<lambda>best d. case d of None \<Rightarrow> best
     | Some x \<Rightarrow> (case best of None \<Rightarrow> Some x | Some b \<Rightarrow> if b < x then Some x else best))
     (Some (a :: instant)) (map Some xs) = Some (foldl max a xs)"
proof (induction xs arbitrary: a)
  case (Cons x xs)
  have "max a x = (if a < x then x else a)" by (simp add: max_def)
  with Cons show ?case by simp
qed simp

lemma maxDate_Some: "maxDate (map Some (x # xs)) = Some (foldl max x xs)"
  by (simp add: maxDate_def maxDate_foldl)

definition sale_dates :: "lien_facts \<Rightarrow> lien_rules \<Rightarrow> instant list" where
  "sale_dates facts rules =
     (case lf_ownerNoticeSentAt facts of None \<Rightarrow> []
        | Some s \<Rightarrow> [add_days s (ownerNoticeWaitDays rules)])
     @ (case lf_lienholderNoticeSentAt facts of None \<Rightarrow> []
        | Some s \<Rightarrow> [add_days s (lienholderNoticeWaitDays rules)])
     @ (if isPublicationRequired facts rules
        then (case lf_publicationCompletedAt facts of None \<Rightarrow> []
          | Some s \<Rightarrow> [add_days s (publicationWaitDays rules)]) else [])"

lemma earliest_eq:
  "computeEarliestSaleDate facts rules
     = foldl max (add_days (lf_openedAt facts) (minDaysToSale rules)) (sale_dates facts rules)"
proof -
  have "sale_candidates facts rules
      = map Some (add_days (lf_openedAt facts) (minDaysToSale rules) # sale_dates facts rules)"
    by (simp add: sale_candidates_def sale_dates_def split: option.split)
  then show ?thesis by (simp only: computeEarliestSaleDate_def maxDate_Some option.sel)
qed

lemma foldl_max_le: "foldl max a xs \<le> (t::int) \<longleftrightarrow> a \<le> t \<and> (\<forall>x \<in> set xs. x \<le> t)"
  by (induction xs arbitrary: a) auto

lemma earliest_le:
  "computeEarliestSaleDate facts rules \<le> t \<longleftrightarrow>
     add_days (lf_openedAt facts) (minDaysToSale rules) \<le> t
     \<and> (\<forall>s. lf_ownerNoticeSentAt facts = Some s \<longrightarrow> add_days s (ownerNoticeWaitDays rules) \<le> t)
     \<and> (\<forall>s. lf_lienholderNoticeSentAt facts = Some s \<longrightarrow> add_days s (lienholderNoticeWaitDays rules) \<le> t)
     \<and> (isPublicationRequired facts rules \<longrightarrow> (\<forall>s. lf_publicationCompletedAt facts = Some s
          \<longrightarrow> add_days s (publicationWaitDays rules) \<le> t))"
  by (cases "lf_ownerNoticeSentAt facts"; cases "lf_lienholderNoticeSentAt facts";
      cases "lf_publicationCompletedAt facts"; cases "isPublicationRequired facts rules")
    (simp_all add: earliest_eq foldl_max_le sale_dates_def)

lemma waitingAction_mark:
  "na_action (waitingAction facts rules today) = Mark_ready_for_sale
     \<longleftrightarrow> computeEarliestSaleDate facts rules \<le> today"
  by (simp add: waitingAction_def Let_def)

lemma computeNextAction_mark:
  "na_action (computeNextAction facts rules today) = Mark_ready_for_sale \<Longrightarrow>
     computeEarliestSaleDate facts rules \<le> today
     \<and> lf_ownerResponseAt facts = None \<and> lf_lienholderResponseAt facts = None
     \<and> lf_status facts = Lien_open"
  by (cases "lf_status facts"; cases "lf_currentStep facts")
    (auto simp: computeNextAction_def Let_def waitingAction_mark publish_action_def split: if_splits)

end
