(* ===== verification/LienCases.thy ===== *)
theory LienCases
  imports LienRules Impound
begin

text \<open>
  lien-processing/lien-processing.service.ts and lien-advance.cron.ts: the lien cases of the
  impound records, their notices and timeline, every operation of the service and the
  observation-only nightly sweep.  Step and status changes go through the engine of
  LienRules.  The detail a handler returns is the case row.
\<close>

section \<open>Tables\<close>

datatype notice_type = Notice_owner | Notice_lienholder | Notice_publication | Notice_dmv_request

datatype recipient_role = Recipient_owner | Recipient_lienholder | Recipient_dmv | Recipient_public

fun notice_type_text :: "notice_type \<Rightarrow> string" where
  "notice_type_text Notice_owner = ''owner_notice''"
| "notice_type_text Notice_lienholder = ''lienholder_notice''"
| "notice_type_text Notice_publication = ''publication_notice''"
| "notice_type_text Notice_dmv_request = ''dmv_request''"

fun recipient_role_text :: "recipient_role \<Rightarrow> string" where
  "recipient_role_text Recipient_owner = ''owner''"
| "recipient_role_text Recipient_lienholder = ''lienholder''"
| "recipient_role_text Recipient_dmv = ''dmv''"
| "recipient_role_text Recipient_public = ''public''"

datatype delivery_method = Certified_mail | First_class_mail | Publication | Electronic | In_person

datatype lien_disposition = Disp_sold | Disp_closed | Disp_canceled

record case_row =
  lc_id :: uuid
  lc_tenantId :: uuid
  lc_impoundRecordId :: uuid
  lc_state :: string
  lc_status :: lien_status
  lc_currentStep :: lien_step
  lc_vehicleValueTier :: value_tier
  lc_ownerFound :: bool
  lc_lienholderFound :: bool
  lc_estimatedValueCents :: "cents option"
  lc_openedAt :: instant
  lc_nextActionDueAt :: "instant option"
  lc_readyForSaleAt :: "instant option"
  lc_soldAt :: "instant option"
  lc_closedAt :: "instant option"
  lc_closedReason :: "string option"
  lc_notes :: "string option"
  lc_createdBy :: "uuid option"
  lc_updatedAt :: instant
  lc_deletedAt :: "instant option"

record notice_row =
  ln_id :: uuid
  ln_tenantId :: uuid
  ln_lienCaseId :: uuid
  ln_noticeType :: notice_type
  ln_recipientRole :: recipient_role
  ln_recipientName :: "string option"
  ln_recipientAddress :: "string option"
  ln_deliveryMethod :: delivery_method
  ln_sentAt :: instant
  ln_certifiedTrackingNo :: "string option"
  ln_responseReceivedAt :: "instant option"
  ln_responseNotes :: "string option"
  ln_notes :: "string option"
  ln_createdBy :: "uuid option"
  ln_updatedAt :: instant
  ln_deletedAt :: "instant option"

datatype timeline_event =
    Case_opened string value_tier lien_action
  | Value_tier_set value_tier
  | Dmv_lookup_recorded lien_step lien_step
  | Notice_recorded uuid notice_type recipient_role delivery_method
  | Response_recorded uuid notice_type recipient_role
  | Step_advanced lien_step lien_step
  | Action_due lien_action instant "string list"
  | Marked_ready_for_sale lien_step lien_step
  | Case_ended lien_disposition "string option" "cents option"

record timeline_row =
  tl_id :: uuid
  tl_tenantId :: uuid
  tl_lienCaseId :: uuid
  tl_occurredAt :: instant
  tl_actorUserId :: "uuid option"
  tl_event :: timeline_event

record lien_db = impound_db +
  lienCases :: "case_row list"
  lienNotices :: "notice_row list"
  lienTimelineEvents :: "timeline_row list"

fun STEP_RANK :: "lien_step \<Rightarrow> nat" where
  "STEP_RANK Step_opened = 0"
| "STEP_RANK Step_dmv_lookup_requested = 1"
| "STEP_RANK Step_dmv_lookup_complete = 2"
| "STEP_RANK Step_owner_notice_sent = 3"
| "STEP_RANK Step_lienholder_notice_sent = 4"
| "STEP_RANK Step_publication_complete = 5"
| "STEP_RANK Step_waiting_period = 6"
| "STEP_RANK Step_ready_for_sale = 7"
| "STEP_RANK Step_sold = 8"
| "STEP_RANK Step_closed = 9"

definition live_case :: "uuid \<Rightarrow> uuid \<Rightarrow> case_row \<Rightarrow> bool" where
  "live_case t i c \<longleftrightarrow> lc_tenantId c = t \<and> lc_id c = i \<and> lc_deletedAt c = None"

definition own_case :: "uuid \<Rightarrow> uuid \<Rightarrow> case_row \<Rightarrow> bool" where
  "own_case t i c \<longleftrightarrow> lc_tenantId c = t \<and> lc_id c = i"

definition case_not_found :: exn where
  "case_not_found = NotFound ''Lien case not found''"

section \<open>Pure helpers\<close>

fun lien_status_text :: "lien_status \<Rightarrow> string" where
  "lien_status_text Lien_open = ''open''"
| "lien_status_text Lien_ready_for_sale = ''ready_for_sale''"
| "lien_status_text Lien_sold = ''sold''"
| "lien_status_text Lien_closed = ''closed''"
| "lien_status_text Lien_canceled = ''canceled''"

definition assertOpen :: "lien_status \<Rightarrow> exn + unit" where
  "assertOpen st = ensure (st = Lien_open) (Conflict ''INVALID_STATE''
     (''Lien case is '' @ quoted (lien_status_text st) @ '' and can no longer be modified.'')) (Inr ())"

definition requireRules :: "string \<Rightarrow> exn + lien_rules" where
  "requireRules state = require (getStateRules state) (Conflict ''INVALID_STATE''
     (''Lien processing is not supported for '' @ state @ ''.'')) Inr"

fun stepForNotice :: "notice_type \<Rightarrow> lien_step" where
  "stepForNotice Notice_dmv_request = Step_dmv_lookup_requested"
| "stepForNotice Notice_owner = Step_owner_notice_sent"
| "stepForNotice Notice_lienholder = Step_lienholder_notice_sent"
| "stepForNotice Notice_publication = Step_publication_complete"

text \<open>The step and whether it marks the case ready.\<close>

definition nextStepFor :: "lien_step \<Rightarrow> next_action \<Rightarrow> (lien_step \<times> bool) option" where
  "nextStepFor current next = (case current of
      Step_opened \<Rightarrow> Some (Step_dmv_lookup_requested, False)
    | Step_dmv_lookup_requested \<Rightarrow> Some (Step_dmv_lookup_complete, False)
    | Step_owner_notice_sent \<Rightarrow>
        if na_action next = Await_waiting_period \<or> na_action next = Mark_ready_for_sale
        then Some (Step_waiting_period, False) else None
    | Step_lienholder_notice_sent \<Rightarrow>
        if na_action next = Await_waiting_period \<or> na_action next = Mark_ready_for_sale
        then Some (Step_waiting_period, False) else None
    | Step_publication_complete \<Rightarrow>
        if na_action next = Await_waiting_period \<or> na_action next = Mark_ready_for_sale
        then Some (Step_waiting_period, False) else None
    | Step_waiting_period \<Rightarrow>
        if na_action next = Mark_ready_for_sale then Some (Step_ready_for_sale, True) else None
    | _ \<Rightarrow> None)"

definition first_reason :: "next_action \<Rightarrow> string \<Rightarrow> string" where
  "first_reason next dflt = (case na_reasons next of [] \<Rightarrow> dflt | r # _ \<Rightarrow> r)"

definition blockingMessage :: "next_action \<Rightarrow> string" where
  "blockingMessage next = (case na_action next of
      Send_owner_notice \<Rightarrow> ''Record the owner notice before advancing.''
    | Send_lienholder_notice \<Rightarrow> ''Record the lienholder notice before advancing.''
    | Publish_notice \<Rightarrow> ''Record the publication notice before advancing.''
    | Request_dmv_lookup \<Rightarrow> ''Request the DMV lookup before advancing.''
    | Complete_dmv_lookup \<Rightarrow> ''Record the DMV lookup result before advancing.''
    | Await_waiting_period \<Rightarrow> first_reason next ''The statutory waiting period has not elapsed.''
    | Conduct_sale \<Rightarrow> ''The case is already ready for sale; record the sale via close.''
    | Resolve_claim \<Rightarrow> first_reason next ''Resolve the recorded claim before advancing.''
    | _ \<Rightarrow> ''The case cannot be advanced from its current state.'')"

text \<open>The first notice of the type with the greatest \<open>sentAt\<close>.\<close>

definition latest_notice :: "notice_type \<Rightarrow> notice_row list \<Rightarrow> notice_row option" where
  "latest_notice ty ns = foldl (\<lambda>best n. if ln_noticeType n \<noteq> ty then best
     else case best of None \<Rightarrow> Some n | Some b \<Rightarrow> if ln_sentAt b < ln_sentAt n then Some n else best)
     None ns"

definition opt_then :: "'a option \<Rightarrow> ('a \<Rightarrow> 'b option) \<Rightarrow> 'b option" where
  "opt_then x f = (case x of None \<Rightarrow> None | Some a \<Rightarrow> f a)"

definition deriveFacts :: "case_row \<Rightarrow> notice_row list \<Rightarrow> lien_facts" where
  "deriveFacts c notices =
    (let owner = latest_notice Notice_owner notices;
         lien = latest_notice Notice_lienholder notices;
         pub = latest_notice Notice_publication notices;
         dmv = latest_notice Notice_dmv_request notices
     in \<lparr>lf_status = lc_status c, lf_currentStep = lc_currentStep c,
         lf_valueTier = lc_vehicleValueTier c, lf_ownerFound = lc_ownerFound c,
         lf_lienholderFound = lc_lienholderFound c, lf_openedAt = lc_openedAt c,
         lf_dmvLookupCompletedAt = opt_then dmv (\<lambda>d. case ln_responseReceivedAt d of
            Some r \<Rightarrow> Some r | None \<Rightarrow> Some (ln_sentAt d)),
         lf_ownerNoticeSentAt = map_option ln_sentAt owner,
         lf_lienholderNoticeSentAt = map_option ln_sentAt lien,
         lf_publicationCompletedAt = map_option ln_sentAt pub,
         lf_ownerResponseAt = opt_then owner ln_responseReceivedAt,
         lf_lienholderResponseAt = opt_then lien ln_responseReceivedAt\<rparr>)"

section \<open>Shared steps of the handlers\<close>

definition loadNotices :: "uuid \<Rightarrow> uuid \<Rightarrow> 'a lien_db_scheme \<Rightarrow> notice_row list" where
  "loadNotices t caseId db = sort_key ln_sentAt (select_where
     (\<lambda>n. ln_tenantId n = t \<and> ln_lienCaseId n = caseId \<and> ln_deletedAt n = None) (lienNotices db))"

definition requireCase :: "uuid \<Rightarrow> uuid \<Rightarrow> 'a lien_db_scheme \<Rightarrow> exn + case_row" where
  "requireCase t caseId db = require (select_first (live_case t caseId) (lienCases db)) case_not_found Inr"

definition recomputeDue :: "uuid \<Rightarrow> instant \<Rightarrow> case_row \<Rightarrow> 'a lien_db_scheme \<Rightarrow> 'a lien_db_scheme" where
  "recomputeDue t now c db = (case getStateRules (lc_state c) of
      None \<Rightarrow> db
    | Some rules \<Rightarrow>
        let next = computeNextAction (deriveFacts c (loadNotices t (lc_id c) db)) rules now
        in db\<lparr>lienCases := update_where (own_case t (lc_id c))
             (\<lambda>r. r\<lparr>lc_nextActionDueAt := na_dueAt next, lc_updatedAt := now\<rparr>) (lienCases db)\<rparr>)"

definition addTimeline :: "ctx \<Rightarrow> instant \<Rightarrow> uuid \<Rightarrow> uuid \<Rightarrow> timeline_event \<Rightarrow> 'a lien_db_scheme \<Rightarrow>
    'a lien_db_scheme" where
  "addTimeline ctx now newId caseId e db = db\<lparr>lienTimelineEvents := insert_into
     \<lparr>tl_id = newId, tl_tenantId = ctx_tenantId ctx, tl_lienCaseId = caseId, tl_occurredAt = now,
      tl_actorUserId = Some (ctx_userId ctx), tl_event = e\<rparr> (lienTimelineEvents db)\<rparr>"

section \<open>The operations\<close>

record open_case_input =
  oc_impoundRecordId :: uuid
  oc_state :: string
  oc_vehicleValueTier :: "value_tier option"
  oc_estimatedValueCents :: "cents option"
  oc_ownerFound :: "bool option"
  oc_lienholderFound :: "bool option"
  oc_notes :: "string option"

definition openCase :: "ctx \<Rightarrow> instant \<Rightarrow> uuid \<Rightarrow> uuid \<Rightarrow> open_case_input \<Rightarrow> 'a lien_db_scheme \<Rightarrow>
    exn + case_row \<times> 'a lien_db_scheme" where
  "openCase ctx now newId tlId inp db =
    (let t = ctx_tenantId ctx in
     require (getStateRules (oc_state inp)) (Conflict ''INVALID_STATE''
       (''Lien processing is not yet supported for '' @ oc_state inp @ ''.'')) (\<lambda>rules.
     require (select_first (live_impound t (oc_impoundRecordId inp)) (impoundRecords db))
       (NotFound ''Impound record not found in this tenant'') (\<lambda>record.
     (let tier = (case oc_vehicleValueTier inp of Some v \<Rightarrow> v
            | None \<Rightarrow> computeValueTier (oc_estimatedValueCents inp) rules);
          row0 = \<lparr>lc_id = newId, lc_tenantId = t, lc_impoundRecordId = oc_impoundRecordId inp,
            lc_state = oc_state inp, lc_status = Lien_open, lc_currentStep = Step_opened,
            lc_vehicleValueTier = tier,
            lc_ownerFound = (case oc_ownerFound inp of Some b \<Rightarrow> b | None \<Rightarrow> False),
            lc_lienholderFound = (case oc_lienholderFound inp of Some b \<Rightarrow> b | None \<Rightarrow> False),
            lc_estimatedValueCents = oc_estimatedValueCents inp, lc_openedAt = now,
            lc_nextActionDueAt = None, lc_readyForSaleAt = None, lc_soldAt = None,
            lc_closedAt = None, lc_closedReason = None, lc_notes = oc_notes inp,
            lc_createdBy = Some (ctx_userId ctx), lc_updatedAt = now, lc_deletedAt = None\<rparr>;
          next = computeNextAction (deriveFacts row0 []) rules now;
          row = row0\<lparr>lc_nextActionDueAt := na_dueAt next\<rparr>
      in ensure (\<not> (\<exists>c \<in> set (lienCases db). lc_impoundRecordId c = oc_impoundRecordId inp
             \<and> lc_deletedAt c = None))
           (Conflict ''CONFLICT'' ''A lien case is already open for this impound record.'')
           (Inr (row, addTimeline ctx now tlId newId (Case_opened (oc_state inp) tier (na_action next))
              (db\<lparr>lienCases := insert_into row (lienCases db)\<rparr>)))))))"

record update_case_input =
  uc_notes :: "string option option"
  uc_ownerFound :: "bool option"
  uc_lienholderFound :: "bool option"
  uc_estimatedValueCents :: "cents option option"
  uc_vehicleValueTier :: "value_tier option"

text \<open>An explicit tier wins; else a newly supplied value recomputes it.\<close>

definition new_tier :: "value_tier option \<Rightarrow> cents option option \<Rightarrow> lien_rules \<Rightarrow> value_tier option" where
  "new_tier tier estimated rules = (case tier of Some v \<Rightarrow> Some v
     | None \<Rightarrow> (case estimated of Some (Some v) \<Rightarrow> Some (computeValueTier (Some v) rules) | _ \<Rightarrow> None))"

definition updateCase :: "ctx \<Rightarrow> instant \<Rightarrow> uuid \<Rightarrow> uuid \<Rightarrow> update_case_input \<Rightarrow> 'a lien_db_scheme \<Rightarrow>
    exn + case_row \<times> 'a lien_db_scheme" where
  "updateCase ctx now tlId caseId inp db =
    (let t = ctx_tenantId ctx in
     attempt (requireCase t caseId db) (\<lambda>existing.
     attempt (assertOpen (lc_status existing)) (\<lambda>_.
     attempt (requireRules (lc_state existing)) (\<lambda>rules.
     (let tier = new_tier (uc_vehicleValueTier inp) (uc_estimatedValueCents inp) rules;
          tierChanged = (case tier of None \<Rightarrow> False | Some v \<Rightarrow> v \<noteq> lc_vehicleValueTier existing);
          (updated, tbl) = update_returning (live_case t caseId)
            (\<lambda>c. c\<lparr>lc_notes := patched (uc_notes inp) (lc_notes c),
               lc_ownerFound := patched (uc_ownerFound inp) (lc_ownerFound c),
               lc_lienholderFound := patched (uc_lienholderFound inp) (lc_lienholderFound c),
               lc_estimatedValueCents := patched (uc_estimatedValueCents inp) (lc_estimatedValueCents c),
               lc_vehicleValueTier := patched tier (lc_vehicleValueTier c),
               lc_updatedAt := now\<rparr>) (lienCases db)
      in require updated case_not_found (\<lambda>row.
         (let db1 = recomputeDue t now row (db\<lparr>lienCases := tbl\<rparr>);
              db2 = (if tierChanged
                then addTimeline ctx now tlId caseId (Value_tier_set (lc_vehicleValueTier row)) db1 else db1)
          in attempt (requireCase t caseId db2) (\<lambda>fresh. Inr (fresh, db2)))))))))"

record advance_input =
  av_ownerFound :: "bool option"
  av_lienholderFound :: "bool option"
  av_estimatedValueCents :: "cents option"
  av_vehicleValueTier :: "value_tier option"

text \<open>Lines 261 to 272: the DMV fields carried on the payload.\<close>

definition advance_patch :: "instant \<Rightarrow> advance_input \<Rightarrow> lien_rules \<Rightarrow> case_row \<Rightarrow> case_row" where
  "advance_patch now inp rules c = c\<lparr>
     lc_ownerFound := patched (av_ownerFound inp) (lc_ownerFound c),
     lc_lienholderFound := patched (av_lienholderFound inp) (lc_lienholderFound c),
     lc_estimatedValueCents := (case av_estimatedValueCents inp of None \<Rightarrow> lc_estimatedValueCents c
       | Some v \<Rightarrow> Some v),
     lc_vehicleValueTier := patched (new_tier (av_vehicleValueTier inp)
       (map_option Some (av_estimatedValueCents inp)) rules) (lc_vehicleValueTier c),
     lc_updatedAt := now\<rparr>"

definition advance_event :: "lien_step \<Rightarrow> lien_step \<Rightarrow> bool \<Rightarrow> timeline_event" where
  "advance_event from to markReady =
     (if markReady then Marked_ready_for_sale from to
      else if to = Step_dmv_lookup_complete then Dmv_lookup_recorded from to
      else Step_advanced from to)"

definition advanced_row :: "instant \<Rightarrow> advance_input \<Rightarrow> lien_rules \<Rightarrow> lien_step \<Rightarrow> bool \<Rightarrow> case_row \<Rightarrow> case_row" where
  "advanced_row now inp rules step markReady c =
    (let c1 = (advance_patch now inp rules c)\<lparr>lc_currentStep := step\<rparr>
     in if markReady then c1\<lparr>lc_status := Lien_ready_for_sale, lc_readyForSaleAt := Some now\<rparr> else c1)"

definition advanceCase :: "ctx \<Rightarrow> instant \<Rightarrow> uuid \<Rightarrow> uuid \<Rightarrow> advance_input \<Rightarrow> 'a lien_db_scheme \<Rightarrow>
    exn + case_row \<times> 'a lien_db_scheme" where
  "advanceCase ctx now tlId caseId inp db =
    (let t = ctx_tenantId ctx in
     attempt (requireCase t caseId db) (\<lambda>existing.
     attempt (assertOpen (lc_status existing)) (\<lambda>_.
     attempt (requireRules (lc_state existing)) (\<lambda>rules.
     (let merged = advance_patch now inp rules existing;
          next = computeNextAction (deriveFacts merged (loadNotices t caseId db)) rules now
      in require (nextStepFor (lc_currentStep existing) next)
           (Conflict ''INVALID_STATE'' (blockingMessage next)) (\<lambda>(step, markReady).
         (let (updated, tbl) = update_returning (live_case t caseId)
                (advanced_row now inp rules step markReady) (lienCases db)
          in require updated case_not_found (\<lambda>row.
             (let db1 = recomputeDue t now row (db\<lparr>lienCases := tbl\<rparr>);
                  db2 = addTimeline ctx now tlId caseId
                    (advance_event (lc_currentStep existing) step markReady) db1
              in attempt (requireCase t caseId db2) (\<lambda>fresh. Inr (fresh, db2)))))))))))"

fun disposition_lien_status :: "lien_disposition \<Rightarrow> lien_status" where
  "disposition_lien_status Disp_sold = Lien_sold"
| "disposition_lien_status Disp_closed = Lien_closed"
| "disposition_lien_status Disp_canceled = Lien_canceled"

record close_input =
  cc_disposition :: lien_disposition
  cc_reason :: "string option"
  cc_salePriceCents :: "cents option"

definition closed_row :: "instant \<Rightarrow> close_input \<Rightarrow> case_row \<Rightarrow> case_row" where
  "closed_row now inp c =
    (let c1 = c\<lparr>lc_updatedAt := now, lc_status := disposition_lien_status (cc_disposition inp),
           lc_closedAt := Some now, lc_closedReason := cc_reason inp, lc_nextActionDueAt := None\<rparr>
     in if cc_disposition inp = Disp_sold
        then c1\<lparr>lc_currentStep := Step_sold, lc_soldAt := Some now\<rparr>
        else c1\<lparr>lc_currentStep := Step_closed\<rparr>)"

definition closeCase :: "ctx \<Rightarrow> instant \<Rightarrow> uuid \<Rightarrow> uuid \<Rightarrow> close_input \<Rightarrow> 'a lien_db_scheme \<Rightarrow>
    exn + case_row \<times> 'a lien_db_scheme" where
  "closeCase ctx now tlId caseId inp db =
    (let t = ctx_tenantId ctx in
     attempt (requireCase t caseId db) (\<lambda>existing.
     ensure (lc_status existing \<noteq> Lien_sold \<and> lc_status existing \<noteq> Lien_closed
         \<and> lc_status existing \<noteq> Lien_canceled)
       (Conflict ''INVALID_STATE'' (''Lien case is already ''
          @ lien_status_text (lc_status existing) @ ''.'')) (
     ensure (\<not> (cc_disposition inp = Disp_sold \<and> lc_status existing \<noteq> Lien_ready_for_sale))
       (Conflict ''INVALID_STATE''
          ''A sale can only be recorded once the case is ready for sale.'') (
     (let (updated, tbl) = update_returning (live_case t caseId) (closed_row now inp) (lienCases db)
      in require updated case_not_found (\<lambda>row.
           Inr (row, addTimeline ctx now tlId caseId
             (Case_ended (cc_disposition inp) (cc_reason inp) (cc_salePriceCents inp))
             (db\<lparr>lienCases := tbl\<rparr>))))))))"

record notice_input =
  ni_noticeType :: notice_type
  ni_recipientRole :: recipient_role
  ni_recipientName :: "string option"
  ni_recipientAddress :: "string option"
  ni_deliveryMethod :: delivery_method
  ni_sentAt :: "instant option"
  ni_certifiedTrackingNo :: "string option"
  ni_notes :: "string option"

text \<open>The partial unique index on (lien_case_id, notice_type, recipient_role) over pending notices.\<close>

definition pending_notice :: "uuid \<Rightarrow> notice_type \<Rightarrow> recipient_role \<Rightarrow> notice_row list \<Rightarrow> bool" where
  "pending_notice caseId ty role ns \<longleftrightarrow> (\<exists>n \<in> set ns. ln_lienCaseId n = caseId \<and> ln_noticeType n = ty
     \<and> ln_recipientRole n = role \<and> ln_responseReceivedAt n = None \<and> ln_deletedAt n = None)"

definition recordNotice :: "ctx \<Rightarrow> instant \<Rightarrow> uuid \<Rightarrow> uuid \<Rightarrow> uuid \<Rightarrow> notice_input \<Rightarrow> 'a lien_db_scheme \<Rightarrow>
    exn + case_row \<times> 'a lien_db_scheme" where
  "recordNotice ctx now newId tlId caseId inp db =
    (let t = ctx_tenantId ctx in
     attempt (requireCase t caseId db) (\<lambda>existing.
     attempt (assertOpen (lc_status existing)) (\<lambda>_.
     ensure (\<not> pending_notice caseId (ni_noticeType inp) (ni_recipientRole inp) (lienNotices db))
       (Conflict ''CONFLICT''
          (''An unanswered '' @ notice_type_text (ni_noticeType inp) @ '' to the ''
           @ recipient_role_text (ni_recipientRole inp)
           @ '' already exists; record its response first.'')) (
     (let row = \<lparr>ln_id = newId, ln_tenantId = t, ln_lienCaseId = caseId,
            ln_noticeType = ni_noticeType inp, ln_recipientRole = ni_recipientRole inp,
            ln_recipientName = ni_recipientName inp, ln_recipientAddress = ni_recipientAddress inp,
            ln_deliveryMethod = ni_deliveryMethod inp,
            ln_sentAt = (case ni_sentAt inp of Some s \<Rightarrow> s | None \<Rightarrow> now),
            ln_certifiedTrackingNo = ni_certifiedTrackingNo inp, ln_responseReceivedAt = None,
            ln_responseNotes = None, ln_notes = ni_notes inp,
            ln_createdBy = Some (ctx_userId ctx), ln_updatedAt = now, ln_deletedAt = None\<rparr>;
          db1 = db\<lparr>lienNotices := insert_into row (lienNotices db)\<rparr>;
          target = stepForNotice (ni_noticeType inp);
          db2 = (if STEP_RANK (lc_currentStep existing) < STEP_RANK target
            then db1\<lparr>lienCases := update_where (own_case t caseId)
                (\<lambda>c. c\<lparr>lc_currentStep := target, lc_updatedAt := now\<rparr>) (lienCases db1)\<rparr>
            else db1)
      in attempt (requireCase t caseId db2) (\<lambda>fresh.
         (let db3 = addTimeline ctx now tlId caseId (Notice_recorded newId (ni_noticeType inp)
                (ni_recipientRole inp) (ni_deliveryMethod inp)) (recomputeDue t now fresh db2)
          in attempt (requireCase t caseId db3) (\<lambda>updated. Inr (updated, db3)))))))))"

definition recordResponse :: "ctx \<Rightarrow> instant \<Rightarrow> uuid \<Rightarrow> uuid \<Rightarrow> uuid \<Rightarrow> instant option \<Rightarrow> string option \<Rightarrow>
    'a lien_db_scheme \<Rightarrow> exn + case_row \<times> 'a lien_db_scheme" where
  "recordResponse ctx now tlId caseId noticeId receivedAt notes db =
    (let t = ctx_tenantId ctx in
     attempt (requireCase t caseId db) (\<lambda>existing.
     require (select_first (\<lambda>n. ln_tenantId n = t \<and> ln_id n = noticeId \<and> ln_deletedAt n = None)
         (lienNotices db)) (NotFound ''Notice not found'') (\<lambda>notice.
     ensure (ln_lienCaseId notice = caseId) (NotFound ''Notice not found'') (
     (let respondedAt = (case receivedAt of Some r \<Rightarrow> r | None \<Rightarrow> now);
          db1 = db\<lparr>lienNotices := update_where (\<lambda>n. ln_tenantId n = t \<and> ln_id n = noticeId)
            (\<lambda>n. n\<lparr>ln_responseReceivedAt := Some respondedAt, ln_responseNotes := notes,
               ln_updatedAt := now\<rparr>) (lienNotices db)\<rparr>;
          db2 = addTimeline ctx now tlId caseId (Response_recorded noticeId (ln_noticeType notice)
            (ln_recipientRole notice)) (recomputeDue t now existing db1)
      in attempt (requireCase t caseId db2) (\<lambda>fresh. Inr (fresh, db2)))))))"

section \<open>The sweep of lien-advance.cron.ts\<close>

definition is_action_due :: "uuid \<Rightarrow> timeline_row \<Rightarrow> bool" where
  "is_action_due caseId e \<longleftrightarrow> tl_lienCaseId e = caseId
     \<and> (case tl_event e of Action_due _ _ _ \<Rightarrow> True | _ \<Rightarrow> False)"

definition flagged_for :: "instant \<Rightarrow> timeline_row \<Rightarrow> bool" where
  "flagged_for due e \<longleftrightarrow> (case tl_event e of Action_due _ d _ \<Rightarrow> d = due | _ \<Rightarrow> False)"

text \<open>The newest 'action_due' event of a case.\<close>

definition last_action_due :: "uuid \<Rightarrow> timeline_row list \<Rightarrow> timeline_row option" where
  "last_action_due caseId es = foldl (\<lambda>best e. case best of None \<Rightarrow> Some e
     | Some b \<Rightarrow> if tl_occurredAt b \<le> tl_occurredAt e then Some e else best)
     None (select_where (is_action_due caseId) es)"

definition case_notices :: "uuid \<Rightarrow> 'a lien_db_scheme \<Rightarrow> notice_row list" where
  "case_notices caseId db = sort_key ln_sentAt (select_where
     (\<lambda>n. ln_lienCaseId n = caseId \<and> ln_deletedAt n = None) (lienNotices db))"

definition sweepOne :: "instant \<Rightarrow> uuid \<Rightarrow> uuid \<Rightarrow> 'a lien_db_scheme \<Rightarrow>
    (bool \<times> bool) \<times> 'a lien_db_scheme" where
  "sweepOne now tlId caseId db =
    (case select_first (\<lambda>c. lc_id c = caseId \<and> lc_deletedAt c = None) (lienCases db) of
       None \<Rightarrow> ((False, False), db)
     | Some c \<Rightarrow> (case getStateRules (lc_state c) of
         None \<Rightarrow> ((False, False), db)
       | Some rules \<Rightarrow>
          (let next = computeNextAction (deriveFacts c (case_notices caseId db)) rules now;
               changed = (lc_nextActionDueAt c \<noteq> na_dueAt next);
               db1 = (if changed then db\<lparr>lienCases := update_where (\<lambda>r. lc_id r = caseId)
                   (\<lambda>r. r\<lparr>lc_nextActionDueAt := na_dueAt next, lc_updatedAt := now\<rparr>) (lienCases db)\<rparr>
                 else db)
           in case na_dueAt next of
                None \<Rightarrow> ((changed, False), db1)
              | Some due \<Rightarrow>
                 if due \<le> now \<and> \<not> (case last_action_due caseId (lienTimelineEvents db1) of
                      None \<Rightarrow> False | Some e \<Rightarrow> flagged_for due e)
                 then ((changed, True), db1\<lparr>lienTimelineEvents := insert_into
                   \<lparr>tl_id = tlId, tl_tenantId = lc_tenantId c, tl_lienCaseId = caseId,
                    tl_occurredAt = now, tl_actorUserId = None,
                    tl_event = Action_due (na_action next) due (na_reasons next)\<rparr>
                   (lienTimelineEvents db1)\<rparr>)
                 else ((changed, False), db1))))"

definition sweep_candidates :: "'a lien_db_scheme \<Rightarrow> uuid list" where
  "sweep_candidates db = map lc_id (select_where (\<lambda>c. (lc_status c = Lien_open
     \<or> lc_status c = Lien_ready_for_sale) \<and> lc_deletedAt c = None) (lienCases db))"

record sweep_result =
  sw_casesScanned :: nat
  sw_dueRecomputed :: nat
  sw_overdueFlagged :: nat

definition lien_sweep :: "instant \<Rightarrow> (uuid \<Rightarrow> uuid) \<Rightarrow> 'a lien_db_scheme \<Rightarrow>
    sweep_result \<times> 'a lien_db_scheme" where
  "lien_sweep now ids db = fold (\<lambda>i (res, s). case sweepOne now (ids i) i s of ((rec, fl), s') \<Rightarrow>
      (res\<lparr>sw_dueRecomputed := sw_dueRecomputed res + (if rec then 1 else 0),
         sw_overdueFlagged := sw_overdueFlagged res + (if fl then 1 else 0)\<rparr>, s'))
    (sweep_candidates db)
    (\<lparr>sw_casesScanned = length (sweep_candidates db), sw_dueRecomputed = 0, sw_overdueFlagged = 0\<rparr>, db)"

end
