(* ===== verification/LienInv.thy ===== *)
theory LienInv
  imports LienCases
begin

text \<open>
  Runs of the lien operations: what each operation does to the case rows, the invariant of the
  rows (status and step agree, a case ready for sale waited out the statutory minimum) and the
  moves a case makes.  Impound operations may change the impound records between any two steps.
\<close>

datatype lien_op =
    OpenCase ctx instant uuid uuid open_case_input
  | UpdateCase ctx instant uuid uuid update_case_input
  | AdvanceCase ctx instant uuid uuid advance_input
  | CloseCase ctx instant uuid uuid close_input
  | RecordNotice ctx instant uuid uuid uuid notice_input
  | RecordResponse ctx instant uuid uuid uuid "instant option" "string option"
  | LienSweep instant "uuid \<Rightarrow> uuid"
  | ImpoundChange "impound_row list"

fun lien_exec :: "lien_op \<Rightarrow> 'a lien_db_scheme \<Rightarrow> 'a lien_db_scheme" where
  "lien_exec (OpenCase c now i k inp) db = committed db (openCase c now i k inp db)"
| "lien_exec (UpdateCase c now k i inp) db = committed db (updateCase c now k i inp db)"
| "lien_exec (AdvanceCase c now k i inp) db = committed db (advanceCase c now k i inp db)"
| "lien_exec (CloseCase c now k i inp) db = committed db (closeCase c now k i inp db)"
| "lien_exec (RecordNotice c now n k i inp) db = committed db (recordNotice c now n k i inp db)"
| "lien_exec (RecordResponse c now k i n r s) db = committed db (recordResponse c now k i n r s db)"
| "lien_exec (LienSweep now ids) db = snd (lien_sweep now ids db)"
| "lien_exec (ImpoundChange rs) db = db\<lparr>impoundRecords := rs\<rparr>"

text \<open>Generated ids are new.\<close>

fun lien_ok :: "lien_op \<Rightarrow> 'a lien_db_scheme \<Rightarrow> bool" where
  "lien_ok (OpenCase c now i k inp) db \<longleftrightarrow> i \<notin> lc_id ` set (lienCases db)"
| "lien_ok _ db \<longleftrightarrow> True"

inductive lien_reachable :: "'a lien_db_scheme \<Rightarrow> bool" where
  lien_start: "lienCases db = [] \<Longrightarrow> lienNotices db = [] \<Longrightarrow> lien_reachable db"
| lien_step: "lien_reachable db \<Longrightarrow> lien_ok op db \<Longrightarrow> lien_reachable (lien_exec op db)"

section \<open>What the operations do to the case rows\<close>

text \<open>The columns the engine decides on; the others are descriptive.\<close>

definition core :: "case_row \<Rightarrow> uuid \<times> uuid \<times> uuid \<times> string \<times> instant \<times> lien_status \<times> lien_step
    \<times> instant option \<times> instant option" where
  "core c = (lc_id c, lc_tenantId c, lc_impoundRecordId c, lc_state c, lc_openedAt c, lc_status c,
     lc_currentStep c, lc_readyForSaleAt c, lc_deletedAt c)"

lemma core_due: "core (c\<lparr>lc_nextActionDueAt := d, lc_updatedAt := n\<rparr>) = core c"
  by (simp add: core_def)

lemma map_core_update: "(\<And>c. core (f c) = core c) \<Longrightarrow> map core (update_where P f cs) = map core cs"
  by (rule map_update_where) simp

lemma recomputeDue_frame [simp]:
  "map core (lienCases (recomputeDue t now c db)) = map core (lienCases db)"
  "lienNotices (recomputeDue t now c db) = lienNotices db"
  "lienTimelineEvents (recomputeDue t now c db) = lienTimelineEvents db"
  by (simp_all add: recomputeDue_def Let_def map_core_update core_due split: option.split)

lemma addTimeline_frame [simp]:
  "lienCases (addTimeline c now i k e db) = lienCases db"
  "lienNotices (addTimeline c now i k e db) = lienNotices db"
  by (simp_all add: addTimeline_def)

lemma assertOpen_Inr [simp]: "assertOpen st = Inr u \<longleftrightarrow> st = Lien_open"
  by (simp add: assertOpen_def)

lemma requireRules_Inr [simp]: "requireRules s = Inr r \<longleftrightarrow> getStateRules s = Some r"
  by (simp add: requireRules_def)

lemma requireCase_Inr [simp]:
  "requireCase t i db = Inr c \<longleftrightarrow> select_first (live_case t i) (lienCases db) = Some c"
  by (simp add: requireCase_def)

lemma openCase_effect:
  assumes "openCase ctx now i k inp db = Inr (c, db')"
  shows "lienCases db' = lienCases db @ [c] \<and> lienNotices db' = lienNotices db \<and> lc_id c = i
    \<and> lc_status c = Lien_open \<and> lc_currentStep c = Step_opened \<and> lc_deletedAt c = None
    \<and> lc_openedAt c = now \<and> lc_readyForSaleAt c = None
    \<and> (\<exists>rules. getStateRules (lc_state c) = Some rules)
    \<and> \<not> (\<exists>x \<in> set (lienCases db). lc_impoundRecordId x = lc_impoundRecordId c \<and> lc_deletedAt x = None)"
  using assms by (auto simp: openCase_def Let_def insert_into_def)

lemma updateCase_effect:
  assumes "updateCase ctx now k i inp db = Inr (c, db')"
  shows "map core (lienCases db') = map core (lienCases db) \<and> lienNotices db' = lienNotices db"
  using assms
  by (auto simp: updateCase_def Let_def update_returning_def map_core_update core_def split: if_splits)

lemma recordResponse_effect:
  assumes "recordResponse ctx now k i n r s db = Inr (c, db')"
  shows "map core (lienCases db') = map core (lienCases db)"
  using assms by (auto simp: recordResponse_def Let_def)

lemma recordNotice_effect:
  assumes "recordNotice ctx now n k i inp db = Inr (c, db')"
  obtains e where "select_first (live_case (ctx_tenantId ctx) i) (lienCases db) = Some e"
    "lc_status e = Lien_open"
    "map core (lienCases db') = map core (if STEP_RANK (lc_currentStep e) < STEP_RANK (stepForNotice (ni_noticeType inp))
       then update_where (own_case (ctx_tenantId ctx) i)
         (\<lambda>x. x\<lparr>lc_currentStep := stepForNotice (ni_noticeType inp), lc_updatedAt := now\<rparr>) (lienCases db)
       else lienCases db)"
proof -
  let ?t = "ctx_tenantId ctx" and ?s = "stepForNotice (ni_noticeType inp)"
  from assms obtain e where e: "select_first (live_case ?t i) (lienCases db) = Some e"
      "lc_status e = Lien_open"
    by (auto simp: recordNotice_def Let_def)
  have "map core (lienCases db') = map core (if STEP_RANK (lc_currentStep e) < STEP_RANK ?s
       then update_where (own_case ?t i) (\<lambda>x. x\<lparr>lc_currentStep := ?s, lc_updatedAt := now\<rparr>) (lienCases db)
       else lienCases db)"
    using assms e by (cases "STEP_RANK (lc_currentStep e) < STEP_RANK ?s") (auto simp: recordNotice_def Let_def)
  with e show thesis using that by blast
qed

lemma advanceCase_effect:
  assumes "advanceCase ctx now k i inp db = Inr (c, db')"
  obtains e rules step ready nx where
    "select_first (live_case (ctx_tenantId ctx) i) (lienCases db) = Some e"
    "lc_status e = Lien_open" "getStateRules (lc_state e) = Some rules"
    "nx = computeNextAction (deriveFacts (advance_patch now inp rules e)
       (loadNotices (ctx_tenantId ctx) i db)) rules now"
    "nextStepFor (lc_currentStep e) nx = Some (step, ready)"
    "map core (lienCases db') = map core (update_where (live_case (ctx_tenantId ctx) i)
       (advanced_row now inp rules step ready) (lienCases db))"
    "lienNotices db' = lienNotices db"
proof -
  let ?t = "ctx_tenantId ctx"
  have "\<exists>e rules step ready. select_first (live_case ?t i) (lienCases db) = Some e
    \<and> lc_status e = Lien_open \<and> getStateRules (lc_state e) = Some rules
    \<and> nextStepFor (lc_currentStep e) (computeNextAction (deriveFacts (advance_patch now inp rules e)
       (loadNotices ?t i db)) rules now) = Some (step, ready)
    \<and> map core (lienCases db') = map core (update_where (live_case ?t i)
       (advanced_row now inp rules step ready) (lienCases db)) \<and> lienNotices db' = lienNotices db"
    using assms by (auto simp: advanceCase_def Let_def update_returning_def)
  then show thesis using that by blast
qed

lemma closeCase_effect:
  assumes "closeCase ctx now k i inp db = Inr (c, db')"
  obtains e where "select_first (live_case (ctx_tenantId ctx) i) (lienCases db) = Some e"
    "lc_status e = Lien_open \<or> lc_status e = Lien_ready_for_sale"
    "cc_disposition inp = Disp_sold \<Longrightarrow> lc_status e = Lien_ready_for_sale"
    "lienCases db' = update_where (live_case (ctx_tenantId ctx) i) (closed_row now inp) (lienCases db)"
    "lienNotices db' = lienNotices db" "c = closed_row now inp e"
proof -
  from assms obtain e where "select_first (live_case (ctx_tenantId ctx) i) (lienCases db) = Some e"
    "lc_status e \<noteq> Lien_sold \<and> lc_status e \<noteq> Lien_closed \<and> lc_status e \<noteq> Lien_canceled"
    "cc_disposition inp = Disp_sold \<Longrightarrow> lc_status e = Lien_ready_for_sale"
    "lienCases db' = update_where (live_case (ctx_tenantId ctx) i) (closed_row now inp) (lienCases db)"
    "lienNotices db' = lienNotices db" "c = closed_row now inp e"
    by (auto simp: closeCase_def Let_def update_returning_def)
  then show thesis using that by (cases "lc_status e") auto
qed

lemma sweepOne_effect:
  "map core (lienCases (snd (sweepOne now k i db))) = map core (lienCases db)
   \<and> lienNotices (snd (sweepOne now k i db)) = lienNotices db"
  by (simp add: sweepOne_def Let_def map_core_update core_due split: option.split)

lemma sweep_fold_effect:
  fixes db :: "'a lien_db_scheme"
  shows "map core (lienCases (snd (fold (\<lambda>i (res, s). case sweepOne now (ids i) i s of ((rec, fl), s') \<Rightarrow>
      (res\<lparr>sw_dueRecomputed := sw_dueRecomputed res + (if rec then 1 else 0),
         sw_overdueFlagged := sw_overdueFlagged res + (if fl then 1 else 0)\<rparr>, s')) is (r0, db))))
     = map core (lienCases db)
   \<and> lienNotices (snd (fold (\<lambda>i (res, s). case sweepOne now (ids i) i s of ((rec, fl), s') \<Rightarrow>
      (res\<lparr>sw_dueRecomputed := sw_dueRecomputed res + (if rec then 1 else 0),
         sw_overdueFlagged := sw_overdueFlagged res + (if fl then 1 else 0)\<rparr>, s')) is (r0, db)))
     = lienNotices db"
proof (induction "is" arbitrary: r0 db)
  case Nil
  then show ?case by simp
next
  case (Cons i "is")
  then show ?case using sweepOne_effect [of now "ids i" i db] by (simp add: split_beta)
qed

lemma lien_sweep_effect:
  "map core (lienCases (snd (lien_sweep now ids db))) = map core (lienCases db)
   \<and> lienNotices (snd (lien_sweep now ids db)) = lienNotices db"
  unfolding lien_sweep_def by (rule sweep_fold_effect)

section \<open>The engine\<close>

lemma nextStepFor_up:
  assumes "nextStepFor s next = Some (step, ready)"
  shows "STEP_RANK s < STEP_RANK step" "ready \<longleftrightarrow> step = Step_ready_for_sale"
    "ready \<Longrightarrow> s = Step_waiting_period \<and> na_action next = Mark_ready_for_sale"
    "\<not> ready \<Longrightarrow> STEP_RANK step < 7"
  using assms by (cases s; auto simp: nextStepFor_def split: if_splits)+

section \<open>The invariant of a case row\<close>

fun status_step :: "lien_status \<Rightarrow> lien_step \<Rightarrow> bool" where
  "status_step Lien_open s \<longleftrightarrow> STEP_RANK s < 7"
| "status_step Lien_ready_for_sale s \<longleftrightarrow> s = Step_ready_for_sale"
| "status_step Lien_sold s \<longleftrightarrow> s = Step_sold"
| "status_step Lien_closed s \<longleftrightarrow> s = Step_closed"
| "status_step Lien_canceled s \<longleftrightarrow> s = Step_closed"

definition waited :: "case_row \<Rightarrow> bool" where
  "waited c \<longleftrightarrow> (\<exists>rules t. getStateRules (lc_state c) = Some rules \<and> lc_readyForSaleAt c = Some t
     \<and> add_days (lc_openedAt c) (minDaysToSale rules) \<le> t)"

definition case_inv :: "case_row \<Rightarrow> bool" where
  "case_inv c \<longleftrightarrow> getStateRules (lc_state c) \<noteq> None \<and> status_step (lc_status c) (lc_currentStep c)
     \<and> (lc_status c = Lien_ready_for_sale \<or> lc_status c = Lien_sold \<longrightarrow> waited c)"

fun lien_can :: "lien_status \<Rightarrow> lien_status \<Rightarrow> bool" where
  "lien_can Lien_open s \<longleftrightarrow> s \<noteq> Lien_sold"
| "lien_can Lien_ready_for_sale s \<longleftrightarrow> s \<noteq> Lien_open"
| "lien_can s s' \<longleftrightarrow> s' = s"

definition lien_terminal :: "lien_status \<Rightarrow> bool" where
  "lien_terminal s \<longleftrightarrow> s = Lien_sold \<or> s = Lien_closed \<or> s = Lien_canceled"

interpretation lien: status_machine lien_can lien_terminal
  by unfold_locales (auto simp: lien_terminal_def)

definition case_move :: "case_row \<Rightarrow> case_row \<Rightarrow> bool" where
  "case_move c d \<longleftrightarrow> lc_id d = lc_id c \<and> lc_tenantId d = lc_tenantId c
     \<and> lc_impoundRecordId d = lc_impoundRecordId c \<and> lc_state d = lc_state c
     \<and> lc_openedAt d = lc_openedAt c \<and> lc_deletedAt d = lc_deletedAt c
     \<and> lien_can (lc_status c) (lc_status d)
     \<and> STEP_RANK (lc_currentStep c) \<le> STEP_RANK (lc_currentStep d)"

lemma core_move: "core d = core d' \<Longrightarrow> case_move c d = case_move c d'"
  by (simp add: core_def case_move_def)

lemma core_inv: "core d = core d' \<Longrightarrow> case_inv d = case_inv d'"
  by (simp add: core_def case_inv_def waited_def)

lemma lien_can_refl: "lien_can s s"
  by (cases s) auto

lemma case_move_refl: "case_move c c"
  by (simp add: case_move_def lien_can_refl)

lemma lien_can_trans: "lien_can a b \<Longrightarrow> lien_can b c \<Longrightarrow> c \<noteq> Lien_sold \<or> a \<noteq> Lien_open \<Longrightarrow> lien_can a c"
  by (cases a; cases b; cases c) auto

text \<open>Every old row moves, new rows come after.\<close>

definition lien_moves :: "case_row list \<Rightarrow> case_row list \<Rightarrow> bool" where
  "lien_moves cs ds \<longleftrightarrow> length cs \<le> length ds \<and> (\<forall>j < length cs. case_move (cs ! j) (ds ! j))"

definition lien_inv :: "case_row list \<Rightarrow> bool" where
  "lien_inv cs \<longleftrightarrow> distinct (map lc_id cs) \<and> (\<forall>c \<in> set cs. case_inv c)
     \<and> distinct (map lc_impoundRecordId (filter (\<lambda>c. lc_deletedAt c = None) cs))"

lemma lien_inv_core:
  assumes "map core cs = map core ds" shows "lien_inv cs = lien_inv ds"
proof -
  have key: "map g cs = map g ds" if "\<And>c d. core c = core d \<Longrightarrow> g c = g d" for g :: "case_row \<Rightarrow> 'b"
    using assms by (induction cs ds rule: list_induct2') (auto dest: that)
  have "map lc_id cs = map lc_id ds" by (rule key) (simp add: core_def)
  moreover have "map case_inv cs = map case_inv ds" by (rule key) (rule core_inv)
  moreover have "map lc_impoundRecordId (filter (\<lambda>c. lc_deletedAt c = None) cs)
      = map lc_impoundRecordId (filter (\<lambda>c. lc_deletedAt c = None) ds)"
    using assms by (induction cs ds rule: list_induct2') (auto simp: core_def)
  moreover have "(\<forall>c \<in> set xs. case_inv c) \<longleftrightarrow> (\<forall>b \<in> set (map case_inv xs). b)" for xs by simp
  ultimately show ?thesis by (simp only: lien_inv_def)
qed

lemma lien_moves_core:
  assumes "map core ds = map core ds'" shows "lien_moves cs ds = lien_moves cs ds'"
proof -
  have len: "length ds = length ds'" using assms by (metis length_map)
  have "core (ds ! j) = core (ds' ! j)" if "j < length ds" for j
    using assms that len by (metis nth_map)
  then have "case_move c (ds ! j) = case_move c (ds' ! j)" if "j < length ds" for c j
    using core_move that by blast
  then show ?thesis using len by (auto simp: lien_moves_def)
qed

lemma lien_moves_refl: "lien_moves cs cs"
  by (simp add: lien_moves_def case_move_refl)

lemma lien_update:
  assumes inv: "lien_inv cs" and e: "e \<in> set cs" "lc_id e = i" "\<And>r. P r \<Longrightarrow> lc_id r = i"
    and f: "case_move e (f e)" "case_inv (f e)"
  shows "lien_inv (update_where P f cs) \<and> lien_moves cs (update_where P f cs)"
proof -
  have only: "r = e" if "r \<in> set cs" "P r" for r
    using inv e that by (auto simp: lien_inv_def distinct_map inj_on_def)
  have row: "case_move r (if P r then f r else r)" if "r \<in> set cs" for r
    using only [OF that] f(1) case_move_refl by auto
  have moves: "lien_moves cs (update_where P f cs)"
    using row by (simp add: lien_moves_def update_where_def)
  have keep: "lc_id (if P r then f r else r) = lc_id r
      \<and> lc_impoundRecordId (if P r then f r else r) = lc_impoundRecordId r
      \<and> lc_deletedAt (if P r then f r else r) = lc_deletedAt r" if "r \<in> set cs" for r
    using row [OF that] by (simp add: case_move_def)
  have "map lc_id (update_where P f cs) = map lc_id cs"
    using keep by (simp add: update_where_def)
  moreover have "map lc_impoundRecordId (filter (\<lambda>c. lc_deletedAt c = None) (update_where P f cs))
      = map lc_impoundRecordId (filter (\<lambda>c. lc_deletedAt c = None) cs)"
    using keep by (induction cs) (auto simp: update_where_def)
  moreover have "\<forall>c \<in> set (update_where P f cs). case_inv c"
    using inv only f(2) by (auto simp: lien_inv_def dest!: in_update_where)
  ultimately show ?thesis using inv moves by (simp add: lien_inv_def)
qed

section \<open>Every operation keeps the invariant\<close>

lemma live_caseD:
  assumes "select_first (live_case t i) cs = Some e"
  shows "e \<in> set cs" "lc_id e = i" "lc_deletedAt e = None"
  using select_first_SomeD [OF assms] by (auto simp: live_case_def)

lemma advanced_row_move:
  assumes opn: "lc_status e = Lien_open" and rules: "getStateRules (lc_state e) = Some rules"
    and nx: "nx = computeNextAction (deriveFacts (advance_patch now inp rules e) ns) rules now"
    and step: "nextStepFor (lc_currentStep e) nx = Some (step, ready)"
  shows "case_move e (advanced_row now inp rules step ready e)
    \<and> case_inv (advanced_row now inp rules step ready e)"
proof -
  note up = nextStepFor_up [OF step]
  let ?f = "deriveFacts (advance_patch now inp rules e) ns"
  have opened: "lf_openedAt ?f = lc_openedAt e" by (simp add: deriveFacts_def advance_patch_def Let_def)
  have "add_days (lc_openedAt e) (minDaysToSale rules) \<le> now" if ready
  proof -
    have "na_action (computeNextAction ?f rules now) = Mark_ready_for_sale" using up(3) [OF that] nx by simp
    then show ?thesis using computeNextAction_mark earliest_le opened by metis
  qed
  then show ?thesis
    using opn rules up
    by (auto simp: case_move_def case_inv_def advanced_row_def advance_patch_def Let_def waited_def)
qed

lemma closed_row_move:
  assumes "case_inv e" "lc_status e = Lien_open \<or> lc_status e = Lien_ready_for_sale"
    "cc_disposition inp = Disp_sold \<Longrightarrow> lc_status e = Lien_ready_for_sale"
  shows "case_move e (closed_row now inp e) \<and> case_inv (closed_row now inp e)"
  using assms
  by (cases "cc_disposition inp") (auto simp: case_move_def case_inv_def closed_row_def Let_def waited_def)

lemma noticed_row_move:
  assumes "case_inv e" "lc_status e = Lien_open" "STEP_RANK (lc_currentStep e) < STEP_RANK (stepForNotice ty)"
  shows "case_move e (e\<lparr>lc_currentStep := stepForNotice ty, lc_updatedAt := now\<rparr>)
    \<and> case_inv (e\<lparr>lc_currentStep := stepForNotice ty, lc_updatedAt := now\<rparr>)"
  using assms by (cases ty) (auto simp: case_move_def case_inv_def lien_can_refl)

abbreviation lien_good :: "case_row list \<Rightarrow> case_row list \<Rightarrow> bool" where
  "lien_good cs ds \<equiv> lien_inv ds \<and> lien_moves cs ds"

lemma lien_good_core: "map core ds = map core ds' \<Longrightarrow> lien_good cs ds \<longleftrightarrow> lien_good cs ds'"
  using lien_inv_core lien_moves_core by blast

lemma committed_good:
  assumes "lien_inv (lienCases db)" "\<And>x db'. r = Inr (x, db') \<Longrightarrow> lien_good (lienCases db) (lienCases db')"
  shows "lien_good (lienCases db) (lienCases (committed db r))"
  using assms lien_moves_refl by (auto simp: committed_def split: sum.split)

lemma lien_same_good:
  "lien_inv cs \<Longrightarrow> map core ds = map core cs \<Longrightarrow> lien_good cs ds"
  using lien_good_core lien_moves_refl by blast

lemma open_good:
  assumes inv: "lien_inv cs" and c: "lc_id c \<notin> lc_id ` set cs" "case_inv c" "lc_deletedAt c = None"
    "\<not> (\<exists>x \<in> set cs. lc_impoundRecordId x = lc_impoundRecordId c \<and> lc_deletedAt x = None)"
  shows "lien_good cs (cs @ [c])"
  using assms by (auto simp: lien_inv_def lien_moves_def nth_append case_move_refl)

lemma lien_exec_good:
  assumes inv: "lien_inv (lienCases db)" and ok: "lien_ok op db"
  shows "lien_good (lienCases db) (lienCases (lien_exec op db))"
proof (cases op)
  case (OpenCase c now i k inp)
  show ?thesis unfolding OpenCase lien_exec.simps
  proof (rule committed_good [OF inv])
    fix x db' assume "openCase c now i k inp db = Inr (x, db')"
    note eff = openCase_effect [OF this]
    then have "case_inv x" by (auto simp: case_inv_def)
    then show "lien_good (lienCases db) (lienCases db')"
      using eff open_good [OF inv, of x] ok OpenCase by auto
  qed
next
  case (UpdateCase c now k i inp)
  then show ?thesis
    using committed_good [OF inv] lien_same_good [OF inv] updateCase_effect by (metis lien_exec.simps(2))
next
  case (AdvanceCase c now k i inp)
  show ?thesis unfolding AdvanceCase lien_exec.simps
  proof (rule committed_good [OF inv])
    fix x db' assume "advanceCase c now k i inp db = Inr (x, db')"
    then show "lien_good (lienCases db) (lienCases db')"
    proof (cases rule: advanceCase_effect)
      case (1 e rules step ready nx)
      show ?thesis
        using lien_update [OF inv live_caseD(1,2) [OF 1(1)], of "live_case (ctx_tenantId c) i"
            "advanced_row now inp rules step ready"] advanced_row_move [OF 1(2-5)]
          lien_good_core [OF 1(6)] by (simp add: live_case_def)
    qed
  qed
next
  case (CloseCase c now k i inp)
  show ?thesis unfolding CloseCase lien_exec.simps
  proof (rule committed_good [OF inv])
    fix x db' assume "closeCase c now k i inp db = Inr (x, db')"
    then show "lien_good (lienCases db) (lienCases db')"
    proof (cases rule: closeCase_effect)
      case (1 e)
      have "case_inv e" using inv live_caseD(1) [OF 1(1)] by (simp add: lien_inv_def)
      then show ?thesis
        using lien_update [OF inv live_caseD(1,2) [OF 1(1)], of "live_case (ctx_tenantId c) i"
            "closed_row now inp"] closed_row_move [of e inp now] 1
        by (simp add: live_case_def)
    qed
  qed
next
  case (RecordNotice c now n k i inp)
  show ?thesis unfolding RecordNotice lien_exec.simps
  proof (rule committed_good [OF inv])
    fix x db' assume "recordNotice c now n k i inp db = Inr (x, db')"
    then show "lien_good (lienCases db) (lienCases db')"
    proof (cases rule: recordNotice_effect)
      case (1 e)
      have "case_inv e" using inv live_caseD(1) [OF 1(1)] by (simp add: lien_inv_def)
      then show ?thesis
        using lien_update [OF inv live_caseD(1,2) [OF 1(1)], of "own_case (ctx_tenantId c) i"
            "\<lambda>x. x\<lparr>lc_currentStep := stepForNotice (ni_noticeType inp), lc_updatedAt := now\<rparr>"]
          noticed_row_move [of e "ni_noticeType inp" now] 1(2)
          lien_good_core [OF 1(3)] inv lien_moves_refl by (simp add: own_case_def)
    qed
  qed
next
  case (RecordResponse c now k i n r s)
  then show ?thesis
    using committed_good [OF inv] lien_same_good [OF inv] recordResponse_effect by (metis lien_exec.simps(6))
next
  case (LienSweep now ids)
  then show ?thesis using lien_same_good [OF inv] lien_sweep_effect by (metis lien_exec.simps(7))
next
  case (ImpoundChange rs)
  then show ?thesis using inv lien_moves_refl by simp
qed

lemma lien_reachable_inv: "lien_reachable db \<Longrightarrow> lien_inv (lienCases db)"
proof (induction rule: lien_reachable.induct)
  case (lien_start db)
  then show ?case by (simp add: lien_inv_def)
next
  case (lien_step db op)
  then show ?case using lien_exec_good by blast
qed

text \<open>A continuation of a run.\<close>

inductive lien_path :: "'a lien_db_scheme \<Rightarrow> 'a lien_db_scheme \<Rightarrow> bool" for db where
  path_here: "lien_path db db"
| path_step: "lien_path db db' \<Longrightarrow> lien_ok op db' \<Longrightarrow> lien_path db (lien_exec op db')"

lemma lien_path_rows:
  assumes "lien_path db db'" "lien_reachable db"
  shows "lien_reachable db' \<and> length (lienCases db) \<le> length (lienCases db')
    \<and> (\<forall>j < length (lienCases db). lc_id (lienCases db' ! j) = lc_id (lienCases db ! j)
        \<and> lien_can\<^sup>*\<^sup>* (lc_status (lienCases db ! j)) (lc_status (lienCases db' ! j))
        \<and> STEP_RANK (lc_currentStep (lienCases db ! j)) \<le> STEP_RANK (lc_currentStep (lienCases db' ! j)))"
  using assms
proof (induction rule: lien_path.induct)
  case path_here
  then show ?case by simp
next
  case (path_step db' op)
  have "lien_moves (lienCases db') (lienCases (lien_exec op db'))"
    using lien_exec_good [OF lien_reachable_inv path_step.hyps(2)] path_step by simp
  then show ?case
    using path_step lien_reachable.lien_step [of db' op]
    by (auto simp: lien_moves_def case_move_def intro: rtranclp.rtrancl_into_rtrancl le_trans)
qed

end
