(* ===== verification/LienProperties.thy ===== *)
theory LienProperties
  imports LienInv ImpoundProperties
begin

text \<open>
  What the lien workflow guarantees on every reachable database, what an advance requires, how
  the sweep flags, and two ways to a sale the engine does not allow.
\<close>

section \<open>The latest notice\<close>

lemma latest_notice_snoc:
  "latest_notice ty (ns @ [n]) = (if ln_noticeType n \<noteq> ty then latest_notice ty ns
     else case latest_notice ty ns of None \<Rightarrow> Some n
       | Some b \<Rightarrow> if ln_sentAt b < ln_sentAt n then Some n else Some b)"
  by (simp add: latest_notice_def split: option.split)

lemma latest_notice_greatest:
  "n \<in> set ns \<Longrightarrow> ln_noticeType n = ty \<Longrightarrow> \<exists>b. latest_notice ty ns = Some b \<and> ln_sentAt n \<le> ln_sentAt b"
proof (induction ns arbitrary: n rule: rev_induct)
  case (snoc m ns)
  show ?case
  proof (cases "n = m")
    case True
    then show ?thesis using snoc.prems by (cases "latest_notice ty ns") (auto simp: latest_notice_snoc)
  next
    case False
    then obtain b where "latest_notice ty ns = Some b" "ln_sentAt n \<le> ln_sentAt b"
      using snoc by auto
    then show ?thesis by (auto simp: latest_notice_snoc)
  qed
qed simp

lemma deriveFacts_proj [simp]:
  "lf_status (deriveFacts c ns) = lc_status c"
  "lf_currentStep (deriveFacts c ns) = lc_currentStep c"
  "lf_openedAt (deriveFacts c ns) = lc_openedAt c"
  "lf_lienholderFound (deriveFacts c ns) = lc_lienholderFound c"
  "lf_ownerNoticeSentAt (deriveFacts c ns) = map_option ln_sentAt (latest_notice Notice_owner ns)"
  "lf_lienholderNoticeSentAt (deriveFacts c ns) = map_option ln_sentAt (latest_notice Notice_lienholder ns)"
  "lf_ownerResponseAt (deriveFacts c ns) = opt_then (latest_notice Notice_owner ns) ln_responseReceivedAt"
  by (simp_all add: deriveFacts_def Let_def)

lemma set_loadNotices [simp]: "set (loadNotices t i db)
    = {n \<in> set (lienNotices db). ln_tenantId n = t \<and> ln_lienCaseId n = i \<and> ln_deletedAt n = None}"
  by (simp add: loadNotices_def)

text \<open>An engine that allows the mark has waited out every notice of the case.\<close>

lemma mark_waits:
  assumes "na_action (computeNextAction (deriveFacts c ns) rules now) = Mark_ready_for_sale" "n \<in> set ns"
  shows "ln_noticeType n = Notice_owner \<Longrightarrow> add_days (ln_sentAt n) (ownerNoticeWaitDays rules) \<le> now"
    "ln_noticeType n = Notice_lienholder \<Longrightarrow> add_days (ln_sentAt n) (lienholderNoticeWaitDays rules) \<le> now"
proof -
  note early = conjunct1 [OF computeNextAction_mark [OF assms(1)], unfolded earliest_le, simplified]
  show "add_days (ln_sentAt n) (ownerNoticeWaitDays rules) \<le> now" if "ln_noticeType n = Notice_owner"
    using latest_notice_greatest [OF assms(2) that] early by (auto simp: add_days_def)
  show "add_days (ln_sentAt n) (lienholderNoticeWaitDays rules) \<le> now" if "ln_noticeType n = Notice_lienholder"
    using latest_notice_greatest [OF assms(2) that] early by (auto simp: add_days_def)
qed

section \<open>The sweep\<close>

lemma last_action_due_snoc:
  "last_action_due i (es @ [e]) = (if is_action_due i e then
     (case last_action_due i es of None \<Rightarrow> Some e
      | Some b \<Rightarrow> if tl_occurredAt b \<le> tl_occurredAt e then Some e else Some b)
     else last_action_due i es)"
  by (simp add: last_action_due_def select_where_def split: option.split)

lemma last_action_due_in: "last_action_due i es = Some b \<Longrightarrow> b \<in> set es"
  by (induction es arbitrary: b rule: rev_induct)
    (auto simp: last_action_due_snoc last_action_due_def select_where_def split: if_splits option.splits)

lemma last_action_due_now:
  assumes "\<forall>e \<in> set es. tl_occurredAt e \<le> tl_occurredAt x" "is_action_due i x"
  shows "last_action_due i (es @ [x]) = Some x"
  using assms last_action_due_in by (auto simp: last_action_due_snoc split: option.split)

lemma deriveFacts_due: "deriveFacts (r\<lparr>lc_nextActionDueAt := d, lc_updatedAt := n\<rparr>) ns = deriveFacts r ns"
  by (simp add: deriveFacts_def)

lemma case_notices_frame: "case_notices i (db\<lparr>lienCases := x\<rparr>) = case_notices i db"
  "case_notices i (db\<lparr>lienTimelineEvents := y\<rparr>) = case_notices i db"
  by (simp_all add: case_notices_def)

lemma sweepOne_idem:
  assumes times: "\<forall>e \<in> set (lienTimelineEvents db). tl_occurredAt e \<le> now"
  shows "sweepOne now k' i (snd (sweepOne now k i db)) = ((False, False), snd (sweepOne now k i db))"
proof (cases "select_first (\<lambda>c. lc_id c = i \<and> lc_deletedAt c = None) (lienCases db)")
  case None
  then show ?thesis by (simp add: sweepOne_def)
next
  case (Some c)
  show ?thesis
  proof (cases "getStateRules (lc_state c)")
    case None
    then show ?thesis using Some by (simp add: sweepOne_def)
  next
    case rules: (Some rules)
    let ?n = "computeNextAction (deriveFacts c (case_notices i db)) rules now"
    let ?f = "\<lambda>r. r\<lparr>lc_nextActionDueAt := na_dueAt ?n, lc_updatedAt := now\<rparr>"
    let ?cs = "if lc_nextActionDueAt c \<noteq> na_dueAt ?n
      then update_where (\<lambda>r. lc_id r = i) ?f (lienCases db) else lienCases db"
    let ?e = "\<lambda>due. \<lparr>tl_id = k, tl_tenantId = lc_tenantId c, tl_lienCaseId = i, tl_occurredAt = now,
      tl_actorUserId = None, tl_event = Action_due (na_action ?n) due (na_reasons ?n)\<rparr>"
    have first: "\<exists>c'. select_first (\<lambda>c. lc_id c = i \<and> lc_deletedAt c = None) ?cs = Some c'
        \<and> lc_state c' = lc_state c \<and> lc_nextActionDueAt c' = na_dueAt ?n
        \<and> (\<forall>ns. deriveFacts c' ns = deriveFacts c ns)"
    proof -
      have "select_first (\<lambda>c. lc_id c = i \<and> lc_deletedAt c = None)
          (update_where (\<lambda>r. lc_id r = i) ?f (lienCases db)) = Some (?f c)"
        by (subst select_first_update_where) (simp_all add: Some)
      then show ?thesis using Some by (simp add: deriveFacts_due)
    qed
    have last: "last_action_due i (insert_into (?e due) (lienTimelineEvents db)) = Some (?e due)" for due
      using last_action_due_now [of "lienTimelineEvents db" "?e due" i] times
      by (simp add: insert_into_def is_action_due_def)
    show ?thesis
    proof (cases "na_dueAt ?n")
      case None
      then show ?thesis using Some rules first by (auto simp: sweepOne_def Let_def case_notices_frame)
    next
      case (Some due)
      then show ?thesis
        using \<open>select_first _ (lienCases db) = Some c\<close> rules first last [of due]
        by (auto simp: sweepOne_def Let_def case_notices_frame flagged_for_def)
    qed
  qed
qed

section \<open>An example case\<close>

text \<open>A California case on the stored car of the impound example, opened on day 0; day \<open>n\<close> of the case
  is \<open>lien_day n\<close>.\<close>

definition lien_day :: "int \<Rightarrow> instant" where
  "lien_day n = 1780000000000 + n * day_ms"

definition example_lien_lot :: lien_db where
  "example_lien_lot = \<lparr>impoundYards = [], impoundRecords = impoundRecords example_stored,
     impoundHolds = [], impoundFees = [], impoundReleases = [], impoundEvents = [],
     lienCases = [], lienNotices = [], lienTimelineEvents = []\<rparr>"

definition example_open :: open_case_input where
  "example_open = \<lparr>oc_impoundRecordId = 60, oc_state = ''CA'', oc_vehicleValueTier = None,
     oc_estimatedValueCents = None, oc_ownerFound = None, oc_lienholderFound = None, oc_notes = None\<rparr>"

definition example_notice :: "notice_type \<Rightarrow> recipient_role \<Rightarrow> notice_input" where
  "example_notice ty role = \<lparr>ni_noticeType = ty, ni_recipientRole = role, ni_recipientName = None,
     ni_recipientAddress = None, ni_deliveryMethod = Certified_mail, ni_sentAt = None,
     ni_certifiedTrackingNo = None, ni_notes = None\<rparr>"

definition no_advance_input :: advance_input where
  "no_advance_input = \<lparr>av_ownerFound = None, av_lienholderFound = None,
     av_estimatedValueCents = None, av_vehicleValueTier = None\<rparr>"

definition example_opened :: lien_db where
  "example_opened = lien_exec (OpenCase impound_ctx (lien_day 0) 80 500 example_open) example_lien_lot"

text \<open>Owner notice and publication on day 1, then two advances on day 31.\<close>

definition example_waiting :: lien_db where
  "example_waiting = lien_exec (AdvanceCase impound_ctx (lien_day 31) 503 80 no_advance_input)
     (lien_exec (RecordNotice impound_ctx (lien_day 1) 91 502 80 (example_notice Notice_publication Recipient_public))
       (lien_exec (RecordNotice impound_ctx (lien_day 1) 90 501 80 (example_notice Notice_owner Recipient_owner))
         example_opened))"

definition example_ready :: lien_db where
  "example_ready = lien_exec (AdvanceCase impound_ctx (lien_day 31) 504 80 no_advance_input) example_waiting"

definition example_close :: close_input where
  "example_close = \<lparr>cc_disposition = Disp_sold, cc_reason = None, cc_salePriceCents = Some 120000\<rparr>"

definition example_sold :: lien_db where
  "example_sold = lien_exec (CloseCase impound_ctx (lien_day 40) 505 80 example_close) example_ready"

abbreviation case_view :: "case_row \<Rightarrow> uuid \<times> uuid \<times> lien_status \<times> lien_step \<times> instant option" where
  "case_view c \<equiv> (lc_id c, lc_tenantId c, lc_status c, lc_currentStep c, lc_deletedAt c)"

lemma example_case_values:
  "map case_view (lienCases example_opened) = [(80, 1, Lien_open, Step_opened, None)]"
  "map case_view (lienCases example_waiting) = [(80, 1, Lien_open, Step_waiting_period, None)]"
  "map case_view (lienCases example_ready) = [(80, 1, Lien_ready_for_sale, Step_ready_for_sale, None)]"
  "map case_view (lienCases example_sold) = [(80, 1, Lien_sold, Step_sold, None)]"
  by code_simp+

lemma example_lien_reachable:
  "lien_reachable example_opened" "lien_reachable example_waiting" "lien_reachable example_ready"
  "lien_reachable example_sold"
proof -
  have "lien_reachable example_lien_lot" by (rule lien_start) (simp_all add: example_lien_lot_def)
  then show o: "lien_reachable example_opened"
    unfolding example_opened_def by (rule lien_step) (simp add: example_lien_lot_def)
  then show w: "lien_reachable example_waiting"
    unfolding example_waiting_def by (intro lien_step) simp_all
  then show r: "lien_reachable example_ready"
    unfolding example_ready_def by (rule lien_step) simp
  then show "lien_reachable example_sold"
    unfolding example_sold_def by (rule lien_step) simp
qed

text \<open>The tables as concrete rows, for the evaluations below.\<close>

lemma example_case_row:
  obtains c where "lienCases example_waiting = [c]" "lc_id c = 80" "lc_tenantId c = 1"
    "lc_status c = Lien_open" "lc_deletedAt c = None"
  using example_case_values(2) by auto

section \<open>Properties\<close>

text \<open>C10: On every reachable database status and step of a case agree, and a case that is ready for sale
  or sold was marked ready no earlier than its opening plus the minimum days to sale of its state.\<close>

theorem lien_ready_waited:
  assumes "lien_reachable db" "c \<in> set (lienCases db)"
  shows "status_step (lc_status c) (lc_currentStep c)
    \<and> (lc_status c = Lien_ready_for_sale \<or> lc_status c = Lien_sold \<longrightarrow>
      (\<exists>rules t. getStateRules (lc_state c) = Some rules \<and> lc_readyForSaleAt c = Some t
        \<and> lc_openedAt c + minDaysToSale rules * day_ms \<le> t))"
  using lien_reachable_inv [OF assms(1)] assms(2)
  by (auto simp: lien_inv_def case_inv_def waited_def add_days_def)

theorem lien_ready_waited_witness:
  "\<exists>c rules t. lienCases example_sold = [c] \<and> lc_status c = Lien_sold
    \<and> getStateRules (lc_state c) = Some rules \<and> lc_readyForSaleAt c = Some t
    \<and> lc_openedAt c + minDaysToSale rules * day_ms \<le> t"
proof -
  obtain c where "lienCases example_sold = [c]" "lc_status c = Lien_sold"
    using example_case_values(4) by auto
  then show ?thesis using lien_ready_waited [OF example_lien_reachable(4), of c] by simp
qed

text \<open>C9: An advance that makes a case ready for sale has waited out every statutory window of the case's
  state: the minimum days since the opening, and for every live notice of the case to the owner or to
  the lienholder, the latest or not, the days that notice asks for; and neither the latest owner
  notice nor the latest lienholder notice was answered.\<close>

theorem lien_ready_after_notice_windows:
  assumes "advanceCase ctx now k i inp db = Inr (c, db')"
    "lien_reachable db" "lc_status c = Lien_ready_for_sale"
  shows "\<exists>rules. getStateRules (lc_state c) = Some rules \<and> lc_openedAt c + minDaysToSale rules * day_ms \<le> now
    \<and> (\<forall>n \<in> set (lienNotices db). ln_tenantId n = ctx_tenantId ctx \<and> ln_lienCaseId n = i \<and> ln_deletedAt n = None \<longrightarrow>
         (ln_noticeType n = Notice_owner \<longrightarrow> ln_sentAt n + ownerNoticeWaitDays rules * day_ms \<le> now)
       \<and> (ln_noticeType n = Notice_lienholder \<longrightarrow> ln_sentAt n + lienholderNoticeWaitDays rules * day_ms \<le> now))
    \<and> (\<forall>ty \<in> {Notice_owner, Notice_lienholder}. \<forall>n. latest_notice ty (loadNotices (ctx_tenantId ctx) i db) = Some n
         \<longrightarrow> ln_responseReceivedAt n = None)"
  using assms(1)
proof (cases rule: advanceCase_effect)
  case (1 e rules step ready nx)
  have fresh: "select_first (live_case (ctx_tenantId ctx) i) (lienCases db') = Some c"
    using assms(1) by (auto simp: advanceCase_def Let_def update_returning_def)
  have "core c \<in> core ` set (update_where (live_case (ctx_tenantId ctx) i)
      (advanced_row now inp rules step ready) (lienCases db))"
    using select_first_SomeD(2) [OF fresh] 1(6) by (metis image_eqI list.set_map)
  then obtain d where d: "core c = core d" "d \<in> set (update_where (live_case (ctx_tenantId ctx) i)
      (advanced_row now inp rules step ready) (lienCases db))" by blast
  have c: "live_case (ctx_tenantId ctx) i c" using select_first_SomeD(1) [OF fresh] .
  have only: "x = e" if "x \<in> set (lienCases db)" "live_case (ctx_tenantId ctx) i x" for x
    using lien_reachable_inv [OF assms(2)] live_caseD [OF 1(1)] that
    by (auto simp: lien_inv_def live_case_def distinct_map inj_on_def)
  have "d = advanced_row now inp rules step ready e"
    using in_update_where [OF d(2)] only c d(1) by (auto simp: live_case_def core_def)
  then have same: "lc_state c = lc_state e" "lc_openedAt c = lc_openedAt e" "ready"
    using d(1) assms(3) 1(2) by (auto simp: core_def advanced_row_def advance_patch_def Let_def split: if_splits)
  let ?ns = "loadNotices (ctx_tenantId ctx) i db" and ?e = "advance_patch now inp rules e"
  have mark: "na_action (computeNextAction (deriveFacts ?e ?ns) rules now) = Mark_ready_for_sale"
    using nextStepFor_up(3) [OF 1(5)] same(3) 1(4) by simp
  note found = computeNextAction_mark [OF mark]
  have "lc_openedAt ?e = lc_openedAt e" by (simp add: advance_patch_def)
  then have "lc_openedAt c + minDaysToSale rules * day_ms \<le> now"
    using conjunct1 [OF found] same(2) by (simp add: earliest_le add_days_def)
  moreover have "ln_responseReceivedAt n = None"
    if "ty \<in> {Notice_owner, Notice_lienholder}" "latest_notice ty ?ns = Some n" for ty n
    using found that by (auto simp: deriveFacts_def Let_def opt_then_def)
  ultimately show ?thesis
    using mark_waits [OF mark] 1(3) same(1) by (auto simp: add_days_def)
qed

lemma example_advance:
  obtains c db' where "advanceCase impound_ctx (lien_day 31) 504 80 no_advance_input example_waiting = Inr (c, db')"
    "lc_status c = Lien_ready_for_sale"
proof -
  have "case_sum (\<lambda>_. None) (\<lambda>(c, _). Some (lc_status c))
      (advanceCase impound_ctx (lien_day 31) 504 80 no_advance_input example_waiting) = Some Lien_ready_for_sale"
    by code_simp
  then show thesis using that
    by (cases "advanceCase impound_ctx (lien_day 31) 504 80 no_advance_input example_waiting") auto
qed

lemma example_waiting_notices:
  "map (\<lambda>n. (ln_noticeType n, ln_tenantId n, ln_lienCaseId n, ln_deletedAt n)) (lienNotices example_waiting)
     = [(Notice_owner, 1, 80, None), (Notice_publication, 1, 80, None)]"
  by code_simp

theorem lien_ready_after_notice_windows_witness:
  "\<exists>c db' (n :: notice_row) rules. advanceCase impound_ctx (lien_day 31) 504 80 no_advance_input example_waiting = Inr (c, db')
    \<and> ln_noticeType n = Notice_owner \<and> getStateRules (lc_state c) = Some rules
    \<and> ln_sentAt n + ownerNoticeWaitDays rules * day_ms \<le> lien_day 31"
proof -
  obtain c db' where adv: "advanceCase impound_ctx (lien_day 31) 504 80 no_advance_input example_waiting
      = Inr (c, db')" "lc_status c = Lien_ready_for_sale" by (rule example_advance)
  obtain n m where n: "lienNotices example_waiting = [n, m]" "ln_noticeType n = Notice_owner"
      "ln_tenantId n = 1" "ln_lienCaseId n = 80" "ln_deletedAt n = None"
    using example_waiting_notices by auto
  obtain rules where "getStateRules (lc_state c) = Some rules"
      "ln_sentAt n + ownerNoticeWaitDays rules * day_ms \<le> lien_day 31"
    using lien_ready_after_notice_windows [OF adv(1) example_lien_reachable(2) adv(2)] n
    by (auto simp: impound_ctx_def)
  then show ?thesis using adv(1) n(2) by blast
qed

text \<open>C11: Along any continuation of a run a case keeps its place in the table, its step never moves
  back in the order of the workflow, its status follows the legal moves, and a case that is
  sold, closed or canceled stays as it is.\<close>

theorem lien_case_progress:
  assumes "lien_reachable db" "lien_path db db'" "j < length (lienCases db)"
  shows "lc_id (lienCases db' ! j) = lc_id (lienCases db ! j)
    \<and> STEP_RANK (lc_currentStep (lienCases db ! j)) \<le> STEP_RANK (lc_currentStep (lienCases db' ! j))
    \<and> lien_can\<^sup>*\<^sup>* (lc_status (lienCases db ! j)) (lc_status (lienCases db' ! j))
    \<and> (lien_terminal (lc_status (lienCases db ! j))
        \<longrightarrow> lc_status (lienCases db' ! j) = lc_status (lienCases db ! j))"
  using lien_path_rows [OF assms(2,1)] assms(3) lien.terminal_forever by blast

theorem lien_case_progress_witness:
  "STEP_RANK (lc_currentStep (lienCases example_opened ! 0)) \<le> STEP_RANK (lc_currentStep (lienCases example_waiting ! 0))
   \<and> lien_can\<^sup>*\<^sup>* (lc_status (lienCases example_opened ! 0)) (lc_status (lienCases example_waiting ! 0))"
proof -
  have "lien_path example_opened example_waiting"
    unfolding example_waiting_def by (intro path_step path_here) simp_all
  moreover have "0 < length (lienCases example_opened)"
    using arg_cong [OF example_case_values(1), of length] by simp
  ultimately show ?thesis using lien_case_progress [OF example_lien_reachable(1)] by blast
qed

text \<open>A case can be sold although no notice to the owner was ever recorded: a publication recorded
  on the first day moves a fresh case past the lookup and both notices, and the advances after
  it look only at the notices that exist.\<close>

definition example_unnoticed :: lien_db where
  "example_unnoticed = lien_exec (CloseCase impound_ctx (lien_day 40) 505 80 example_close)
     (lien_exec (AdvanceCase impound_ctx (lien_day 31) 504 80 no_advance_input)
       (lien_exec (AdvanceCase impound_ctx (lien_day 31) 503 80 no_advance_input)
         (lien_exec (RecordNotice impound_ctx (lien_day 1) 91 502 80 (example_notice Notice_publication Recipient_public))
           example_opened)))"

theorem lien_sold_without_owner_notice:
  "\<exists>(db :: lien_db) c. lien_reachable db \<and> lienCases db = [c] \<and> lc_status c = Lien_sold
     \<and> map ln_noticeType (lienNotices db) = [Notice_publication]"
proof -
  have "map case_view (lienCases example_unnoticed) = [(80, 1, Lien_sold, Step_sold, None)]"
    "map ln_noticeType (lienNotices example_unnoticed) = [Notice_publication]"
    by code_simp+
  then obtain c n where "lienCases example_unnoticed = [c]" "lc_status c = Lien_sold"
      "lienNotices example_unnoticed = [n]" "ln_noticeType n = Notice_publication" by auto
  moreover have "lien_reachable example_unnoticed"
    unfolding example_unnoticed_def using example_lien_reachable(1) by (intro lien_step) simp_all
  ultimately show ?thesis by auto
qed

text \<open>In a case ready for sale on which the owner answered the latest notice, the engine asks to
  resolve the claim and blocks the sale, but closing the case as sold succeeds.\<close>

theorem lien_sale_ignores_claim:
  assumes "select_first (live_case (ctx_tenantId ctx) i) (lienCases db) = Some e"
    "lc_status e = Lien_ready_for_sale"
    "latest_notice Notice_owner (loadNotices (ctx_tenantId ctx) i db) = Some n"
    "ln_responseReceivedAt n = Some r" "cc_disposition inp = Disp_sold"
  shows "na_action (computeNextAction (deriveFacts e (loadNotices (ctx_tenantId ctx) i db)) rules now) = Resolve_claim
    \<and> na_blocking (computeNextAction (deriveFacts e (loadNotices (ctx_tenantId ctx) i db)) rules now)
    \<and> (\<exists>c db'. closeCase ctx now k i inp db = Inr (c, db') \<and> lc_status c = Lien_sold \<and> lc_soldAt c = Some now)"
  using assms
  by (simp add: computeNextAction_def Let_def opt_then_def closeCase_def exec_simps requireCase_def
      update_returning_def closed_row_def)

definition example_claimed :: lien_db where
  "example_claimed = lien_exec (RecordResponse impound_ctx (lien_day 32) 506 80 90 None (Some ''paid'')) example_ready"

theorem lien_sale_ignores_claim_witness:
  "\<exists>c db'. closeCase impound_ctx (lien_day 40) 505 80 example_close example_claimed = Inr (c, db')
    \<and> lc_status c = Lien_sold"
proof -
  have "map case_view (lienCases example_claimed) = [(80, 1, Lien_ready_for_sale, Step_ready_for_sale, None)]"
    "map (\<lambda>n. (ln_id n, ln_responseReceivedAt n)) (case latest_notice Notice_owner
      (loadNotices (ctx_tenantId impound_ctx) 80 example_claimed) of None \<Rightarrow> [] | Some n \<Rightarrow> [n]) = [(90, Some (lien_day 32))]"
    by code_simp+
  then obtain c n where "lienCases example_claimed = [c]" "lc_id c = 80" "lc_tenantId c = 1"
      "lc_status c = Lien_ready_for_sale" "lc_deletedAt c = None"
      "latest_notice Notice_owner (loadNotices (ctx_tenantId impound_ctx) 80 example_claimed) = Some n"
      "ln_responseReceivedAt n = Some (lien_day 32)" by (auto split: option.splits)
  note c = this
  have "select_first (live_case (ctx_tenantId impound_ctx) 80) (lienCases example_claimed) = Some c"
    using c by (simp add: select_first_def live_case_def impound_ctx_def)
  moreover have "cc_disposition example_close = Disp_sold" by (simp add: example_close_def)
  ultimately show ?thesis using lien_sale_ignores_claim [OF _ c(4,6,7)] by blast
qed

text \<open>The nightly sweep only observes: it leaves status, step and notices of every case as they are,
  and a second visit of a case at the same instant changes nothing and flags nothing.\<close>

theorem lien_sweep_observes_once:
  assumes "\<forall>e \<in> set (lienTimelineEvents db). tl_occurredAt e \<le> now"
  shows "map core (lienCases (snd (sweepOne now k i db))) = map core (lienCases db)
    \<and> lienNotices (snd (sweepOne now k i db)) = lienNotices db
    \<and> sweepOne now k' i (snd (sweepOne now k i db)) = ((False, False), snd (sweepOne now k i db))"
  using sweepOne_effect sweepOne_idem [OF assms] by blast

theorem lien_sweep_observes_once_witness:
  "fst (sweepOne (lien_day 60) 507 80 example_opened) = (False, True)
   \<and> fst (sweepOne (lien_day 60) 508 80 (snd (sweepOne (lien_day 60) 507 80 example_opened))) = (False, False)"
proof -
  have "map tl_occurredAt (lienTimelineEvents example_opened) = [lien_day 0]" by code_simp
  then have "\<forall>e \<in> set (lienTimelineEvents example_opened). tl_occurredAt e \<le> lien_day 60"
    by (auto simp: lien_day_def day_ms_def)
  then have "fst (sweepOne (lien_day 60) 508 80 (snd (sweepOne (lien_day 60) 507 80 example_opened))) = (False, False)"
    using lien_sweep_observes_once by (metis fst_conv)
  moreover have "fst (sweepOne (lien_day 60) 507 80 example_opened) = (False, True)" by code_simp
  ultimately show ?thesis by simp
qed

end
