(* ===== verification/Doubles.thy ===== *)
theory Doubles
  imports Complex_Main "HOL-Library.Log_Nat"
begin

text \<open>
  The numbers the billing code multiplies and rounds are IEEE binary64.  A finite number is an
  integer significand times a power of two; an operation returns the number nearest to the
  exact result, ties to even, with 53 significant bits.  The amounts of the program stay far
  inside the range of normal numbers, so overflow and subnormals do not arise and are not
  modelled.  \<open>Math.round\<close> is the floor of the number plus one half.
\<close>

datatype dbl = Dbl (significand: int) (expo: int)

definition dbl_val :: "dbl \<Rightarrow> real" where
  "dbl_val x = of_int (significand x) * 2 powi expo x"

text \<open>\<open>p / q\<close> to the nearest integer, ties to even (\<open>0 < q\<close>).\<close>

definition round_even :: "int \<Rightarrow> int \<Rightarrow> int" where
  "round_even p q = (let d = p div q; r = p mod q in
     if 2 * r < q then d else if q < 2 * r then d + 1 else if even d then d else d + 1)"

text \<open>\<open>p / q * 2 ^ (- e)\<close> as a fraction of integers.\<close>

definition scaled :: "int \<Rightarrow> int \<Rightarrow> int \<Rightarrow> int \<times> int" where
  "scaled p q e = (if 0 \<le> e then (p, q * 2 ^ nat e) else (p * 2 ^ nat (- e), q))"

definition binade :: "int \<Rightarrow> int \<Rightarrow> int" where
  "binade p q = (let e = bitlen p - bitlen q - 53; (a, b) = scaled p q e
     in if b * 2 ^ 53 \<le> a then e + 1 else e)"

text \<open>The number nearest to \<open>p / q\<close>.\<close>

definition nearest :: "int \<Rightarrow> int \<Rightarrow> dbl" where
  "nearest p q = (if p = 0 then Dbl 0 0
     else let e = binade \<bar>p\<bar> q; (a, b) = scaled \<bar>p\<bar> q e in Dbl (sgn p * round_even a b) e)"

definition num :: "int \<Rightarrow> dbl" where
  "num n = nearest n 1"

definition dmul :: "dbl \<Rightarrow> dbl \<Rightarrow> dbl" where
  "dmul x y = (let m = significand x * significand y; e = expo x + expo y
     in if 0 \<le> e then nearest (m * 2 ^ nat e) 1 else nearest m (2 ^ nat (- e)))"

definition dsub :: "dbl \<Rightarrow> dbl \<Rightarrow> dbl" where
  "dsub x y = (let e = min (min (expo x) (expo y)) 0
     in nearest (significand x * 2 ^ nat (expo x - e) - significand y * 2 ^ nat (expo y - e))
          (2 ^ nat (- e)))"

definition dadd :: "dbl \<Rightarrow> dbl \<Rightarrow> dbl" where
  "dadd x y = dsub x (Dbl (- significand y) (expo y))"

text \<open>Division by a nonzero number.\<close>

definition ddiv :: "dbl \<Rightarrow> dbl \<Rightarrow> dbl" where
  "ddiv x y = (let s = sgn (significand y); e = expo x - expo y
     in if 0 \<le> e then nearest (s * significand x * 2 ^ nat e) \<bar>significand y\<bar>
        else nearest (s * significand x) (\<bar>significand y\<bar> * 2 ^ nat (- e)))"

definition dfloor :: "dbl \<Rightarrow> int" where
  "dfloor x = (if 0 \<le> expo x then significand x * 2 ^ nat (expo x)
     else significand x div 2 ^ nat (- expo x))"

definition Math_round :: "dbl \<Rightarrow> int" where
  "Math_round x = (if 0 \<le> expo x then significand x * 2 ^ nat (expo x)
     else (2 * significand x + 2 ^ nat (- expo x)) div (2 * 2 ^ nat (- expo x)))"

text \<open>\<open>toFixed(d)\<close> of a nonnegative number, as a count of \<open>10 ^ (- d)\<close>: the larger of two equally
  near candidates.\<close>

definition toFixed :: "nat \<Rightarrow> dbl \<Rightarrow> int" where
  "toFixed d x = Math_round (Dbl (significand x * 10 ^ d) (expo x))"

section \<open>Rounding error\<close>

lemma round_even_error:
  assumes "0 < q"
  shows "\<bar>of_int (round_even p q) - of_int p / of_int q\<bar> \<le> (1 / 2 :: real)"
proof -
  let ?d = "p div q" and ?r = "p mod q"
  have pq: "of_int p / of_int q = (of_int ?d + of_int ?r / of_int q :: real)"
  proof -
    have "p = ?d * q + ?r" by simp
    then have "(of_int p :: real) = of_int ?d * of_int q + of_int ?r"
      by (metis of_int_add of_int_mult)
    then show ?thesis using assms by (simp add: field_simps)
  qed
  have r: "0 \<le> ?r" "?r < q" using assms by simp_all
  have cmp: "a \<le> b \<longleftrightarrow> real_of_int a / of_int q \<le> of_int b / of_int q" for a b
    using assms by (simp add: divide_le_cancel)
  have frac: "2 * ?r \<le> q \<Longrightarrow> of_int ?r / of_int q \<le> (1 / 2 :: real)"
    "q \<le> 2 * ?r \<Longrightarrow> (1 / 2 :: real) \<le> of_int ?r / of_int q"
    using cmp [of "2 * ?r" q] cmp [of q "2 * ?r"] assms by simp_all
  have unit: "(0 :: real) \<le> of_int ?r / of_int q" "of_int ?r / of_int q < (1 :: real)"
    using r assms by simp_all
  show ?thesis
    using frac unit unfolding pq by (auto simp: round_even_def Let_def abs_le_iff)
qed

lemma round_even_exact: "0 < q \<Longrightarrow> round_even (m * q) q = m"
  by (simp add: round_even_def Let_def)

lemma scaled_val:
  assumes "0 < q"
  shows "of_int (fst (scaled p q e)) / of_int (snd (scaled p q e)) = (of_int p / of_int q :: real) * 2 powi (- e)"
    "0 < snd (scaled p q e)"
proof -
  have up: "0 \<le> e \<Longrightarrow> (2 :: real) powi e = 2 ^ nat e" for e :: int by (simp add: power_int_def)
  show "of_int (fst (scaled p q e)) / of_int (snd (scaled p q e)) = (of_int p / of_int q :: real) * 2 powi (- e)"
  proof (cases "0 \<le> e")
    case True
    have "(2 :: real) powi (- e) = 1 / 2 ^ nat e" using up [OF True] by (simp add: power_int_minus_divide)
    then show ?thesis using True by (simp add: scaled_def)
  next
    case False
    have "(2 :: real) powi (- e) = 2 ^ nat (- e)" using up [of "- e"] False by simp
    then show ?thesis using False by (simp add: scaled_def)
  qed
  show "0 < snd (scaled p q e)" using assms by (simp add: scaled_def)
qed

lemma bitlen_real:
  assumes "0 < (p :: int)"
  shows "2 powi (bitlen p - 1) \<le> (of_int p :: real)" "(of_int p :: real) < 2 powi bitlen p"
proof -
  have b: "2 ^ nat (bitlen p - 1) \<le> p" "p < 2 ^ nat (bitlen p)" using bitlen_bounds [OF assms] by auto
  have pos: "1 \<le> bitlen p"
    using b(2) assms by (cases "bitlen p \<le> 0") auto
  have "real_of_int (2 ^ nat (bitlen p - 1)) \<le> of_int p" "real_of_int p < of_int (2 ^ nat (bitlen p))"
    using b by (simp_all only: of_int_le_iff of_int_less_iff)
  moreover have "0 \<le> bitlen p - 1" "0 \<le> bitlen p" using pos by simp_all
  ultimately show "2 powi (bitlen p - 1) \<le> (of_int p :: real)" "(of_int p :: real) < 2 powi bitlen p"
    by (simp_all add: power_int_def)
qed

text \<open>The significand read off lies in the binade \<open>[2 ^ 52, 2 ^ 53)\<close>.\<close>

lemma binade_bounds:
  assumes "0 < p" "0 < q"
  shows "2 ^ 52 \<le> (of_int p / of_int q :: real) * 2 powi (- binade p q)"
    "(of_int p / of_int q) * 2 powi (- binade p q) < (2 ^ 53 :: real)"
proof -
  let ?e = "bitlen p - bitlen q - 53"
  let ?x = "of_int p / of_int q :: real"
  let ?y = "?x * 2 powi (- ?e)"
  have x: "2 powi (bitlen p - 1) / 2 powi bitlen q < ?x" "?x < 2 powi bitlen p / 2 powi (bitlen q - 1)"
    using bitlen_real [OF assms(1)] bitlen_real [OF assms(2)] assms
    by (auto intro: frac_less frac_less2)
  have lo: "2 ^ 52 < ?y"
  proof -
    have "(2 :: real) powi (bitlen p - 1) / 2 powi bitlen q * 2 powi (- ?e) = 2 powi 52"
      by (simp flip: power_int_add power_int_diff)
    then show ?thesis using mult_strict_right_mono [OF x(1), of "2 powi (- ?e)"] by simp
  qed
  have hi: "?y < 2 ^ 54"
  proof -
    have "(2 :: real) powi bitlen p / 2 powi (bitlen q - 1) * 2 powi (- ?e) = 2 powi 54"
      by (simp flip: power_int_add power_int_diff)
    then show ?thesis using mult_strict_right_mono [OF x(2), of "2 powi (- ?e)"] by simp
  qed
  obtain a b where ab: "scaled p q ?e = (a, b)" by (cases "scaled p q ?e")
  have y: "?y = of_int a / of_int b" "0 < b" using scaled_val [OF assms(2), of p ?e] ab by simp_all
  have test: "b * 2 ^ 53 \<le> a \<longleftrightarrow> 2 ^ 53 \<le> ?y"
  proof -
    have "b * 2 ^ 53 \<le> a \<longleftrightarrow> (of_int (b * 2 ^ 53) :: real) \<le> of_int a" by (simp only: of_int_le_iff)
    also have "\<dots> \<longleftrightarrow> 2 ^ 53 \<le> real_of_int a / of_int b"
      using y(2) by (simp add: le_divide_eq mult.commute)
    finally show ?thesis unfolding y(1) .
  qed
  have half: "?x * 2 powi (- (?e + 1)) = ?y / 2"
    by (simp add: power_int_diff)
  have bin: "binade p q = (if 2 ^ 53 \<le> ?y then ?e + 1 else ?e)"
    unfolding binade_def Let_def ab prod.case test ..
  show "2 ^ 52 \<le> ?x * 2 powi (- binade p q)" "?x * 2 powi (- binade p q) < 2 ^ 53"
  proof -
    have z: "?x * 2 powi (- binade p q) = (if 2 ^ 53 \<le> ?y then ?y / 2 else ?y)"
    proof (cases "2 ^ 53 \<le> ?y")
      case True
      then show ?thesis using bin half by (simp only: if_True)
    next
      case False
      then show ?thesis using bin by (simp only: if_False)
    qed
    define y where "y = ?y"
    have "2 ^ 52 < y" "y < 2 ^ 54" using lo hi by (simp_all only: y_def)
    then show "2 ^ 52 \<le> ?x * 2 powi (- binade p q)" "?x * 2 powi (- binade p q) < 2 ^ 53"
      unfolding z y_def [symmetric] by auto
  qed
qed

lemma dbl_val_nearest:
  assumes "p \<noteq> 0" "0 < q"
  shows "dbl_val (nearest p q) = of_int (sgn p * round_even (fst (scaled \<bar>p\<bar> q (binade \<bar>p\<bar> q)))
    (snd (scaled \<bar>p\<bar> q (binade \<bar>p\<bar> q)))) * 2 powi binade \<bar>p\<bar> q"
  using assms by (simp add: nearest_def dbl_val_def Let_def split_beta)

text \<open>The relative error of one operation is at most \<open>2 ^ (- 53)\<close>.\<close>

lemma nearest_error:
  assumes "0 < q"
  shows "\<bar>dbl_val (nearest p q) - of_int p / of_int q\<bar> \<le> \<bar>of_int p / of_int q\<bar> / 2 ^ 53"
proof (cases "p = 0")
  case True
  then show ?thesis by (simp add: nearest_def dbl_val_def)
next
  case False
  let ?P = "\<bar>p\<bar>"
  let ?e = "binade ?P q"
  obtain a b where ab: "scaled ?P q ?e = (a, b)" by (cases "scaled ?P q ?e")
  define x where "x = (of_int ?P / of_int q :: real)"
  define u where "u = (2 powi ?e :: real)"
  have u: "0 < u" by (simp add: u_def)
  have b: "0 < b" "of_int a / of_int b = x / u"
    using scaled_val [OF assms, of ?P ?e] ab by (simp_all add: x_def u_def power_int_minus divide_inverse)
  have lo: "2 ^ 52 \<le> x / u"
    using binade_bounds(1) [of ?P q] False assms
    by (simp add: x_def u_def power_int_minus field_simps)
  have "\<bar>of_int (round_even a b) - x / u\<bar> \<le> 1 / 2"
    using round_even_error [OF b(1), of a] b(2) by simp
  also have "1 / 2 \<le> (x / u) / 2 ^ 53" using lo by simp
  finally have "\<bar>of_int (round_even a b) - x / u\<bar> * u \<le> (x / u) / 2 ^ 53 * u"
    using u by (intro mult_right_mono) simp_all
  moreover have "(x / u) / 2 ^ 53 * u = x / 2 ^ 53" using u by simp
  moreover have "\<bar>of_int (round_even a b) - x / u\<bar> * u = \<bar>of_int (round_even a b) * u - x\<bar>"
  proof -
    have "(of_int (round_even a b) - x / u) * u = of_int (round_even a b) * u - x"
      using u by (simp add: left_diff_distrib)
    then show ?thesis using u by (metis abs_mult abs_of_pos)
  qed
  ultimately have err: "\<bar>of_int (round_even a b) * u - x\<bar> \<le> x / 2 ^ 53" by simp
  have val: "dbl_val (nearest p q) = of_int (sgn p) * (of_int (round_even a b) * u)"
    using False assms ab by (simp add: dbl_val_nearest u_def)
  have frac: "of_int p / of_int q = of_int (sgn p) * x"
    by (simp add: x_def sgn_if)
  have "\<bar>of_int (sgn p) * (of_int (round_even a b) * u) - of_int (sgn p) * x\<bar>
      = \<bar>of_int (round_even a b) * u - x\<bar>"
    using False by (simp add: sgn_if abs_minus_commute)
  moreover have "\<bar>of_int (sgn p) * x\<bar> = x" using False assms by (simp add: sgn_if x_def)
  ultimately show ?thesis unfolding val frac using err by simp
qed

text \<open>Integers of magnitude at most \<open>2 ^ 53\<close> are represented exactly, and so is every product of
  integers that stays in that range.\<close>

lemma nearest_exact:
  assumes "0 < q" "p = m * q" "\<bar>m\<bar> \<le> 2 ^ 53"
  shows "dbl_val (nearest p q) = of_int m"
proof (cases "p = 0")
  case True
  then show ?thesis using assms by (simp add: nearest_def dbl_val_def)
next
  case False
  let ?P = "\<bar>p\<bar>"
  let ?e = "binade ?P q"
  have x: "(of_int ?P / of_int q :: real) = of_int \<bar>m\<bar>" using assms by (simp add: abs_mult)
  have lo: "2 ^ 52 \<le> (of_int \<bar>m\<bar> :: real) * 2 powi (- ?e)"
    using binade_bounds(1) [of ?P q] False assms(1) unfolding x by simp
  have e: "?e \<le> 1"
  proof (rule ccontr)
    assume "\<not> ?e \<le> 1"
    then have "(2 :: real) powi (- ?e) \<le> 2 powi (- 2)"
      by (intro power_int_increasing) simp_all
    then have "(of_int \<bar>m\<bar> :: real) * 2 powi (- ?e) \<le> of_int \<bar>m\<bar> * 2 powi (- 2)"
      by (intro mult_left_mono) simp_all
    moreover have "(of_int \<bar>m\<bar> :: real) \<le> of_int (2 ^ 53)" using assms(3) by (simp only: of_int_le_iff)
    ultimately have "(of_int \<bar>m\<bar> :: real) * 2 powi (- ?e) \<le> 2 ^ 51"
      by (simp add: power_int_minus)
    then show False using lo by simp
  qed
  obtain a b where ab: "scaled ?P q ?e = (a, b)" by (cases "scaled ?P q ?e")
  have b: "0 < b" "(of_int a / of_int b :: real) = of_int \<bar>m\<bar> * 2 powi (- ?e)"
    using scaled_val [OF assms(1), of ?P ?e] unfolding x ab by simp_all
  have val: "dbl_val (nearest p q) = of_int (sgn p) * (of_int (round_even a b) * 2 powi ?e)"
    using dbl_val_nearest [OF False assms(1)] ab by simp
  have "sgn p * \<bar>m\<bar> = m" using assms by (simp add: sgn_mult mult_sgn_abs)
  then have sg: "real_of_int (sgn p) * of_int \<bar>m\<bar> = of_int m"
    by (metis of_int_mult)
  have "of_int (round_even a b) * 2 powi ?e = (of_int \<bar>m\<bar> :: real)"
  proof (cases "?e \<le> 0")
    case True
    then have up: "(2 :: real) powi (- ?e) = of_int (2 ^ nat (- ?e))" by (simp add: power_int_def)
    have "(of_int a :: real) = of_int (\<bar>m\<bar> * 2 ^ nat (- ?e) * b)"
      using b unfolding up by (simp add: field_simps)
    then have "a = (\<bar>m\<bar> * 2 ^ nat (- ?e)) * b" by (simp only: of_int_eq_iff)
    then have "round_even a b = \<bar>m\<bar> * 2 ^ nat (- ?e)" using round_even_exact [OF b(1)] by simp
    then have "(of_int (round_even a b) :: real) = of_int \<bar>m\<bar> * 2 powi (- ?e)"
      unfolding up by (simp only: of_int_mult)
    then show ?thesis by (simp add: power_int_minus)
  next
    case False
    then have one: "?e = 1" using e by simp
    have "(of_int (2 ^ 53) :: real) \<le> of_int \<bar>m\<bar>" using lo unfolding one by (simp add: power_int_minus)
    then have m: "\<bar>m\<bar> = 2 ^ 53" using assms(3) by (simp only: of_int_le_iff)
    have "(of_int a :: real) = of_int (2 ^ 52 * b)"
      using b unfolding one m by (simp add: power_int_minus field_simps)
    then have "a = 2 ^ 52 * b" by (simp only: of_int_eq_iff)
    then have "round_even a b = 2 ^ 52" using round_even_exact [OF b(1)] by simp
    then show ?thesis unfolding one m by simp
  qed
  then show ?thesis unfolding val using sg by simp
qed

section \<open>The operations\<close>

lemma powi_split:
  "0 \<le> e \<Longrightarrow> (2 :: real) powi e = of_int (2 ^ nat e)"
  "\<not> 0 \<le> e \<Longrightarrow> (2 :: real) powi e = 1 / of_int (2 ^ nat (- e))"
proof -
  show up: "(2 :: real) powi e = of_int (2 ^ nat e)" if "0 \<le> e" for e
    using that by (simp add: power_int_def)
  show "(2 :: real) powi e = 1 / of_int (2 ^ nat (- e))" if "\<not> 0 \<le> e"
    using up [of "- e"] that power_int_minus_divide [of "2 :: real" "- e"] by simp
qed

lemma dmul_fraction:
  obtains p q where "0 < q" "dmul x y = nearest p q" "of_int p / of_int q = dbl_val x * dbl_val y"
proof -
  let ?m = "significand x * significand y" and ?e = "expo x + expo y"
  have v: "dbl_val x * dbl_val y = of_int ?m * 2 powi ?e"
    by (simp add: dbl_val_def power_int_add)
  show thesis
  proof (cases "0 \<le> ?e")
    case True
    then show thesis using that [of 1 "?m * 2 ^ nat ?e"] v powi_split(1) [of ?e]
      by (simp add: dmul_def Let_def)
  next
    case False
    then show thesis using that [of "2 ^ nat (- ?e)" ?m] v powi_split(2) [of ?e]
      by (simp add: dmul_def Let_def)
  qed
qed

lemma dmul_error:
  "\<bar>dbl_val (dmul x y) - dbl_val x * dbl_val y\<bar> \<le> \<bar>dbl_val x * dbl_val y\<bar> / 2 ^ 53"
  by (rule dmul_fraction [of x y]) (metis nearest_error)

lemma dmul_exact:
  assumes "dbl_val x = of_int m" "dbl_val y = of_int n" "\<bar>m * n\<bar> \<le> 2 ^ 53"
  shows "dbl_val (dmul x y) = of_int (m * n)"
proof -
  obtain p q where pq: "0 < q" "dmul x y = nearest p q" "of_int p / of_int q = dbl_val x * dbl_val y"
    by (rule dmul_fraction)
  then have "(of_int p :: real) = of_int (m * n * q)"
    using assms by (simp add: field_simps)
  then have "p = m * n * q" by (simp only: of_int_eq_iff)
  then show ?thesis using nearest_exact [OF pq(1) _ assms(3)] pq(2) by simp
qed

lemma ddiv_fraction:
  assumes "dbl_val y \<noteq> 0"
  obtains p q where "0 < q" "ddiv x y = nearest p q" "of_int p / of_int q = dbl_val x / dbl_val y"
proof -
  let ?s = "sgn (significand y)" and ?e = "expo x - expo y"
  have y: "significand y \<noteq> 0" using assms by (auto simp: dbl_val_def)
  have s: "of_int ?s / of_int \<bar>significand y\<bar> = 1 / (of_int (significand y) :: real)"
    using y by (simp add: sgn_if)
  have v: "dbl_val x / dbl_val y = of_int (significand x) * (of_int ?s / of_int \<bar>significand y\<bar>) * 2 powi ?e"
    unfolding s by (simp add: dbl_val_def power_int_diff)
  show thesis
  proof (cases "0 \<le> ?e")
    case True
    then have "of_int (?s * significand x * 2 ^ nat ?e) / of_int \<bar>significand y\<bar> = dbl_val x / dbl_val y"
      using v powi_split(1) [of ?e] by simp
    moreover have "ddiv x y = nearest (?s * significand x * 2 ^ nat ?e) \<bar>significand y\<bar>" "0 < \<bar>significand y\<bar>"
      using True y by (simp_all add: ddiv_def Let_def)
    ultimately show thesis using that by blast
  next
    case False
    then have "of_int (?s * significand x) / of_int (\<bar>significand y\<bar> * 2 ^ nat (- ?e)) = dbl_val x / dbl_val y"
      using v powi_split(2) [of ?e] by simp
    moreover have "ddiv x y = nearest (?s * significand x) (\<bar>significand y\<bar> * 2 ^ nat (- ?e))"
      "0 < \<bar>significand y\<bar> * 2 ^ nat (- ?e)"
      using False y by (simp_all add: ddiv_def Let_def)
    ultimately show thesis using that by blast
  qed
qed

lemma ddiv_error:
  assumes "dbl_val y \<noteq> 0"
  shows "\<bar>dbl_val (ddiv x y) - dbl_val x / dbl_val y\<bar> \<le> \<bar>dbl_val x / dbl_val y\<bar> / 2 ^ 53"
  by (rule ddiv_fraction [OF assms, of x]) (metis nearest_error)

lemma ddiv_exact:
  assumes "dbl_val x = of_int (m * n)" "dbl_val y = of_int n" "n \<noteq> 0" "\<bar>m\<bar> \<le> 2 ^ 53"
  shows "dbl_val (ddiv x y) = of_int m"
proof -
  obtain p q where pq: "0 < q" "ddiv x y = nearest p q" "of_int p / of_int q = dbl_val x / dbl_val y"
    by (rule ddiv_fraction [of y x]) (use assms in simp_all)
  then have "(of_int p :: real) = of_int (m * q)" using assms by (simp add: field_simps)
  then have "p = m * q" by (simp only: of_int_eq_iff)
  then show ?thesis using nearest_exact [OF pq(1) _ assms(4)] pq(2) by simp
qed

lemma dfloor_floor: "dfloor x = \<lfloor>dbl_val x\<rfloor>"
proof (cases "0 \<le> expo x")
  case True
  then have "dbl_val x = of_int (significand x * 2 ^ nat (expo x))"
    using powi_split(1) [of "expo x"] by (simp add: dbl_val_def)
  then show ?thesis using True by (simp only: dfloor_def floor_of_int if_True)
next
  case False
  have "dbl_val x = of_int (significand x) / of_int (2 ^ nat (- expo x))"
    using powi_split(2) [OF False] by (simp add: dbl_val_def)
  then show ?thesis using False by (simp only: dfloor_def floor_divide_of_int_eq if_False)
qed

text \<open>The floor of a quotient of small integers is the integer quotient: a quotient that is not an
  integer is farther from the next one than the rounding error.\<close>

lemma dfloor_quotient:
  assumes "dbl_val x = of_int p" "dbl_val y = of_int q" "0 \<le> p" "0 < q" "p < 2 ^ 53"
  shows "dfloor (ddiv x y) = p div q"
proof (cases "q dvd p")
  case True
  then have p: "p = p div q * q" by simp
  have "p div q \<le> p" using zdiv_mono2 [of p 1 q] assms by simp
  then have "dbl_val (ddiv x y) = of_int (p div q)"
    using assms p by (intro ddiv_exact [of _ _ q]) (auto simp: pos_imp_zdiv_nonneg_iff abs_of_nonneg)
  then show ?thesis by (simp add: dfloor_floor)
next
  case False
  let ?d = "p div q" and ?r = "p mod q" and ?v = "of_int p / of_int q :: real"
  have r: "0 < ?r" "?r < q" using False assms(4) by (auto simp: dvd_eq_mod_eq_0 order.not_eq_order_implies_strict)
  have pq: "p = ?d * q + ?r" by simp
  have v: "?v = of_int ?d + of_int ?r / of_int q"
    using assms(4) by (subst pq) (simp only: of_int_add of_int_mult, simp add: field_simps)
  have "\<bar>dbl_val (ddiv x y) - ?v\<bar> \<le> \<bar>?v\<bar> / 2 ^ 53"
    using ddiv_error [of y x] assms by simp
  moreover have "\<bar>?v\<bar> / 2 ^ 53 < 1 / of_int q"
  proof -
    have "(of_int p :: real) < of_int (2 ^ 53)" using assms(5) by (simp only: of_int_less_iff)
    then show ?thesis using assms(3,4) by (simp add: field_simps)
  qed
  moreover have "1 / of_int q \<le> (of_int ?r / of_int q :: real)"
    using r assms(4) by (intro divide_right_mono) simp_all
  moreover have "of_int ?r / of_int q + 1 / of_int q \<le> (1 :: real)"
  proof -
    have "of_int (?r + 1) \<le> (of_int q :: real)" using r by (simp only: of_int_le_iff)
    then have "of_int (?r + 1) / of_int q \<le> (1 :: real)" using assms(4) by (simp only: divide_le_eq_1) simp
    then show ?thesis by (simp add: add_divide_distrib)
  qed
  ultimately have "of_int ?d < dbl_val (ddiv x y)" "dbl_val (ddiv x y) < of_int ?d + 1"
    using v by linarith+
  then show ?thesis unfolding dfloor_floor by (intro floor_unique) simp_all
qed

lemma Math_round_floor: "Math_round x = \<lfloor>dbl_val x + 1 / 2\<rfloor>"
proof (cases "0 \<le> expo x")
  case True
  then have "dbl_val x = of_int (significand x * 2 ^ nat (expo x))"
    using powi_split(1) [of "expo x"] by (simp add: dbl_val_def)
  then have "\<lfloor>dbl_val x + 1 / 2\<rfloor> = significand x * 2 ^ nat (expo x)" by (intro floor_unique) linarith+
  then show ?thesis using True by (simp add: Math_round_def)
next
  case False
  let ?k = "2 ^ nat (- expo x) :: int"
  have "dbl_val x + 1 / 2 = of_int (2 * significand x + ?k) / of_int (2 * ?k)"
    using powi_split(2) [OF False] by (simp add: dbl_val_def field_simps)
  then show ?thesis using False by (simp only: Math_round_def floor_divide_of_int_eq if_False)
qed

lemma Math_round_near: "\<bar>of_int (Math_round x) - dbl_val x\<bar> \<le> 1 / 2"
  unfolding Math_round_floor by linarith

lemma Math_round_int: "dbl_val x = of_int n \<Longrightarrow> Math_round x = n"
  by (simp add: Math_round_floor floor_unique)

lemma num_exact: "\<bar>n\<bar> \<le> 2 ^ 53 \<Longrightarrow> dbl_val (num n) = of_int n"
  by (simp add: num_def nearest_exact)

text \<open>Composed error of a few operations.\<close>

lemma rel_error_trans:
  assumes "\<bar>a' - a\<bar> \<le> \<bar>a\<bar> * u" "\<bar>r - a'\<bar> \<le> \<bar>a'\<bar> * v" "0 \<le> v" "0 \<le> u"
  shows "\<bar>r - a\<bar> \<le> \<bar>a\<bar> * (u + v + u * v :: real)"
proof -
  have "\<bar>a'\<bar> \<le> \<bar>a\<bar> + \<bar>a\<bar> * u" using assms(1) by linarith
  then have "\<bar>a'\<bar> * v \<le> (\<bar>a\<bar> + \<bar>a\<bar> * u) * v" using assms(3) by (rule mult_right_mono)
  then have "\<bar>r - a\<bar> \<le> \<bar>a\<bar> * u + (\<bar>a\<bar> + \<bar>a\<bar> * u) * v" using assms(1,2) by linarith
  then show ?thesis by (simp add: algebra_simps)
qed

end
