(* ===== verification/InvoiceLogic.thy ===== *)
theory InvoiceLogic
  imports Doubles Dates DispatchDb "HOL-Library.Product_Lexorder"
begin

text \<open>
  The pure parts of modules/billing: the invoice state machine (invoice-state-machine.ts), the
  tax engine (tax.ts), the conversion of a rate quote to invoice lines (billing-line-items.ts)
  and the terms of packages/shared/src/schemas/billing.ts.  Money is integer cents; quantities
  and rates are decimals read with \<open>Number\<close>, multiplied as doubles and rounded with
  \<open>Math.round\<close>.
\<close>

section \<open>Status\<close>

datatype invoice_status = Inv_draft | Inv_issued | Inv_sent | Inv_partially_paid | Inv_paid
  | Inv_overdue | Inv_void | Inv_refunded

definition INVOICE_TERMINAL :: "invoice_status list" where
  "INVOICE_TERMINAL = [Inv_paid, Inv_void, Inv_refunded]"

fun invoice_transitions :: "invoice_status \<Rightarrow> invoice_status list" where
  "invoice_transitions Inv_draft = [Inv_issued, Inv_void]"
| "invoice_transitions Inv_issued = [Inv_sent, Inv_partially_paid, Inv_paid, Inv_overdue, Inv_void]"
| "invoice_transitions Inv_sent = [Inv_partially_paid, Inv_paid, Inv_overdue, Inv_void]"
| "invoice_transitions Inv_partially_paid = [Inv_paid, Inv_overdue, Inv_void]"
| "invoice_transitions Inv_paid = [Inv_refunded]"
| "invoice_transitions Inv_overdue = [Inv_partially_paid, Inv_paid, Inv_void]"
| "invoice_transitions Inv_void = []"
| "invoice_transitions Inv_refunded = []"

definition invoice_canTransition :: "invoice_status \<Rightarrow> invoice_status \<Rightarrow> bool" where
  "invoice_canTransition from to \<longleftrightarrow> from = to \<or> to \<in> set (invoice_transitions from)"

fun invoice_status_text :: "invoice_status \<Rightarrow> string" where
  "invoice_status_text Inv_draft = ''draft''"
| "invoice_status_text Inv_issued = ''issued''"
| "invoice_status_text Inv_sent = ''sent''"
| "invoice_status_text Inv_partially_paid = ''partially_paid''"
| "invoice_status_text Inv_paid = ''paid''"
| "invoice_status_text Inv_overdue = ''overdue''"
| "invoice_status_text Inv_void = ''void''"
| "invoice_status_text Inv_refunded = ''refunded''"

text \<open>As the service rethrows it: a BadRequest with the message of the error.\<close>

definition invoice_assertCanTransition :: "invoice_status \<Rightarrow> invoice_status \<Rightarrow> exn + unit" where
  "invoice_assertCanTransition from to = ensure (invoice_canTransition from to)
     (BadRequest ''INVALID_STATE_TRANSITION'' (''Invoice cannot transition from ''
        @ invoice_status_text from @ '' to '' @ invoice_status_text to)) (Inr ())"

definition statusAfterPayment :: "invoice_status \<Rightarrow> cents \<Rightarrow> cents \<Rightarrow> bool \<Rightarrow> invoice_status" where
  "statusAfterPayment current totalCents newPaidCents isOverdue =
    (if current = Inv_void \<or> current = Inv_refunded then current
     else if totalCents \<le> newPaidCents \<and> 0 < totalCents then Inv_paid
     else if 0 < newPaidCents then (if isOverdue then Inv_overdue else Inv_partially_paid)
     else if isOverdue then Inv_overdue
     else if current = Inv_paid then Inv_partially_paid else current)"

interpretation invoice: status_machine invoice_canTransition "\<lambda>s. s = Inv_void \<or> s = Inv_refunded"
  by unfold_locales (auto simp: invoice_canTransition_def)

section \<open>Decimals\<close>

text \<open>A decimal text: the digits as an integer and the number of places after the point.\<close>

type_synonym decimal = "int \<times> nat"

fun Number :: "decimal \<Rightarrow> dbl" where
  "Number (c, k) = nearest c (10 ^ k)"

text \<open>A Postgres \<open>numeric(p, s)\<close> column as a count of \<open>10 ^ (- s)\<close>: rounded half away from zero.\<close>

definition numeric_round :: "nat \<Rightarrow> decimal \<Rightarrow> int" where
  "numeric_round s d = (case d of (c, k) \<Rightarrow>
     if k \<le> s then c * 10 ^ (s - k)
     else sgn c * ((2 * \<bar>c\<bar> + 10 ^ (k - s)) div (2 * 10 ^ (k - s))))"

definition to_numeric :: "nat \<Rightarrow> nat \<Rightarrow> decimal \<Rightarrow> exn + int" where
  "to_numeric p s d = ensure (\<bar>numeric_round s d\<bar> < 10 ^ p) (Failure ''numeric field overflow'')
     (Inr (numeric_round s d))"

section \<open>Tax\<close>

datatype tax_type = Tax_sales | Tax_gst | Tax_hst | Tax_pst | Tax_qst

text \<open>The order of \<open>localeCompare\<close> on the tax types.\<close>

fun tax_type_rank :: "tax_type \<Rightarrow> nat" where
  "tax_type_rank Tax_gst = 0"
| "tax_type_rank Tax_hst = 1"
| "tax_type_rank Tax_pst = 2"
| "tax_type_rank Tax_qst = 3"
| "tax_type_rank Tax_sales = 4"

record jurisdiction_rule =
  jr_taxType :: tax_type
  jr_nameEn :: string
  jr_nameFr :: string
  jr_rateBps :: dbl
  jr_displayOrder :: int

record tax_line =
  tl_taxType :: tax_type
  tl_name :: string
  tl_rateBps :: dbl
  tl_taxableCents :: cents
  tl_amountCents :: cents

definition bpsToFraction :: "dbl \<Rightarrow> dbl" where
  "bpsToFraction bps = ddiv bps (num 10000)"

definition selectApplicableRules :: "('r \<Rightarrow> instant) \<Rightarrow> ('r \<Rightarrow> instant option) \<Rightarrow> instant \<Rightarrow> 'r list \<Rightarrow> 'r list" where
  "selectApplicableRules effectiveAt expiresAt when rules = filter (\<lambda>r. effectiveAt r \<le> when
     \<and> (case expiresAt r of None \<Rightarrow> True | Some e \<Rightarrow> when < e)) rules"

definition computeTax :: "cents \<Rightarrow> jurisdiction_rule list \<Rightarrow> string \<Rightarrow> tax_line list \<times> cents" where
  "computeTax taxable rules locale =
    (let french = (take 2 locale = ''fr'');
         lines = map (\<lambda>r. \<lparr>tl_taxType = jr_taxType r,
             tl_name = (if french then jr_nameFr r else jr_nameEn r), tl_rateBps = jr_rateBps r,
             tl_taxableCents = taxable,
             tl_amountCents = Math_round (dmul (num taxable) (bpsToFraction (jr_rateBps r)))\<rparr>)
           (sort_key (\<lambda>r. (jr_displayOrder r, tax_type_rank (jr_taxType r))) rules)
     in (lines, sum_list (map tl_amountCents lines)))"

text \<open>The tax of one bucket of lines that share a rate, in the single-rate model.\<close>

definition bucket_tax :: "cents \<Rightarrow> dbl \<Rightarrow> cents" where
  "bucket_tax taxable rate = Math_round (dmul (num taxable) (ddiv rate (num 100)))"

section \<open>Lines\<close>

datatype line_type = Line_service | Line_mileage_loaded | Line_mileage_unloaded | Line_wait_time
  | Line_winch | Line_recovery | Line_after_hours | Line_equipment_surcharge | Line_environmental
  | Line_storage_daily | Line_skip_trace | Line_repo_attempt | Line_admin | Line_discount | Line_custom

definition line_total :: "decimal \<Rightarrow> cents \<Rightarrow> cents" where
  "line_total quantity unitPrice = Math_round (dmul (Number quantity) (num unitPrice))"

fun contains :: "string \<Rightarrow> string \<Rightarrow> bool" where
  "contains p [] \<longleftrightarrow> p = []"
| "contains p (c # s) \<longleftrightarrow> take (length p) (c # s) = p \<or> contains p s"

definition to_lower :: "string \<Rightarrow> string" where
  "to_lower s = map (\<lambda>c. let n = (of_char c :: nat) in
     if 65 \<le> n \<and> n \<le> 90 then char_of (n + 32) else c) s"

definition mapRateCodeToLineType :: "string \<Rightarrow> line_type" where
  "mapRateCodeToLineType code =
    (if code \<in> {''base'', ''class_flat''} then Line_service
     else if code = ''mileage'' then Line_mileage_loaded
     else if code = ''mileage_unloaded'' then Line_mileage_unloaded
     else if code \<in> {''wait_time'', ''waiting''} then Line_wait_time
     else if code = ''winch'' then Line_winch
     else if code = ''recovery'' then Line_recovery
     else if code \<in> {''environmental'', ''fuel_surcharge''} then Line_environmental
     else if code \<in> {''admin_fee'', ''admin''} then Line_admin
     else if code = ''discount'' then Line_discount
     else if code = ''storage_daily'' then Line_storage_daily
     else if list_ex (\<lambda>p. contains p (to_lower code))
         [''night'', ''weekend'', ''holiday'', ''after_hours'', ''after-hours''] then Line_after_hours
     else if list_ex (\<lambda>p. contains p (to_lower code))
         [''equipment'', ''dolly'', ''skates'', ''extra_axle'', ''wheel_lift''] then Line_equipment_surcharge
     else Line_custom)"

definition shouldDefaultTaxable :: "line_type \<Rightarrow> bool \<Rightarrow> bool" where
  "shouldDefaultTaxable ty fallback = (if ty = Line_discount then False else fallback)"

text \<open>A line of the persisted rate quote.\<close>

record rate_line =
  rl_code :: string
  rl_label :: string
  rl_amountCents :: cents
  rl_quantity :: "decimal option"
  rl_unit :: "string option"

record draft_line =
  dl_lineNumber :: nat
  dl_lineType :: line_type
  dl_description :: string
  dl_quantity :: decimal
  dl_unit :: string
  dl_unitPriceCents :: cents
  dl_lineTotalCents :: cents
  dl_taxable :: bool
  dl_taxRatePct :: decimal
  dl_rateRuleId :: "string option"

definition computeUnitPrice :: "rate_line \<Rightarrow> cents" where
  "computeUnitPrice line = (case rl_quantity line of
      Some (c, k) \<Rightarrow> if 0 < c then Math_round (ddiv (num (rl_amountCents line)) (Number (c, k)))
        else rl_amountCents line
    | None \<Rightarrow> rl_amountCents line)"

definition rateLineToDraft :: "rate_line \<Rightarrow> nat \<Rightarrow> bool \<Rightarrow> decimal \<Rightarrow> draft_line" where
  "rateLineToDraft line n taxable taxRate =
    (let ty = mapRateCodeToLineType (rl_code line)
     in \<lparr>dl_lineNumber = n, dl_lineType = ty, dl_description = rl_label line,
         dl_quantity = (case rl_quantity line of Some q \<Rightarrow> q | None \<Rightarrow> (1, 0)),
         dl_unit = (case rl_unit line of Some u \<Rightarrow> u | None \<Rightarrow> ''each''),
         dl_unitPriceCents = computeUnitPrice line, dl_lineTotalCents = rl_amountCents line,
         dl_taxable = shouldDefaultTaxable ty taxable, dl_taxRatePct = taxRate,
         dl_rateRuleId = Some (rl_code line)\<rparr>)"

definition rateQuoteToInvoiceLineItems :: "rate_line list \<Rightarrow> bool \<Rightarrow> decimal \<Rightarrow> draft_line list" where
  "rateQuoteToInvoiceLineItems lines taxable taxRate =
     map (\<lambda>(i, line). rateLineToDraft line (i + 1) taxable taxRate) (enumerate 0 lines)"

definition goaInvoiceLineItem :: "cents \<Rightarrow> string \<Rightarrow> draft_line" where
  "goaInvoiceLineItem amount reason = \<lparr>dl_lineNumber = 1, dl_lineType = Line_service,
     dl_description = (if reason = [] then ''Gone-on-arrival fee'' else reason), dl_quantity = (1, 0),
     dl_unit = ''each'', dl_unitPriceCents = amount, dl_lineTotalCents = amount, dl_taxable = False,
     dl_taxRatePct = (0, 0), dl_rateRuleId = Some ''goa_flat''\<rparr>"

text \<open>The day count is a whole number at every caller, so the floor is the identity.\<close>

definition storageInvoiceLineItem :: "int \<Rightarrow> cents \<Rightarrow> string \<Rightarrow> bool \<Rightarrow> decimal \<Rightarrow> draft_line" where
  "storageInvoiceLineItem days rate description taxable taxRate =
    (let safeDays = max 0 days
     in \<lparr>dl_lineNumber = 1, dl_lineType = Line_storage_daily, dl_description = description,
         dl_quantity = (safeDays, 0), dl_unit = ''day'', dl_unitPriceCents = rate,
         dl_lineTotalCents = safeDays * rate, dl_taxable = taxable, dl_taxRatePct = taxRate,
         dl_rateRuleId = Some ''storage_daily''\<rparr>)"

fun serviceTypeLabel :: "service_type \<Rightarrow> string" where
  "serviceTypeLabel Tow = ''Tow''"
| "serviceTypeLabel Jump_start = ''Jump start''"
| "serviceTypeLabel Lockout = ''Lockout''"
| "serviceTypeLabel Tire_change = ''Tire change''"
| "serviceTypeLabel Fuel = ''Fuel delivery''"
| "serviceTypeLabel Winch = ''Winch service''"
| "serviceTypeLabel Recovery = ''Recovery service''"
| "serviceTypeLabel Impound = ''Impound tow''"
| "serviceTypeLabel Repo = ''Repossession''"
| "serviceTypeLabel Other_service = ''Service''"

section \<open>Terms\<close>

datatype invoice_terms = Due_on_receipt | Net_15 | Net_30 | Net_45 | Net_60 | Cod | Prepay

definition termsFromAccountBilling :: "string \<Rightarrow> invoice_terms" where
  "termsFromAccountBilling s = (if s = ''net_15'' then Net_15 else if s = ''net_30'' then Net_30
     else if s = ''net_45'' then Net_45 else if s = ''net_60'' then Net_60
     else if s = ''cod'' then Cod else if s = ''prepay'' then Prepay else Net_30)"

fun dueDaysForTerms :: "invoice_terms \<Rightarrow> int" where
  "dueDaysForTerms Due_on_receipt = 0"
| "dueDaysForTerms Cod = 0"
| "dueDaysForTerms Prepay = 0"
| "dueDaysForTerms Net_15 = 15"
| "dueDaysForTerms Net_30 = 30"
| "dueDaysForTerms Net_45 = 45"
| "dueDaysForTerms Net_60 = 60"

definition computeDueAt :: "instant \<Rightarrow> invoice_terms \<Rightarrow> instant" where
  "computeDueAt issuedAt terms = issuedAt + dueDaysForTerms terms * day_ms"

end
