(* ===== verification/Invoices.thy ===== *)
theory Invoices
  imports InvoiceLogic
begin

text \<open>
  billing/invoices.service.ts and invoice-number.ts: invoices with their lines, taxes, payments,
  credit memos, recurring schedules and line commissions, and every operation of the service.
  The tables extend those of the dispatch services, whose jobs, crew and drivers billing reads.
  A CHECK constraint of packages/db/sql/0013_billing.sql is a check on the write.
\<close>

section \<open>Tables\<close>

datatype invoice_type = Cash_receipt | Account_invoice | Motor_club_submission | Recurring_storage
  | Manual_invoice

record bill_address =
  ba_name :: "string option"
  ba_street :: "string option"
  ba_city :: "string option"
  ba_state :: "string option"
  ba_zip :: "string option"
  ba_country :: "string option"
  ba_email :: "string option"
  ba_phone :: "string option"

record invoice_row =
  inv_id :: uuid
  inv_tenantId :: uuid
  inv_invoiceNumber :: string
  inv_invoiceType :: invoice_type
  inv_status :: invoice_status
  inv_customerId :: "uuid option"
  inv_accountId :: "uuid option"
  inv_jobId :: "uuid option"
  inv_rateSheetId :: "uuid option"
  inv_issuedAt :: "instant option"
  inv_dueAt :: "instant option"
  inv_paidAt :: "instant option"
  inv_voidedAt :: "instant option"
  inv_subtotalCents :: cents
  inv_taxCents :: cents
  inv_totalCents :: cents
  inv_paidCents :: cents
  inv_balanceCents :: cents
  inv_currency :: string
  inv_terms :: invoice_terms
  inv_notes :: "string option"
  inv_internalNotes :: "string option"
  inv_billingAddress :: "bill_address option"
  inv_voidReason :: "string option"
  inv_paymentToken :: "string option"
  inv_createdBy :: "uuid option"
  inv_createdAt :: instant
  inv_updatedAt :: instant
  inv_deletedAt :: "instant option"

text \<open>Quantities and rates are \<open>numeric\<close> columns of scale 4: counts of a ten-thousandth.\<close>

record line_row =
  li_id :: uuid
  li_tenantId :: uuid
  li_invoiceId :: uuid
  li_lineNumber :: nat
  li_lineType :: line_type
  li_description :: string
  li_quantity :: int
  li_unit :: string
  li_unitPriceCents :: cents
  li_lineTotalCents :: cents
  li_taxable :: bool
  li_taxRatePct :: int
  li_rateRuleId :: "string option"

record tax_row =
  tx_id :: uuid
  tx_tenantId :: uuid
  tx_invoiceId :: uuid
  tx_taxJurisdiction :: string
  tx_taxName :: string
  tx_taxRatePct :: dbl
  tx_taxableAmountCents :: cents
  tx_taxAmountCents :: cents

datatype payment_method = Method_cash | Method_check | Method_credit_card | Method_ach
  | Method_account_credit | Method_motor_club_remittance | Method_write_off

datatype payment_status = Pay_pending | Pay_cleared | Pay_failed | Pay_refunded

record payment_row =
  pay_id :: uuid
  pay_tenantId :: uuid
  pay_invoiceId :: uuid
  pay_amountCents :: cents
  pay_paymentMethod :: payment_method
  pay_referenceNumber :: "string option"
  pay_receivedAt :: instant
  pay_recordedBy :: "uuid option"
  pay_status :: payment_status
  pay_notes :: "string option"
  pay_stripePaymentIntentId :: "string option"
  pay_stripeChargeId :: "string option"
  pay_stripeRefundId :: "string option"
  pay_platformMarginCents :: cents
  pay_stripeFeeCents :: cents
  pay_createdAt :: instant
  pay_updatedAt :: instant
  pay_deletedAt :: "instant option"

datatype memo_reason = Memo_refund | Memo_billing_error | Memo_service_failure | Memo_goodwill | Memo_other

datatype memo_application = Apply_to_invoice | Customer_credit

record memo_row =
  cm_id :: uuid
  cm_tenantId :: uuid
  cm_memoNumber :: string
  cm_originalInvoiceId :: uuid
  cm_amountCents :: cents
  cm_reasonCode :: memo_reason
  cm_reason :: string
  cm_appliedTo :: memo_application
  cm_issuedBy :: "uuid option"
  cm_issuedAt :: instant
  cm_deletedAt :: "instant option"

record invoice_sequence_row =
  iseq_tenantId :: uuid
  iseq_yearKey :: string
  iseq_lastSeq :: nat

record tax_rule_row =
  tr_country :: string
  tr_region :: "string option"
  tr_taxType :: tax_type
  tr_nameEn :: string
  tr_nameFr :: string
  tr_rateBps :: decimal
  tr_displayOrder :: int
  tr_effectiveAt :: instant
  tr_expiresAt :: "instant option"
  tr_tenantOverrideId :: "uuid option"

datatype stripe_account_status = Stripe_none | Stripe_pending | Stripe_active | Stripe_restricted

record tenant_row =
  ten_id :: uuid
  ten_country :: string
  ten_defaultLocale :: string
  ten_stripeAccountId :: "string option"
  ten_stripeAccountStatus :: stripe_account_status
  ten_stripeChargesEnabled :: bool
  ten_stripePayoutsEnabled :: bool
  ten_platformMarginBps :: int

record account_row =
  acct_id :: uuid
  acct_tenantId :: uuid
  acct_name :: string
  acct_billingTerms :: string
  acct_isMotorClub :: bool
  acct_billingAddress :: "bill_address option"
  acct_billingEmail :: "string option"
  acct_billingPhone :: "string option"
  acct_apContactName :: "string option"
  acct_apContactEmail :: "string option"
  acct_deletedAt :: "instant option"

text \<open>The columns of customers that billing reads and writes.\<close>

record bill_customer =
  bc_id :: uuid
  bc_tenantId :: uuid
  bc_name :: string
  bc_homeAddress :: "string option \<times> string option \<times> string option \<times> string option"
  bc_email :: "string option"
  bc_phone :: "string option"
  bc_stripeCustomerId :: "string option"
  bc_defaultPaymentMethodId :: "string option"
  bc_card :: "(string \<times> string \<times> int \<times> int) option"
  bc_autoChargeEnabled :: bool
  bc_deletedAt :: "instant option"

record schedule_row =
  rs_id :: uuid
  rs_tenantId :: uuid
  rs_customerId :: "uuid option"
  rs_accountId :: "uuid option"
  rs_jobId :: "uuid option"
  rs_description :: string
  rs_dailyRateCents :: cents
  rs_startedAt :: instant
  rs_endedAt :: "instant option"
  rs_lastInvoicedThrough :: "instant option"
  rs_nextInvoiceAt :: "instant option"
  rs_createdBy :: "uuid option"
  rs_deletedAt :: "instant option"

text \<open>The percentage is \<open>numeric(5, 2)\<close>: a count of a hundredth.\<close>

record commission_row =
  lcom_id :: uuid
  lcom_tenantId :: uuid
  lcom_invoiceId :: uuid
  lcom_invoiceLineItemId :: uuid
  lcom_driverId :: uuid
  lcom_commissionPct :: int
  lcom_commissionAmountCents :: cents

text \<open>The rate breakdown a job carries (jobs.rate_breakdown).\<close>

record breakdown =
  bd_rateSheetId :: "uuid option"
  bd_lineItems :: "rate_line list"

record billing_db = dispatch_db +
  invoices :: "invoice_row list"
  invoiceLineItems :: "line_row list"
  invoiceTaxes :: "tax_row list"
  payments :: "payment_row list"
  creditMemos :: "memo_row list"
  invoiceNumberSequences :: "invoice_sequence_row list"
  taxRules :: "tax_rule_row list"
  tenants :: "tenant_row list"
  accounts :: "account_row list"
  billCustomers :: "bill_customer list"
  recurringBillingSchedules :: "schedule_row list"
  invoiceLineCommissions :: "commission_row list"
  jobRateBreakdown :: "uuid \<Rightarrow> breakdown option"
  driverDefaultCommissionPct :: "uuid \<Rightarrow> decimal option"

definition live_invoice :: "uuid \<Rightarrow> uuid \<Rightarrow> invoice_row \<Rightarrow> bool" where
  "live_invoice t i r \<longleftrightarrow> inv_tenantId r = t \<and> inv_id r = i \<and> inv_deletedAt r = None"

definition own_invoice :: "uuid \<Rightarrow> uuid \<Rightarrow> invoice_row \<Rightarrow> bool" where
  "own_invoice t i r \<longleftrightarrow> inv_tenantId r = t \<and> inv_id r = i"

definition own_line :: "uuid \<Rightarrow> uuid \<Rightarrow> line_row \<Rightarrow> bool" where
  "own_line t i r \<longleftrightarrow> li_tenantId r = t \<and> li_invoiceId r = i"

definition cleared_payment :: "uuid \<Rightarrow> uuid \<Rightarrow> payment_row \<Rightarrow> bool" where
  "cleared_payment t i p \<longleftrightarrow> pay_tenantId p = t \<and> pay_invoiceId p = i \<and> pay_deletedAt p = None
     \<and> pay_status p = Pay_cleared"

definition live_account :: "uuid \<Rightarrow> uuid \<Rightarrow> account_row \<Rightarrow> bool" where
  "live_account t i a \<longleftrightarrow> acct_tenantId a = t \<and> acct_id a = i \<and> acct_deletedAt a = None"

definition live_customer :: "uuid \<Rightarrow> uuid \<Rightarrow> bill_customer \<Rightarrow> bool" where
  "live_customer t i c \<longleftrightarrow> bc_tenantId c = t \<and> bc_id c = i \<and> bc_deletedAt c = None"

definition invoice_not_found :: exn where
  "invoice_not_found = NotFound ''Invoice not found''"

definition invalid_state :: "string \<Rightarrow> exn" where
  "invalid_state m = BadRequest ''INVALID_STATE_TRANSITION'' m"

definition check_violation :: exn where
  "check_violation = Failure ''new row violates check constraint''"

definition unique_violation :: exn where
  "unique_violation = Failure ''duplicate key value violates unique constraint''"

section \<open>Numbers\<close>

text \<open>\<open>INSERT ... ON CONFLICT (tenant_id, year_key) DO UPDATE SET last_seq = last_seq + 1
  RETURNING last_seq\<close>.\<close>

definition bump_invoice_sequence :: "uuid \<Rightarrow> string \<Rightarrow> invoice_sequence_row list \<Rightarrow>
    nat \<times> invoice_sequence_row list" where
  "bump_invoice_sequence t key tbl =
     (let P = (\<lambda>r. iseq_tenantId r = t \<and> iseq_yearKey r = key) in
      case select_first P tbl of
        None \<Rightarrow> (1, insert_into \<lparr>iseq_tenantId = t, iseq_yearKey = key, iseq_lastSeq = 1\<rparr> tbl)
      | Some r \<Rightarrow> (iseq_lastSeq r + 1,
          update_where P (\<lambda>q. q\<lparr>iseq_lastSeq := iseq_lastSeq q + 1\<rparr>) tbl))"

definition utc_year :: "instant \<Rightarrow> int" where
  "utc_year t = fst (civil_of_day (t div day_ms))"

definition allocateInvoiceNumber :: "uuid \<Rightarrow> instant \<Rightarrow> 'a billing_db_scheme \<Rightarrow> string \<times> 'a billing_db_scheme" where
  "allocateInvoiceNumber t when db =
     (let yearKey = show_int (utc_year when);
          (seq, tbl) = bump_invoice_sequence t yearKey (invoiceNumberSequences db)
      in (''INV-'' @ yearKey @ ''-'' @ pad_nat 4 seq, db\<lparr>invoiceNumberSequences := tbl\<rparr>))"

definition allocateMemoNumber :: "uuid \<Rightarrow> instant \<Rightarrow> 'a billing_db_scheme \<Rightarrow> string \<times> 'a billing_db_scheme" where
  "allocateMemoNumber t when db =
     (let yearKey = ''CM-'' @ show_int (utc_year when);
          (seq, tbl) = bump_invoice_sequence t yearKey (invoiceNumberSequences db)
      in (yearKey @ ''-'' @ pad_nat 4 seq, db\<lparr>invoiceNumberSequences := tbl\<rparr>))"

text \<open>The unique index on (tenant_id, invoice_number) over live invoices.\<close>

definition invoice_number_taken :: "uuid \<Rightarrow> string \<Rightarrow> invoice_row list \<Rightarrow> bool" where
  "invoice_number_taken t n rs \<longleftrightarrow> (\<exists>r \<in> set rs. inv_tenantId r = t \<and> inv_invoiceNumber r = n
     \<and> inv_deletedAt r = None)"

definition hex_digit :: "int \<Rightarrow> char" where
  "hex_digit d = (if d < 10 then char_of (48 + d) else char_of (87 + d))"

fun hex_text :: "nat \<Rightarrow> int \<Rightarrow> string" where
  "hex_text 0 n = []"
| "hex_text (Suc w) n = hex_text w (n div 16) @ [hex_digit (n mod 16)]"

text \<open>The first 16 of the 32 hexadecimal digits of the id, a 128-bit number.\<close>

definition draft_number :: "uuid \<Rightarrow> string" where
  "draft_number i = ''INV-DRAFT-'' @ hex_text 16 (int i div 2 ^ 64)"

section \<open>Totals\<close>

definition trim :: "string \<Rightarrow> string" where
  "trim s = (let w = (\<lambda>c. of_char c = (32 :: nat) \<or> (9 \<le> (of_char c :: nat) \<and> (of_char c :: nat) \<le> 13))
     in rev (dropWhile w (rev (dropWhile w s))))"

definition to_upper :: "string \<Rightarrow> string" where
  "to_upper s = map (\<lambda>c. let n = (of_char c :: nat) in
     if 97 \<le> n \<and> n \<le> 122 then char_of (n - 32) else c) s"

text \<open>A decimal of four places without trailing zeros, as a number prints.\<close>

definition show_places4 :: "int \<Rightarrow> string" where
  "show_places4 n = show_int (n div 10000) @
     (let f = rev (dropWhile (\<lambda>c. c = CHR ''0'') (rev (pad_nat 4 (nat (n mod 10000)))))
      in if f = [] then [] else CHR ''.'' # f)"

text \<open>Adding a line to the bucket of its rate, in the insertion order of a Map.\<close>

fun add_to_bucket :: "int \<Rightarrow> cents \<Rightarrow> (int \<times> cents) list \<Rightarrow> (int \<times> cents) list" where
  "add_to_bucket k v [] = [(k, v)]"
| "add_to_bucket k v ((k', v') # bs) = (if k = k' then (k', v' + v) # bs else (k', v') # add_to_bucket k v bs)"

definition tax_buckets :: "line_row list \<Rightarrow> (int \<times> cents) list" where
  "tax_buckets lines = fold (\<lambda>l bs. if \<not> li_taxable l \<or> li_taxRatePct l = 0 then bs
     else add_to_bucket (li_taxRatePct l) (li_lineTotalCents l) bs) lines []"

text \<open>Jurisdiction, name, rate, taxable amount, tax.\<close>

type_synonym tax_out = "string \<times> string \<times> dbl \<times> cents \<times> cents"

definition us_taxes :: "line_row list \<Rightarrow> tax_out list" where
  "us_taxes lines = map (\<lambda>(rate, taxable). (''default'', ''Sales tax '' @ show_places4 rate @ ''%'',
     Number (rate, 4), taxable, bucket_tax taxable (Number (rate, 4)))) (tax_buckets lines)"

definition base_rules :: "string \<Rightarrow> tax_rule_row list \<Rightarrow> tax_rule_row list" where
  "base_rules region rules = select_where (\<lambda>r. tr_country r = ''CA'' \<and> tr_region r = Some region
     \<and> tr_tenantOverrideId r = None \<and> tr_expiresAt r = None) rules"

definition ca_taxes :: "string \<Rightarrow> string \<Rightarrow> tax_rule_row list \<Rightarrow> line_row list \<Rightarrow> tax_out list" where
  "ca_taxes region locale rules lines =
    (let base = sum_list (map (\<lambda>l. if li_taxable l then li_lineTotalCents l else 0) lines);
         computed = fst (computeTax base (map (\<lambda>r. \<lparr>jr_taxType = tr_taxType r, jr_nameEn = tr_nameEn r,
            jr_nameFr = tr_nameFr r, jr_rateBps = Number (tr_rateBps r),
            jr_displayOrder = tr_displayOrder r\<rparr>) (base_rules region rules)) locale)
     in map (\<lambda>l. (''CA-'' @ region, tl_name l, ddiv (tl_rateBps l) (num 100), tl_taxableCents l,
           tl_amountCents l)) computed)"

definition invoice_region :: "invoice_row \<Rightarrow> string option" where
  "invoice_region r = (case inv_billingAddress r of None \<Rightarrow> None | Some a \<Rightarrow>
     (case truthy (ba_state a) of None \<Rightarrow> None | Some s \<Rightarrow> truthy (Some (to_upper (trim s)))))"

definition invoice_taxes_of :: "invoice_row \<Rightarrow> line_row list \<Rightarrow> 'a billing_db_scheme \<Rightarrow> tax_out list" where
  "invoice_taxes_of iv lines db =
    (let tenant = select_first (\<lambda>t. ten_id t = inv_tenantId iv) (tenants db);
         country = (case tenant of None \<Rightarrow> ''US'' | Some t \<Rightarrow> ten_country t);
         locale = (case tenant of None \<Rightarrow> ''en-CA'' | Some t \<Rightarrow> ten_defaultLocale t)
     in case invoice_region iv of
          Some region \<Rightarrow> if country = ''CA'' then ca_taxes region locale (taxRules db) lines else us_taxes lines
        | None \<Rightarrow> us_taxes lines)"

definition invoice_lines :: "uuid \<Rightarrow> uuid \<Rightarrow> 'a billing_db_scheme \<Rightarrow> line_row list" where
  "invoice_lines t i db = select_where (own_line t i) (invoiceLineItems db)"

definition subtotal_of :: "line_row list \<Rightarrow> cents" where
  "subtotal_of lines = sum_list (map li_lineTotalCents lines)"

definition tax_total :: "tax_out list \<Rightarrow> cents" where
  "tax_total taxes = sum_list (map (\<lambda>(_, _, _, _, tax). tax) taxes)"

definition paid_of :: "uuid \<Rightarrow> uuid \<Rightarrow> payment_row list \<Rightarrow> cents" where
  "paid_of t i ps = sum_list (map pay_amountCents (select_where (cleared_payment t i) ps))"

definition is_overdue :: "instant \<Rightarrow> invoice_row \<Rightarrow> cents \<Rightarrow> bool" where
  "is_overdue now iv balance = (case inv_dueAt iv of None \<Rightarrow> False | Some d \<Rightarrow> d < now \<and> 0 < balance)"

definition totals_patch :: "instant \<Rightarrow> cents \<Rightarrow> cents \<Rightarrow> cents \<Rightarrow> invoice_status \<Rightarrow> invoice_row \<Rightarrow> invoice_row" where
  "totals_patch now subtotal tax paid status r = r\<lparr>inv_subtotalCents := subtotal, inv_taxCents := tax,
     inv_totalCents := subtotal + tax, inv_paidCents := paid, inv_balanceCents := subtotal + tax - paid,
     inv_status := status,
     inv_paidAt := (if status = Inv_paid \<and> inv_paidAt r = None then Some now else inv_paidAt r),
     inv_updatedAt := now\<rparr>"

definition recomputeTotals :: "uuid \<Rightarrow> instant \<Rightarrow> (nat \<Rightarrow> uuid) \<Rightarrow> uuid \<Rightarrow> 'a billing_db_scheme \<Rightarrow>
    exn + invoice_row \<times> 'a billing_db_scheme" where
  "recomputeTotals t now ids i db =
    require (select_first (own_invoice t i) (invoices db)) invoice_not_found (\<lambda>iv.
    (let lines = invoice_lines t i db;
         taxes = invoice_taxes_of iv lines db;
         subtotal = subtotal_of lines;
         totalTax = tax_total taxes;
         total = subtotal + totalTax;
         paid = paid_of t i (payments db);
         status = statusAfterPayment (inv_status iv) total paid (is_overdue now iv (total - paid));
         taxRows = map (\<lambda>(k, (jur, name, rate, taxable, tax)). \<lparr>tx_id = ids k, tx_tenantId = t,
             tx_invoiceId = i, tx_taxJurisdiction = jur, tx_taxName = name, tx_taxRatePct = rate,
             tx_taxableAmountCents = taxable, tx_taxAmountCents = tax\<rparr>) (enumerate 0 taxes);
         (updated, tbl) = update_returning (own_invoice t i)
             (totals_patch now subtotal totalTax paid status) (invoices db)
     in ensure (list_all (\<lambda>(_, _, _, taxable, tax). 0 \<le> taxable \<and> 0 \<le> tax) taxes) check_violation (
        ensure (0 \<le> subtotal \<and> 0 \<le> totalTax) check_violation (
        require updated invoice_not_found (\<lambda>row.
          Inr (row, db\<lparr>invoiceTaxes := delete_where (\<lambda>x. tx_tenantId x = t \<and> tx_invoiceId x = i)
              (invoiceTaxes db) @ taxRows, invoices := tbl\<rparr>))))))"

end
