(* ===== verification/InvoiceOps.thy ===== *)
theory InvoiceOps
  imports Invoices
begin

text \<open>
  The handlers of billing/invoices.service.ts over the tables of Invoices.  The detail a handler
  returns is the invoice row.  The accounting notifications are fire-and-forget calls to another
  service and leave the tables alone.
\<close>

section \<open>Bill-to block, terms and type\<close>

definition billingAddressFromCustomer :: "bill_customer \<Rightarrow> bill_address" where
  "billingAddressFromCustomer c = (case bc_homeAddress c of (street, city, state, zipCode) \<Rightarrow>
     \<lparr>ba_name = Some (bc_name c), ba_street = street, ba_city = city, ba_state = state, ba_zip = zipCode,
      ba_country = Some ''US'', ba_email = bc_email c, ba_phone = bc_phone c\<rparr>)"

definition billingAddressFromAccount :: "account_row \<Rightarrow> bill_address" where
  "billingAddressFromAccount a =
     (let field = (\<lambda>f. case acct_billingAddress a of None \<Rightarrow> None | Some b \<Rightarrow> f b)
      in \<lparr>ba_name = Some (case truthy (acct_apContactName a) of
             Some n \<Rightarrow> acct_name a @ '' ('' @ n @ '')'' | None \<Rightarrow> acct_name a),
          ba_street = field ba_street, ba_city = field ba_city, ba_state = field ba_state,
          ba_zip = field ba_zip, ba_country = Some ''US'',
          ba_email = (case acct_apContactEmail a of Some e \<Rightarrow> Some e | None \<Rightarrow> acct_billingEmail a),
          ba_phone = acct_billingPhone a\<rparr>)"

definition resolveBillingAddress :: "uuid \<Rightarrow> bill_address option \<Rightarrow> uuid option \<Rightarrow> uuid option \<Rightarrow>
    'a billing_db_scheme \<Rightarrow> bill_address option" where
  "resolveBillingAddress t explicit customerId accountId db = (case explicit of Some a \<Rightarrow> Some a
   | None \<Rightarrow>
      (let acct = (case accountId of None \<Rightarrow> None | Some i \<Rightarrow> select_first (live_account t i) (accounts db));
           cust = (case customerId of None \<Rightarrow> None | Some i \<Rightarrow> select_first (live_customer t i) (billCustomers db))
       in case acct of Some a \<Rightarrow> Some (billingAddressFromAccount a)
          | None \<Rightarrow> map_option billingAddressFromCustomer cust))"

definition resolveTerms :: "uuid \<Rightarrow> invoice_terms option \<Rightarrow> uuid option \<Rightarrow> 'a billing_db_scheme \<Rightarrow>
    invoice_terms" where
  "resolveTerms t explicit accountId db = (case explicit of Some e \<Rightarrow> e
   | None \<Rightarrow> (case accountId of None \<Rightarrow> Due_on_receipt
      | Some i \<Rightarrow> (case select_first (live_account t i) (accounts db) of None \<Rightarrow> Due_on_receipt
         | Some a \<Rightarrow> (if acct_billingTerms a = [] then Due_on_receipt
             else termsFromAccountBilling (acct_billingTerms a)))))"

definition invoiceTypeFromJob :: "uuid \<Rightarrow> job_row \<Rightarrow> 'a billing_db_scheme \<Rightarrow> invoice_type" where
  "invoiceTypeFromJob t job db = (case job_accountId job of None \<Rightarrow> Cash_receipt
   | Some i \<Rightarrow> (case select_first (live_account t i) (accounts db) of None \<Rightarrow> Account_invoice
      | Some a \<Rightarrow> (if acct_isMotorClub a then Motor_club_submission else Account_invoice)))"

section \<open>Drafts and lines\<close>

record draft_args =
  da_invoiceType :: invoice_type
  da_customerId :: "uuid option"
  da_accountId :: "uuid option"
  da_jobId :: "uuid option"
  da_rateSheetId :: "uuid option"
  da_terms :: invoice_terms
  da_notes :: "string option"
  da_internalNotes :: "string option"
  da_billingAddress :: "bill_address option"

definition draft_row :: "ctx \<Rightarrow> instant \<Rightarrow> uuid \<Rightarrow> draft_args \<Rightarrow> invoice_row" where
  "draft_row ctx now i a = \<lparr>inv_id = i, inv_tenantId = ctx_tenantId ctx,
     inv_invoiceNumber = draft_number i, inv_invoiceType = da_invoiceType a, inv_status = Inv_draft,
     inv_customerId = da_customerId a, inv_accountId = da_accountId a, inv_jobId = da_jobId a,
     inv_rateSheetId = da_rateSheetId a, inv_issuedAt = None, inv_dueAt = None, inv_paidAt = None,
     inv_voidedAt = None, inv_subtotalCents = 0, inv_taxCents = 0, inv_totalCents = 0,
     inv_paidCents = 0, inv_balanceCents = 0, inv_currency = ''USD'', inv_terms = da_terms a,
     inv_notes = da_notes a, inv_internalNotes = da_internalNotes a,
     inv_billingAddress = da_billingAddress a, inv_voidReason = None, inv_paymentToken = None,
     inv_createdBy = Some (ctx_userId ctx), inv_createdAt = now, inv_updatedAt = now,
     inv_deletedAt = None\<rparr>"

definition insertDraftInvoice :: "ctx \<Rightarrow> instant \<Rightarrow> uuid \<Rightarrow> draft_args \<Rightarrow> 'a billing_db_scheme \<Rightarrow>
    exn + 'a billing_db_scheme" where
  "insertDraftInvoice ctx now i a db =
    ensure (\<not> invoice_number_taken (ctx_tenantId ctx) (draft_number i) (invoices db)) unique_violation
      (Inr (db\<lparr>invoices := insert_into (draft_row ctx now i a) (invoices db)\<rparr>))"

text \<open>One inserted line: column types, the CHECKs and the unique index on (invoice_id, line_number).\<close>

definition insert_line :: "uuid \<Rightarrow> uuid \<Rightarrow> uuid \<Rightarrow> draft_line \<Rightarrow> 'a billing_db_scheme \<Rightarrow>
    exn + 'a billing_db_scheme" where
  "insert_line t i newId d db =
    attempt (to_numeric 14 4 (dl_quantity d)) (\<lambda>q.
    attempt (to_numeric 6 4 (dl_taxRatePct d)) (\<lambda>rate.
    ensure (0 \<le> q) check_violation (
    ensure (\<not> (\<exists>l \<in> set (invoiceLineItems db). li_invoiceId l = i \<and> li_lineNumber l = dl_lineNumber d))
      unique_violation (
    Inr (db\<lparr>invoiceLineItems := insert_into \<lparr>li_id = newId, li_tenantId = t, li_invoiceId = i,
       li_lineNumber = dl_lineNumber d, li_lineType = dl_lineType d,
       li_description = dl_description d, li_quantity = q, li_unit = dl_unit d,
       li_unitPriceCents = dl_unitPriceCents d, li_lineTotalCents = dl_lineTotalCents d,
       li_taxable = dl_taxable d, li_taxRatePct = rate, li_rateRuleId = dl_rateRuleId d\<rparr>
       (invoiceLineItems db)\<rparr>)))))"

fun insert_lines :: "uuid \<Rightarrow> uuid \<Rightarrow> (nat \<Rightarrow> uuid) \<Rightarrow> draft_line list \<Rightarrow> 'a billing_db_scheme \<Rightarrow>
    exn + 'a billing_db_scheme" where
  "insert_lines t i ids [] db = Inr db"
| "insert_lines t i ids (d # ds) db = attempt (insert_line t i (ids (length ds)) d db)
     (\<lambda>db1. insert_lines t i ids ds db1)"

record line_input =
  lin_lineType :: line_type
  lin_description :: string
  lin_quantity :: decimal
  lin_unit :: string
  lin_unitPriceCents :: cents
  lin_taxable :: bool
  lin_taxRatePct :: decimal
  lin_rateRuleId :: "string option"

definition line_of_input :: "nat \<Rightarrow> line_input \<Rightarrow> draft_line" where
  "line_of_input n p = \<lparr>dl_lineNumber = n, dl_lineType = lin_lineType p,
     dl_description = lin_description p, dl_quantity = lin_quantity p, dl_unit = lin_unit p,
     dl_unitPriceCents = lin_unitPriceCents p,
     dl_lineTotalCents = line_total (lin_quantity p) (lin_unitPriceCents p),
     dl_taxable = lin_taxable p, dl_taxRatePct = lin_taxRatePct p, dl_rateRuleId = lin_rateRuleId p\<rparr>"

record create_invoice_input =
  cinv_invoiceType :: invoice_type
  cinv_customerId :: "uuid option"
  cinv_accountId :: "uuid option"
  cinv_jobId :: "uuid option"
  cinv_terms :: "invoice_terms option"
  cinv_notes :: "string option"
  cinv_internalNotes :: "string option"
  cinv_billingAddress :: "bill_address option"
  cinv_lineItems :: "line_input list"

text \<open>Ids of lines and tax rows come from \<open>ids\<close>.\<close>

definition createManual :: "ctx \<Rightarrow> instant \<Rightarrow> uuid \<Rightarrow> (nat \<Rightarrow> uuid) \<Rightarrow> (nat \<Rightarrow> uuid) \<Rightarrow>
    create_invoice_input \<Rightarrow> 'a billing_db_scheme \<Rightarrow> exn + invoice_row \<times> 'a billing_db_scheme" where
  "createManual ctx now newId ids txIds inp db =
    (let t = ctx_tenantId ctx;
         args = \<lparr>da_invoiceType = cinv_invoiceType inp, da_customerId = cinv_customerId inp,
           da_accountId = cinv_accountId inp, da_jobId = cinv_jobId inp, da_rateSheetId = None,
           da_terms = resolveTerms t (cinv_terms inp) (cinv_accountId inp) db,
           da_notes = cinv_notes inp, da_internalNotes = cinv_internalNotes inp,
           da_billingAddress = resolveBillingAddress t (cinv_billingAddress inp)
             (cinv_customerId inp) (cinv_accountId inp) db\<rparr>
     in attempt (insertDraftInvoice ctx now newId args db) (\<lambda>db1.
        attempt (insert_lines t newId ids
          (map (\<lambda>(k, p). line_of_input (k + 1) p) (enumerate 0 (cinv_lineItems inp))) db1) (\<lambda>db2.
        recomputeTotals t now txIds newId db2)))"

section \<open>From a completed job\<close>

text \<open>The share of the first and of every other driver among \<open>n\<close> drivers, in hundredths of a percent.\<close>

definition even_share :: "nat \<Rightarrow> dbl" where
  "even_share n = ddiv (num (dfloor (dmul (ddiv (num 100) (num (int n))) (num 100)))) (num 100)"

definition share_remainder :: "nat \<Rightarrow> dbl" where
  "share_remainder n = ddiv (num (Math_round (dmul (dsub (num 100)
     (dmul (even_share n) (num (int n)))) (num 100)))) (num 100)"

definition commission_shares :: "nat \<Rightarrow> int list" where
  "commission_shares n = (if n = 0 then []
     else toFixed 2 (dadd (even_share n) (share_remainder n)) # replicate (n - 1) (toFixed 2 (even_share n)))"

definition single_share :: "decimal option \<Rightarrow> int" where
  "single_share d = toFixed 2 (case d of None \<Rightarrow> num 100 | Some p \<Rightarrow> Number p)"

definition line_shares :: "driver_row list \<Rightarrow> (uuid \<Rightarrow> decimal option) \<Rightarrow> int list" where
  "line_shares ds pct = (case ds of [d] \<Rightarrow> [single_share (pct (driver_id d))]
     | _ \<Rightarrow> commission_shares (length ds))"

definition line_commissions :: "uuid \<Rightarrow> uuid \<Rightarrow> (nat \<Rightarrow> uuid) \<Rightarrow> nat \<Rightarrow> line_row \<Rightarrow> driver_row list \<Rightarrow>
    int list \<Rightarrow> commission_row list" where
  "line_commissions t i ids base line ds shares = map (\<lambda>(k, d, pct). \<lparr>lcom_id = ids (base + k),
     lcom_tenantId = t, lcom_invoiceId = i, lcom_invoiceLineItemId = li_id line,
     lcom_driverId = driver_id d, lcom_commissionPct = pct, lcom_commissionAmountCents = 0\<rparr>)
     (enumerate 0 (zip ds shares))"

definition seedDraftCommissions :: "ctx \<Rightarrow> (nat \<Rightarrow> uuid) \<Rightarrow> uuid \<Rightarrow> uuid \<Rightarrow> uuid \<Rightarrow> 'a billing_db_scheme \<Rightarrow>
    exn + 'a billing_db_scheme" where
  "seedDraftCommissions ctx ids crewId i jobId db =
    (let t = ctx_tenantId ctx in
     case select_first (own_job t jobId) (jobs db) of None \<Rightarrow> Inr db
     | Some job \<Rightarrow>
       (let crew = select_where (\<lambda>c. crew_tenantId c = t \<and> crew_jobId c = jobId) (jobDriverAssignments db);
            driverIds = (case job_assignedDriverId job of None \<Rightarrow> [] | Some d \<Rightarrow> [d]) @ map crew_driverId crew;
            db1 = (case job_assignedDriverId job of None \<Rightarrow> db
              | Some d \<Rightarrow> if d \<in> crew_driverId ` set crew then db
                  else db\<lparr>jobDriverAssignments := insert_into \<lparr>crew_id = crewId, crew_tenantId = t,
                    crew_jobId = jobId, crew_driverId = d, crew_role = ''primary''\<rparr>
                    (jobDriverAssignments db)\<rparr>);
            driverList = select_where (\<lambda>d. driver_tenantId d = t \<and> driver_id d \<in> set driverIds) (drivers db);
            taken = lcom_invoiceLineItemId ` {c \<in> set (invoiceLineCommissions db). lcom_tenantId c = t
              \<and> lcom_invoiceId c = i};
            lines = filter (\<lambda>l. li_id l \<notin> taken) (invoice_lines t i db);
            shares = line_shares driverList (driverDefaultCommissionPct db)
        in if driverIds = [] then Inr db
           else if driverList = [] then Inr db1
           else ensure (lines = [] \<or> list_all (\<lambda>s. 0 \<le> s \<and> s \<le> 10000) shares) check_violation
             (Inr (db1\<lparr>invoiceLineCommissions := invoiceLineCommissions db @ concat (map (\<lambda>(k, l).
                line_commissions t i ids (k * length driverList) l driverList shares) (enumerate 0 lines))\<rparr>))))"

definition em_dash :: string where
  "em_dash = [CHR '' '', CHR 0xE2, CHR 0x80, CHR 0x94, CHR '' '']"

definition right_arrow :: string where
  "right_arrow = [CHR '' '', CHR 0xE2, CHR 0x86, CHR 0x92, CHR '' '']"

definition job_invoice_notes :: "job_row \<Rightarrow> string" where
  "job_invoice_notes job = serviceTypeLabel (job_serviceType job) @ em_dash @ job_pickupAddress job
     @ (if job_serviceType job = Tow
        then (case truthy (job_dropoffAddress job) of None \<Rightarrow> [] | Some d \<Rightarrow> right_arrow @ d) else [])"

definition job_draft_lines :: "job_row \<Rightarrow> breakdown option \<Rightarrow> draft_line list" where
  "job_draft_lines job bd =
    (let fallback = [\<lparr>dl_lineNumber = 1, dl_lineType = Line_service,
           dl_description = serviceTypeLabel (job_serviceType job), dl_quantity = (1, 0),
           dl_unit = ''each'', dl_unitPriceCents = job_rateQuotedCents job,
           dl_lineTotalCents = job_rateQuotedCents job, dl_taxable = False, dl_taxRatePct = (0, 0),
           dl_rateRuleId = None\<rparr>]
     in case bd of None \<Rightarrow> fallback
        | Some b \<Rightarrow> if bd_lineItems b = [] then fallback
            else rateQuoteToInvoiceLineItems (bd_lineItems b) False (0, 0))"

text \<open>The flag says whether an invoice was created.\<close>

definition generateFromJob :: "ctx \<Rightarrow> instant \<Rightarrow> uuid \<Rightarrow> (nat \<Rightarrow> uuid) \<Rightarrow> (nat \<Rightarrow> uuid) \<Rightarrow> (nat \<Rightarrow> uuid) \<Rightarrow> uuid \<Rightarrow>
    uuid \<Rightarrow> 'a billing_db_scheme \<Rightarrow> exn + (invoice_row \<times> bool) \<times> 'a billing_db_scheme" where
  "generateFromJob ctx now newId ids txIds comIds crewId jobId db =
    (let t = ctx_tenantId ctx in
     require (select_first (live_job t jobId) (jobs db)) (NotFound ''Job not found'') (\<lambda>job.
     (case select_first (\<lambda>r. inv_tenantId r = t \<and> inv_jobId r = Some jobId \<and> inv_deletedAt r = None
          \<and> inv_status r \<noteq> Inv_void) (invoices db) of
        Some existing \<Rightarrow> Inr ((existing, False), db)
      | None \<Rightarrow>
         (let args = \<lparr>da_invoiceType = invoiceTypeFromJob t job db, da_customerId = job_customerId job,
                da_accountId = job_accountId job, da_jobId = Some jobId,
                da_rateSheetId = (case jobRateBreakdown db jobId of None \<Rightarrow> None | Some b \<Rightarrow> bd_rateSheetId b),
                da_terms = resolveTerms t None (job_accountId job) db,
                da_notes = Some (job_invoice_notes job),
                da_internalNotes = Some (''Auto-generated from job '' @ job_jobNumber job),
                da_billingAddress = resolveBillingAddress t None (job_customerId job) (job_accountId job) db\<rparr>
          in attempt (insertDraftInvoice ctx now newId args db) (\<lambda>db1.
             attempt (insert_lines t newId ids (job_draft_lines job (jobRateBreakdown db jobId)) db1) (\<lambda>db2.
             attempt (recomputeTotals t now txIds newId db2) (\<lambda>(row, db3).
             attempt (seedDraftCommissions ctx comIds crewId newId jobId db3) (\<lambda>db4.
             Inr ((row, True), db4)))))))))"

section \<open>Editing a draft\<close>

definition requireDraft :: "uuid \<Rightarrow> uuid \<Rightarrow> 'a billing_db_scheme \<Rightarrow> exn + invoice_row" where
  "requireDraft t i db = require (select_first (live_invoice t i) (invoices db)) invoice_not_found
     (\<lambda>r. ensure (inv_status r = Inv_draft) (invalid_state ''Only draft invoices can be edited'') (Inr r))"

text \<open>The row a handler returns at its end (\<open>assembleWithDetails\<close>).\<close>

definition assembled :: "uuid \<Rightarrow> uuid \<Rightarrow> 'a billing_db_scheme \<Rightarrow> exn + invoice_row \<times> 'a billing_db_scheme" where
  "assembled t i db = require (select_first (live_invoice t i) (invoices db)) invoice_not_found
     (\<lambda>r. Inr (r, db))"

definition recompute_and_return :: "uuid \<Rightarrow> instant \<Rightarrow> (nat \<Rightarrow> uuid) \<Rightarrow> uuid \<Rightarrow> 'a billing_db_scheme \<Rightarrow>
    exn + invoice_row \<times> 'a billing_db_scheme" where
  "recompute_and_return t now ids i db =
     attempt (recomputeTotals t now ids i db) (\<lambda>(_, db1). assembled t i db1)"

record update_invoice_input =
  uinv_customerId :: "uuid option option"
  uinv_accountId :: "uuid option option"
  uinv_terms :: "invoice_terms option"
  uinv_notes :: "string option option"
  uinv_internalNotes :: "string option option"
  uinv_billingAddress :: "bill_address option option"

definition edited_invoice :: "instant \<Rightarrow> update_invoice_input \<Rightarrow> invoice_row \<Rightarrow> invoice_row" where
  "edited_invoice now p r = r\<lparr>inv_customerId := patched (uinv_customerId p) (inv_customerId r),
     inv_accountId := patched (uinv_accountId p) (inv_accountId r),
     inv_terms := patched (uinv_terms p) (inv_terms r), inv_notes := patched (uinv_notes p) (inv_notes r),
     inv_internalNotes := patched (uinv_internalNotes p) (inv_internalNotes r),
     inv_billingAddress := patched (uinv_billingAddress p) (inv_billingAddress r),
     inv_updatedAt := now\<rparr>"

definition updateInvoice :: "ctx \<Rightarrow> instant \<Rightarrow> uuid \<Rightarrow> update_invoice_input \<Rightarrow> 'a billing_db_scheme \<Rightarrow>
    exn + invoice_row \<times> 'a billing_db_scheme" where
  "updateInvoice ctx now i p db =
    (let t = ctx_tenantId ctx in
     attempt (requireDraft t i db) (\<lambda>_.
     assembled t i (db\<lparr>invoices := update_where (own_invoice t i) (edited_invoice now p) (invoices db)\<rparr>)))"

definition last_line_number :: "uuid \<Rightarrow> uuid \<Rightarrow> 'a billing_db_scheme \<Rightarrow> nat" where
  "last_line_number t i db = fold max (map li_lineNumber (invoice_lines t i db)) 0"

definition addLineItem :: "ctx \<Rightarrow> instant \<Rightarrow> uuid \<Rightarrow> (nat \<Rightarrow> uuid) \<Rightarrow> uuid \<Rightarrow> line_input \<Rightarrow> 'a billing_db_scheme \<Rightarrow>
    exn + invoice_row \<times> 'a billing_db_scheme" where
  "addLineItem ctx now newId txIds i p db =
    (let t = ctx_tenantId ctx in
     attempt (requireDraft t i db) (\<lambda>_.
     attempt (insert_line t i newId (line_of_input (last_line_number t i db + 1) p) db) (\<lambda>db1.
     recompute_and_return t now txIds i db1)))"

record update_line_input =
  ul_lineType :: "line_type option"
  ul_description :: "string option"
  ul_quantity :: "decimal option"
  ul_unit :: "string option"
  ul_unitPriceCents :: "cents option"
  ul_taxable :: "bool option"
  ul_taxRatePct :: "decimal option"
  ul_rateRuleId :: "string option option"

definition edited_line :: "update_line_input \<Rightarrow> int \<Rightarrow> int \<Rightarrow> line_row \<Rightarrow> line_row" where
  "edited_line p q rate l = l\<lparr>li_lineType := patched (ul_lineType p) (li_lineType l),
     li_description := patched (ul_description p) (li_description l), li_quantity := q,
     li_unit := patched (ul_unit p) (li_unit l),
     li_unitPriceCents := patched (ul_unitPriceCents p) (li_unitPriceCents l),
     li_taxable := patched (ul_taxable p) (li_taxable l), li_taxRatePct := rate,
     li_rateRuleId := patched (ul_rateRuleId p) (li_rateRuleId l),
     li_lineTotalCents := line_total (patched (ul_quantity p) (li_quantity l, 4))
       (patched (ul_unitPriceCents p) (li_unitPriceCents l))\<rparr>"

definition updateLineItem :: "ctx \<Rightarrow> instant \<Rightarrow> (nat \<Rightarrow> uuid) \<Rightarrow> uuid \<Rightarrow> uuid \<Rightarrow> update_line_input \<Rightarrow>
    'a billing_db_scheme \<Rightarrow> exn + invoice_row \<times> 'a billing_db_scheme" where
  "updateLineItem ctx now txIds i lineId p db =
    (let t = ctx_tenantId ctx in
     attempt (requireDraft t i db) (\<lambda>_.
     require (select_first (\<lambda>l. own_line t i l \<and> li_id l = lineId) (invoiceLineItems db))
       (NotFound ''Line item not found'') (\<lambda>l.
     attempt (case ul_quantity p of None \<Rightarrow> Inr (li_quantity l) | Some d \<Rightarrow> to_numeric 14 4 d) (\<lambda>q.
     attempt (case ul_taxRatePct p of None \<Rightarrow> Inr (li_taxRatePct l) | Some d \<Rightarrow> to_numeric 6 4 d) (\<lambda>rate.
     ensure (0 \<le> q) check_violation (
     recompute_and_return t now txIds i (db\<lparr>invoiceLineItems :=
       update_where (\<lambda>x. li_tenantId x = t \<and> li_id x = lineId) (edited_line p q rate)
         (invoiceLineItems db)\<rparr>)))))))"

definition deleteLineItem :: "ctx \<Rightarrow> instant \<Rightarrow> (nat \<Rightarrow> uuid) \<Rightarrow> uuid \<Rightarrow> uuid \<Rightarrow> 'a billing_db_scheme \<Rightarrow>
    exn + invoice_row \<times> 'a billing_db_scheme" where
  "deleteLineItem ctx now txIds i lineId db =
    (let t = ctx_tenantId ctx in
     attempt (requireDraft t i db) (\<lambda>_.
     recompute_and_return t now txIds i (db\<lparr>invoiceLineItems :=
       delete_where (\<lambda>l. own_line t i l \<and> li_id l = lineId) (invoiceLineItems db)\<rparr>)))"

section \<open>Issue, send, void\<close>

definition issued_row :: "instant \<Rightarrow> string \<Rightarrow> invoice_row \<Rightarrow> invoice_row" where
  "issued_row now number r = r\<lparr>inv_invoiceNumber := number,
     inv_status := (if inv_invoiceType r = Cash_receipt then Inv_sent else Inv_issued),
     inv_issuedAt := Some now, inv_dueAt := Some (computeDueAt now (inv_terms r)), inv_updatedAt := now\<rparr>"

definition issue :: "ctx \<Rightarrow> instant \<Rightarrow> uuid \<Rightarrow> 'a billing_db_scheme \<Rightarrow> exn + invoice_row \<times> 'a billing_db_scheme" where
  "issue ctx now i db =
    (let t = ctx_tenantId ctx in
     require (select_first (live_invoice t i) (invoices db)) invoice_not_found (\<lambda>r.
     if inv_status r \<noteq> Inv_draft then Inr (r, db)
     else attempt (invoice_assertCanTransition (inv_status r) Inv_issued) (\<lambda>_.
       (let (number, db1) = allocateInvoiceNumber t now db
        in ensure (\<not> invoice_number_taken t number (invoices db)) unique_violation (
           assembled t i (db1\<lparr>invoices := update_where (own_invoice t i) (issued_row now number)
             (invoices db1)\<rparr>))))))"

definition markSent :: "ctx \<Rightarrow> instant \<Rightarrow> uuid \<Rightarrow> 'a billing_db_scheme \<Rightarrow> exn + invoice_row \<times> 'a billing_db_scheme" where
  "markSent ctx now i db =
    (let t = ctx_tenantId ctx in
     require (select_first (live_invoice t i) (invoices db)) invoice_not_found (\<lambda>r.
     assembled t i (if inv_status r = Inv_issued
       then db\<lparr>invoices := update_where (own_invoice t i)
         (\<lambda>x. x\<lparr>inv_status := Inv_sent, inv_updatedAt := now\<rparr>) (invoices db)\<rparr> else db)))"

definition owner_or_admin :: "role option \<Rightarrow> bool" where
  "owner_or_admin r \<longleftrightarrow> r = Some Owner \<or> r = Some Admin"

definition voided_row :: "instant \<Rightarrow> string \<Rightarrow> invoice_row \<Rightarrow> invoice_row" where
  "voided_row now reason r = r\<lparr>inv_status := Inv_void, inv_voidedAt := Some now,
     inv_voidReason := Some reason, inv_updatedAt := now\<rparr>"

definition voidInvoice :: "ctx \<Rightarrow> instant \<Rightarrow> uuid \<Rightarrow> string \<Rightarrow> 'a billing_db_scheme \<Rightarrow>
    exn + invoice_row \<times> 'a billing_db_scheme" where
  "voidInvoice ctx now i reason db =
    (let t = ctx_tenantId ctx in
     ensure (owner_or_admin (ctx_role ctx)) (Forbidden ''FORBIDDEN'' ''Only owner/admin can void invoices'') (
     require (select_first (live_invoice t i) (invoices db)) invoice_not_found (\<lambda>r.
     attempt (invoice_assertCanTransition (inv_status r) Inv_void) (\<lambda>_.
     assembled t i (db\<lparr>invoices := update_where (own_invoice t i) (voided_row now reason) (invoices db)\<rparr>)))))"

section \<open>Payments and credit memos\<close>

record payment_input =
  pi_invoiceId :: uuid
  pi_amountCents :: cents
  pi_paymentMethod :: payment_method
  pi_referenceNumber :: "string option"
  pi_receivedAt :: "instant option"
  pi_notes :: "string option"
  pi_status :: "payment_status option"

definition manual_payment :: "ctx \<Rightarrow> instant \<Rightarrow> uuid \<Rightarrow> uuid \<Rightarrow> cents \<Rightarrow> payment_method \<Rightarrow> string option \<Rightarrow>
    instant \<Rightarrow> payment_status \<Rightarrow> string option \<Rightarrow> payment_row" where
  "manual_payment ctx now newId i amount meth ref received status notes = \<lparr>pay_id = newId,
     pay_tenantId = ctx_tenantId ctx, pay_invoiceId = i, pay_amountCents = amount,
     pay_paymentMethod = meth, pay_referenceNumber = ref, pay_receivedAt = received,
     pay_recordedBy = Some (ctx_userId ctx), pay_status = status, pay_notes = notes,
     pay_stripePaymentIntentId = None, pay_stripeChargeId = None, pay_stripeRefundId = None,
     pay_platformMarginCents = 0, pay_stripeFeeCents = 0, pay_createdAt = now, pay_updatedAt = now,
     pay_deletedAt = None\<rparr>"

definition recordPayment :: "ctx \<Rightarrow> instant \<Rightarrow> uuid \<Rightarrow> (nat \<Rightarrow> uuid) \<Rightarrow> payment_input \<Rightarrow> 'a billing_db_scheme \<Rightarrow>
    exn + (payment_row \<times> invoice_row) \<times> 'a billing_db_scheme" where
  "recordPayment ctx now newId txIds p db =
    (let t = ctx_tenantId ctx; i = pi_invoiceId p in
     require (select_first (live_invoice t i) (invoices db)) invoice_not_found (\<lambda>r.
     ensure (inv_status r \<noteq> Inv_draft)
       (invalid_state (''Cannot record payment against a draft invoice'' @ em_dash @ ''issue it first'')) (
     ensure (inv_status r \<noteq> Inv_void) (invalid_state ''Invoice is void'') (
     (let pay = manual_payment ctx now newId i (pi_amountCents p) (pi_paymentMethod p)
            (pi_referenceNumber p) (case pi_receivedAt p of Some d \<Rightarrow> d | None \<Rightarrow> now)
            (case pi_status p of Some s \<Rightarrow> s | None \<Rightarrow> Pay_cleared) (pi_notes p)
      in ensure (pi_amountCents p \<noteq> 0) check_violation (
         attempt (recompute_and_return t now txIds i (db\<lparr>payments := insert_into pay (payments db)\<rparr>))
           (\<lambda>(row, db1). Inr ((pay, row), db1))))))))"

definition voidPayment :: "ctx \<Rightarrow> instant \<Rightarrow> (nat \<Rightarrow> uuid) \<Rightarrow> uuid \<Rightarrow> 'a billing_db_scheme \<Rightarrow>
    exn + invoice_row \<times> 'a billing_db_scheme" where
  "voidPayment ctx now txIds payId db =
    (let t = ctx_tenantId ctx in
     ensure (owner_or_admin (ctx_role ctx)) (Forbidden ''FORBIDDEN'' ''Only owner/admin can void payments'') (
     require (select_first (\<lambda>p. pay_tenantId p = t \<and> pay_id p = payId \<and> pay_deletedAt p = None) (payments db))
       (NotFound ''Payment not found'') (\<lambda>pay.
     recompute_and_return t now txIds (pay_invoiceId pay)
       (db\<lparr>payments := update_where (\<lambda>p. pay_tenantId p = t \<and> pay_id p = payId)
          (\<lambda>p. p\<lparr>pay_status := Pay_refunded, pay_deletedAt := Some now, pay_updatedAt := now\<rparr>)
          (payments db)\<rparr>))))"

record memo_input =
  mi_originalInvoiceId :: uuid
  mi_amountCents :: cents
  mi_reasonCode :: memo_reason
  mi_reason :: string
  mi_appliedTo :: memo_application

definition memo_of :: "ctx \<Rightarrow> instant \<Rightarrow> uuid \<Rightarrow> string \<Rightarrow> memo_input \<Rightarrow> memo_row" where
  "memo_of ctx now newId number p = \<lparr>cm_id = newId, cm_tenantId = ctx_tenantId ctx,
     cm_memoNumber = number, cm_originalInvoiceId = mi_originalInvoiceId p,
     cm_amountCents = mi_amountCents p, cm_reasonCode = mi_reasonCode p, cm_reason = mi_reason p,
     cm_appliedTo = mi_appliedTo p, cm_issuedBy = Some (ctx_userId ctx), cm_issuedAt = now,
     cm_deletedAt = None\<rparr>"

definition createCreditMemo :: "ctx \<Rightarrow> instant \<Rightarrow> uuid \<Rightarrow> uuid \<Rightarrow> (nat \<Rightarrow> uuid) \<Rightarrow> memo_input \<Rightarrow> 'a billing_db_scheme \<Rightarrow>
    exn + (memo_row \<times> invoice_row) \<times> 'a billing_db_scheme" where
  "createCreditMemo ctx now newId payId txIds p db =
    (let t = ctx_tenantId ctx; i = mi_originalInvoiceId p in
     require (select_first (live_invoice t i) (invoices db)) (NotFound ''Original invoice not found'') (\<lambda>r.
     ensure (inv_status r \<noteq> Inv_draft)
       (invalid_state ''Cannot issue a credit memo against a draft invoice'') (
     (let (number, db1) = allocateMemoNumber t now db;
          memo = memo_of ctx now newId number p;
          db2 = db1\<lparr>creditMemos := insert_into memo (creditMemos db1)\<rparr>;
          pay = manual_payment ctx now payId i (mi_amountCents p) Method_write_off (Some number) now
            Pay_cleared (Some (''Credit memo '' @ number @ '': '' @ mi_reason p))
      in ensure (0 < mi_amountCents p) check_violation (
         ensure (\<not> (\<exists>m \<in> set (creditMemos db). cm_tenantId m = t \<and> cm_memoNumber m = number
             \<and> cm_deletedAt m = None)) unique_violation (
         attempt (if mi_appliedTo p = Apply_to_invoice
             then recompute_and_return t now txIds i (db2\<lparr>payments := insert_into pay (payments db2)\<rparr>)
             else assembled t i db2) (\<lambda>(row, db3). Inr ((memo, row), db3))))))))"

section \<open>Overdue sweep and aging\<close>

definition overdue_due :: "uuid \<Rightarrow> instant \<Rightarrow> invoice_row \<Rightarrow> bool" where
  "overdue_due t now r \<longleftrightarrow> inv_tenantId r = t \<and> inv_deletedAt r = None
     \<and> inv_status r \<in> {Inv_issued, Inv_sent, Inv_partially_paid} \<and> 0 < inv_balanceCents r
     \<and> (case inv_dueAt r of None \<Rightarrow> False | Some d \<Rightarrow> d < now)"

definition markOverdueSweep :: "ctx \<Rightarrow> instant \<Rightarrow> 'a billing_db_scheme \<Rightarrow> nat \<times> 'a billing_db_scheme" where
  "markOverdueSweep ctx now db =
    (let P = overdue_due (ctx_tenantId ctx) now
     in (length (select_where P (invoices db)), db\<lparr>invoices := update_where P
          (\<lambda>r. r\<lparr>inv_status := Inv_overdue, inv_updatedAt := now\<rparr>) (invoices db)\<rparr>))"

datatype aging_key = Aging_account uuid | Aging_customer "uuid option"

record aging_row =
  ag_key :: aging_key
  ag_accountId :: "uuid option"
  ag_customerId :: "uuid option"
  ag_currentDueCents :: cents
  ag_bucket1To30Cents :: cents
  ag_bucket31To60Cents :: cents
  ag_bucket61To90Cents :: cents
  ag_bucket91PlusCents :: cents
  ag_totalCents :: cents
  ag_oldestDueAt :: "instant option"
  ag_invoiceCount :: nat

definition aging_key_of :: "invoice_row \<Rightarrow> aging_key" where
  "aging_key_of r = (case inv_accountId r of Some a \<Rightarrow> Aging_account a | None \<Rightarrow> Aging_customer (inv_customerId r))"

definition empty_aging :: "invoice_row \<Rightarrow> aging_row" where
  "empty_aging r = \<lparr>ag_key = aging_key_of r, ag_accountId = inv_accountId r,
     ag_customerId = inv_customerId r, ag_currentDueCents = 0, ag_bucket1To30Cents = 0,
     ag_bucket31To60Cents = 0, ag_bucket61To90Cents = 0, ag_bucket91PlusCents = 0, ag_totalCents = 0,
     ag_oldestDueAt = None, ag_invoiceCount = 0\<rparr>"

definition aging_due :: "invoice_row \<Rightarrow> instant" where
  "aging_due r = (case inv_dueAt r of Some d \<Rightarrow> d | None \<Rightarrow>
     (case inv_issuedAt r of Some d \<Rightarrow> d | None \<Rightarrow> inv_createdAt r))"

definition age_into :: "instant \<Rightarrow> invoice_row \<Rightarrow> aging_row \<Rightarrow> aging_row" where
  "age_into asOf r b =
    (let due = aging_due r; days = (asOf - due) div day_ms; v = inv_balanceCents r;
         b1 = (if days \<le> 0 then b\<lparr>ag_currentDueCents := ag_currentDueCents b + v\<rparr>
           else if days \<le> 30 then b\<lparr>ag_bucket1To30Cents := ag_bucket1To30Cents b + v\<rparr>
           else if days \<le> 60 then b\<lparr>ag_bucket31To60Cents := ag_bucket31To60Cents b + v\<rparr>
           else if days \<le> 90 then b\<lparr>ag_bucket61To90Cents := ag_bucket61To90Cents b + v\<rparr>
           else b\<lparr>ag_bucket91PlusCents := ag_bucket91PlusCents b + v\<rparr>)
     in b1\<lparr>ag_totalCents := ag_totalCents b1 + v, ag_invoiceCount := ag_invoiceCount b1 + 1,
          ag_oldestDueAt := (case ag_oldestDueAt b1 of None \<Rightarrow> Some due
            | Some d \<Rightarrow> if due < d then Some due else Some d)\<rparr>)"

fun add_aging :: "instant \<Rightarrow> invoice_row \<Rightarrow> aging_row list \<Rightarrow> aging_row list" where
  "add_aging asOf r [] = [age_into asOf r (empty_aging r)]"
| "add_aging asOf r (b # bs) = (if ag_key b = aging_key_of r then age_into asOf r b # bs
     else b # add_aging asOf r bs)"

definition open_receivable :: "uuid \<Rightarrow> uuid option \<Rightarrow> uuid option \<Rightarrow> invoice_row \<Rightarrow> bool" where
  "open_receivable t accountId customerId r \<longleftrightarrow> inv_tenantId r = t \<and> inv_deletedAt r = None
     \<and> 0 < inv_balanceCents r
     \<and> inv_status r \<in> {Inv_issued, Inv_sent, Inv_partially_paid, Inv_overdue}
     \<and> (accountId = None \<or> inv_accountId r = accountId) \<and> (customerId = None \<or> inv_customerId r = customerId)"

text \<open>The rows of the report, largest total first; the names are looked up for display.\<close>

definition aging :: "uuid \<Rightarrow> uuid option \<Rightarrow> uuid option \<Rightarrow> instant \<Rightarrow> 'a billing_db_scheme \<Rightarrow> aging_row list" where
  "aging t accountId customerId asOf db = sort_key (\<lambda>b. - ag_totalCents b)
     (fold (add_aging asOf) (select_where (open_receivable t accountId customerId) (invoices db)) [])"

text \<open>The totals of the response: current, 1 to 30, 31 to 60, 61 to 90, over 90, total, count.\<close>

definition aging_totals :: "aging_row list \<Rightarrow> cents \<times> cents \<times> cents \<times> cents \<times> cents \<times> cents \<times> nat" where
  "aging_totals rows = fold (\<lambda>r (cur, b30, b60, b90, over, tot, n). (cur + ag_currentDueCents r,
     b30 + ag_bucket1To30Cents r, b60 + ag_bucket31To60Cents r, b90 + ag_bucket61To90Cents r,
     over + ag_bucket91PlusCents r, tot + ag_totalCents r, n + ag_invoiceCount r)) rows (0, 0, 0, 0, 0, 0, 0)"

section \<open>Recurring schedules\<close>

definition nextMonthFirstUtc :: "instant \<Rightarrow> instant" where
  "nextMonthFirstUtc from = (case civil_of_day (from div day_ms) of (y, m, d) \<Rightarrow>
     (if m = 12 then day_of_civil (y + 1) 1 1 else day_of_civil y (m + 1) 1) * day_ms)"

record schedule_input =
  si_customerId :: "uuid option"
  si_accountId :: "uuid option"
  si_jobId :: "uuid option"
  si_description :: string
  si_dailyRateCents :: cents
  si_startedAt :: instant

definition createRecurringSchedule :: "ctx \<Rightarrow> uuid \<Rightarrow> schedule_input \<Rightarrow> 'a billing_db_scheme \<Rightarrow>
    exn + schedule_row \<times> 'a billing_db_scheme" where
  "createRecurringSchedule ctx newId p db =
    (let row = \<lparr>rs_id = newId, rs_tenantId = ctx_tenantId ctx, rs_customerId = si_customerId p,
           rs_accountId = si_accountId p, rs_jobId = si_jobId p, rs_description = si_description p,
           rs_dailyRateCents = si_dailyRateCents p, rs_startedAt = si_startedAt p, rs_endedAt = None,
           rs_lastInvoicedThrough = None, rs_nextInvoiceAt = Some (nextMonthFirstUtc (si_startedAt p)),
           rs_createdBy = Some (ctx_userId ctx), rs_deletedAt = None\<rparr>
     in ensure (0 < si_dailyRateCents p) check_violation
          (Inr (row, db\<lparr>recurringBillingSchedules := insert_into row (recurringBillingSchedules db)\<rparr>)))"

definition endRecurringSchedule :: "ctx \<Rightarrow> instant \<Rightarrow> uuid \<Rightarrow> 'a billing_db_scheme \<Rightarrow>
    exn + schedule_row \<times> 'a billing_db_scheme" where
  "endRecurringSchedule ctx now i db =
    (let t = ctx_tenantId ctx in
     require (select_first (\<lambda>r. rs_tenantId r = t \<and> rs_id r = i \<and> rs_deletedAt r = None)
         (recurringBillingSchedules db)) (NotFound ''Schedule not found'') (\<lambda>_.
     (let (updated, tbl) = update_returning (\<lambda>r. rs_tenantId r = t \<and> rs_id r = i)
            (\<lambda>r. r\<lparr>rs_endedAt := Some now\<rparr>) (recurringBillingSchedules db)
      in require updated (NotFound ''Schedule not found'') (\<lambda>row.
           Inr (row, db\<lparr>recurringBillingSchedules := tbl\<rparr>)))))"

end
