(* ===== verification/InvoiceInv.thy ===== *)
theory InvoiceInv
  imports InvoiceOps Sequences
begin

text \<open>
  The ledger invariant of billing: on every reachable database the totals of an invoice are the
  sums of its lines, tax rows and cleared payments, and its status says whether it is covered.
  The invariant, recomputing the totals of an invoice, and the parts the operations are built of;
  the runs are in InvoiceRuns.
\<close>

section \<open>The invariant of one invoice\<close>

definition lines_for :: "uuid \<Rightarrow> line_row list \<Rightarrow> line_row list" where
  "lines_for j L = filter (\<lambda>l. li_invoiceId l = j) L"

definition pays_for :: "uuid \<Rightarrow> payment_row list \<Rightarrow> payment_row list" where
  "pays_for j P = filter (\<lambda>p. pay_invoiceId p = j) P"

definition taxes_for :: "uuid \<Rightarrow> tax_row list \<Rightarrow> tax_row list" where
  "taxes_for j T = filter (\<lambda>x. tx_invoiceId x = j) T"

definition charged :: "line_row list \<Rightarrow> cents" where
  "charged L = sum_list (map li_lineTotalCents L)"

definition received :: "payment_row list \<Rightarrow> cents" where
  "received P = sum_list (map pay_amountCents (filter (\<lambda>p. pay_deletedAt p = None \<and> pay_status p = Pay_cleared) P))"

definition taxed :: "tax_row list \<Rightarrow> cents" where
  "taxed T = sum_list (map tx_taxAmountCents T)"

definition totals_ok :: "line_row list \<Rightarrow> payment_row list \<Rightarrow> tax_row list \<Rightarrow> invoice_row \<Rightarrow> bool" where
  "totals_ok L P T r \<longleftrightarrow> inv_subtotalCents r = charged L \<and> inv_taxCents r = taxed T
     \<and> inv_totalCents r = charged L + taxed T \<and> inv_paidCents r = received P
     \<and> inv_balanceCents r = charged L + taxed T - received P"

definition status_ok :: "invoice_row \<Rightarrow> bool" where
  "status_ok r \<longleftrightarrow> inv_status r \<noteq> Inv_refunded
     \<and> (inv_status r \<noteq> Inv_void \<longrightarrow>
         (inv_status r = Inv_paid \<longleftrightarrow> 0 < inv_totalCents r \<and> inv_totalCents r \<le> inv_paidCents r))"

definition draft_ok :: "payment_row list \<Rightarrow> invoice_row \<Rightarrow> bool" where
  "draft_ok P r \<longleftrightarrow> (inv_status r = Inv_draft \<longrightarrow> P = [] \<and> inv_dueAt r = None)"

text \<open>Outside a set \<open>S\<close> of invoices the totals and the status are those of the rows; \<open>S\<close> is empty as long as
  only billing runs.\<close>

definition invoice_ok :: "uuid set \<Rightarrow> line_row list \<Rightarrow> payment_row list \<Rightarrow> tax_row list \<Rightarrow> invoice_row \<Rightarrow> bool" where
  "invoice_ok S L P T r \<longleftrightarrow> inv_status r \<noteq> Inv_refunded \<and> draft_ok (pays_for (inv_id r) P) r
     \<and> (inv_id r \<notin> S \<longrightarrow> totals_ok (lines_for (inv_id r) L) (pays_for (inv_id r) P) (taxes_for (inv_id r) T) r \<and> status_ok r)"

text \<open>Rows of the child tables belong to an invoice of their tenant; ids are keys.\<close>

definition child_ok :: "invoice_row list \<Rightarrow> uuid \<times> uuid \<Rightarrow> bool" where
  "child_ok R c \<longleftrightarrow> (\<exists>r \<in> set R. inv_id r = snd c \<and> inv_tenantId r = fst c)"

definition children_ok :: "invoice_row list \<Rightarrow> line_row list \<Rightarrow> payment_row list \<Rightarrow> tax_row list \<Rightarrow> bool" where
  "children_ok R L P T \<longleftrightarrow> (\<forall>l \<in> set L. child_ok R (li_tenantId l, li_invoiceId l))
     \<and> (\<forall>p \<in> set P. child_ok R (pay_tenantId p, pay_invoiceId p))
     \<and> (\<forall>x \<in> set T. child_ok R (tx_tenantId x, tx_invoiceId x))"

definition ledger_inv :: "uuid set \<Rightarrow> 'a billing_db_scheme \<Rightarrow> bool" where
  "ledger_inv S db \<longleftrightarrow> distinct (map inv_id (invoices db)) \<and> distinct (map li_id (invoiceLineItems db))
     \<and> distinct (map pay_id (payments db))
     \<and> children_ok (invoices db) (invoiceLineItems db) (payments db) (invoiceTaxes db)
     \<and> (\<forall>r \<in> set (invoices db). invoice_ok S (invoiceLineItems db) (payments db) (invoiceTaxes db) r)"

text \<open>Everything but invoice \<open>i\<close> is in order: the state a handler is in before it recomputes.\<close>

definition ledger_except :: "uuid set \<Rightarrow> uuid \<Rightarrow> 'a billing_db_scheme \<Rightarrow> bool" where
  "ledger_except S i db \<longleftrightarrow> distinct (map inv_id (invoices db)) \<and> distinct (map li_id (invoiceLineItems db))
     \<and> distinct (map pay_id (payments db))
     \<and> children_ok (invoices db) (invoiceLineItems db) (payments db) (invoiceTaxes db)
     \<and> (\<forall>r \<in> set (invoices db). if inv_id r = i
          then inv_status r \<noteq> Inv_refunded \<and> draft_ok (pays_for i (payments db)) r
          else invoice_ok S (invoiceLineItems db) (payments db) (invoiceTaxes db) r)"

lemma ledger_except: "ledger_inv S db \<Longrightarrow> ledger_except S i db"
  by (auto simp: ledger_inv_def ledger_except_def invoice_ok_def status_ok_def)

section \<open>Recomputing\<close>

lemma child_tenant:
  assumes "distinct (map inv_id R)" "r \<in> set R" "child_ok R (t, inv_id r)"
  shows "t = inv_tenantId r"
  using assms by (auto simp: child_ok_def distinct_map inj_on_def)

text \<open>The row-level security predicate of the queries adds nothing.\<close>

lemma ledger_scopes:
  assumes "ledger_except S i db" "r \<in> set (invoices db)" "inv_id r = i" "inv_tenantId r = t"
  shows "invoice_lines t i db = lines_for i (invoiceLineItems db)"
    "paid_of t i (payments db) = received (pays_for i (payments db))"
    "delete_where (\<lambda>x. tx_tenantId x = t \<and> tx_invoiceId x = i) (invoiceTaxes db)
       = filter (\<lambda>x. tx_invoiceId x \<noteq> i) (invoiceTaxes db)"
proof -
  have d: "distinct (map inv_id (invoices db))" and ch: "children_ok (invoices db) (invoiceLineItems db)
      (payments db) (invoiceTaxes db)" using assms(1) by (simp_all add: ledger_except_def)
  have t: "s = t" if "child_ok (invoices db) (s, i)" for s
    using child_tenant [OF d assms(2), of s] that assms(3,4) by simp
  have "li_tenantId l = t" if "l \<in> set (invoiceLineItems db)" "li_invoiceId l = i" for l
    using ch that t by (auto simp: children_ok_def)
  then show "invoice_lines t i db = lines_for i (invoiceLineItems db)"
    by (auto simp: invoice_lines_def select_where_def lines_for_def own_line_def intro!: filter_cong)
  have "pay_tenantId p = t" if "p \<in> set (payments db)" "pay_invoiceId p = i" for p
    using ch that t by (auto simp: children_ok_def)
  then have "filter (cleared_payment t i) (payments db)
      = filter (\<lambda>p. pay_deletedAt p = None \<and> pay_status p = Pay_cleared) (pays_for i (payments db))"
    by (auto simp: pays_for_def cleared_payment_def intro!: filter_cong)
  then show "paid_of t i (payments db) = received (pays_for i (payments db))"
    by (simp add: paid_of_def received_def select_where_def)
  have "tx_tenantId x = t" if "x \<in> set (invoiceTaxes db)" "tx_invoiceId x = i" for x
    using ch that t by (auto simp: children_ok_def)
  then show "delete_where (\<lambda>x. tx_tenantId x = t \<and> tx_invoiceId x = i) (invoiceTaxes db)
       = filter (\<lambda>x. tx_invoiceId x \<noteq> i) (invoiceTaxes db)"
    by (auto simp: delete_where_def intro!: filter_cong)
qed

lemma statusAfterPayment_ok:
  assumes "s \<noteq> Inv_refunded"
  shows "statusAfterPayment s tot paid late \<noteq> Inv_refunded"
    "s \<noteq> Inv_void \<Longrightarrow> statusAfterPayment s tot paid late = Inv_paid \<longleftrightarrow> 0 < tot \<and> tot \<le> paid"
    "statusAfterPayment s tot paid late = Inv_void \<longleftrightarrow> s = Inv_void"
    "statusAfterPayment s tot paid late = Inv_draft \<Longrightarrow> s = Inv_draft"
  using assms by (auto simp: statusAfterPayment_def split: if_splits)

lemma update_own:
  assumes "distinct (map inv_id R)" "r \<in> set R" "inv_id r = i" "inv_tenantId r = t"
    "x \<in> set (update_where (own_invoice t i) f R)" "\<And>x. inv_id (f x) = inv_id x"
  shows "(inv_id x = i \<and> x = f r) \<or> (inv_id x \<noteq> i \<and> x \<in> set R)"
proof -
  have only: "y = r" if "y \<in> set R" "inv_id y = i" for y
    using assms(1-3) that by (auto simp: distinct_map inj_on_def)
  then have own: "own_invoice t i y \<longleftrightarrow> inv_id y = i" if "y \<in> set R" for y
    using that assms(4) by (auto simp: own_invoice_def)
  from in_update_where [OF assms(5)] show ?thesis using own only assms(3,6) by auto
qed

lemma child_ok_update:
  assumes "\<And>x. inv_id (f x) = inv_id x \<and> inv_tenantId (f x) = inv_tenantId x"
  shows "child_ok (update_where Q f R) = child_ok R"
proof -
  have "(\<lambda>r. (inv_tenantId r, inv_id r)) ` set (update_where Q f R) = (\<lambda>r. (inv_tenantId r, inv_id r)) ` set R"
    using assms map_update_where [of Q "\<lambda>r. (inv_tenantId r, inv_id r)" f R]
    by (metis (no_types, lifting) list.set_map)
  moreover have "child_ok S c \<longleftrightarrow> c \<in> (\<lambda>r. (inv_tenantId r, inv_id r)) ` set S" for S c
    by (cases c) (auto simp: child_ok_def)
  ultimately show ?thesis by (intro ext) simp
qed

lemma recomputeTotals_cases:
  assumes "recomputeTotals t now ids i db = Inr (row, db')"
  obtains r taxes s where "select_first (own_invoice t i) (invoices db) = Some r"
    "s = statusAfterPayment (inv_status r) (subtotal_of (invoice_lines t i db) + tax_total taxes)
       (paid_of t i (payments db)) (is_overdue now r (subtotal_of (invoice_lines t i db)
         + tax_total taxes - paid_of t i (payments db)))"
    "taxes = invoice_taxes_of r (invoice_lines t i db) db"
    "row = totals_patch now (subtotal_of (invoice_lines t i db)) (tax_total taxes) (paid_of t i (payments db)) s r"
    "db' = db\<lparr>invoiceTaxes := delete_where (\<lambda>x. tx_tenantId x = t \<and> tx_invoiceId x = i) (invoiceTaxes db)
         @ map (\<lambda>(k, (jur, name, rate, taxable, tax)). \<lparr>tx_id = ids k, tx_tenantId = t,
             tx_invoiceId = i, tx_taxJurisdiction = jur, tx_taxName = name, tx_taxRatePct = rate,
             tx_taxableAmountCents = taxable, tx_taxAmountCents = tax\<rparr>) (enumerate 0 taxes),
       invoices := update_where (own_invoice t i) (totals_patch now (subtotal_of (invoice_lines t i db))
         (tax_total taxes) (paid_of t i (payments db)) s) (invoices db)\<rparr>"
    "0 \<le> subtotal_of (invoice_lines t i db)" "0 \<le> tax_total taxes"
  using assms by (auto simp: recomputeTotals_def Let_def update_returning_def)

lemma totals_patch_keeps [simp]:
  "inv_id (totals_patch now a b c s r) = inv_id r" "inv_tenantId (totals_patch now a b c s r) = inv_tenantId r"
  "inv_status (totals_patch now a b c s r) = s" "inv_dueAt (totals_patch now a b c s r) = inv_dueAt r"
  "inv_deletedAt (totals_patch now a b c s r) = inv_deletedAt r"
  "inv_invoiceNumber (totals_patch now a b c s r) = inv_invoiceNumber r"
  by (simp_all add: totals_patch_def)

lemma taxed_rows:
  "taxed (map (\<lambda>(k, (jur, name, rate, taxable, tax)). \<lparr>tx_id = ids k, tx_tenantId = t,
      tx_invoiceId = i, tx_taxJurisdiction = jur, tx_taxName = name, tx_taxRatePct = rate,
      tx_taxableAmountCents = taxable, tx_taxAmountCents = tax\<rparr>) (enumerate n taxes)) = tax_total taxes"
  by (induction taxes arbitrary: n) (auto simp: taxed_def tax_total_def)

lemma taxes_for_replaced:
  "taxes_for j (filter (\<lambda>x. tx_invoiceId x \<noteq> i) T @ map (\<lambda>(k, (jur, name, rate, taxable, tax)).
      \<lparr>tx_id = ids k, tx_tenantId = t, tx_invoiceId = i, tx_taxJurisdiction = jur, tx_taxName = name,
       tx_taxRatePct = rate, tx_taxableAmountCents = taxable, tx_taxAmountCents = tax\<rparr>) (enumerate n taxes))
   = (if j = i then map (\<lambda>(k, (jur, name, rate, taxable, tax)). \<lparr>tx_id = ids k, tx_tenantId = t,
         tx_invoiceId = i, tx_taxJurisdiction = jur, tx_taxName = name, tx_taxRatePct = rate,
         tx_taxableAmountCents = taxable, tx_taxAmountCents = tax\<rparr>) (enumerate n taxes)
      else taxes_for j T)"
proof -
  have "filter (\<lambda>x. tx_invoiceId x = j) (map (\<lambda>(k, (jur, name, rate, taxable, tax)). \<lparr>tx_id = ids k,
      tx_tenantId = t, tx_invoiceId = i, tx_taxJurisdiction = jur, tx_taxName = name, tx_taxRatePct = rate,
      tx_taxableAmountCents = taxable, tx_taxAmountCents = tax\<rparr>) xs)
    = (if j = i then map (\<lambda>(k, (jur, name, rate, taxable, tax)). \<lparr>tx_id = ids k, tx_tenantId = t,
         tx_invoiceId = i, tx_taxJurisdiction = jur, tx_taxName = name, tx_taxRatePct = rate,
         tx_taxableAmountCents = taxable, tx_taxAmountCents = tax\<rparr>) xs else [])" for xs
    by (induction xs) auto
  moreover have "filter (\<lambda>x. tx_invoiceId x = j) (filter (\<lambda>x. tx_invoiceId x \<noteq> i) T)
      = (if j = i then [] else filter (\<lambda>x. tx_invoiceId x = j) T)"
    by (induction T) auto
  ultimately show ?thesis by (simp add: taxes_for_def)
qed

lemma recompute_ledger:
  assumes ex: "ledger_except S i db" and ok: "recomputeTotals t now ids i db = Inr (row, db')"
  shows "ledger_inv S db'"
  using ok
proof (cases rule: recomputeTotals_cases)
  case (1 r taxes s)
  have r: "r \<in> set (invoices db)" "inv_id r = i" "inv_tenantId r = t"
    using select_first_SomeD [OF 1(1)] by (auto simp: own_invoice_def)
  note sc = ledger_scopes [OF ex r]
  let ?L = "lines_for i (invoiceLineItems db)" and ?P = "pays_for i (payments db)"
  let ?f = "totals_patch now (charged ?L) (tax_total taxes) (received ?P) s"
  let ?rows = "map (\<lambda>(k, (jur, name, rate, taxable, tax)). \<lparr>tx_id = ids k, tx_tenantId = t,
       tx_invoiceId = i, tx_taxJurisdiction = jur, tx_taxName = name, tx_taxRatePct = rate,
       tx_taxableAmountCents = taxable, tx_taxAmountCents = tax\<rparr>) (enumerate 0 taxes)"
  have db': "invoices db' = update_where (own_invoice t i) ?f (invoices db)"
      "invoiceTaxes db' = filter (\<lambda>x. tx_invoiceId x \<noteq> i) (invoiceTaxes db) @ ?rows"
      "invoiceLineItems db' = invoiceLineItems db" "payments db' = payments db"
    using 1(5) by (simp_all add: sc subtotal_of_def charged_def)
  have ids: "map inv_id (invoices db') = map inv_id (invoices db)"
    unfolding db' by (rule map_update_where) simp
  have ch: "child_ok (invoices db') = child_ok (invoices db)"
    unfolding db' by (rule child_ok_update) simp
  have own: "child_ok (invoices db) (t, i)" using r by (auto simp: child_ok_def)
  have children: "children_ok (invoices db') (invoiceLineItems db') (payments db') (invoiceTaxes db')"
    using ex own unfolding children_ok_def ch
    by (auto simp: ledger_except_def children_ok_def db')
  have s: "s = statusAfterPayment (inv_status r) (charged ?L + tax_total taxes) (received ?P)
      (is_overdue now r (charged ?L + tax_total taxes - received ?P))"
    using 1(2) by (simp add: sc subtotal_of_def charged_def)
  have old: "inv_status r \<noteq> Inv_refunded" "draft_ok ?P r"
    using ex r by (auto simp: ledger_except_def)
  have "status_ok (?f r)"
    using statusAfterPayment_ok [OF old(1)] unfolding s status_ok_def by (auto simp: totals_patch_def)
  moreover have "draft_ok ?P (?f r)"
    using statusAfterPayment_ok(4) [OF old(1)] old(2) unfolding draft_ok_def s by auto
  moreover have "totals_ok ?L ?P ?rows (?f r)"
    by (simp add: totals_ok_def totals_patch_def taxed_rows)
  ultimately have fresh: "invoice_ok S (invoiceLineItems db') (payments db') (invoiceTaxes db') (?f r)"
    using r by (simp add: invoice_ok_def status_ok_def db' taxes_for_replaced)
  have "invoice_ok S (invoiceLineItems db') (payments db') (invoiceTaxes db') x" if "x \<in> set (invoices db')" for x
  proof -
    have "(inv_id x = i \<and> x = ?f r) \<or> (inv_id x \<noteq> i \<and> x \<in> set (invoices db))"
      using update_own [OF _ r, of x ?f] ex that by (simp add: db' ledger_except_def)
    then show ?thesis
    proof
      assume "inv_id x \<noteq> i \<and> x \<in> set (invoices db)"
      then have "invoice_ok S (invoiceLineItems db) (payments db) (invoiceTaxes db) x"
        using ex by (auto simp: ledger_except_def)
      then show ?thesis using \<open>inv_id x \<noteq> i \<and> _\<close> by (simp add: invoice_ok_def db' taxes_for_replaced)
    qed (use fresh in simp)
  qed
  then show ?thesis using ex ids children by (simp add: ledger_inv_def ledger_except_def db')
qed

lemma assembled_Inr [simp]:
  "assembled t i db = Inr (r, db') \<longleftrightarrow> select_first (live_invoice t i) (invoices db) = Some r \<and> db' = db"
  by (auto simp: assembled_def)

lemma recompute_return_ledger:
  "ledger_except S i db \<Longrightarrow> recompute_and_return t now ids i db = Inr (r, db') \<Longrightarrow> ledger_inv S db'"
  by (auto simp: recompute_and_return_def dest: recompute_ledger)

section \<open>Parts of the operations\<close>

lemma ledger_cong:
  assumes "ledger_inv S db" "invoices db' = invoices db" "invoiceLineItems db' = invoiceLineItems db"
    "payments db' = payments db" "invoiceTaxes db' = invoiceTaxes db"
  shows "ledger_inv S db'"
  using assms by (simp add: ledger_inv_def)

text \<open>An update of the invoice rows that keeps ids and amounts.\<close>

definition money :: "invoice_row \<Rightarrow> uuid \<times> uuid \<times> cents \<times> cents \<times> cents \<times> cents \<times> cents" where
  "money r = (inv_id r, inv_tenantId r, inv_subtotalCents r, inv_taxCents r, inv_totalCents r,
     inv_paidCents r, inv_balanceCents r)"

lemma ledger_update:
  assumes inv: "ledger_inv S db" and keep: "\<And>r. money (f r) = money r"
    and ok: "\<And>r. r \<in> set (invoices db) \<Longrightarrow> Q r \<Longrightarrow>
      invoice_ok S (invoiceLineItems db) (payments db) (invoiceTaxes db) r \<Longrightarrow>
      inv_status (f r) \<noteq> Inv_refunded \<and> draft_ok (pays_for (inv_id r) (payments db)) (f r)
      \<and> (inv_id r \<notin> S \<longrightarrow> status_ok (f r))"
  shows "ledger_inv S (db\<lparr>invoices := update_where Q f (invoices db)\<rparr>)"
proof -
  have k: "inv_id (f r) = inv_id r \<and> inv_tenantId (f r) = inv_tenantId r" for r
    using keep [of r] by (simp add: money_def)
  have ids: "map inv_id (update_where Q f (invoices db)) = map inv_id (invoices db)"
    using k by (intro map_update_where) simp
  have row: "invoice_ok S (invoiceLineItems db) (payments db) (invoiceTaxes db) (f r)"
    if "r \<in> set (invoices db)" "Q r" for r
  proof -
    have "invoice_ok S (invoiceLineItems db) (payments db) (invoiceTaxes db) r"
      using inv that(1) by (simp add: ledger_inv_def)
    then show ?thesis using ok [OF that] keep [of r] k [of r]
      by (simp add: invoice_ok_def totals_ok_def money_def)
  qed
  have "children_ok (update_where Q f (invoices db)) = children_ok (invoices db)"
    using child_ok_update [of f Q "invoices db"] k by (intro ext) (simp add: children_ok_def)
  then show ?thesis
    using inv ids row by (auto simp: ledger_inv_def dest!: in_update_where)
qed

lemma draft_not_covered: "status_ok r \<Longrightarrow> inv_status r = Inv_draft \<Longrightarrow> s \<noteq> Inv_refunded \<Longrightarrow> s \<noteq> Inv_paid \<Longrightarrow>
    status_ok (r\<lparr>inv_status := s\<rparr>)"
  by (auto simp: status_ok_def)

lemma insert_line_cases:
  assumes "insert_line t i newId d db = Inr db'"
  obtains l where "db' = db\<lparr>invoiceLineItems := invoiceLineItems db @ [l]\<rparr>" "li_id l = newId"
    "li_tenantId l = t" "li_invoiceId l = i" "li_lineTotalCents l = dl_lineTotalCents d"
  using assms by (auto simp: insert_line_def insert_into_def)

lemma insert_line_ledger:
  assumes "ledger_except S i db" "insert_line t i newId d db = Inr db'"
    "newId \<notin> li_id ` set (invoiceLineItems db)" "child_ok (invoices db) (t, i)"
  shows "ledger_except S i db'"
  using assms(2)
proof (cases rule: insert_line_cases)
  case (1 l)
  have other: "lines_for j (invoiceLineItems db @ [l]) = lines_for j (invoiceLineItems db)" if "j \<noteq> i" for j
    using 1 that by (simp add: lines_for_def)
  show ?thesis
    using assms(1,3,4) 1 other by (auto simp: ledger_except_def children_ok_def invoice_ok_def)
qed

lemma insert_lines_ledger:
  assumes "ledger_except S i db" "insert_lines t i ids ds db = Inr db'" "inj ids"
    "ids ` {..<length ds} \<inter> li_id ` set (invoiceLineItems db) = {}" "child_ok (invoices db) (t, i)"
  shows "ledger_except S i db' \<and> invoices db' = invoices db"
  using assms
proof (induction ds arbitrary: db)
  case Nil
  then show ?case by simp
next
  case (Cons d ds)
  from Cons.prems(2) obtain db1 where db1: "insert_line t i (ids (length ds)) d db = Inr db1"
      "insert_lines t i ids ds db1 = Inr db'" by auto
  have e1: "ledger_except S i db1"
    using insert_line_ledger [OF Cons.prems(1) db1(1) _ Cons.prems(5)] Cons.prems(4) by auto
  from db1(1) obtain l where l: "db1 = db\<lparr>invoiceLineItems := invoiceLineItems db @ [l]\<rparr>"
      "li_id l = ids (length ds)" by (rule insert_line_cases)
  have "ids (length ds) \<notin> ids ` {..<length ds}"
    using Cons.prems(3) by (auto simp: inj_def)
  moreover have "ids ` {..<length ds} \<inter> li_id ` set (invoiceLineItems db) = {}"
    using Cons.prems(4) by (auto simp: lessThan_Suc)
  ultimately have "ids ` {..<length ds} \<inter> li_id ` set (invoiceLineItems db1) = {}"
    by (simp add: l)
  then show ?case using Cons.IH [OF e1 db1(2) Cons.prems(3)] Cons.prems(5) l by simp
qed

lemma insert_lines_frame:
  assumes "insert_lines t i ids ds db = Inr db'"
  shows "invoices db' = invoices db" "payments db' = payments db" "invoiceTaxes db' = invoiceTaxes db"
    "invoiceNumberSequences db' = invoiceNumberSequences db"
    "j \<noteq> i \<Longrightarrow> lines_for j (invoiceLineItems db') = lines_for j (invoiceLineItems db)"
    "jobs db' = jobs db"
proof -
  have "jobs db' = jobs db \<and> invoices db' = invoices db \<and> payments db' = payments db \<and> invoiceTaxes db' = invoiceTaxes db
      \<and> invoiceNumberSequences db' = invoiceNumberSequences db
      \<and> (j \<noteq> i \<longrightarrow> lines_for j (invoiceLineItems db') = lines_for j (invoiceLineItems db))"
    using assms
  proof (induction ds arbitrary: db)
    case (Cons d ds)
    then obtain db1 where db1: "insert_line t i (ids (length ds)) d db = Inr db1"
        "insert_lines t i ids ds db1 = Inr db'" by auto
    from db1(1) obtain l where "db1 = db\<lparr>invoiceLineItems := invoiceLineItems db @ [l]\<rparr>"
        "li_invoiceId l = i" by (rule insert_line_cases)
    then show ?case using Cons.IH [OF db1(2)] by (simp add: lines_for_def)
  qed simp
  then show "invoices db' = invoices db" "payments db' = payments db" "invoiceTaxes db' = invoiceTaxes db"
    "invoiceNumberSequences db' = invoiceNumberSequences db"
    "j \<noteq> i \<Longrightarrow> lines_for j (invoiceLineItems db') = lines_for j (invoiceLineItems db)"
    "jobs db' = jobs db" by auto
qed

lemma insert_draft_ledger:
  assumes inv: "ledger_inv S db" and new: "i \<notin> inv_id ` set (invoices db)"
    and ok: "insertDraftInvoice ctx now i a db = Inr db'"
  shows "ledger_except S i db' \<and> child_ok (invoices db') (ctx_tenantId ctx, i)
    \<and> db' = db\<lparr>invoices := invoices db @ [draft_row ctx now i a]\<rparr>"
proof -
  have db': "db' = db\<lparr>invoices := invoices db @ [draft_row ctx now i a]\<rparr>"
    using ok by (auto simp: insertDraftInvoice_def insert_into_def)
  have mono: "child_ok (invoices db) c \<Longrightarrow> child_ok (invoices db') c" for c
    by (auto simp: child_ok_def db')
  have none: "pays_for i (payments db) = []"
    using inv new by (force simp: ledger_inv_def children_ok_def child_ok_def pays_for_def filter_empty_conv)
  have row: "inv_id (draft_row ctx now i a) = i" "inv_tenantId (draft_row ctx now i a) = ctx_tenantId ctx"
    "inv_status (draft_row ctx now i a) = Inv_draft" "inv_dueAt (draft_row ctx now i a) = None"
    by (simp_all add: draft_row_def)
  show ?thesis
    using inv new mono none row by (auto simp: ledger_inv_def ledger_except_def children_ok_def db'
        draft_ok_def child_ok_def)
qed

lemma seedDraftCommissions_frame:
  assumes "seedDraftCommissions ctx ids crewId i jobId db = Inr db'"
  shows "invoices db' = invoices db" "invoiceLineItems db' = invoiceLineItems db"
    "payments db' = payments db" "invoiceTaxes db' = invoiceTaxes db"
    "invoiceNumberSequences db' = invoiceNumberSequences db" "jobs db' = jobs db"
  using assms by (auto simp: seedDraftCommissions_def Let_def split: option.splits if_splits)

end
