(* ===== verification/InvoiceRuns.thy ===== *)
theory InvoiceRuns
  imports InvoiceInv
begin

text \<open>
  Runs of the billing service.  An operation has one of two effects on the ledger: it updates
  invoice rows without touching amounts, or it changes the lines or payments of one invoice (a new
  draft included) and recomputes that invoice.  Each operation is shown to have such an effect; the
  ledger invariant, the immutability of issued invoices and the uniqueness of invoice numbers are
  then proved once per effect.
\<close>

section \<open>Numbers\<close>

definition inv_seq :: "uuid \<Rightarrow> string \<Rightarrow> invoice_sequence_row list \<Rightarrow> nat" where
  "inv_seq = sequence_value iseq_tenantId iseq_yearKey iseq_lastSeq"

interpretation invoice_numbers: numbering inv_seq bump_invoice_sequence
proof
  fix t k seqs n seqs'
  assume b: "bump_invoice_sequence t k seqs = (n, seqs')"
  let ?P = "\<lambda>r. iseq_tenantId r = t \<and> iseq_yearKey r = k"
  let ?new = "\<lparr>iseq_tenantId = t, iseq_yearKey = k, iseq_lastSeq = 1\<rparr>"
  let ?f = "\<lambda>q. q\<lparr>iseq_lastSeq := iseq_lastSeq q + 1\<rparr> :: invoice_sequence_row"
  show "n = inv_seq t k seqs + 1 \<and> inv_seq t k seqs' = n"
  proof (cases "select_first ?P seqs")
    case None
    then have "n = 1" "seqs' = insert_into ?new seqs"
      using b by (auto simp: bump_invoice_sequence_def)
    moreover have "inv_seq t k (insert_into ?new seqs) = 1"
      using sequence_value_insert(1) [of iseq_tenantId ?new t iseq_yearKey k seqs iseq_lastSeq] None
      by (simp add: inv_seq_def)
    ultimately show ?thesis using None by (simp add: inv_seq_def sequence_value_def)
  next
    case (Some r)
    then show ?thesis
      using b sequence_value_update(1) [of iseq_tenantId ?f iseq_yearKey t k seqs r iseq_lastSeq]
      by (simp add: bump_invoice_sequence_def inv_seq_def sequence_value_def)
  qed
  fix t' k'
  assume other: "(t', k') \<noteq> (t, k)"
  show "inv_seq t' k' seqs' = inv_seq t' k' seqs"
  proof (cases "select_first ?P seqs")
    case None
    then have "seqs' = insert_into ?new seqs"
      using b by (auto simp: bump_invoice_sequence_def)
    then show ?thesis using None other
        sequence_value_insert(2) [of iseq_tenantId ?new t iseq_yearKey k seqs t' k' iseq_lastSeq]
      by (simp add: inv_seq_def)
  next
    case (Some r)
    then show ?thesis using b other
        sequence_value_update(2) [of iseq_tenantId ?f iseq_yearKey t' k' t k iseq_lastSeq seqs]
      by (simp add: bump_invoice_sequence_def inv_seq_def)
  qed
qed

text \<open>The number of an issued invoice: the prefix and a handed out number of a year.\<close>

definition issued_number :: "uuid \<Rightarrow> string \<Rightarrow> invoice_sequence_row list \<Rightarrow> bool" where
  "issued_number t x seqs \<longleftrightarrow> (\<exists>y. x = ''INV-'' @ y \<and> handed_out inv_seq t y seqs)"

definition seqs_grow :: "invoice_sequence_row list \<Rightarrow> invoice_sequence_row list \<Rightarrow> bool" where
  "seqs_grow S S' \<longleftrightarrow> (\<forall>t x. handed_out inv_seq t x S \<longrightarrow> handed_out inv_seq t x S')"

lemma seqs_grow_refl [simp]: "seqs_grow S S"
  by (simp add: seqs_grow_def)

lemma seqs_grow_bump: "bump_invoice_sequence t k S = (n, S') \<Longrightarrow> seqs_grow S S'"
  by (auto simp: seqs_grow_def intro: invoice_numbers.keeps_numbers)

lemma issued_number_grows: "issued_number t x S \<Longrightarrow> seqs_grow S S' \<Longrightarrow> issued_number t x S'"
  by (auto simp: issued_number_def seqs_grow_def)

lemma allocateInvoiceNumber_cases:
  assumes "allocateInvoiceNumber t when db = (x, db')"
  obtains n S where "bump_invoice_sequence t (show_int (utc_year when)) (invoiceNumberSequences db) = (n, S)"
    "x = ''INV-'' @ number_text (show_int (utc_year when)) n" "db' = db\<lparr>invoiceNumberSequences := S\<rparr>"
  using assms by (auto simp: allocateInvoiceNumber_def Let_def number_text_def split: prod.splits)

lemma allocated_issued:
  assumes "allocateInvoiceNumber t when db = (x, db')"
  shows "issued_number t x (invoiceNumberSequences db')"
    "seqs_grow (invoiceNumberSequences db) (invoiceNumberSequences db')"
  using assms by (auto elim!: allocateInvoiceNumber_cases simp: issued_number_def seqs_grow_bump
      intro: invoice_numbers.hands_out)

lemma allocated_new:
  assumes "allocateInvoiceNumber t when db = (x, db')" "issued_number t y (invoiceNumberSequences db)"
  shows "x \<noteq> y"
  using assms by (auto elim!: allocateInvoiceNumber_cases simp: issued_number_def
      dest: invoice_numbers.new_number)

lemma not_draft_number: "''INV-'' @ number_text (show_int y) n \<noteq> draft_number i"
proof -
  obtain c cs where c: "show_int y = c # cs" "c \<noteq> CHR ''D''"
  proof (cases "show_int y")
    case Nil
    then show ?thesis by (simp add: show_int_def split: if_splits)
  next
    case (Cons c cs)
    moreover have "list_all is_digit (show_nat (nat y))" by (rule show_nat_digits)
    ultimately have "c \<noteq> CHR ''D''"
      by (cases "y < 0") (auto simp: show_int_def is_digit_def)
    then show ?thesis using that Cons by blast
  qed
  then show ?thesis by (simp add: number_text_def draft_number_def)
qed

section \<open>Effects\<close>

text \<open>What an update of an invoice row may do besides amounts: a draft may be edited, issued or
  voided; an issued invoice keeps its document and moves between the open statuses, or is voided.\<close>

definition doc :: "invoice_row \<Rightarrow> invoice_row" where
  "doc r = r\<lparr>inv_status := Inv_draft, inv_paidAt := None, inv_voidedAt := None, inv_voidReason := None,
     inv_subtotalCents := 0, inv_taxCents := 0, inv_totalCents := 0, inv_paidCents := 0,
     inv_balanceCents := 0, inv_updatedAt := 0\<rparr>"

definition open_status :: "invoice_status \<Rightarrow> bool" where
  "open_status s \<longleftrightarrow> s = Inv_issued \<or> s = Inv_sent \<or> s = Inv_partially_paid \<or> s = Inv_overdue"

definition allowed :: "invoice_row \<Rightarrow> invoice_row \<Rightarrow> bool" where
  "allowed r r' \<longleftrightarrow> money r' = money r \<and> inv_paymentToken r' = inv_paymentToken r \<and>
    (if inv_status r = Inv_draft
     then (inv_status r' = Inv_draft \<and> inv_dueAt r' = inv_dueAt r) \<or> open_status (inv_status r')
       \<or> inv_status r' = Inv_void
     else doc r' = doc r \<and> (inv_status r' = inv_status r \<or> inv_status r' = Inv_void
       \<or> (open_status (inv_status r) \<and> open_status (inv_status r'))))"

definition numbered :: "'a billing_db_scheme \<Rightarrow> invoice_row \<Rightarrow> invoice_row \<Rightarrow> bool" where
  "numbered db r r' \<longleftrightarrow> inv_invoiceNumber r' = inv_invoiceNumber r
     \<or> issued_number (inv_tenantId r) (inv_invoiceNumber r') (invoiceNumberSequences db)"

definition adds_draft :: "invoice_row list \<Rightarrow> invoice_row list \<Rightarrow> bool" where
  "adds_draft R R' \<longleftrightarrow> R' = R \<or> (\<exists>d. R' = R @ [d] \<and> inv_status d = Inv_draft
     \<and> inv_invoiceNumber d = draft_number (inv_id d) \<and> inv_paymentToken d = None)"

definition keeps_lines :: "'a billing_db_scheme \<Rightarrow> 'a billing_db_scheme \<Rightarrow> bool" where
  "keeps_lines db db' \<longleftrightarrow> (\<forall>r \<in> set (invoices db). inv_status r \<noteq> Inv_draft \<longrightarrow>
     lines_for (inv_id r) (invoiceLineItems db') = lines_for (inv_id r) (invoiceLineItems db))"

inductive invoice_effect :: "uuid set \<Rightarrow> 'a billing_db_scheme \<Rightarrow> 'a billing_db_scheme \<Rightarrow> bool" where
  rows: "\<lbrakk>invoices db' = update_where Q f (invoices db); invoiceLineItems db' = invoiceLineItems db;
    payments db' = payments db; invoiceTaxes db' = invoiceTaxes db;
    seqs_grow (invoiceNumberSequences db) (invoiceNumberSequences db');
    \<And>r. money (f r) = money r; \<And>r. r \<in> set (invoices db) \<Longrightarrow> Q r \<Longrightarrow> allowed r (f r) \<and> numbered db' r (f r)\<rbrakk>
    \<Longrightarrow> invoice_effect S db db'"
| recomputed: "\<lbrakk>adds_draft (invoices db) (invoices db1); keeps_lines db db1; ledger_except S i db1;
    recomputeTotals t now ids i db1 = Inr (row, db2); seqs_grow (invoiceNumberSequences db) (invoiceNumberSequences db1);
    invoices db' = invoices db2; invoiceLineItems db' = invoiceLineItems db2; payments db' = payments db2;
    invoiceTaxes db' = invoiceTaxes db2; invoiceNumberSequences db' = invoiceNumberSequences db2\<rbrakk>
    \<Longrightarrow> invoice_effect S db db'"

lemma effect_none:
  assumes "invoices db' = invoices db" "invoiceLineItems db' = invoiceLineItems db"
    "payments db' = payments db" "invoiceTaxes db' = invoiceTaxes db"
    "seqs_grow (invoiceNumberSequences db) (invoiceNumberSequences db')"
  shows "invoice_effect S db db'"
  by (rule rows [where Q = "\<lambda>_. False" and f = id]) (use assms in \<open>auto simp: update_where_none\<close>)

lemma allowed_ok:
  assumes "allowed r r'" "invoice_ok S L P T r"
  shows "inv_status r' \<noteq> Inv_refunded \<and> draft_ok (pays_for (inv_id r) P) r' \<and> (inv_id r \<notin> S \<longrightarrow> status_ok r')"
  using assms by (auto simp: allowed_def invoice_ok_def status_ok_def draft_ok_def open_status_def money_def
      split: if_splits)

lemma effect_ledger:
  assumes "invoice_effect S db db'" "ledger_inv S db"
  shows "ledger_inv S db'"
  using assms
proof cases
  case (rows Q f)
  have "ledger_inv S (db\<lparr>invoices := update_where Q f (invoices db)\<rparr>)"
    by (rule ledger_update [OF assms(2)]) (use rows in \<open>auto dest: allowed_ok\<close>)
  then show ?thesis by (rule ledger_cong) (simp_all add: rows)
next
  case (recomputed db1 i t now ids row db2)
  from recompute_ledger [OF recomputed(3,4)] show ?thesis
    by (rule ledger_cong) (simp_all add: recomputed)
qed

text \<open>An issued invoice keeps its document and its lines; a void one stays void.\<close>

definition frozen :: "'a billing_db_scheme \<Rightarrow> 'a billing_db_scheme \<Rightarrow> invoice_row \<Rightarrow> invoice_row \<Rightarrow> bool" where
  "frozen db db' r r' \<longleftrightarrow> inv_status r' \<noteq> Inv_draft \<and> doc r' = doc r
     \<and> (inv_status r = Inv_void \<longrightarrow> inv_status r' = Inv_void)
     \<and> lines_for (inv_id r) (invoiceLineItems db') = lines_for (inv_id r) (invoiceLineItems db)"

lemma frozen_id: "frozen db db' r r' \<Longrightarrow> inv_id r' = inv_id r"
proof -
  assume "frozen db db' r r'"
  then have "inv_id (doc r') = inv_id (doc r)" by (simp add: frozen_def)
  then show ?thesis by (simp add: doc_def)
qed

lemma doc_totals_patch [simp]: "doc (totals_patch now a b c s r) = doc r"
  by (simp add: doc_def totals_patch_def)

lemma recompute_rows:
  assumes "recomputeTotals t now ids i db = Inr (row, db')" "r \<in> set (invoices db)"
    "inv_status r \<noteq> Inv_draft" "inv_status r \<noteq> Inv_refunded"
    "distinct (map inv_id (invoices db))"
  shows "\<exists>r' \<in> set (invoices db'). frozen db db' r r'"
  using assms(1)
proof (cases rule: recomputeTotals_cases)
  case (1 q taxes s)
  have q: "q \<in> set (invoices db)" "own_invoice t i q" using select_first_SomeD [OF 1(1)] by auto
  show ?thesis
  proof (cases "own_invoice t i r")
    case True
    then have "r = q" using q assms(2,5) by (auto simp: own_invoice_def distinct_map inj_on_def)
    let ?r = "totals_patch now (subtotal_of (invoice_lines t i db)) (tax_total taxes)
      (paid_of t i (payments db)) s r"
    have "?r \<in> set (invoices db')" using True assms(2) 1(5) by (auto simp: set_update_where)
    moreover have "frozen db db' r ?r"
      using 1(2,5) statusAfterPayment_ok(3,4) [OF assms(4)] assms(3) \<open>r = q\<close> by (auto simp: frozen_def)
    ultimately show ?thesis by blast
  next
    case False
    then have "r \<in> set (invoices db')" using assms(2) 1(5) by (auto simp: set_update_where)
    moreover have "frozen db db' r r" using 1(5) assms(3) by (simp add: frozen_def)
    ultimately show ?thesis by blast
  qed
qed

lemma effect_frozen:
  assumes "invoice_effect S db db'" "ledger_inv S db" "r \<in> set (invoices db)" "inv_status r \<noteq> Inv_draft"
  shows "\<exists>r' \<in> set (invoices db'). frozen db db' r r'"
  using assms(1)
proof cases
  case (rows Q f)
  show ?thesis
  proof (cases "Q r")
    case True
    then have "f r \<in> set (invoices db')" using assms(3) rows(1) by (auto simp: set_update_where)
    moreover have "frozen db db' r (f r)"
      using rows(2) rows(7) [OF assms(3) True] assms(4) by (auto simp: frozen_def allowed_def open_status_def)
    ultimately show ?thesis by blast
  next
    case False
    then have "r \<in> set (invoices db')" using assms(3) rows(1) by (auto simp: set_update_where)
    moreover have "frozen db db' r r" using rows(2) assms(4) by (simp add: frozen_def)
    ultimately show ?thesis by blast
  qed
next
  case (recomputed db1 i t now ids row db2)
  have r: "r \<in> set (invoices db1)" using recomputed(1) assms(3) by (auto simp: adds_draft_def)
  have "inv_status r \<noteq> Inv_refunded"
    using assms(2,3) by (auto simp: ledger_inv_def invoice_ok_def status_ok_def)
  with recompute_rows [OF recomputed(4) r assms(4)] recomputed(3)
  obtain r' where "r' \<in> set (invoices db2)" "frozen db1 db2 r r'" by (auto simp: ledger_except_def)
  moreover have "lines_for (inv_id r) (invoiceLineItems db1) = lines_for (inv_id r) (invoiceLineItems db)"
    using recomputed(2) assms(3,4) by (simp add: keeps_lines_def)
  ultimately show ?thesis using recomputed(6,7) by (auto simp: frozen_def)
qed

text \<open>A pay link exists only for invoices that were issued.\<close>

definition linkable :: "invoice_row \<Rightarrow> bool" where
  "linkable r \<longleftrightarrow> inv_paymentToken r = None \<or> inv_status r \<noteq> Inv_draft"

definition token_ok :: "'a billing_db_scheme \<Rightarrow> bool" where
  "token_ok db \<longleftrightarrow> (\<forall>r \<in> set (invoices db). linkable r)"

lemma recompute_token:
  assumes "recomputeTotals t now ids i db = Inr (row, db')" "token_ok db" "ledger_except S i db"
  shows "token_ok db'"
  using assms(1)
proof (cases rule: recomputeTotals_cases)
  case (1 q taxes s)
  have q: "q \<in> set (invoices db)" "inv_id q = i" "inv_tenantId q = t"
    using select_first_SomeD [OF 1(1)] by (auto simp: own_invoice_def)
  have d: "distinct (map inv_id (invoices db))" "inv_status q \<noteq> Inv_refunded"
    using assms(3) q by (auto simp: ledger_except_def)
  let ?f = "totals_patch now (subtotal_of (invoice_lines t i db)) (tax_total taxes) (paid_of t i (payments db)) s"
  have tok: "inv_paymentToken (?f x) = inv_paymentToken x" for x by (simp add: totals_patch_def)
  have s: "inv_status q = Inv_draft" if "s = Inv_draft"
    using statusAfterPayment_ok(4) [OF d(2)] 1(2) that by metis
  moreover have "linkable q" using assms(2) q(1) by (simp add: token_ok_def)
  ultimately have new: "linkable (?f q)" using tok [of q] by (auto simp: linkable_def)
  show ?thesis unfolding token_ok_def
  proof
    fix x assume "x \<in> set (invoices db')"
    then have "(inv_id x = i \<and> x = ?f q) \<or> (inv_id x \<noteq> i \<and> x \<in> set (invoices db))"
      using update_own [OF d(1) q, of x ?f] 1(5) by simp
    then show "linkable x" using assms(2) new by (auto simp: token_ok_def)
  qed
qed

lemma effect_token:
  assumes "invoice_effect S db db'" "ledger_inv S db" "token_ok db"
  shows "token_ok db'"
  using assms(1)
proof cases
  case (rows Q f)
  have new: "linkable (f r)" if "r \<in> set (invoices db)" "Q r" for r
  proof -
    have "linkable r" using assms(3) that(1) by (simp add: token_ok_def)
    then show ?thesis using rows(7) [OF that] by (auto simp: allowed_def linkable_def open_status_def split: if_splits)
  qed
  show ?thesis unfolding token_ok_def
  proof
    fix x assume "x \<in> set (invoices db')"
    then show "linkable x" using new assms(3) rows(1) by (auto simp: token_ok_def dest!: in_update_where)
  qed
next
  case (recomputed db1 i t now ids row db2)
  have "linkable d" if "inv_paymentToken d = None" for d using that by (simp add: linkable_def)
  then have "token_ok db1" using recomputed(1) assms(3) by (auto simp: token_ok_def adds_draft_def)
  from recompute_token [OF recomputed(4) this recomputed(3)] show ?thesis
    by (simp add: token_ok_def recomputed(6))
qed

text \<open>Numbers: a draft carries its placeholder or an issued number, and nothing else occurs.\<close>

definition numbers_ok :: "'a billing_db_scheme \<Rightarrow> bool" where
  "numbers_ok db \<longleftrightarrow> (\<forall>r \<in> set (invoices db). inv_invoiceNumber r = draft_number (inv_id r)
     \<or> issued_number (inv_tenantId r) (inv_invoiceNumber r) (invoiceNumberSequences db))"

lemma recompute_numbers:
  assumes "recomputeTotals t now ids i db = Inr (row, db')" "numbers_ok db"
  shows "numbers_ok db'"
  using assms(1)
proof (cases rule: recomputeTotals_cases)
  case 1
  show ?thesis using assms(2) unfolding numbers_ok_def 1(5) by (auto dest!: in_update_where)
qed

lemma effect_numbers:
  assumes "invoice_effect S db db'" "numbers_ok db"
  shows "numbers_ok db'"
  using assms(1)
proof cases
  case (rows Q f)
  have keep: "inv_id (f r) = inv_id r \<and> inv_tenantId (f r) = inv_tenantId r" for r
    using rows(6) [of r] by (simp add: money_def)
  show ?thesis unfolding numbers_ok_def
  proof
    fix x assume "x \<in> set (invoices db')"
    then consider "x \<in> set (invoices db)" | r where "r \<in> set (invoices db)" "Q r" "x = f r"
      using rows(1) by (auto dest!: in_update_where)
    then show "inv_invoiceNumber x = draft_number (inv_id x)
        \<or> issued_number (inv_tenantId x) (inv_invoiceNumber x) (invoiceNumberSequences db')"
    proof cases
      case 1
      then show ?thesis using assms(2) rows(5) by (auto simp: numbers_ok_def intro: issued_number_grows)
    next
      case (2 r)
      then have "numbered db' r (f r)" using rows(7) by blast
      moreover have "inv_invoiceNumber r = draft_number (inv_id r)
          \<or> issued_number (inv_tenantId r) (inv_invoiceNumber r) (invoiceNumberSequences db')"
        using 2(1) assms(2) rows(5) by (auto simp: numbers_ok_def intro: issued_number_grows)
      ultimately show ?thesis using keep [of r] by (auto simp: numbered_def 2(3))
    qed
  qed
next
  case (recomputed db1 i t now ids row db2)
  have "numbers_ok db1"
    using recomputed(1,5) assms(2) by (auto simp: numbers_ok_def adds_draft_def intro: issued_number_grows)
  with recompute_numbers [OF recomputed(4)] show ?thesis using recomputed by (simp add: numbers_ok_def)
qed

section \<open>The operations\<close>

lemma live_found:
  assumes "select_first (live_invoice t i) R = Some r"
  shows "r \<in> set R" "inv_id r = i" "inv_tenantId r = t" "inv_deletedAt r = None"
  using select_first_SomeD [OF assms] by (auto simp: live_invoice_def)

lemma requireDraft_Inr [simp]:
  "requireDraft t i db = Inr r \<longleftrightarrow> select_first (live_invoice t i) (invoices db) = Some r \<and> inv_status r = Inv_draft"
  by (auto simp: requireDraft_def)

text \<open>With ids distinct an update of the invoice that was found touches that row only.\<close>

lemma effect_row:
  assumes inv: "ledger_inv S db" and found: "select_first (live_invoice t i) (invoices db) = Some r"
    and new: "invoices db' = update_where (own_invoice t i) f (invoices db)"
    and frame: "invoiceLineItems db' = invoiceLineItems db" "payments db' = payments db"
      "invoiceTaxes db' = invoiceTaxes db" "seqs_grow (invoiceNumberSequences db) (invoiceNumberSequences db')"
    and money: "\<And>r. money (f r) = money r" and ok: "allowed r (f r)" "numbered db' r (f r)"
  shows "invoice_effect S db db'"
proof (rule invoice_effect.rows [OF new frame money])
  fix x assume "x \<in> set (invoices db)" "own_invoice t i x"
  moreover have "distinct (map inv_id (invoices db))" using inv by (simp add: ledger_inv_def)
  ultimately have "x = r" using live_found [OF found] by (auto simp: own_invoice_def distinct_map inj_on_def)
  then show "allowed x (f x) \<and> numbered db' x (f x)" using ok by simp
qed

lemma recompute_and_return_cases:
  assumes "recompute_and_return t now ids i db = Inr (r, db')"
  obtains row where "recomputeTotals t now ids i db = Inr (row, db')"
  using assms by (auto simp: recompute_and_return_def)

text \<open>Changing lines of a draft, or payments of an issued invoice, and recomputing it.\<close>

lemma effect_lines:
  assumes inv: "ledger_inv S db" and found: "select_first (live_invoice t i) (invoices db) = Some r"
    and draft: "inv_status r = Inv_draft"
    and ok: "recompute_and_return t now ids i (db\<lparr>invoiceLineItems := L\<rparr>) = Inr (r', db')"
    and ex: "ledger_except S i (db\<lparr>invoiceLineItems := L\<rparr>)"
    and keep: "\<And>j. j \<noteq> i \<Longrightarrow> lines_for j L = lines_for j (invoiceLineItems db)"
  shows "invoice_effect S db db'"
proof -
  from ok obtain row where row: "recomputeTotals t now ids i (db\<lparr>invoiceLineItems := L\<rparr>) = Inr (row, db')"
    by (rule recompute_and_return_cases)
  have only: "inv_id x = i \<Longrightarrow> x \<in> set (invoices db) \<Longrightarrow> x = r" for x
    using inv live_found [OF found] by (auto simp: ledger_inv_def distinct_map inj_on_def)
  have "keeps_lines db (db\<lparr>invoiceLineItems := L\<rparr>)"
    using keep only draft by (auto simp: keeps_lines_def)
  then show ?thesis
    by (intro invoice_effect.recomputed [OF _ _ ex row]) (simp_all add: adds_draft_def)
qed

lemma lines_for_update:
  assumes "\<And>x. x \<in> set L \<Longrightarrow> Q x \<Longrightarrow> li_invoiceId x = i" "\<And>x. li_invoiceId (f x) = li_invoiceId x" "j \<noteq> i"
  shows "lines_for j (update_where Q f L) = lines_for j L"
  using assms by (induction L) (auto simp: lines_for_def update_where_def)

lemma pays_for_update:
  assumes "\<And>x. x \<in> set P \<Longrightarrow> Q x \<Longrightarrow> pay_invoiceId x = i" "\<And>x. pay_invoiceId (f x) = pay_invoiceId x" "j \<noteq> i"
  shows "pays_for j (update_where Q f P) = pays_for j P"
  using assms by (induction P) (auto simp: pays_for_def update_where_def)

lemma ledger_lines_change:
  assumes "ledger_inv S db" "distinct (map li_id L)" "\<And>j. j \<noteq> i \<Longrightarrow> lines_for j L = lines_for j (invoiceLineItems db)"
    "\<And>l. l \<in> set L \<Longrightarrow> child_ok (invoices db) (li_tenantId l, li_invoiceId l)"
  shows "ledger_except S i (db\<lparr>invoiceLineItems := L\<rparr>)"
  using ledger_except [OF assms(1), of i] assms(2-) by (auto simp: ledger_except_def children_ok_def invoice_ok_def)

lemma ledger_payments_change:
  assumes inv: "ledger_inv S db" and "distinct (map pay_id P)"
    and other: "\<And>j. j \<noteq> i \<Longrightarrow> pays_for j P = pays_for j (payments db)"
    and "\<And>p. p \<in> set P \<Longrightarrow> child_ok (invoices db) (pay_tenantId p, pay_invoiceId p)"
    and r: "r \<in> set (invoices db)" "inv_id r = i" "inv_status r \<noteq> Inv_draft"
  shows "ledger_except S i (db\<lparr>payments := P\<rparr>)"
proof -
  have only: "inv_id x = i \<Longrightarrow> x \<in> set (invoices db) \<Longrightarrow> x = r" for x
    using inv r by (auto simp: ledger_inv_def distinct_map inj_on_def)
  have "inv_status r \<noteq> Inv_refunded" using inv r by (auto simp: ledger_inv_def invoice_ok_def status_ok_def)
  moreover have "draft_ok (pays_for i P) r" using r by (simp add: draft_ok_def)
  ultimately show ?thesis
    using inv assms(2,4) other only
    by (auto simp: ledger_inv_def ledger_except_def children_ok_def invoice_ok_def)
qed

lemma updateInvoice_effect:
  assumes "ledger_inv S db" "updateInvoice ctx now i p db = Inr (r, db')"
  shows "invoice_effect S db db'"
proof -
  from assms(2) obtain x where x: "select_first (live_invoice (ctx_tenantId ctx) i) (invoices db) = Some x"
      "inv_status x = Inv_draft"
      "db' = db\<lparr>invoices := update_where (own_invoice (ctx_tenantId ctx) i) (edited_invoice now p) (invoices db)\<rparr>"
    by (auto simp: updateInvoice_def Let_def)
  show ?thesis
    by (rule effect_row [OF assms(1) x(1), where f = "edited_invoice now p"])
      (simp_all add: x edited_invoice_def money_def allowed_def numbered_def)
qed

lemma addLineItem_effect:
  assumes "ledger_inv S db" "addLineItem ctx now newId txIds i p db = Inr (r, db')"
    "newId \<notin> li_id ` set (invoiceLineItems db)"
  shows "invoice_effect S db db'"
proof -
  let ?t = "ctx_tenantId ctx"
  from assms(2) obtain x db1 where x: "select_first (live_invoice ?t i) (invoices db) = Some x"
      "inv_status x = Inv_draft"
      and ins: "insert_line ?t i newId (line_of_input (last_line_number ?t i db + 1) p) db = Inr db1"
      and re: "recompute_and_return ?t now txIds i db1 = Inr (r, db')"
    by (auto simp: addLineItem_def Let_def)
  note x' = live_found [OF x(1)]
  from ins obtain l where l: "db1 = db\<lparr>invoiceLineItems := invoiceLineItems db @ [l]\<rparr>" "li_id l = newId"
      "li_tenantId l = ?t" "li_invoiceId l = i" by (rule insert_line_cases)
  have "child_ok (invoices db) (?t, i)" using x' by (auto simp: child_ok_def)
  with insert_line_ledger [OF ledger_except [OF assms(1)] ins assms(3)]
  have ex: "ledger_except S i (db\<lparr>invoiceLineItems := invoiceLineItems db @ [l]\<rparr>)" by (simp add: l(1))
  from re have re': "recompute_and_return ?t now txIds i
      (db\<lparr>invoiceLineItems := invoiceLineItems db @ [l]\<rparr>) = Inr (r, db')" by (simp add: l(1))
  show ?thesis by (rule effect_lines [OF assms(1) x re' ex]) (simp add: lines_for_def l)
qed

lemma updateLineItem_effect:
  assumes inv: "ledger_inv S db" and ok: "updateLineItem ctx now txIds i k p db = Inr (r, db')"
  shows "invoice_effect S db db'"
proof -
  let ?t = "ctx_tenantId ctx" and ?Q = "\<lambda>x. li_tenantId x = ctx_tenantId ctx \<and> li_id x = k"
  from ok obtain x l q rate where x: "select_first (live_invoice ?t i) (invoices db) = Some x"
      "inv_status x = Inv_draft"
      and l: "select_first (\<lambda>l. own_line ?t i l \<and> li_id l = k) (invoiceLineItems db) = Some l"
      and re: "recompute_and_return ?t now txIds i (db\<lparr>invoiceLineItems :=
        update_where ?Q (edited_line p q rate) (invoiceLineItems db)\<rparr>) = Inr (r, db')"
    by (auto simp: updateLineItem_def Let_def)
  let ?L = "update_where ?Q (edited_line p q rate) (invoiceLineItems db)"
  have l': "l \<in> set (invoiceLineItems db)" "li_id l = k" "li_invoiceId l = i"
    using select_first_SomeD [OF l] by (auto simp: own_line_def)
  have keeps: "li_id (edited_line p q rate y) = li_id y \<and> li_invoiceId (edited_line p q rate y) = li_invoiceId y
      \<and> li_tenantId (edited_line p q rate y) = li_tenantId y" for y by (simp add: edited_line_def)
  have d: "distinct (map li_id (invoiceLineItems db))" using inv by (simp add: ledger_inv_def)
  have "li_invoiceId y = i" if "y \<in> set (invoiceLineItems db)" "?Q y" for y
    using d l' that by (auto simp: distinct_map inj_on_def)
  then have other: "j \<noteq> i \<Longrightarrow> lines_for j ?L = lines_for j (invoiceLineItems db)" for j
    using keeps by (intro lines_for_update) auto
  have "distinct (map li_id ?L)" using d keeps by (simp add: map_update_where)
  moreover have "child_ok (invoices db) (li_tenantId y, li_invoiceId y)" if "y \<in> set ?L" for y
    using inv that keeps by (auto simp: ledger_inv_def children_ok_def dest!: in_update_where)
  ultimately have "ledger_except S i (db\<lparr>invoiceLineItems := ?L\<rparr>)"
    using ledger_lines_change [OF inv, of ?L i] other by blast
  then show ?thesis using re other by (intro effect_lines [OF inv x])
qed

lemma deleteLineItem_effect:
  assumes inv: "ledger_inv S db" and ok: "deleteLineItem ctx now txIds i k db = Inr (r, db')"
  shows "invoice_effect S db db'"
proof -
  let ?t = "ctx_tenantId ctx"
  let ?L = "delete_where (\<lambda>l. own_line ?t i l \<and> li_id l = k) (invoiceLineItems db)"
  from ok obtain x where x: "select_first (live_invoice ?t i) (invoices db) = Some x"
      "inv_status x = Inv_draft"
      and re: "recompute_and_return ?t now txIds i (db\<lparr>invoiceLineItems := ?L\<rparr>) = Inr (r, db')"
    by (auto simp: deleteLineItem_def Let_def)
  have other: "j \<noteq> i \<Longrightarrow> lines_for j ?L = lines_for j (invoiceLineItems db)" for j
    by (auto simp: lines_for_def delete_where_def own_line_def intro!: filter_cong)
  have "distinct (map li_id ?L)"
    using inv by (auto simp: ledger_inv_def delete_where_def distinct_map_filter)
  moreover have "child_ok (invoices db) (li_tenantId y, li_invoiceId y)" if "y \<in> set ?L" for y
    using inv that by (auto simp: ledger_inv_def children_ok_def delete_where_def)
  ultimately have "ledger_except S i (db\<lparr>invoiceLineItems := ?L\<rparr>)"
    using ledger_lines_change [OF inv, of ?L i] other by blast
  then show ?thesis using re other by (intro effect_lines [OF inv x])
qed

lemma issue_cases:
  assumes "issue ctx now i db = Inr (r, db')"
  obtains "db' = db"
  | x number db1 where "select_first (live_invoice (ctx_tenantId ctx) i) (invoices db) = Some x"
      "inv_status x = Inv_draft" "allocateInvoiceNumber (ctx_tenantId ctx) now db = (number, db1)"
      "db' = db1\<lparr>invoices := update_where (own_invoice (ctx_tenantId ctx) i) (issued_row now number) (invoices db1)\<rparr>"
      "select_first (live_invoice (ctx_tenantId ctx) i) (invoices db') = Some r"
  using assms by (auto simp: issue_def Let_def split: prod.splits if_splits)

lemma issued_row_allowed: "inv_status r = Inv_draft \<Longrightarrow> allowed r (issued_row now n r)"
  by (simp add: issued_row_def allowed_def money_def open_status_def)

lemma issue_effect:
  assumes inv: "ledger_inv S db" and ok: "issue ctx now i db = Inr (r, db')"
  shows "invoice_effect S db db'"
  using ok
proof (cases rule: issue_cases)
  case 1
  then show ?thesis by (simp add: effect_none)
next
  case (2 x number db1)
  from 2(3) obtain S where db1: "db1 = db\<lparr>invoiceNumberSequences := S\<rparr>"
    by (rule allocateInvoiceNumber_cases)
  then have same: "invoices db1 = invoices db" "invoiceLineItems db1 = invoiceLineItems db"
      "payments db1 = payments db" "invoiceTaxes db1 = invoiceTaxes db"
    by simp_all
  note a = allocated_issued [OF 2(3)] and x = live_found [OF 2(1)]
  show ?thesis
    by (rule effect_row [OF inv 2(1), where f = "issued_row now number"])
      (use 2 a x in \<open>auto simp: same issued_row_allowed numbered_def issued_row_def money_def allowed_def open_status_def\<close>)
qed

lemma markSent_effect:
  assumes inv: "ledger_inv S db" and ok: "markSent ctx now i db = Inr (r, db')"
  shows "invoice_effect S db db'"
proof -
  let ?f = "\<lambda>x. x\<lparr>inv_status := Inv_sent, inv_updatedAt := now\<rparr>"
  from ok consider "db' = db" | x where
      "select_first (live_invoice (ctx_tenantId ctx) i) (invoices db) = Some x" "inv_status x = Inv_issued"
      "db' = db\<lparr>invoices := update_where (own_invoice (ctx_tenantId ctx) i) ?f (invoices db)\<rparr>"
    by (auto simp: markSent_def Let_def split: if_splits)
  then show ?thesis
  proof cases
    case 1
    then show ?thesis by (simp add: effect_none)
  next
    case (2 x)
    show ?thesis
      by (rule effect_row [OF inv 2(1), where f = ?f])
        (use 2 in \<open>auto simp: allowed_def numbered_def money_def doc_def open_status_def\<close>)
  qed
qed

lemma voidInvoice_effect:
  assumes inv: "ledger_inv S db" and ok: "voidInvoice ctx now i reason db = Inr (r, db')"
  shows "invoice_effect S db db'"
proof -
  from ok obtain x where x: "select_first (live_invoice (ctx_tenantId ctx) i) (invoices db) = Some x"
      "db' = db\<lparr>invoices := update_where (own_invoice (ctx_tenantId ctx) i) (voided_row now reason) (invoices db)\<rparr>"
    by (auto simp: voidInvoice_def Let_def)
  show ?thesis
    by (rule effect_row [OF inv x(1), where f = "voided_row now reason"])
      (use x in \<open>auto simp: allowed_def numbered_def money_def doc_def voided_row_def\<close>)
qed

lemma markOverdueSweep_effect:
  assumes "markOverdueSweep ctx now db = (n, db')"
  shows "invoice_effect S db db'"
proof (rule invoice_effect.rows [where Q = "overdue_due (ctx_tenantId ctx) now"
      and f = "\<lambda>r. r\<lparr>inv_status := Inv_overdue, inv_updatedAt := now\<rparr>"])
  fix r assume "overdue_due (ctx_tenantId ctx) now r"
  then show "allowed r (r\<lparr>inv_status := Inv_overdue, inv_updatedAt := now\<rparr>)
      \<and> numbered db' r (r\<lparr>inv_status := Inv_overdue, inv_updatedAt := now\<rparr>)"
    by (auto simp: overdue_due_def allowed_def numbered_def money_def doc_def open_status_def)
qed (use assms in \<open>auto simp: markOverdueSweep_def Let_def money_def\<close>)

lemma effect_payments:
  assumes inv: "ledger_inv S db" and found: "r \<in> set (invoices db)" "inv_id r = i" "inv_status r \<noteq> Inv_draft"
    and ok: "recompute_and_return t now ids i db1 = Inr (r', db')"
    and db1: "invoices db1 = invoices db" "invoiceLineItems db1 = invoiceLineItems db"
      "payments db1 = P" "invoiceTaxes db1 = invoiceTaxes db"
      "seqs_grow (invoiceNumberSequences db) (invoiceNumberSequences db1)"
    and P: "distinct (map pay_id P)" "\<And>j. j \<noteq> i \<Longrightarrow> pays_for j P = pays_for j (payments db)"
      "\<And>p. p \<in> set P \<Longrightarrow> child_ok (invoices db) (pay_tenantId p, pay_invoiceId p)"
  shows "invoice_effect S db db'"
proof -
  from ok obtain row where row: "recomputeTotals t now ids i db1 = Inr (row, db')"
    by (rule recompute_and_return_cases)
  have "ledger_except S i (db\<lparr>payments := P\<rparr>)" by (rule ledger_payments_change [OF inv P found])
  then have "ledger_except S i db1" by (simp add: ledger_except_def db1 cong: if_cong)
  then show ?thesis
    by (intro invoice_effect.recomputed [OF _ _ _ row]) (simp_all add: adds_draft_def keeps_lines_def db1)
qed

lemma manual_payment_keys [simp]:
  "pay_id (manual_payment ctx now newId i amount meth ref got status nt) = newId"
  "pay_tenantId (manual_payment ctx now newId i amount meth ref got status nt) = ctx_tenantId ctx"
  "pay_invoiceId (manual_payment ctx now newId i amount meth ref got status nt) = i"
  by (simp_all add: manual_payment_def)

lemma recordPayment_effect:
  assumes inv: "ledger_inv S db" and ok: "recordPayment ctx now newId txIds p db = Inr (r, db')"
    and new: "newId \<notin> pay_id ` set (payments db)"
  shows "invoice_effect S db db'"
proof -
  let ?t = "ctx_tenantId ctx" and ?i = "pi_invoiceId p"
  from ok obtain x amount meth ref got status nt row where
      x: "select_first (live_invoice ?t ?i) (invoices db) = Some x" "inv_status x \<noteq> Inv_draft"
      and re: "recompute_and_return ?t now txIds ?i (db\<lparr>payments := payments db
        @ [manual_payment ctx now newId ?i amount meth ref got status nt]\<rparr>) = Inr (row, db')"
    by (auto simp: recordPayment_def Let_def insert_into_def)
  let ?pay = "manual_payment ctx now newId ?i amount meth ref got status nt"
  note f = live_found [OF x(1)]
  show ?thesis
  proof (rule effect_payments [OF inv f(1,2) x(2) re])
    show "distinct (map pay_id (payments db @ [?pay]))" using inv new by (auto simp: ledger_inv_def)
    show "child_ok (invoices db) (pay_tenantId q, pay_invoiceId q)" if "q \<in> set (payments db @ [?pay])" for q
      using that inv f by (auto simp: ledger_inv_def children_ok_def child_ok_def)
  qed (auto simp: pays_for_def)
qed

lemma voidPayment_effect:
  assumes inv: "ledger_inv S db" and ok: "voidPayment ctx now txIds k db = Inr (r, db')"
  shows "invoice_effect S db db'"
proof -
  let ?t = "ctx_tenantId ctx"
  let ?Q = "\<lambda>p. pay_tenantId p = ?t \<and> pay_id p = k"
  let ?f = "\<lambda>p. p\<lparr>pay_status := Pay_refunded, pay_deletedAt := Some now, pay_updatedAt := now\<rparr> :: payment_row"
  from ok obtain pay where pay: "select_first (\<lambda>p. pay_tenantId p = ?t \<and> pay_id p = k \<and> pay_deletedAt p = None)
        (payments db) = Some pay"
      and re: "recompute_and_return ?t now txIds (pay_invoiceId pay)
        (db\<lparr>payments := update_where ?Q ?f (payments db)\<rparr>) = Inr (r, db')"
    by (auto simp: voidPayment_def Let_def)
  have p: "pay \<in> set (payments db)" "pay_id pay = k"
    using select_first_SomeD [OF pay] by auto
  then obtain x where x: "x \<in> set (invoices db)" "inv_id x = pay_invoiceId pay"
    using inv by (auto simp: ledger_inv_def children_ok_def child_ok_def)
  have "pays_for (inv_id x) (payments db) \<noteq> []" using p x by (auto simp: pays_for_def filter_empty_conv)
  then have draft: "inv_status x \<noteq> Inv_draft" using inv x by (auto simp: ledger_inv_def invoice_ok_def draft_ok_def)
  have d: "distinct (map pay_id (payments db))" using inv by (simp add: ledger_inv_def)
  show ?thesis
  proof (rule effect_payments [OF inv x draft re])
    show "distinct (map pay_id (update_where ?Q ?f (payments db)))" using d by (simp add: map_update_where)
    have "pay_invoiceId q = pay_invoiceId pay" if "q \<in> set (payments db)" "?Q q" for q
      using d p that by (auto simp: distinct_map inj_on_def)
    then show "pays_for j (update_where ?Q ?f (payments db)) = pays_for j (payments db)"
      if "j \<noteq> pay_invoiceId pay" for j using that by (intro pays_for_update) auto
    show "child_ok (invoices db) (pay_tenantId q, pay_invoiceId q)"
      if "q \<in> set (update_where ?Q ?f (payments db))" for q
      using that inv by (auto simp: ledger_inv_def children_ok_def dest!: in_update_where)
  qed simp_all
qed

lemma createCreditMemo_effect:
  assumes inv: "ledger_inv S db" and ok: "createCreditMemo ctx now newId payId txIds p db = Inr (r, db')"
    and new: "payId \<notin> pay_id ` set (payments db)"
  shows "invoice_effect S db db'"
proof -
  let ?t = "ctx_tenantId ctx" and ?i = "mi_originalInvoiceId p"
  obtain number db1 where al: "allocateMemoNumber ?t now db = (number, db1)" by fastforce
  then obtain S where S: "db1 = db\<lparr>invoiceNumberSequences := S\<rparr>" "seqs_grow (invoiceNumberSequences db) S"
    by (auto simp: allocateMemoNumber_def Let_def split: prod.splits intro: seqs_grow_bump)
  from ok al obtain x where x: "select_first (live_invoice ?t ?i) (invoices db) = Some x"
      "inv_status x \<noteq> Inv_draft"
    by (auto simp: createCreditMemo_def Let_def)
  note f = live_found [OF x(1)]
  let ?M = "creditMemos db @ [memo_of ctx now newId number p]"
  from ok al S x consider "db' = db\<lparr>invoiceNumberSequences := S, creditMemos := ?M\<rparr>"
    | row amount ref nt where "recompute_and_return ?t now txIds ?i (db\<lparr>invoiceNumberSequences := S, creditMemos := ?M,
        payments := payments db @ [manual_payment ctx now payId ?i amount Method_write_off ref now Pay_cleared nt]\<rparr>)
        = Inr (row, db')"
    by (cases "mi_appliedTo p") (auto simp: createCreditMemo_def Let_def insert_into_def)
  then show ?thesis
  proof cases
    case 1
    then show ?thesis using S by (intro effect_none) simp_all
  next
    case (2 row amount ref nt)
    show ?thesis
    proof (rule effect_payments [OF inv f(1,2) x(2) 2])
      let ?pay = "manual_payment ctx now payId ?i amount Method_write_off ref now Pay_cleared nt"
      show "distinct (map pay_id (payments db @ [?pay]))" using inv new by (auto simp: ledger_inv_def)
      show "child_ok (invoices db) (pay_tenantId q, pay_invoiceId q)" if "q \<in> set (payments db @ [?pay])" for q
        using that inv f by (auto simp: ledger_inv_def children_ok_def child_ok_def)
    qed (auto simp: pays_for_def S)
  qed
qed

text \<open>A new draft with its lines.\<close>

lemma effect_new:
  assumes inv: "ledger_inv S db" and new: "i \<notin> inv_id ` set (invoices db)" "inj ids"
    "range ids \<inter> li_id ` set (invoiceLineItems db) = {}"
    and ins: "insertDraftInvoice ctx now i args db = Inr db1"
    and lines: "insert_lines (ctx_tenantId ctx) i ids ds db1 = Inr db2"
    and re: "recomputeTotals (ctx_tenantId ctx) now txIds i db2 = Inr (row, db3)"
    and db': "invoices db' = invoices db3" "invoiceLineItems db' = invoiceLineItems db3"
      "payments db' = payments db3" "invoiceTaxes db' = invoiceTaxes db3"
      "invoiceNumberSequences db' = invoiceNumberSequences db3"
  shows "invoice_effect S db db'"
proof -
  note d = insert_draft_ledger [OF inv new(1) ins] and fr = insert_lines_frame [OF lines]
  have "ids ` {..<length ds} \<inter> li_id ` set (invoiceLineItems db1) = {}" using new(3) d by auto
  then have ex: "ledger_except S i db2"
    using insert_lines_ledger [OF _ lines new(2)] d by blast
  have "adds_draft (invoices db) (invoices db2)"
    using d fr(1) by (auto simp: adds_draft_def draft_row_def)
  moreover have "keeps_lines db db2"
    unfolding keeps_lines_def
  proof (intro ballI impI)
    fix r assume "r \<in> set (invoices db)"
    then have "inv_id r \<noteq> i" using new(1) by auto
    then show "lines_for (inv_id r) (invoiceLineItems db2) = lines_for (inv_id r) (invoiceLineItems db)"
      using fr(5) d by simp
  qed
  moreover have "seqs_grow (invoiceNumberSequences db) (invoiceNumberSequences db2)" using fr(4) d by simp
  ultimately show ?thesis by (intro invoice_effect.recomputed [OF _ _ ex re]) (simp_all add: db')
qed

lemma createManual_effect:
  assumes "ledger_inv S db" "createManual ctx now i ids txIds inp db = Inr (r, db')"
    "i \<notin> inv_id ` set (invoices db)" "inj ids" "range ids \<inter> li_id ` set (invoiceLineItems db) = {}"
  shows "invoice_effect S db db'"
proof -
  from assms(2) obtain args db1 ds db2 where "insertDraftInvoice ctx now i args db = Inr db1"
      "insert_lines (ctx_tenantId ctx) i ids ds db1 = Inr db2"
      "recomputeTotals (ctx_tenantId ctx) now txIds i db2 = Inr (r, db')"
    by (auto simp: createManual_def Let_def)
  then show ?thesis by (rule effect_new [OF assms(1,3-5)]) simp_all
qed

lemma generateFromJob_effect:
  assumes "ledger_inv S db" "generateFromJob ctx now i ids txIds comIds crewId jobId db = Inr (r, db')"
    "i \<notin> inv_id ` set (invoices db)" "inj ids" "range ids \<inter> li_id ` set (invoiceLineItems db) = {}"
  shows "invoice_effect S db db'"
proof -
  let ?t = "ctx_tenantId ctx"
  from assms(2) consider "db' = db"
    | args db1 ds db2 row db3 where "insertDraftInvoice ctx now i args db = Inr db1"
      "insert_lines ?t i ids ds db1 = Inr db2" "recomputeTotals ?t now txIds i db2 = Inr (row, db3)"
      "seedDraftCommissions ctx comIds crewId i jobId db3 = Inr db'"
    by (auto simp: generateFromJob_def Let_def split: option.splits)
  then show ?thesis
  proof cases
    case 1
    then show ?thesis by (simp add: effect_none)
  next
    case 2
    then show ?thesis
      by (intro effect_new [OF assms(1,3-5) 2(1-3)]) (simp_all add: seedDraftCommissions_frame [OF 2(4)])
  qed
qed

lemma schedule_effect:
  "createRecurringSchedule ctx newId p db = Inr (r, db') \<Longrightarrow> invoice_effect S db db'"
  "endRecurringSchedule ctx now i db = Inr (r', db') \<Longrightarrow> invoice_effect S db db'"
  by (auto simp: createRecurringSchedule_def endRecurringSchedule_def Let_def intro!: effect_none
      split: prod.splits)

section \<open>Runs\<close>

text \<open>One committed operation; a failing one is rolled back and is no step.  Generated ids are new.
  The other services write tables the ledger does not consist of.\<close>

definition new_lines :: "(nat \<Rightarrow> uuid) \<Rightarrow> 'a billing_db_scheme \<Rightarrow> bool" where
  "new_lines ids db \<longleftrightarrow> inj ids \<and> range ids \<inter> li_id ` set (invoiceLineItems db) = {}"

inductive billing_step :: "'a billing_db_scheme \<Rightarrow> 'a billing_db_scheme \<Rightarrow> bool" where
  created: "createManual ctx now i ids txIds inp db = Inr (r, db') \<Longrightarrow> i \<notin> inv_id ` set (invoices db) \<Longrightarrow>
    new_lines ids db \<Longrightarrow> billing_step db db'"
| generated: "generateFromJob ctx now i ids txIds comIds crewId jobId db = Inr (x, db') \<Longrightarrow>
    i \<notin> inv_id ` set (invoices db) \<Longrightarrow> new_lines ids db \<Longrightarrow> billing_step db db'"
| edited: "updateInvoice ctx now i upd db = Inr (r, db') \<Longrightarrow> billing_step db db'"
| line_added: "addLineItem ctx now k txIds i new db = Inr (r, db') \<Longrightarrow>
    k \<notin> li_id ` set (invoiceLineItems db) \<Longrightarrow> billing_step db db'"
| line_edited: "updateLineItem ctx now txIds i k ul db = Inr (r, db') \<Longrightarrow> billing_step db db'"
| line_deleted: "deleteLineItem ctx now txIds i k db = Inr (r, db') \<Longrightarrow> billing_step db db'"
| issued: "issue ctx now i db = Inr (r, db') \<Longrightarrow> billing_step db db'"
| sent: "markSent ctx now i db = Inr (r, db') \<Longrightarrow> billing_step db db'"
| voided: "voidInvoice ctx now i reason db = Inr (r, db') \<Longrightarrow> billing_step db db'"
| paid: "recordPayment ctx now k txIds p db = Inr (y, db') \<Longrightarrow> k \<notin> pay_id ` set (payments db) \<Longrightarrow>
    billing_step db db'"
| payment_voided: "voidPayment ctx now txIds k db = Inr (r, db') \<Longrightarrow> billing_step db db'"
| credited: "createCreditMemo ctx now m k txIds c db = Inr (z, db') \<Longrightarrow> k \<notin> pay_id ` set (payments db) \<Longrightarrow>
    billing_step db db'"
| swept: "markOverdueSweep ctx now db = (n, db') \<Longrightarrow> billing_step db db'"
| schedule_created: "createRecurringSchedule ctx k sp db = Inr (q, db') \<Longrightarrow> billing_step db db'"
| schedule_ended: "endRecurringSchedule ctx now k db = Inr (q, db') \<Longrightarrow> billing_step db db'"
| elsewhere: "invoices db' = invoices db \<Longrightarrow> invoiceLineItems db' = invoiceLineItems db \<Longrightarrow>
    payments db' = payments db \<Longrightarrow> invoiceTaxes db' = invoiceTaxes db \<Longrightarrow>
    invoiceNumberSequences db' = invoiceNumberSequences db \<Longrightarrow> billing_step db db'"

definition no_billing :: "'a billing_db_scheme \<Rightarrow> bool" where
  "no_billing db \<longleftrightarrow> invoices db = [] \<and> invoiceLineItems db = [] \<and> payments db = [] \<and> invoiceTaxes db = []
     \<and> invoiceNumberSequences db = []"

definition billing_reachable :: "'a billing_db_scheme \<Rightarrow> bool" where
  "billing_reachable db \<longleftrightarrow> (\<exists>db0. no_billing db0 \<and> billing_step\<^sup>*\<^sup>* db0 db)"

lemma billing_step_effect:
  assumes "billing_step db db'" "ledger_inv S db"
  shows "invoice_effect S db db'"
  using assms(1)
proof cases
  case (created ctx now i ids txIds inp r)
  then show ?thesis using createManual_effect assms(2) unfolding new_lines_def by metis
next
  case (generated ctx now i ids txIds comIds crewId jobId x)
  then show ?thesis using generateFromJob_effect assms(2) unfolding new_lines_def by (metis surj_pair)
next
  case edited
  then show ?thesis using updateInvoice_effect assms(2) by metis
next
  case line_added
  then show ?thesis using addLineItem_effect assms(2) by metis
next
  case line_edited
  then show ?thesis using updateLineItem_effect assms(2) by metis
next
  case line_deleted
  then show ?thesis using deleteLineItem_effect assms(2) by metis
next
  case issued
  then show ?thesis using issue_effect assms(2) by metis
next
  case sent
  then show ?thesis using markSent_effect assms(2) by metis
next
  case voided
  then show ?thesis using voidInvoice_effect assms(2) by metis
next
  case paid
  then show ?thesis using recordPayment_effect assms(2) by metis
next
  case payment_voided
  then show ?thesis using voidPayment_effect assms(2) by metis
next
  case credited
  then show ?thesis using createCreditMemo_effect assms(2) by metis
next
  case swept
  then show ?thesis using markOverdueSweep_effect by metis
next
  case schedule_created
  then show ?thesis using schedule_effect by metis
next
  case schedule_ended
  then show ?thesis using schedule_effect by metis
next
  case elsewhere
  then show ?thesis by (simp add: effect_none)
qed

lemma billing_steps_ledger:
  assumes "billing_step\<^sup>*\<^sup>* db db'" "ledger_inv S db"
  shows "ledger_inv S db'"
  using assms by (induction rule: rtranclp_induct) (auto intro: effect_ledger billing_step_effect)

lemma no_billing_start: "no_billing db \<Longrightarrow> ledger_inv S db \<and> numbers_ok db"
  by (simp add: no_billing_def ledger_inv_def children_ok_def numbers_ok_def)

lemma billing_reachable_inv:
  assumes "billing_reachable db"
  shows "ledger_inv S db" "numbers_ok db"
proof -
  from assms obtain db0 where db0: "no_billing db0" "billing_step\<^sup>*\<^sup>* db0 db"
    by (auto simp: billing_reachable_def)
  from db0(2) have "ledger_inv S db \<and> numbers_ok db"
    by (induction rule: rtranclp_induct)
      (use no_billing_start [OF db0(1)] in \<open>auto intro: effect_ledger effect_numbers billing_step_effect\<close>)
  then show "ledger_inv S db" "numbers_ok db" by auto
qed

lemma billing_reachable_step: "billing_reachable db \<Longrightarrow> billing_step db db' \<Longrightarrow> billing_reachable db'"
  by (meson billing_reachable_def rtranclp.rtrancl_into_rtrancl)

lemma billing_steps_frozen:
  assumes "billing_step\<^sup>*\<^sup>* db db'" "ledger_inv S db" "r \<in> set (invoices db)" "inv_status r \<noteq> Inv_draft"
  shows "\<exists>r' \<in> set (invoices db'). frozen db db' r r'"
  using assms(1)
proof (induction rule: rtranclp_induct)
  case base
  then show ?case using assms by (auto simp: frozen_def)
next
  case (step d d')
  then obtain q where q: "q \<in> set (invoices d)" "frozen db d r q" by blast
  have inv: "ledger_inv S d" using billing_steps_ledger [OF step(1) assms(2)] .
  from effect_frozen [OF billing_step_effect [OF step(2) inv] inv q(1)] q(2)
  obtain q' where q': "q' \<in> set (invoices d')" "frozen d d' q q'" by (auto simp: frozen_def)
  have "frozen db d' r q'" using q(2) q'(2) frozen_id [OF q(2)] by (simp add: frozen_def)
  then show ?case using q'(1) by blast
qed

end
