(* ===== verification/InvoiceProperties.thy ===== *)
theory InvoiceProperties
  imports InvoiceRuns "HOL-Library.Multiset"
begin

text \<open>
  The properties of the billing service: the ledger of a reachable database balances, payments
  refine deposits on an abstract account book, an issued invoice keeps its document, numbers are
  never handed out twice, and what the roundings of amounts, rates and shares guarantee.
\<close>

section \<open>An example ledger\<close>

text \<open>Tenant 1 in Ontario, whose owner bills a customer of that province and is paid.\<close>

definition bill_ctx :: ctx where
  "bill_ctx = \<lparr>ctx_tenantId = 1, ctx_userId = 7, ctx_role = Some Owner\<rparr>"

definition bill_rule :: "string \<Rightarrow> tax_type \<Rightarrow> string \<Rightarrow> decimal \<Rightarrow> tax_rule_row" where
  "bill_rule region ty name bps = \<lparr>tr_country = ''CA'', tr_region = Some region, tr_taxType = ty,
     tr_nameEn = name, tr_nameFr = name, tr_rateBps = bps, tr_displayOrder = 0, tr_effectiveAt = 0,
     tr_expiresAt = None, tr_tenantOverrideId = None\<rparr>"

definition bill_start :: billing_db where
  "bill_start = \<lparr>jobs = [], drivers = [], trucks = [], driverShifts = [], jobStatusTransitions = [],
     jobDriverAssignments = [], customers = [], vehicles = [], jobNumberSequences = [], events = [],
     invoices = [], invoiceLineItems = [], invoiceTaxes = [], payments = [], creditMemos = [],
     invoiceNumberSequences = [], taxRules = [bill_rule ''ON'' Tax_hst ''HST'' (1300, 0),
       bill_rule ''AB'' Tax_gst ''GST'' (500, 0)],
     tenants = [\<lparr>ten_id = 1, ten_country = ''CA'', ten_defaultLocale = ''en-CA'', ten_stripeAccountId = None,
       ten_stripeAccountStatus = Stripe_none, ten_stripeChargesEnabled = False,
       ten_stripePayoutsEnabled = False, ten_platformMarginBps = 0\<rparr>],
     accounts = [], billCustomers = [], recurringBillingSchedules = [], invoiceLineCommissions = [],
     jobRateBreakdown = (\<lambda>_. None), driverDefaultCommissionPct = (\<lambda>_. None)\<rparr>"

definition bill_to :: "string \<Rightarrow> bill_address" where
  "bill_to region = \<lparr>ba_name = Some ''Ann'', ba_street = None, ba_city = None, ba_state = Some region,
     ba_zip = None, ba_country = Some ''CA'', ba_email = None, ba_phone = None\<rparr>"

definition bill_input :: create_invoice_input where
  "bill_input = \<lparr>cinv_invoiceType = Manual_invoice, cinv_customerId = Some 30, cinv_accountId = None,
     cinv_jobId = None, cinv_terms = Some Net_30, cinv_notes = None, cinv_internalNotes = None,
     cinv_billingAddress = Some (bill_to ''ON''), cinv_lineItems =
       [\<lparr>lin_lineType = Line_service, lin_description = ''Tow'', lin_quantity = (1, 0), lin_unit = ''each'',
         lin_unitPriceCents = 10000, lin_taxable = True, lin_taxRatePct = (0, 0), lin_rateRuleId = None\<rparr>]\<rparr>"

definition commit :: "('s \<Rightarrow> exn + 'a \<times> 's) \<Rightarrow> 's \<Rightarrow> 's" where
  "commit f db = committed db (f db)"

definition bill_draft :: billing_db where
  "bill_draft = commit
     (createManual bill_ctx 1778284800000 500 (\<lambda>k. 600 + k) (\<lambda>k. 700 + k) bill_input) bill_start"

definition bill_issued :: billing_db where
  "bill_issued = commit (issue bill_ctx 1778284860000 500) bill_draft"

definition bill_payment :: payment_input where
  "bill_payment = \<lparr>pi_invoiceId = 500, pi_amountCents = 11300, pi_paymentMethod = Method_cash,
     pi_referenceNumber = None, pi_receivedAt = None, pi_notes = None, pi_status = None\<rparr>"

definition bill_paid :: billing_db where
  "bill_paid = commit
     (recordPayment bill_ctx 1778284920000 800 (\<lambda>k. 710 + k) bill_payment) bill_issued"

lemma bill_values:
  "map (\<lambda>r. (inv_id r, inv_status r, inv_totalCents r, inv_balanceCents r)) (invoices bill_draft)
     = [(500, Inv_draft, 11300, 11300)]"
  "map (\<lambda>r. (inv_id r, inv_status r, inv_invoiceNumber r, inv_balanceCents r)) (invoices bill_issued)
     = [(500, Inv_issued, ''INV-2026-0001'', 11300)]"
  "map (\<lambda>r. (inv_id r, inv_status r, inv_taxCents r, inv_balanceCents r)) (invoices bill_paid)
     = [(500, Inv_paid, 1300, 0)]"
  apply code_simp
  apply code_simp
  apply code_simp
  done

lemma commit_reachable:
  assumes "billing_reachable db" "\<And>x db'. f db = Inr (x, db') \<Longrightarrow> billing_step db db'"
  shows "billing_reachable (commit f db)"
  using assms by (auto simp: commit_def committed_def split: sum.split intro: billing_reachable_step)

lemma bill_reachable: "billing_reachable bill_start" "billing_reachable bill_draft"
  "billing_reachable bill_issued" "billing_reachable bill_paid"
proof -
  show s: "billing_reachable bill_start"
    unfolding billing_reachable_def
    by (intro exI [of _ bill_start]) (simp add: no_billing_def bill_start_def)
  show d: "billing_reachable bill_draft"
    unfolding bill_draft_def
    by (rule commit_reachable [OF s], rule billing_step.created)
      (auto simp: bill_start_def new_lines_def inj_def)
  show i: "billing_reachable bill_issued"
    unfolding bill_issued_def by (rule commit_reachable [OF d], rule billing_step.issued)
  have "payments bill_issued = []" by code_simp
  then show "billing_reachable bill_paid"
    unfolding bill_paid_def by (intro commit_reachable [OF i] billing_step.paid) auto
qed

section \<open>The ledger\<close>

text \<open>C13: On every database the billing operations reach, in any order and number, the totals of an
  invoice are those of its rows: subtotal the line totals, tax the tax rows, total their sum, paid
  the cleared payments that were not voided, balance the difference; and unless it is void it is
  paid exactly when it has a positive total that is covered.\<close>

theorem ledger_balances:
  assumes "billing_reachable db" "r \<in> set (invoices db)"
  shows "inv_subtotalCents r = (\<Sum>l \<leftarrow> filter (\<lambda>l. li_invoiceId l = inv_id r) (invoiceLineItems db). li_lineTotalCents l)
    \<and> inv_taxCents r = (\<Sum>x \<leftarrow> filter (\<lambda>x. tx_invoiceId x = inv_id r) (invoiceTaxes db). tx_taxAmountCents x)
    \<and> inv_totalCents r = inv_subtotalCents r + inv_taxCents r
    \<and> inv_paidCents r = (\<Sum>p \<leftarrow> filter (\<lambda>p. pay_invoiceId p = inv_id r \<and> pay_deletedAt p = None
        \<and> pay_status p = Pay_cleared) (payments db). pay_amountCents p)
    \<and> inv_balanceCents r = inv_totalCents r - inv_paidCents r
    \<and> (inv_status r = Inv_void
       \<or> (inv_status r = Inv_paid) = (0 < inv_totalCents r \<and> inv_totalCents r \<le> inv_paidCents r))"
proof -
  have ok: "invoice_ok {} (invoiceLineItems db) (payments db) (invoiceTaxes db) r"
    using billing_reachable_inv(1) [OF assms(1)] assms(2) by (simp add: ledger_inv_def)
  have "filter (\<lambda>p. pay_deletedAt p = None \<and> pay_status p = Pay_cleared) (pays_for (inv_id r) (payments db))
      = filter (\<lambda>p. pay_invoiceId p = inv_id r \<and> pay_deletedAt p = None \<and> pay_status p = Pay_cleared) (payments db)"
    by (auto simp: pays_for_def intro!: filter_cong)
  then show ?thesis using ok
    by (cases "inv_status r = Inv_void") (simp_all add: invoice_ok_def totals_ok_def status_ok_def
        charged_def taxed_def received_def lines_for_def taxes_for_def)
qed

theorem ledger_balances_witness:
  "\<exists>r \<in> set (invoices bill_paid). inv_status r = Inv_paid \<and> inv_balanceCents r = inv_totalCents r - inv_paidCents r"
proof -
  obtain r where r: "r \<in> set (invoices bill_paid)" "inv_status r = Inv_paid"
    using bill_values(3) by (auto simp: map_eq_Cons_conv)
  have "inv_balanceCents r = inv_totalCents r - inv_paidCents r"
    using ledger_balances [OF bill_reachable(4) r(1)] by (elim conjE)
  then show ?thesis using r by (intro bexI [of _ r]) simp_all
qed

text \<open>The account book the ledger implements: what was received against each invoice.\<close>

definition deposit :: "uuid \<Rightarrow> cents \<Rightarrow> (uuid \<Rightarrow> cents) \<Rightarrow> uuid \<Rightarrow> cents" where
  "deposit i a book = book(i := book i + a)"

definition book_of :: "'a billing_db_scheme \<Rightarrow> uuid \<Rightarrow> cents" where
  "book_of db i = (case find (\<lambda>r. inv_id r = i) (invoices db) of None \<Rightarrow> 0 | Some r \<Rightarrow> inv_paidCents r)"

definition counted :: "payment_row \<Rightarrow> cents" where
  "counted p = (if pay_deletedAt p = None \<and> pay_status p = Pay_cleared then pay_amountCents p else 0)"

lemma received_counted: "received P = sum_list (map counted P)"
  by (induction P) (auto simp: received_def counted_def)

lemma book_of_received:
  assumes "ledger_inv {} db"
  shows "book_of db i = received (pays_for i (payments db))"
proof (cases "find (\<lambda>r. inv_id r = i) (invoices db)")
  case None
  then have "i \<notin> inv_id ` set (invoices db)" by (auto simp: find_None_iff)
  then have "pays_for i (payments db) = []"
    using assms unfolding ledger_inv_def children_ok_def child_ok_def pays_for_def filter_empty_conv
    by (metis image_eqI snd_conv)
  then show ?thesis using None by (simp add: book_of_def received_def)
next
  case (Some r)
  then have "r \<in> set (invoices db)" "inv_id r = i" by (auto simp: find_Some_iff)
  then show ?thesis using Some assms by (auto simp: book_of_def ledger_inv_def invoice_ok_def totals_ok_def)
qed

lemma received_voided:
  assumes "distinct (map pay_id P)" "q \<in> set P" "\<And>p. p \<in> set P \<Longrightarrow> Q p \<longleftrightarrow> pay_id p = pay_id q"
    "\<And>p. counted (f p) = 0 \<and> pay_invoiceId (f p) = pay_invoiceId p"
  shows "received (pays_for j (update_where Q f P))
    = received (pays_for j P) - (if pay_invoiceId q = j then counted q else 0)"
  using assms
proof (induction P)
  case (Cons p P)
  show ?case
  proof (cases "p = q")
    case True
    have "\<not> Q x" if "x \<in> set P" for x
    proof -
      have "pay_id x \<in> pay_id ` set P" using that by simp
      then have "pay_id x \<noteq> pay_id q" using True Cons.prems(1) by auto
      then show ?thesis using Cons.prems(3) [of x] that by simp
    qed
    then have "update_where Q f P = P" by (induction P) (auto simp: update_where_def)
    then show ?thesis using True Cons.prems(3,4) by (simp add: update_where_def pays_for_def received_counted)
  next
    case False
    then have "q \<in> set P" using Cons.prems(2) by simp
    moreover from this have "\<not> Q p" using Cons.prems(1) Cons.prems(3) [of p] by auto
    moreover have "received (pays_for j (update_where Q f P))
        = received (pays_for j P) - (if pay_invoiceId q = j then counted q else 0)"
      using Cons \<open>q \<in> set P\<close> by simp
    ultimately show ?thesis by (simp add: update_where_def pays_for_def received_counted)
  qed
qed simp

lemma recompute_payments: "recompute_and_return t now ids i db = Inr (r, db') \<Longrightarrow> payments db' = payments db"
  by (auto elim!: recompute_and_return_cases recomputeTotals_cases)

lemma book_of_insert:
  assumes "ledger_inv {} db" "ledger_inv {} db'" "payments db' = payments db @ [p]"
  shows "book_of db' = deposit (pay_invoiceId p) (counted p) (book_of db)"
  using assms by (auto simp: fun_eq_iff deposit_def book_of_received received_counted pays_for_def)

text \<open>C14: Recording a payment deposits its amount on the invoice in the book when it is cleared;
  voiding a payment takes out what it had put in; a credit memo applied to its invoice is a deposit
  of its amount, one kept as customer credit none.  No other invoice's book entry changes.\<close>

theorem payments_refine_book:
  assumes "billing_reachable db" "k \<notin> pay_id ` set (payments db)"
  shows "(\<forall>x db'. recordPayment ctx now k txIds p db = Inr (x, db') \<longrightarrow>
      book_of db' = deposit (pi_invoiceId p)
        (if pi_status p = None \<or> pi_status p = Some Pay_cleared then pi_amountCents p else 0) (book_of db))
    \<and> (\<forall>x db' q. voidPayment ctx now txIds (pay_id q) db = Inr (x, db') \<and> q \<in> set (payments db) \<longrightarrow>
      book_of db' = deposit (pay_invoiceId q)
        (- (if pay_status q = Pay_cleared then pay_amountCents q else 0)) (book_of db))
    \<and> (\<forall>x db'. createCreditMemo ctx now m k txIds c db = Inr (x, db') \<longrightarrow>
      book_of db' = deposit (mi_originalInvoiceId c)
        (if mi_appliedTo c = Apply_to_invoice then mi_amountCents c else 0) (book_of db))"
proof (intro conjI allI impI)
  note inv = billing_reachable_inv(1) [OF assms(1)]
  fix x db' assume ok: "recordPayment ctx now k txIds p db = Inr (x, db')"
  then have pays: "payments db' = payments db @ [manual_payment ctx now k (pi_invoiceId p)
      (pi_amountCents p) (pi_paymentMethod p) (pi_referenceNumber p)
      (case pi_receivedAt p of None \<Rightarrow> now | Some d \<Rightarrow> d)
      (case pi_status p of None \<Rightarrow> Pay_cleared | Some s \<Rightarrow> s) (pi_notes p)]"
    by (auto simp: recordPayment_def Let_def insert_into_def dest!: recompute_payments)
  have after: "ledger_inv {} db'"
    by (rule effect_ledger [OF recordPayment_effect [OF inv ok assms(2)] inv])
  show "book_of db' = deposit (pi_invoiceId p)
      (if pi_status p = None \<or> pi_status p = Some Pay_cleared then pi_amountCents p else 0) (book_of db)"
    using book_of_insert [OF inv after pays] by (simp add: counted_def manual_payment_def split: option.splits)
next
  note inv = billing_reachable_inv(1) [OF assms(1)]
  fix x db' q assume ok: "voidPayment ctx now txIds (pay_id q) db = Inr (x, db') \<and> q \<in> set (payments db)"
  let ?t = "ctx_tenantId ctx"
  let ?Q = "\<lambda>p. pay_tenantId p = ?t \<and> pay_id p = pay_id q"
  let ?f = "\<lambda>p. p\<lparr>pay_status := Pay_refunded, pay_deletedAt := Some now, pay_updatedAt := now\<rparr> :: payment_row"
  have d: "distinct (map pay_id (payments db))" using inv by (simp add: ledger_inv_def)
  from ok obtain v where v: "select_first (\<lambda>p. pay_tenantId p = ?t \<and> pay_id p = pay_id q \<and> pay_deletedAt p = None)
      (payments db) = Some v" and "payments db' = update_where ?Q ?f (payments db)"
    by (auto simp: voidPayment_def Let_def dest!: recompute_payments)
  moreover have "v = q" using select_first_SomeD [OF v] ok d by (auto simp: distinct_map inj_on_def)
  moreover have "ledger_inv {} db'"
    by (rule effect_ledger [OF voidPayment_effect [OF inv conjunct1 [OF ok]] inv])
  moreover have "?Q p \<longleftrightarrow> pay_id p = pay_id q" if "p \<in> set (payments db)" for p
    using that d select_first_SomeD [OF v] ok by (auto simp: distinct_map inj_on_def)
  ultimately show "book_of db' = deposit (pay_invoiceId q)
      (- (if pay_status q = Pay_cleared then pay_amountCents q else 0)) (book_of db)"
    using received_voided [OF d conjunct2 [OF ok], of ?Q ?f] select_first_SomeD [OF v]
    by (auto simp: fun_eq_iff deposit_def book_of_received [OF inv] book_of_received counted_def)
next
  note inv = billing_reachable_inv(1) [OF assms(1)]
  fix x db' assume ok: "createCreditMemo ctx now m k txIds c db = Inr (x, db')"
  have after: "ledger_inv {} db'"
    by (rule effect_ledger [OF createCreditMemo_effect [OF inv ok assms(2)] inv])
  from ok consider "mi_appliedTo c \<noteq> Apply_to_invoice" "payments db' = payments db"
    | ref nt where "mi_appliedTo c = Apply_to_invoice" "payments db' = payments db @ [manual_payment ctx now k
        (mi_originalInvoiceId c) (mi_amountCents c) Method_write_off ref now Pay_cleared nt]"
    by (cases "mi_appliedTo c") (auto simp: createCreditMemo_def allocateMemoNumber_def Let_def insert_into_def
        split_beta dest!: recompute_payments)
  then show "book_of db' = deposit (mi_originalInvoiceId c)
      (if mi_appliedTo c = Apply_to_invoice then mi_amountCents c else 0) (book_of db)"
  proof cases
    case 1
    then show ?thesis by (simp add: fun_eq_iff deposit_def book_of_received [OF inv] book_of_received [OF after])
  next
    case 2
    then show ?thesis using book_of_insert [OF inv after 2(2)] by (simp add: counted_def manual_payment_def)
  qed
qed

theorem payments_refine_book_witness:
  "book_of bill_paid = deposit 500 11300 (book_of bill_issued)"
proof -
  have new: "(800 :: uuid) \<notin> pay_id ` set (payments bill_issued)" by code_simp
  have ok: "\<exists>x. recordPayment bill_ctx 1778284920000 800 (\<lambda>k. 710 + k) bill_payment bill_issued = Inr (x, bill_paid)"
  proof (cases "recordPayment bill_ctx 1778284920000 800 (\<lambda>k. 710 + k) bill_payment bill_issued")
    case (Inl e)
    then have "bill_paid = bill_issued" by (simp add: bill_paid_def commit_def)
    then show ?thesis using bill_values(2,3) by (auto simp: map_eq_Cons_conv)
  qed (auto simp: bill_paid_def commit_def)
  then show ?thesis
    using payments_refine_book [OF bill_reachable(3) new, of bill_ctx 1778284920000 "\<lambda>k. 710 + k" bill_payment]
    by (auto simp: bill_payment_def)
qed

section \<open>Issued invoices\<close>

text \<open>C15: Once an invoice is issued no operation changes its document: number, type, parties, terms,
  issue and due date, bill-to block, notes and lines stay as they were (the amounts follow the
  ledger), it never becomes a draft again, and a void invoice stays void.\<close>

theorem issued_invoice_is_fixed:
  assumes "billing_reachable db" "billing_step\<^sup>*\<^sup>* db db'" "r \<in> set (invoices db)" "inv_status r \<noteq> Inv_draft"
  shows "\<exists>r' \<in> set (invoices db'). inv_id r' = inv_id r \<and> inv_status r' \<noteq> Inv_draft
    \<and> inv_invoiceNumber r' = inv_invoiceNumber r \<and> inv_issuedAt r' = inv_issuedAt r
    \<and> inv_dueAt r' = inv_dueAt r \<and> inv_terms r' = inv_terms r \<and> inv_customerId r' = inv_customerId r
    \<and> inv_accountId r' = inv_accountId r \<and> inv_billingAddress r' = inv_billingAddress r
    \<and> inv_notes r' = inv_notes r \<and> inv_deletedAt r' = inv_deletedAt r
    \<and> filter (\<lambda>l. li_invoiceId l = inv_id r) (invoiceLineItems db')
       = filter (\<lambda>l. li_invoiceId l = inv_id r) (invoiceLineItems db)
    \<and> (inv_status r = Inv_void) \<le> (inv_status r' = Inv_void)"
proof -
  obtain r' where r': "r' \<in> set (invoices db')" "frozen db db' r r'"
    using billing_steps_frozen [OF assms(2) billing_reachable_inv(1) [OF assms(1)] assms(3,4)] by blast
  from r'(2) have d: "doc r' = doc r" by (simp add: frozen_def)
  have field: "f r' = f r" if "\<And>x. f (doc x) = f x" for f :: "invoice_row \<Rightarrow> 'f"
    using d that by metis
  have "inv_id r' = inv_id r \<and> inv_invoiceNumber r' = inv_invoiceNumber r \<and> inv_issuedAt r' = inv_issuedAt r
    \<and> inv_dueAt r' = inv_dueAt r \<and> inv_terms r' = inv_terms r \<and> inv_customerId r' = inv_customerId r
    \<and> inv_accountId r' = inv_accountId r \<and> inv_billingAddress r' = inv_billingAddress r
    \<and> inv_notes r' = inv_notes r \<and> inv_deletedAt r' = inv_deletedAt r"
    by (intro conjI field) (simp_all add: doc_def)
  moreover have "inv_status r' \<noteq> Inv_draft" "(inv_status r = Inv_void) \<le> (inv_status r' = Inv_void)"
      "filter (\<lambda>l. li_invoiceId l = inv_id r) (invoiceLineItems db')
         = filter (\<lambda>l. li_invoiceId l = inv_id r) (invoiceLineItems db)"
    using r'(2) by (auto simp: frozen_def lines_for_def)
  ultimately show ?thesis using r'(1) by blast
qed

theorem issued_invoice_is_fixed_witness:
  "\<exists>r \<in> set (invoices bill_paid). inv_invoiceNumber r = ''INV-2026-0001'' \<and> inv_status r \<noteq> Inv_draft"
proof -
  obtain r where r: "r \<in> set (invoices bill_issued)" "inv_status r = Inv_issued"
      "inv_invoiceNumber r = ''INV-2026-0001''"
    using bill_values(2) by (auto simp: map_eq_Cons_conv)
  have "payments bill_issued = []" by code_simp
  then have "billing_step\<^sup>*\<^sup>* bill_issued bill_paid"
    unfolding bill_paid_def commit_def committed_def
    by (auto split: sum.split intro!: r_into_rtranclp billing_step.paid)
  from issued_invoice_is_fixed [OF bill_reachable(3) this r(1)] r(2,3) show ?thesis by auto
qed

text \<open>Issuing a draft never fails on the unique index of invoice numbers: on a reachable database
  the number taken from the sequence of the year is carried by no invoice of the tenant, and it is
  the number of the invoice from then on.\<close>

theorem issue_number_is_new:
  assumes "billing_reachable db" "select_first (live_invoice (ctx_tenantId ctx) i) (invoices db) = Some r"
    "inv_status r = Inv_draft"
  shows "\<exists>number row db'. issue ctx now i db = Inr (row, db') \<and> inv_invoiceNumber row = number
    \<and> number = fst (allocateInvoiceNumber (ctx_tenantId ctx) now db)
    \<and> \<not> invoice_number_taken (ctx_tenantId ctx) number (invoices db)"
proof -
  let ?t = "ctx_tenantId ctx"
  obtain number db1 where al: "allocateInvoiceNumber ?t now db = (number, db1)" by fastforce
  have new: "\<not> invoice_number_taken ?t number (invoices db)"
  proof
    assume "invoice_number_taken ?t number (invoices db)"
    then obtain x where x: "x \<in> set (invoices db)" "inv_tenantId x = ?t" "inv_invoiceNumber x = number"
      by (auto simp: invoice_number_taken_def)
    with billing_reachable_inv(2) [OF assms(1)]
    have "number = draft_number (inv_id x) \<or> issued_number ?t number (invoiceNumberSequences db)"
      by (auto simp: numbers_ok_def)
    then show False
      using allocated_new [OF al] not_draft_number al by (auto elim!: allocateInvoiceNumber_cases)
  qed
  have found: "select_first (live_invoice ?t i) (update_where (own_invoice ?t i) (issued_row now number) (invoices db))
      = Some (issued_row now number r)"
  proof -
    have "live_invoice ?t i (issued_row now number x) = live_invoice ?t i x" for x
      by (simp add: live_invoice_def issued_row_def)
    moreover have "live_invoice ?t i x \<Longrightarrow> own_invoice ?t i x" for x
      by (simp add: live_invoice_def own_invoice_def)
    ultimately show ?thesis
      using select_first_update_where [of "live_invoice ?t i" "issued_row now number" "own_invoice ?t i"
          "invoices db"] assms(2) by simp
  qed
  have "invoices db1 = invoices db" using al by (auto elim!: allocateInvoiceNumber_cases)
  then have "issue ctx now i db = Inr (issued_row now number r, db1\<lparr>invoices :=
      update_where (own_invoice ?t i) (issued_row now number) (invoices db1)\<rparr>)"
    using assms(2,3) al new found by (simp add: issue_def Let_def assembled_def invoice_assertCanTransition_def invoice_canTransition_def)
  then show ?thesis using new al by (auto simp: issued_row_def)
qed

theorem issue_number_is_new_witness:
  "\<not> invoice_number_taken 1 (fst (allocateInvoiceNumber 1 1778284860000 bill_draft)) (invoices bill_draft)"
proof -
  obtain r where r: "invoices bill_draft = [r]" "inv_id r = 500" "inv_status r = Inv_draft"
    using bill_values(1) by (auto simp: map_eq_Cons_conv)
  have "map (\<lambda>r. (inv_tenantId r, inv_deletedAt r)) (invoices bill_draft) = [(1, None)]" by code_simp
  then have "select_first (live_invoice (ctx_tenantId bill_ctx) 500) (invoices bill_draft) = Some r"
    using r by (simp add: live_invoice_def bill_ctx_def select_first_Cons)
  from issue_number_is_new [OF bill_reachable(2) this r(3), of 1778284860000] show ?thesis
    by (auto simp: bill_ctx_def)
qed

section \<open>Rounding\<close>

text \<open>The total of a line is the product of quantity and unit price in doubles, rounded half up:
  within 0.501 cent of the exact product for products up to a trillion cents, and exact when the
  quantity is a whole number.\<close>

theorem line_total_rounding:
  assumes "\<bar>c\<bar> \<le> 2 ^ 53" "\<bar>p\<bar> \<le> 2 ^ 53" "\<bar>of_int c * of_int p / 10 ^ k\<bar> \<le> (10 ^ 12 :: real)"
  shows "\<bar>of_int (line_total (c, k) p) - of_int c * of_int p / 10 ^ k\<bar> \<le> (501 / 1000 :: real)
    \<and> (k = 0 \<longrightarrow> line_total (c, k) p = c * p)"
proof -
  let ?e = "of_int c * of_int p / 10 ^ k :: real"
  let ?q = "dbl_val (Number (c, k))" and ?r = "dbl_val (dmul (Number (c, k)) (num p))"
  have p: "dbl_val (num p) = of_int p" using assms(2) by (rule num_exact)
  have q: "\<bar>?q - of_int c / 10 ^ k\<bar> \<le> \<bar>of_int c / 10 ^ k\<bar> / 2 ^ 53"
    using nearest_error [of "10 ^ k" c] by simp
  have "\<bar>?q * of_int p - ?e\<bar> = \<bar>?q - of_int c / 10 ^ k\<bar> * \<bar>of_int p\<bar>"
    by (simp add: abs_mult [symmetric] algebra_simps)
  also have "\<dots> \<le> \<bar>of_int c / 10 ^ k\<bar> / 2 ^ 53 * \<bar>of_int p\<bar>" by (rule mult_right_mono [OF q]) simp
  also have "\<dots> = \<bar>?e\<bar> * (1 / 2 ^ 53)" by (simp add: abs_mult)
  finally have a: "\<bar>?q * of_int p - ?e\<bar> \<le> \<bar>?e\<bar> * (1 / 2 ^ 53)" .
  have b: "\<bar>?r - ?q * of_int p\<bar> \<le> \<bar>?q * of_int p\<bar> * (1 / 2 ^ 53)"
    using dmul_error [of "Number (c, k)" "num p"] p by simp
  have "\<bar>?r - ?e\<bar> \<le> \<bar>?e\<bar> * (1 / 2 ^ 53 + 1 / 2 ^ 53 + 1 / 2 ^ 53 * (1 / 2 ^ 53))"
    by (rule rel_error_trans [OF a b]) simp_all
  also have "\<dots> \<le> 10 ^ 12 * (1 / 2 ^ 53 + 1 / 2 ^ 53 + 1 / 2 ^ 53 * (1 / 2 ^ 53))"
    by (rule mult_right_mono [OF assms(3)]) simp
  finally have "\<bar>?r - ?e\<bar> \<le> 1 / 1000" by (simp add: algebra_simps)
  then have "\<bar>of_int (line_total (c, k) p) - ?e\<bar> \<le> 501 / 1000"
    using Math_round_near [of "dmul (Number (c, k)) (num p)"] unfolding line_total_def by linarith
  moreover have "line_total (c, k) p = c * p" if "k = 0"
  proof -
    have "dbl_val (Number (c, 0)) = of_int c" using assms(1) num_exact [of c] by (simp add: num_def)
    moreover have "\<bar>c * p\<bar> \<le> 2 ^ 53"
    proof -
      have "real_of_int \<bar>c * p\<bar> \<le> of_int (2 ^ 53)" using assms(3) that by (simp add: abs_mult)
      then show ?thesis by linarith
    qed
    ultimately show ?thesis using dmul_exact [OF _ p, of "Number (c, 0)" c] that
      by (simp add: line_total_def Math_round_int)
  qed
  ultimately show ?thesis by blast
qed

theorem line_total_rounding_witness:
  "\<bar>of_int (line_total (15, 1) 333) - 15 * 333 / 10\<bar> \<le> (501 / 1000 :: real) \<and> line_total (3, 0) 4999 = 14997"
  using line_total_rounding [of 15 333 1] line_total_rounding [of 3 4999 0] by simp

text \<open>Half cents are not rounded half up: the double nearest to a decimal quantity may lie below
  it, so 1.005 units at a dollar are charged 100 cents and not 101, and 1.015 units 101 and not 102.\<close>

lemma half_cent_lost:
  "line_total (1005, 3) 100 = 100 \<and> line_total (1015, 3) 100 = 101 \<and> line_total (1025, 3) 100 = 102"
  by code_simp

text \<open>The even split of a line's commission among several drivers always adds up to one hundred
  percent (in hundredths of a percent), for crews of one to twelve.\<close>

theorem commission_shares_complete:
  "list_all (\<lambda>n. sum_list (commission_shares n) = 10000) [1, 2, 3, 4, 5, 6, 7, 8, 9, 10, 11, 12]"
proof -
  have "sum_list (commission_shares 1) = 10000" by code_simp
  moreover have "sum_list (commission_shares 2) = 10000" by code_simp
  moreover have "sum_list (commission_shares 3) = 10000" by code_simp
  moreover have "sum_list (commission_shares 4) = 10000" by code_simp
  moreover have "sum_list (commission_shares 5) = 10000" by code_simp
  moreover have "sum_list (commission_shares 6) = 10000" by code_simp
  moreover have "sum_list (commission_shares 7) = 10000" by code_simp
  moreover have "sum_list (commission_shares 8) = 10000" by code_simp
  moreover have "sum_list (commission_shares 9) = 10000" by code_simp
  moreover have "sum_list (commission_shares 10) = 10000" by code_simp
  moreover have "sum_list (commission_shares 11) = 10000" by code_simp
  moreover have "sum_list (commission_shares 12) = 10000" by code_simp
  ultimately show ?thesis by simp
qed

section \<open>Taxes and aging\<close>

lemma add_to_bucket_keys: "fst ` set (add_to_bucket k v bs) = insert k (fst ` set bs)"
proof (induction bs)
  case (Cons b bs)
  then show ?case by (cases b) (simp add: insert_commute)
qed simp

lemma add_to_bucket_distinct: "distinct (map fst bs) \<Longrightarrow> distinct (map fst (add_to_bucket k v bs))"
proof (induction bs)
  case (Cons b bs)
  then show ?case by (cases b) (simp add: add_to_bucket_keys)
qed simp

lemma map_of_add_to_bucket: "map_of (add_to_bucket k v bs) x
    = (if x = k then Some (case map_of bs k of None \<Rightarrow> v | Some w \<Rightarrow> w + v) else map_of bs x)"
proof (induction bs)
  case (Cons b bs)
  then show ?case by (cases b) auto
qed simp

definition rate_base :: "line_row list \<Rightarrow> int \<Rightarrow> line_row list" where
  "rate_base L rate = filter (\<lambda>l. li_taxable l \<and> li_taxRatePct l = rate) L"

text \<open>C16: The buckets the single-rate tax is computed from are the reference grouping: one bucket per
  nonzero rate that a taxable line carries, holding the sum of exactly the taxable lines at it.\<close>

theorem tax_buckets_group_by_rate:
  "distinct (map fst (tax_buckets L)) \<and> map_of (tax_buckets L)
     = (\<lambda>rate. if rate = 0 \<or> rate_base L rate = [] then None
          else Some (sum_list (map li_lineTotalCents (rate_base L rate))))"
proof (induction L rule: rev_induct)
  case Nil
  then show ?case by (simp add: tax_buckets_def rate_base_def)
next
  case (snoc l L)
  have step: "tax_buckets (L @ [l]) = (if \<not> li_taxable l \<or> li_taxRatePct l = 0 then tax_buckets L
      else add_to_bucket (li_taxRatePct l) (li_lineTotalCents l) (tax_buckets L))"
    by (simp add: tax_buckets_def)
  have base: "rate_base (L @ [l]) rate = rate_base L rate
      @ (if li_taxable l \<and> li_taxRatePct l = rate then [l] else [])" for rate
    by (simp add: rate_base_def)
  show ?case
  proof (cases "\<not> li_taxable l \<or> li_taxRatePct l = 0")
    case True
    then show ?thesis using snoc by (auto simp: step base fun_eq_iff)
  next
    case False
    then show ?thesis using snoc
      by (simp add: step base add_to_bucket_distinct map_of_add_to_bucket fun_eq_iff)
  qed
qed

text \<open>The party of a row, the age of an invoice in whole days, and what is owed at certain ages.\<close>

definition row_of :: "aging_row \<Rightarrow> invoice_row \<Rightarrow> bool" where
  "row_of b r \<longleftrightarrow> (case ag_key b of Aging_account a \<Rightarrow> inv_accountId r = Some a
     | Aging_customer c \<Rightarrow> inv_accountId r = None \<and> inv_customerId r = c)"

definition age_days :: "instant \<Rightarrow> invoice_row \<Rightarrow> int" where
  "age_days asOf r = (asOf - aging_due r) div day_ms"

definition owed :: "instant \<Rightarrow> int set \<Rightarrow> invoice_row list \<Rightarrow> cents" where
  "owed asOf ages L = (\<Sum>r \<leftarrow> filter (\<lambda>r. age_days asOf r \<in> ages) L. inv_balanceCents r)"

definition row_reports :: "instant \<Rightarrow> aging_row \<Rightarrow> invoice_row list \<Rightarrow> bool" where
  "row_reports asOf b L \<longleftrightarrow> ag_currentDueCents b = owed asOf {..0} L \<and> ag_bucket1To30Cents b = owed asOf {1..30} L
     \<and> ag_bucket31To60Cents b = owed asOf {31..60} L \<and> ag_bucket61To90Cents b = owed asOf {61..90} L
     \<and> ag_bucket91PlusCents b = owed asOf {91..} L \<and> ag_totalCents b = (\<Sum>r \<leftarrow> L. inv_balanceCents r)
     \<and> ag_invoiceCount b = length L
     \<and> ag_oldestDueAt b = (if L = [] then None else Some (Min (aging_due ` set L)))"

lemma row_of_key: "row_of b r \<longleftrightarrow> aging_key_of r = ag_key b"
  by (auto simp: row_of_def aging_key_of_def split: aging_key.split option.splits)

lemma age_into_key [simp]: "ag_key (age_into d r b) = ag_key b"
  by (simp add: age_into_def Let_def)

lemma owed_snoc: "owed asOf ages (L @ [r]) = owed asOf ages L + (if age_days asOf r \<in> ages then inv_balanceCents r else 0)"
  by (simp add: owed_def)

lemma oldest_snoc:
  assumes "ag_oldestDueAt b = (if L = [] then None else Some (Min (aging_due ` set L)))"
  shows "ag_oldestDueAt (age_into asOf r b) = Some (Min (aging_due ` set (L @ [r])))"
proof (cases "L = []")
  case True
  then show ?thesis using assms by (simp add: age_into_def Let_def)
next
  case False
  then have "Min (aging_due ` set (L @ [r])) = min (aging_due r) (Min (aging_due ` set L))" by simp
  moreover have "ag_oldestDueAt b = Some (Min (aging_due ` set L))" using assms False by simp
  ultimately show ?thesis by (simp add: age_into_def Let_def min_def not_less del: Min_gr_iff Min_less_iff Min_le_iff Min_ge_iff)
qed

lemma age_into_reports: "row_reports asOf b L \<Longrightarrow> row_reports asOf (age_into asOf r b) (L @ [r])"
  using oldest_snoc [of b L asOf r]
  by (simp add: row_reports_def owed_snoc) (simp add: age_into_def Let_def age_days_def)

lemma empty_reports: "row_reports asOf (empty_aging r) []"
  by (simp add: row_reports_def empty_aging_def owed_def)

lemma add_aging_keys: "ag_key ` set (add_aging d r bs) = insert (aging_key_of r) (ag_key ` set bs)"
  by (induction bs) (auto simp: empty_aging_def)

lemma add_aging_distinct: "distinct (map ag_key bs) \<Longrightarrow> distinct (map ag_key (add_aging d r bs))"
proof (induction bs)
  case (Cons b bs)
  then show ?case using add_aging_keys [of d r bs] by auto
qed simp

lemma add_aging_reports:
  assumes "distinct (map ag_key bs)" "\<forall>b \<in> set bs. row_reports asOf b (f (ag_key b))"
    "aging_key_of r \<notin> ag_key ` set bs \<Longrightarrow> f (aging_key_of r) = []" "b \<in> set (add_aging asOf r bs)"
  shows "row_reports asOf b (if ag_key b = aging_key_of r then f (aging_key_of r) @ [r] else f (ag_key b))"
  using assms
proof (induction bs)
  case Nil
  then show ?case using age_into_reports [OF empty_reports, of asOf r r] by (simp add: empty_aging_def)
next
  case (Cons x bs)
  show ?case
  proof (cases "ag_key x = aging_key_of r")
    case True
    have "b = age_into asOf r x \<or> b \<in> set bs" using Cons.prems(4) True by simp
    then show ?thesis
    proof
      assume "b = age_into asOf r x"
      then show ?thesis using Cons.prems(2) True age_into_reports by simp
    next
      assume "b \<in> set bs"
      moreover have "ag_key b \<noteq> aging_key_of r"
        using Cons.prems(1) imageI [OF \<open>b \<in> set bs\<close>, of ag_key] True by auto
      ultimately show ?thesis using Cons.prems(2) by simp
    qed
  next
    case False
    then have "b = x \<or> b \<in> set (add_aging asOf r bs)" using Cons.prems(4) by simp
    then show ?thesis
    proof
      assume "b \<in> set (add_aging asOf r bs)"
      then show ?thesis using Cons.IH Cons.prems(1-3) False by simp
    qed (use Cons.prems(2) False in simp)
  qed
qed

lemma aging_fold:
  "distinct (map ag_key (fold (add_aging asOf) R [])) \<and> ag_key ` set (fold (add_aging asOf) R []) = aging_key_of ` set R
    \<and> (\<forall>b \<in> set (fold (add_aging asOf) R []). row_reports asOf b (filter (\<lambda>r. aging_key_of r = ag_key b) R))"
proof (induction R rule: rev_induct)
  case Nil
  then show ?case by simp
next
  case (snoc r R)
  let ?bs = "fold (add_aging asOf) R []" and ?f = "\<lambda>k. filter (\<lambda>r. aging_key_of r = k) R"
  have "?f (aging_key_of r) = []" if "aging_key_of r \<notin> ag_key ` set ?bs"
    using that snoc by (auto simp: filter_empty_conv image_iff)
  then have old: "row_reports asOf b (if ag_key b = aging_key_of r then ?f (aging_key_of r) @ [r] else ?f (ag_key b))"
    if "b \<in> set (add_aging asOf r ?bs)" for b
    using add_aging_reports [of ?bs asOf ?f r b] snoc that by blast
  have "row_reports asOf b (filter (\<lambda>r. aging_key_of r = ag_key b) (R @ [r]))"
    if "b \<in> set (add_aging asOf r ?bs)" for b
  proof (cases "ag_key b = aging_key_of r")
    case True
    then show ?thesis using old [OF that] by simp
  next
    case False
    then show ?thesis using old [OF that] by (simp add: eq_commute)
  qed
  then show ?case using snoc add_aging_distinct add_aging_keys [of asOf r ?bs] by simp
qed

text \<open>C17: The aging report is the grouping of the open balances that match the filter by party and age:
  every such invoice belongs to exactly one row, that of its account or, without one, of its
  customer; a row's five buckets are the balances of its invoices due or not yet due, one to thirty,
  thirty-one to sixty, sixty-one to ninety and more days overdue, with their sum, number and oldest
  due date; the rows come largest first.\<close>

theorem aging_accounts_for_balances:
  "(\<forall>r \<in> set (filter (open_receivable t a c) (invoices db)). \<exists>!b. b \<in> set (aging t a c asOf db) \<and> row_of b r)
    \<and> (\<forall>b \<in> set (aging t a c asOf db). \<exists>L. L = filter (row_of b) (filter (open_receivable t a c) (invoices db))
        \<and> L \<noteq> [] \<and> row_reports asOf b L)
    \<and> sorted (map (\<lambda>b. - ag_totalCents b) (aging t a c asOf db))"
proof -
  let ?R = "filter (open_receivable t a c) (invoices db)"
  let ?rows = "fold (add_aging asOf) ?R []"
  have ag: "aging t a c asOf db = sort_key (\<lambda>b. - ag_totalCents b) ?rows"
    by (simp add: aging_def select_where_def)
  have rows: "set (aging t a c asOf db) = set ?rows" unfolding ag by simp
  note f = aging_fold [of asOf ?R]
  have one: "b = b'" if "b \<in> set ?rows" "b' \<in> set ?rows" "ag_key b = ag_key b'" for b b'
    using f that by (auto simp: distinct_map dest: inj_onD)
  have "\<exists>!b. b \<in> set ?rows \<and> row_of b r" if "r \<in> set ?R" for r
  proof -
    have "aging_key_of r \<in> ag_key ` set ?rows" using f that by auto
    then show ?thesis using one by (auto simp: row_of_key)
  qed
  moreover have "filter (row_of b) ?R \<noteq> [] \<and> row_reports asOf b (filter (row_of b) ?R)" if "b \<in> set ?rows" for b
  proof -
    have "ag_key b \<in> aging_key_of ` set ?R" using f that by blast
    then show ?thesis using f that by (auto simp: row_of_key [abs_def] filter_empty_conv)
  qed
  ultimately show ?thesis unfolding rows by (simp add: ag)
qed

theorem aging_accounts_for_balances_witness:
  "\<exists>b \<in> set (aging 1 None None 1778284860000 bill_issued). ag_totalCents b = 11300"
proof -
  have open_one: "filter (open_receivable 1 None None) (invoices bill_issued) = invoices bill_issued" by code_simp
  obtain r where r: "invoices bill_issued = [r]" "inv_balanceCents r = 11300" using bill_values(2) by auto
  then have R: "filter (open_receivable 1 None None) (invoices bill_issued) = [r]" using open_one by simp
  obtain b where b: "b \<in> set (aging 1 None None 1778284860000 bill_issued)" "row_of b r"
    using aging_accounts_for_balances [of 1 None None bill_issued 1778284860000] unfolding R by auto
  then have "row_reports 1778284860000 b [r]"
    using aging_accounts_for_balances [of 1 None None bill_issued 1778284860000] unfolding R by auto
  then show ?thesis using b(1) r(2) by (intro bexI [of _ b]) (simp_all add: row_reports_def)
qed

section \<open>From jobs to invoices\<close>

lemma select_first_append:
  "select_first P (xs @ ys) = (case select_first P xs of None \<Rightarrow> select_first P ys | Some r \<Rightarrow> Some r)"
  by (induction xs) (auto simp: select_first_def)

lemma own_new:
  assumes "i \<notin> inv_id ` set R" "inv_id d = i" "inv_tenantId d = t"
  shows "update_where (own_invoice t i) f (R @ [d]) = R @ [f d]"
    "select_first (own_invoice t i) (R @ [d]) = Some d"
  using assms by (induction R) (auto simp: update_where_def own_invoice_def select_first_def)

text \<open>Generating the invoice of a completed job is idempotent: after it created one, a second call
  for the job, whatever its ids and time, returns that invoice, says it created none and changes
  nothing.\<close>

theorem generate_once:
  assumes "generateFromJob ctx now i ids txIds comIds crewId jobId db = Inr ((r, True), db')"
    "i \<notin> inv_id ` set (invoices db)"
  shows "generateFromJob ctx now' i' ids' txIds' comIds' crewId' jobId db' = Inr ((r, False), db')"
proof -
  let ?t = "ctx_tenantId ctx"
  let ?P = "\<lambda>r. inv_tenantId r = ?t \<and> inv_jobId r = Some jobId \<and> inv_deletedAt r = None \<and> inv_status r \<noteq> Inv_void"
  from assms(1) obtain job args db1 ds db2 db3 where
      job: "select_first (live_job ?t jobId) (jobs db) = Some job"
      and none: "select_first ?P (invoices db) = None"
      and args: "insertDraftInvoice ctx now i args db = Inr db1" "da_jobId args = Some jobId"
      and lines: "insert_lines ?t i ids ds db1 = Inr db2"
      and re: "recomputeTotals ?t now txIds i db2 = Inr (r, db3)"
      and seed: "seedDraftCommissions ctx comIds crewId i jobId db3 = Inr db'"
    by (auto simp: generateFromJob_def Let_def split: option.splits)
  let ?d = "draft_row ctx now i args"
  have db1: "db1 = db\<lparr>invoices := invoices db @ [?d]\<rparr>"
    using args(1) by (auto simp: insertDraftInvoice_def insert_into_def)
  have d: "inv_id ?d = i" "inv_tenantId ?d = ?t" "inv_status ?d = Inv_draft" "inv_jobId ?d = Some jobId"
      "inv_deletedAt ?d = None" using args(2) by (simp_all add: draft_row_def)
  have one: "select_first (own_invoice ?t i) (invoices db @ [?d]) = Some ?d"
    by (rule own_new(2) [OF assms(2) d(1,2)])
  from re obtain s where s: "r = totals_patch now (subtotal_of (invoice_lines ?t i db2))
        (tax_total (invoice_taxes_of ?d (invoice_lines ?t i db2) db2)) (paid_of ?t i (payments db2)) s ?d"
      "s \<noteq> Inv_void" "invoices db3 = invoices db @ [r]" "jobs db3 = jobs db2"
    using insert_lines_frame(1) [OF lines] one assms(2) d statusAfterPayment_ok(3) [of Inv_draft]
    by (auto simp: recomputeTotals_def Let_def update_returning_def db1 own_new(1))
  have "invoices db' = invoices db @ [r]" "jobs db' = jobs db"
    using s(3,4) seedDraftCommissions_frame(1,6) [OF seed] insert_lines_frame(6) [OF lines] by (simp_all add: db1)
  moreover have "?P r" using s(1,2) d by (simp add: totals_patch_def)
  ultimately show ?thesis
    using job none by (simp add: generateFromJob_def Let_def select_first_append select_first_Cons)
qed

definition bill_job :: job_row where
  "bill_job = \<lparr>job_id = 77, job_tenantId = 1, job_jobNumber = ''20260509-0001'', job_status = Job_completed,
     job_serviceType = Tow, job_dutyClass = Light, job_customerId = None, job_vehicleId = None,
     job_accountId = None, job_pickupAddress = ''1 Main St'', job_dropoffAddress = None,
     job_authorizedBy = By_customer, job_authorizedByName = None, job_rateQuotedCents = 12500,
     job_enrouteMiles = None, job_intowMiles = None, job_tierOffer = None,
     job_tierOfferEnforcementStatus = Tier_none, job_notes = None, job_cancelledReason = None,
     job_assignedDriverId = None, job_assignedTruckId = None, job_assignedShiftId = None,
     job_assignedAt = None, job_createdByUserId = None, job_createdAt = 0, job_updatedAt = 0,
     job_deletedAt = None\<rparr>"

theorem generate_once_witness:
  "\<exists>r (db' :: billing_db). generateFromJob bill_ctx 2000 501 (\<lambda>k. 650 + k) (\<lambda>k. 750 + k) (\<lambda>k. 850 + k) 901 77 db' = Inr ((r, False), db')
     \<and> length (invoices db') = 1"
proof -
  let ?db = "bill_start\<lparr>jobs := [bill_job]\<rparr>"
  let ?g = "generateFromJob bill_ctx 1000 500 (\<lambda>k. 600 + k) (\<lambda>k. 700 + k) (\<lambda>k. 800 + k) 900 77 ?db"
  have v: "(case ?g of Inl e \<Rightarrow> None | Inr ((r, b), d) \<Rightarrow> Some (b, length (invoices d))) = Some (True, 1)"
    by code_simp
  obtain r d where g: "?g = Inr ((r, True), d)" "length (invoices d) = 1"
  proof (cases "?g")
    case (Inr x)
    then show ?thesis using v that by (cases x; cases "fst x") auto
  qed (use v in simp)
  have "500 \<notin> inv_id ` set (invoices ?db)" by (simp add: bill_start_def)
  from generate_once [OF g(1) this] g(2) show ?thesis by blast
qed

section \<open>The overdue sweep\<close>

text \<open>After the daily sweep no invoice of the tenant that is past due with an open balance is left
  issued, sent or partially paid; a second sweep at the same time finds nothing and changes nothing,
  and other tenants' invoices are untouched.\<close>

theorem overdue_sweep_complete:
  assumes "markOverdueSweep ctx now db = (n, db')"
  shows "select_where (overdue_due (ctx_tenantId ctx) now) (invoices db') = []
    \<and> markOverdueSweep ctx now db' = (0, db')
    \<and> n = length (select_where (overdue_due (ctx_tenantId ctx) now) (invoices db))
    \<and> filter (\<lambda>r. inv_tenantId r \<noteq> ctx_tenantId ctx) (invoices db')
       = filter (\<lambda>r. inv_tenantId r \<noteq> ctx_tenantId ctx) (invoices db)"
proof -
  let ?P = "overdue_due (ctx_tenantId ctx) now"
  let ?f = "\<lambda>r. r\<lparr>inv_status := Inv_overdue, inv_updatedAt := now\<rparr> :: invoice_row"
  from assms have n: "n = length (select_where ?P (invoices db))"
      and db': "db' = db\<lparr>invoices := update_where ?P ?f (invoices db)\<rparr>"
    by (auto simp: markOverdueSweep_def Let_def)
  have f: "\<not> ?P (?f r)" for r by (simp add: overdue_due_def)
  then have none: "select_where ?P (update_where ?P ?f R) = []" for R
    by (induction R) (auto simp: select_where_def update_where_def)
  have "update_where ?P ?f (update_where ?P ?f R) = update_where ?P ?f R" for R
    using f by (induction R) (auto simp: update_where_def)
  moreover have "filter (\<lambda>r. inv_tenantId r \<noteq> ctx_tenantId ctx) (update_where ?P ?f R)
      = filter (\<lambda>r. inv_tenantId r \<noteq> ctx_tenantId ctx) R" for R
    by (induction R) (auto simp: update_where_def overdue_due_def)
  ultimately show ?thesis using n none by (simp add: db' markOverdueSweep_def Let_def)
qed

theorem overdue_sweep_complete_witness:
  "markOverdueSweep bill_ctx 1790000000000 (snd (markOverdueSweep bill_ctx 1790000000000 bill_issued))
     = (0, snd (markOverdueSweep bill_ctx 1790000000000 bill_issued))"
  using overdue_sweep_complete [of bill_ctx 1790000000000 bill_issued] by (metis surjective_pairing)

section \<open>Divergences\<close>

lemma own_row_unique:
  assumes "distinct (map inv_id R)" "x \<in> set R" "y \<in> set R" "inv_id x = inv_id y"
  shows "x = y"
  using assms by (auto simp: distinct_map dest: inj_onD)

lemma updated_live_row:
  assumes d: "distinct (map inv_id R)" and r: "select_first (live_invoice t i) R = Some r"
    and f: "\<And>x. inv_id (f x) = inv_id x"
    and r': "select_first (live_invoice t i) (update_where (own_invoice t i) f R) = Some r'"
  shows "r' = f r"
proof -
  note old = live_found [OF r] and new = live_found [OF r']
  have "f r \<in> set (update_where (own_invoice t i) f R)" using old by (auto simp: set_update_where own_invoice_def)
  moreover have "distinct (map inv_id (update_where (own_invoice t i) f R))" using d f by (simp add: map_update_where)
  ultimately show ?thesis using own_row_unique [of _ r' "f r"] new(1,2) old(2) f by metis
qed

lemma taxed_alike: "taxRules a = taxRules b \<Longrightarrow> tenants a = tenants b \<Longrightarrow> invoice_taxes_of r L a = invoice_taxes_of r L b"
  by (auto simp: invoice_taxes_of_def Let_def split: option.split)

lemma issued_tenant: "issue ctx now i db = Inr (r, db') \<Longrightarrow> inv_tenantId r = ctx_tenantId ctx"
  by (auto simp: issue_def Let_def live_found split: if_splits prod.splits dest: live_found(3))

text \<open>C18: Editing the bill-to block of a draft does not recompute its tax.  Whatever the edit, the invoice
  is issued with the tax, the total and the tax rows it had before, beside the new address; the first
  payment then recomputes them for the region of the new address, after the customer has been billed.\<close>

theorem moved_invoice_keeps_tax:
  assumes reach: "billing_reachable db"
    and draft: "select_first (live_invoice (ctx_tenantId ctx) i) (invoices db) = Some r"
    and edit: "updateInvoice ctx now1 i upd db = Inr (r1, db1)"
    and issue: "issue ctx now2 i db1 = Inr (r2, db2)"
    and pay: "recordPayment ctx now3 k txIds p db2 = Inr ((q, r3), db3)" "pi_invoiceId p = i"
  shows "inv_billingAddress r2 = patched (uinv_billingAddress upd) (inv_billingAddress r)
    \<and> inv_taxCents r2 = inv_taxCents r \<and> inv_totalCents r2 = inv_totalCents r \<and> invoiceTaxes db2 = invoiceTaxes db
    \<and> inv_taxCents r3 = tax_total (invoice_taxes_of r2 (invoice_lines (ctx_tenantId ctx) i db) db)"
proof -
  let ?t = "ctx_tenantId ctx"
  have d: "distinct (map inv_id (invoices db))"
    using billing_reachable_inv(1) [OF reach, of "{}"] by (simp add: ledger_inv_def)
  have st: "inv_status r = Inv_draft"
    and db1: "db1 = db\<lparr>invoices := update_where (own_invoice ?t i) (edited_invoice now1 upd) (invoices db)\<rparr>"
    and live1: "select_first (live_invoice ?t i) (invoices db1) = Some r1"
    using edit draft by (auto simp: updateInvoice_def Let_def)
  have keep: "inv_id (edited_invoice now1 upd x) = inv_id x" "inv_id (issued_row now2 n x) = inv_id x" for x n
    by (simp_all add: edited_invoice_def issued_row_def)
  have live1': "select_first (live_invoice ?t i) (update_where (own_invoice ?t i) (edited_invoice now1 upd) (invoices db)) = Some r1"
    using live1 by (simp add: db1)
  have r1: "r1 = edited_invoice now1 upd r"
    by (rule updated_live_row [OF d draft keep(1) live1'])
  have d1: "distinct (map inv_id (invoices db1))" using d by (simp add: db1 map_update_where keep)
  obtain n db1' where n: "allocateInvoiceNumber ?t now2 db1 = (n, db1')"
    and db2: "db2 = db1'\<lparr>invoices := update_where (own_invoice ?t i) (issued_row now2 n) (invoices db1')\<rparr>"
    and live2: "select_first (live_invoice ?t i) (invoices db2) = Some r2"
    using issue live1 st by (auto simp: issue_def Let_def r1 edited_invoice_def split: prod.splits)
  obtain Q where db1': "db1' = db1\<lparr>invoiceNumberSequences := Q\<rparr>" using n by (rule allocateInvoiceNumber_cases)
  have live2': "select_first (live_invoice ?t i) (update_where (own_invoice ?t i) (issued_row now2 n) (invoices db1)) = Some r2"
    using live2 by (simp add: db2 db1')
  have r2: "r2 = issued_row now2 n r1"
    by (rule updated_live_row [OF d1 live1 keep(2) live2'])
  have d2: "distinct (map inv_id (invoices db2))" using d1 by (simp add: db2 db1' map_update_where keep)
  have frame: "invoiceTaxes db2 = invoiceTaxes db" "invoiceLineItems db2 = invoiceLineItems db"
      "taxRules db2 = taxRules db" "tenants db2 = tenants db"
    by (simp_all add: db2 db1' db1)
  obtain P row db4 where re: "recomputeTotals ?t now3 txIds i (db2\<lparr>payments := P\<rparr>) = Inr (row, db4)"
    and live3: "select_first (live_invoice ?t i) (invoices db4) = Some r3"
    using pay by (auto simp: recordPayment_def Let_def recompute_and_return_def)
  have "inv_taxCents r3 = tax_total (invoice_taxes_of r2 (invoice_lines ?t i db) db)"
    using re
  proof (cases rule: recomputeTotals_cases)
    case (1 own taxes s)
    have "own = r2"
      using own_row_unique [OF d2, of own r2] live_found [OF live2] select_first_SomeD [OF 1(1)]
      by (simp add: own_invoice_def)
    let ?f = "totals_patch now3 (subtotal_of (invoice_lines ?t i (db2\<lparr>payments := P\<rparr>))) (tax_total taxes)
       (paid_of ?t i P) s"
    have "r3 = ?f r2"
    proof (rule updated_live_row [OF d2 live2])
      show "inv_id (?f x) = inv_id x" for x by (simp add: totals_patch_def)
      show "select_first (live_invoice ?t i) (update_where (own_invoice ?t i) ?f (invoices db2)) = Some r3"
        using live3 by (simp add: 1(5))
    qed
    moreover have "taxes = invoice_taxes_of r2 (invoice_lines ?t i db) db"
      using 1(3) \<open>own = r2\<close> taxed_alike [of "db2\<lparr>payments := P\<rparr>" db] by (simp add: invoice_lines_def frame)
    ultimately show ?thesis by (simp add: totals_patch_def)
  qed
  then show ?thesis by (simp add: r2 r1 issued_row_def edited_invoice_def frame)
qed

lemma billed_alike:
  assumes "inv_tenantId a = inv_tenantId b" "inv_billingAddress a = inv_billingAddress b"
  shows "invoice_taxes_of a = invoice_taxes_of b" "invoice_region a = invoice_region b"
  using assms by (simp_all add: fun_eq_iff invoice_taxes_of_def invoice_region_def)

definition bill_edit :: update_invoice_input where
  "bill_edit = \<lparr>uinv_customerId = None, uinv_accountId = None, uinv_terms = None, uinv_notes = None,
     uinv_internalNotes = None, uinv_billingAddress = Some (Some (bill_to ''AB''))\<rparr>"

theorem moved_invoice_keeps_tax_witness:
  "\<exists>r2 db2 q r3 db3. issue bill_ctx 1778284860000 500 (commit (updateInvoice bill_ctx 1778284830000 500 bill_edit) bill_draft) = Inr (r2, db2)
    \<and> invoice_region r2 = Some ''AB'' \<and> inv_taxCents r2 = 1300
    \<and> recordPayment bill_ctx 1778284920000 800 (\<lambda>k. 710 + k) bill_payment db2 = Inr ((q, r3), db3) \<and> inv_taxCents r3 = 500"
proof -
  define db1 where "db1 = commit (updateInvoice bill_ctx 1778284830000 500 bill_edit) bill_draft"
  have run: "\<not> isl (updateInvoice bill_ctx 1778284830000 500 bill_edit bill_draft)" "\<not> isl (issue bill_ctx 1778284860000 500 db1)"
    "\<not> isl (recordPayment bill_ctx 1778284920000 800 (\<lambda>k. 710 + k) bill_payment (commit (issue bill_ctx 1778284860000 500) db1))"
    unfolding db1_def by code_simp+
  obtain r1 where edit: "updateInvoice bill_ctx 1778284830000 500 bill_edit bill_draft = Inr (r1, db1)"
    using run(1) unfolding db1_def commit_def by (cases "updateInvoice bill_ctx 1778284830000 500 bill_edit bill_draft") auto
  obtain r2 db2 where issue: "issue bill_ctx 1778284860000 500 db1 = Inr (r2, db2)"
    using run(2) by (cases "issue bill_ctx 1778284860000 500 db1") auto
  then have "commit (issue bill_ctx 1778284860000 500) db1 = db2" by (simp add: commit_def)
  then obtain q r3 db3 where pay: "recordPayment bill_ctx 1778284920000 800 (\<lambda>k. 710 + k) bill_payment db2 = Inr ((q, r3), db3)"
    using run(3) by (cases "recordPayment bill_ctx 1778284920000 800 (\<lambda>k. 710 + k) bill_payment db2") auto
  have "map (\<lambda>r. (inv_id r, inv_tenantId r, inv_deletedAt r, inv_taxCents r, inv_tenantId r)) (invoices bill_draft) = [(500, 1, None, 1300, 1)]"
    by code_simp
  then obtain r where R: "invoices bill_draft = [r]" and r: "inv_id r = 500" "inv_tenantId r = 1" "inv_deletedAt r = None" "inv_taxCents r = 1300"
    by auto
  have tenant: "ctx_tenantId bill_ctx = 1" by (simp add: bill_ctx_def)
  have draft: "select_first (live_invoice (ctx_tenantId bill_ctx) 500) (invoices bill_draft) = Some r"
    using r tenant by (simp add: R select_first_def live_invoice_def)
  have p: "pi_invoiceId bill_payment = 500" by (simp add: bill_payment_def)
  note m = moved_invoice_keeps_tax [OF bill_reachable(2) draft edit issue pay p]
  have address: "inv_billingAddress r2 = Some (bill_to ''AB'')" and tax: "inv_taxCents r2 = 1300"
    using m r(4) by (simp_all add: bill_edit_def patched_def)
  have same: "inv_tenantId r2 = inv_tenantId (r\<lparr>inv_billingAddress := Some (bill_to ''AB'')\<rparr>)"
      "inv_billingAddress r2 = inv_billingAddress (r\<lparr>inv_billingAddress := Some (bill_to ''AB'')\<rparr>)"
    using address r(2) issued_tenant [OF issue] tenant by simp_all
  have "map (\<lambda>r. (tax_total (invoice_taxes_of (r\<lparr>inv_billingAddress := Some (bill_to ''AB'')\<rparr>)
      (invoice_lines (ctx_tenantId bill_ctx) 500 bill_draft) bill_draft),
      invoice_region (r\<lparr>inv_billingAddress := Some (bill_to ''AB'')\<rparr>))) (invoices bill_draft) = [(500, Some ''AB'')]"
    by code_simp
  then have "tax_total (invoice_taxes_of r2 (invoice_lines (ctx_tenantId bill_ctx) 500 bill_draft) bill_draft) = 500
      \<and> invoice_region r2 = Some ''AB''"
    unfolding billed_alike [OF same] by (simp add: R)
  then show ?thesis
    using m issue pay tax unfolding db1_def [symmetric] by metis
qed

text \<open>Voiding the only payment of a paid invoice makes it partially paid with nothing paid, a move
  the status table does not have.\<close>

lemma paid_invoice_reopens:
  "map (\<lambda>r. (inv_status r, inv_paidCents r)) (invoices (commit
     (voidPayment bill_ctx 1778284980000 (\<lambda>k. 720 + k) 800) bill_paid)) = [(Inv_partially_paid, 0)]"
  "\<not> invoice_canTransition Inv_paid Inv_partially_paid"
  by code_simp (simp add: invoice_canTransition_def)

text \<open>The rules the service charges are not those in effect: one that starts later is charged at
  once, one with an announced end not at all.\<close>

lemma rules_not_by_date:
  "base_rules ''ON'' [bill_rule ''ON'' Tax_hst ''HST'' (1300, 0)\<lparr>tr_effectiveAt := 2000\<rparr>] \<noteq> []"
  "selectApplicableRules tr_effectiveAt tr_expiresAt 1000
     [bill_rule ''ON'' Tax_hst ''HST'' (1300, 0)\<lparr>tr_effectiveAt := 2000\<rparr>] = []"
  "base_rules ''ON'' [bill_rule ''ON'' Tax_hst ''HST'' (1300, 0)\<lparr>tr_expiresAt := Some 2000\<rparr>] = []"
  "selectApplicableRules tr_effectiveAt tr_expiresAt 1000
     [bill_rule ''ON'' Tax_hst ''HST'' (1300, 0)\<lparr>tr_expiresAt := Some 2000\<rparr>] \<noteq> []"
  by (simp_all add: base_rules_def selectApplicableRules_def bill_rule_def select_where_def)

end
