(* ===== verification/Payments.thy ===== *)
theory Payments
  imports InvoiceOps
begin

text \<open>
  modules/payments/payments.service.ts: the Stripe Connect account of a tenant, pay links and
  payment intents of an invoice, cards on file, refunds and the webhook.  The answers of the payment
  provider are arguments of the operations, \<open>Inl\<close> where the call throws.  An operation that
  commits more than one transaction returns the database with its answer, since what it committed
  before a failure stays; the others return a sum, a failure leaving the database as it was.
\<close>

section \<open>Tables and the provider's answers\<close>

datatype intent_status = Requires_payment_method | Requires_confirmation | Requires_action | Processing
  | Requires_capture | Intent_succeeded | Intent_canceled

record intent_reply =
  ir_externalId :: string
  ir_status :: intent_status
  ir_amountCents :: cents
  ir_currency :: string
  ir_clientSecret :: "string option"
  ir_chargeId :: "string option"
  ir_feeCents :: "cents option"

record refund_reply =
  rr_externalId :: string
  rr_amountCents :: cents

record account_reply =
  ar_chargesEnabled :: bool
  ar_payoutsEnabled :: bool
  ar_detailsSubmitted :: bool
  ar_requirementsCurrentlyDue :: "string list"

record event_row =
  se_id :: string
  se_processedAt :: "instant option"
  se_processingError :: "string option"

datatype release_intent_status = Intent_initiated | Intent_id_provided | Intent_paid | Intent_ready_for_gate
  | Intent_cancelled | Intent_gate_completed

record release_intent_row =
  ri_id :: uuid
  ri_tenantId :: uuid
  ri_impoundId :: uuid
  ri_status :: release_intent_status
  ri_totalDueCents :: cents
  ri_paidCents :: cents
  ri_stripePaymentIntentId :: "string option"
  ri_readyForGateAt :: "instant option"
  ri_deletedAt :: "instant option"

datatype portal_payment_status = Portal_pending | Portal_succeeded | Portal_failed | Portal_refunded

record portal_payment_row =
  pp_id :: uuid
  pp_tenantId :: uuid
  pp_stripePaymentIntentId :: string
  pp_amountCents :: cents
  pp_status :: portal_payment_status
  pp_paidAt :: "instant option"
  pp_deletedAt :: "instant option"

record payments_db = billing_db +
  stripeEvents :: "event_row list"
  releaseIntents :: "release_intent_row list"
  portalPayments :: "portal_payment_row list"

definition tenant_of :: "uuid \<Rightarrow> 'a billing_db_scheme \<Rightarrow> tenant_row option" where
  "tenant_of t db = select_first (\<lambda>r. ten_id r = t) (tenants db)"

definition tenant_not_found :: exn where
  "tenant_not_found = NotFound ''Tenant not found''"

definition fk_violation :: exn where
  "fk_violation = Failure ''insert or update violates foreign key constraint''"

definition requireOwnerOrAdmin :: "role option \<Rightarrow> exn + unit" where
  "requireOwnerOrAdmin r = ensure (owner_or_admin r) (Forbidden ''FORBIDDEN'' ''owner/admin only'') (Inr ())"

section \<open>The connected account\<close>

definition deriveAccountStatus :: "account_reply \<Rightarrow> stripe_account_status" where
  "deriveAccountStatus s = (if \<not> ar_detailsSubmitted s then Stripe_pending
     else if ar_chargesEnabled s \<and> ar_payoutsEnabled s then Stripe_active
     else if ar_requirementsCurrentlyDue s \<noteq> [] then Stripe_restricted
     else Stripe_restricted)"

definition is_alnum :: "char \<Rightarrow> bool" where
  "is_alnum c = (let n = (of_char c :: nat) in
     (48 \<le> n \<and> n \<le> 57) \<or> (65 \<le> n \<and> n \<le> 90) \<or> (97 \<le> n \<and> n \<le> 122))"

text \<open>\<open>/^pk_(live|test)_[A-Za-z0-9]{20,}$/\<close>\<close>

definition isRealStripePublishableKey :: "string option \<Rightarrow> bool" where
  "isRealStripePublishableKey key = (case key of None \<Rightarrow> False
     | Some k \<Rightarrow> (take 8 k = ''pk_live_'' \<or> take 8 k = ''pk_test_'') \<and> 20 \<le> length (drop 8 k)
         \<and> list_all is_alnum (drop 8 k))"

record connect_status =
  cs_accountId :: "string option"
  cs_accountStatus :: stripe_account_status
  cs_chargesEnabled :: bool
  cs_payoutsEnabled :: bool
  cs_platformMarginBps :: int
  cs_publicKeyConfigured :: bool

definition getConnectStatus :: "string option \<Rightarrow> ctx \<Rightarrow> 'a billing_db_scheme \<Rightarrow> exn + connect_status" where
  "getConnectStatus key ctx db = require (tenant_of (ctx_tenantId ctx) db) tenant_not_found (\<lambda>t.
     Inr \<lparr>cs_accountId = ten_stripeAccountId t, cs_accountStatus = ten_stripeAccountStatus t,
       cs_chargesEnabled = ten_stripeChargesEnabled t, cs_payoutsEnabled = ten_stripePayoutsEnabled t,
       cs_platformMarginBps = ten_platformMarginBps t,
       cs_publicKeyConfigured = isRealStripePublishableKey key\<rparr>)"

definition update_tenant :: "uuid \<Rightarrow> (tenant_row \<Rightarrow> tenant_row) \<Rightarrow> 'a billing_db_scheme \<Rightarrow> 'a billing_db_scheme" where
  "update_tenant t f db = db\<lparr>tenants := update_where (\<lambda>r. ten_id r = t) f (tenants db)\<rparr>"

text \<open>The account of the provider and the onboarding link, as the provider answers them.  The account
  is stored in a transaction of its own, which stays when the link fails.\<close>

definition stored_account :: "ctx \<Rightarrow> exn + string \<Rightarrow> 'a billing_db_scheme \<Rightarrow> exn + string \<times> 'a billing_db_scheme" where
  "stored_account ctx created db =
    (let t = ctx_tenantId ctx in
     attempt (requireOwnerOrAdmin (ctx_role ctx)) (\<lambda>_.
     require (tenant_of t db) tenant_not_found (\<lambda>ten.
     case truthy (ten_stripeAccountId ten) of Some a \<Rightarrow> Inr (a, db)
     | None \<Rightarrow> attempt created (\<lambda>a.
         ensure (\<not> (\<exists>r \<in> set (tenants db). ten_stripeAccountId r = Some a)) unique_violation
         (Inr (a, update_tenant t (\<lambda>r. r\<lparr>ten_stripeAccountId := Some a,
            ten_stripeAccountStatus := Stripe_pending\<rparr>) db))))))"

definition startConnectOnboarding :: "ctx \<Rightarrow> exn + string \<Rightarrow> exn + string \<Rightarrow> 'a billing_db_scheme \<Rightarrow>
    (exn + string \<times> string) \<times> 'a billing_db_scheme" where
  "startConnectOnboarding ctx created link db =
    (case stored_account ctx created db of Inl e \<Rightarrow> (Inl e, db)
     | Inr (a, db1) \<Rightarrow> (map_sum id (\<lambda>url. (a, url)) link, db1))"

definition refreshConnectOnboardingLink :: "ctx \<Rightarrow> exn + string \<Rightarrow> 'a billing_db_scheme \<Rightarrow> exn + string" where
  "refreshConnectOnboardingLink ctx link db =
     attempt (requireOwnerOrAdmin (ctx_role ctx)) (\<lambda>_.
     require (tenant_of (ctx_tenantId ctx) db) tenant_not_found (\<lambda>t.
     require (truthy (ten_stripeAccountId t)) (invalid_state ''Stripe Connect onboarding not started'')
       (\<lambda>_. link)))"

definition synced_account :: "account_reply \<Rightarrow> tenant_row \<Rightarrow> tenant_row" where
  "synced_account remote r = r\<lparr>ten_stripeAccountStatus := deriveAccountStatus remote,
     ten_stripeChargesEnabled := ar_chargesEnabled remote, ten_stripePayoutsEnabled := ar_payoutsEnabled remote\<rparr>"

definition syncConnectAccount :: "string option \<Rightarrow> ctx \<Rightarrow> exn + account_reply \<Rightarrow> 'a billing_db_scheme \<Rightarrow>
    exn + connect_status \<times> 'a billing_db_scheme" where
  "syncConnectAccount key ctx remote db =
    (let t = ctx_tenantId ctx in
     require (tenant_of t db) tenant_not_found (\<lambda>ten.
     (case truthy (ten_stripeAccountId ten) of
        None \<Rightarrow> attempt (getConnectStatus key ctx db) (\<lambda>s. Inr (s, db))
      | Some _ \<Rightarrow> attempt remote (\<lambda>r.
          (let db1 = update_tenant t (synced_account r) db
           in attempt (getConnectStatus key ctx db1) (\<lambda>s. Inr (s, db1)))))))"

text \<open>A tenant id that has no row is an update of no row, and fails only after it.\<close>

definition setPlatformMargin :: "string option \<Rightarrow> ctx \<Rightarrow> int \<Rightarrow> 'a billing_db_scheme \<Rightarrow>
    exn + connect_status \<times> 'a billing_db_scheme" where
  "setPlatformMargin key ctx bps db =
     attempt (requireOwnerOrAdmin (ctx_role ctx)) (\<lambda>_.
     ensure (0 \<le> bps \<and> bps \<le> 1000) (BadRequest ''VALIDATION_FAILED'' ''platform_margin_bps must be 0..1000'') (
     (let db1 = update_tenant (ctx_tenantId ctx) (\<lambda>r. r\<lparr>ten_platformMarginBps := bps\<rparr>) db
      in attempt (getConnectStatus key ctx db1) (\<lambda>s. Inr (s, db1)))))"

section \<open>Pay links and payment intents\<close>

definition requireChargeableInvoice :: "uuid \<Rightarrow> uuid \<Rightarrow> 'a billing_db_scheme \<Rightarrow> exn + invoice_row" where
  "requireChargeableInvoice t i db =
    require (select_first (live_invoice t i) (invoices db)) invoice_not_found (\<lambda>r.
    ensure (inv_status r \<noteq> Inv_draft) (invalid_state ''Issue the invoice before requesting payment'') (
    ensure (inv_status r \<noteq> Inv_void) (invalid_state ''Invoice is void'') (
    ensure (0 < inv_balanceCents r) (invalid_state ''Invoice has no outstanding balance'') (Inr r))))"

definition requireConnectedAccount :: "tenant_row \<Rightarrow> exn + unit" where
  "requireConnectedAccount t = require (truthy (ten_stripeAccountId t))
     (invalid_state ''Stripe Connect onboarding not started'') (\<lambda>_. Inr ())"

text \<open>The token generated for an invoice that has none; the pay link is the web address followed
  by it.\<close>

definition issuePayLink :: "string \<Rightarrow> ctx \<Rightarrow> instant \<Rightarrow> string \<Rightarrow> uuid \<Rightarrow> 'a billing_db_scheme \<Rightarrow>
    exn + (string \<times> string) \<times> 'a billing_db_scheme" where
  "issuePayLink webPublicUrl ctx now fresh i db =
    (let t = ctx_tenantId ctx in
     attempt (requireChargeableInvoice t i db) (\<lambda>r.
     (case truthy (inv_paymentToken r) of
        Some token \<Rightarrow> Inr ((token, webPublicUrl @ ''/pay/'' @ token), db)
      | None \<Rightarrow> ensure (\<not> (\<exists>x \<in> set (invoices db). inv_paymentToken x = Some fresh)) unique_violation (
          Inr ((fresh, webPublicUrl @ ''/pay/'' @ fresh), db\<lparr>invoices := update_where (own_invoice t i)
            (\<lambda>x. x\<lparr>inv_paymentToken := Some fresh, inv_updatedAt := now\<rparr>) (invoices db)\<rparr>)))))"

text \<open>The id of the provider's customer, created on first use.\<close>

definition ensureStripeCustomerId :: "exn + string \<Rightarrow> bill_customer \<Rightarrow> tenant_row \<Rightarrow> 'a billing_db_scheme \<Rightarrow>
    exn + string \<times> 'a billing_db_scheme" where
  "ensureStripeCustomerId created c t db =
    (case truthy (bc_stripeCustomerId c) of Some s \<Rightarrow> Inr (s, db)
     | None \<Rightarrow> require (truthy (ten_stripeAccountId t)) (invalid_state ''Stripe Connect not configured'') (\<lambda>_.
         attempt created (\<lambda>s. Inr (s, db\<lparr>billCustomers := update_where
           (\<lambda>x. bc_tenantId x = ten_id t \<and> bc_id x = bc_id c) (\<lambda>x. x\<lparr>bc_stripeCustomerId := Some s\<rparr>)
           (billCustomers db)\<rparr>))))"

text \<open>\<open>Math.floor((balanceCents * platformMarginBps) / 10_000)\<close>\<close>

definition application_fee :: "cents \<Rightarrow> int \<Rightarrow> cents" where
  "application_fee balance bps = dfloor (ddiv (dmul (num balance) (num bps)) (num 10000))"

definition live_pi :: "uuid \<Rightarrow> string \<Rightarrow> payment_row \<Rightarrow> bool" where
  "live_pi t piId p \<longleftrightarrow> pay_tenantId p = t \<and> pay_stripePaymentIntentId p = Some piId \<and> pay_deletedAt p = None"

definition live_refund :: "uuid \<Rightarrow> string \<Rightarrow> payment_row \<Rightarrow> bool" where
  "live_refund t ref p \<longleftrightarrow> pay_tenantId p = t \<and> pay_stripeRefundId p = Some ref \<and> pay_deletedAt p = None"

text \<open>A card payment as the service inserts it; the columns it leaves out have their defaults.\<close>

definition card_payment :: "uuid \<Rightarrow> uuid \<Rightarrow> uuid \<Rightarrow> instant \<Rightarrow> cents \<Rightarrow> payment_status \<Rightarrow> payment_row" where
  "card_payment t newId i now amount status = \<lparr>pay_id = newId, pay_tenantId = t, pay_invoiceId = i,
     pay_amountCents = amount, pay_paymentMethod = Method_credit_card, pay_referenceNumber = None,
     pay_receivedAt = now, pay_recordedBy = None, pay_status = status, pay_notes = None,
     pay_stripePaymentIntentId = None, pay_stripeChargeId = None, pay_stripeRefundId = None,
     pay_platformMarginCents = 0, pay_stripeFeeCents = 0, pay_createdAt = now, pay_updatedAt = now,
     pay_deletedAt = None\<rparr>"

text \<open>The write of a payment row: the foreign key to the invoice and the CHECK on the amount.\<close>

definition insert_payment :: "payment_row \<Rightarrow> 'a billing_db_scheme \<Rightarrow> exn + 'a billing_db_scheme" where
  "insert_payment p db =
    ensure (\<exists>r \<in> set (invoices db). inv_id r = pay_invoiceId p) fk_violation (
    ensure (pay_amountCents p \<noteq> 0) check_violation (
    Inr (db\<lparr>payments := insert_into p (payments db)\<rparr>)))"

record intent_input =
  ii_invoiceId :: uuid
  ii_chargeCardOnFile :: bool

text \<open>The provider's customer for the invoice, when it has a live or deleted customer row.\<close>

definition intent_customer :: "exn + string \<Rightarrow> intent_input \<Rightarrow> invoice_row \<Rightarrow> tenant_row \<Rightarrow>
    'a billing_db_scheme \<Rightarrow> exn + 'a billing_db_scheme" where
  "intent_customer cust inp r ten db =
    (case inv_customerId r of None \<Rightarrow> Inr db
     | Some c \<Rightarrow> (case select_first (\<lambda>x. bc_tenantId x = ten_id ten \<and> bc_id x = c) (billCustomers db) of
         None \<Rightarrow> Inr db
       | Some customer \<Rightarrow> attempt (ensureStripeCustomerId cust customer ten db) (\<lambda>(_, db1).
           ensure (\<not> ii_chargeCardOnFile inp \<or> truthy (bc_defaultPaymentMethodId customer) \<noteq> None)
             (invalid_state ''Customer has no card on file'') (Inr db1))))"

definition intent_payment :: "ctx \<Rightarrow> instant \<Rightarrow> uuid \<Rightarrow> invoice_row \<Rightarrow> tenant_row \<Rightarrow> intent_reply \<Rightarrow> payment_row" where
  "intent_payment ctx now newId r ten intent =
    (card_payment (ten_id ten) newId (inv_id r) now (ir_amountCents intent)
       (if ir_status intent = Intent_succeeded then Pay_cleared else Pay_pending))
     \<lparr>pay_stripePaymentIntentId := Some (ir_externalId intent), pay_stripeChargeId := ir_chargeId intent,
      pay_platformMarginCents := application_fee (inv_balanceCents r) (ten_platformMarginBps ten),
      pay_stripeFeeCents := (case ir_feeCents intent of None \<Rightarrow> 0 | Some f \<Rightarrow> f),
      pay_recordedBy := Some (ctx_userId ctx),
      pay_notes := Some (''Stripe PaymentIntent '' @ ir_externalId intent)\<rparr>"

definition createInvoicePaymentIntent :: "ctx \<Rightarrow> instant \<Rightarrow> uuid \<Rightarrow> (nat \<Rightarrow> uuid) \<Rightarrow> intent_input \<Rightarrow>
    exn + string \<Rightarrow> exn + intent_reply \<Rightarrow> 'a billing_db_scheme \<Rightarrow> exn + intent_reply \<times> 'a billing_db_scheme" where
  "createInvoicePaymentIntent ctx now newId txIds inp cust reply db =
    (let t = ctx_tenantId ctx in
     require (tenant_of t db) tenant_not_found (\<lambda>ten.
     attempt (requireConnectedAccount ten) (\<lambda>_.
     attempt (requireChargeableInvoice t (ii_invoiceId inp) db) (\<lambda>r.
     attempt (intent_customer cust inp r ten db) (\<lambda>db1.
     attempt reply (\<lambda>intent.
     (case select_first (live_pi t (ir_externalId intent)) (payments db1) of
        Some _ \<Rightarrow> Inr (intent, db1)
      | None \<Rightarrow> attempt (insert_payment (intent_payment ctx now newId r ten intent) db1) (\<lambda>db2.
          if ir_status intent = Intent_succeeded
          then attempt (recomputeTotals t now txIds (inv_id r) db2) (\<lambda>(_, db3). Inr (intent, db3))
          else Inr (intent, db2)))))))))"

text \<open>The public pay page of a token, found over all tenants: it creates an intent for an open
  balance and anchors it as a pending payment.\<close>

definition public_payment :: "instant \<Rightarrow> uuid \<Rightarrow> invoice_row \<Rightarrow> tenant_row \<Rightarrow> intent_reply \<Rightarrow> payment_row" where
  "public_payment now newId r ten intent =
    (card_payment (ten_id ten) newId (inv_id r) now (ir_amountCents intent) Pay_pending)
     \<lparr>pay_stripePaymentIntentId := Some (ir_externalId intent),
      pay_platformMarginCents := application_fee (inv_balanceCents r) (ten_platformMarginBps ten),
      pay_notes := Some (''Stripe PaymentIntent '' @ ir_externalId intent @ '' (public pay)'')\<rparr>"

definition publicView :: "instant \<Rightarrow> uuid \<Rightarrow> exn + intent_reply \<Rightarrow> string \<Rightarrow> 'a billing_db_scheme \<Rightarrow>
    exn + (invoice_row \<times> intent_reply option) \<times> 'a billing_db_scheme" where
  "publicView now newId reply token db =
    require (select_first (\<lambda>r. inv_paymentToken r = Some token \<and> inv_deletedAt r = None) (invoices db))
      (NotFound ''Unknown payment link'') (\<lambda>found.
    (let t = inv_tenantId found in
     require (select_first (live_invoice t (inv_id found)) (invoices db)) invoice_not_found (\<lambda>r.
     ensure (inv_status r \<noteq> Inv_void) (invalid_state ''Invoice is void'') (
     require (tenant_of t db) tenant_not_found (\<lambda>ten.
     (if 0 < inv_balanceCents r \<and> truthy (ten_stripeAccountId ten) \<noteq> None
      then attempt reply (\<lambda>intent.
        (case select_first (live_pi t (ir_externalId intent)) (payments db) of
           Some _ \<Rightarrow> Inr ((r, Some intent), db)
         | None \<Rightarrow> attempt (insert_payment (public_payment now newId r ten intent) db) (\<lambda>db1.
             Inr ((r, Some intent), db1))))
      else Inr ((r, None), db)))))))"

section \<open>Cards on file\<close>

record card_on_file =
  cf_hasCard :: bool
  cf_card :: "(string \<times> string \<times> int \<times> int) option"
  cf_autoChargeEnabled :: bool

definition customer_not_found :: exn where
  "customer_not_found = NotFound ''Customer not found''"

definition getCardOnFile :: "ctx \<Rightarrow> uuid \<Rightarrow> 'a billing_db_scheme \<Rightarrow> exn + card_on_file" where
  "getCardOnFile ctx c db =
    require (select_first (live_customer (ctx_tenantId ctx) c) (billCustomers db)) customer_not_found (\<lambda>r.
      Inr \<lparr>cf_hasCard = (truthy (bc_defaultPaymentMethodId r) \<noteq> None), cf_card = bc_card r,
        cf_autoChargeEnabled = bc_autoChargeEnabled r\<rparr>)"

definition update_customer :: "uuid \<Rightarrow> uuid \<Rightarrow> (bill_customer \<Rightarrow> bill_customer) \<Rightarrow> 'a billing_db_scheme \<Rightarrow>
    'a billing_db_scheme" where
  "update_customer t c f db = db\<lparr>billCustomers :=
     update_where (\<lambda>x. bc_tenantId x = t \<and> bc_id x = c) f (billCustomers db)\<rparr>"

definition setAutoCharge :: "ctx \<Rightarrow> uuid \<Rightarrow> bool \<Rightarrow> 'a billing_db_scheme \<Rightarrow>
    exn + card_on_file \<times> 'a billing_db_scheme" where
  "setAutoCharge ctx c enabled db =
    (let t = ctx_tenantId ctx in
     require (select_first (live_customer t c) (billCustomers db)) customer_not_found (\<lambda>_.
     (let db1 = update_customer t c (\<lambda>x. x\<lparr>bc_autoChargeEnabled := enabled\<rparr>) db
      in attempt (getCardOnFile ctx c db1) (\<lambda>f. Inr (f, db1)))))"

definition createCustomerSetupIntent :: "ctx \<Rightarrow> uuid \<Rightarrow> exn + string \<Rightarrow> exn + string \<times> string \<Rightarrow>
    'a billing_db_scheme \<Rightarrow> exn + (string \<times> string) \<times> 'a billing_db_scheme" where
  "createCustomerSetupIntent ctx c cust reply db =
    (let t = ctx_tenantId ctx in
     require (tenant_of t db) tenant_not_found (\<lambda>ten.
     attempt (requireConnectedAccount ten) (\<lambda>_.
     require (select_first (live_customer t c) (billCustomers db)) customer_not_found (\<lambda>r.
     attempt (ensureStripeCustomerId cust r ten db) (\<lambda>(_, db1).
     attempt reply (\<lambda>si. Inr (si, db1)))))))"

text \<open>A failing detach at the provider is logged and ignored.\<close>

definition removeCardOnFile :: "ctx \<Rightarrow> uuid \<Rightarrow> 'a billing_db_scheme \<Rightarrow> exn + bool \<times> 'a billing_db_scheme" where
  "removeCardOnFile ctx c db =
    (let t = ctx_tenantId ctx in
     require (tenant_of t db) tenant_not_found (\<lambda>ten.
     require (select_first (live_customer t c) (billCustomers db)) customer_not_found (\<lambda>r.
     (if truthy (bc_defaultPaymentMethodId r) = None \<or> truthy (ten_stripeAccountId ten) = None then Inr (False, db)
      else Inr (True, update_customer t c (\<lambda>x. x\<lparr>bc_defaultPaymentMethodId := None, bc_card := None,
        bc_autoChargeEnabled := False\<rparr>) db)))))"

section \<open>Refunds\<close>

definition uuid_text :: "uuid \<Rightarrow> string" where
  "uuid_text i = (let h = hex_text 32 (int i) in take 8 h @ ''-'' @ take 4 (drop 8 h) @ ''-''
     @ take 4 (drop 12 h) @ ''-'' @ take 4 (drop 16 h) @ ''-'' @ drop 20 h)"

definition refund_payment :: "ctx \<Rightarrow> instant \<Rightarrow> uuid \<Rightarrow> payment_row \<Rightarrow> string \<Rightarrow> refund_reply \<Rightarrow> payment_row" where
  "refund_payment ctx now newId original piId refund =
    (card_payment (ctx_tenantId ctx) newId (pay_invoiceId original) now (- rr_amountCents refund) Pay_cleared)
     \<lparr>pay_stripeRefundId := Some (rr_externalId refund), pay_stripeChargeId := pay_stripeChargeId original,
      pay_recordedBy := Some (ctx_userId ctx), pay_notes := Some (''Refund of '' @ uuid_text (pay_id original) @ '' (PI '' @ piId @ '')'')\<rparr>"

definition refundPayment :: "ctx \<Rightarrow> instant \<Rightarrow> uuid \<Rightarrow> (nat \<Rightarrow> uuid) \<Rightarrow> uuid \<Rightarrow> cents option \<Rightarrow> exn + refund_reply \<Rightarrow>
    'a billing_db_scheme \<Rightarrow> exn + refund_reply \<times> 'a billing_db_scheme" where
  "refundPayment ctx now newId txIds payId amount reply db =
    (let t = ctx_tenantId ctx in
     attempt (requireOwnerOrAdmin (ctx_role ctx)) (\<lambda>_.
     require (tenant_of t db) tenant_not_found (\<lambda>ten.
     require (select_first (\<lambda>p. pay_tenantId p = t \<and> pay_id p = payId \<and> pay_deletedAt p = None) (payments db))
       (NotFound ''Payment not found'') (\<lambda>original.
     require (truthy (pay_stripePaymentIntentId original))
       (invalid_state ''Only Stripe payments can be refunded through this endpoint'') (\<lambda>piId.
     require (truthy (ten_stripeAccountId ten)) (invalid_state ''Stripe Connect not configured'') (\<lambda>_.
     (let requested = (case amount of Some a \<Rightarrow> a | None \<Rightarrow> pay_amountCents original)
      in ensure (0 < requested \<and> requested \<le> pay_amountCents original)
           (BadRequest ''VALIDATION_FAILED'' ''invalid refund amount'') (
         attempt reply (\<lambda>refund.
         attempt (case select_first (live_refund t (rr_externalId refund)) (payments db) of
             Some _ \<Rightarrow> Inr db
           | None \<Rightarrow> insert_payment (refund_payment ctx now newId original piId refund) db) (\<lambda>db1.
         attempt (recomputeTotals t now txIds (pay_invoiceId original) db1) (\<lambda>(_, db2).
         Inr (refund, db2))))))))))))"

section \<open>The webhook\<close>

datatype balance_ref = Balance_text | Balance_object "cents option"

datatype charge_ref = Charge_text string | Charge_object string "balance_ref option"

record pi_object =
  po_id :: string
  po_amount :: cents
  po_latestCharge :: "charge_ref option"
  po_paymentMethod :: "string option"
  po_kind :: "string option"
  po_tenantId :: "uuid option"
  po_invoiceId :: "uuid option"

record charge_object =
  co_id :: string
  co_paymentIntent :: "string option"
  co_amountRefunded :: "cents option"
  co_tenantId :: "uuid option"

datatype webhook_object = Payment_intent_succeeded pi_object | Payment_intent_payment_failed pi_object
  | Charge_refunded charge_object | Charge_dispute_created | Account_updated string account_reply
  | Other_event

record webhook_event =
  we_id :: string
  we_object :: webhook_object

definition charge_id :: "charge_ref option \<Rightarrow> string option" where
  "charge_id c = (case c of None \<Rightarrow> None | Some (Charge_text s) \<Rightarrow> Some s | Some (Charge_object s _) \<Rightarrow> Some s)"

definition charge_fee :: "charge_ref option \<Rightarrow> cents" where
  "charge_fee c = (case c of Some (Charge_object _ (Some (Balance_object (Some fee)))) \<Rightarrow> fee | _ \<Rightarrow> 0)"

text \<open>One transaction of a handler: it commits or leaves the database alone.\<close>

definition transact :: "('s \<Rightarrow> exn + 's) \<Rightarrow> 's \<Rightarrow> (exn + unit) \<times> 's" where
  "transact f db = (case f db of Inl e \<Rightarrow> (Inl e, db) | Inr db1 \<Rightarrow> (Inr (), db1))"

definition persistCardOnFileFromIntent :: "uuid \<Rightarrow> uuid \<Rightarrow> string \<Rightarrow> 'a billing_db_scheme \<Rightarrow> 'a billing_db_scheme" where
  "persistCardOnFileFromIntent t i pm db =
    (case select_first (own_invoice t i) (invoices db) of None \<Rightarrow> db
     | Some r \<Rightarrow> (case inv_customerId r of None \<Rightarrow> db
       | Some c \<Rightarrow> update_customer t c (\<lambda>x. x\<lparr>bc_defaultPaymentMethodId := Some pm\<rparr>) db))"

definition settled_payment :: "instant \<Rightarrow> pi_object \<Rightarrow> payment_row \<Rightarrow> payment_row" where
  "settled_payment now obj p = p\<lparr>pay_amountCents := po_amount obj, pay_status := Pay_cleared,
     pay_stripeChargeId := charge_id (po_latestCharge obj), pay_stripeFeeCents := charge_fee (po_latestCharge obj),
     pay_updatedAt := now\<rparr>"

definition webhook_payment :: "instant \<Rightarrow> uuid \<Rightarrow> uuid \<Rightarrow> uuid \<Rightarrow> pi_object \<Rightarrow> payment_row" where
  "webhook_payment now newId t i obj = (card_payment t newId i now (po_amount obj) Pay_cleared)
     \<lparr>pay_stripePaymentIntentId := Some (po_id obj), pay_stripeChargeId := charge_id (po_latestCharge obj),
      pay_stripeFeeCents := charge_fee (po_latestCharge obj),
      pay_notes := Some (''Stripe PaymentIntent '' @ po_id obj)\<rparr>"

definition settle :: "instant \<Rightarrow> uuid \<Rightarrow> (nat \<Rightarrow> uuid) \<Rightarrow> uuid \<Rightarrow> uuid \<Rightarrow> pi_object \<Rightarrow> 'a billing_db_scheme \<Rightarrow>
    exn + 'a billing_db_scheme" where
  "settle now newId txIds t i obj db =
    attempt (case select_first (live_pi t (po_id obj)) (payments db) of
        Some existing \<Rightarrow> ensure (po_amount obj \<noteq> 0) check_violation (
          Inr (db\<lparr>payments := update_where (\<lambda>p. pay_tenantId p = t \<and> pay_id p = pay_id existing)
            (settled_payment now obj) (payments db)\<rparr>))
      | None \<Rightarrow> insert_payment (webhook_payment now newId t i obj) db) (\<lambda>db1.
    (let db2 = (case truthy (po_paymentMethod obj) of None \<Rightarrow> db1
           | Some pm \<Rightarrow> persistCardOnFileFromIntent t i pm db1)
     in attempt (recomputeTotals t now txIds i db2) (\<lambda>(_, db3). Inr db3)))"

definition onSelfServePortalSucceeded :: "instant \<Rightarrow> uuid option \<Rightarrow> string \<Rightarrow> cents \<Rightarrow> 'a payments_db_scheme \<Rightarrow>
    'a payments_db_scheme" where
  "onSelfServePortalSucceeded now tenantId piId amount db =
    (case tenantId of None \<Rightarrow> db
     | Some t \<Rightarrow>
       (let P = (\<lambda>r. ri_tenantId r = t \<and> ri_stripePaymentIntentId r = Some piId \<and> ri_deletedAt r = None);
            db1 = (case select_first P (releaseIntents db) of None \<Rightarrow> db
              | Some intent \<Rightarrow>
                  if ri_status intent \<in> {Intent_initiated, Intent_id_provided, Intent_paid}
                  then db\<lparr>releaseIntents := update_where (\<lambda>r. ri_tenantId r = t \<and> ri_id r = ri_id intent)
                    (\<lambda>r. r\<lparr>ri_status := Intent_ready_for_gate, ri_paidCents := ri_totalDueCents intent,
                       ri_readyForGateAt := Some now\<rparr>) (releaseIntents db)\<rparr>
                  else db)
        in db1\<lparr>portalPayments := update_where
             (\<lambda>p. pp_tenantId p = t \<and> pp_stripePaymentIntentId p = piId \<and> pp_deletedAt p = None)
             (\<lambda>p. p\<lparr>pp_status := Portal_succeeded, pp_paidAt := Some now, pp_amountCents := amount\<rparr>)
             (portalPayments db1)\<rparr>))"

definition onSelfServePortalFailed :: "uuid option \<Rightarrow> string \<Rightarrow> 'a payments_db_scheme \<Rightarrow> 'a payments_db_scheme" where
  "onSelfServePortalFailed tenantId piId db =
    (case tenantId of None \<Rightarrow> db
     | Some t \<Rightarrow> db\<lparr>portalPayments := update_where
         (\<lambda>p. pp_tenantId p = t \<and> pp_stripePaymentIntentId p = piId \<and> pp_deletedAt p = None)
         (\<lambda>p. p\<lparr>pp_status := Portal_failed\<rparr>) (portalPayments db)\<rparr>)"

definition onPaymentIntentSucceeded :: "instant \<Rightarrow> uuid \<Rightarrow> (nat \<Rightarrow> uuid) \<Rightarrow> pi_object \<Rightarrow> 'a payments_db_scheme \<Rightarrow>
    (exn + unit) \<times> 'a payments_db_scheme" where
  "onPaymentIntentSucceeded now newId txIds obj db =
    (if po_kind obj = Some ''self_serve_portal''
     then (Inr (), onSelfServePortalSucceeded now (po_tenantId obj) (po_id obj) (po_amount obj) db)
     else (case (po_tenantId obj, po_invoiceId obj) of
         (Some t, Some i) \<Rightarrow> transact (settle now newId txIds t i obj) db
       | _ \<Rightarrow> (Inr (), db)))"

definition fail_payments :: "instant \<Rightarrow> uuid \<Rightarrow> string \<Rightarrow> 'a billing_db_scheme \<Rightarrow> 'a billing_db_scheme" where
  "fail_payments now t piId db = db\<lparr>payments := update_where (live_pi t piId)
     (\<lambda>p. p\<lparr>pay_status := Pay_failed, pay_updatedAt := now\<rparr>) (payments db)\<rparr>"

definition onPaymentIntentFailed :: "instant \<Rightarrow> pi_object \<Rightarrow> 'a payments_db_scheme \<Rightarrow>
    (exn + unit) \<times> 'a payments_db_scheme" where
  "onPaymentIntentFailed now obj db =
    (if po_kind obj = Some ''self_serve_portal''
     then (Inr (), onSelfServePortalFailed (po_tenantId obj) (po_id obj) db)
     else (case po_tenantId obj of None \<Rightarrow> (Inr (), db)
       | Some t \<Rightarrow> (Inr (), fail_payments now t (po_id obj) db)))"

text \<open>The oldest live payment of the intent, over all tenants.\<close>

definition oldest_payment :: "string \<Rightarrow> payment_row list \<Rightarrow> payment_row option" where
  "oldest_payment piId ps = (case sort_key pay_createdAt (select_where
     (\<lambda>p. pay_stripePaymentIntentId p = Some piId \<and> pay_deletedAt p = None) ps) of [] \<Rightarrow> None | p # _ \<Rightarrow> Some p)"

definition webhook_refund :: "instant \<Rightarrow> uuid \<Rightarrow> charge_object \<Rightarrow> string \<Rightarrow> payment_row \<Rightarrow> payment_row" where
  "webhook_refund now newId obj piId row =
    (card_payment (pay_tenantId row) newId (pay_invoiceId row) now
       (- \<bar>case co_amountRefunded obj of Some a \<Rightarrow> a | None \<Rightarrow> pay_amountCents row\<bar>) Pay_cleared)
     \<lparr>pay_stripeChargeId := Some (co_id obj), pay_stripeRefundId := Some (co_id obj @ ''_webhook''),
      pay_notes := Some (''Refund via webhook for '' @ piId)\<rparr>"

text \<open>\<open>INSERT ... ON CONFLICT DO NOTHING\<close>: nothing on a live row with the refund id.\<close>

definition insert_refund :: "instant \<Rightarrow> uuid \<Rightarrow> charge_object \<Rightarrow> string \<Rightarrow> 'a billing_db_scheme \<Rightarrow>
    exn + 'a billing_db_scheme" where
  "insert_refund now newId obj piId db =
    (case oldest_payment piId (payments db) of None \<Rightarrow> Inr db
     | Some row \<Rightarrow>
       (let p = webhook_refund now newId obj piId row
        in ensure (pay_amountCents p \<noteq> 0) check_violation (
           if select_first (live_refund (pay_tenantId p) (co_id obj @ ''_webhook'')) (payments db) \<noteq> None
           then Inr db else insert_payment p db)))"

definition recompute_charged :: "instant \<Rightarrow> (nat \<Rightarrow> uuid) \<Rightarrow> uuid \<Rightarrow> string \<Rightarrow> 'a billing_db_scheme \<Rightarrow>
    exn + 'a billing_db_scheme" where
  "recompute_charged now txIds t piId db =
    (case select_first (live_pi t piId) (payments db) of None \<Rightarrow> Inr db
     | Some original \<Rightarrow> attempt (recomputeTotals t now txIds (pay_invoiceId original) db) (\<lambda>(_, db1). Inr db1))"

definition lookupTenantForPi :: "string \<Rightarrow> 'a billing_db_scheme \<Rightarrow> uuid option" where
  "lookupTenantForPi piId db = map_option pay_tenantId
     (select_first (\<lambda>p. pay_stripePaymentIntentId p = Some piId) (payments db))"

definition onChargeRefunded :: "instant \<Rightarrow> uuid \<Rightarrow> (nat \<Rightarrow> uuid) \<Rightarrow> charge_object \<Rightarrow> 'a payments_db_scheme \<Rightarrow>
    (exn + unit) \<times> 'a payments_db_scheme" where
  "onChargeRefunded now newId txIds obj db =
    (case truthy (co_paymentIntent obj) of None \<Rightarrow> (Inr (), db)
     | Some piId \<Rightarrow>
       (case transact (insert_refund now newId obj piId) db of
          (Inl e, db1) \<Rightarrow> (Inl e, db1)
        | (Inr _, db1) \<Rightarrow>
           (case (case co_tenantId obj of Some t \<Rightarrow> Some t | None \<Rightarrow> lookupTenantForPi piId db1) of
              None \<Rightarrow> (Inr (), db1)
            | Some t \<Rightarrow> transact (recompute_charged now txIds t piId) db1)))"

definition onAccountUpdated :: "string \<Rightarrow> account_reply \<Rightarrow> 'a payments_db_scheme \<Rightarrow> 'a payments_db_scheme" where
  "onAccountUpdated acct remote db = db\<lparr>tenants := update_where (\<lambda>t. ten_stripeAccountId t = Some acct)
     (synced_account remote) (tenants db)\<rparr>"

text \<open>The handler of an event; the flag says whether the type is one of the service's.\<close>

definition route_event :: "instant \<Rightarrow> uuid \<Rightarrow> (nat \<Rightarrow> uuid) \<Rightarrow> webhook_object \<Rightarrow> 'a payments_db_scheme \<Rightarrow>
    (exn + bool) \<times> 'a payments_db_scheme" where
  "route_event now newId txIds obj db =
    (let done = (\<lambda>(r, db1). (map_sum id (\<lambda>_. True) r, db1)) in
     case obj of
       Payment_intent_succeeded o1 \<Rightarrow> done (onPaymentIntentSucceeded now newId txIds o1 db)
     | Payment_intent_payment_failed o2 \<Rightarrow> done (onPaymentIntentFailed now o2 db)
     | Charge_refunded o3 \<Rightarrow> done (onChargeRefunded now newId txIds o3 db)
     | Charge_dispute_created \<Rightarrow> (Inr True, db)
     | Account_updated acct remote \<Rightarrow> (Inr True, onAccountUpdated acct remote db)
     | Other_event \<Rightarrow> (Inr False, db))"

fun exn_message :: "exn \<Rightarrow> string" where
  "exn_message (NotFound m) = m"
| "exn_message (Conflict c m) = m"
| "exn_message (BadRequest c m) = m"
| "exn_message (Forbidden c m) = m"
| "exn_message (Unauthorized c m) = m"
| "exn_message (RangeError m) = m"
| "exn_message (Failure m) = m"

definition markEventProcessed :: "instant \<Rightarrow> string \<Rightarrow> string option \<Rightarrow> 'a payments_db_scheme \<Rightarrow>
    'a payments_db_scheme" where
  "markEventProcessed now i err db = db\<lparr>stripeEvents := update_where (\<lambda>e. se_id e = i)
     (\<lambda>e. e\<lparr>se_processedAt := Some now, se_processingError := err\<rparr>) (stripeEvents db)\<rparr>"

text \<open>The flags of the answer: handled, duplicate.\<close>

definition handleWebhookEvent :: "instant \<Rightarrow> uuid \<Rightarrow> (nat \<Rightarrow> uuid) \<Rightarrow> webhook_event \<Rightarrow> 'a payments_db_scheme \<Rightarrow>
    (exn + bool \<times> bool) \<times> 'a payments_db_scheme" where
  "handleWebhookEvent now newId txIds ev db =
    (if select_first (\<lambda>e. se_id e = we_id ev) (stripeEvents db) \<noteq> None then (Inr (True, True), db)
     else (let db1 = db\<lparr>stripeEvents := insert_into \<lparr>se_id = we_id ev, se_processedAt = None,
               se_processingError = None\<rparr> (stripeEvents db)\<rparr>
           in case route_event now newId txIds (we_object ev) db1 of
                (Inr handled, db2) \<Rightarrow> (Inr (handled, False), markEventProcessed now (we_id ev) None db2)
              | (Inl e, db2) \<Rightarrow> (Inl e, markEventProcessed now (we_id ev) (Some (exn_message e)) db2)))"

end
