(* ===== verification/PaymentsInv.thy ===== *)
theory PaymentsInv
  imports Payments InvoiceRuns
begin

text \<open>
  Runs of billing and payments together: the steps of the billing service, the operations of the
  payments service, and webhook deliveries of a provider that is honest about whose intent and whose
  charge an event is.  Every such run keeps the ledger invariant; what it takes is stated as side
  conditions of the steps.
\<close>

section \<open>Changing payments\<close>

lemma in_pays_for: "p \<in> set (pays_for j P) \<longleftrightarrow> p \<in> set P \<and> pay_invoiceId p = j"
  by (auto simp: pays_for_def)

text \<open>Payments that count the same leave the ledger as it is.\<close>

lemma ledger_same_received:
  assumes inv: "ledger_inv S db" and d: "distinct (map pay_id P)"
    and same: "\<And>j. j \<notin> S \<Longrightarrow> received (pays_for j P) = received (pays_for j (payments db))"
    and own: "\<And>p. p \<in> set P \<Longrightarrow> child_ok (invoices db) (pay_tenantId p, pay_invoiceId p)"
    and drafts: "\<And>r. r \<in> set (invoices db) \<Longrightarrow> inv_status r = Inv_draft \<Longrightarrow> pays_for (inv_id r) P = []"
  shows "ledger_inv S (db\<lparr>payments := P\<rparr>)"
proof -
  have "invoice_ok S (invoiceLineItems db) P (invoiceTaxes db) r" if "r \<in> set (invoices db)" for r
  proof -
    have "invoice_ok S (invoiceLineItems db) (payments db) (invoiceTaxes db) r" using inv that by (simp add: ledger_inv_def)
    then show ?thesis using same [of "inv_id r"] drafts [OF that]
      by (auto simp: invoice_ok_def totals_ok_def draft_ok_def)
  qed
  then show ?thesis using inv d own by (auto simp: ledger_inv_def children_ok_def)
qed

lemma received_snoc: "received (P @ [p]) = received P + (if pay_deletedAt p = None \<and> pay_status p = Pay_cleared then pay_amountCents p else 0)"
  by (simp add: received_def)

text \<open>An issued invoice of the tenant.\<close>

definition billed :: "uuid \<Rightarrow> uuid \<Rightarrow> 'a billing_db_scheme \<Rightarrow> bool" where
  "billed t i db \<longleftrightarrow> (\<exists>r \<in> set (invoices db). inv_id r = i \<and> inv_tenantId r = t \<and> inv_status r \<noteq> Inv_draft)"

lemma billed_child: "billed t i db \<Longrightarrow> child_ok (invoices db) (t, i)"
  by (auto simp: billed_def child_ok_def)

lemma billed_not_draft:
  assumes "ledger_inv S db" "billed t i db" "r \<in> set (invoices db)" "inv_status r = Inv_draft"
  shows "inv_id r \<noteq> i"
  using assms by (auto simp: billed_def ledger_inv_def distinct_map inj_on_def)

lemma draft_unpaid: "ledger_inv S db \<Longrightarrow> r \<in> set (invoices db) \<Longrightarrow> inv_status r = Inv_draft \<Longrightarrow>
    pays_for (inv_id r) (payments db) = []"
  by (auto simp: ledger_inv_def invoice_ok_def draft_ok_def)

lemma payment_billed:
  assumes "ledger_inv S db" "p \<in> set (payments db)"
  shows "billed (pay_tenantId p) (pay_invoiceId p) db"
proof -
  obtain r where r: "r \<in> set (invoices db)" "inv_id r = pay_invoiceId p" "inv_tenantId r = pay_tenantId p"
    using assms by (auto simp: ledger_inv_def children_ok_def child_ok_def)
  have "p \<in> set (pays_for (inv_id r) (payments db))" using r assms(2) by (simp add: in_pays_for)
  then have "inv_status r \<noteq> Inv_draft" using draft_unpaid [OF assms(1) r(1)] by auto
  then show ?thesis using r by (auto simp: billed_def)
qed

lemma insert_payment_cases:
  assumes "insert_payment p db = Inr db'"
  shows "db' = db\<lparr>payments := payments db @ [p]\<rparr>"
  using assms by (auto simp: insert_payment_def insert_into_def)

lemma ledger_insert_pending:
  assumes inv: "ledger_inv S db" and new: "pay_id p \<notin> pay_id ` set (payments db)"
    and own: "billed (pay_tenantId p) (pay_invoiceId p) db" and pending: "pay_status p \<noteq> Pay_cleared"
  shows "ledger_inv S (db\<lparr>payments := payments db @ [p]\<rparr>)"
proof (rule ledger_same_received [OF inv])
  show "distinct (map pay_id (payments db @ [p]))" using inv new by (auto simp: ledger_inv_def)
  show "received (pays_for j (payments db @ [p])) = received (pays_for j (payments db))" for j
    using pending by (simp add: pays_for_def received_snoc)
  show "child_ok (invoices db) (pay_tenantId q, pay_invoiceId q)" if "q \<in> set (payments db @ [p])" for q
    using that inv billed_child [OF own] by (auto simp: ledger_inv_def children_ok_def)
  show "pays_for (inv_id r) (payments db @ [p]) = []" if "r \<in> set (invoices db)" "inv_status r = Inv_draft" for r
    using draft_unpaid [OF inv that] billed_not_draft [OF inv own that] by (simp add: pays_for_def)
qed

lemma ledger_insert_except:
  assumes inv: "ledger_inv S db" and new: "pay_id p \<notin> pay_id ` set (payments db)"
    and own: "billed (pay_tenantId p) (pay_invoiceId p) db"
  shows "ledger_except S (pay_invoiceId p) (db\<lparr>payments := payments db @ [p]\<rparr>)"
proof -
  from own obtain r where r: "r \<in> set (invoices db)" "inv_id r = pay_invoiceId p" "inv_status r \<noteq> Inv_draft"
    by (auto simp: billed_def)
  show ?thesis
  proof (rule ledger_payments_change [OF inv _ _ _ r])
    show "distinct (map pay_id (payments db @ [p]))" using inv new by (auto simp: ledger_inv_def)
    show "pays_for j (payments db @ [p]) = pays_for j (payments db)" if "j \<noteq> pay_invoiceId p" for j
      using that by (simp add: pays_for_def)
    show "child_ok (invoices db) (pay_tenantId q, pay_invoiceId q)" if "q \<in> set (payments db @ [p])" for q
      using that inv billed_child [OF own] by (auto simp: ledger_inv_def children_ok_def)
  qed
qed

lemma ledger_update_payments:
  assumes inv: "ledger_inv S db" and Q: "\<And>p. p \<in> set (payments db) \<Longrightarrow> Q p \<Longrightarrow> pay_invoiceId p = i"
    and f: "\<And>p. pay_id (f p) = pay_id p \<and> pay_tenantId (f p) = pay_tenantId p \<and> pay_invoiceId (f p) = pay_invoiceId p"
    and own: "billed t i db"
  shows "ledger_except S i (db\<lparr>payments := update_where Q f (payments db)\<rparr>)"
proof -
  from own obtain r where r: "r \<in> set (invoices db)" "inv_id r = i" "inv_status r \<noteq> Inv_draft"
    by (auto simp: billed_def)
  show ?thesis
  proof (rule ledger_payments_change [OF inv _ _ _ r])
    show "distinct (map pay_id (update_where Q f (payments db)))"
      using inv f by (simp add: map_update_where ledger_inv_def)
    show "pays_for j (update_where Q f (payments db)) = pays_for j (payments db)" if "j \<noteq> i" for j
      using Q f that by (intro pays_for_update) auto
    show "child_ok (invoices db) (pay_tenantId q, pay_invoiceId q)" if "q \<in> set (update_where Q f (payments db))" for q
      using that inv f by (auto simp: ledger_inv_def children_ok_def dest!: in_update_where)
  qed
qed

lemma ledger_except_cong:
  assumes "ledger_except S i db" "invoices db' = invoices db" "invoiceLineItems db' = invoiceLineItems db"
    "payments db' = payments db" "invoiceTaxes db' = invoiceTaxes db"
  shows "ledger_except S i db'"
  using assms by (simp add: ledger_except_def cong: if_cong)

section \<open>The operations\<close>

text \<open>What the operations below promise: ledger and pay links stay in order.\<close>

definition books_ok :: "uuid set \<Rightarrow> 'a billing_db_scheme \<Rightarrow> bool" where
  "books_ok S db \<longleftrightarrow> ledger_inv S db \<and> token_ok db"

lemma books_cong:
  assumes "books_ok S db" "invoices db' = invoices db" "invoiceLineItems db' = invoiceLineItems db"
    "payments db' = payments db" "invoiceTaxes db' = invoiceTaxes db"
  shows "books_ok S db'"
  using assms ledger_cong [of S db db'] by (simp add: books_ok_def token_ok_def)

lemma books_recompute:
  assumes "ledger_except S i db" "token_ok db" "recomputeTotals t now ids i db = Inr (row, db')"
  shows "books_ok S db'"
  using assms recompute_ledger recompute_token by (auto simp: books_ok_def)

lemma requireChargeable_cases:
  assumes "requireChargeableInvoice t i db = Inr r"
  shows "r \<in> set (invoices db)" "inv_id r = i" "inv_tenantId r = t" "inv_status r \<noteq> Inv_draft" "billed t i db"
  using assms live_found [of t i "invoices db" r] by (auto simp: requireChargeableInvoice_def billed_def)

lemma issuePayLink_books:
  assumes ok: "books_ok S db" and step: "issuePayLink web ctx now fresh i db = Inr (x, db')"
  shows "books_ok S db'"
proof -
  let ?t = "ctx_tenantId ctx" and ?f = "\<lambda>x. x\<lparr>inv_paymentToken := Some fresh, inv_updatedAt := now\<rparr> :: invoice_row"
  from step obtain r where r: "requireChargeableInvoice ?t i db = Inr r"
      and "db' = db \<or> db' = db\<lparr>invoices := update_where (own_invoice ?t i) ?f (invoices db)\<rparr>"
    by (auto simp: issuePayLink_def Let_def split: option.splits)
  then consider "db' = db" | "db' = db\<lparr>invoices := update_where (own_invoice ?t i) ?f (invoices db)\<rparr>" by blast
  then show ?thesis
  proof cases
    case 2
    note r = requireChargeable_cases [OF r]
    have only: "x = r" if "x \<in> set (invoices db)" "own_invoice ?t i x" for x
      using ok r that by (auto simp: books_ok_def ledger_inv_def own_invoice_def distinct_map inj_on_def)
    have "ledger_inv S db'" unfolding 2
      by (rule ledger_update) (use ok in \<open>auto simp: books_ok_def money_def invoice_ok_def status_ok_def draft_ok_def\<close>)
    moreover have "linkable (?f r)" using r by (simp add: linkable_def)
    then have "token_ok db'" using ok only 2 by (auto simp: books_ok_def token_ok_def dest!: in_update_where)
    ultimately show ?thesis by (simp add: books_ok_def)
  qed (use ok in simp)
qed

lemma intent_customer_frame:
  assumes "intent_customer cust inp r ten db = Inr db'"
  shows "invoices db' = invoices db" "invoiceLineItems db' = invoiceLineItems db"
    "payments db' = payments db" "invoiceTaxes db' = invoiceTaxes db"
  using assms by (auto simp: intent_customer_def ensureStripeCustomerId_def split: option.splits)

lemma tenant_of_id: "tenant_of t db = Some ten \<Longrightarrow> ten_id ten = t"
  by (auto simp: tenant_of_def dest: select_first_SomeD)

lemma createInvoicePaymentIntent_books:
  assumes ok: "books_ok S db" and new: "newId \<notin> pay_id ` set (payments db)"
    and step: "createInvoicePaymentIntent ctx now newId txIds inp cust reply db = Inr (x, db')"
  shows "books_ok S db'"
proof -
  let ?t = "ctx_tenantId ctx"
  from step obtain ten r db1 intent where ten: "tenant_of ?t db = Some ten"
      and r: "requireChargeableInvoice ?t (ii_invoiceId inp) db = Inr r"
      and cust: "intent_customer cust inp r ten db = Inr db1"
      and rest: "(case select_first (live_pi ?t (ir_externalId intent)) (payments db1) of
        Some _ \<Rightarrow> Inr (intent, db1)
      | None \<Rightarrow> attempt (insert_payment (intent_payment ctx now newId r ten intent) db1) (\<lambda>db2.
          if ir_status intent = Intent_succeeded
          then attempt (recomputeTotals ?t now txIds (inv_id r) db2) (\<lambda>(_, db3). Inr (intent, db3))
          else Inr (intent, db2))) = Inr (x, db')"
    by (auto simp: createInvoicePaymentIntent_def Let_def)
  let ?p = "intent_payment ctx now newId r ten intent"
  have ok1: "books_ok S db1" by (rule books_cong [OF ok]) (rule intent_customer_frame [OF cust])+
  note r = requireChargeable_cases [OF r]
  have p: "pay_id ?p = newId" "pay_tenantId ?p = ?t" "pay_invoiceId ?p = inv_id r"
    using tenant_of_id [OF ten] by (simp_all add: intent_payment_def card_payment_def)
  have own: "billed (pay_tenantId ?p) (pay_invoiceId ?p) db1"
    using r p by (auto simp: billed_def intent_customer_frame [OF cust])
  have fresh: "pay_id ?p \<notin> pay_id ` set (payments db1)" using new p by (simp add: intent_customer_frame [OF cust])
  from rest consider "db' = db1"
    | db2 where "insert_payment ?p db1 = Inr db2" "ir_status intent \<noteq> Intent_succeeded" "db' = db2"
    | db2 row where "insert_payment ?p db1 = Inr db2" "recomputeTotals ?t now txIds (inv_id r) db2 = Inr (row, db')"
    by (auto split: option.splits if_splits)
  then show ?thesis
  proof cases
    case 1
    then show ?thesis using ok1 by simp
  next
    case (2 db2)
    then have "pay_status ?p \<noteq> Pay_cleared" by (simp add: intent_payment_def card_payment_def)
    from ledger_insert_pending [OF _ fresh own this] ok1 show ?thesis
      using insert_payment_cases [OF 2(1)] 2(3) by (simp add: books_ok_def token_ok_def)
  next
    case (3 db2 row)
    have "ledger_except S (inv_id r) db2" "token_ok db2"
      using ledger_insert_except [OF _ fresh own] ok1 p insert_payment_cases [OF 3(1)]
      by (simp_all add: books_ok_def token_ok_def)
    then show ?thesis using books_recompute 3(2) by blast
  qed
qed

lemma publicView_books:
  assumes ok: "books_ok S db" and new: "newId \<notin> pay_id ` set (payments db)"
    and step: "publicView now newId reply token db = Inr (x, db')"
  shows "books_ok S db'"
proof -
  from step obtain f where found: "select_first (\<lambda>r. inv_paymentToken r = Some token \<and> inv_deletedAt r = None)
      (invoices db) = Some f" by (auto simp: publicView_def)
  have f: "f \<in> set (invoices db)" "inv_paymentToken f = Some token" using select_first_SomeD [OF found] by auto
  have linked: "inv_status f \<noteq> Inv_draft"
  proof -
    have "linkable f" using ok f(1) by (simp add: books_ok_def token_ok_def)
    then show ?thesis using f(2) by (simp add: linkable_def)
  qed
  from step found consider "db' = db"
    | r ten intent where "select_first (live_invoice (inv_tenantId f) (inv_id f)) (invoices db) = Some r"
        "tenant_of (inv_tenantId f) db = Some ten"
        "insert_payment (public_payment now newId r ten intent) db = Inr db'"
    by (auto simp: publicView_def Let_def split: if_splits option.splits)
  then show ?thesis
  proof cases
    case (2 r ten intent)
    let ?p = "public_payment now newId r ten intent"
    have own: "billed (inv_tenantId f) (inv_id f) db" using f(1) linked by (auto simp: billed_def)
    have "inv_id r = inv_id f" "ten_id ten = inv_tenantId f"
      using live_found [OF 2(1)] tenant_of_id [OF 2(2)] by simp_all
    then have "pay_id ?p = newId" "pay_tenantId ?p = inv_tenantId f" "pay_invoiceId ?p = inv_id f"
        "pay_status ?p \<noteq> Pay_cleared"
      by (simp_all add: public_payment_def card_payment_def)
    then have "ledger_inv S (db\<lparr>payments := payments db @ [?p]\<rparr>)"
      using ok new own by (intro ledger_insert_pending) (auto simp: books_ok_def)
    then show ?thesis using ok insert_payment_cases [OF 2(3)] by (simp add: books_ok_def token_ok_def)
  qed (use ok in simp)
qed

lemma refundPayment_books:
  assumes ok: "books_ok S db" and new: "newId \<notin> pay_id ` set (payments db)"
    and step: "refundPayment ctx now newId txIds payId amount reply db = Inr (x, db')"
  shows "books_ok S db'"
proof -
  let ?t = "ctx_tenantId ctx"
  let ?P = "\<lambda>p. pay_tenantId p = ?t \<and> pay_id p = payId \<and> pay_deletedAt p = None"
  from step obtain o1 piId refund db1 row where o1: "select_first ?P (payments db) = Some o1"
      and ins: "(case select_first (live_refund ?t (rr_externalId refund)) (payments db) of Some _ \<Rightarrow> Inr db
        | None \<Rightarrow> insert_payment (refund_payment ctx now newId o1 piId refund) db) = Inr db1"
      and re: "recomputeTotals ?t now txIds (pay_invoiceId o1) db1 = Inr (row, db')"
    by (auto simp: refundPayment_def Let_def)
  have o: "o1 \<in> set (payments db)" "pay_tenantId o1 = ?t" using select_first_SomeD [OF o1] by auto
  have inv: "ledger_inv S db" using ok by (simp add: books_ok_def)
  have own: "billed ?t (pay_invoiceId o1) db" using payment_billed [OF inv o(1)] o(2) by simp
  have "ledger_except S (pay_invoiceId o1) db1 \<and> token_ok db1"
  proof (cases "select_first (live_refund ?t (rr_externalId refund)) (payments db)")
    case None
    let ?p = "refund_payment ctx now newId o1 piId refund"
    have p: "pay_id ?p = newId" "pay_tenantId ?p = ?t" "pay_invoiceId ?p = pay_invoiceId o1"
      by (simp_all add: refund_payment_def card_payment_def)
    have "db1 = db\<lparr>payments := payments db @ [?p]\<rparr>" using ins None insert_payment_cases by simp
    then show ?thesis using ledger_insert_except [OF inv, of ?p] new own p ok by (simp add: books_ok_def token_ok_def)
  next
    case (Some q)
    then show ?thesis using ins ok ledger_except [OF inv] by (simp add: books_ok_def)
  qed
  then show ?thesis using books_recompute re by blast
qed

section \<open>Webhook events\<close>

text \<open>All payments of an intent are of one invoice: the provider's ids are unique, and an intent is
  created for one invoice.\<close>

definition intent_of :: "string \<Rightarrow> uuid \<Rightarrow> uuid \<Rightarrow> 'a billing_db_scheme \<Rightarrow> bool" where
  "intent_of piId t i db \<longleftrightarrow> billed t i db \<and> (\<forall>p \<in> set (payments db).
     pay_stripePaymentIntentId p = Some piId \<longrightarrow> pay_tenantId p = t \<and> pay_invoiceId p = i)"

text \<open>What a delivered event names is what it is about: the metadata of a settled intent is what the intent
  was created with, and the charge of a refund belongs to one invoice.\<close>

fun addressed :: "webhook_object \<Rightarrow> 'a billing_db_scheme \<Rightarrow> bool" where
  "addressed (Payment_intent_succeeded obj) db \<longleftrightarrow> po_kind obj = Some ''self_serve_portal''
     \<or> (case (po_tenantId obj, po_invoiceId obj) of (Some t, Some i) \<Rightarrow> intent_of (po_id obj) t i db | _ \<Rightarrow> True)"
| "addressed (Charge_refunded obj) db \<longleftrightarrow> (case truthy (co_paymentIntent obj) of None \<Rightarrow> True
     | Some piId \<Rightarrow> (\<exists>t i. intent_of piId t i db \<and> co_tenantId obj \<in> {None, Some t}))"
| "addressed _ db \<longleftrightarrow> True"

text \<open>The invoices whose stored totals a delivery may leave behind their payments: a failure reported
  after the capture takes the payment out and recomputes nothing, and a refund whose recomputation
  fails has already committed its row.\<close>

definition disturbed_by :: "webhook_object \<Rightarrow> bool \<Rightarrow> 'a billing_db_scheme \<Rightarrow> uuid set" where
  "disturbed_by obj failed db = (case obj of
     Payment_intent_payment_failed o1 \<Rightarrow> (case po_tenantId o1 of None \<Rightarrow> {} | Some t \<Rightarrow>
       if po_kind o1 = Some ''self_serve_portal'' then {}
       else {pay_invoiceId p | p. p \<in> set (payments db) \<and> live_pi t (po_id o1) p \<and> pay_status p = Pay_cleared})
   | Charge_refunded o2 \<Rightarrow> (if failed then {pay_invoiceId p | p. p \<in> set (payments db)
       \<and> pay_stripePaymentIntentId p \<noteq> None \<and> pay_stripePaymentIntentId p = truthy (co_paymentIntent o2)} else {})
   | _ \<Rightarrow> {})"

text \<open>An event that was delivered before disturbs nothing.\<close>

definition disturbed :: "webhook_event \<Rightarrow> bool \<Rightarrow> 'a payments_db_scheme \<Rightarrow> uuid set" where
  "disturbed ev failed db = (if select_first (\<lambda>e. se_id e = we_id ev) (stripeEvents db) \<noteq> None then {}
     else disturbed_by (we_object ev) failed db)"

text \<open>The events of an intent in order: besides, an intent reported failed was not settled before.\<close>

fun honest :: "webhook_object \<Rightarrow> 'a billing_db_scheme \<Rightarrow> bool" where
  "honest (Payment_intent_succeeded obj) db \<longleftrightarrow> po_kind obj = Some ''self_serve_portal''
     \<or> (case (po_tenantId obj, po_invoiceId obj) of (Some t, Some i) \<Rightarrow> intent_of (po_id obj) t i db | _ \<Rightarrow> True)"
| "honest (Payment_intent_payment_failed obj) db \<longleftrightarrow> po_kind obj = Some ''self_serve_portal''
     \<or> (\<forall>p \<in> set (payments db). pay_stripePaymentIntentId p = Some (po_id obj) \<longrightarrow> pay_status p \<noteq> Pay_cleared)"
| "honest (Charge_refunded obj) db \<longleftrightarrow> (case truthy (co_paymentIntent obj) of None \<Rightarrow> True
     | Some piId \<Rightarrow> (\<exists>t i. intent_of piId t i db \<and> co_tenantId obj \<in> {None, Some t}))"
| "honest _ db \<longleftrightarrow> True"

lemma settle_except:
  assumes inv: "ledger_inv S db" and new: "newId \<notin> pay_id ` set (payments db)"
    and own: "intent_of (po_id obj) t i db"
    and step: "settle now newId txIds t i obj db = Inr db'"
  obtains db2 row P where "recomputeTotals t now txIds i db2 = Inr (row, db')" "ledger_except S i db2"
    "invoices db2 = invoices db" "payments db2 = P"
    "(\<exists>p. select_first (live_pi t (po_id obj)) (payments db) = Some p \<and> po_amount obj \<noteq> 0 \<and>
        P = update_where (\<lambda>q. pay_tenantId q = t \<and> pay_id q = pay_id p) (settled_payment now obj) (payments db))
     \<or> (select_first (live_pi t (po_id obj)) (payments db) = None
        \<and> P = payments db @ [webhook_payment now newId t i obj])"
proof -
  have billed: "billed t i db" using own by (simp add: intent_of_def)
  from step obtain db1 row where pay: "(case select_first (live_pi t (po_id obj)) (payments db) of
        Some existing \<Rightarrow> ensure (po_amount obj \<noteq> 0) check_violation (
          Inr (db\<lparr>payments := update_where (\<lambda>p. pay_tenantId p = t \<and> pay_id p = pay_id existing)
            (settled_payment now obj) (payments db)\<rparr>))
      | None \<Rightarrow> insert_payment (webhook_payment now newId t i obj) db) = Inr db1"
    and re: "recomputeTotals t now txIds i (case truthy (po_paymentMethod obj) of None \<Rightarrow> db1
           | Some pm \<Rightarrow> persistCardOnFileFromIntent t i pm db1) = Inr (row, db')"
    by (auto simp: settle_def Let_def)
  let ?db2 = "case truthy (po_paymentMethod obj) of None \<Rightarrow> db1 | Some pm \<Rightarrow> persistCardOnFileFromIntent t i pm db1"
  have frame: "invoices ?db2 = invoices db1" "invoiceLineItems ?db2 = invoiceLineItems db1"
      "payments ?db2 = payments db1" "invoiceTaxes ?db2 = invoiceTaxes db1"
    by (auto simp: persistCardOnFileFromIntent_def update_customer_def split: option.split)
  have parts: "ledger_except S i db1 \<and> invoices db1 = invoices db \<and> ((\<exists>p. select_first (live_pi t (po_id obj)) (payments db) = Some p
        \<and> po_amount obj \<noteq> 0 \<and> payments db1 = update_where (\<lambda>q. pay_tenantId q = t \<and> pay_id q = pay_id p)
            (settled_payment now obj) (payments db))
     \<or> (select_first (live_pi t (po_id obj)) (payments db) = None
        \<and> payments db1 = payments db @ [webhook_payment now newId t i obj]))"
  proof (cases "select_first (live_pi t (po_id obj)) (payments db)")
    case None
    let ?p = "webhook_payment now newId t i obj"
    have "pay_id ?p = newId" "pay_tenantId ?p = t" "pay_invoiceId ?p = i"
      by (simp_all add: webhook_payment_def card_payment_def)
    then have "ledger_except S i (db\<lparr>payments := payments db @ [?p]\<rparr>)"
      using ledger_insert_except [OF inv, of ?p] new billed by simp
    then show ?thesis using pay None insert_payment_cases [of ?p db db1] by simp
  next
    case (Some p)
    let ?Q = "\<lambda>q. pay_tenantId q = t \<and> pay_id q = pay_id p"
    have p: "p \<in> set (payments db)" "pay_invoiceId p = i"
      using select_first_SomeD [OF Some] own by (auto simp: intent_of_def live_pi_def)
    have "pay_invoiceId q = i" if "q \<in> set (payments db)" "?Q q" for q
      using inv p that by (auto simp: ledger_inv_def distinct_map inj_on_def)
    then have "ledger_except S i (db\<lparr>payments := update_where ?Q (settled_payment now obj) (payments db)\<rparr>)"
      by (intro ledger_update_payments [OF inv _ _ billed]) (simp_all add: settled_payment_def)
    then show ?thesis using pay Some by auto
  qed
  have "ledger_except S i ?db2" using parts ledger_except_cong [OF _ frame] by blast
  then show thesis
    by (rule that [OF re, where P = "payments db1"]) (use parts frame in simp_all)
qed

lemma settle_books:
  assumes "books_ok S db" "newId \<notin> pay_id ` set (payments db)" "intent_of (po_id obj) t i db"
    "settle now newId txIds t i obj db = Inr db'"
  shows "books_ok S db'"
proof -
  have inv: "ledger_inv S db" using assms(1) by (simp add: books_ok_def)
  show ?thesis
    using settle_except [OF inv assms(2-4)] assms(1) books_recompute
    by (metis books_ok_def token_ok_def)
qed

lemma transact_Inr [simp]: "transact f db = (Inr u, db') \<longleftrightarrow> f db = Inr db'"
  by (auto simp: transact_def split: sum.split)

lemma pays_for_update_commute:
  "(\<And>p. pay_invoiceId (f p) = pay_invoiceId p) \<Longrightarrow>
    pays_for j (update_where Q f P) = update_where Q f (pays_for j P)"
  by (induction P) (auto simp: pays_for_def update_where_def)

lemma received_update_uncounted:
  assumes "\<And>p. p \<in> set P \<Longrightarrow> Q p \<Longrightarrow> pay_status p \<noteq> Pay_cleared" "\<And>p. pay_status (f p) \<noteq> Pay_cleared"
  shows "received (update_where Q f P) = received P"
  using assms by (induction P) (auto simp: received_def update_where_def)

text \<open>The books stay in order outside a larger set.\<close>

lemma books_mono: "books_ok S db \<Longrightarrow> S \<subseteq> S' \<Longrightarrow> books_ok S' db"
  by (auto simp: books_ok_def ledger_inv_def invoice_ok_def)

lemma except_books: "ledger_except S i db \<Longrightarrow> token_ok db \<Longrightarrow> books_ok (insert i S) db"
  unfolding books_ok_def ledger_except_def ledger_inv_def invoice_ok_def by (simp split: if_splits) blast

lemma fail_payments_books:
  assumes ok: "books_ok S db" and open_pi: "\<And>p. p \<in> set (payments db) \<Longrightarrow> live_pi t piId p \<Longrightarrow>
      pay_status p = Pay_cleared \<Longrightarrow> pay_invoiceId p \<in> S"
  shows "books_ok S (fail_payments now t piId db)"
proof -
  let ?f = "\<lambda>p. p\<lparr>pay_status := Pay_failed, pay_updatedAt := now\<rparr> :: payment_row"
  let ?P = "update_where (live_pi t piId) ?f (payments db)"
  have inv: "ledger_inv S db" using ok by (simp add: books_ok_def)
  have "ledger_inv S (db\<lparr>payments := ?P\<rparr>)"
  proof (rule ledger_same_received [OF inv])
    show "distinct (map pay_id ?P)" using inv by (simp add: map_update_where ledger_inv_def)
    show "received (pays_for j ?P) = received (pays_for j (payments db))" if "j \<notin> S" for j
    proof -
      have "received (update_where (live_pi t piId) ?f (pays_for j (payments db))) = received (pays_for j (payments db))"
        using open_pi that by (intro received_update_uncounted) (auto simp: in_pays_for)
      then show ?thesis by (simp add: pays_for_update_commute)
    qed
    show "child_ok (invoices db) (pay_tenantId q, pay_invoiceId q)" if "q \<in> set ?P" for q
      using that inv by (auto simp: ledger_inv_def children_ok_def dest!: in_update_where)
    show "pays_for (inv_id r) ?P = []" if "r \<in> set (invoices db)" "inv_status r = Inv_draft" for r
      using draft_unpaid [OF inv that] by (simp add: pays_for_update_commute) (simp add: update_where_def)
  qed
  then show ?thesis using ok by (simp add: fail_payments_def books_ok_def token_ok_def)
qed

lemma oldest_payment_None:
  "oldest_payment piId P = None \<longleftrightarrow> (\<forall>p \<in> set P. pay_stripePaymentIntentId p = Some piId \<longrightarrow> pay_deletedAt p \<noteq> None)"
proof -
  let ?xs = "select_where (\<lambda>p. pay_stripePaymentIntentId p = Some piId \<and> pay_deletedAt p = None) P"
  have "oldest_payment piId P = None \<longleftrightarrow> sort_key pay_createdAt ?xs = []"
    by (auto simp: oldest_payment_def split: list.split)
  also have "\<dots> \<longleftrightarrow> set (sort_key pay_createdAt ?xs) = {}" by (simp only: set_empty)
  also have "\<dots> \<longleftrightarrow> set ?xs = {}" by (simp only: set_sort)
  finally show ?thesis by (auto simp: select_where_def)
qed

lemma oldest_payment_Some:
  assumes "oldest_payment piId P = Some p"
  shows "p \<in> set P" "pay_stripePaymentIntentId p = Some piId" "pay_deletedAt p = None"
proof -
  let ?xs = "select_where (\<lambda>p. pay_stripePaymentIntentId p = Some piId \<and> pay_deletedAt p = None) P"
  have "p \<in> set (sort_key pay_createdAt ?xs)"
  proof (cases "sort_key pay_createdAt ?xs")
    case Nil
    then show ?thesis using assms by (simp add: oldest_payment_def)
  next
    case (Cons q qs)
    then have "p = q" using assms by (simp add: oldest_payment_def)
    then show ?thesis by (simp only: Cons list.set_intros)
  qed
  then have "p \<in> set ?xs" by (simp only: set_sort)
  then show "p \<in> set P" "pay_stripePaymentIntentId p = Some piId" "pay_deletedAt p = None"
    by (auto simp: select_where_def)
qed

lemma transact_cases:
  assumes "transact f db = (res, db')"
  shows "(\<exists>e. res = Inl e \<and> f db = Inl e \<and> db' = db) \<or> (res = Inr () \<and> f db = Inr db')"
  using assms by (auto simp: transact_def split: sum.splits)

lemma onChargeRefunded_books:
  assumes ok: "books_ok S db" and new: "newId \<notin> pay_id ` set (payments db)"
    and piId: "truthy (co_paymentIntent obj) = Some piId"
    and own: "intent_of piId t i db" and tenant: "co_tenantId obj \<in> {None, Some t}"
    and step: "onChargeRefunded now newId txIds obj db = (res, db')"
  shows "books_ok (S \<union> disturbed_by (Charge_refunded obj) (isl res) db) db'"
proof -
  let ?S = "S \<union> disturbed_by (Charge_refunded obj) (isl res) db"
  have inv: "ledger_inv S db" using ok by (simp add: books_ok_def)
  have ok': "books_ok ?S db" using books_mono [OF ok] by blast
  have all: "pay_tenantId p = t \<and> pay_invoiceId p = i"
    if "p \<in> set (payments db)" "pay_stripePaymentIntentId p = Some piId" for p
    using own that by (auto simp: intent_of_def)
  show ?thesis
  proof (cases "insert_refund now newId obj piId db")
    case (Inl e)
    then show ?thesis using step piId ok' by (simp add: onChargeRefunded_def transact_def)
  next
    case (Inr db1)
    note ins = Inr
    have rest: "(case (case co_tenantId obj of Some t \<Rightarrow> Some t | None \<Rightarrow> lookupTenantForPi piId db1) of
              None \<Rightarrow> (Inr (), db1)
            | Some t \<Rightarrow> transact (recompute_charged now txIds t piId) db1) = (res, db')"
      using step piId ins by (simp add: onChargeRefunded_def transact_def)
    show ?thesis
    proof (cases "oldest_payment piId (payments db)")
      case None
      then have db1: "db1 = db" using ins by (simp add: insert_refund_def)
      have "select_first (live_pi s piId) (payments db) = None" for s
        using None by (auto simp: select_first_None oldest_payment_None live_pi_def)
      then have "db' = db" using rest db1 by (auto simp: recompute_charged_def transact_def split: option.splits)
      then show ?thesis using ok' by simp
    next
      case (Some row)
      note row = oldest_payment_Some [OF Some]
      let ?p = "webhook_refund now newId obj piId row"
      have p: "pay_id ?p = newId" "pay_tenantId ?p = t" "pay_invoiceId ?p = i" "pay_stripePaymentIntentId ?p = None"
        using all [OF row(1,2)] by (simp_all add: webhook_refund_def card_payment_def)
      have db1: "db1 = db \<or> db1 = db\<lparr>payments := payments db @ [?p]\<rparr>"
        using ins Some insert_payment_cases [of ?p db db1] by (auto simp: insert_refund_def Let_def split: if_splits)
      have "billed t i db" using own by (simp add: intent_of_def)
      then have ex: "ledger_except S i db1 \<and> token_ok db1"
        using db1 ledger_except [OF inv] ledger_insert_except [OF inv, of ?p] new p ok
        by (auto simp: books_ok_def token_ok_def)
      have rows: "pay_tenantId q = t \<and> pay_invoiceId q = i"
        if "q \<in> set (payments db1)" "pay_stripePaymentIntentId q = Some piId" for q
        using db1 all p(4) that by auto
      have row1: "row \<in> set (payments db1)" using db1 row(1) by auto
      have "\<exists>q. select_first (\<lambda>q. pay_stripePaymentIntentId q = Some piId) (payments db1) = Some q"
        using row1 row(2) by (auto simp: select_first_ex)
      then obtain q0 where q0: "select_first (\<lambda>q. pay_stripePaymentIntentId q = Some piId) (payments db1) = Some q0"
        by blast
      then have "pay_tenantId q0 = t" using rows select_first_SomeD [OF q0] by auto
      then have "lookupTenantForPi piId db1 = Some t" by (simp add: lookupTenantForPi_def q0)
      then have tx: "transact (recompute_charged now txIds t piId) db1 = (res, db')"
        using rest tenant by auto
      have "\<exists>q. select_first (live_pi t piId) (payments db1) = Some q"
        using row1 row rows by (auto simp: select_first_ex live_pi_def)
      then obtain q where q: "select_first (live_pi t piId) (payments db1) = Some q" by blast
      then have qi: "pay_invoiceId q = i" using rows select_first_SomeD [OF q] by (auto simp: live_pi_def)
      from transact_cases [OF tx] show ?thesis
      proof (elim disjE exE conjE)
        fix e assume "res = Inl e" "db' = db1"
        moreover have "i \<in> disturbed_by (Charge_refunded obj) True db"
          using row(1,2) all [OF row(1,2)] piId by (auto simp: disturbed_by_def)
        ultimately show ?thesis using books_mono [OF except_books [of S i db1], of ?S] ex by auto
      next
        assume "recompute_charged now txIds t piId db1 = Inr db'"
        then have "books_ok S db'" using q qi ex books_recompute by (auto simp: recompute_charged_def)
        then show ?thesis by (rule books_mono) blast
      qed
    qed
  qed
qed

lemma route_event_books:
  assumes ok: "books_ok S db" and new: "newId \<notin> pay_id ` set (payments db)" and "addressed obj db"
    and step: "route_event now newId txIds obj db = (res, db')"
  shows "books_ok (S \<union> disturbed_by obj (isl res) db) db'"
proof (cases obj)
  case (Payment_intent_succeeded o1)
  show ?thesis
  proof (cases "po_kind o1 = Some ''self_serve_portal''")
    case True
    then have "db' = onSelfServePortalSucceeded now (po_tenantId o1) (po_id o1) (po_amount o1) db"
      using step Payment_intent_succeeded by (simp add: route_event_def onPaymentIntentSucceeded_def)
    then have "books_ok S db'"
      by (intro books_cong [OF ok]) (simp_all add: onSelfServePortalSucceeded_def Let_def split: option.split)
    then show ?thesis by (rule books_mono) blast
  next
    case False
    then have "books_ok S db'"
      using step assms(3) ok settle_books [OF ok new] Payment_intent_succeeded
      by (auto simp: route_event_def onPaymentIntentSucceeded_def transact_def split: option.splits sum.splits)
    then show ?thesis by (rule books_mono) blast
  qed
next
  case (Payment_intent_payment_failed o2)
  show ?thesis
  proof (cases "po_kind o2 = Some ''self_serve_portal''")
    case True
    then have "db' = onSelfServePortalFailed (po_tenantId o2) (po_id o2) db"
      using step Payment_intent_payment_failed by (simp add: route_event_def onPaymentIntentFailed_def)
    then have "books_ok S db'"
      by (intro books_cong [OF ok]) (simp_all add: onSelfServePortalFailed_def split: option.split)
    then show ?thesis by (rule books_mono) blast
  next
    case False
    show ?thesis
    proof (cases "po_tenantId o2")
      case None
      then have "db' = db"
        using step Payment_intent_payment_failed False by (simp add: route_event_def onPaymentIntentFailed_def)
      then show ?thesis using books_mono [OF ok] by blast
    next
      case (Some t)
      then have "db' = fail_payments now t (po_id o2) db"
        using step Payment_intent_payment_failed False by (simp add: route_event_def onPaymentIntentFailed_def)
      moreover have "books_ok (S \<union> disturbed_by obj (isl res) db) db" using books_mono [OF ok] by blast
      ultimately show ?thesis
        using fail_payments_books [of "S \<union> disturbed_by obj (isl res) db" db t "po_id o2" now]
          Payment_intent_payment_failed False Some by (auto simp: disturbed_by_def)
    qed
  qed
next
  case (Charge_refunded o3)
  obtain r where r: "onChargeRefunded now newId txIds o3 db = (r, db')" "isl res = isl r"
    using step Charge_refunded by (cases "onChargeRefunded now newId txIds o3 db"; cases "fst (onChargeRefunded now newId txIds o3 db)")
      (auto simp: route_event_def)
  show ?thesis
  proof (cases "truthy (co_paymentIntent o3)")
    case None
    then have "db' = db" using r by (simp add: onChargeRefunded_def)
    then show ?thesis using books_mono [OF ok] by blast
  next
    case (Some piId)
    then show ?thesis using onChargeRefunded_books [OF ok new Some _ _ r(1)] assms(3) Charge_refunded r(2) by auto
  qed
next
  case (Account_updated acct remote)
  then have "books_ok S db'" using step by (intro books_cong [OF ok]) (auto simp: route_event_def onAccountUpdated_def)
  then show ?thesis by (rule books_mono) blast
next
  case Charge_dispute_created
  then show ?thesis using step books_mono [OF ok] by (auto simp: route_event_def)
next
  case Other_event
  then show ?thesis using step books_mono [OF ok] by (auto simp: route_event_def)
qed

lemma addressed_cong:
  assumes "invoices db' = invoices db" "payments db' = payments db"
  shows "addressed obj db' = addressed obj db" "disturbed_by obj failed db' = disturbed_by obj failed db"
  using assms by (cases obj; auto simp: intent_of_def billed_def disturbed_by_def split: option.split)+

lemma handleWebhookEvent_books:
  assumes ok: "books_ok S db" and new: "newId \<notin> pay_id ` set (payments db)" and addressed: "addressed (we_object ev) db"
    and step: "handleWebhookEvent now newId txIds ev db = (res, db')"
  shows "books_ok (S \<union> disturbed ev (isl res) db) db'"
proof (cases "select_first (\<lambda>e. se_id e = we_id ev) (stripeEvents db)")
  case (Some e)
  then have "db' = db" using step by (simp add: handleWebhookEvent_def)
  then show ?thesis using books_mono [OF ok] by blast
next
  case None
  let ?db1 = "db\<lparr>stripeEvents := insert_into \<lparr>se_id = we_id ev, se_processedAt = None,
     se_processingError = None\<rparr> (stripeEvents db)\<rparr>"
  obtain q db2 where r: "route_event now newId txIds (we_object ev) ?db1 = (q, db2)" by fastforce
  obtain err where db': "db' = markEventProcessed now (we_id ev) err db2" and "isl q = isl res"
    using step None r by (cases q) (auto simp: handleWebhookEvent_def Let_def)
  have "books_ok S ?db1" by (rule books_cong [OF ok]) simp_all
  moreover have "addressed (we_object ev) ?db1" "disturbed_by (we_object ev) (isl q) ?db1 = disturbed ev (isl res) db"
    using addressed addressed_cong [of ?db1 db] None \<open>isl q = isl res\<close> by (simp_all add: disturbed_def)
  ultimately have "books_ok (S \<union> disturbed ev (isl res) db) db2"
    using route_event_books [OF _ _ _ r, of S] new by simp
  then show ?thesis unfolding db' by (rule books_cong) (simp_all add: markEventProcessed_def)
qed

lemma honest_undisturbed:
  assumes "honest (we_object ev) db"
  shows "addressed (we_object ev) db" "disturbed ev False db = {}"
  using assms by (cases "we_object ev"; auto simp: disturbed_def disturbed_by_def live_pi_def split: option.splits)+

section \<open>Runs\<close>

inductive payments_step :: "'a payments_db_scheme \<Rightarrow> 'a payments_db_scheme \<Rightarrow> bool" where
  bill: "billing_step db db' \<Longrightarrow> payments_step db db'"
| link: "issuePayLink web ctx now fresh i db = Inr (x, db') \<Longrightarrow> payments_step db db'"
| intent: "createInvoicePaymentIntent ctx now k txIds inp cust reply db = Inr (y, db') \<Longrightarrow>
    k \<notin> pay_id ` set (payments db) \<Longrightarrow> payments_step db db'"
| view: "publicView now k reply token db = Inr (z, db') \<Longrightarrow> k \<notin> pay_id ` set (payments db) \<Longrightarrow>
    payments_step db db'"
| refund: "refundPayment ctx now k txIds p amount rep db = Inr (w, db') \<Longrightarrow>
    k \<notin> pay_id ` set (payments db) \<Longrightarrow> payments_step db db'"
| event: "handleWebhookEvent now k txIds ev db = (Inr h, db') \<Longrightarrow> k \<notin> pay_id ` set (payments db) \<Longrightarrow>
    honest (we_object ev) db \<Longrightarrow> payments_step db db'"
| onboard: "startConnectOnboarding ctx created url db = (res, db') \<Longrightarrow> payments_step db db'"
| sync: "syncConnectAccount key ctx remote db = Inr (s, db') \<Longrightarrow> payments_step db db'"
| margin: "setPlatformMargin key ctx bps db = Inr (s, db') \<Longrightarrow> payments_step db db'"
| auto_charge: "setAutoCharge ctx c enabled db = Inr (f, db') \<Longrightarrow> payments_step db db'"
| card_setup: "createCustomerSetupIntent ctx c cust si db = Inr (v, db') \<Longrightarrow> payments_step db db'"
| card_removed: "removeCardOnFile ctx c db = Inr (b, db') \<Longrightarrow> payments_step db db'"

definition payments_reachable :: "'a payments_db_scheme \<Rightarrow> bool" where
  "payments_reachable db \<longleftrightarrow> (\<exists>db0. no_billing db0 \<and> payments_step\<^sup>*\<^sup>* db0 db)"

lemma stored_account_books:
  assumes "stored_account ctx created db = Inr (a, db')" "books_ok S db"
  shows "books_ok S db'"
proof -
  obtain T where "db' = db \<or> db' = db\<lparr>tenants := T\<rparr>"
    using assms(1) by (auto simp: stored_account_def Let_def update_tenant_def split: option.splits)
  moreover have "books_ok S (db\<lparr>tenants := T\<rparr>)" by (rule books_cong [OF assms(2)]) simp_all
  ultimately show ?thesis using assms(2) by auto
qed

lemma ensureStripeCustomerId_books:
  assumes "ensureStripeCustomerId cust r ten db = Inr (x, db')" "books_ok S db"
  shows "books_ok S db'"
proof (cases "truthy (bc_stripeCustomerId r)")
  case None
  then obtain C where "db' = db\<lparr>billCustomers := C\<rparr>"
    using assms(1) by (auto simp: ensureStripeCustomerId_def)
  show ?thesis unfolding \<open>db' = _\<close> by (rule books_cong [OF assms(2)]) simp_all
next
  case (Some a)
  then show ?thesis using assms by (simp add: ensureStripeCustomerId_def)
qed

lemma account_frames:
  "startConnectOnboarding ctx created url db = (res, db') \<Longrightarrow> books_ok S db \<Longrightarrow> books_ok S db'"
  "syncConnectAccount key ctx remote db = Inr (s, db') \<Longrightarrow> books_ok S db \<Longrightarrow> books_ok S db'"
  "setPlatformMargin key ctx bps db = Inr (s, db') \<Longrightarrow> books_ok S db \<Longrightarrow> books_ok S db'"
  "setAutoCharge ctx c enabled db = Inr (f, db') \<Longrightarrow> books_ok S db \<Longrightarrow> books_ok S db'"
  "createCustomerSetupIntent ctx c cust si db = Inr (v, db') \<Longrightarrow> books_ok S db \<Longrightarrow> books_ok S db'"
  "removeCardOnFile ctx c db = Inr (b, db') \<Longrightarrow> books_ok S db \<Longrightarrow> books_ok S db'"
proof -
  have t: "books_ok S (db\<lparr>tenants := T\<rparr>)" and c: "books_ok S (db\<lparr>billCustomers := C\<rparr>)" if "books_ok S db" for T C
    by (rule books_cong [OF that]; simp)+
  show "books_ok S db'" if "startConnectOnboarding ctx created url db = (res, db')" "books_ok S db"
  proof (cases "stored_account ctx created db")
    case (Inl e)
    then show ?thesis using that by (simp add: startConnectOnboarding_def)
  next
    case (Inr p)
    then have "stored_account ctx created db = Inr (fst p, db')"
      using that(1) by (cases p) (simp add: startConnectOnboarding_def)
    then show ?thesis using that(2) by (rule stored_account_books)
  qed
  show "books_ok S db'" if sync: "syncConnectAccount key ctx remote db = Inr (s, db')" and ok: "books_ok S db"
  proof -
    obtain ten where ten: "tenant_of (ctx_tenantId ctx) db = Some ten"
      using sync by (auto simp: syncConnectAccount_def Let_def)
    have "\<exists>T. db' = db \<or> db' = db\<lparr>tenants := T\<rparr>"
    proof (cases "truthy (ten_stripeAccountId ten)")
      case None
      then show ?thesis using sync ten by (auto simp: syncConnectAccount_def Let_def)
    next
      case (Some a)
      then show ?thesis using sync ten by (auto simp: syncConnectAccount_def Let_def update_tenant_def)
    qed
    then show ?thesis using t [OF ok] ok by auto
  qed
  show "setPlatformMargin key ctx bps db = Inr (s, db') \<Longrightarrow> books_ok S db \<Longrightarrow> books_ok S db'"
    by (auto simp: setPlatformMargin_def Let_def update_tenant_def t)
  show "setAutoCharge ctx c enabled db = Inr (f, db') \<Longrightarrow> books_ok S db \<Longrightarrow> books_ok S db'"
    by (auto simp: setAutoCharge_def Let_def update_customer_def c)
  show "books_ok S db'" if made: "createCustomerSetupIntent ctx c cust si db = Inr (v, db')" and ok: "books_ok S db"
  proof -
    obtain r ten x where "ensureStripeCustomerId cust r ten db = Inr (x, db')"
      using made by (auto simp: createCustomerSetupIntent_def Let_def)
    then show ?thesis by (rule ensureStripeCustomerId_books [OF _ ok])
  qed
  show "removeCardOnFile ctx c db = Inr (b, db') \<Longrightarrow> books_ok S db \<Longrightarrow> books_ok S db'"
    by (auto simp: removeCardOnFile_def Let_def update_customer_def c split: if_splits)
qed

lemma payments_step_books:
  assumes "payments_step db db'" "books_ok S db"
  shows "books_ok S db'"
  using assms
proof cases
  case bill
  then show ?thesis using assms(2) billing_step_effect effect_ledger effect_token by (metis books_ok_def)
next
  case (event now k txIds ev h)
  then show ?thesis
    using handleWebhookEvent_books [OF assms(2) event(2) _ event(1)] honest_undisturbed [OF event(3)] by simp
qed (use assms(2) issuePayLink_books createInvoicePaymentIntent_books publicView_books refundPayment_books
    account_frames in metis)+

text \<open>Runs with deliveries in any order and of any outcome, a delivery that fails after a first commit
  included: besides the database the invoices the deliveries have disturbed.\<close>

inductive payments_run :: "uuid set \<Rightarrow> 'a payments_db_scheme \<Rightarrow> bool" where
  start: "no_billing db \<Longrightarrow> payments_run {} db"
| step: "payments_run S db \<Longrightarrow> payments_step db db' \<Longrightarrow> payments_run S db'"
| delivery: "payments_run S db \<Longrightarrow> handleWebhookEvent now k txIds ev db = (res, db') \<Longrightarrow>
    k \<notin> pay_id ` set (payments db) \<Longrightarrow> addressed (we_object ev) db \<Longrightarrow>
    payments_run (S \<union> disturbed ev (isl res) db) db'"

lemma no_billing_books: "no_billing db \<Longrightarrow> books_ok S db"
  using no_billing_start by (auto simp: books_ok_def token_ok_def no_billing_def)

lemma payments_run_books: "payments_run S db \<Longrightarrow> books_ok S db"
proof (induction rule: payments_run.induct)
  case start
  then show ?case by (rule no_billing_books)
next
  case step
  then show ?case using payments_step_books by blast
next
  case delivery
  then show ?case using handleWebhookEvent_books by blast
qed

lemma payments_reachable_books:
  assumes "payments_reachable db"
  shows "books_ok S db"
proof -
  from assms obtain db0 where db0: "no_billing db0" "payments_step\<^sup>*\<^sup>* db0 db"
    by (auto simp: payments_reachable_def)
  have "books_ok S db0" using no_billing_books [OF db0(1)] .
  with db0(2) show ?thesis by (induction rule: rtranclp_induct) (auto intro: payments_step_books)
qed

end
