(* ===== verification/PaymentsProperties.thy ===== *)
theory PaymentsProperties
  imports PaymentsInv InvoiceProperties
begin

text \<open>
  The properties of the payments service: whatever order the billing operations, the card payments,
  the refunds and the provider's webhook come in, the ledger balances outside the invoices a late
  failure or a half-finished refund disturbed; what a late failure leaves; a webhook event takes effect
  at most once; a captured card payment is counted once; the platform fee is the exact floor.
\<close>

section \<open>An example\<close>

text \<open>The tenant of the billing example with a connected account and a margin of 2.5 percent.\<close>

definition pay_start :: payments_db where
  "pay_start = (billing_db.extend bill_start (payments_db.fields [] [] []))\<lparr>tenants :=
     map (\<lambda>t. t\<lparr>ten_stripeAccountId := Some ''acct_1'', ten_stripeAccountStatus := Stripe_active,
       ten_platformMarginBps := 250\<rparr>) (tenants bill_start)\<rparr>"

definition pay_issued :: payments_db where
  "pay_issued = commit (issue bill_ctx 1778284860000 500)
     (commit (createManual bill_ctx 1778284800000 500 (\<lambda>k. 600 + k) (\<lambda>k. 700 + k) bill_input) pay_start)"

definition open_intent :: intent_reply where
  "open_intent = \<lparr>ir_externalId = ''pi_1'', ir_status = Requires_payment_method, ir_amountCents = 11300,
     ir_currency = ''cad'', ir_clientSecret = Some ''secret'', ir_chargeId = None, ir_feeCents = None\<rparr>"

definition pay_opened :: payments_db where
  "pay_opened = commit (createInvoicePaymentIntent bill_ctx 1778284920000 800 (\<lambda>k. 710 + k)
     \<lparr>ii_invoiceId = 500, ii_chargeCardOnFile = False\<rparr> (Inr ''cus_1'') (Inr open_intent)) pay_issued"

definition captured_intent :: pi_object where
  "captured_intent = \<lparr>po_id = ''pi_1'', po_amount = 11300, po_latestCharge = Some (Charge_text ''ch_1''),
     po_paymentMethod = None, po_kind = None, po_tenantId = Some 1, po_invoiceId = Some 500\<rparr>"

definition pay_captured :: payments_db where
  "pay_captured = snd (handleWebhookEvent 1778284980000 801 (\<lambda>k. 720 + k)
     \<lparr>we_id = ''evt_1'', we_object = Payment_intent_succeeded captured_intent\<rparr> pay_opened)"

definition pay_refunded :: payments_db where
  "pay_refunded = commit (refundPayment bill_ctx 1778285040000 802 (\<lambda>k. 730 + k) 800 (Some 5000)
     (Inr \<lparr>rr_externalId = ''re_1'', rr_amountCents = 5000\<rparr>)) pay_captured"

definition pay_notified :: payments_db where
  "pay_notified = snd (handleWebhookEvent 1778285100000 803 (\<lambda>k. 740 + k)
     \<lparr>we_id = ''evt_2'', we_object = Charge_refunded \<lparr>co_id = ''ch_1'', co_paymentIntent = Some ''pi_1'',
       co_amountRefunded = Some 5000, co_tenantId = None\<rparr>\<rparr> pay_refunded)"

lemma pay_values:
  "map (\<lambda>r. (inv_status r, inv_paidCents r)) (invoices pay_opened) = [(Inv_issued, 0)]"
  "map (\<lambda>r. (inv_status r, inv_paidCents r)) (invoices pay_captured) = [(Inv_paid, 11300)]"
  "map (\<lambda>p. (pay_id p, pay_platformMarginCents p, pay_status p)) (payments pay_captured) = [(800, 282, Pay_cleared)]"
  apply code_simp
  apply code_simp
  apply code_simp
  done

text \<open>The provider reports a refund made through the API as an event of the charge; the row the
  event inserts carries another refund id, so one refund of 50 dollars is taken off twice.\<close>

lemma refund_counted_twice:
  "map (\<lambda>r. inv_paidCents r) (invoices pay_refunded) = [6300]
    \<and> map (\<lambda>r. inv_paidCents r) (invoices pay_notified) = [1300]"
  by code_simp

definition captured_event :: "string \<Rightarrow> webhook_event" where
  "captured_event i = \<lparr>we_id = i, we_object = Payment_intent_succeeded captured_intent\<rparr>"

definition pay_recaptured :: payments_db where
  "pay_recaptured = snd (handleWebhookEvent 1778285040000 804 (\<lambda>k. 750 + k) (captured_event ''evt_9'') pay_captured)"

lemma pay_events:
  "handleWebhookEvent 1778284980000 801 (\<lambda>k. 720 + k) (captured_event ''evt_1'') pay_opened
    = (Inr (True, False), pay_captured)"
  "handleWebhookEvent 1778285040000 804 (\<lambda>k. 750 + k) (captured_event ''evt_9'') pay_captured
    = (Inr (True, False), pay_recaptured)"
proof -
  have "fst (handleWebhookEvent 1778284980000 801 (\<lambda>k. 720 + k) (captured_event ''evt_1'') pay_opened)
      = Inr (True, False)"
    "fst (handleWebhookEvent 1778285040000 804 (\<lambda>k. 750 + k) (captured_event ''evt_9'') pay_captured)
      = Inr (True, False)"
    by code_simp+
  then show "handleWebhookEvent 1778284980000 801 (\<lambda>k. 720 + k) (captured_event ''evt_1'') pay_opened
      = (Inr (True, False), pay_captured)"
    "handleWebhookEvent 1778285040000 804 (\<lambda>k. 750 + k) (captured_event ''evt_9'') pay_captured
      = (Inr (True, False), pay_recaptured)"
    unfolding pay_captured_def pay_recaptured_def captured_event_def by (simp_all only: prod_eq_iff fst_conv snd_conv)
qed

lemma pay_intent_known:
  "intent_of ''pi_1'' 1 500 pay_opened" "801 \<notin> pay_id ` set (payments pay_opened)"
  "804 \<notin> pay_id ` set (payments pay_captured)"
  by code_simp+

lemma payments_reachable_step:
  "payments_reachable db \<Longrightarrow> payments_step db db' \<Longrightarrow> payments_reachable db'"
  unfolding payments_reachable_def by (meson rtranclp.rtrancl_into_rtrancl)

lemma commit_pay_reachable:
  assumes "payments_reachable db" "\<And>x db'. f db = Inr (x, db') \<Longrightarrow> payments_step db db'"
  shows "payments_reachable (commit f db)"
  using assms by (auto simp: commit_def committed_def split: sum.split intro: payments_reachable_step)

lemma pay_reachable: "payments_reachable pay_opened" "payments_reachable pay_captured"
proof -
  let ?draft = "commit (createManual bill_ctx 1778284800000 500 (\<lambda>k. 600 + k) (\<lambda>k. 700 + k) bill_input) pay_start"
  have none: "invoices pay_start = []" "invoiceLineItems pay_start = []" "payments pay_issued = []" by code_simp+
  have "no_billing pay_start" by code_simp
  then have s: "payments_reachable pay_start"
    unfolding payments_reachable_def by (intro exI [of _ pay_start]) simp
  have d: "payments_reachable ?draft"
    by (rule commit_pay_reachable [OF s], rule payments_step.bill, rule billing_step.created)
      (auto simp: none new_lines_def inj_def)
  have i: "payments_reachable pay_issued"
    unfolding pay_issued_def by (rule commit_pay_reachable [OF d], rule payments_step.bill, rule billing_step.issued)
  show o: "payments_reachable pay_opened"
    unfolding pay_opened_def
    by (rule commit_pay_reachable [OF i], rule payments_step.intent) (auto simp: none)
  have "honest (we_object (captured_event ''evt_1'')) pay_opened"
    using pay_intent_known(1) by (simp add: captured_event_def captured_intent_def)
  then show "payments_reachable pay_captured"
    using payments_step.event [OF pay_events(1) pay_intent_known(2)] payments_reachable_step [OF o] by blast
qed

section \<open>Deliveries of the webhook\<close>

text \<open>A delivery is an event together with the time and the fresh ids of its handling.\<close>

type_synonym delivery = "instant \<times> uuid \<times> (nat \<Rightarrow> uuid) \<times> webhook_event"

fun deliver :: "delivery list \<Rightarrow> 'a payments_db_scheme \<Rightarrow> 'a payments_db_scheme" where
  "deliver [] db = db"
| "deliver ((now, newId, txIds, ev) # ds) db = deliver ds (snd (handleWebhookEvent now newId txIds ev db))"

text \<open>The reference: only the first delivery of every event id is looked at.\<close>

fun first_deliveries :: "string set \<Rightarrow> delivery list \<Rightarrow> delivery list" where
  "first_deliveries seen [] = []"
| "first_deliveries seen ((now, newId, txIds, ev) # ds) = (if we_id ev \<in> seen then first_deliveries seen ds
     else (now, newId, txIds, ev) # first_deliveries (insert (we_id ev) seen) ds)"

definition events_seen :: "'a payments_db_scheme \<Rightarrow> string set" where
  "events_seen db = se_id ` set (stripeEvents db)"

lemma transact_frame:
  assumes "\<And>db'. f db = Inr db' \<Longrightarrow> g db' = g db"
  shows "g (snd (transact f db)) = g db"
  using assms by (simp add: transact_def split: sum.split)

lemma recomputeTotals_events: "recomputeTotals t now ids i db = Inr (row, db') \<Longrightarrow> stripeEvents db' = stripeEvents db"
  by (auto elim!: recomputeTotals_cases)

lemma settle_events: "settle now newId txIds t i obj db = Inr db' \<Longrightarrow> stripeEvents db' = stripeEvents db"
  by (auto simp: settle_def Let_def insert_payment_def persistCardOnFileFromIntent_def update_customer_def
      split: option.splits dest!: recomputeTotals_events)

lemma insert_refund_events: "insert_refund now newId obj piId db = Inr db' \<Longrightarrow> stripeEvents db' = stripeEvents db"
  by (auto simp: insert_refund_def Let_def insert_payment_def split: option.splits if_splits)

lemma recompute_charged_events: "recompute_charged now txIds t piId db = Inr db' \<Longrightarrow> stripeEvents db' = stripeEvents db"
  by (auto simp: recompute_charged_def split: option.splits dest!: recomputeTotals_events)

lemma onChargeRefunded_events: "stripeEvents (snd (onChargeRefunded now newId txIds obj db)) = stripeEvents db"
proof (cases "truthy (co_paymentIntent obj)")
  case (Some piId)
  obtain r db1 where db1: "transact (insert_refund now newId obj piId) db = (r, db1)" by fastforce
  have s: "stripeEvents db1 = stripeEvents db"
    using transact_frame [of "insert_refund now newId obj piId" db stripeEvents, OF insert_refund_events]
      db1 by simp
  have "stripeEvents (snd (transact (recompute_charged now txIds t piId) db1)) = stripeEvents db1" for t
    by (rule transact_frame) (rule recompute_charged_events)
  then show ?thesis using Some db1 s
    by (cases r) (auto simp: onChargeRefunded_def simp del: transact_Inr split: option.split)
qed (simp add: onChargeRefunded_def)

lemma route_event_events: "stripeEvents (snd (route_event now newId txIds obj db)) = stripeEvents db"
proof (cases obj)
  case (Payment_intent_succeeded o1)
  have "stripeEvents (snd (transact (settle now newId txIds t i o1) db)) = stripeEvents db" for t i
    by (rule transact_frame) (rule settle_events)
  then show ?thesis using Payment_intent_succeeded
    by (auto simp: route_event_def split_beta onPaymentIntentSucceeded_def onSelfServePortalSucceeded_def
        Let_def split: option.split)
next
  case (Payment_intent_payment_failed o2)
  then show ?thesis
    by (auto simp: route_event_def onPaymentIntentFailed_def onSelfServePortalFailed_def fail_payments_def
        split: option.split)
next
  case (Charge_refunded o3)
  then show ?thesis by (simp add: route_event_def split_beta onChargeRefunded_events)
qed (simp_all add: route_event_def onAccountUpdated_def)

lemma redelivered:
  assumes "we_id ev \<in> events_seen db"
  shows "handleWebhookEvent now newId txIds ev db = (Inr (True, True), db)"
proof -
  from assms have "\<exists>r. select_first (\<lambda>e. se_id e = we_id ev) (stripeEvents db) = Some r"
    unfolding events_seen_def by (auto intro: select_first_ex)
  then show ?thesis by (auto simp: handleWebhookEvent_def)
qed

lemma handled_seen:
  "events_seen (snd (handleWebhookEvent now newId txIds ev db)) = insert (we_id ev) (events_seen db)"
proof (cases "we_id ev \<in> events_seen db")
  case True
  then show ?thesis by (simp add: redelivered insert_absorb)
next
  case False
  let ?db1 = "db\<lparr>stripeEvents := insert_into \<lparr>se_id = we_id ev, se_processedAt = None,
     se_processingError = None\<rparr> (stripeEvents db)\<rparr>"
  have none: "select_first (\<lambda>e. se_id e = we_id ev) (stripeEvents db) = None"
    using False by (auto simp: events_seen_def select_first_None image_iff)
  have mark: "events_seen (markEventProcessed now i err d) = events_seen d" for i err and d :: "'a payments_db_scheme"
    unfolding events_seen_def set_map [symmetric]
    by (simp add: markEventProcessed_def map_update_where del: set_map)
  have "events_seen (snd (route_event now newId txIds (we_object ev) ?db1)) = insert (we_id ev) (events_seen db)"
    by (simp add: events_seen_def route_event_events)
  moreover obtain r d where rd: "route_event now newId txIds (we_object ev) ?db1 = (r, d)" by fastforce
  ultimately have "events_seen d = insert (we_id ev) (events_seen db)" by simp
  then show ?thesis using none rd
    by (cases r) (simp_all add: handleWebhookEvent_def mark)
qed

lemma deliver_first:
  "seen \<subseteq> events_seen db \<Longrightarrow> deliver (first_deliveries seen ds) db = deliver ds db"
proof (induction seen ds arbitrary: db rule: first_deliveries.induct)
  case (2 seen now newId txIds ev ds)
  show ?case
  proof (cases "we_id ev \<in> seen")
    case True
    then have "we_id ev \<in> events_seen db" using 2(3) by blast
    then show ?thesis using 2 True by (simp add: redelivered)
  next
    case False
    then show ?thesis using 2(2) [OF False] 2(3) by (simp add: handled_seen subset_insertI2)
  qed
qed simp

text \<open>C20: A webhook event takes effect at most once, however often the provider delivers it: a
  sequence of deliveries leaves the database the first deliveries of each event id would leave, and
  the delivery after any delivery of the same id - a failed one too - is answered as a duplicate and
  changes nothing.\<close>

theorem webhook_at_most_once:
  "deliver ds db = deliver (first_deliveries {} ds) db
    \<and> handleWebhookEvent now' newId' txIds' (ev\<lparr>we_object := obj\<rparr>) (snd (handleWebhookEvent now newId txIds ev db))
      = (Inr (True, True), snd (handleWebhookEvent now newId txIds ev db))"
  using deliver_first [of "{}" db ds] by (simp add: redelivered handled_seen)

section \<open>The ledger under card payments\<close>

text \<open>A run of deliveries in order disturbs nothing.\<close>

lemma payments_reachable_run:
  assumes "payments_reachable db"
  shows "payments_run {} db"
proof -
  from assms obtain db0 where db0: "no_billing db0" "payments_step\<^sup>*\<^sup>* db0 db"
    by (auto simp: payments_reachable_def)
  from db0(2) show ?thesis
    by (induction rule: rtranclp_induct) (blast intro: payments_run.start [OF db0(1)] payments_run.step)+
qed

lemma received_pays: "received (pays_for i P)
    = (\<Sum>p \<leftarrow> filter (\<lambda>p. pay_invoiceId p = i \<and> pay_deletedAt p = None \<and> pay_status p = Pay_cleared) P. pay_amountCents p)"
  by (induction P) (auto simp: pays_for_def received_def)

lemma paid_in_order:
  assumes "books_ok S db" "r \<in> set (invoices db)" "inv_id r \<notin> S"
  shows "inv_paidCents r = (\<Sum>p \<leftarrow> filter (\<lambda>p. pay_invoiceId p = inv_id r \<and> pay_deletedAt p = None
        \<and> pay_status p = Pay_cleared) (payments db). pay_amountCents p)"
  using assms by (simp add: books_ok_def ledger_inv_def invoice_ok_def totals_ok_def flip: received_pays)

text \<open>C19: On every database the billing operations, the payments service and the webhook reach together,
  whatever events the provider delivers, in whatever order, however often and whether their handling
  succeeds or not, every invoice outside a set has the paid amount of its live cleared payments,
  refunds being negative payments; the balance is what is left of the total; an invoice that is not
  void is paid exactly when a positive total is covered; and an invoice with a pay link has been
  issued.  The set, late, collects over the run the invoices of the two deliveries that do break
  their totals: a failure of an intent reported when its payment is already cleared, and a refund
  whose recomputation fails after its row was committed.  What is asked of the events is only that
  they name the tenant and the invoice the intent is for.\<close>

theorem payments_keep_ledger:
  assumes "payments_run late db" "r \<in> set (invoices db)" "inv_id r \<notin> late"
  shows "inv_paidCents r = (\<Sum>p \<leftarrow> filter (\<lambda>p. pay_invoiceId p = inv_id r \<and> pay_deletedAt p = None
        \<and> pay_status p = Pay_cleared) (payments db). pay_amountCents p)
    \<and> inv_balanceCents r = inv_totalCents r - inv_paidCents r
    \<and> (inv_status r = Inv_void
       \<or> (inv_status r = Inv_paid) = (0 < inv_totalCents r \<and> inv_totalCents r \<le> inv_paidCents r))
    \<and> \<not> (inv_paymentToken r \<noteq> None \<and> inv_status r = Inv_draft)"
proof -
  have books: "books_ok late db" by (rule payments_run_books [OF assms(1)])
  then have ok: "invoice_ok late (invoiceLineItems db) (payments db) (invoiceTaxes db) r"
    using assms(2) by (simp add: books_ok_def ledger_inv_def)
  moreover have "linkable r" using books assms(2) by (simp add: books_ok_def token_ok_def)
  ultimately show ?thesis using paid_in_order [OF books assms(2,3)] assms(3)
    by (cases "inv_status r = Inv_void") (auto simp: invoice_ok_def totals_ok_def status_ok_def linkable_def)
qed

theorem payments_keep_ledger_witness:
  "\<exists>r \<in> set (invoices pay_captured). inv_status r = Inv_paid \<and> inv_balanceCents r = inv_totalCents r - inv_paidCents r"
proof -
  obtain r where r: "r \<in> set (invoices pay_captured)" "inv_status r = Inv_paid"
    using pay_values(2) by (auto simp: map_eq_Cons_conv)
  have "inv_balanceCents r = inv_totalCents r - inv_paidCents r"
    using payments_keep_ledger [OF payments_reachable_run [OF pay_reachable(2)] r(1)] by simp
  then show ?thesis using r by (intro bexI [of _ r]) simp_all
qed

section \<open>A failure reported after the capture\<close>

lemma received_fail:
  assumes "\<And>p. Q p \<Longrightarrow> pay_deletedAt p = None" "\<And>p. pay_status (f p) = Pay_failed" "\<And>p. pay_invoiceId (f p) = pay_invoiceId p"
  shows "received (pays_for i P) = received (pays_for i (update_where Q f P))
    + (\<Sum>p \<leftarrow> filter (\<lambda>p. pay_invoiceId p = i \<and> Q p \<and> pay_status p = Pay_cleared) P. pay_amountCents p)"
  using assms(1) by (induction P) (auto simp: pays_for_def received_counted counted_def update_where_def assms(2,3))

lemma failed_event:
  assumes "handleWebhookEvent now newId txIds ev db = (res, db')" "we_id ev \<notin> events_seen db"
    "we_object ev = Payment_intent_payment_failed obj" "po_kind obj \<noteq> Some ''self_serve_portal''" "po_tenantId obj = Some t"
  shows "payments db' = payments (fail_payments now t (po_id obj) db)" "invoices db' = invoices db"
proof -
  have none: "select_first (\<lambda>e. se_id e = we_id ev) (stripeEvents db) = None"
    using assms(2) by (auto simp: events_seen_def select_first_None image_iff)
  show "payments db' = payments (fail_payments now t (po_id obj) db)" "invoices db' = invoices db"
    using assms(1) none assms(3-5)
    by (auto simp: handleWebhookEvent_def Let_def route_event_def onPaymentIntentFailed_def fail_payments_def
        markEventProcessed_def)
qed

text \<open>C12: A failure of an intent delivered after its payment was cleared takes the payment out of the
  books and recomputes nothing: every invoice stays as it was, so that it is paid by its remaining
  cleared payments and the failed ones together.\<close>

theorem late_failure_overstates_paid:
  assumes "payments_run late db" "r \<in> set (invoices db)" "inv_id r \<notin> late"
    and "handleWebhookEvent now newId txIds ev db = (res, db')" "we_id ev \<notin> events_seen db"
    and "we_object ev = Payment_intent_payment_failed obj" "po_kind obj \<noteq> Some ''self_serve_portal''"
      "po_tenantId obj = Some t"
  shows "r \<in> set (invoices db')
    \<and> inv_paidCents r = (\<Sum>p \<leftarrow> filter (\<lambda>p. pay_invoiceId p = inv_id r \<and> pay_deletedAt p = None
          \<and> pay_status p = Pay_cleared) (payments db'). pay_amountCents p)
      + (\<Sum>p \<leftarrow> filter (\<lambda>p. pay_invoiceId p = inv_id r \<and> live_pi t (po_id obj) p
          \<and> pay_status p = Pay_cleared) (payments db). pay_amountCents p)"
  using paid_in_order [OF payments_run_books [OF assms(1)] assms(2,3)] assms(2)
    received_fail [of "live_pi t (po_id obj)" "\<lambda>p. p\<lparr>pay_status := Pay_failed, pay_updatedAt := now\<rparr>" "inv_id r" "payments db"]
  by (simp add: failed_event [OF assms(4-8)] fail_payments_def live_pi_def received_pays)

definition failed_event_of :: "string \<Rightarrow> webhook_event" where
  "failed_event_of i = \<lparr>we_id = i, we_object = Payment_intent_payment_failed captured_intent\<rparr>"

theorem late_failure_overstates_paid_witness:
  "\<exists>r \<in> set (invoices (snd (handleWebhookEvent 1778285040000 805 (\<lambda>k. 760 + k) (failed_event_of ''evt_8'') pay_captured))).
     inv_status r = Inv_paid \<and> inv_paidCents r = 11300
     \<and> inv_paidCents r = (\<Sum>p \<leftarrow> filter (\<lambda>p. pay_invoiceId p = inv_id r \<and> pay_deletedAt p = None \<and> pay_status p = Pay_cleared)
          (payments (snd (handleWebhookEvent 1778285040000 805 (\<lambda>k. 760 + k) (failed_event_of ''evt_8'') pay_captured))). pay_amountCents p)
        + (\<Sum>p \<leftarrow> filter (\<lambda>p. pay_invoiceId p = inv_id r \<and> live_pi 1 ''pi_1'' p \<and> pay_status p = Pay_cleared)
          (payments pay_captured). pay_amountCents p)"
proof -
  obtain res db' where h: "handleWebhookEvent 1778285040000 805 (\<lambda>k. 760 + k) (failed_event_of ''evt_8'') pay_captured = (res, db')"
    by fastforce
  have "''evt_8'' \<notin> events_seen pay_captured" by code_simp
  then have new: "we_id (failed_event_of ''evt_8'') \<notin> events_seen pay_captured" by (simp add: failed_event_of_def)
  have obj: "we_object (failed_event_of ''evt_8'') = Payment_intent_payment_failed captured_intent"
      "po_kind captured_intent \<noteq> Some ''self_serve_portal''" "po_tenantId captured_intent = Some 1"
    by (simp_all add: failed_event_of_def captured_intent_def)
  obtain r where r: "r \<in> set (invoices pay_captured)" "inv_status r = Inv_paid" "inv_paidCents r = 11300"
    using pay_values(2) by (auto simp: map_eq_Cons_conv)
  show ?thesis
    using late_failure_overstates_paid [OF payments_reachable_run [OF pay_reachable(2)] r(1) _ h new obj] r
    by (intro bexI [of _ r]) (simp_all add: h captured_intent_def)
qed

section \<open>A captured payment is counted once\<close>

text \<open>What the live row of an intent already counts for.\<close>

definition captured :: "uuid \<Rightarrow> string \<Rightarrow> 'a billing_db_scheme \<Rightarrow> cents" where
  "captured t piId db = (case select_first (live_pi t piId) (payments db) of None \<Rightarrow> 0 | Some p \<Rightarrow> counted p)"

lemma received_replaced:
  assumes "distinct (map pay_id P)" "q \<in> set P" "pay_tenantId q = t"
    "\<And>p. pay_id (f p) = pay_id p \<and> pay_invoiceId (f p) = pay_invoiceId p"
  shows "received (pays_for j (update_where (\<lambda>p. pay_tenantId p = t \<and> pay_id p = pay_id q) f P))
    = received (pays_for j P) + (if pay_invoiceId q = j then counted (f q) - counted q else 0)"
  using assms
proof (induction P)
  case (Cons p P)
  let ?Q = "\<lambda>p. pay_tenantId p = t \<and> pay_id p = pay_id q"
  show ?case
  proof (cases "p = q")
    case True
    have "update_where ?Q f P = P"
      by (rule update_where_none) (use Cons.prems(1) True in \<open>auto simp: image_iff\<close>)
    then show ?thesis using True Cons.prems(3,4) by (simp add: update_where_def pays_for_def received_counted)
  next
    case False
    then have q: "q \<in> set P" using Cons.prems(2) by simp
    then have "pay_id p \<noteq> pay_id q" using Cons.prems(1) by auto
    then show ?thesis using Cons.IH [OF _ q Cons.prems(3,4)] Cons.prems(1)
      by (simp add: update_where_def pays_for_def received_counted)
  qed
qed simp

lemma counted_settled: "pay_deletedAt p = None \<Longrightarrow> counted (settled_payment now obj p) = po_amount obj"
  by (simp add: counted_def settled_payment_def)

lemma select_first_update_same:
  assumes "\<And>r. P (f r) = P r"
  shows "select_first P (update_where Q f tbl) = map_option (\<lambda>r. if Q r then f r else r) (select_first P tbl)"
  using assms by (induction tbl) (auto simp: select_first_def update_where_def)

lemma settle_book:
  assumes inv: "ledger_inv {} db" and new: "newId \<notin> pay_id ` set (payments db)"
    and own: "intent_of (po_id obj) t i db" and step: "settle now newId txIds t i obj db = Inr db'"
  shows "book_of db' = deposit i (po_amount obj - captured t (po_id obj) db) (book_of db)
    \<and> captured t (po_id obj) db' = po_amount obj \<and> ledger_inv {} db' \<and> intent_of (po_id obj) t i db'"
proof -
  obtain db2 row P where re: "recomputeTotals t now txIds i db2 = Inr (row, db')" and ex: "ledger_except {} i db2"
    and P: "payments db2 = P"
      "(\<exists>p. select_first (live_pi t (po_id obj)) (payments db) = Some p \<and> po_amount obj \<noteq> 0 \<and>
        P = update_where (\<lambda>q. pay_tenantId q = t \<and> pay_id q = pay_id p) (settled_payment now obj) (payments db))
     \<or> (select_first (live_pi t (po_id obj)) (payments db) = None
        \<and> P = payments db @ [webhook_payment now newId t i obj])"
    by (rule settle_except [OF inv new own step])
  have inv': "ledger_inv {} db'" by (rule recompute_ledger [OF ex re])
  have pays: "payments db' = P" using re P(1) by (auto elim!: recomputeTotals_cases)
  have key: "book_of db' = deposit i (po_amount obj - captured t (po_id obj) db) (book_of db)
      \<and> (\<exists>q. select_first (live_pi t (po_id obj)) P = Some q \<and> counted q = po_amount obj)
      \<and> (\<forall>p \<in> set P. pay_stripePaymentIntentId p = Some (po_id obj) \<longrightarrow> pay_tenantId p = t \<and> pay_invoiceId p = i)"
    using P(2)
  proof
    assume "\<exists>p. select_first (live_pi t (po_id obj)) (payments db) = Some p \<and> po_amount obj \<noteq> 0 \<and>
        P = update_where (\<lambda>q. pay_tenantId q = t \<and> pay_id q = pay_id p) (settled_payment now obj) (payments db)"
    then obtain p where p: "select_first (live_pi t (po_id obj)) (payments db) = Some p"
      "P = update_where (\<lambda>q. pay_tenantId q = t \<and> pay_id q = pay_id p) (settled_payment now obj) (payments db)" by blast
    note live = select_first_SomeD [OF p(1)]
    have c: "counted (settled_payment now obj p) = po_amount obj"
      using live by (intro counted_settled) (simp add: live_pi_def)
    have i: "pay_invoiceId p = i" using live own by (auto simp: intent_of_def live_pi_def)
    have "received (pays_for j P) = received (pays_for j (payments db))
        + (if i = j then po_amount obj - counted p else 0)" for j
      unfolding p(2) using inv live i c
        received_replaced [of "payments db" p t "settled_payment now obj" j]
      by (simp add: ledger_inv_def live_pi_def settled_payment_def)
    then have "book_of db' = deposit i (po_amount obj - captured t (po_id obj) db) (book_of db)"
      using p(1) by (auto simp: fun_eq_iff deposit_def captured_def book_of_received [OF inv]
          book_of_received [OF inv'] pays)
    moreover have "select_first (live_pi t (po_id obj)) P = Some (settled_payment now obj p)"
      unfolding p(2) using p(1) live
      by (subst select_first_update_same) (auto simp: live_pi_def settled_payment_def)
    moreover have "\<forall>p \<in> set P. pay_stripePaymentIntentId p = Some (po_id obj) \<longrightarrow> pay_tenantId p = t \<and> pay_invoiceId p = i"
      using own unfolding p(2) by (auto simp: intent_of_def settled_payment_def dest!: in_update_where)
    ultimately show ?thesis using c by auto
  next
    let ?p = "webhook_payment now newId t i obj"
    assume none: "select_first (live_pi t (po_id obj)) (payments db) = None \<and> P = payments db @ [?p]"
    have p: "live_pi t (po_id obj) ?p" "counted ?p = po_amount obj" "pay_invoiceId ?p = i" "pay_tenantId ?p = t"
      by (simp_all add: live_pi_def webhook_payment_def card_payment_def counted_def)
    have "book_of db' = deposit i (po_amount obj - captured t (po_id obj) db) (book_of db)"
      using none p book_of_insert [OF inv inv', of ?p] pays by (simp add: captured_def)
    moreover have "select_first (live_pi t (po_id obj)) P = Some ?p"
      using none p by (simp add: select_first_append select_first_Cons)
    ultimately show ?thesis using none p own by (auto simp: intent_of_def)
  qed
  then obtain q where q: "select_first (live_pi t (po_id obj)) P = Some q" by blast
  have "q \<in> set (payments db')" "pay_tenantId q = t" "pay_invoiceId q = i"
    using key select_first_SomeD [OF q] pays by (auto simp: live_pi_def)
  then have "billed t i db'" using payment_billed [OF inv', of q] by simp
  then show ?thesis using key inv' pays by (auto simp: captured_def intent_of_def)
qed

lemma succeeded_event:
  assumes "handleWebhookEvent now newId txIds ev db = (Inr (True, False), db')"
    and "we_object ev = Payment_intent_succeeded obj" "po_kind obj \<noteq> Some ''self_serve_portal''"
    and "po_tenantId obj = Some t" "po_invoiceId obj = Some i"
  obtains E db1 where "settle now newId txIds t i obj (db\<lparr>stripeEvents := E\<rparr>) = Inr db1"
    "db' = markEventProcessed now (we_id ev) None db1"
proof (cases "select_first (\<lambda>e. se_id e = we_id ev) (stripeEvents db)")
  case None
  let ?db1 = "db\<lparr>stripeEvents := insert_into \<lparr>se_id = we_id ev, se_processedAt = None,
     se_processingError = None\<rparr> (stripeEvents db)\<rparr>"
  obtain r d where rd: "route_event now newId txIds (we_object ev) ?db1 = (r, d)" by fastforce
  then have "r = Inr True" "db' = markEventProcessed now (we_id ev) None d"
    using assms(1) None by (auto simp: handleWebhookEvent_def split: sum.splits)
  moreover from this have "settle now newId txIds t i obj ?db1 = Inr d"
    using rd assms(2-5)
    by (cases "settle now newId txIds t i obj ?db1")
      (simp_all add: route_event_def onPaymentIntentSucceeded_def transact_def)
  ultimately show thesis using that by blast
qed (use assms(1) in \<open>simp add: handleWebhookEvent_def\<close>)

text \<open>The account book, seen through the events of one intent.\<close>

lemma succeeded_event_book:
  assumes inv: "ledger_inv {} db" and new: "newId \<notin> pay_id ` set (payments db)"
    and own: "intent_of (po_id obj) t i db"
    and step: "handleWebhookEvent now newId txIds ev db = (Inr (True, False), db')"
      "we_object ev = Payment_intent_succeeded obj" "po_kind obj \<noteq> Some ''self_serve_portal''"
      "po_tenantId obj = Some t" "po_invoiceId obj = Some i"
  shows "book_of db' = deposit i (po_amount obj - captured t (po_id obj) db) (book_of db)
    \<and> captured t (po_id obj) db' = po_amount obj \<and> ledger_inv {} db' \<and> intent_of (po_id obj) t i db'"
proof -
  obtain E db1 where st: "settle now newId txIds t i obj (db\<lparr>stripeEvents := E\<rparr>) = Inr db1"
    and db': "db' = markEventProcessed now (we_id ev) None db1"
    by (rule succeeded_event [OF step])
  have frame: "book_of (db\<lparr>stripeEvents := E\<rparr>) = book_of db"
    "captured t (po_id obj) (db\<lparr>stripeEvents := E\<rparr>) = captured t (po_id obj) db"
    "intent_of (po_id obj) t i (db\<lparr>stripeEvents := E\<rparr>)" "ledger_inv {} (db\<lparr>stripeEvents := E\<rparr>)"
    using own inv ledger_cong [of "{}" db "db\<lparr>stripeEvents := E\<rparr>"]
    by (simp_all add: book_of_def captured_def intent_of_def billed_def fun_eq_iff)
  have "book_of db1 = deposit i (po_amount obj - captured t (po_id obj) db) (book_of db)
    \<and> captured t (po_id obj) db1 = po_amount obj \<and> ledger_inv {} db1 \<and> intent_of (po_id obj) t i db1"
    using settle_book [OF frame(4) _ frame(3) st] new frame(1,2) by simp
  moreover have "invoices db' = invoices db1" "invoiceLineItems db' = invoiceLineItems db1"
    "payments db' = payments db1" "invoiceTaxes db' = invoiceTaxes db1"
    unfolding db' by (simp_all add: markEventProcessed_def)
  ultimately show ?thesis using ledger_cong [of "{}" db1 db']
    by (simp add: book_of_def captured_def intent_of_def billed_def fun_eq_iff)
qed

text \<open>C21: The first event that reports an intent captured deposits on the intent's invoice, in the
  account book of amounts received, the captured amount less what the intent's payment row had been
  counted for - nothing for a pending row, everything for one captured while it was created - and a
  second event of the same capture under another event id leaves the whole book unchanged.\<close>

theorem card_payment_counted_once:
  assumes "payments_reachable db" "k \<notin> pay_id ` set (payments db)" "intent_of (po_id obj) t i db"
    and "po_kind obj \<noteq> Some ''self_serve_portal''" "po_tenantId obj = Some t" "po_invoiceId obj = Some i"
    and "we_object ev = Payment_intent_succeeded obj"
    and "handleWebhookEvent now k txIds ev db = (Inr (True, False), db1)"
    and "k' \<notin> pay_id ` set (payments db1)" "we_object ev' = Payment_intent_succeeded obj"
    and "handleWebhookEvent now' k' txIds' ev' db1 = (Inr (True, False), db2)"
  shows "book_of db1 = deposit i (po_amount obj - captured t (po_id obj) db) (book_of db)
    \<and> book_of db2 = book_of db1"
proof -
  have inv: "ledger_inv {} db" using payments_reachable_books [OF assms(1)] by (simp add: books_ok_def)
  note one = succeeded_event_book [OF inv assms(2,3,8,7,4,5,6)]
  have "book_of db2 = deposit i (po_amount obj - captured t (po_id obj) db1) (book_of db1)"
    using succeeded_event_book [OF _ assms(9) _ assms(11,10,4,5,6)] one by blast
  then have "book_of db2 = deposit i 0 (book_of db1)" using one by simp
  then show ?thesis using one by (simp add: deposit_def)
qed

theorem card_payment_counted_once_witness:
  "book_of pay_captured = deposit 500 (11300 - captured 1 ''pi_1'' pay_opened) (book_of pay_opened)
    \<and> book_of pay_recaptured = book_of pay_captured"
  using card_payment_counted_once [where obj = captured_intent and ev = "captured_event ''evt_1''"
      and ev' = "captured_event ''evt_9''", OF pay_reachable(1) pay_intent_known(2) _ _ _ _ _ pay_events(1)
      pay_intent_known(3) _ pay_events(2)] pay_intent_known(1)
  by (simp add: captured_intent_def captured_event_def)

section \<open>The platform fee\<close>

text \<open>For every balance an int4 column holds and every margin the settings accept, the platform
  fee computed in doubles is the exact floor of balance times basis points over ten thousand: the
  division never rounds across an integer.  It is at most a tenth of the balance.\<close>

theorem application_fee_exact:
  assumes "0 \<le> balance" "balance < 2 ^ 31" "0 \<le> bps" "bps \<le> 1000"
  shows "application_fee balance bps = balance * bps div 10000
    \<and> 0 \<le> application_fee balance bps \<and> 10 * application_fee balance bps \<le> balance"
proof -
  have hi: "balance * bps \<le> balance * 1000" using assms by (intro mult_left_mono) simp_all
  also have "\<dots> < 2 ^ 53" using assms by simp
  finally have lt: "balance * bps < 2 ^ 53" .
  have pos: "0 \<le> balance * bps" using assms by simp
  have "dbl_val (dmul (num balance) (num bps)) = of_int (balance * bps)"
    using assms lt pos by (intro dmul_exact) (auto intro: num_exact simp: abs_le_iff)
  then have fee: "application_fee balance bps = balance * bps div 10000"
    unfolding application_fee_def
    by (intro dfloor_quotient) (use pos lt in \<open>simp_all add: num_exact\<close>)
  have "balance * bps div 10000 \<le> balance * 1000 div 10000" using hi by (intro zdiv_mono1) simp_all
  also have "\<dots> = balance div 10" by simp
  finally show ?thesis using fee pos by (auto simp: pos_imp_zdiv_nonneg_iff)
qed

theorem application_fee_exact_witness:
  "application_fee 2147483647 1000 = 214748364 \<and> application_fee 11300 250 = 282"
  using application_fee_exact [of 2147483647 1000] application_fee_exact [of 11300 250] by simp

end
