(* ===== verification/Auction.thy ===== *)
theory Auction
  imports Impound JsText
begin

text \<open>
  modules/auction: the listings of the remarketing marketplace with their photos, bids and bidders.
  auction-bid.logic.ts decides about a bid, the extension of the window and the outcome of a close;
  auction.service.ts and bidder-auth/bidder-auth.service.ts are the handlers, auction-lifecycle.cron.ts
  the sweep that closes what is due.  The tables extend those of the impound module.  Mails are left
  out except for the recipients a close resolves; the password check and the signed token are
  arguments, and so is what the random generator returns.
\<close>

section \<open>Decisions\<close>

datatype listing_status = Listing_draft | Listing_live | Listing_ended | Listing_sold | Listing_withdrawn

datatype bid_verdict = Bid_ok cents | Bid_rejected string string

definition minNextBidCents :: "cents \<Rightarrow> cents option \<Rightarrow> cents" where
  "minNextBidCents start high = (case high of None \<Rightarrow> start | Some h \<Rightarrow> max start (h + 1))"

record bid_context =
  bc_listingStatus :: listing_status
  bc_listStartsAt :: "instant option"
  bc_listEndsAt :: "instant option"
  bc_startingBidCents :: cents
  bc_currentHighBidCents :: "cents option"
  bc_bidAmountCents :: cents
  bc_now :: instant

definition validateBid :: "bid_context \<Rightarrow> bid_verdict" where
  "validateBid c =
    (let floor = minNextBidCents (bc_startingBidCents c) (bc_currentHighBidCents c) in
     if bc_listingStatus c \<noteq> Listing_live
     then Bid_rejected ''auction_not_live'' ''This listing is not open for bidding.''
     else if \<exists>s \<in> set_option (bc_listStartsAt c). bc_now c < s
     then Bid_rejected ''auction_not_live'' ''Bidding has not opened for this listing yet.''
     else if \<exists>e \<in> set_option (bc_listEndsAt c). e < bc_now c
     then Bid_rejected ''auction_ended'' ''Bidding has closed for this listing.''
     else if bc_bidAmountCents c < floor
     then Bid_rejected ''auction_bid_too_low'' (''Bid must be at least '' @ show_int floor @ '' cents.'')
     else Bid_ok floor)"

definition AUCTION_ANTI_SNIPE_WINDOW_MS :: int where
  "AUCTION_ANTI_SNIPE_WINDOW_MS = 60000"

definition AUCTION_ANTI_SNIPE_EXTENSION_MS :: int where
  "AUCTION_ANTI_SNIPE_EXTENSION_MS = 5 * 60000"

definition computeAntiSnipeExtension :: "instant option \<Rightarrow> instant \<Rightarrow> instant option" where
  "computeAntiSnipeExtension ends now =
    (case ends of None \<Rightarrow> None
     | Some e \<Rightarrow> (let remaining = e - now in
         if remaining < 0 \<or> AUCTION_ANTI_SNIPE_WINDOW_MS < remaining then None
         else Some (now + AUCTION_ANTI_SNIPE_EXTENSION_MS)))"

text \<open>The outcome: the winning bid and its amount, or the listing ends unsold.\<close>

definition evaluateClose :: "cents option \<Rightarrow> (uuid \<times> cents) option \<Rightarrow> (uuid \<times> cents) option" where
  "evaluateClose reserve high =
    (case high of None \<Rightarrow> None
     | Some (i, amount) \<Rightarrow>
         (case reserve of None \<Rightarrow> Some (i, amount)
          | Some r \<Rightarrow> if r \<le> amount then Some (i, amount) else None))"

section \<open>Tables\<close>

datatype condition_grade = Grade_excellent | Grade_good | Grade_fair | Grade_poor | Grade_salvage

record listing_row =
  lst_id :: uuid
  lst_tenantId :: uuid
  lst_impoundRecordId :: "uuid option"
  lst_lienCaseId :: "uuid option"
  lst_vin :: "string option"
  lst_vehicleYear :: "int option"
  lst_make :: "string option"
  lst_model :: "string option"
  lst_mileage :: "int option"
  lst_conditionGrade :: "condition_grade option"
  lst_reservePriceCents :: "cents option"
  lst_startingBidCents :: cents
  lst_listStartsAt :: "instant option"
  lst_listEndsAt :: "instant option"
  lst_status :: listing_status
  lst_winningBidId :: "uuid option"
  lst_createdBy :: "uuid option"
  lst_createdAt :: instant
  lst_deletedAt :: "instant option"

record photo_row =
  ph_tenantId :: uuid
  ph_listingId :: uuid
  ph_photoKey :: string
  ph_sortOrder :: nat
  ph_deletedAt :: "instant option"

record bid_row =
  bid_id :: uuid
  bid_tenantId :: uuid
  bid_listingId :: uuid
  bid_bidderId :: uuid
  bid_amountCents :: cents
  bid_placedAt :: instant
  bid_ipAddress :: "string option"
  bid_isWinning :: bool
  bid_deletedAt :: "instant option"

record bidder_row =
  bdr_id :: uuid
  bdr_tenantId :: uuid
  bdr_name :: string
  bdr_email :: string
  bdr_passwordHash :: string
  bdr_phone :: "string option"
  bdr_businessName :: "string option"
  bdr_licenseNo :: "string option"
  bdr_verificationToken :: "string option"
  bdr_verificationTokenExpiresAt :: "instant option"
  bdr_verifiedAt :: "instant option"
  bdr_blockedAt :: "instant option"
  bdr_deletedAt :: "instant option"

text \<open>The columns of tenants the marketplace resolves a slug by.\<close>

record market_tenant =
  mt_id :: uuid
  mt_slug :: string
  mt_active :: bool

record auction_db = impound_db +
  auctionListings :: "listing_row list"
  auctionListingPhotos :: "photo_row list"
  auctionBids :: "bid_row list"
  auctionBidders :: "bidder_row list"
  marketTenants :: "market_tenant list"

definition live_listing :: "uuid \<Rightarrow> uuid \<Rightarrow> listing_row \<Rightarrow> bool" where
  "live_listing t i l \<longleftrightarrow> lst_tenantId l = t \<and> lst_id l = i \<and> lst_deletedAt l = None"

definition own_listing :: "uuid \<Rightarrow> uuid \<Rightarrow> listing_row \<Rightarrow> bool" where
  "own_listing t i l \<longleftrightarrow> lst_tenantId l = t \<and> lst_id l = i"

definition bid_on :: "uuid \<Rightarrow> uuid \<Rightarrow> bid_row \<Rightarrow> bool" where
  "bid_on t i b \<longleftrightarrow> bid_tenantId b = t \<and> bid_listingId b = i \<and> bid_deletedAt b = None"

definition photo_of :: "uuid \<Rightarrow> uuid \<Rightarrow> photo_row \<Rightarrow> bool" where
  "photo_of t i p \<longleftrightarrow> ph_tenantId p = t \<and> ph_listingId p = i \<and> ph_deletedAt p = None"

definition listing_not_found :: exn where
  "listing_not_found = NotFound ''Listing not found''"

definition ineligible :: "string \<Rightarrow> exn" where
  "ineligible msg = Conflict ''auction_ineligible'' msg"

definition wrong_state :: "string \<Rightarrow> exn" where
  "wrong_state msg = Conflict ''invalid_state_transition'' msg"

definition active_listing :: "listing_row \<Rightarrow> bool" where
  "active_listing l \<longleftrightarrow> lst_status l \<in> {Listing_draft, Listing_live, Listing_ended, Listing_sold}"

definition ineligible_impound :: "impound_status \<Rightarrow> bool" where
  "ineligible_impound s \<longleftrightarrow> s \<in> {Released, Transferred, Disposed}"

text \<open>\<open>ORDER BY bid_amount_cents DESC, placed_at ASC LIMIT 1\<close>\<close>

definition ranked_bids :: "bid_row list \<Rightarrow> bid_row list" where
  "ranked_bids bs = sort_key (\<lambda>b. - bid_amountCents b) (sort_key bid_placedAt bs)"

definition top_bid :: "uuid \<Rightarrow> uuid \<Rightarrow> bid_row list \<Rightarrow> bid_row option" where
  "top_bid t i bs = (case ranked_bids (select_where (bid_on t i) bs) of [] \<Rightarrow> None | b # _ \<Rightarrow> Some b)"

section \<open>Listings\<close>

text \<open>The vehicles the staff may list: eligible, still on the lot and on no active listing, in the
  order in which they became eligible (a missing date sorts last).\<close>

definition eligible_key :: "impound_row \<Rightarrow> nat \<times> instant" where
  "eligible_key r = (case imp_lienEligibleAt r of None \<Rightarrow> (1, 0) | Some d \<Rightarrow> (0, d))"

definition eligible_order :: "impound_row list \<Rightarrow> impound_row list" where
  "eligible_order rs = sort_key (\<lambda>r. fst (eligible_key r)) (sort_key (\<lambda>r. snd (eligible_key r)) rs)"

definition listEligibleVehicles :: "ctx \<Rightarrow> 'a auction_db_scheme \<Rightarrow> impound_row list" where
  "listEligibleVehicles ctx db =
    (let t = ctx_tenantId ctx;
         candidates = eligible_order (select_where (\<lambda>r. imp_tenantId r = t \<and> imp_lienEligible r
           \<and> imp_deletedAt r = None) (impoundRecords db));
         usable = filter (\<lambda>r. \<not> ineligible_impound (imp_status r)) candidates;
         used = List.map_filter lst_impoundRecordId (select_where (\<lambda>l. lst_tenantId l = t \<and> active_listing l
           \<and> lst_deletedAt l = None) (auctionListings db))
     in filter (\<lambda>r. imp_id r \<notin> set used) usable)"

record create_listing_input =
  cl_impoundRecordId :: "uuid option"
  cl_lienCaseId :: "uuid option"
  cl_vin :: "string option"
  cl_vehicleYear :: "int option"
  cl_make :: "string option"
  cl_model :: "string option"
  cl_mileage :: "int option"
  cl_conditionGrade :: "condition_grade option"
  cl_reservePriceCents :: "cents option"
  cl_startingBidCents :: cents
  cl_listStartsAt :: "instant option"
  cl_listEndsAt :: "instant option"
  cl_photoKeys :: "string list"

text \<open>\<open>a ?? b\<close>\<close>

definition or_else :: "'a option \<Rightarrow> 'a option \<Rightarrow> 'a option" where
  "or_else a b = (case a of None \<Rightarrow> b | Some x \<Rightarrow> Some x)"

definition photo_rows :: "uuid \<Rightarrow> uuid \<Rightarrow> string list \<Rightarrow> photo_row list" where
  "photo_rows t i keys = map (\<lambda>(k, key). \<lparr>ph_tenantId = t, ph_listingId = i, ph_photoKey = key,
     ph_sortOrder = k, ph_deletedAt = None\<rparr>) (enumerate 0 keys)"

definition listing_seed :: "uuid \<Rightarrow> create_listing_input \<Rightarrow> 'a auction_db_scheme \<Rightarrow> exn + impound_row option" where
  "listing_seed t inp db =
    (case cl_impoundRecordId inp of None \<Rightarrow> Inr None
     | Some rid \<Rightarrow>
        require (select_first (live_impound t rid) (impoundRecords db))
          (NotFound ''Impound record not found in this tenant'') (\<lambda>r.
        ensure (imp_lienEligible r) (ineligible ''This impound record has not cleared lien processing.'') (
        ensure (\<not> ineligible_impound (imp_status r))
          (ineligible (''Cannot list a record in status \"'' @ impound_status_text (imp_status r) @ ''\".'')) (
        ensure (select_first (\<lambda>l. lst_tenantId l = t \<and> lst_impoundRecordId l = Some rid \<and> active_listing l
            \<and> lst_deletedAt l = None) (auctionListings db) = None)
          (ineligible ''This vehicle is already on an active listing.'') (Inr (Some r))))))"

definition new_listing :: "ctx \<Rightarrow> instant \<Rightarrow> uuid \<Rightarrow> create_listing_input \<Rightarrow> impound_row option \<Rightarrow> listing_row" where
  "new_listing ctx now newId inp seed =
     \<lparr>lst_id = newId, lst_tenantId = ctx_tenantId ctx, lst_impoundRecordId = cl_impoundRecordId inp,
      lst_lienCaseId = cl_lienCaseId inp,
      lst_vin = or_else (cl_vin inp) (Option.bind seed imp_vehicleVin),
      lst_vehicleYear = or_else (cl_vehicleYear inp) (Option.bind seed imp_vehicleYear),
      lst_make = or_else (cl_make inp) (Option.bind seed imp_vehicleMake),
      lst_model = or_else (cl_model inp) (Option.bind seed imp_vehicleModel),
      lst_mileage = or_else (cl_mileage inp) (Option.bind seed imp_intakeMileage),
      lst_conditionGrade = cl_conditionGrade inp, lst_reservePriceCents = cl_reservePriceCents inp,
      lst_startingBidCents = cl_startingBidCents inp, lst_listStartsAt = cl_listStartsAt inp,
      lst_listEndsAt = cl_listEndsAt inp, lst_status = Listing_draft, lst_winningBidId = None,
      lst_createdBy = Some (ctx_userId ctx), lst_createdAt = now, lst_deletedAt = None\<rparr>"

definition createListing :: "ctx \<Rightarrow> instant \<Rightarrow> uuid \<Rightarrow> create_listing_input \<Rightarrow> 'a auction_db_scheme \<Rightarrow>
    exn + listing_row \<times> 'a auction_db_scheme" where
  "createListing ctx now newId inp db =
    attempt (listing_seed (ctx_tenantId ctx) inp db) (\<lambda>seed.
      (let row = new_listing ctx now newId inp seed
       in Inr (row, db\<lparr>auctionListings := insert_into row (auctionListings db),
            auctionListingPhotos := auctionListingPhotos db
              @ photo_rows (ctx_tenantId ctx) newId (cl_photoKeys inp)\<rparr>)))"

record update_listing_input =
  ul_vin :: "string option"
  ul_vehicleYear :: "int option"
  ul_make :: "string option"
  ul_model :: "string option"
  ul_mileage :: "int option"
  ul_conditionGrade :: "condition_grade option"
  ul_reservePriceCents :: "cents option"
  ul_startingBidCents :: "cents option"
  ul_listStartsAt :: "instant option"
  ul_listEndsAt :: "instant option"
  ul_photoKeys :: "string list option"

definition patch_listing :: "update_listing_input \<Rightarrow> listing_row \<Rightarrow> listing_row" where
  "patch_listing inp l = l\<lparr>lst_vin := or_else (ul_vin inp) (lst_vin l),
     lst_vehicleYear := or_else (ul_vehicleYear inp) (lst_vehicleYear l),
     lst_make := or_else (ul_make inp) (lst_make l), lst_model := or_else (ul_model inp) (lst_model l),
     lst_mileage := or_else (ul_mileage inp) (lst_mileage l),
     lst_conditionGrade := or_else (ul_conditionGrade inp) (lst_conditionGrade l),
     lst_reservePriceCents := or_else (ul_reservePriceCents inp) (lst_reservePriceCents l),
     lst_startingBidCents := patched (ul_startingBidCents inp) (lst_startingBidCents l),
     lst_listStartsAt := or_else (ul_listStartsAt inp) (lst_listStartsAt l),
     lst_listEndsAt := or_else (ul_listEndsAt inp) (lst_listEndsAt l)\<rparr>"

definition replace_photos :: "instant \<Rightarrow> uuid \<Rightarrow> uuid \<Rightarrow> string list option \<Rightarrow> photo_row list \<Rightarrow> photo_row list" where
  "replace_photos now t i keys ps = (case keys of None \<Rightarrow> ps
     | Some ks \<Rightarrow> update_where (photo_of t i) (\<lambda>p. p\<lparr>ph_deletedAt := Some now\<rparr>) ps @ photo_rows t i ks)"

definition updateListing :: "ctx \<Rightarrow> instant \<Rightarrow> uuid \<Rightarrow> update_listing_input \<Rightarrow> 'a auction_db_scheme \<Rightarrow>
    exn + listing_row \<times> 'a auction_db_scheme" where
  "updateListing ctx now i inp db =
    (let t = ctx_tenantId ctx in
     require (select_first (live_listing t i) (auctionListings db)) listing_not_found (\<lambda>l.
     ensure (lst_status l = Listing_draft) (wrong_state ''Only draft listings can be edited.'') (
     (let fresh = patch_listing inp l in
      ensure (\<forall>r \<in> set_option (lst_reservePriceCents fresh). lst_startingBidCents fresh \<le> r)
        (BadRequest ''bad_request'' ''Reserve price must be at least the starting bid.'') (
      Inr (fresh, db\<lparr>auctionListings := update_where (own_listing t i) (patch_listing inp) (auctionListings db),
        auctionListingPhotos := replace_photos now t i (ul_photoKeys inp) (auctionListingPhotos db)\<rparr>))))))"

definition publishListing :: "ctx \<Rightarrow> instant \<Rightarrow> uuid \<Rightarrow> instant option \<Rightarrow> instant \<Rightarrow> 'a auction_db_scheme \<Rightarrow>
    exn + listing_row \<times> 'a auction_db_scheme" where
  "publishListing ctx now i listStartsAt listEndsAt db =
    (let t = ctx_tenantId ctx in
     require (select_first (live_listing t i) (auctionListings db)) listing_not_found (\<lambda>l.
     ensure (lst_status l = Listing_draft) (wrong_state ''Only draft listings can be published.'') (
     (let startsAt = (case listStartsAt of None \<Rightarrow> now | Some s \<Rightarrow> s) in
      ensure (startsAt < listEndsAt) (BadRequest ''bad_request'' ''listEndsAt must be after listStartsAt.'') (
      (let (row, tbl) = update_returning (own_listing t i) (\<lambda>l. l\<lparr>lst_status := Listing_live,
             lst_listStartsAt := Some startsAt, lst_listEndsAt := Some listEndsAt\<rparr>) (auctionListings db)
       in require row listing_not_found (\<lambda>r. Inr (r, db\<lparr>auctionListings := tbl\<rparr>))))))))"

definition withdrawListing :: "ctx \<Rightarrow> uuid \<Rightarrow> 'a auction_db_scheme \<Rightarrow>
    exn + listing_row \<times> 'a auction_db_scheme" where
  "withdrawListing ctx i db =
    (let t = ctx_tenantId ctx in
     require (select_first (live_listing t i) (auctionListings db)) listing_not_found (\<lambda>l.
     ensure (lst_status l = Listing_draft \<or> lst_status l = Listing_live)
       (wrong_state ''Only draft or live listings can be withdrawn.'') (
     (let (row, tbl) = update_returning (own_listing t i) (\<lambda>l. l\<lparr>lst_status := Listing_withdrawn\<rparr>)
            (auctionListings db)
      in require row listing_not_found (\<lambda>r. Inr (r, db\<lparr>auctionListings := tbl\<rparr>))))))"

section \<open>Closing\<close>

definition flag_winner :: "uuid \<Rightarrow> uuid \<Rightarrow> bid_row list \<Rightarrow> bid_row list" where
  "flag_winner t b bs = update_where (\<lambda>x. bid_tenantId x = t \<and> bid_id x = b) (\<lambda>x. x\<lparr>bid_isWinning := True\<rparr>) bs"

text \<open>Whom the close notifies, as name and mail address: the winner and the other bidders.\<close>

record close_notification =
  cn_sold :: bool
  cn_winningBidCents :: "cents option"
  cn_winner :: "(string \<times> string) option"
  cn_losers :: "(string \<times> string) list"

definition bidders_of :: "uuid \<Rightarrow> uuid \<Rightarrow> 'a auction_db_scheme \<Rightarrow> bidder_row list" where
  "bidders_of t i db = select_where (\<lambda>p. bdr_tenantId p = t
     \<and> bdr_id p \<in> bid_bidderId ` set (select_where (bid_on t i) (auctionBids db))) (auctionBidders db)"

definition close_notice :: "uuid \<Rightarrow> uuid \<Rightarrow> bid_row option \<Rightarrow> (uuid \<times> cents) option \<Rightarrow> 'a auction_db_scheme \<Rightarrow>
    close_notification" where
  "close_notice t i best outcome db =
    (let won = (\<lambda>p. outcome \<noteq> None \<and> Some (bdr_id p) = map_option bid_bidderId best);
         who = (\<lambda>p. (bdr_name p, bdr_email p))
     in \<lparr>cn_sold = (outcome \<noteq> None), cn_winningBidCents = map_option snd outcome,
          cn_winner = map_option who (select_first won (rev (bidders_of t i db))),
          cn_losers = map who (filter (\<lambda>p. \<not> won p) (bidders_of t i db))\<rparr>)"

text \<open>Closing a listing of tenant \<open>t\<close>; the sweep runs it without a tenant, on the listing it found.\<close>

definition closeLiveListing :: "uuid \<Rightarrow> uuid \<Rightarrow> 'a auction_db_scheme \<Rightarrow>
    exn + (listing_row \<times> close_notification) \<times> 'a auction_db_scheme" where
  "closeLiveListing t i db =
    require (select_first (live_listing t i) (auctionListings db)) listing_not_found (\<lambda>l.
    ensure (lst_status l = Listing_live) (wrong_state ''Only live listings can be ended.'') (
    (let best = top_bid t i (auctionBids db);
         outcome = evaluateClose (lst_reservePriceCents l) (map_option (\<lambda>b. (bid_id b, bid_amountCents b)) best);
         (row, tbl) = update_returning (own_listing t i)
           (\<lambda>l. l\<lparr>lst_status := (if outcome = None then Listing_ended else Listing_sold),
              lst_winningBidId := map_option fst outcome\<rparr>) (auctionListings db)
     in require row listing_not_found (\<lambda>r.
        Inr ((r, close_notice t i best outcome db),
          db\<lparr>auctionListings := tbl, auctionBids := (case outcome of None \<Rightarrow> auctionBids db
             | Some (b, _) \<Rightarrow> flag_winner t b (auctionBids db))\<rparr>)))))"

definition endListing :: "ctx \<Rightarrow> uuid \<Rightarrow> 'a auction_db_scheme \<Rightarrow>
    exn + (listing_row \<times> close_notification) \<times> 'a auction_db_scheme" where
  "endListing ctx i db = closeLiveListing (ctx_tenantId ctx) i db"

definition awardWinner :: "ctx \<Rightarrow> uuid \<Rightarrow> uuid \<Rightarrow> 'a auction_db_scheme \<Rightarrow>
    exn + listing_row \<times> 'a auction_db_scheme" where
  "awardWinner ctx i bidId db =
    (let t = ctx_tenantId ctx in
     require (select_first (live_listing t i) (auctionListings db)) listing_not_found (\<lambda>l.
     ensure (lst_status l = Listing_ended) (wrong_state ''Only ended listings can be awarded manually.'') (
     require (select_first (\<lambda>b. bid_on t i b \<and> bid_id b = bidId) (auctionBids db))
       (NotFound ''Bid not found on this listing'') (\<lambda>b.
     (let cleared = update_where (\<lambda>x. bid_tenantId x = t \<and> bid_listingId x = i \<and> bid_isWinning x)
            (\<lambda>x. x\<lparr>bid_isWinning := False\<rparr>) (auctionBids db);
          (row, tbl) = update_returning (own_listing t i)
            (\<lambda>l. l\<lparr>lst_status := Listing_sold, lst_winningBidId := Some (bid_id b)\<rparr>) (auctionListings db)
      in require row listing_not_found (\<lambda>r.
         Inr (r, db\<lparr>auctionListings := tbl, auctionBids := flag_winner t (bid_id b) cleared\<rparr>)))))))"

section \<open>Bidding\<close>

definition new_bid :: "uuid \<Rightarrow> uuid \<Rightarrow> uuid \<Rightarrow> uuid \<Rightarrow> cents \<Rightarrow> instant \<Rightarrow> string option \<Rightarrow> bid_row" where
  "new_bid newId t i bidder amount now ip = \<lparr>bid_id = newId, bid_tenantId = t, bid_listingId = i,
     bid_bidderId = bidder, bid_amountCents = amount, bid_placedAt = now, bid_ipAddress = ip,
     bid_isWinning = False, bid_deletedAt = None\<rparr>"

text \<open>The row locks make the bids of a listing one after the other.  The answer holds the bidder who
  was outbid, if it was another.\<close>

definition placeBid :: "uuid \<Rightarrow> uuid \<Rightarrow> string option \<Rightarrow> instant \<Rightarrow> uuid \<Rightarrow> uuid \<Rightarrow> cents \<Rightarrow> 'a auction_db_scheme \<Rightarrow>
    exn + (bid_row \<times> uuid option) \<times> 'a auction_db_scheme" where
  "placeBid t bidderId ip now newId i amount db =
    require (select_first (\<lambda>p. bdr_tenantId p = t \<and> bdr_id p = bidderId \<and> bdr_deletedAt p = None) (auctionBidders db))
      (NotFound ''Bidder not found'') (\<lambda>bidder.
    ensure (bdr_blockedAt bidder = None) (Conflict ''bidder_blocked'' ''This bidder account is blocked.'') (
    ensure (bdr_verifiedAt bidder \<noteq> None) (Conflict ''bidder_email_not_verified'' ''Verify your email before bidding.'') (
    require (select_first (live_listing t i) (auctionListings db)) listing_not_found (\<lambda>l.
    (let best = top_bid t i (auctionBids db) in
     (case validateBid \<lparr>bc_listingStatus = lst_status l, bc_listStartsAt = lst_listStartsAt l,
         bc_listEndsAt = lst_listEndsAt l, bc_startingBidCents = lst_startingBidCents l,
         bc_currentHighBidCents = map_option bid_amountCents best, bc_bidAmountCents = amount, bc_now = now\<rparr> of
        Bid_rejected code msg \<Rightarrow> Inl (Conflict code msg)
      | Bid_ok _ \<Rightarrow>
          (let bid = new_bid newId t i bidderId amount now ip;
               listings = (case computeAntiSnipeExtension (lst_listEndsAt l) now of
                   None \<Rightarrow> auctionListings db
                 | Some e \<Rightarrow> update_where (own_listing t i) (\<lambda>l. l\<lparr>lst_listEndsAt := Some e\<rparr>) (auctionListings db));
               outbid = (case best of None \<Rightarrow> None
                 | Some b \<Rightarrow> if bid_bidderId b \<noteq> bidderId then Some (bid_bidderId b) else None)
           in Inr ((bid, outbid), db\<lparr>auctionListings := listings,
                auctionBids := insert_into bid (auctionBids db)\<rparr>))))))))"

section \<open>What the marketplace shows\<close>

definition listListings :: "ctx \<Rightarrow> listing_status option \<Rightarrow> instant option \<Rightarrow> instant option \<Rightarrow>
    'a auction_db_scheme \<Rightarrow> listing_row list" where
  "listListings ctx status from_at to_at db = sort_key (\<lambda>l. - lst_createdAt l)
    (select_where (\<lambda>l. lst_tenantId l = ctx_tenantId ctx \<and> lst_deletedAt l = None
       \<and> (\<forall>s \<in> set_option status. lst_status l = s) \<and> (\<forall>f \<in> set_option from_at. f \<le> lst_createdAt l)
       \<and> (\<forall>u \<in> set_option to_at. lst_createdAt l \<le> u)) (auctionListings db))"

definition reserve_met :: "cents option \<Rightarrow> cents option \<Rightarrow> bool" where
  "reserve_met high reserve = (case high of None \<Rightarrow> False
     | Some h \<Rightarrow> (case reserve of None \<Rightarrow> True | Some r \<Rightarrow> r \<le> h))"

record listing_view =
  lv_listing :: listing_row
  lv_currentHighBidCents :: "cents option"
  lv_bidCount :: nat
  lv_reserveMet :: bool
  lv_photoKeys :: "string list"

definition composePublic :: "listing_row \<Rightarrow> 'a auction_db_scheme \<Rightarrow> listing_view" where
  "composePublic l db =
    (let bids = sort_key (\<lambda>b. - bid_amountCents b)
           (select_where (bid_on (lst_tenantId l) (lst_id l)) (auctionBids db));
         photos = sort_key ph_sortOrder (select_where (photo_of (lst_tenantId l) (lst_id l)) (auctionListingPhotos db));
         high = map_option bid_amountCents (case bids of [] \<Rightarrow> None | b # _ \<Rightarrow> Some b)
     in \<lparr>lv_listing = l\<lparr>lst_reservePriceCents := None\<rparr>, lv_currentHighBidCents = high,
          lv_bidCount = length bids, lv_reserveMet = reserve_met high (lst_reservePriceCents l),
          lv_photoKeys = map ph_photoKey photos\<rparr>)"

text \<open>The staff sees the bids, highest first and the later of equal ones first, with who placed them.\<close>

record listing_detail =
  ld_listing :: listing_row
  ld_photos :: "photo_row list"
  ld_bids :: "(bid_row \<times> string \<times> string option) list"
  ld_bidCount :: nat
  ld_currentHighBidCents :: "cents option"
  ld_reserveMet :: bool

definition composeDetail :: "listing_row \<Rightarrow> 'a auction_db_scheme \<Rightarrow> listing_detail" where
  "composeDetail l db =
    (let bids = sort_key (\<lambda>b. - bid_amountCents b) (sort_key (\<lambda>b. - bid_placedAt b)
           (select_where (bid_on (lst_tenantId l) (lst_id l)) (auctionBids db)));
         who = (\<lambda>b. select_first (\<lambda>p. bdr_tenantId p = lst_tenantId l \<and> bdr_id p = bid_bidderId b) (auctionBidders db));
         high = map_option bid_amountCents (case bids of [] \<Rightarrow> None | b # _ \<Rightarrow> Some b)
     in \<lparr>ld_listing = l,
          ld_photos = sort_key ph_sortOrder (select_where (photo_of (lst_tenantId l) (lst_id l)) (auctionListingPhotos db)),
          ld_bids = map (\<lambda>b. (b, case who b of None \<Rightarrow> ''Unknown'' | Some p \<Rightarrow> bdr_name p,
            Option.bind (who b) bdr_businessName)) bids,
          ld_bidCount = length bids, ld_currentHighBidCents = high,
          ld_reserveMet = reserve_met high (lst_reservePriceCents l)\<rparr>)"

definition getListingDetail :: "ctx \<Rightarrow> uuid \<Rightarrow> 'a auction_db_scheme \<Rightarrow> exn + listing_detail" where
  "getListingDetail ctx i db =
    require (select_first (live_listing (ctx_tenantId ctx) i) (auctionListings db)) listing_not_found (\<lambda>l.
      Inr (composeDetail l db))"

text \<open>An open-ended listing sorts last, as SQL sorts nulls.\<close>

definition publicListLiveListings :: "uuid \<Rightarrow> 'a auction_db_scheme \<Rightarrow> listing_view list" where
  "publicListLiveListings t db = map (\<lambda>l. composePublic l db)
    (sort_key (\<lambda>l. if lst_listEndsAt l = None then 1 else (0 :: nat))
      (sort_key (\<lambda>l. (case lst_listEndsAt l of None \<Rightarrow> 0 | Some e \<Rightarrow> e))
        (select_where (\<lambda>l. lst_tenantId l = t \<and> lst_status l = Listing_live \<and> lst_deletedAt l = None)
          (auctionListings db))))"

definition publicGetListing :: "uuid \<Rightarrow> uuid \<Rightarrow> 'a auction_db_scheme \<Rightarrow> exn + listing_view" where
  "publicGetListing t i db =
    require (select_first (live_listing t i) (auctionListings db)) listing_not_found (\<lambda>l.
    ensure (lst_status l \<in> {Listing_live, Listing_ended, Listing_sold}) listing_not_found (
    Inr (composePublic l db)))"

definition listBidderBids :: "uuid \<Rightarrow> uuid \<Rightarrow> 'a auction_db_scheme \<Rightarrow> bid_row list" where
  "listBidderBids t bidderId db = sort_key (\<lambda>b. - bid_placedAt b)
    (select_where (\<lambda>b. bid_tenantId b = t \<and> bid_bidderId b = bidderId \<and> bid_deletedAt b = None) (auctionBids db))"

section \<open>The lifecycle sweep\<close>

definition due_listing :: "instant \<Rightarrow> listing_row \<Rightarrow> bool" where
  "due_listing now l \<longleftrightarrow> lst_status l = Listing_live \<and> lst_deletedAt l = None
     \<and> (\<exists>e \<in> set_option (lst_listEndsAt l). e \<le> now)"

text \<open>Scanned, closed, sold; a close that throws is skipped.  The ids are those of the scan.\<close>

definition lifecycle_step :: "uuid \<times> uuid \<Rightarrow> (nat \<times> nat) \<times> 'a auction_db_scheme \<Rightarrow> (nat \<times> nat) \<times> 'a auction_db_scheme" where
  "lifecycle_step due acc = (case acc of ((closed, sold), db) \<Rightarrow>
     (case closeLiveListing (fst due) (snd due) db of Inl _ \<Rightarrow> acc
      | Inr ((_, notice), db1) \<Rightarrow> ((closed + 1, if cn_sold notice then sold + 1 else sold), db1)))"

definition lifecycle_tick :: "instant \<Rightarrow> 'a auction_db_scheme \<Rightarrow> (nat \<times> nat \<times> nat) \<times> 'a auction_db_scheme" where
  "lifecycle_tick now db =
    (let due = map (\<lambda>l. (lst_tenantId l, lst_id l)) (select_where (due_listing now) (auctionListings db));
         ((closed, sold), db') = fold lifecycle_step due ((0, 0), db)
     in ((length due, closed, sold), db'))"

section \<open>Bidder accounts\<close>

definition VERIFICATION_TTL_MS :: int where
  "VERIFICATION_TTL_MS = 24 * 60 * 60 * 1000"

definition resolveTenantIdBySlug :: "string \<Rightarrow> 'a auction_db_scheme \<Rightarrow> uuid option" where
  "resolveTenantIdBySlug slug db =
     map_option mt_id (select_first (\<lambda>t. mt_slug t = slug \<and> mt_active t) (marketTenants db))"

definition lower_text :: "string \<Rightarrow> string" where
  "lower_text s = map lower_char s"

definition with_email :: "uuid \<Rightarrow> string \<Rightarrow> bidder_row \<Rightarrow> bool" where
  "with_email t email p \<longleftrightarrow> bdr_tenantId p = t \<and> lower_text (bdr_email p) = lower_text email \<and> bdr_deletedAt p = None"

record register_input =
  rg_tenantSlug :: string
  rg_name :: string
  rg_email :: string
  rg_phone :: "string option"
  rg_businessName :: "string option"
  rg_licenseNo :: "string option"

text \<open>The hash of the password and the random token are arguments.  The payload schema admits an
  e-mail address, which holds no blanks to trim, and trims the name.\<close>

definition registerBidder :: "instant \<Rightarrow> uuid \<Rightarrow> string \<Rightarrow> string \<Rightarrow> register_input \<Rightarrow> 'a auction_db_scheme \<Rightarrow>
    exn + bidder_row \<times> 'a auction_db_scheme" where
  "registerBidder now newId passwordHash token inp db =
    require (resolveTenantIdBySlug (rg_tenantSlug inp) db) (NotFound ''Unknown marketplace.'') (\<lambda>t.
    ensure (select_first (with_email t (rg_email inp)) (auctionBidders db) = None)
      (Conflict ''conflict'' ''An account with this email already exists for this marketplace.'') (
    (let row = \<lparr>bdr_id = newId, bdr_tenantId = t, bdr_name = rg_name inp, bdr_email = rg_email inp,
           bdr_passwordHash = passwordHash, bdr_phone = rg_phone inp, bdr_businessName = rg_businessName inp,
           bdr_licenseNo = rg_licenseNo inp, bdr_verificationToken = Some token,
           bdr_verificationTokenExpiresAt = Some (now + VERIFICATION_TTL_MS), bdr_verifiedAt = None,
           bdr_blockedAt = None, bdr_deletedAt = None\<rparr>
     in Inr (row, db\<lparr>auctionBidders := insert_into row (auctionBidders db)\<rparr>))))"

text \<open>The token is looked up over all tenants; a session is issued to the verified bidder, blocked or
  not.\<close>

definition verifyEmail :: "instant \<Rightarrow> string \<Rightarrow> 'a auction_db_scheme \<Rightarrow> exn + bidder_row \<times> 'a auction_db_scheme" where
  "verifyEmail now token db =
    require (select_first (\<lambda>p. bdr_verificationToken p = Some token
        \<and> (\<exists>e \<in> set_option (bdr_verificationTokenExpiresAt p). now < e) \<and> bdr_deletedAt p = None) (auctionBidders db))
      (Unauthorized ''token_invalid'' ''This verification link is invalid or has expired.'') (\<lambda>p.
    (let (updated, tbl) = update_returning (\<lambda>q. bdr_id q = bdr_id p) (\<lambda>q. q\<lparr>bdr_verifiedAt := Some now,
           bdr_verificationToken := None, bdr_verificationTokenExpiresAt := None\<rparr>) (auctionBidders db)
     in Inr (case updated of None \<Rightarrow> p | Some q \<Rightarrow> q, db\<lparr>auctionBidders := tbl\<rparr>)))"

text \<open>\<open>verify hash password\<close> is the password service's check.\<close>

definition loginBidder :: "(string \<Rightarrow> string \<Rightarrow> bool) \<Rightarrow> string \<Rightarrow> string \<Rightarrow> string \<Rightarrow> 'a auction_db_scheme \<Rightarrow>
    exn + bidder_row" where
  "loginBidder verify slug email password db =
    (let invalid = Unauthorized ''invalid_credentials'' ''Invalid email or password.'' in
     require (resolveTenantIdBySlug slug db) invalid (\<lambda>t.
     require (select_first (with_email t email) (auctionBidders db)) invalid (\<lambda>p.
     ensure (verify (bdr_passwordHash p) password) invalid (
     ensure (bdr_blockedAt p = None) (Forbidden ''bidder_blocked'' ''This account is blocked.'') (
     ensure (bdr_verifiedAt p \<noteq> None) (Forbidden ''bidder_email_not_verified'' ''Verify your email before signing in.'') (
     Inr p))))))"

end
