(* ===== verification/AuctionProperties.thy ===== *)
theory AuctionProperties
  imports Auction ImpoundProperties
begin

text \<open>
  The properties of the auction module: the bids of a listing rise and a sold listing has exactly one
  winning bid on every reachable database, the lifecycle sweep settles exactly the listings that are
  due, and what a listing does not notice of its vehicle.
\<close>

section \<open>The invariant\<close>

definition bids_for :: "uuid \<Rightarrow> bid_row list \<Rightarrow> bid_row list" where
  "bids_for i B = filter (\<lambda>b. bid_listingId b = i) B"

definition winner_ok :: "bid_row list \<Rightarrow> listing_row \<Rightarrow> bool" where
  "winner_ok bs l \<longleftrightarrow> (if lst_status l = Listing_sold
     then \<exists>b. filter bid_isWinning bs = [b] \<and> lst_winningBidId l = Some (bid_id b)
     else filter bid_isWinning bs = [] \<and> lst_winningBidId l = None)"

definition rising :: "cents \<Rightarrow> bid_row list \<Rightarrow> bool" where
  "rising start bs \<longleftrightarrow> sorted_wrt (<) (map bid_amountCents bs) \<and> (\<forall>b \<in> set bs. start \<le> bid_amountCents b)"

definition listing_ok :: "bid_row list \<Rightarrow> listing_row \<Rightarrow> bool" where
  "listing_ok B l \<longleftrightarrow> (lst_status l = Listing_draft \<longrightarrow> bids_for (lst_id l) B = [])
     \<and> rising (lst_startingBidCents l) (bids_for (lst_id l) B) \<and> winner_ok (bids_for (lst_id l) B) l"

definition bid_placed :: "listing_row list \<Rightarrow> bid_row \<Rightarrow> bool" where
  "bid_placed L b \<longleftrightarrow> bid_deletedAt b = None
     \<and> (\<exists>l \<in> set L. lst_id l = bid_listingId b \<and> lst_tenantId l = bid_tenantId b)"

definition market_ok :: "listing_row list \<Rightarrow> bid_row list \<Rightarrow> bool" where
  "market_ok L B \<longleftrightarrow> distinct (map lst_id L) \<and> distinct (map bid_id B)
     \<and> (\<forall>b \<in> set B. bid_placed L b) \<and> (\<forall>l \<in> set L. listing_ok B l)"

lemma live_listing_found:
  assumes "select_first (live_listing t i) L = Some l"
  shows "l \<in> set L" "lst_id l = i" "lst_tenantId l = t" "lst_deletedAt l = None"
  using select_first_SomeD [OF assms] by (simp_all add: live_listing_def)

lemma only_listing: "market_ok L B \<Longrightarrow> l \<in> set L \<Longrightarrow> x \<in> set L \<Longrightarrow> lst_id x = lst_id l \<Longrightarrow> x = l"
  by (auto simp: market_ok_def distinct_map inj_on_def)

text \<open>Where the listing exists, the update by tenant and id is the update by id.\<close>

lemma update_own_listing:
  assumes "market_ok L B" "l \<in> set L"
  shows "update_where (own_listing (lst_tenantId l) (lst_id l)) f L = map (\<lambda>x. if x = l then f x else x) L"
    "select_first (own_listing (lst_tenantId l) (lst_id l)) L = Some l"
proof -
  have iff: "own_listing (lst_tenantId l) (lst_id l) x \<longleftrightarrow> x = l" if "x \<in> set L" for x
    using only_listing [OF assms] that by (auto simp: own_listing_def)
  then show "update_where (own_listing (lst_tenantId l) (lst_id l)) f L = map (\<lambda>x. if x = l then f x else x) L"
    by (simp add: update_where_def)
  obtain r where "select_first (own_listing (lst_tenantId l) (lst_id l)) L = Some r"
    using select_first_ex [OF assms(2), of "own_listing (lst_tenantId l) (lst_id l)"] iff assms(2) by auto
  then show "select_first (own_listing (lst_tenantId l) (lst_id l)) L = Some l"
    using select_first_SomeD iff by metis
qed

text \<open>An update of one listing that keeps its identity, with the bids of other listings unchanged.\<close>

lemma market_update:
  assumes ok: "market_ok L B" and l: "l \<in> set L" and f: "lst_id (f l) = lst_id l" "lst_tenantId (f l) = lst_tenantId l"
    and new: "listing_ok B' (f l)" and ids: "distinct (map bid_id B')"
    and placed: "\<And>b. b \<in> set B' \<Longrightarrow> bid_placed L b"
    and other: "\<And>i. i \<noteq> lst_id l \<Longrightarrow> bids_for i B' = bids_for i B"
  shows "market_ok (map (\<lambda>x. if x = l then f x else x) L) B'"
proof -
  let ?L = "map (\<lambda>x. if x = l then f x else x) L"
  have "map lst_id ?L = map lst_id L" using f by auto
  then have "distinct (map lst_id ?L)" using ok by (simp only: market_ok_def)
  moreover have "bid_placed ?L b" if b: "b \<in> set B'" for b
  proof -
    obtain y where y: "y \<in> set L" "lst_id y = bid_listingId b" "lst_tenantId y = bid_tenantId b"
      using placed [OF b] by (auto simp: bid_placed_def)
    then have "(if y = l then f y else y) \<in> set ?L" by auto
    then show ?thesis using placed [OF b] y f unfolding bid_placed_def by (metis (no_types, lifting))
  qed
  moreover have "listing_ok B' x" if "x \<in> set ?L" for x
  proof (cases "x = f l")
    case False
    then have x: "x \<in> set L" "x \<noteq> l" using that by (auto split: if_splits)
    then have "lst_id x \<noteq> lst_id l" using only_listing [OF ok l] by auto
    then show ?thesis using other ok x by (simp add: listing_ok_def market_ok_def)
  qed (use new in simp)
  ultimately show ?thesis unfolding market_ok_def using ids by blast
qed

section \<open>The highest bid\<close>

definition last_bid :: "uuid \<Rightarrow> bid_row list \<Rightarrow> bid_row option" where
  "last_bid i B = (if bids_for i B = [] then None else Some (last (bids_for i B)))"

lemma hd_sort_key:
  fixes f :: "'a \<Rightarrow> 'b :: linorder"
  assumes "sort_key f xs = y # ys"
  shows "y \<in> set xs" "x \<in> set xs \<Longrightarrow> f y \<le> f x"
proof -
  have s: "set xs = insert y (set ys)" using set_sort [of f xs] assms by simp
  have "sorted (map f (y # ys))" using sorted_sort_key [of f xs] assms by simp
  then show "y \<in> set xs" "x \<in> set xs \<Longrightarrow> f y \<le> f x" using s by auto
qed

lemma rising_max:
  assumes "rising start bs" "b \<in> set bs" "bid_amountCents (last bs) \<le> bid_amountCents b"
  shows "b = last bs"
proof -
  have "bs \<noteq> []" using assms(2) by auto
  then obtain cs where cs: "bs = cs @ [last bs]" by (metis append_butlast_last_id)
  have "sorted_wrt (<) (map bid_amountCents (cs @ [last bs]))" using assms(1) cs by (metis rising_def)
  then have "\<forall>x \<in> set cs. bid_amountCents x < bid_amountCents (last bs)" by (simp add: sorted_wrt_append)
  moreover have "b \<in> set (cs @ [last bs])" using assms(2) cs by metis
  ultimately show ?thesis using assms(3) by auto
qed

lemma top_bid_last:
  assumes "market_ok L B" "l \<in> set L"
  shows "top_bid (lst_tenantId l) (lst_id l) B = last_bid (lst_id l) B"
proof -
  let ?bs = "bids_for (lst_id l) B"
  have "bid_on (lst_tenantId l) (lst_id l) b \<longleftrightarrow> bid_listingId b = lst_id l" if "b \<in> set B" for b
    using assms that only_listing [OF assms(1)] unfolding market_ok_def bid_placed_def bid_on_def by metis
  then have sel: "select_where (bid_on (lst_tenantId l) (lst_id l)) B = ?bs"
    unfolding select_where_def bids_for_def by (rule filter_cong [OF refl])
  show ?thesis
  proof (cases "ranked_bids ?bs")
    case Nil
    then have "set (ranked_bids ?bs) = {}" by simp
    then have "?bs = []" by (simp add: ranked_bids_def)
    then show ?thesis using sel Nil by (simp add: top_bid_def last_bid_def)
  next
    case (Cons b bs)
    have b: "b \<in> set ?bs" "\<And>x. x \<in> set ?bs \<Longrightarrow> bid_amountCents x \<le> bid_amountCents b"
      using hd_sort_key [OF Cons [unfolded ranked_bids_def]] by auto
    then have ne: "?bs \<noteq> []" by auto
    have "rising (lst_startingBidCents l) ?bs" using assms by (simp add: market_ok_def listing_ok_def)
    then have "b = last ?bs" using rising_max b(1) b(2) [OF last_in_set [OF ne]] by blast
    then show ?thesis using sel Cons ne by (simp add: top_bid_def last_bid_def)
  qed
qed

section \<open>Closing\<close>

text \<open>The reference outcome: a listing goes to the last bid placed on it, if that clears the reserve.\<close>

definition settled_listing :: "bid_row list \<Rightarrow> listing_row \<Rightarrow> listing_row" where
  "settled_listing B l =
    (case last_bid (lst_id l) B of
       None \<Rightarrow> l\<lparr>lst_status := Listing_ended, lst_winningBidId := None\<rparr>
     | Some b \<Rightarrow> if \<forall>r \<in> set_option (lst_reservePriceCents l). r \<le> bid_amountCents b
         then l\<lparr>lst_status := Listing_sold, lst_winningBidId := Some (bid_id b)\<rparr>
         else l\<lparr>lst_status := Listing_ended, lst_winningBidId := None\<rparr>)"

text \<open>A bid without its flag.\<close>

definition unflagged :: "bid_row \<Rightarrow> bid_row" where
  "unflagged b = b\<lparr>bid_isWinning := False\<rparr>"

lemma unflagged_simps [simp]:
  "bid_id (unflagged b) = bid_id b" "bid_listingId (unflagged b) = bid_listingId b"
  "bid_tenantId (unflagged b) = bid_tenantId b" "bid_amountCents (unflagged b) = bid_amountCents b"
  "bid_deletedAt (unflagged b) = bid_deletedAt b"
  by (simp_all add: unflagged_def)

lemma unflagged_bids_for: "map unflagged (bids_for i B) = bids_for i (map unflagged B)"
  by (simp add: bids_for_def filter_map o_def)

lemma same_unflagged:
  assumes "map unflagged B' = map unflagged B"
  shows "map bid_amountCents (bids_for i B') = map bid_amountCents (bids_for i B)"
    "map bid_id B' = map bid_id B" "bids_for i B' = [] \<longleftrightarrow> bids_for i B = []"
    "map_option unflagged (last_bid i B') = map_option unflagged (last_bid i B)"
proof -
  have u: "map unflagged (bids_for i B') = map unflagged (bids_for i B)"
    using assms by (simp add: unflagged_bids_for)
  have "map bid_amountCents (map unflagged (bids_for i B')) = map bid_amountCents (map unflagged (bids_for i B))"
    using u by simp
  then show "map bid_amountCents (bids_for i B') = map bid_amountCents (bids_for i B)" by (simp add: o_def)
  have "map bid_id (map unflagged B') = map bid_id (map unflagged B)" using assms by simp
  then show "map bid_id B' = map bid_id B" by (simp add: o_def)
  show e: "bids_for i B' = [] \<longleftrightarrow> bids_for i B = []" using u by (metis map_is_Nil_conv)
  show "map_option unflagged (last_bid i B') = map_option unflagged (last_bid i B)"
  proof (cases "bids_for i B = []")
    case False
    then have "unflagged (last (bids_for i B')) = unflagged (last (bids_for i B))"
      using u e by (metis last_map)
    then show ?thesis using False e by (simp add: last_bid_def)
  qed (simp add: e last_bid_def)
qed

lemma settled_unflagged:
  assumes "map unflagged B' = map unflagged B"
  shows "settled_listing B' l = settled_listing B l"
proof -
  have o: "map_option unflagged (last_bid (lst_id l) B') = map_option unflagged (last_bid (lst_id l) B)"
    by (rule same_unflagged(4) [OF assms])
  show ?thesis
  proof (cases "last_bid (lst_id l) B")
    case None
    then show ?thesis using o by (simp add: settled_listing_def)
  next
    case (Some b)
    then obtain b' where b': "last_bid (lst_id l) B' = Some b'" "unflagged b' = unflagged b" using o by auto
    then have "bid_id b' = bid_id b" "bid_amountCents b' = bid_amountCents b" by (metis unflagged_simps)+
    then show ?thesis using Some b' by (simp add: settled_listing_def)
  qed
qed

lemma flag_unflagged: "map unflagged (flag_winner t b B) = map unflagged B"
  by (simp add: flag_winner_def map_update_where unflagged_def)

lemma placed_unflagged:
  assumes "map unflagged B' = map unflagged B" "\<And>b. b \<in> set B \<Longrightarrow> bid_placed L b" "b \<in> set B'"
  shows "bid_placed L b"
proof -
  have "unflagged b \<in> unflagged ` set B" using assms(1,3) by (metis image_eqI set_map)
  then obtain a where "a \<in> set B" "unflagged b = unflagged a" by auto
  then show ?thesis using assms(2) [of a] by (metis bid_placed_def unflagged_simps)
qed

lemma flag_bids_for:
  assumes "distinct (map bid_id B)" "b \<in> set B" "bid_tenantId b = t"
  shows "bids_for i (flag_winner t (bid_id b) B)
    = map (\<lambda>x. if x = b then x\<lparr>bid_isWinning := True\<rparr> else x) (bids_for i B)"
proof -
  have "bid_tenantId x = t \<and> bid_id x = bid_id b \<longleftrightarrow> x = b" if "x \<in> set B" for x
    using assms that by (auto simp: distinct_map inj_on_def)
  then have "flag_winner t (bid_id b) B = map (\<lambda>x. if x = b then x\<lparr>bid_isWinning := True\<rparr> else x) B"
    by (simp add: flag_winner_def update_where_def)
  moreover have "bids_for i (map (\<lambda>x. if x = b then x\<lparr>bid_isWinning := True\<rparr> else x) C)
      = map (\<lambda>x. if x = b then x\<lparr>bid_isWinning := True\<rparr> else x) (bids_for i C)" for C
    by (induction C) (auto simp: bids_for_def)
  ultimately show ?thesis by simp
qed

lemma filter_flagged:
  assumes "distinct bs" "b \<in> set bs" "filter bid_isWinning bs = []"
  shows "filter bid_isWinning (map (\<lambda>x. if x = b then x\<lparr>bid_isWinning := True\<rparr> else x) bs)
    = [b\<lparr>bid_isWinning := True\<rparr>]"
  using assms
proof (induction bs)
  case (Cons a bs)
  show ?case
  proof (cases "a = b")
    case True
    then have "map (\<lambda>x. if x = b then x\<lparr>bid_isWinning := True\<rparr> else x) bs = bs"
      using Cons.prems by (intro map_idI) auto
    then show ?thesis using True Cons.prems by (simp split: if_splits)
  next
    case False
    then show ?thesis using Cons by (simp split: if_splits)
  qed
qed simp

text \<open>A listing sold to one of its bids, none of which was flagged.\<close>

lemma sold_ok:
  assumes ok: "market_ok L B" and l: "l \<in> set L" and b: "b \<in> set B" "bid_listingId b = lst_id l"
    and none: "filter bid_isWinning (bids_for (lst_id l) B) = []" and st: "lst_status l \<noteq> Listing_draft"
  shows "market_ok (map (\<lambda>x. if x = l then x\<lparr>lst_status := Listing_sold, lst_winningBidId := Some (bid_id b)\<rparr> else x) L)
    (flag_winner (lst_tenantId l) (bid_id b) B)"
proof -
  let ?B = "flag_winner (lst_tenantId l) (bid_id b) B" and ?bs = "bids_for (lst_id l) B"
  obtain y where y: "y \<in> set L" "lst_id y = bid_listingId b" "lst_tenantId y = bid_tenantId b"
    using ok b by (auto simp: market_ok_def bid_placed_def)
  then have "y = l" using only_listing [OF ok l y(1)] b(2) by simp
  then have t: "bid_tenantId b = lst_tenantId l" using y(3) by simp
  have d: "distinct (map bid_id B)" using ok by (simp add: market_ok_def)
  have u: "map unflagged ?B = map unflagged B" by (rule flag_unflagged)
  have bs: "bids_for i ?B = map (\<lambda>x. if x = b then x\<lparr>bid_isWinning := True\<rparr> else x) (bids_for i B)" for i
    by (rule flag_bids_for [OF d b(1) t])
  have "distinct ?bs" using d by (simp add: bids_for_def distinct_map)
  moreover have "b \<in> set ?bs" using b by (simp add: bids_for_def)
  ultimately have won: "filter bid_isWinning (bids_for (lst_id l) ?B) = [b\<lparr>bid_isWinning := True\<rparr>]"
    unfolding bs using filter_flagged none by blast
  show ?thesis
  proof (rule market_update [OF ok l])
    have rise: "rising (lst_startingBidCents l) ?bs" using ok l by (simp add: market_ok_def listing_ok_def)
    have amounts: "map bid_amountCents (bids_for (lst_id l) ?B) = map bid_amountCents ?bs"
      by (rule same_unflagged(1) [OF u])
    then have "bid_amountCents ` set (bids_for (lst_id l) ?B) = bid_amountCents ` set ?bs" by (metis set_map)
    then have "rising (lst_startingBidCents l) (bids_for (lst_id l) ?B)"
      using rise amounts unfolding rising_def by (metis (no_types, lifting) imageE image_eqI)
    then show "listing_ok ?B (l\<lparr>lst_status := Listing_sold, lst_winningBidId := Some (bid_id b)\<rparr>)"
      using won by (simp add: listing_ok_def winner_ok_def)
    show "distinct (map bid_id ?B)" using d same_unflagged(2) [OF u] by simp
    show "bid_placed L x" if "x \<in> set ?B" for x
      using placed_unflagged [OF u _ that] ok by (simp add: market_ok_def)
    show "bids_for i ?B = bids_for i B" if "i \<noteq> lst_id l" for i
      unfolding bs using that b(2) by (intro map_idI) (auto simp: bids_for_def)
  qed simp_all
qed

lemma last_bid_in: "last_bid i B = Some b \<Longrightarrow> b \<in> set B \<and> bid_listingId b = i"
  by (auto simp: last_bid_def bids_for_def split: if_splits dest: last_in_set)

lemma live_listing_only:
  assumes "market_ok L B" "l \<in> set L" "lst_deletedAt l = None"
  shows "select_first (live_listing (lst_tenantId l) (lst_id l)) L = Some l"
proof -
  obtain r where r: "select_first (live_listing (lst_tenantId l) (lst_id l)) L = Some r"
    using select_first_ex [OF assms(2), of "live_listing (lst_tenantId l) (lst_id l)"] assms(3)
    by (auto simp: live_listing_def)
  then show ?thesis using live_listing_found [OF r] only_listing [OF assms(1,2)] by simp
qed

lemma close_result:
  assumes ok: "market_ok (auctionListings db) (auctionBids db)" and l: "l \<in> set (auctionListings db)"
    and live: "lst_status l = Listing_live" "lst_deletedAt l = None"
  obtains x B' where "closeLiveListing (lst_tenantId l) (lst_id l) db = Inr (x, db\<lparr>auctionListings :=
      map (\<lambda>y. if y = l then settled_listing (auctionBids db) y else y) (auctionListings db), auctionBids := B'\<rparr>)"
    "map unflagged B' = map unflagged (auctionBids db)"
    "market_ok (map (\<lambda>y. if y = l then settled_listing (auctionBids db) y else y) (auctionListings db)) B'"
    "cn_sold (snd x) \<longleftrightarrow> lst_status (settled_listing (auctionBids db) l) = Listing_sold"
proof -
  let ?t = "lst_tenantId l" and ?i = "lst_id l" and ?B = "auctionBids db"
  define bid where "bid = last_bid ?i ?B"
  define out where "out = evaluateClose (lst_reservePriceCents l) (map_option (\<lambda>b. (bid_id b, bid_amountCents b)) bid)"
  define B' where "B' = (case out of None \<Rightarrow> ?B | Some (b, _) \<Rightarrow> flag_winner ?t b ?B)"
  let ?f = "\<lambda>y. y\<lparr>lst_status := (if out = None then Listing_ended else Listing_sold), lst_winningBidId := map_option fst out\<rparr>"
  have set_eq: "settled_listing ?B l = ?f l"
    unfolding settled_listing_def out_def bid_def evaluateClose_def
    by (cases "last_bid ?i ?B"; cases "lst_reservePriceCents l") simp_all
  have tbl: "update_where (own_listing ?t ?i) ?f (auctionListings db)
      = map (\<lambda>y. if y = l then settled_listing ?B y else y) (auctionListings db)"
    unfolding update_own_listing(1) [OF ok l] using set_eq by (auto cong: map_cong)
  have run: "closeLiveListing ?t ?i db = Inr ((?f l, close_notice ?t ?i bid out db), db\<lparr>auctionListings :=
      map (\<lambda>y. if y = l then settled_listing ?B y else y) (auctionListings db), auctionBids := B'\<rparr>)"
    unfolding closeLiveListing_def live_listing_only [OF ok l live(2)] top_bid_last [OF ok l]
      update_returning_def update_own_listing(2) [OF ok l] bid_def [symmetric]
    using live(1) tbl by (simp add: require_def ensure_def Let_def out_def B'_def split: option.split)
  have flags: "filter bid_isWinning (bids_for ?i ?B) = []" "lst_winningBidId l = None"
    using ok l live by (auto simp: market_ok_def listing_ok_def winner_ok_def)
  have after: "market_ok (map (\<lambda>y. if y = l then settled_listing ?B y else y) (auctionListings db)) B'
      \<and> map unflagged B' = map unflagged ?B"
  proof (cases out)
    case None
    then have s: "settled_listing ?B l = l\<lparr>lst_status := Listing_ended, lst_winningBidId := None\<rparr>"
      using set_eq by simp
    have "market_ok (map (\<lambda>y. if y = l then settled_listing ?B y else y) (auctionListings db)) ?B"
      by (rule market_update [OF ok l])
        (use ok l flags s in \<open>auto simp: market_ok_def listing_ok_def winner_ok_def\<close>)
    then show ?thesis using None by (simp add: B'_def)
  next
    case (Some p)
    then obtain b where b: "bid = Some b" "out = Some (bid_id b, bid_amountCents b)"
      by (auto simp: out_def evaluateClose_def split: option.splits if_splits)
    then have s: "settled_listing ?B l = l\<lparr>lst_status := Listing_sold, lst_winningBidId := Some (bid_id b)\<rparr>"
      using set_eq by simp
    have "b \<in> set ?B \<and> bid_listingId b = ?i" using b(1) last_bid_in by (simp add: bid_def)
    then have "market_ok (map (\<lambda>x. if x = l then x\<lparr>lst_status := Listing_sold, lst_winningBidId := Some (bid_id b)\<rparr> else x)
        (auctionListings db)) (flag_winner ?t (bid_id b) ?B)"
      using sold_ok [OF ok l _ _ flags(1)] live by simp
    moreover have "map (\<lambda>x. if x = l then x\<lparr>lst_status := Listing_sold, lst_winningBidId := Some (bid_id b)\<rparr> else x)
        (auctionListings db) = map (\<lambda>y. if y = l then settled_listing ?B y else y) (auctionListings db)"
      using s by (auto cong: map_cong)
    ultimately show ?thesis using b flag_unflagged by (simp add: B'_def)
  qed
  have "cn_sold (close_notice ?t ?i bid out db) \<longleftrightarrow> lst_status (settled_listing ?B l) = Listing_sold"
    unfolding set_eq by (simp add: close_notice_def Let_def)
  then show thesis using that [OF run] after by simp
qed

section \<open>The sweep\<close>

text \<open>What a sweep over the listings \<open>ds\<close> does: they are settled, the others and the bids' amounts stay.\<close>

lemma sweep_result:
  assumes "market_ok (auctionListings db) (auctionBids db)" "distinct ds"
    "\<And>l. l \<in> set ds \<Longrightarrow> l \<in> set (auctionListings db) \<and> lst_status l = Listing_live \<and> lst_deletedAt l = None"
  shows "\<exists>B'. fold lifecycle_step (map (\<lambda>l. (lst_tenantId l, lst_id l)) ds) ((c, s), db)
      = ((c + length ds, s + length (filter (\<lambda>l. lst_status (settled_listing (auctionBids db) l) = Listing_sold) ds)),
         db\<lparr>auctionListings := map (\<lambda>l. if l \<in> set ds then settled_listing (auctionBids db) l else l) (auctionListings db),
            auctionBids := B'\<rparr>)
    \<and> market_ok (map (\<lambda>l. if l \<in> set ds then settled_listing (auctionBids db) l else l) (auctionListings db)) B'"
  using assms
proof (induction ds arbitrary: c s db)
  case Nil
  then show ?case by (intro exI [of _ "auctionBids db"]) simp
next
  case (Cons l ds)
  have l: "l \<in> set (auctionListings db)" "lst_status l = Listing_live" "lst_deletedAt l = None" using Cons.prems(3) by auto
  let ?B = "auctionBids db"
  let ?L1 = "map (\<lambda>y. if y = l then settled_listing ?B y else y) (auctionListings db)"
  obtain x B1 where run: "closeLiveListing (lst_tenantId l) (lst_id l) db = Inr (x, db\<lparr>auctionListings := ?L1, auctionBids := B1\<rparr>)"
    and u: "map unflagged B1 = map unflagged ?B" and ok1: "market_ok ?L1 B1"
    and sold: "cn_sold (snd x) \<longleftrightarrow> lst_status (settled_listing ?B l) = Listing_sold"
    by (rule close_result [OF Cons.prems(1) l])
  define db1 where "db1 = db\<lparr>auctionListings := ?L1, auctionBids := B1\<rparr>"
  have db1: "auctionListings db1 = ?L1" "auctionBids db1 = B1"
      "\<And>A C. db1\<lparr>auctionListings := A, auctionBids := C\<rparr> = db\<lparr>auctionListings := A, auctionBids := C\<rparr>"
    by (simp_all add: db1_def)
  have same: "settled_listing B1 = settled_listing ?B" using settled_unflagged [OF u] by (simp add: fun_eq_iff)
  have ds: "l \<notin> set ds" "distinct ds" using Cons.prems(2) by simp_all
  have keep: "y \<in> set ?L1 \<and> lst_status y = Listing_live \<and> lst_deletedAt y = None" if "y \<in> set ds" for y
    using ds(1) Cons.prems(3) [of y] that by force
  have other: "settled_listing ?B l \<notin> set ds"
  proof
    assume in_ds: "settled_listing ?B l \<in> set ds"
    then have "settled_listing ?B l \<in> set (auctionListings db)" using Cons.prems(3) by auto
    moreover have "lst_id (settled_listing ?B l) = lst_id l"
      by (simp add: settled_listing_def split: option.split)
    ultimately have "settled_listing ?B l = l" using only_listing [OF Cons.prems(1) l(1)] by blast
    then show False using in_ds ds(1) by simp
  qed
  have tbl: "map (\<lambda>y. if y \<in> set ds then settled_listing ?B y else y) ?L1
      = map (\<lambda>y. if y \<in> set (l # ds) then settled_listing ?B y else y) (auctionListings db)"
    using ds(1) other by auto
  have step: "lifecycle_step (lst_tenantId l, lst_id l) ((c, s), db) = ((c + 1, if cn_sold (snd x) then s + 1 else s), db1)"
    using run by (cases x) (simp add: lifecycle_step_def db1_def)
  have rest: "\<exists>B'. fold lifecycle_step (map (\<lambda>l. (lst_tenantId l, lst_id l)) ds) ((c + 1, if cn_sold (snd x) then s + 1 else s), db1)
      = ((c + 1 + length ds, (if cn_sold (snd x) then s + 1 else s)
            + length (filter (\<lambda>l. lst_status (settled_listing ?B l) = Listing_sold) ds)),
         db\<lparr>auctionListings := map (\<lambda>y. if y \<in> set ds then settled_listing ?B y else y) ?L1, auctionBids := B'\<rparr>)
    \<and> market_ok (map (\<lambda>y. if y \<in> set ds then settled_listing ?B y else y) ?L1) B'"
    using Cons.IH [of db1 "c + 1" "if cn_sold (snd x) then s + 1 else s"] ok1 ds(2) keep
    unfolding db1 same by blast
  have count: "s + length (filter (\<lambda>l. lst_status (settled_listing ?B l) = Listing_sold) (l # ds))
      = (if cn_sold (snd x) then s + 1 else s)
        + length (filter (\<lambda>l. lst_status (settled_listing ?B l) = Listing_sold) ds)"
    using sold by simp
  show ?case using rest unfolding tbl count list.map fold_simps step by simp
qed

section \<open>Runs\<close>

definition auction_ok :: "'a auction_db_scheme \<Rightarrow> bool" where
  "auction_ok db \<longleftrightarrow> market_ok (auctionListings db) (auctionBids db)"

lemma createListing_ok:
  assumes ok: "auction_ok db" and step: "createListing ctx now k inp db = Inr (l, db')"
    and new: "k \<notin> lst_id ` set (auctionListings db)"
  shows "auction_ok db'"
proof -
  obtain seed where db': "auctionListings db' = auctionListings db @ [new_listing ctx now k inp seed]"
      "auctionBids db' = auctionBids db"
    using step by (auto simp: createListing_def Let_def insert_into_def)
  let ?l = "new_listing ctx now k inp seed"
  have l: "lst_id ?l = k" "lst_status ?l = Listing_draft" "lst_winningBidId ?l = None" by (simp_all add: new_listing_def)
  have "bids_for k (auctionBids db) = []"
    using ok new by (force simp: auction_ok_def market_ok_def bid_placed_def bids_for_def filter_empty_conv)
  then have "listing_ok (auctionBids db) ?l" using l by (simp add: listing_ok_def rising_def winner_ok_def)
  then show ?thesis using ok new l unfolding auction_ok_def db' market_ok_def bid_placed_def by auto
qed

text \<open>An update of one draft or live listing that places no bid.\<close>

lemma listing_update_ok:
  assumes ok: "auction_ok db" and l: "select_first (live_listing t i) (auctionListings db) = Some l"
    and f: "lst_id (f l) = lst_id l" "lst_tenantId (f l) = lst_tenantId l"
    and new: "listing_ok (auctionBids db) (f l)"
    and db': "auctionListings db' = update_where (own_listing t i) f (auctionListings db)" "auctionBids db' = auctionBids db"
  shows "auction_ok db'"
proof -
  note l' = live_listing_found [OF l]
  have m: "market_ok (auctionListings db) (auctionBids db)" using ok by (simp add: auction_ok_def)
  have tbl: "auctionListings db' = map (\<lambda>x. if x = l then f x else x) (auctionListings db)"
    using update_own_listing(1) [OF m l'(1), of f] l'(2,3) db'(1) by simp
  show ?thesis unfolding auction_ok_def tbl db'(2)
    by (rule market_update [where f = f, OF m l'(1) f new]) (use m in \<open>simp_all add: market_ok_def\<close>)
qed

lemma undecided_listing:
  assumes "auction_ok db" "select_first (live_listing t i) (auctionListings db) = Some l" "lst_status l \<noteq> Listing_sold"
  shows "rising (lst_startingBidCents l) (bids_for (lst_id l) (auctionBids db))"
    "filter bid_isWinning (bids_for (lst_id l) (auctionBids db)) = []" "lst_winningBidId l = None"
    "lst_status l = Listing_draft \<Longrightarrow> bids_for (lst_id l) (auctionBids db) = []"
  using assms live_listing_found [OF assms(2)]
  by (auto simp: auction_ok_def market_ok_def listing_ok_def winner_ok_def)

lemma updateListing_ok:
  assumes ok: "auction_ok db" and step: "updateListing ctx now i inp db = Inr (x, db')"
  shows "auction_ok db'"
proof -
  from step obtain l where l: "select_first (live_listing (ctx_tenantId ctx) i) (auctionListings db) = Some l"
    and st: "lst_status l = Listing_draft"
    and db': "auctionListings db' = update_where (own_listing (ctx_tenantId ctx) i) (patch_listing inp) (auctionListings db)"
      "auctionBids db' = auctionBids db"
    by (auto simp: updateListing_def Let_def)
  note u = undecided_listing [OF ok l]
  show ?thesis
    by (rule listing_update_ok [OF ok l _ _ _ db'])
      (use st u in \<open>simp_all add: patch_listing_def listing_ok_def winner_ok_def rising_def\<close>)
qed

lemma publishListing_ok:
  assumes ok: "auction_ok db" and step: "publishListing ctx now i s e db = Inr (x, db')"
  shows "auction_ok db'"
proof -
  let ?t = "ctx_tenantId ctx"
  from step obtain l f where l: "select_first (live_listing ?t i) (auctionListings db) = Some l"
    and st: "lst_status l = Listing_draft"
    and f: "f = (\<lambda>l. l\<lparr>lst_status := Listing_live, lst_listStartsAt := Some (case s of None \<Rightarrow> now | Some d \<Rightarrow> d),
      lst_listEndsAt := Some e\<rparr> :: listing_row)"
    and db': "auctionListings db' = update_where (own_listing ?t i) f (auctionListings db)" "auctionBids db' = auctionBids db"
    by (auto simp: publishListing_def Let_def update_returning_def)
  note u = undecided_listing [OF ok l]
  show ?thesis
    by (rule listing_update_ok [OF ok l _ _ _ db'])
      (use st u in \<open>simp_all add: f listing_ok_def winner_ok_def rising_def\<close>)
qed

lemma withdrawListing_ok:
  assumes ok: "auction_ok db" and step: "withdrawListing ctx i db = Inr (x, db')"
  shows "auction_ok db'"
proof -
  let ?t = "ctx_tenantId ctx" and ?f = "\<lambda>l. l\<lparr>lst_status := Listing_withdrawn\<rparr> :: listing_row"
  from step obtain l where l: "select_first (live_listing ?t i) (auctionListings db) = Some l"
    and st: "lst_status l \<noteq> Listing_sold"
    and db': "auctionListings db' = update_where (own_listing ?t i) ?f (auctionListings db)" "auctionBids db' = auctionBids db"
    by (auto simp: withdrawListing_def Let_def update_returning_def)
  note u = undecided_listing [OF ok l]
  show ?thesis
    by (rule listing_update_ok [OF ok l _ _ _ db']) (use st u in \<open>simp_all add: listing_ok_def winner_ok_def\<close>)
qed

lemma endListing_ok:
  assumes ok: "auction_ok db" and step: "endListing ctx i db = Inr (x, db')"
  shows "auction_ok db'"
proof -
  from step obtain l where l: "select_first (live_listing (ctx_tenantId ctx) i) (auctionListings db) = Some l"
    and st: "lst_status l = Listing_live"
    by (auto simp: endListing_def closeLiveListing_def)
  note l' = live_listing_found [OF l]
  have m: "market_ok (auctionListings db) (auctionBids db)" using ok by (simp add: auction_ok_def)
  obtain y B' where run: "closeLiveListing (lst_tenantId l) (lst_id l) db = Inr (y, db\<lparr>auctionListings :=
      map (\<lambda>y. if y = l then settled_listing (auctionBids db) y else y) (auctionListings db), auctionBids := B'\<rparr>)"
    and after: "market_ok (map (\<lambda>y. if y = l then settled_listing (auctionBids db) y else y) (auctionListings db)) B'"
    by (rule close_result [OF m l'(1) st l'(4)])
  show ?thesis using step after l'(2,3) unfolding endListing_def run [unfolded l'(2,3)] auction_ok_def by auto
qed

lemma awardWinner_ok:
  assumes ok: "auction_ok db" and step: "awardWinner ctx i k db = Inr (x, db')"
  shows "auction_ok db'"
proof -
  let ?t = "ctx_tenantId ctx"
  let ?cleared = "update_where (\<lambda>x. bid_tenantId x = ?t \<and> bid_listingId x = i \<and> bid_isWinning x)
    (\<lambda>x. x\<lparr>bid_isWinning := False\<rparr>) (auctionBids db)"
  from step obtain l b where l: "select_first (live_listing ?t i) (auctionListings db) = Some l"
    and st: "lst_status l = Listing_ended"
    and b: "select_first (\<lambda>b. bid_on ?t i b \<and> bid_id b = k) (auctionBids db) = Some b"
    and db': "auctionListings db' = update_where (own_listing ?t i)
        (\<lambda>l. l\<lparr>lst_status := Listing_sold, lst_winningBidId := Some (bid_id b)\<rparr>) (auctionListings db)"
      "auctionBids db' = flag_winner ?t (bid_id b) ?cleared"
    by (auto simp: awardWinner_def Let_def update_returning_def)
  note l' = live_listing_found [OF l]
  note u = undecided_listing [OF ok l]
  have m: "market_ok (auctionListings db) (auctionBids db)" using ok by (simp add: auction_ok_def)
  have "?cleared = auctionBids db"
    using u(2) st l'(2) by (intro update_where_none) (auto simp: bids_for_def filter_empty_conv)
  moreover have "b \<in> set (auctionBids db)" "bid_listingId b = lst_id l"
    using select_first_SomeD [OF b] l'(2) by (auto simp: bid_on_def)
  ultimately show ?thesis
    using sold_ok [OF m l'(1), of b] u(2) st update_own_listing(1) [OF m l'(1)] l'(2,3) db'
    by (simp add: auction_ok_def)
qed

lemma placeBid_ok:
  assumes ok: "auction_ok db" and step: "placeBid t p ip now k i amount db = Inr (x, db')"
    and new: "k \<notin> bid_id ` set (auctionBids db)"
  shows "auction_ok db'"
proof -
  let ?b = "new_bid k t i p amount now ip" and ?B = "auctionBids db"
  from step obtain l where l: "select_first (live_listing t i) (auctionListings db) = Some l"
    and eq: "(case validateBid \<lparr>bc_listingStatus = lst_status l, bc_listStartsAt = lst_listStartsAt l,
         bc_listEndsAt = lst_listEndsAt l, bc_startingBidCents = lst_startingBidCents l,
         bc_currentHighBidCents = map_option bid_amountCents (top_bid t i ?B), bc_bidAmountCents = amount, bc_now = now\<rparr> of
        Bid_rejected code msg \<Rightarrow> Inl (Conflict code msg)
      | Bid_ok n \<Rightarrow> Inr ((?b, case top_bid t i ?B of None \<Rightarrow> None
                 | Some b \<Rightarrow> if bid_bidderId b \<noteq> p then Some (bid_bidderId b) else None),
           db\<lparr>auctionListings := (case computeAntiSnipeExtension (lst_listEndsAt l) now of None \<Rightarrow> auctionListings db
               | Some e \<Rightarrow> update_where (own_listing t i) (\<lambda>l. l\<lparr>lst_listEndsAt := Some e\<rparr>) (auctionListings db)),
             auctionBids := insert_into ?b ?B\<rparr>)) = Inr (x, db')"
    unfolding placeBid_def Let_def by auto
  then obtain n where verdict: "validateBid \<lparr>bc_listingStatus = lst_status l, bc_listStartsAt = lst_listStartsAt l,
         bc_listEndsAt = lst_listEndsAt l, bc_startingBidCents = lst_startingBidCents l,
         bc_currentHighBidCents = map_option bid_amountCents (top_bid t i ?B), bc_bidAmountCents = amount, bc_now = now\<rparr> = Bid_ok n"
    by (auto split: bid_verdict.splits)
  then have db': "auctionListings db' = (case computeAntiSnipeExtension (lst_listEndsAt l) now of None \<Rightarrow> auctionListings db
         | Some e \<Rightarrow> update_where (own_listing t i) (\<lambda>l. l\<lparr>lst_listEndsAt := Some e\<rparr>) (auctionListings db))"
      "auctionBids db' = ?B @ [?b]"
    using eq by (auto simp: insert_into_def)
  note l' = live_listing_found [OF l]
  have m: "market_ok (auctionListings db) ?B" using ok by (simp add: auction_ok_def)
  have st: "lst_status l = Listing_live" using verdict by (auto simp: validateBid_def Let_def split: if_splits)
  note u = undecided_listing [OF ok l]
  define f where "f = (\<lambda>l. l\<lparr>lst_listEndsAt := (case computeAntiSnipeExtension (lst_listEndsAt l) now of
     None \<Rightarrow> lst_listEndsAt l | Some e \<Rightarrow> Some e)\<rparr> :: listing_row)"
  have tbl: "auctionListings db' = map (\<lambda>x. if x = l then f x else x) (auctionListings db)"
  proof (cases "computeAntiSnipeExtension (lst_listEndsAt l) now")
    case None
    then have "f l = l" by (simp add: f_def)
    then have "map (\<lambda>x. if x = l then f x else x) (auctionListings db) = auctionListings db" by (intro map_idI) auto
    then show ?thesis using db'(1) None by simp
  next
    case (Some e)
    then have "f l = l\<lparr>lst_listEndsAt := Some e\<rparr>" by (simp add: f_def)
    then show ?thesis using db'(1) Some update_own_listing(1) [OF m l'(1)] l'(2,3) by (auto cong: map_cong)
  qed
  have high: "minNextBidCents (lst_startingBidCents l) (map_option bid_amountCents (last_bid i ?B)) \<le> amount"
    using verdict top_bid_last [OF m l'(1)] l'(2,3) by (auto simp: validateBid_def Let_def split: if_splits)
  have b: "bid_listingId ?b = i" "bid_amountCents ?b = amount" "\<not> bid_isWinning ?b" "bid_id ?b = k"
    "bid_tenantId ?b = t" "bid_deletedAt ?b = None" by (simp_all add: new_bid_def)
  have mine: "bids_for (lst_id l) (?B @ [?b]) = bids_for i ?B @ [?b]" using b(1) l'(2) by (simp add: bids_for_def)
  have rise: "rising (lst_startingBidCents l) (bids_for i ?B @ [?b])"
  proof (cases "bids_for i ?B = []")
    case True
    then show ?thesis using high b by (simp add: rising_def last_bid_def minNextBidCents_def)
  next
    case False
    then obtain cs where cs: "bids_for i ?B = cs @ [last (bids_for i ?B)]" by (metis append_butlast_last_id)
    have r: "rising (lst_startingBidCents l) (cs @ [last (bids_for i ?B)])" using u(1) st l'(2) cs by simp
    have lt: "bid_amountCents (last (bids_for i ?B)) < amount" "lst_startingBidCents l \<le> amount"
      using high False by (auto simp: last_bid_def minNextBidCents_def)
    have "rising (lst_startingBidCents l) ((cs @ [last (bids_for i ?B)]) @ [?b])"
      using r lt b by (auto simp: rising_def sorted_wrt_append)
    then show ?thesis using cs by simp
  qed
  have "market_ok (map (\<lambda>x. if x = l then f x else x) (auctionListings db)) (?B @ [?b])"
  proof (rule market_update [where f = f, OF m l'(1)])
    show "listing_ok (?B @ [?b]) (f l)"
      using rise mine u(2,3) st b l'(2) by (simp add: listing_ok_def winner_ok_def f_def)
    show "distinct (map bid_id (?B @ [?b]))" using m new b by (auto simp: market_ok_def)
    show "bid_placed (auctionListings db) x" if "x \<in> set (?B @ [?b])" for x
      using that m l' b by (auto simp: market_ok_def bid_placed_def)
    show "bids_for j (?B @ [?b]) = bids_for j ?B" if "j \<noteq> lst_id l" for j
      using that b l'(2) by (simp add: bids_for_def)
  qed (simp_all add: f_def)
  then show ?thesis using tbl db'(2) by (simp add: auction_ok_def)
qed

lemma lifecycle_tick_result:
  assumes ok: "auction_ok db"
  obtains B' where "lifecycle_tick now db = ((length (filter (due_listing now) (auctionListings db)),
      length (filter (due_listing now) (auctionListings db)),
      length (filter (\<lambda>l. lst_status (settled_listing (auctionBids db) l) = Listing_sold) (filter (due_listing now) (auctionListings db)))),
      db\<lparr>auctionListings := map (\<lambda>l. if due_listing now l then settled_listing (auctionBids db) l else l) (auctionListings db),
         auctionBids := B'\<rparr>)"
    "market_ok (map (\<lambda>l. if due_listing now l then settled_listing (auctionBids db) l else l) (auctionListings db)) B'"
proof -
  let ?ds = "filter (due_listing now) (auctionListings db)"
  have m: "market_ok (auctionListings db) (auctionBids db)" using ok by (simp add: auction_ok_def)
  have d: "distinct ?ds" using m by (simp add: market_ok_def distinct_map)
  have eq: "map (\<lambda>l. if l \<in> set ?ds then settled_listing (auctionBids db) l else l) (auctionListings db)
      = map (\<lambda>l. if due_listing now l then settled_listing (auctionBids db) l else l) (auctionListings db)"
    by (auto cong: map_cong)
  obtain B' where B': "fold lifecycle_step (map (\<lambda>l. (lst_tenantId l, lst_id l)) ?ds) ((0, 0), db)
      = ((0 + length ?ds, 0 + length (filter (\<lambda>l. lst_status (settled_listing (auctionBids db) l) = Listing_sold) ?ds)),
         db\<lparr>auctionListings := map (\<lambda>l. if l \<in> set ?ds then settled_listing (auctionBids db) l else l) (auctionListings db),
            auctionBids := B'\<rparr>)
    \<and> market_ok (map (\<lambda>l. if l \<in> set ?ds then settled_listing (auctionBids db) l else l) (auctionListings db)) B'"
    using sweep_result [OF m d, of 0 0] by (auto simp: due_listing_def)
  then show thesis unfolding eq
    by (intro that [of B']) (simp_all add: lifecycle_tick_def Let_def select_where_def)
qed

inductive auction_step :: "'a auction_db_scheme \<Rightarrow> 'a auction_db_scheme \<Rightarrow> bool" where
  listed: "createListing ctx now k cinp db = Inr (l, db') \<Longrightarrow> k \<notin> lst_id ` set (auctionListings db) \<Longrightarrow>
    auction_step db db'"
| edited: "updateListing ctx now i uinp db = Inr (l, db') \<Longrightarrow> auction_step db db'"
| published: "publishListing ctx now i s e db = Inr (l, db') \<Longrightarrow> auction_step db db'"
| withdrawn: "withdrawListing ctx i db = Inr (l, db') \<Longrightarrow> auction_step db db'"
| ended: "endListing ctx i db = Inr (x, db') \<Longrightarrow> auction_step db db'"
| awarded: "awardWinner ctx i bidId db = Inr (l, db') \<Longrightarrow> auction_step db db'"
| bid: "placeBid t p ip now k i amount db = Inr (y, db') \<Longrightarrow> k \<notin> bid_id ` set (auctionBids db) \<Longrightarrow>
    auction_step db db'"
| swept: "lifecycle_tick now db = (n, db') \<Longrightarrow> auction_step db db'"
| registered: "registerBidder now k hash token rinp db = Inr (z, db') \<Longrightarrow> auction_step db db'"
| verified: "verifyEmail now token db = Inr (z, db') \<Longrightarrow> auction_step db db'"
| elsewhere: "auctionListings db' = auctionListings db \<Longrightarrow> auctionBids db' = auctionBids db \<Longrightarrow> auction_step db db'"

lemma auction_step_ok:
  assumes "auction_step db db'" "auction_ok db"
  shows "auction_ok db'"
  using assms(1)
proof cases
  case listed
  then show ?thesis using createListing_ok [OF assms(2)] by simp
next
  case edited
  then show ?thesis using updateListing_ok [OF assms(2)] by simp
next
  case published
  then show ?thesis using publishListing_ok [OF assms(2)] by simp
next
  case withdrawn
  then show ?thesis using withdrawListing_ok [OF assms(2)] by simp
next
  case ended
  then show ?thesis using endListing_ok [OF assms(2)] by simp
next
  case awarded
  then show ?thesis using awardWinner_ok [OF assms(2)] by simp
next
  case bid
  then show ?thesis using placeBid_ok [OF assms(2)] by simp
next
  case (swept now n)
  show ?thesis
    by (rule lifecycle_tick_result [OF assms(2), of now]) (use swept in \<open>auto simp: auction_ok_def\<close>)
next
  case registered
  then show ?thesis using assms(2) by (auto simp: registerBidder_def Let_def auction_ok_def)
next
  case verified
  then show ?thesis using assms(2) by (auto simp: verifyEmail_def Let_def update_returning_def auction_ok_def)
next
  case elsewhere
  then show ?thesis using assms(2) by (simp add: auction_ok_def)
qed

definition auction_reachable :: "'a auction_db_scheme \<Rightarrow> bool" where
  "auction_reachable db \<longleftrightarrow> (\<exists>db0. auctionListings db0 = [] \<and> auctionBids db0 = [] \<and> auction_step\<^sup>*\<^sup>* db0 db)"

lemma auction_reachable_ok:
  assumes "auction_reachable db"
  shows "auction_ok db"
proof -
  from assms obtain db0 where db0: "auctionListings db0 = []" "auctionBids db0 = []" "auction_step\<^sup>*\<^sup>* db0 db"
    by (auto simp: auction_reachable_def)
  have "auction_ok db0" using db0 by (simp add: auction_ok_def market_ok_def)
  with db0(3) show ?thesis by (induction rule: rtranclp_induct) (auto intro: auction_step_ok)
qed

lemma auction_reachable_step: "auction_reachable db \<Longrightarrow> auction_step db db' \<Longrightarrow> auction_reachable db'"
  unfolding auction_reachable_def by (meson rtranclp.rtrancl_into_rtrancl)

section \<open>An example\<close>

text \<open>A car impounded on the first of May and since eligible for sale, with two bidders.\<close>

definition then_db :: "('s \<Rightarrow> exn + 'a \<times> 's) \<Rightarrow> 's \<Rightarrow> 's" where
  "then_db f db = committed db (f db)"

definition example_bidder :: "uuid \<Rightarrow> string \<Rightarrow> bidder_row" where
  "example_bidder k who = \<lparr>bdr_id = k, bdr_tenantId = 1, bdr_name = who, bdr_email = who, bdr_passwordHash = ''h'',
     bdr_phone = None, bdr_businessName = None, bdr_licenseNo = None, bdr_verificationToken = None,
     bdr_verificationTokenExpiresAt = None, bdr_verifiedAt = Some 0, bdr_blockedAt = None, bdr_deletedAt = None\<rparr>"

definition market_start :: auction_db where
  "market_start = impound_db.extend
     (example_stored\<lparr>impoundRecords := map (\<lambda>r. r\<lparr>imp_lienEligible := True\<rparr>) (impoundRecords example_stored)\<rparr>)
     (auction_db.fields [] [] [] [example_bidder 41 ''Ann'', example_bidder 42 ''Bob'']
       [\<lparr>mt_id = 1, mt_slug = ''acme'', mt_active = True\<rparr>])"

definition example_listing :: create_listing_input where
  "example_listing = \<lparr>cl_impoundRecordId = Some 60, cl_lienCaseId = None, cl_vin = None, cl_vehicleYear = None,
     cl_make = None, cl_model = None, cl_mileage = None, cl_conditionGrade = None,
     cl_reservePriceCents = Some 80000, cl_startingBidCents = 50000, cl_listStartsAt = None,
     cl_listEndsAt = None, cl_photoKeys = []\<rparr>"

definition market_open :: auction_db where
  "market_open = then_db (publishListing impound_ctx 1782800000000 90 None 1782900000000)
     (then_db (createListing impound_ctx 1782790000000 90 example_listing) market_start)"

definition market_bids :: auction_db where
  "market_bids = then_db (placeBid 1 42 None 1782899990000 92 90 90000)
     (then_db (placeBid 1 41 None 1782810000000 91 90 50000) market_open)"

definition market_sold :: auction_db where
  "market_sold = snd (lifecycle_tick 1783200000000 market_bids)"

lemma market_values:
  "map (\<lambda>r. (imp_status r, imp_lienEligible r)) (impoundRecords market_start) = [(Stored, True)]"
  "map (\<lambda>l. (lst_id l, lst_tenantId l, lst_status l, lst_listEndsAt l)) (auctionListings market_bids)
     = [(90, 1, Listing_live, Some 1782900290000)]"
  apply code_simp
  apply code_simp
  done

lemma then_reachable:
  assumes "auction_reachable db" "\<And>x db'. f db = Inr (x, db') \<Longrightarrow> auction_step db db'"
  shows "auction_reachable (then_db f db)"
  using assms by (auto simp: then_db_def committed_def split: sum.split intro: auction_reachable_step)

lemma market_reachable: "auction_reachable market_start" "auction_reachable market_bids" "auction_reachable market_sold"
proof -
  have none: "auctionListings market_start = []" "auctionBids market_start = []" by code_simp+
  then show s: "auction_reachable market_start"
    unfolding auction_reachable_def by (intro exI [of _ market_start]) simp
  have l: "auction_reachable (then_db (createListing impound_ctx 1782790000000 90 example_listing) market_start)"
    by (rule then_reachable [OF s], rule auction_step.listed) (simp_all add: none)
  have o: "auction_reachable market_open"
    unfolding market_open_def by (rule then_reachable [OF l], rule auction_step.published)
  have b: "auctionBids market_open = []"
    "92 \<notin> bid_id ` set (auctionBids (then_db (placeBid 1 41 None 1782810000000 91 90 50000) market_open))"
    by code_simp+
  have one: "auction_reachable (then_db (placeBid 1 41 None 1782810000000 91 90 50000) market_open)"
    by (rule then_reachable [OF o], rule auction_step.bid) (simp_all add: b(1))
  show two: "auction_reachable market_bids"
    unfolding market_bids_def by (rule then_reachable [OF one], erule auction_step.bid) (rule b(2))
  have "auction_step market_bids market_sold"
    by (rule auction_step.swept [of 1783200000000 _ "fst (lifecycle_tick 1783200000000 market_bids)"])
      (simp add: market_sold_def)
  then show "auction_reachable market_sold" using two by (rule auction_reachable_step [rotated])
qed

section \<open>Properties\<close>

text \<open>C22: On every database the auction operations and the sweep reach, in any order, the bids of a
  listing rise strictly in the order in which they were placed and start at the starting bid; and a
  listing is sold exactly when one bid on it carries the winning flag, which is the recorded winner -
  before that no bid is flagged and no winner recorded.\<close>

theorem listing_bids_rise:
  assumes "auction_reachable db" "l \<in> set (auctionListings db)"
  shows "sorted_wrt (<) (map bid_amountCents (filter (\<lambda>b. bid_listingId b = lst_id l) (auctionBids db)))
    \<and> (\<forall>b \<in> set (auctionBids db). bid_listingId b \<noteq> lst_id l \<or> lst_startingBidCents l \<le> bid_amountCents b)
    \<and> (if lst_status l = Listing_sold
       then \<exists>b. filter (\<lambda>b. bid_listingId b = lst_id l \<and> bid_isWinning b) (auctionBids db) = [b]
         \<and> lst_winningBidId l = Some (bid_id b)
       else filter (\<lambda>b. bid_listingId b = lst_id l \<and> bid_isWinning b) (auctionBids db) = []
         \<and> lst_winningBidId l = None)"
proof -
  have ok: "listing_ok (auctionBids db) l"
    using auction_reachable_ok [OF assms(1)] assms(2) by (simp add: auction_ok_def market_ok_def)
  have flagged: "filter bid_isWinning (bids_for (lst_id l) (auctionBids db))
      = filter (\<lambda>b. bid_listingId b = lst_id l \<and> bid_isWinning b) (auctionBids db)"
    unfolding bids_for_def filter_filter by (rule filter_cong) auto
  have "if lst_status l = Listing_sold
       then \<exists>b. filter (\<lambda>b. bid_listingId b = lst_id l \<and> bid_isWinning b) (auctionBids db) = [b]
         \<and> lst_winningBidId l = Some (bid_id b)
       else filter (\<lambda>b. bid_listingId b = lst_id l \<and> bid_isWinning b) (auctionBids db) = []
         \<and> lst_winningBidId l = None"
    using ok unfolding listing_ok_def winner_ok_def flagged by blast
  moreover have "rising (lst_startingBidCents l) (filter (\<lambda>b. bid_listingId b = lst_id l) (auctionBids db))"
    using ok by (simp add: listing_ok_def bids_for_def)
  ultimately show ?thesis unfolding rising_def by auto
qed

theorem listing_bids_rise_witness:
  "\<exists>l \<in> set (auctionListings market_sold). lst_status l = Listing_sold
    \<and> (\<exists>b. filter (\<lambda>b. bid_listingId b = lst_id l \<and> bid_isWinning b) (auctionBids market_sold) = [b])"
proof -
  have "map lst_status (auctionListings market_sold) = [Listing_sold]" by code_simp
  then obtain l where l: "l \<in> set (auctionListings market_sold)" "lst_status l = Listing_sold"
    by (auto simp: map_eq_Cons_conv)
  then show ?thesis using listing_bids_rise [OF market_reachable(3) l(1)] by (intro bexI [of _ l]) auto
qed

definition window_over :: "instant \<Rightarrow> listing_row \<Rightarrow> bool" where
  "window_over now l \<longleftrightarrow> lst_status l = Listing_live \<and> lst_deletedAt l = None
     \<and> (case lst_listEndsAt l of None \<Rightarrow> False | Some e \<Rightarrow> e \<le> now)"

text \<open>C23: On every reachable database one run of the lifecycle sweep closes every listing it scans, that
  is every live listing whose window has ended, and leaves no due listing behind: each goes to the last
  bid placed on it when that clears the reserve, and ends unsold otherwise; every other listing stays
  as it is, and the counters tell how many were closed and how many sold.\<close>

theorem sweep_settles_due:
  assumes "auction_reachable db" "lifecycle_tick now db = ((scanned, closed, sold), db')"
  shows "auctionListings db' = map (\<lambda>l. if window_over now l then settled_listing (auctionBids db) l else l) (auctionListings db)
    \<and> filter (window_over now) (auctionListings db') = []
    \<and> scanned = length (filter (window_over now) (auctionListings db)) \<and> closed = scanned
    \<and> sold = length (filter (\<lambda>l. lst_status (settled_listing (auctionBids db) l) = Listing_sold)
        (filter (window_over now) (auctionListings db)))"
proof -
  have same: "window_over now = due_listing now"
    by (auto simp: fun_eq_iff window_over_def due_listing_def split: option.split)
  have s: "lst_status (settled_listing B l) \<noteq> Listing_live" for B l
    by (simp add: settled_listing_def split: option.split)
  have none: "filter (due_listing now) (map (\<lambda>l. if due_listing now l then settled_listing (auctionBids db) l else l) L) = []" for L
    using s by (auto simp: filter_empty_conv due_listing_def)
  show ?thesis unfolding same
  proof (rule lifecycle_tick_result [OF auction_reachable_ok [OF assms(1)], of now], goal_cases)
    case (1 B')
    have eqs: "scanned = length (filter (due_listing now) (auctionListings db))" "closed = scanned"
      "sold = length (filter (\<lambda>l. lst_status (settled_listing (auctionBids db) l) = Listing_sold)
         (filter (due_listing now) (auctionListings db)))"
      "db' = db\<lparr>auctionListings := map (\<lambda>l. if due_listing now l then settled_listing (auctionBids db) l else l)
         (auctionListings db), auctionBids := B'\<rparr>"
      using trans [OF assms(2) [symmetric] 1(1)] unfolding prod.inject by (elim conjE, assumption | simp only:)+
    then have "auctionListings db' = map (\<lambda>l. if due_listing now l then settled_listing (auctionBids db) l else l)
        (auctionListings db)" by simp
    then show ?case using eqs(1-3) none by (simp only: simp_thms)
  qed
qed

theorem sweep_settles_due_witness:
  "map (\<lambda>l. (lst_status l, lst_winningBidId l)) (auctionListings market_sold) = [(Listing_sold, Some 92)]"
proof -
  obtain n c k where run: "lifecycle_tick 1783200000000 market_bids = ((n, c, k), market_sold)"
    unfolding market_sold_def by (metis prod.collapse)
  have "map (\<lambda>l. (lst_status l, lst_winningBidId l)) (map (\<lambda>l. if window_over 1783200000000 l
      then settled_listing (auctionBids market_bids) l else l) (auctionListings market_bids)) = [(Listing_sold, Some 92)]"
    by code_simp
  then show ?thesis using sweep_settles_due [OF market_reachable(2) run] by metis
qed

text \<open>Nothing looks at the vehicle again once it is listed: the owner redeems it, and the auction sells
  it all the same.\<close>

lemma released_vehicle_sold:
  "let db = then_db (releaseRecord impound_ctx 1782860000000 70 60 example_release) market_open;
       db' = snd (lifecycle_tick 1783200000000 (then_db (placeBid 1 42 None 1782899990000 92 90 90000) db))
   in map imp_status (impoundRecords db') = [Released]
      \<and> map (\<lambda>l. (lst_impoundRecordId l, lst_status l)) (auctionListings db') = [(Some 60, Listing_sold)]"
  by code_simp

end
