(* ===== verification/WebText.thy ===== *)
theory WebText
  imports JsText
begin

text \<open>
  The text codecs the public API uses of the language's library: hexadecimal, base64 and
  base64url of byte lists, \<open>split\<close>, \<open>trim\<close>, and \<open>Number\<close> of the
  text of an integer.  Reading what was printed gives it back, which the signatures, the sealed
  secrets and the cursors rest on.  Strings are lists of 8-bit characters; bytes are naturals
  below 256.
\<close>

section \<open>Hexadecimal\<close>

definition hex_digit :: "nat \<Rightarrow> char" where
  "hex_digit d = (if d < 10 then char_of (48 + d) else char_of (87 + d))"

definition hex_of :: "nat list \<Rightarrow> string" where
  "hex_of bs = concat (map (\<lambda>b. [hex_digit (b div 16), hex_digit (b mod 16)]) bs)"

definition lower_hex :: "char \<Rightarrow> bool" where
  "lower_hex c = (let n = (of_char c :: nat) in (48 \<le> n \<and> n \<le> 57) \<or> (97 \<le> n \<and> n \<le> 102))"

definition hex_value :: "char \<Rightarrow> nat option" where
  "hex_value c = (let n = (of_char c :: nat) in
     if 48 \<le> n \<and> n \<le> 57 then Some (n - 48)
     else if 97 \<le> n \<and> n \<le> 102 then Some (n - 87)
     else if 65 \<le> n \<and> n \<le> 70 then Some (n - 55)
     else None)"

text \<open>\<open>Buffer.from(s, 'hex')\<close> stops at the first pair that is not hexadecimal.\<close>

fun hex_bytes :: "string \<Rightarrow> nat list" where
  "hex_bytes (a # b # s) =
    (case (hex_value a, hex_value b) of (Some x, Some y) \<Rightarrow> (16 * x + y) # hex_bytes s | _ \<Rightarrow> [])"
| "hex_bytes _ = []"

lemma lower_hex_digit [simp]: "d < 16 \<Longrightarrow> lower_hex (hex_digit d)"
  by (auto simp: lower_hex_def hex_digit_def Let_def)

lemma length_hex_of [simp]: "length (hex_of bs) = 2 * length bs"
  by (induction bs) (simp_all add: hex_of_def)

lemma hex_of_lower: "\<forall>b \<in> set bs. b < 256 \<Longrightarrow> list_all lower_hex (hex_of bs)"
  by (induction bs) (auto simp: hex_of_def less_mult_imp_div_less)

lemma lower_hex_value: "lower_hex c \<Longrightarrow> \<exists>x. hex_value c = Some x"
  by (auto simp: lower_hex_def hex_value_def Let_def)

lemma not_lower_hex [simp]:
  "\<not> lower_hex (CHR '','')" "\<not> lower_hex (CHR ''='')" "\<not> lower_hex (CHR ''_'')" "\<not> lower_hex (CHR '' '')"
  by (simp_all add: lower_hex_def)

section \<open>Base64\<close>

definition b64_digit :: "char \<Rightarrow> char \<Rightarrow> nat \<Rightarrow> char" where
  "b64_digit c62 c63 n =
    (if n < 26 then char_of (65 + n) else if n < 52 then char_of (71 + n)
     else if n < 62 then char_of (n - 4) else if n = 62 then c62 else c63)"

definition b64_value :: "char \<Rightarrow> nat option" where
  "b64_value c = (let n = (of_char c :: nat) in
     if 65 \<le> n \<and> n \<le> 90 then Some (n - 65)
     else if 97 \<le> n \<and> n \<le> 122 then Some (n - 71)
     else if 48 \<le> n \<and> n \<le> 57 then Some (n + 4)
     else if n = 43 \<or> n = 45 then Some 62
     else if n = 47 \<or> n = 95 then Some 63
     else None)"

fun sextets :: "nat list \<Rightarrow> nat list" where
  "sextets (a # b # c # bs) =
    [a div 4, a mod 4 * 16 + b div 16, b mod 16 * 4 + c div 64, c mod 64] @ sextets bs"
| "sextets [a, b] = [a div 4, a mod 4 * 16 + b div 16, b mod 16 * 4]"
| "sextets [a] = [a div 4, a mod 4 * 16]"
| "sextets [] = []"

fun octets :: "nat list \<Rightarrow> nat list" where
  "octets (p # q # r # s # ps) =
    [4 * p + q div 16, q mod 16 * 16 + r div 4, r mod 4 * 64 + s] @ octets ps"
| "octets [p, q, r] = [4 * p + q div 16, q mod 16 * 16 + r div 4]"
| "octets [p, q] = [4 * p + q div 16]"
| "octets _ = []"

text \<open>\<open>toString('base64url')\<close> is unpadded, \<open>toString('base64')\<close> padded; reading accepts both
  alphabets, skips what is in neither and ends at the padding.\<close>

definition base64url :: "nat list \<Rightarrow> string" where
  "base64url bs = map (b64_digit (CHR ''-'') (CHR ''_'')) (sextets bs)"

definition base64 :: "nat list \<Rightarrow> string" where
  "base64 bs = map (b64_digit (CHR ''+'') (CHR ''/'')) (sextets bs)
     @ replicate ((3 - length bs mod 3) mod 3) (CHR ''='')"

definition base64_bytes :: "string \<Rightarrow> nat list" where
  "base64_bytes s = octets (List.map_filter b64_value (takeWhile (\<lambda>c. c \<noteq> CHR ''='') s))"

lemma div_small: "b < 256 \<Longrightarrow> b div 4 < (64::nat)" "b < 256 \<Longrightarrow> b div 16 < (16::nat)"
    "b < 256 \<Longrightarrow> b div 64 < (4::nat)"
  by (simp_all add: less_mult_imp_div_less)

lemma packed:
  "y < 16 \<Longrightarrow> (x * 16 + y) div 16 = (x::nat)" "y < 16 \<Longrightarrow> (x * 16 + y) mod 16 = (y::nat)"
  "y < 4 \<Longrightarrow> (x * 4 + y) div 4 = (x::nat)" "y < 4 \<Longrightarrow> (x * 4 + y) mod 4 = (y::nat)"
  by simp_all

lemma packed_small:
  "x < 4 \<Longrightarrow> y < 16 \<Longrightarrow> x * 16 + y < (64::nat)" "x < 16 \<Longrightarrow> y < 4 \<Longrightarrow> x * 4 + y < (64::nat)"
  by simp_all

lemma regroup:
  assumes "a < 256" "b < (256::nat)" "c < 256"
  shows "4 * (a div 4) + (a mod 4 * 16 + b div 16) div 16 = a"
    "(a mod 4 * 16 + b div 16) mod 16 * 16 + (b mod 16 * 4 + c div 64) div 4 = b"
    "(b mod 16 * 4 + c div 64) mod 4 * 64 + c mod 64 = c"
    "(a mod 4 * 16 + b div 16) mod 16 * 16 + (b mod 16 * 4) div 4 = b"
    "4 * (a div 4) + (a mod 4 * 16) div 16 = a"
  by (simp_all only: packed div_small assms nonzero_mult_div_cancel_right zero_neq_numeral not_False_eq_True
      mult_div_mod_eq div_mult_mod_eq)

lemma sextet_bounds:
  assumes "a < 256" "b < (256::nat)" "c < 256"
  shows "a div 4 < 64" "a mod 4 * 16 + b div 16 < 64" "b mod 16 * 4 + c div 64 < 64" "c mod 64 < 64"
    "b mod 16 * 4 < 64" "a mod 4 * 16 < 64"
  using assms packed_small(1) [of "a mod 4" "b div 16"] packed_small(2) [of "b mod 16" "c div 64"]
    packed_small(1) [of "a mod 4" 0] packed_small(2) [of "b mod 16" 0]
  by (simp_all only: div_small add_0_right mod_less_divisor zero_less_numeral)

lemma sextets_small: "\<forall>b \<in> set bs. b < 256 \<Longrightarrow> n \<in> set (sextets bs) \<Longrightarrow> n < 64"
  by (induction bs rule: sextets.induct) (auto simp: sextet_bounds simp del: mod_mult_self4)

lemma octets_sextets: "\<forall>b \<in> set bs. b < 256 \<Longrightarrow> octets (sextets bs) = bs"
proof (induction bs rule: sextets.induct)
  case (1 a b c bs)
  then have "a < 256" "b < 256" "c < 256" "octets (sextets bs) = bs" by simp_all
  then show ?case by (simp only: sextets.simps octets.simps append_Cons append_Nil regroup)
next
  case (2 a b)
  then have "a < 256" "b < 256" by simp_all
  then show ?case by (simp only: sextets.simps octets.simps regroup)
next
  case (3 a)
  then have "a < 256" by simp
  then show ?case by (simp only: sextets.simps octets.simps regroup)
qed simp

lemma of_char_ascii: "n < 256 \<Longrightarrow> (of_char (char_of n) :: nat) = n"
  by simp

lemma b64_value_digit:
  assumes "n < 64" "(c62, c63) \<in> {(CHR ''-'', CHR ''_''), (CHR ''+'', CHR ''/'')}"
  shows "b64_value (b64_digit c62 c63 n) = Some n"
proof -
  consider "n < 26" | "26 \<le> n" "n < 52" | "52 \<le> n" "n < 62" | "n = 62" | "n = 63"
    using assms(1) by linarith
  then show ?thesis
  proof cases
    case 1
    then show ?thesis by (simp add: b64_value_def b64_digit_def Let_def of_char_ascii del: of_char_of)
  next
    case 2
    then show ?thesis by (simp add: b64_value_def b64_digit_def Let_def of_char_ascii del: of_char_of)
  next
    case 3
    then obtain m where m: "n = m + 4" "48 \<le> m" "m \<le> 57"
      by (intro that [of "n - 4"]) simp_all
    from m(2,3) show ?thesis by (simp add: m(1) b64_value_def b64_digit_def Let_def of_char_ascii del: of_char_of)
  next
    case 4
    then show ?thesis using assms(2) by (auto simp: b64_value_def b64_digit_def)
  next
    case 5
    then show ?thesis using assms(2) by (auto simp: b64_value_def b64_digit_def)
  qed
qed

lemma b64_value_pad: "b64_value (CHR ''='') = None"
  by (simp add: b64_value_def)

lemma b64_digit_not_pad:
  assumes "n < 64" "(c62, c63) \<in> {(CHR ''-'', CHR ''_''), (CHR ''+'', CHR ''/'')}"
  shows "b64_digit c62 c63 n \<noteq> CHR ''=''"
  using b64_value_digit [OF assms] b64_value_pad by auto

lemma b64_values:
  assumes "\<forall>n \<in> set ns. n < 64"
    "(c62, c63) \<in> {(CHR ''-'', CHR ''_''), (CHR ''+'', CHR ''/'')}"
  shows "List.map_filter b64_value
      (takeWhile (\<lambda>c. c \<noteq> CHR ''='') (map (b64_digit c62 c63) ns @ replicate k (CHR ''=''))) = ns"
  using assms(1)
proof (induction ns)
  case Nil
  then show ?case by (cases k) (simp_all add: map_filter_simps)
next
  case (Cons n ns)
  then show ?case
    using b64_value_digit [OF _ assms(2)] b64_digit_not_pad [OF _ assms(2)]
    by (simp add: map_filter_simps)
qed

lemma base64url_bytes [simp]: "\<forall>b \<in> set bs. b < 256 \<Longrightarrow> base64_bytes (base64url bs) = bs"
  using b64_values [of "sextets bs" "CHR ''-''" "CHR ''_''" 0] sextets_small
  by (simp add: base64_bytes_def base64url_def octets_sextets)

lemma base64_bytes_base64 [simp]: "\<forall>b \<in> set bs. b < 256 \<Longrightarrow> base64_bytes (base64 bs) = bs"
  using b64_values [of "sextets bs" "CHR ''+''" "CHR ''/''"] sextets_small
  by (simp add: base64_bytes_def base64_def octets_sextets)

section \<open>Splitting and trimming\<close>

fun split_on :: "char \<Rightarrow> string \<Rightarrow> string list" where
  "split_on c [] = [[]]"
| "split_on c (x # xs) =
    (if x = c then [] # split_on c xs
     else (case split_on c xs of [] \<Rightarrow> [[x]] | p # ps \<Rightarrow> (x # p) # ps))"

definition is_space :: "char \<Rightarrow> bool" where
  "is_space c = (let n = (of_char c :: nat) in (9 \<le> n \<and> n \<le> 13) \<or> n = 32 \<or> n = 160)"

definition js_trim :: "string \<Rightarrow> string" where
  "js_trim s = rev (dropWhile is_space (rev (dropWhile is_space s)))"

lemma split_on_sep: "c \<notin> set a \<Longrightarrow> split_on c (a @ c # b) = a # split_on c b"
  by (induction a) auto

lemma split_on_none: "c \<notin> set a \<Longrightarrow> split_on c a = [a]"
  by (induction a) auto

lemma dropWhile_none: "list_all (\<lambda>c. \<not> P c) s \<Longrightarrow> dropWhile P s = s"
  by (cases s) auto

lemma js_trim_none: "list_all (\<lambda>c. \<not> is_space c) s \<Longrightarrow> js_trim s = s"
  by (simp add: js_trim_def dropWhile_none list_all_rev)

lemma lower_hex_no_space: "lower_hex c \<Longrightarrow> \<not> is_space c"
  by (auto simp: lower_hex_def is_space_def Let_def)

lemma js_trim_hex: "list_all lower_hex s \<Longrightarrow> js_trim s = s"
  by (rule js_trim_none) (auto simp: list_all_iff lower_hex_no_space)

text \<open>\<open>Number\<close> of the text of an integer, the only numbers the headers carry: the empty text is
  zero; a fraction, an exponent or a radix prefix is out of the model and read as no number.\<close>

definition js_number :: "string \<Rightarrow> int option" where
  "js_number s = (if s = [] then Some 0 else if hd s = CHR ''-'' then map_option (\<lambda>n. - int n) (read_nat (tl s))
     else if hd s = CHR ''+'' then map_option int (read_nat (tl s)) else map_option int (read_nat s))"

lemma show_nat_head: "hd (show_nat n) \<noteq> CHR ''-''" "hd (show_nat n) \<noteq> CHR ''+''"
  using show_nat_digits [of n] by (cases "show_nat n"; auto simp: is_digit_def)+

lemma js_number_show [simp]: "js_number (show_int i) = Some i"
  by (simp add: js_number_def show_int_def read_show_nat show_nat_head)

lemma show_int_chars: "c \<in> set (show_int i) \<Longrightarrow> is_digit c \<or> c = CHR ''-''"
  using show_nat_digits by (auto simp: show_int_def list_all_iff split: if_splits)

lemma show_int_no_space: "list_all (\<lambda>c. \<not> is_space c) (show_int i)"
  using show_int_chars by (fastforce simp: list_all_iff is_space_def is_digit_def Let_def)

lemma js_trim_show_int [simp]: "js_trim (show_int i) = show_int i"
  by (rule js_trim_none [OF show_int_no_space])

lemma show_int_no_sep: "CHR '','' \<notin> set (show_int i)" "CHR ''='' \<notin> set (show_int i)"
  using show_int_chars by (fastforce simp: is_digit_def)+

section \<open>UUID text\<close>

text \<open>The canonical text of a 128-bit identifier, and reading it back.\<close>

fun low_bytes :: "nat \<Rightarrow> nat \<Rightarrow> nat list" where
  "low_bytes 0 i = []"
| "low_bytes (Suc k) i = low_bytes k (i div 256) @ [i mod 256]"

definition uuid_bytes :: "uuid \<Rightarrow> nat list" where
  "uuid_bytes i = low_bytes 16 i"

definition dashed :: "string \<Rightarrow> string" where
  "dashed h = take 8 h @ ''-'' @ take 4 (drop 8 h) @ ''-'' @ take 4 (drop 12 h) @ ''-''
     @ take 4 (drop 16 h) @ ''-'' @ drop 20 h"

definition uuid_text :: "uuid \<Rightarrow> string" where
  "uuid_text i = dashed (hex_of (uuid_bytes i))"

definition read_uuid :: "string \<Rightarrow> uuid" where
  "read_uuid s = foldl (\<lambda>a b. 256 * a + b) 0 (hex_bytes (filter (\<lambda>c. c \<noteq> CHR ''-'') s))"

text \<open>The pattern of v1/cursor.ts: five groups of hexadecimal digits of either case.\<close>

definition hex_group :: "nat \<Rightarrow> string \<Rightarrow> bool" where
  "hex_group n s \<longleftrightarrow> length s = n \<and> list_all (\<lambda>c. hex_value c \<noteq> None) s"

definition UUID_RX :: "string \<Rightarrow> bool" where
  "UUID_RX s \<longleftrightarrow> (case split_on (CHR ''-'') s of
      [a, b, c, d, e] \<Rightarrow> hex_group 8 a \<and> hex_group 4 b \<and> hex_group 4 c \<and> hex_group 4 d \<and> hex_group 12 e
    | _ \<Rightarrow> False)"

lemma length_low_bytes [simp]: "length (low_bytes k i) = k"
  by (induction k arbitrary: i) simp_all

lemma low_bytes_small: "\<forall>b \<in> set (low_bytes k i). b < 256"
  by (induction k arbitrary: i) auto

lemma foldl_low_bytes: "foldl (\<lambda>a b. 256 * a + b) 0 (low_bytes k i) = i mod 256 ^ k"
  by (induction k arbitrary: i) (simp_all add: mod_mult2_eq mult.commute)

lemma hex_value_digit: "d < 16 \<Longrightarrow> hex_value (hex_digit d) = Some d"
  by (auto simp: hex_value_def hex_digit_def Let_def)

lemma hex_bytes_of [simp]: "\<forall>b \<in> set bs. b < 256 \<Longrightarrow> hex_bytes (hex_of bs) = bs"
proof (induction bs)
  case (Cons b bs)
  then have "b div 16 < 16" by (simp add: less_mult_imp_div_less)
  then show ?case using Cons by (simp add: hex_of_def hex_value_digit)
qed (simp add: hex_of_def)

lemma lower_hex_not_dash [simp]: "\<not> lower_hex (CHR ''-'')"
  by (simp add: lower_hex_def)

lemma filter_hex_text: "list_all lower_hex h \<Longrightarrow> filter (\<lambda>c. c \<noteq> CHR ''-'') h = h"
  by (induction h) auto

lemma filter_dashed:
  assumes "list_all lower_hex h"
  shows "filter (\<lambda>c. c \<noteq> CHR ''-'') (dashed h) = h"
proof -
  have sub: "filter (\<lambda>c. c \<noteq> CHR ''-'') (take n (drop m h)) = take n (drop m h)" for n m
    using assms by (intro filter_hex_text) (auto simp: list_all_iff dest: in_set_takeD in_set_dropD)
  have "filter (\<lambda>c. c \<noteq> CHR ''-'') (take 8 h) = take 8 h" "filter (\<lambda>c. c \<noteq> CHR ''-'') (drop 20 h) = drop 20 h"
    using assms by (auto intro!: filter_hex_text simp: list_all_iff dest!: in_set_takeD in_set_dropD)
  then have "filter (\<lambda>c. c \<noteq> CHR ''-'') (dashed h)
      = take 8 h @ take 4 (drop 8 h) @ take 4 (drop 12 h) @ take 4 (drop 16 h) @ drop 20 h"
    using sub by (simp add: dashed_def)
  also have "\<dots> = h"
    using append_take_drop_id [of 4 "drop 16 h"] append_take_drop_id [of 4 "drop 12 h"]
      append_take_drop_id [of 4 "drop 8 h"] append_take_drop_id [of 8 h] by (simp add: add.commute)
  finally show ?thesis .
qed

lemma uuid_hex: "list_all lower_hex (hex_of (uuid_bytes i))" "length (hex_of (uuid_bytes i)) = 32"
  using hex_of_lower [OF low_bytes_small] by (simp_all add: uuid_bytes_def)

lemma read_uuid_text: "i < 256 ^ 16 \<Longrightarrow> read_uuid (uuid_text i) = i"
  using low_bytes_small [of 16 i]
  by (simp add: read_uuid_def uuid_text_def filter_dashed [OF uuid_hex(1)]) (simp add: uuid_bytes_def foldl_low_bytes)

lemma UUID_RX_text: "UUID_RX (uuid_text i)"
proof -
  let ?h = "hex_of (uuid_bytes i)"
  have no: "CHR ''-'' \<notin> set (take n (drop m ?h))" for n m
    using uuid_hex(1) [of i] by (auto simp: list_all_iff dest!: in_set_takeD in_set_dropD)
  have no8: "CHR ''-'' \<notin> set (take 8 ?h)" "CHR ''-'' \<notin> set (drop 20 ?h)"
    using uuid_hex(1) [of i] by (auto simp: list_all_iff dest!: in_set_takeD in_set_dropD)
  have g: "list_all (\<lambda>c. hex_value c \<noteq> None) (take n (drop m ?h))" for n m
    using uuid_hex(1) [of i] lower_hex_value by (auto simp: list_all_iff dest!: in_set_takeD in_set_dropD; fastforce)
  have "uuid_text i = take 8 ?h @ CHR ''-'' # (take 4 (drop 8 ?h) @ CHR ''-'' # (take 4 (drop 12 ?h)
      @ CHR ''-'' # (take 4 (drop 16 ?h) @ CHR ''-'' # drop 20 ?h)))"
    by (simp add: uuid_text_def dashed_def)
  then have "split_on (CHR ''-'') (uuid_text i)
      = [take 8 ?h, take 4 (drop 8 ?h), take 4 (drop 12 ?h), take 4 (drop 16 ?h), drop 20 ?h]"
    using no no8 by (simp add: split_on_sep split_on_none)
  then show ?thesis
    using g [of _ 8] g [of _ 12] g [of _ 16] g [of 8 0] g [of 12 20] uuid_hex(2) [of i]
    by (simp add: UUID_RX_def hex_group_def)
qed

lemma uuid_text_ascii: "c \<in> set (uuid_text i) \<Longrightarrow> lower_hex c \<or> c = CHR ''-''"
  using uuid_hex(1) [of i]
  by (auto simp: uuid_text_def dashed_def list_all_iff dest!: in_set_takeD in_set_dropD)

section \<open>Codecs\<close>

text \<open>What the clients rely on: a value that is printed is read back, so different values print
  differently.\<close>

locale codec =
  fixes enc :: "'a \<Rightarrow> 'b" and dec :: "'b \<Rightarrow> 'a" and valid :: "'a \<Rightarrow> bool"
  assumes dec_enc: "valid x \<Longrightarrow> dec (enc x) = x"
begin

lemma enc_inj: "valid x \<Longrightarrow> valid y \<Longrightarrow> enc x = enc y \<longleftrightarrow> x = y"
  using dec_enc by metis

lemma distinct_enc: "\<forall>x \<in> set xs. valid x \<Longrightarrow> distinct (map enc xs) \<longleftrightarrow> distinct xs"
  by (auto simp: distinct_map inj_on_def enc_inj)

end

definition bytes :: "nat list \<Rightarrow> bool" where
  "bytes bs \<longleftrightarrow> (\<forall>b \<in> set bs. b < 256)"

interpretation hex: codec hex_of hex_bytes bytes
  by unfold_locales (simp add: bytes_def)

interpretation b64: codec base64 base64_bytes bytes
  by unfold_locales (simp add: bytes_def)

interpretation b64url: codec base64url base64_bytes bytes
  by unfold_locales (simp add: bytes_def)

interpretation uuids: codec uuid_text read_uuid "\<lambda>i. i < 256 ^ 16"
  by unfold_locales (rule read_uuid_text)

section \<open>Comparisons\<close>

definition lower_char :: "char \<Rightarrow> char" where
  "lower_char c = (let n = (of_char c :: nat) in if 65 \<le> n \<and> n \<le> 90 then char_of (n + 32) else c)"

text \<open>The constant-time comparison of two hashes in hex.\<close>

definition hashesEqual :: "string \<Rightarrow> string \<Rightarrow> bool" where
  "hashesEqual a b \<longleftrightarrow> length a = length b \<and> hex_bytes a = hex_bytes b"

end
