(* ===== verification/Json.thy ===== *)
theory Json
  imports Dates WebText
begin

text \<open>
  JSON values with integer numbers, \<open>JSON.stringify\<close> of them, and \<open>toISOString\<close>: what the
  webhook envelope is made of and how it becomes the body that is signed.  Amounts, counters and
  times in the events are integers; a fraction does not occur in them.
\<close>

datatype json = JNull | JBool bool | JNum int | JStr string | JArr "json list"
  | JObj "(string \<times> json) list"

fun json_get :: "string \<Rightarrow> json \<Rightarrow> json option" where
  "json_get k (JObj kvs) = map_of kvs k"
| "json_get k _ = None"

text \<open>\<open>typeof v === 'string' && v\<close>: the text of a string value, unless it is empty.\<close>

fun json_text :: "json option \<Rightarrow> string option" where
  "json_text (Some (JStr s)) = truthy (Some s)"
| "json_text _ = None"

text \<open>The escapes of \<open>JSON.stringify\<close>: quote, backslash, the named controls, the others as u00xx.\<close>

definition escape_char :: "char \<Rightarrow> string" where
  "escape_char c = (let n = (of_char c :: nat) in
     if n = 34 \<or> n = 92 then [CHR 0x5C, c]
     else if n = 8 then [CHR 0x5C, CHR ''b''] else if n = 9 then [CHR 0x5C, CHR ''t'']
     else if n = 10 then [CHR 0x5C, CHR ''n''] else if n = 12 then [CHR 0x5C, CHR ''f'']
     else if n = 13 then [CHR 0x5C, CHR ''r'']
     else if n < 32 then CHR 0x5C # ''u00'' @ [hex_digit (n div 16), hex_digit (n mod 16)]
     else [c])"

definition json_string :: "string \<Rightarrow> string" where
  "json_string s = [CHR 0x22] @ concat (map escape_char s) @ [CHR 0x22]"

definition commas :: "string list \<Rightarrow> string" where
  "commas xs = (case xs of [] \<Rightarrow> [] | x # ys \<Rightarrow> x @ concat (map (\<lambda>y. CHR '','' # y) ys))"

fun stringify :: "json \<Rightarrow> string" where
  "stringify JNull = ''null''"
| "stringify (JBool b) = (if b then ''true'' else ''false'')"
| "stringify (JNum n) = show_int n"
| "stringify (JStr s) = json_string s"
| "stringify (JArr js) = ''['' @ commas (map stringify js) @ '']''"
| "stringify (JObj kvs) =
    ''{'' @ commas (map (\<lambda>(k, v). json_string k @ '':'' @ stringify v) kvs) @ ''}''"

text \<open>\<open>toISOString()\<close> of an instant of a four-digit year.\<close>

definition toISOString :: "instant \<Rightarrow> string" where
  "toISOString t = (let ms = t mod day_ms in
     iso_date (t div day_ms) @ ''T'' @ pad_nat 2 (nat (ms div 3600000)) @ '':''
       @ pad_nat 2 (nat (ms div 60000 mod 60)) @ '':'' @ pad_nat 2 (nat (ms div 1000 mod 60)) @ ''.''
       @ pad_nat 3 (nat (ms mod 1000)) @ ''Z'')"

end
