(* ===== verification/Webhooks.thy ===== *)
theory Webhooks
  imports Json
begin

text \<open>
  modules/public-api: the outgoing webhooks.  crypto/webhook-signature.ts signs and verifies a
  request, crypto/webhook-secret-cipher.service.ts seals the signing secret at rest,
  webhooks/webhook-retry.logic.ts decides about the next attempt, webhook-publisher.service.ts turns
  a domain event into deliveries, webhook-delivery.worker.ts makes the attempts, and
  management/webhooks.service.ts are the operator's handlers.  The digest, the authenticated
  encryption, the network and the normal form of a jsonb column are arguments (\<open>platform\<close>,
  \<open>net\<close>); the requests sent are kept in the order they leave.
\<close>

section \<open>Signing\<close>

record platform =
  pf_hmac :: "string \<Rightarrow> string \<Rightarrow> string"
  pf_key :: "nat list"
  pf_seal :: "nat list \<Rightarrow> nat list \<Rightarrow> string \<Rightarrow> nat list \<times> nat list"
  pf_unseal :: "nat list \<Rightarrow> nat list \<Rightarrow> nat list \<Rightarrow> nat list \<Rightarrow> string option"
  pf_jsonb :: "json \<Rightarrow> json"

definition DEFAULT_TOLERANCE_SECONDS :: int where
  "DEFAULT_TOLERANCE_SECONDS = 300"

definition computeSignature :: "platform \<Rightarrow> string \<Rightarrow> string \<Rightarrow> int \<Rightarrow> string" where
  "computeSignature pf secret body t = pf_hmac pf secret (show_int t @ ''.'' @ body)"

definition buildSignatureHeader :: "platform \<Rightarrow> string \<Rightarrow> string \<Rightarrow> int \<Rightarrow> string" where
  "buildSignatureHeader pf secret body t =
    ''t='' @ show_int t @ '',v1='' @ computeSignature pf secret body t"

definition parse_part ::
    "string \<Rightarrow> int option \<times> string option \<Rightarrow> int option \<times> string option" where
  "parse_part part acc = (case take 2 (split_on (CHR ''='') part) of
      [k, v] \<Rightarrow>
        if js_trim k = ''t'' then
          (case js_number (js_trim v) of Some n \<Rightarrow> (Some n, snd acc) | None \<Rightarrow> acc)
        else if js_trim k = ''v1'' then (fst acc, Some (js_trim v)) else acc
    | _ \<Rightarrow> acc)"

definition parseSignatureHeader :: "string \<Rightarrow> (int \<times> string) option" where
  "parseSignatureHeader header = (case fold parse_part (split_on (CHR '','') header) (None, None) of
      (Some t, Some v1) \<Rightarrow> Some (t, v1) | _ \<Rightarrow> None)"

text \<open>\<open>timingSafeEqual\<close> of the decoded texts; of buffers of unequal length it throws, caught as
  unequal.\<close>

definition hexEqual :: "string \<Rightarrow> string \<Rightarrow> bool" where
  "hexEqual a b \<longleftrightarrow> length a = length b \<and> hex_bytes a = hex_bytes b"

definition verifySignature :: "platform \<Rightarrow> string \<Rightarrow> string \<Rightarrow> string \<Rightarrow> int option \<Rightarrow> int \<Rightarrow> bool" where
  "verifySignature pf secret body header tolerance nowSec =
    (case parseSignatureHeader header of None \<Rightarrow> False
     | Some (t, v1) \<Rightarrow>
         if (case tolerance of None \<Rightarrow> DEFAULT_TOLERANCE_SECONDS | Some s \<Rightarrow> s) < abs (nowSec - t)
         then False
         else hexEqual (computeSignature pf secret body t) v1)"

section \<open>Secrets at rest\<close>

definition IV_BYTES :: nat where "IV_BYTES = 12"
definition TAG_BYTES :: nat where "TAG_BYTES = 16"

text \<open>The random bytes of \<open>randomBytes\<close> are an argument.\<close>

definition generateSecret :: "nat list \<Rightarrow> string" where
  "generateSecret rnd = ''whsec_'' @ hex_of rnd"

definition encrypt_secret :: "platform \<Rightarrow> nat list \<Rightarrow> string \<Rightarrow> string" where
  "encrypt_secret pf iv plaintext =
    (case pf_seal pf (pf_key pf) iv plaintext of (enc, tag) \<Rightarrow> base64 (iv @ tag @ enc))"

definition decrypt_secret :: "platform \<Rightarrow> string \<Rightarrow> exn + string" where
  "decrypt_secret pf blob =
    (let buf = base64_bytes blob in
     ensure (IV_BYTES + TAG_BYTES \<le> length buf)
       (Failure ''WebhookSecretCipher.decrypt: payload too short'')
     (require (pf_unseal pf (pf_key pf) (take IV_BYTES buf) (take TAG_BYTES (drop IV_BYTES buf))
         (drop (IV_BYTES + TAG_BYTES) buf))
       (Failure ''Unsupported state or unable to authenticate data'') Inr))"

section \<open>Retry decisions\<close>

definition RETRY_BACKOFF_SECONDS :: "int list" where
  "RETRY_BACKOFF_SECONDS = [60, 5 * 60, 30 * 60, 2 * 60 * 60, 12 * 60 * 60]"

definition DEFAULT_MAX_ATTEMPTS :: int where
  "DEFAULT_MAX_ATTEMPTS = 5"

record retry_decision =
  rd_exhausted :: bool
  rd_nextRetryAt :: "instant option"
  rd_delaySeconds :: "int option"

definition planRetry :: "int \<Rightarrow> int \<Rightarrow> instant \<Rightarrow> retry_decision" where
  "planRetry n maxAttempts now =
    (if maxAttempts \<le> n
     then \<lparr>rd_exhausted = True, rd_nextRetryAt = None, rd_delaySeconds = None\<rparr>
     else (let idx = min (n - 1) (int (length RETRY_BACKOFF_SECONDS) - 1);
               delay = (if 0 \<le> idx then RETRY_BACKOFF_SECONDS ! nat idx else last RETRY_BACKOFF_SECONDS)
           in \<lparr>rd_exhausted = False, rd_nextRetryAt = Some (now + delay * 1000),
               rd_delaySeconds = Some delay\<rparr>))"

definition isSuccessStatus :: "int option \<Rightarrow> bool" where
  "isSuccessStatus status = (case status of None \<Rightarrow> False | Some s \<Rightarrow> 200 \<le> s \<and> s < 300)"

section \<open>Tables\<close>

datatype hook_event = Hook_job_created | Hook_job_status_changed | Hook_impound_opened | Hook_impound_released

fun hook_event_name :: "hook_event \<Rightarrow> string" where
  "hook_event_name Hook_job_created = ''job.created''"
| "hook_event_name Hook_job_status_changed = ''job.status_changed''"
| "hook_event_name Hook_impound_opened = ''impound.opened''"
| "hook_event_name Hook_impound_released = ''impound.released''"

definition webhookEventTypeValues :: "hook_event list" where
  "webhookEventTypeValues =
    [Hook_job_created, Hook_job_status_changed, Hook_impound_opened, Hook_impound_released]"

datatype delivery_status = Wd_pending | Wd_delivering | Wd_delivered | Wd_failed

record endpoint_row =
  ep_id :: uuid
  ep_tenantId :: uuid
  ep_url :: string
  ep_description :: "string option"
  ep_secretEncrypted :: string
  ep_events :: "hook_event list"
  ep_active :: bool
  ep_createdBy :: uuid
  ep_lastSuccessAt :: "instant option"
  ep_lastFailureAt :: "instant option"
  ep_createdAt :: instant
  ep_updatedAt :: instant
  ep_deletedAt :: "instant option"

record delivery_row =
  wd_id :: uuid
  wd_tenantId :: uuid
  wd_endpointId :: uuid
  wd_eventType :: hook_event
  wd_eventId :: "string option"
  wd_payload :: json
  wd_status :: delivery_status
  wd_attempt :: int
  wd_maxAttempts :: int
  wd_nextRetryAt :: "instant option"
  wd_responseCode :: "int option"
  wd_responseBody :: "string option"
  wd_lastError :: "string option"
  wd_deliveredAt :: "instant option"
  wd_createdAt :: instant
  wd_updatedAt :: instant
  wd_deletedAt :: "instant option"

text \<open>A request the worker sends, kept with the endpoint and the instant it is sent.\<close>

record hook_request =
  rq_endpointId :: uuid
  rq_sentAt :: instant
  rq_url :: string
  rq_signature :: string
  rq_deliveryId :: string
  rq_eventType :: string
  rq_body :: string

record hook_db =
  endpoints :: "endpoint_row list"
  deliveries :: "delivery_row list"
  requests :: "hook_request list"

definition empty_hook_db :: hook_db where
  "empty_hook_db = \<lparr>endpoints = [], deliveries = [], requests = []\<rparr>"

definition live_endpoint :: "uuid \<Rightarrow> endpoint_row \<Rightarrow> bool" where
  "live_endpoint i e \<longleftrightarrow> ep_id e = i \<and> ep_deletedAt e = None"

definition own_endpoint :: "uuid \<Rightarrow> uuid \<Rightarrow> endpoint_row \<Rightarrow> bool" where
  "own_endpoint t i e \<longleftrightarrow> ep_tenantId e = t \<and> live_endpoint i e"

definition own_delivery :: "uuid \<Rightarrow> uuid \<Rightarrow> delivery_row \<Rightarrow> bool" where
  "own_delivery t i d \<longleftrightarrow> wd_tenantId d = t \<and> wd_id d = i \<and> wd_deletedAt d = None"

text \<open>Primary keys and the typed column event_id are checked on insert.\<close>

definition insert_endpoint :: "endpoint_row \<Rightarrow> hook_db \<Rightarrow> exn + hook_db" where
  "insert_endpoint e db = ensure (ep_id e \<notin> set (map ep_id (endpoints db)))
     (Failure ''webhook_endpoints_pkey'') (Inr (db\<lparr>endpoints := insert_into e (endpoints db)\<rparr>))"

definition insert_delivery :: "delivery_row \<Rightarrow> hook_db \<Rightarrow> exn + hook_db" where
  "insert_delivery d db = ensure (wd_id d \<notin> set (map wd_id (deliveries db)))
     (Failure ''webhook_deliveries_pkey'')
     (ensure (\<forall>s \<in> set_option (wd_eventId d). UUID_RX s) (Failure ''invalid input syntax for type uuid'')
       (Inr (db\<lparr>deliveries := insert_into d (deliveries db)\<rparr>)))"

fun insert_deliveries :: "delivery_row list \<Rightarrow> hook_db \<Rightarrow> exn + hook_db" where
  "insert_deliveries [] db = Inr db"
| "insert_deliveries (d # ds) db = attempt (insert_delivery d db) (insert_deliveries ds)"

section \<open>Publishing an event\<close>

definition buildEnvelope :: "uuid \<Rightarrow> hook_event \<Rightarrow> json \<Rightarrow> instant \<Rightarrow> json" where
  "buildEnvelope i e data now = JObj [(''id'', JStr (uuid_text i)), (''type'', JStr (hook_event_name e)),
     (''createdAt'', JStr (toISOString now)), (''data'', data)]"

definition extractEventId :: "json \<Rightarrow> string option" where
  "extractEventId data =
    (case json_text (Option.bind (json_get ''job'' data) (json_get ''id'')) of
       Some s \<Rightarrow> Some s
     | None \<Rightarrow> (case json_text (json_get ''jobId'' data) of
         Some s \<Rightarrow> Some s
       | None \<Rightarrow> json_text (json_get ''impoundRecordId'' data)))"

definition new_delivery ::
    "uuid \<Rightarrow> uuid \<Rightarrow> uuid \<Rightarrow> hook_event \<Rightarrow> string option \<Rightarrow> json \<Rightarrow> instant \<Rightarrow> delivery_row" where
  "new_delivery i t epId e eventId payload now = \<lparr>wd_id = i, wd_tenantId = t, wd_endpointId = epId,
     wd_eventType = e, wd_eventId = eventId, wd_payload = payload, wd_status = Wd_pending,
     wd_attempt = 0, wd_maxAttempts = DEFAULT_MAX_ATTEMPTS, wd_nextRetryAt = Some now,
     wd_responseCode = None, wd_responseBody = None, wd_lastError = None, wd_deliveredAt = None,
     wd_createdAt = now, wd_updatedAt = now, wd_deletedAt = None\<rparr>"

definition subscribed :: "uuid \<Rightarrow> hook_event \<Rightarrow> endpoint_row \<Rightarrow> bool" where
  "subscribed t e ep \<longleftrightarrow> ep_tenantId ep = t \<and> ep_active ep \<and> ep_deletedAt ep = None \<and> e \<in> set (ep_events ep)"

definition publish :: "uuid \<Rightarrow> hook_event \<Rightarrow> json \<Rightarrow> (nat \<Rightarrow> uuid) \<Rightarrow> instant \<Rightarrow> hook_db \<Rightarrow>
    exn + nat \<times> hook_db" where
  "publish t e data newIds now db =
    (let eps = select_where (subscribed t e) (endpoints db) in
     if eps = [] then Inr (0, db)
     else (let eventId = extractEventId data;
               rows = map (\<lambda>(k, ep). new_delivery (newIds k) t (ep_id ep) e eventId
                          (buildEnvelope (newIds k) e data now) now) (List.enumerate 0 eps)
           in attempt (insert_deliveries rows db) (\<lambda>db1. Inr (length rows, db1))))"

text \<open>The subscription of \<open>onModuleInit\<close>: events outside the catalogue are ignored, a failure is
  logged and swallowed.\<close>

definition hook_event_of :: "string \<Rightarrow> hook_event option" where
  "hook_event_of name = List.find (\<lambda>e. hook_event_name e = name) webhookEventTypeValues"

definition on_event :: "uuid \<Rightarrow> string \<Rightarrow> json \<Rightarrow> (nat \<Rightarrow> uuid) \<Rightarrow> instant \<Rightarrow> hook_db \<Rightarrow> hook_db" where
  "on_event t name data newIds now db =
    (case hook_event_of name of None \<Rightarrow> db | Some e \<Rightarrow> committed db (publish t e data newIds now db))"

section \<open>The delivery worker\<close>

definition MAX_RESPONSE_BODY :: nat where "MAX_RESPONSE_BODY = 2000"
definition BATCH_SIZE :: nat where "BATCH_SIZE = 100"

datatype http_answer = Answered int string | Unreachable string

record post_result =
  po_status :: "int option"
  po_body :: "string option"
  po_error :: "string option"

definition post_result_of :: "http_answer \<Rightarrow> post_result" where
  "post_result_of a = (case a of
      Answered s text \<Rightarrow> \<lparr>po_status = Some s, po_body = Some (take MAX_RESPONSE_BODY text), po_error = None\<rparr>
    | Unreachable e \<Rightarrow> \<lparr>po_status = None, po_body = None, po_error = Some (take MAX_RESPONSE_BODY e)\<rparr>)"

definition hook_request_of :: "platform \<Rightarrow> endpoint_row \<Rightarrow> string \<Rightarrow> delivery_row \<Rightarrow> instant \<Rightarrow> hook_request" where
  "hook_request_of pf ep secret d now =
    (let body = stringify (pf_jsonb pf (wd_payload d)); ts = now div 1000 in
     \<lparr>rq_endpointId = ep_id ep, rq_sentAt = now, rq_url = ep_url ep,
      rq_signature = buildSignatureHeader pf secret body ts,
      rq_deliveryId = uuid_text (wd_id d), rq_eventType = hook_event_name (wd_eventType d), rq_body = body\<rparr>)"

record delivery_patch =
  dp_status :: delivery_status
  dp_attempt :: int
  dp_nextRetryAt :: "instant option"
  dp_responseCode :: "int option"
  dp_responseBody :: "string option"
  dp_lastError :: "string option"
  dp_deliveredAt :: "instant option"

text \<open>The CHECK of 0037_public_api.sql on the attempt counter.\<close>

definition attempt_in_range :: "int \<Rightarrow> delivery_row \<Rightarrow> bool" where
  "attempt_in_range n d \<longleftrightarrow> 0 \<le> n \<and> n \<le> wd_maxAttempts d"

definition finalized :: "delivery_patch \<Rightarrow> instant \<Rightarrow> delivery_row \<Rightarrow> delivery_row" where
  "finalized p now d = d\<lparr>wd_status := dp_status p, wd_attempt := dp_attempt p,
     wd_nextRetryAt := dp_nextRetryAt p, wd_responseCode := dp_responseCode p,
     wd_responseBody := dp_responseBody p, wd_lastError := dp_lastError p,
     wd_deliveredAt := dp_deliveredAt p, wd_updatedAt := now\<rparr>"

definition finalize :: "uuid \<Rightarrow> delivery_patch \<Rightarrow> instant \<Rightarrow> hook_db \<Rightarrow> exn + hook_db" where
  "finalize i p now db =
    ensure (list_all (\<lambda>d. wd_id d = i \<longrightarrow> attempt_in_range (dp_attempt p) d) (deliveries db))
      (Failure ''webhook_deliveries_attempt_nonneg'')
      (Inr (db\<lparr>deliveries := update_where (\<lambda>d. wd_id d = i) (finalized p now) (deliveries db)\<rparr>))"

definition stampEndpoint :: "uuid \<Rightarrow> bool \<Rightarrow> instant \<Rightarrow> hook_db \<Rightarrow> hook_db" where
  "stampEndpoint i success now db = db\<lparr>endpoints := update_where (\<lambda>e. ep_id e = i)
     (\<lambda>e. if success then e\<lparr>ep_lastSuccessAt := Some now\<rparr> else e\<lparr>ep_lastFailureAt := Some now\<rparr>)
     (endpoints db)\<rparr>"

datatype attempt_outcome = Out_delivered | Out_retry | Out_failed | Out_skipped

definition delivered_patch :: "int \<Rightarrow> post_result \<Rightarrow> instant \<Rightarrow> delivery_patch" where
  "delivered_patch n r now = \<lparr>dp_status = Wd_delivered, dp_attempt = n, dp_nextRetryAt = None,
     dp_responseCode = po_status r, dp_responseBody = po_body r, dp_lastError = None,
     dp_deliveredAt = Some now\<rparr>"

definition refused_patch :: "int \<Rightarrow> post_result \<Rightarrow> retry_decision \<Rightarrow> delivery_patch" where
  "refused_patch n r decision = \<lparr>dp_status = if rd_exhausted decision then Wd_failed else Wd_pending,
     dp_attempt = n, dp_nextRetryAt = rd_nextRetryAt decision,
     dp_responseCode = po_status r, dp_responseBody = po_body r,
     dp_lastError = Some (case po_error r of Some e \<Rightarrow> e
       | None \<Rightarrow> (case po_status r of Some s \<Rightarrow> ''HTTP '' @ show_int s | None \<Rightarrow> ''no response'')),
     dp_deliveredAt = None\<rparr>"

definition orphaned_patch :: "int \<Rightarrow> delivery_patch" where
  "orphaned_patch n = \<lparr>dp_status = Wd_failed, dp_attempt = n, dp_nextRetryAt = None,
     dp_responseCode = None, dp_responseBody = None, dp_lastError = Some ''endpoint no longer exists'',
     dp_deliveredAt = None\<rparr>"

text \<open>Each write is a transaction of its own: what was written before a throw stays.\<close>

definition concluded :: "(exn + hook_db) \<Rightarrow> 'a \<Rightarrow> (hook_db \<Rightarrow> hook_db) \<Rightarrow> hook_db \<Rightarrow> (exn + 'a) \<times> hook_db" where
  "concluded r x k db = (case r of Inl e \<Rightarrow> (Inl e, db) | Inr db1 \<Rightarrow> (Inr x, k db1))"

definition post_and_record :: "platform \<Rightarrow> (hook_request \<Rightarrow> http_answer) \<Rightarrow> endpoint_row \<Rightarrow> string \<Rightarrow>
    delivery_row \<Rightarrow> instant \<Rightarrow> hook_db \<Rightarrow> (exn + attempt_outcome) \<times> hook_db" where
  "post_and_record pf net ep secret d now db =
    (let n = wd_attempt d + 1;
         rq = hook_request_of pf ep secret d now;
         db1 = db\<lparr>requests := requests db @ [rq]\<rparr>;
         r = post_result_of (net rq)
     in if isSuccessStatus (po_status r)
        then concluded (finalize (wd_id d) (delivered_patch n r now) now db1) Out_delivered
               (stampEndpoint (ep_id ep) True now) db1
        else (let decision = planRetry n (wd_maxAttempts d) now in
              concluded (finalize (wd_id d) (refused_patch n r decision) now db1)
                (if rd_exhausted decision then Out_failed else Out_retry)
                (stampEndpoint (ep_id ep) False now) db1))"

definition claim_delivery :: "uuid \<Rightarrow> instant \<Rightarrow> hook_db \<Rightarrow> delivery_row option \<times> hook_db" where
  "claim_delivery i now db =
    (case update_returning (\<lambda>d. wd_id d = i \<and> wd_status d = Wd_pending)
            (\<lambda>d. d\<lparr>wd_status := Wd_delivering, wd_updatedAt := now\<rparr>) (deliveries db) of
       (row, ds) \<Rightarrow> (row, db\<lparr>deliveries := ds\<rparr>))"

definition attempt_delivery :: "platform \<Rightarrow> (hook_request \<Rightarrow> http_answer) \<Rightarrow> uuid \<Rightarrow> instant \<Rightarrow> hook_db \<Rightarrow>
    (exn + attempt_outcome) \<times> hook_db" where
  "attempt_delivery pf net i now db =
    (case claim_delivery i now db of
       (None, db1) \<Rightarrow> (Inr Out_skipped, db1)
     | (Some d, db1) \<Rightarrow>
         (case select_first (live_endpoint (wd_endpointId d)) (endpoints db1) of
            None \<Rightarrow> concluded (finalize i (orphaned_patch (wd_attempt d + 1)) now db1) Out_failed id db1
          | Some ep \<Rightarrow>
              (case decrypt_secret pf (ep_secretEncrypted ep) of
                 Inl e \<Rightarrow> (Inl e, db1)
               | Inr secret \<Rightarrow> post_and_record pf net ep secret d now db1)))"

definition retryNow :: "platform \<Rightarrow> (hook_request \<Rightarrow> http_answer) \<Rightarrow> uuid \<Rightarrow> instant \<Rightarrow> hook_db \<Rightarrow>
    (exn + attempt_outcome) \<times> hook_db" where
  "retryNow pf net i now db =
    attempt_delivery pf net i now
      (db\<lparr>deliveries := update_where (\<lambda>d. wd_id d = i \<and> wd_deletedAt d = None)
         (\<lambda>d. d\<lparr>wd_status := Wd_pending, wd_nextRetryAt := Some now, wd_updatedAt := now\<rparr>) (deliveries db)\<rparr>)"

record sweep_result =
  sw_claimed :: nat
  sw_delivered :: nat
  sw_failed :: nat
  sw_retried :: nat

definition tally :: "attempt_outcome \<Rightarrow> sweep_result \<Rightarrow> sweep_result" where
  "tally out r = (case out of
      Out_delivered \<Rightarrow> r\<lparr>sw_delivered := sw_delivered r + 1, sw_claimed := sw_claimed r + 1\<rparr>
    | Out_failed \<Rightarrow> r\<lparr>sw_failed := sw_failed r + 1, sw_claimed := sw_claimed r + 1\<rparr>
    | Out_retry \<Rightarrow> r\<lparr>sw_retried := sw_retried r + 1, sw_claimed := sw_claimed r + 1\<rparr>
    | Out_skipped \<Rightarrow> r)"

definition due_delivery :: "instant \<Rightarrow> delivery_row \<Rightarrow> bool" where
  "due_delivery now d \<longleftrightarrow> wd_status d = Wd_pending \<and> wd_deletedAt d = None
     \<and> (case wd_nextRetryAt d of None \<Rightarrow> False | Some t \<Rightarrow> t \<le> now)"

definition due_batch :: "instant \<Rightarrow> hook_db \<Rightarrow> uuid list" where
  "due_batch now db = map wd_id (take BATCH_SIZE
     (sort_key (\<lambda>d. the (wd_nextRetryAt d)) (select_where (due_delivery now) (deliveries db))))"

definition sweep_one :: "platform \<Rightarrow> (hook_request \<Rightarrow> http_answer) \<Rightarrow> instant \<Rightarrow> uuid \<Rightarrow>
    sweep_result \<times> hook_db \<Rightarrow> sweep_result \<times> hook_db" where
  "sweep_one pf net now i acc = (case attempt_delivery pf net i now (snd acc) of
      (Inl _, db1) \<Rightarrow> (fst acc, db1)
    | (Inr out, db1) \<Rightarrow> (tally out (fst acc), db1))"

definition sweep :: "platform \<Rightarrow> (hook_request \<Rightarrow> http_answer) \<Rightarrow> instant \<Rightarrow> hook_db \<Rightarrow> sweep_result \<times> hook_db" where
  "sweep pf net now db = fold (sweep_one pf net now) (due_batch now db)
     (\<lparr>sw_claimed = 0, sw_delivered = 0, sw_failed = 0, sw_retried = 0\<rparr>, db)"

text \<open>The cron of webhook-delivery.cron.ts: off by flag, and no overlap with a running sweep.\<close>

definition cronTick :: "bool \<Rightarrow> bool \<Rightarrow> platform \<Rightarrow> (hook_request \<Rightarrow> http_answer) \<Rightarrow> instant \<Rightarrow> hook_db \<Rightarrow>
    sweep_result option \<times> hook_db" where
  "cronTick deliveryEnabled running pf net now db =
    (if \<not> deliveryEnabled \<or> running then (None, db)
     else (case sweep pf net now db of (r, db1) \<Rightarrow> (Some r, db1)))"

section \<open>The operator's handlers\<close>

record endpoint_dto =
  ed_id :: uuid
  ed_tenantId :: uuid
  ed_url :: string
  ed_description :: "string option"
  ed_events :: "hook_event list"
  ed_active :: bool
  ed_createdBy :: uuid
  ed_lastSuccessAt :: "string option"
  ed_lastFailureAt :: "string option"
  ed_createdAt :: string
  ed_updatedAt :: string

definition toEndpointDto :: "endpoint_row \<Rightarrow> endpoint_dto" where
  "toEndpointDto e = \<lparr>ed_id = ep_id e, ed_tenantId = ep_tenantId e, ed_url = ep_url e,
     ed_description = ep_description e, ed_events = ep_events e, ed_active = ep_active e,
     ed_createdBy = ep_createdBy e, ed_lastSuccessAt = map_option toISOString (ep_lastSuccessAt e),
     ed_lastFailureAt = map_option toISOString (ep_lastFailureAt e),
     ed_createdAt = toISOString (ep_createdAt e), ed_updatedAt = toISOString (ep_updatedAt e)\<rparr>"

record delivery_dto =
  dd_id :: uuid
  dd_tenantId :: uuid
  dd_endpointId :: uuid
  dd_eventType :: hook_event
  dd_eventId :: "string option"
  dd_payload :: json
  dd_status :: delivery_status
  dd_attempt :: int
  dd_maxAttempts :: int
  dd_nextRetryAt :: "string option"
  dd_responseCode :: "int option"
  dd_responseBody :: "string option"
  dd_lastError :: "string option"
  dd_deliveredAt :: "string option"
  dd_createdAt :: string
  dd_updatedAt :: string

definition toDeliveryDto :: "delivery_row \<Rightarrow> delivery_dto" where
  "toDeliveryDto d = \<lparr>dd_id = wd_id d, dd_tenantId = wd_tenantId d, dd_endpointId = wd_endpointId d,
     dd_eventType = wd_eventType d, dd_eventId = wd_eventId d, dd_payload = wd_payload d,
     dd_status = wd_status d, dd_attempt = wd_attempt d, dd_maxAttempts = wd_maxAttempts d,
     dd_nextRetryAt = map_option toISOString (wd_nextRetryAt d), dd_responseCode = wd_responseCode d,
     dd_responseBody = wd_responseBody d, dd_lastError = wd_lastError d,
     dd_deliveredAt = map_option toISOString (wd_deliveredAt d),
     dd_createdAt = toISOString (wd_createdAt d), dd_updatedAt = toISOString (wd_updatedAt d)\<rparr>"

definition hook_not_found :: exn where
  "hook_not_found = NotFound ''Webhook endpoint not found''"

text \<open>The payload schemas of packages/shared, as the controllers check them.\<close>

definition httpsUrl :: "string \<Rightarrow> bool" where
  "httpsUrl u \<longleftrightarrow> take 8 u = ''https://'' \<and> length u \<le> 2048"

definition hook_events_ok :: "hook_event list \<Rightarrow> bool" where
  "hook_events_ok es \<longleftrightarrow> 1 \<le> length es \<and> length es \<le> length webhookEventTypeValues"

record create_endpoint_input =
  ce_url :: string
  ce_description :: "string option"
  ce_events :: "hook_event list"

definition createWebhookEndpointSchema :: "create_endpoint_input \<Rightarrow> bool" where
  "createWebhookEndpointSchema i \<longleftrightarrow> httpsUrl (ce_url i)
     \<and> (\<forall>s \<in> set_option (ce_description i). length s \<le> 500) \<and> hook_events_ok (ce_events i)"

record update_endpoint_input =
  ue_url :: "string option"
  ue_description :: "string option option"
  ue_events :: "hook_event list option"
  ue_active :: "bool option"

definition updateWebhookEndpointSchema :: "update_endpoint_input \<Rightarrow> bool" where
  "updateWebhookEndpointSchema i \<longleftrightarrow> (\<forall>u \<in> set_option (ue_url i). httpsUrl u)
     \<and> (\<forall>s \<in> set_option (ue_description i). \<forall>t \<in> set_option s. length t \<le> 500)
     \<and> (\<forall>es \<in> set_option (ue_events i). hook_events_ok es)"

definition listEndpoints :: "ctx \<Rightarrow> hook_db \<Rightarrow> endpoint_dto list" where
  "listEndpoints ctx db = map toEndpointDto (sort_key (\<lambda>e. - ep_createdAt e)
     (select_where (\<lambda>e. ep_tenantId e = ctx_tenantId ctx \<and> ep_deletedAt e = None) (endpoints db)))"

definition new_endpoint :: "ctx \<Rightarrow> create_endpoint_input \<Rightarrow> string \<Rightarrow> uuid \<Rightarrow> instant \<Rightarrow> endpoint_row" where
  "new_endpoint ctx input sealed i now = \<lparr>ep_id = i, ep_tenantId = ctx_tenantId ctx, ep_url = ce_url input,
     ep_description = ce_description input, ep_secretEncrypted = sealed, ep_events = ce_events input,
     ep_active = True, ep_createdBy = ctx_userId ctx, ep_lastSuccessAt = None, ep_lastFailureAt = None,
     ep_createdAt = now, ep_updatedAt = now, ep_deletedAt = None\<rparr>"

definition createEndpoint :: "platform \<Rightarrow> ctx \<Rightarrow> create_endpoint_input \<Rightarrow> nat list \<Rightarrow> nat list \<Rightarrow> uuid \<Rightarrow>
    instant \<Rightarrow> hook_db \<Rightarrow> exn + (endpoint_dto \<times> string) \<times> hook_db" where
  "createEndpoint pf ctx input rnd iv newId now db =
    (let signingSecret = generateSecret rnd;
         row = new_endpoint ctx input (encrypt_secret pf iv signingSecret) newId now
     in attempt (insert_endpoint row db) (\<lambda>db1. Inr ((toEndpointDto row, signingSecret), db1)))"

definition patch_endpoint :: "update_endpoint_input \<Rightarrow> instant \<Rightarrow> endpoint_row \<Rightarrow> endpoint_row" where
  "patch_endpoint i now e = e\<lparr>ep_url := patched (ue_url i) (ep_url e),
     ep_description := patched (ue_description i) (ep_description e),
     ep_events := patched (ue_events i) (ep_events e), ep_active := patched (ue_active i) (ep_active e),
     ep_updatedAt := now\<rparr>"

definition updateEndpoint :: "ctx \<Rightarrow> uuid \<Rightarrow> update_endpoint_input \<Rightarrow> instant \<Rightarrow> hook_db \<Rightarrow>
    exn + endpoint_dto \<times> hook_db" where
  "updateEndpoint ctx i input now db =
    require (select_first (own_endpoint (ctx_tenantId ctx) i) (endpoints db)) hook_not_found (\<lambda>_.
      (case update_returning (\<lambda>e. ep_tenantId e = ctx_tenantId ctx \<and> ep_id e = i)
              (patch_endpoint input now) (endpoints db) of
         (row, es) \<Rightarrow> require row hook_not_found (\<lambda>e. Inr (toEndpointDto e, db\<lparr>endpoints := es\<rparr>))))"

definition deleteEndpoint :: "ctx \<Rightarrow> uuid \<Rightarrow> instant \<Rightarrow> hook_db \<Rightarrow> exn + unit \<times> hook_db" where
  "deleteEndpoint ctx i now db =
    (case update_returning (own_endpoint (ctx_tenantId ctx) i)
            (\<lambda>e. e\<lparr>ep_deletedAt := Some now, ep_updatedAt := now, ep_active := False\<rparr>) (endpoints db) of
       (row, es) \<Rightarrow> require row hook_not_found (\<lambda>_. Inr ((), db\<lparr>endpoints := es\<rparr>)))"

definition DELIVERY_LOG_LIMIT :: nat where "DELIVERY_LOG_LIMIT = 100"

definition listDeliveries :: "ctx \<Rightarrow> uuid \<Rightarrow> hook_db \<Rightarrow> exn + delivery_dto list" where
  "listDeliveries ctx i db =
    require (select_first (own_endpoint (ctx_tenantId ctx) i) (endpoints db)) hook_not_found (\<lambda>_.
      Inr (map toDeliveryDto (take DELIVERY_LOG_LIMIT (sort_key (\<lambda>d. - wd_createdAt d)
        (select_where (\<lambda>d. wd_tenantId d = ctx_tenantId ctx \<and> wd_endpointId d = i \<and> wd_deletedAt d = None)
          (deliveries db))))))"

definition getDelivery :: "ctx \<Rightarrow> uuid \<Rightarrow> hook_db \<Rightarrow> exn + delivery_dto" where
  "getDelivery ctx i db =
    require (select_first (own_delivery (ctx_tenantId ctx) i) (deliveries db)) hook_not_found
      (\<lambda>d. Inr (toDeliveryDto d))"

text \<open>The test and retry buttons hand the delivery to the worker after their own transaction.\<close>

definition attempted_by_hand :: "platform \<Rightarrow> (hook_request \<Rightarrow> http_answer) \<Rightarrow> ctx \<Rightarrow> uuid \<Rightarrow> instant \<Rightarrow>
    hook_db \<Rightarrow> (exn + delivery_dto) \<times> hook_db" where
  "attempted_by_hand pf net ctx i now db = (case retryNow pf net i now db of
      (Inl e, db1) \<Rightarrow> (Inl e, db1) | (Inr _, db1) \<Rightarrow> (getDelivery ctx i db1, db1))"

definition test_delivery :: "ctx \<Rightarrow> endpoint_row \<Rightarrow> uuid \<Rightarrow> instant \<Rightarrow> delivery_row" where
  "test_delivery ctx ep i now =
    (let e = (case ep_events ep of [] \<Rightarrow> Hook_job_created | e # _ \<Rightarrow> e) in
     new_delivery i (ctx_tenantId ctx) (ep_id ep) e None
       (buildEnvelope i e (JObj [(''test'', JBool True),
          (''message'', JStr ''Test delivery from US Tow Dispatch'')]) now) now)"

definition testSend :: "platform \<Rightarrow> (hook_request \<Rightarrow> http_answer) \<Rightarrow> ctx \<Rightarrow> uuid \<Rightarrow> uuid \<Rightarrow> instant \<Rightarrow>
    hook_db \<Rightarrow> (exn + delivery_dto) \<times> hook_db" where
  "testSend pf net ctx epId newId now db =
    (case require (select_first (own_endpoint (ctx_tenantId ctx) epId) (endpoints db)) hook_not_found
            (\<lambda>ep. insert_delivery (test_delivery ctx ep newId now) db) of
       Inl e \<Rightarrow> (Inl e, db)
     | Inr db1 \<Rightarrow> attempted_by_hand pf net ctx newId now db1)"

definition retryDelivery :: "platform \<Rightarrow> (hook_request \<Rightarrow> http_answer) \<Rightarrow> ctx \<Rightarrow> uuid \<Rightarrow> instant \<Rightarrow>
    hook_db \<Rightarrow> (exn + delivery_dto) \<times> hook_db" where
  "retryDelivery pf net ctx i now db =
    (case select_first (own_delivery (ctx_tenantId ctx) i) (deliveries db) of
       None \<Rightarrow> (Inl hook_not_found, db)
     | Some _ \<Rightarrow> attempted_by_hand pf net ctx i now db)"

section \<open>The component as a machine\<close>

text \<open>Everything that reaches the tables: the operator's requests (their payload checked by the
  controller), domain events, and the sweep.  A handler that throws leaves what its transactions
  committed.\<close>

datatype hook_op =
    Create_endpoint ctx create_endpoint_input "nat list" "nat list" uuid instant
  | Update_endpoint ctx uuid update_endpoint_input instant
  | Delete_endpoint ctx uuid instant
  | Event uuid string json "nat \<Rightarrow> uuid" instant
  | Test_send ctx uuid uuid instant "hook_request \<Rightarrow> http_answer"
  | Retry_delivery ctx uuid instant "hook_request \<Rightarrow> http_answer"
  | Sweep instant "hook_request \<Rightarrow> http_answer"

fun hook_step :: "platform \<Rightarrow> hook_op \<Rightarrow> hook_db \<Rightarrow> hook_db" where
  "hook_step pf (Create_endpoint ctx input rnd iv newId now) db =
    (if createWebhookEndpointSchema input
     then committed db (createEndpoint pf ctx input rnd iv newId now db) else db)"
| "hook_step pf (Update_endpoint ctx i input now) db =
    (if updateWebhookEndpointSchema input then committed db (updateEndpoint ctx i input now db) else db)"
| "hook_step pf (Delete_endpoint ctx i now) db = committed db (deleteEndpoint ctx i now db)"
| "hook_step pf (Event t name data newIds now) db = on_event t name data newIds now db"
| "hook_step pf (Test_send ctx epId newId now net) db = snd (testSend pf net ctx epId newId now db)"
| "hook_step pf (Retry_delivery ctx i now net) db = snd (retryDelivery pf net ctx i now db)"
| "hook_step pf (Sweep now net) db = snd (sweep pf net now db)"

end
