(* ===== verification/WebhookInv.thy ===== *)
theory WebhookInv
  imports Webhooks
begin

text \<open>
  What every row of webhook_endpoints and webhook_deliveries looks like, whatever the operators, the
  domain events, the sweep and the network did: unique keys, valid URLs and subscriptions, a deleted
  endpoint inactive, an attempt counter within the CHECK of the table, the delivery addressed to an
  endpoint of its own tenant and carrying its own id, and the columns that belong to its status.  A
  delivery in status delivering is between two transactions of the worker and promises nothing.
\<close>

section \<open>Well-formed rows\<close>

definition endpoint_ok :: "endpoint_row \<Rightarrow> bool" where
  "endpoint_ok e \<longleftrightarrow> httpsUrl (ep_url e) \<and> hook_events_ok (ep_events e)
     \<and> (ep_deletedAt e \<noteq> None \<longrightarrow> \<not> ep_active e)"

definition status_columns :: "delivery_row \<Rightarrow> bool" where
  "status_columns d = (case wd_status d of
      Wd_pending \<Rightarrow> wd_attempt d < wd_maxAttempts d \<and> wd_nextRetryAt d \<noteq> None \<and> wd_deliveredAt d = None
    | Wd_delivering \<Rightarrow> True
    | Wd_delivered \<Rightarrow> 1 \<le> wd_attempt d \<and> wd_nextRetryAt d = None \<and> wd_deliveredAt d \<noteq> None
        \<and> isSuccessStatus (wd_responseCode d) \<and> wd_lastError d = None
    | Wd_failed \<Rightarrow> 1 \<le> wd_attempt d \<and> wd_nextRetryAt d = None \<and> wd_deliveredAt d = None
        \<and> \<not> isSuccessStatus (wd_responseCode d) \<and> wd_lastError d \<noteq> None)"

definition endpoint_keys :: "hook_db \<Rightarrow> (uuid \<times> uuid) list" where
  "endpoint_keys db = map (\<lambda>e. (ep_id e, ep_tenantId e)) (endpoints db)"

definition delivery_core :: "hook_db \<Rightarrow> delivery_row \<Rightarrow> bool" where
  "delivery_core db d \<longleftrightarrow> 0 \<le> wd_attempt d \<and> wd_attempt d \<le> wd_maxAttempts d
     \<and> wd_maxAttempts d = DEFAULT_MAX_ATTEMPTS \<and> wd_deletedAt d = None
     \<and> (wd_endpointId d, wd_tenantId d) \<in> set (endpoint_keys db)
     \<and> json_get ''id'' (wd_payload d) = Some (JStr (uuid_text (wd_id d)))
     \<and> json_get ''type'' (wd_payload d) = Some (JStr (hook_event_name (wd_eventType d)))"

definition typed_hook_db :: "hook_db \<Rightarrow> bool" where
  "typed_hook_db db \<longleftrightarrow> distinct (map ep_id (endpoints db)) \<and> distinct (map wd_id (deliveries db))
     \<and> (\<forall>e \<in> set (endpoints db). endpoint_ok e)
     \<and> (\<forall>d \<in> set (deliveries db). delivery_core db d \<and> status_columns d)"

text \<open>The same with the status columns of delivery \<open>i\<close> left open: the state in which the worker
  picks it up.\<close>

definition typed_but :: "uuid \<Rightarrow> hook_db \<Rightarrow> bool" where
  "typed_but i db \<longleftrightarrow> distinct (map ep_id (endpoints db)) \<and> distinct (map wd_id (deliveries db))
     \<and> (\<forall>e \<in> set (endpoints db). endpoint_ok e)
     \<and> (\<forall>d \<in> set (deliveries db). delivery_core db d
          \<and> (status_columns d \<or> wd_id d = i \<and> wd_status d = Wd_pending))"

lemma delivery_core_keys:
  assumes "endpoint_keys db' = endpoint_keys db"
  shows "delivery_core db' = delivery_core db"
  using assms by (simp add: delivery_core_def fun_eq_iff)

lemma delivery_core_frame [simp]:
  "delivery_core (db\<lparr>deliveries := ds\<rparr>) = delivery_core db"
  "delivery_core (db\<lparr>requests := rs\<rparr>) = delivery_core db"
  by (rule delivery_core_keys, simp add: endpoint_keys_def)+

lemma typed_typed_but: "typed_hook_db db \<Longrightarrow> typed_but i db"
  by (auto simp: typed_hook_db_def typed_but_def)

lemma typed_endpoints_only:
  assumes "typed_hook_db db" "endpoint_keys db' = endpoint_keys db" "deliveries db' = deliveries db"
    "\<forall>e \<in> set (endpoints db'). endpoint_ok e"
  shows "typed_hook_db db'"
proof -
  have "map ep_id (endpoints db') = map fst (endpoint_keys db')"
    "map ep_id (endpoints db) = map fst (endpoint_keys db)"
    by (simp_all add: endpoint_keys_def)
  with assms show ?thesis by (auto simp: typed_hook_db_def delivery_core_def)
qed

lemma typed_delivery_updated:
  assumes "typed_hook_db db" "\<And>d. wd_id (f d) = wd_id d"
    "\<And>d. d \<in> set (deliveries db) \<Longrightarrow> P d \<Longrightarrow> delivery_core db d \<Longrightarrow> delivery_core db (f d) \<and> status_columns (f d)"
  shows "typed_hook_db (db\<lparr>deliveries := update_where P f (deliveries db)\<rparr>)"
  using assms by (auto simp: typed_hook_db_def map_update_where dest!: in_update_where)

section \<open>The worker\<close>

lemma claim_typed:
  assumes t: "typed_but i db" and c: "claim_delivery i now db = (row, db1)"
  shows "typed_hook_db db1"
proof -
  have dist: "distinct (map wd_id (deliveries db1))"
    using t c by (auto simp: typed_but_def claim_delivery_def update_returning_def map_update_where)
  have eps: "endpoints db1 = endpoints db"
    using c by (auto simp: claim_delivery_def update_returning_def)
  have core: "delivery_core db1 = delivery_core db"
    by (rule delivery_core_keys) (simp add: endpoint_keys_def eps)
  have rows: "delivery_core db d \<and> status_columns d" if "d \<in> set (deliveries db1)" for d
  proof -
    have "d \<in> set (update_where (\<lambda>d. wd_id d = i \<and> wd_status d = Wd_pending)
        (\<lambda>d. d\<lparr>wd_status := Wd_delivering, wd_updatedAt := now\<rparr>) (deliveries db))"
      using that c by (auto simp: claim_delivery_def update_returning_def)
    then consider "d \<in> set (deliveries db)" "\<not> (wd_id d = i \<and> wd_status d = Wd_pending)"
      | d0 where "d0 \<in> set (deliveries db)" "d = d0\<lparr>wd_status := Wd_delivering, wd_updatedAt := now\<rparr>"
      by (auto dest!: in_update_where)
    then show ?thesis
    proof cases
      case 1
      then show ?thesis using t by (auto simp: typed_but_def)
    next
      case 2
      then show ?thesis using t by (auto simp: typed_but_def delivery_core_def status_columns_def)
    qed
  qed
  show ?thesis using t dist eps rows by (auto simp: typed_hook_db_def typed_but_def core)
qed

definition patch_ok :: "delivery_patch \<Rightarrow> bool" where
  "patch_ok p = (case dp_status p of
      Wd_pending \<Rightarrow> dp_attempt p < DEFAULT_MAX_ATTEMPTS \<and> dp_nextRetryAt p \<noteq> None \<and> dp_deliveredAt p = None
    | Wd_delivering \<Rightarrow> True
    | Wd_delivered \<Rightarrow> 1 \<le> dp_attempt p \<and> dp_nextRetryAt p = None \<and> dp_deliveredAt p \<noteq> None
        \<and> isSuccessStatus (dp_responseCode p) \<and> dp_lastError p = None
    | Wd_failed \<Rightarrow> 1 \<le> dp_attempt p \<and> dp_nextRetryAt p = None \<and> dp_deliveredAt p = None
        \<and> \<not> isSuccessStatus (dp_responseCode p) \<and> dp_lastError p \<noteq> None)"

lemma finalize_typed:
  assumes "typed_hook_db db" "finalize i p now db = Inr db1" "patch_ok p"
  shows "typed_hook_db db1"
  using assms
  by (auto simp: finalize_def finalized_def attempt_in_range_def list_all_iff delivery_core_def patch_ok_def
      status_columns_def intro!: typed_delivery_updated split: delivery_status.splits)

lemma keys_update:
  assumes "\<And>e. P e \<Longrightarrow> ep_id (f e) = ep_id e \<and> ep_tenantId (f e) = ep_tenantId e"
  shows "endpoint_keys (db\<lparr>endpoints := update_where P f (endpoints db)\<rparr>) = endpoint_keys db"
  using assms by (simp add: endpoint_keys_def map_update_where)

lemma typed_endpoint_updated:
  assumes "typed_hook_db db"
    "\<And>e. P e \<Longrightarrow> ep_id (f e) = ep_id e \<and> ep_tenantId (f e) = ep_tenantId e"
    "\<And>e. e \<in> set (endpoints db) \<Longrightarrow> P e \<Longrightarrow> endpoint_ok e \<Longrightarrow> endpoint_ok (f e)"
  shows "typed_hook_db (db\<lparr>endpoints := update_where P f (endpoints db)\<rparr>)"
proof (rule typed_endpoints_only [OF assms(1)])
  show "endpoint_keys (db\<lparr>endpoints := update_where P f (endpoints db)\<rparr>) = endpoint_keys db"
    using assms(2) by (rule keys_update)
  show "\<forall>e \<in> set (endpoints (db\<lparr>endpoints := update_where P f (endpoints db)\<rparr>)). endpoint_ok e"
    using assms(1,3) by (auto simp: typed_hook_db_def dest!: in_update_where)
qed simp

lemma stamp_typed: "typed_hook_db db \<Longrightarrow> typed_hook_db (stampEndpoint i ok now db)"
  unfolding stampEndpoint_def by (rule typed_endpoint_updated) (auto simp: endpoint_ok_def)

lemma requests_typed [simp]: "typed_hook_db (db\<lparr>requests := rs\<rparr>) \<longleftrightarrow> typed_hook_db db"
  by (simp add: typed_hook_db_def delivery_core_def endpoint_keys_def)

lemma concluded_typed:
  assumes "typed_hook_db db" "patch_ok p" "\<And>db'. typed_hook_db db' \<Longrightarrow> typed_hook_db (k db')"
  shows "typed_hook_db (snd (concluded (finalize i p now db) x k db))"
  using assms finalize_typed by (auto simp: concluded_def split: sum.split)

lemma orphaned_ok: "0 \<le> n \<Longrightarrow> patch_ok (orphaned_patch (n + 1))"
  by (simp add: patch_ok_def orphaned_patch_def isSuccessStatus_def)

lemma delivered_ok: "0 \<le> n \<Longrightarrow> isSuccessStatus (po_status r) \<Longrightarrow> patch_ok (delivered_patch (n + 1) r now)"
  by (simp add: patch_ok_def delivered_patch_def)

lemma refused_ok:
  "0 \<le> n \<Longrightarrow> \<not> isSuccessStatus (po_status r) \<Longrightarrow>
    patch_ok (refused_patch (n + 1) r (planRetry (n + 1) DEFAULT_MAX_ATTEMPTS now))"
  by (simp add: patch_ok_def refused_patch_def planRetry_def Let_def)

lemma claimed_row:
  assumes "typed_but i db" "claim_delivery i now db = (Some d, db1)"
  shows "wd_id d = i" "d \<in> set (deliveries db1)" "0 \<le> wd_attempt d" "wd_maxAttempts d = DEFAULT_MAX_ATTEMPTS"
proof -
  obtain d0 where d0: "select_first (\<lambda>d. wd_id d = i \<and> wd_status d = Wd_pending) (deliveries db) = Some d0"
    "d = d0\<lparr>wd_status := Wd_delivering, wd_updatedAt := now\<rparr>"
    and db1: "deliveries db1 = update_where (\<lambda>d. wd_id d = i \<and> wd_status d = Wd_pending)
      (\<lambda>d. d\<lparr>wd_status := Wd_delivering, wd_updatedAt := now\<rparr>) (deliveries db)"
    using assms(2) by (auto simp: claim_delivery_def update_returning_def)
  note d0' = select_first_SomeD [OF d0(1)]
  show "wd_id d = i" using d0' d0(2) by simp
  show "d \<in> set (deliveries db1)" using d0' d0(2) by (auto simp: db1 set_update_where)
  show "0 \<le> wd_attempt d" "wd_maxAttempts d = DEFAULT_MAX_ATTEMPTS"
    using assms(1) d0' d0(2) by (auto simp: typed_but_def delivery_core_def)
qed

lemma post_typed:
  assumes "typed_hook_db db" "0 \<le> wd_attempt d" "wd_maxAttempts d = DEFAULT_MAX_ATTEMPTS"
  shows "typed_hook_db (snd (post_and_record pf net ep secret d now db))"
  using assms
  by (auto simp: post_and_record_def Let_def intro!: concluded_typed delivered_ok refused_ok stamp_typed)

lemma attempt_typed:
  assumes "typed_but i db"
  shows "typed_hook_db (snd (attempt_delivery pf net i now db))"
proof (cases "claim_delivery i now db")
  case (Pair row db1)
  note t = claim_typed [OF assms Pair]
  show ?thesis
  proof (cases row)
    case None
    then show ?thesis using t Pair by (simp add: attempt_delivery_def)
  next
    case (Some d)
    note d = claimed_row [OF assms Pair [unfolded Some]]
    show ?thesis
      using t d Pair Some
      by (auto simp: attempt_delivery_def intro!: concluded_typed orphaned_ok post_typed split: option.split sum.split)
  qed
qed

lemma retryNow_typed:
  assumes t: "typed_hook_db db"
  shows "typed_hook_db (snd (retryNow pf net i now db))"
  unfolding retryNow_def
proof (rule attempt_typed)
  show "typed_but i (db\<lparr>deliveries := update_where (\<lambda>d. wd_id d = i \<and> wd_deletedAt d = None)
      (\<lambda>d. d\<lparr>wd_status := Wd_pending, wd_nextRetryAt := Some now, wd_updatedAt := now\<rparr>) (deliveries db)\<rparr>)"
    using t by (auto simp: typed_but_def typed_hook_db_def delivery_core_def endpoint_keys_def map_update_where
        dest!: in_update_where)
qed

lemma sweep_typed:
  assumes "typed_hook_db db"
  shows "typed_hook_db (snd (sweep pf net now db))"
proof -
  have "typed_hook_db (snd acc) \<Longrightarrow> typed_hook_db (snd (fold (sweep_one pf net now) is acc))" for "is" acc
  proof (induction "is" arbitrary: acc)
    case (Cons i "is")
    have "snd (sweep_one pf net now i acc) = snd (attempt_delivery pf net i now (snd acc))"
      by (auto simp: sweep_one_def split: prod.split sum.split)
    then show ?case
      using Cons attempt_typed [OF typed_typed_but [OF Cons.prems], of pf net i now] by simp
  qed simp
  then show ?thesis using assms by (simp add: sweep_def)
qed

section \<open>Handlers and events\<close>

lemma insert_endpoint_typed:
  assumes "typed_hook_db db" "insert_endpoint e db = Inr db1" "endpoint_ok e"
  shows "typed_hook_db db1"
  using assms
  by (auto simp: insert_endpoint_def typed_hook_db_def delivery_core_def endpoint_keys_def insert_into_def)

lemma insert_delivery_typed:
  assumes "typed_hook_db db" "insert_delivery d db = Inr db1" "delivery_core db d" "status_columns d"
  shows "typed_hook_db db1 \<and> endpoint_keys db1 = endpoint_keys db"
  using assms
  by (auto simp: insert_delivery_def typed_hook_db_def delivery_core_def endpoint_keys_def insert_into_def)

lemma insert_deliveries_typed:
  assumes "typed_hook_db db" "insert_deliveries ds db = Inr db1"
    "\<forall>d \<in> set ds. delivery_core db d \<and> status_columns d"
  shows "typed_hook_db db1"
  using assms
proof (induction ds arbitrary: db)
  case (Cons d ds)
  obtain db2 where db2: "insert_delivery d db = Inr db2" "insert_deliveries ds db2 = Inr db1"
    using Cons.prems(2) by auto
  have "typed_hook_db db2" "endpoint_keys db2 = endpoint_keys db"
    using insert_delivery_typed [OF Cons.prems(1) db2(1)] Cons.prems(3) by auto
  moreover have "\<forall>d \<in> set ds. delivery_core db2 d \<and> status_columns d"
    using Cons.prems(3) delivery_core_keys [OF calculation(2)] by simp
  ultimately show ?case using Cons.IH [OF _ db2(2)] by simp
qed simp

lemma new_delivery_ok:
  assumes "(epId, t) \<in> set (endpoint_keys db)"
  shows "delivery_core db (new_delivery i t epId e eventId (buildEnvelope i e data now) now)
    \<and> status_columns (new_delivery i t epId e eventId (buildEnvelope i e data now) now)"
  using assms
  by (simp add: delivery_core_def status_columns_def new_delivery_def buildEnvelope_def DEFAULT_MAX_ATTEMPTS_def)

lemma publish_typed:
  assumes "typed_hook_db db" "publish t e data newIds now db = Inr (n, db1)"
  shows "typed_hook_db db1"
proof (cases "select_where (subscribed t e) (endpoints db) = []")
  case True
  then show ?thesis using assms by (simp add: publish_def)
next
  case False
  let ?eps = "select_where (subscribed t e) (endpoints db)"
  let ?rows = "map (\<lambda>(k, ep). new_delivery (newIds k) t (ep_id ep) e (extractEventId data)
      (buildEnvelope (newIds k) e data now) now) (List.enumerate 0 ?eps)"
  have "insert_deliveries ?rows db = Inr db1"
    using assms(2) False by (simp add: publish_def Let_def)
  moreover have "\<forall>d \<in> set ?rows. delivery_core db d \<and> status_columns d"
  proof (clarsimp)
    fix k ep assume "(k, ep) \<in> set (List.enumerate 0 ?eps)"
    then have "ep \<in> set ?eps" by (auto simp: in_set_enumerate_eq simp del: set_select_where)
    then have "(ep_id ep, t) \<in> set (endpoint_keys db)"
      by (auto simp: subscribed_def endpoint_keys_def)
    then show "delivery_core db (new_delivery (newIds k) t (ep_id ep) e (extractEventId data)
          (buildEnvelope (newIds k) e data now) now)
        \<and> status_columns (new_delivery (newIds k) t (ep_id ep) e (extractEventId data)
          (buildEnvelope (newIds k) e data now) now)"
      by (rule new_delivery_ok)
  qed
  ultimately show ?thesis using insert_deliveries_typed assms(1) by blast
qed

lemma committed_typed:
  assumes "typed_hook_db db" "\<And>x db1. r = Inr (x, db1) \<Longrightarrow> typed_hook_db db1"
  shows "typed_hook_db (committed db r)"
  using assms by (auto simp: committed_def split: sum.split)

lemma createEndpoint_typed:
  assumes "typed_hook_db db" "createWebhookEndpointSchema input"
    "createEndpoint pf ctx input rnd iv newId now db = Inr (x, db1)"
  shows "typed_hook_db db1"
  using assms
  by (auto simp: createEndpoint_def Let_def createWebhookEndpointSchema_def new_endpoint_def endpoint_ok_def
      intro: insert_endpoint_typed)

lemma updateEndpoint_typed:
  assumes t: "typed_hook_db db" and v: "updateWebhookEndpointSchema input"
    and u: "updateEndpoint ctx i input now db = Inr (x, db1)"
  shows "typed_hook_db db1"
proof -
  let ?P = "\<lambda>e. ep_tenantId e = ctx_tenantId ctx \<and> ep_id e = i"
  obtain e0 where e0: "own_endpoint (ctx_tenantId ctx) i e0" "e0 \<in> set (endpoints db)"
    using u select_first_SomeD by (fastforce simp: updateEndpoint_def)
  have db1: "db1 = db\<lparr>endpoints := update_where ?P (patch_endpoint input now) (endpoints db)\<rparr>"
    using u by (auto simp: updateEndpoint_def update_returning_def)
  have live: "ep_deletedAt e = None" if "e \<in> set (endpoints db)" "?P e" for e
  proof -
    have "inj_on ep_id (set (endpoints db))" using t by (simp add: typed_hook_db_def distinct_map)
    then have "e = e0" using that e0 by (auto simp: own_endpoint_def live_endpoint_def dest: inj_onD)
    then show ?thesis using e0 by (simp add: own_endpoint_def live_endpoint_def)
  qed
  show ?thesis
    unfolding db1
  proof (rule typed_endpoint_updated [OF t])
    fix e assume "e \<in> set (endpoints db)" "?P e" "endpoint_ok e"
    then show "endpoint_ok (patch_endpoint input now e)"
      using live v by (auto simp: endpoint_ok_def patch_endpoint_def patched_def updateWebhookEndpointSchema_def
          split: option.split)
  qed (simp add: patch_endpoint_def)
qed

lemma deleteEndpoint_typed:
  assumes t: "typed_hook_db db" and u: "deleteEndpoint ctx i now db = Inr (x, db1)"
  shows "typed_hook_db db1"
proof -
  have "db1 = db\<lparr>endpoints := update_where (own_endpoint (ctx_tenantId ctx) i)
      (\<lambda>e. e\<lparr>ep_deletedAt := Some now, ep_updatedAt := now, ep_active := False\<rparr>) (endpoints db)\<rparr>"
    using u by (auto simp: deleteEndpoint_def update_returning_def)
  then show ?thesis using typed_endpoint_updated [OF t] by (simp add: endpoint_ok_def)
qed

lemma on_event_typed: "typed_hook_db db \<Longrightarrow> typed_hook_db (on_event t name data newIds now db)"
  by (auto simp: on_event_def intro: committed_typed publish_typed split: option.split)

lemma by_hand_typed:
  "typed_hook_db db \<Longrightarrow> typed_hook_db (snd (attempted_by_hand pf net ctx i now db))"
  using retryNow_typed [of db pf net i now]
  by (auto simp: attempted_by_hand_def split: prod.split sum.split)

lemma testSend_typed:
  assumes t: "typed_hook_db db"
  shows "typed_hook_db (snd (testSend pf net ctx epId newId now db))"
proof (cases "require (select_first (own_endpoint (ctx_tenantId ctx) epId) (endpoints db)) hook_not_found
    (\<lambda>ep. insert_delivery (test_delivery ctx ep newId now) db)")
  case (Inl e)
  then show ?thesis using t by (simp add: testSend_def)
next
  case (Inr db1)
  then obtain ep where ep: "own_endpoint (ctx_tenantId ctx) epId ep" "ep \<in> set (endpoints db)"
    and ins: "insert_delivery (test_delivery ctx ep newId now) db = Inr db1"
    using select_first_SomeD by fastforce
  have "(ep_id ep, ctx_tenantId ctx) \<in> set (endpoint_keys db)"
    using ep by (auto simp: endpoint_keys_def own_endpoint_def)
  then have "typed_hook_db db1"
    using insert_delivery_typed [OF t ins] new_delivery_ok by (simp add: test_delivery_def Let_def)
  then show ?thesis unfolding testSend_def Inr by (simp add: by_hand_typed)
qed

lemma retryDelivery_typed:
  "typed_hook_db db \<Longrightarrow> typed_hook_db (snd (retryDelivery pf net ctx i now db))"
  by (simp add: retryDelivery_def by_hand_typed split: option.split)

lemma hook_step_typed:
  assumes "typed_hook_db db"
  shows "typed_hook_db (hook_step pf op db)"
  using assms
  by (cases op) (auto intro: committed_typed createEndpoint_typed updateEndpoint_typed deleteEndpoint_typed
      on_event_typed testSend_typed retryDelivery_typed sweep_typed)

lemma typed_empty: "typed_hook_db empty_hook_db"
  by (simp add: typed_hook_db_def empty_hook_db_def)

lemma hook_steps_typed: "typed_hook_db db \<Longrightarrow> typed_hook_db (fold (hook_step pf) ops db)"
  by (induction ops arbitrary: db) (simp_all add: hook_step_typed)

end
