(* ===== verification/WebhookProperties.thy ===== *)
theory WebhookProperties
  imports WebhookInv
begin

text \<open>
  The properties of the webhooks: every row is well-formed at all times, what is sent verifies under
  the secret the operator was shown, and the retries of a delivery end.
\<close>

section \<open>Rows\<close>

text \<open>C24: The tables of the webhooks are well-typed at all times.  Whatever operators create, change,
  delete, test and retry, whatever domain events arrive, however the sweeps and the consumers behave:
  keys are unique, endpoints have https URLs and a non-empty subscription, a deleted endpoint is
  inactive, the attempt counter of a delivery stays between 0 and its maximum, the delivery belongs to
  the tenant of its endpoint and carries its own id and event in its payload, and its columns agree
  with its status (pending: scheduled and attempts left; delivered: a 2xx code, a time, no error;
  failed: an error and no schedule).\<close>

theorem hook_tables_typed: "typed_hook_db (fold (hook_step pf) ops empty_hook_db)"
  by (rule hook_steps_typed [OF typed_empty])

section \<open>Signatures\<close>

text \<open>What the library's digest and cipher promise: a digest is 64 hexadecimal digits, and opening
  what was sealed under the same key and nonce gives the plaintext.\<close>

definition opens :: "platform \<Rightarrow> nat list \<Rightarrow> string \<Rightarrow> bool" where
  "opens pf iv p \<longleftrightarrow> (case pf_seal pf (pf_key pf) iv p of (enc, tag) \<Rightarrow>
     length tag = TAG_BYTES \<and> (\<forall>b \<in> set (tag @ enc). b < 256)
     \<and> pf_unseal pf (pf_key pf) iv tag enc = Some p)"

definition sound_platform :: "platform \<Rightarrow> bool" where
  "sound_platform pf \<longleftrightarrow>
    (\<forall>s m. length (pf_hmac pf s m) = 64 \<and> list_all lower_hex (pf_hmac pf s m)) \<and> (\<forall>iv p. opens pf iv p)"

lemma decrypt_encrypt:
  assumes "sound_platform pf" "length iv = IV_BYTES" "\<forall>b \<in> set iv. b < 256"
  shows "decrypt_secret pf (encrypt_secret pf iv p) = Inr p"
proof -
  obtain enc tag where s: "pf_seal pf (pf_key pf) iv p = (enc, tag)" by fastforce
  have "opens pf iv p" using assms(1) by (simp add: sound_platform_def)
  then have t: "length tag = TAG_BYTES" "\<forall>b \<in> set (tag @ enc). b < 256"
    "pf_unseal pf (pf_key pf) iv tag enc = Some p"
    by (simp_all add: opens_def s)
  have "\<forall>b \<in> set (iv @ tag @ enc). b < 256" using t(2) assms(3) by auto
  then have "base64_bytes (base64 (iv @ tag @ enc)) = iv @ tag @ enc" by simp
  then show ?thesis
    using t assms(2) by (simp add: decrypt_secret_def encrypt_secret_def s Let_def exec_simps)
qed

lemma parse_built:
  assumes "list_all lower_hex sig"
  shows "parseSignatureHeader (''t='' @ show_int t @ '',v1='' @ sig) = Some (t, sig)"
proof -
  have sep: "CHR '','' \<notin> set sig" "CHR ''='' \<notin> set sig"
    using assms not_lower_hex by (auto simp: list_all_iff)
  have "split_on (CHR '','') ((''t='' @ show_int t) @ CHR '','' # (''v1='' @ sig))
      = [''t='' @ show_int t, ''v1='' @ sig]"
    using show_int_no_sep sep by (subst split_on_sep) (simp_all add: split_on_none)
  moreover have "split_on (CHR ''='') (''t'' @ CHR ''='' # show_int t) = [''t'', show_int t]"
    using show_int_no_sep by (subst split_on_sep) (simp_all add: split_on_none)
  moreover have "split_on (CHR ''='') (''v1'' @ CHR ''='' # sig) = [''v1'', sig]"
    using sep by (subst split_on_sep) (simp_all add: split_on_none)
  moreover have "js_trim ''t'' = ''t''" "js_trim ''v1'' = ''v1''" by code_simp+
  ultimately show ?thesis
    using js_trim_hex [OF assms] by (simp add: parseSignatureHeader_def parse_part_def)
qed

lemma verify_built:
  assumes "sound_platform pf"
  shows "verifySignature pf secret body (buildSignatureHeader pf secret body t) None n
    \<longleftrightarrow> abs (n - t) \<le> DEFAULT_TOLERANCE_SECONDS"
  using assms parse_built [of "computeSignature pf secret body t" t]
  by (auto simp: verifySignature_def buildSignatureHeader_def computeSignature_def sound_platform_def hexEqual_def)

text \<open>The requests are signed with the secret of their endpoint, and no secret is ever replaced.\<close>

definition secrets :: "hook_db \<Rightarrow> (uuid \<times> string) list" where
  "secrets db = map (\<lambda>e. (ep_id e, ep_secretEncrypted e)) (endpoints db)"

definition signed :: "platform \<Rightarrow> hook_db \<Rightarrow> hook_request \<Rightarrow> bool" where
  "signed pf db r \<longleftrightarrow> (\<exists>blob secret. (rq_endpointId r, blob) \<in> set (secrets db)
     \<and> decrypt_secret pf blob = Inr secret
     \<and> rq_signature r = buildSignatureHeader pf secret (rq_body r) (rq_sentAt r div 1000))"

definition all_signed :: "platform \<Rightarrow> (uuid \<times> string) list \<Rightarrow> hook_db \<Rightarrow> bool" where
  "all_signed pf known db \<longleftrightarrow> set known \<subseteq> set (secrets db) \<and> (\<forall>r \<in> set (requests db). signed pf db r)"

lemma all_signed_grow:
  assumes "all_signed pf known db" "set (secrets db) \<subseteq> set (secrets db')" "requests db' = requests db"
  shows "all_signed pf known db'"
  using assms by (auto simp: all_signed_def signed_def; blast)

lemma secrets_update:
  assumes "\<And>e. P e \<Longrightarrow> ep_id (f e) = ep_id e \<and> ep_secretEncrypted (f e) = ep_secretEncrypted e"
  shows "secrets (db\<lparr>endpoints := update_where P f (endpoints db)\<rparr>) = secrets db"
  using assms by (simp add: secrets_def map_update_where)

lemma secrets_frame [simp]: "secrets (db\<lparr>deliveries := ds\<rparr>) = secrets db"
    "secrets (db\<lparr>requests := rs\<rparr>) = secrets db"
  by (simp_all add: secrets_def)

lemma stamp_secrets [simp]: "secrets (stampEndpoint i ok now db) = secrets db"
    "requests (stampEndpoint i ok now db) = requests db"
  unfolding stampEndpoint_def by (rule secrets_update) simp_all

lemma finalize_frame:
  "finalize i p now db = Inr db' \<Longrightarrow> secrets db' = secrets db \<and> requests db' = requests db"
  by (auto simp: finalize_def)

lemma concluded_frame:
  assumes "\<And>db'. secrets (k db') = secrets db' \<and> requests (k db') = requests db'"
  shows "secrets (snd (concluded (finalize i p now db) x k db)) = secrets db
    \<and> requests (snd (concluded (finalize i p now db) x k db)) = requests db"
  using assms finalize_frame [of i p now db] by (auto simp: concluded_def split: sum.split)

lemma post_frame:
  "secrets (snd (post_and_record pf net ep secret d now db)) = secrets db
    \<and> requests (snd (post_and_record pf net ep secret d now db))
      = requests db @ [hook_request_of pf ep secret d now]"
  by (simp add: post_and_record_def Let_def concluded_frame)

lemma claim_frame:
  "claim_delivery i now db = (row, db1) \<Longrightarrow>
    secrets db1 = secrets db \<and> requests db1 = requests db \<and> endpoints db1 = endpoints db"
  by (auto simp: claim_delivery_def update_returning_def)

lemma attempt_signed:
  assumes "all_signed pf known db"
  shows "all_signed pf known (snd (attempt_delivery pf net i now db))"
proof (cases "claim_delivery i now db")
  case (Pair row db1)
  have s1: "all_signed pf known db1"
    using all_signed_grow [OF assms] claim_frame [OF Pair] by simp
  show ?thesis
  proof (cases row)
    case None
    then show ?thesis using s1 Pair by (simp add: attempt_delivery_def)
  next
    case (Some d)
    show ?thesis
    proof (cases "select_first (live_endpoint (wd_endpointId d)) (endpoints db1)")
      case None
      have "all_signed pf known (snd (concluded (finalize i (orphaned_patch (wd_attempt d + 1)) now db1) Out_failed id db1))"
        using concluded_frame [of id i "orphaned_patch (wd_attempt d + 1)" now db1 Out_failed]
        by (intro all_signed_grow [OF s1]) simp_all
      then show ?thesis using None Some Pair by (simp add: attempt_delivery_def)
    next
      case ep: (Some ep)
      show ?thesis
      proof (cases "decrypt_secret pf (ep_secretEncrypted ep)")
        case (Inl e)
        then show ?thesis using s1 ep Some Pair by (simp add: attempt_delivery_def)
      next
        case (Inr secret)
        let ?db2 = "snd (post_and_record pf net ep secret d now db1)"
        have "(ep_id ep, ep_secretEncrypted ep) \<in> set (secrets db1)"
          using select_first_SomeD(2) [OF ep] by (auto simp: secrets_def)
        then have "signed pf ?db2 (hook_request_of pf ep secret d now)"
          unfolding signed_def using Inr post_frame [of pf net ep secret d now db1]
          by (auto simp: hook_request_of_def Let_def)
        then have "all_signed pf known ?db2"
          using s1 post_frame [of pf net ep secret d now db1] by (auto simp: all_signed_def signed_def)
        then show ?thesis using Inr ep Some Pair by (simp add: attempt_delivery_def)
      qed
    qed
  qed
qed

lemma sweep_one_db: "snd (sweep_one pf net now i acc) = snd (attempt_delivery pf net i now (snd acc))"
  by (auto simp: sweep_one_def split: prod.split sum.split)

lemma sweep_db:
  "snd (fold (sweep_one pf net now) is acc) = fold (\<lambda>i db. snd (attempt_delivery pf net i now db)) is (snd acc)"
  by (induction "is" arbitrary: acc) (simp_all add: sweep_one_db)

lemma retryNow_signed:
  "all_signed pf known db \<Longrightarrow> all_signed pf known (snd (retryNow pf net i now db))"
  unfolding retryNow_def by (rule attempt_signed) (auto intro: all_signed_grow)

lemma by_hand_signed:
  "all_signed pf known db \<Longrightarrow> all_signed pf known (snd (attempted_by_hand pf net ctx i now db))"
  using retryNow_signed [of pf known db net i now]
  by (auto simp: attempted_by_hand_def split: prod.split sum.split)

lemma insert_deliveries_frame:
  "insert_deliveries ds db = Inr db1 \<Longrightarrow> secrets db1 = secrets db \<and> requests db1 = requests db"
  by (induction ds arbitrary: db) (auto simp: insert_delivery_def)

lemma committed_signed:
  assumes "all_signed pf known db"
    "\<And>x db1. r = Inr (x, db1) \<Longrightarrow> set (secrets db) \<subseteq> set (secrets db1) \<and> requests db1 = requests db"
  shows "all_signed pf known (committed db r)"
  using assms by (auto simp: committed_def intro: all_signed_grow split: sum.split)

lemma create_frame:
  "createEndpoint pf ctx input rnd iv newId now db = Inr (x, db1) \<Longrightarrow>
    secrets db1 = secrets db @ [(newId, encrypt_secret pf iv (generateSecret rnd))] \<and> requests db1 = requests db"
  by (auto simp: createEndpoint_def Let_def insert_endpoint_def insert_into_def secrets_def new_endpoint_def)

lemma update_frame:
  "updateEndpoint ctx i input now db = Inr (x, db1) \<Longrightarrow> secrets db1 = secrets db \<and> requests db1 = requests db"
  by (auto simp: updateEndpoint_def update_returning_def patch_endpoint_def intro!: secrets_update)

lemma delete_frame:
  "deleteEndpoint ctx i now db = Inr (x, db1) \<Longrightarrow> secrets db1 = secrets db \<and> requests db1 = requests db"
  by (auto simp: deleteEndpoint_def update_returning_def intro!: secrets_update)

lemma publish_frame:
  "publish t e data newIds now db = Inr (n, db1) \<Longrightarrow> secrets db1 = secrets db \<and> requests db1 = requests db"
  by (auto simp: publish_def Let_def dest: insert_deliveries_frame split: if_splits)

lemma testSend_signed:
  assumes s: "all_signed pf known db"
  shows "all_signed pf known (snd (testSend pf net ctx epId newId now db))"
proof (cases "require (select_first (own_endpoint (ctx_tenantId ctx) epId) (endpoints db)) hook_not_found
    (\<lambda>ep. insert_delivery (test_delivery ctx ep newId now) db)")
  case (Inl e)
  then show ?thesis using s by (simp add: testSend_def)
next
  case (Inr db1)
  then have "all_signed pf known db1"
    by (intro all_signed_grow [OF s]) (auto simp: insert_delivery_def)
  then show ?thesis unfolding testSend_def Inr by (simp add: by_hand_signed)
qed

lemma sweep_signed: "all_signed pf known db \<Longrightarrow> all_signed pf known (snd (sweep pf net now db))"
proof -
  have "all_signed pf known db \<Longrightarrow>
      all_signed pf known (fold (\<lambda>i db. snd (attempt_delivery pf net i now db)) is db)" for "is" db
    by (induction "is" arbitrary: db) (simp_all add: attempt_signed)
  then show "all_signed pf known db \<Longrightarrow> ?thesis" by (simp add: sweep_def sweep_db)
qed

lemma hook_step_signed:
  assumes "all_signed pf known db"
  shows "all_signed pf known (hook_step pf op db)"
  using assms
  by (cases op) (auto simp: on_event_def retryDelivery_def testSend_signed by_hand_signed sweep_signed
      intro!: committed_signed dest: create_frame update_frame delete_frame publish_frame split: option.split)

lemma hook_steps_signed: "all_signed pf known db \<Longrightarrow> all_signed pf known (fold (hook_step pf) ops db)"
  by (induction ops arbitrary: db) (simp_all add: hook_step_signed)

text \<open>C25: What the worker sends verifies under the secret the operator was shown.  An endpoint is
  created in any reachable state; its secret is sealed into the row and returned once.  Whatever happens
  afterwards, every request sent to that endpoint carries a signature header that a consumer holding the
  returned secret accepts exactly within five minutes of the second it was sent: sealing and opening,
  printing and parsing the header are inverse along the whole path.\<close>

theorem sent_requests_verify:
  assumes "sound_platform pf" "length iv = IV_BYTES" "\<forall>b \<in> set iv. b < 256" "createWebhookEndpointSchema input"
    "createEndpoint pf ctx input rnd iv i now (fold (hook_step pf) before empty_hook_db) = Inr ((dto, secret), db)"
    "r \<in> set (requests (fold (hook_step pf) after db))" "rq_endpointId r = i"
  shows "verifySignature pf secret (rq_body r) (rq_signature r) None nowSec
    \<longleftrightarrow> abs (nowSec - rq_sentAt r div 1000) \<le> DEFAULT_TOLERANCE_SECONDS"
proof -
  let ?db0 = "fold (hook_step pf) before empty_hook_db"
  let ?db2 = "fold (hook_step pf) after db"
  let ?blob = "encrypt_secret pf iv (generateSecret rnd)"
  have secret: "secret = generateSecret rnd" using assms(5) by (auto simp: createEndpoint_def Let_def)
  have "all_signed pf [] ?db0"
    by (rule hook_steps_signed) (simp add: all_signed_def empty_hook_db_def)
  then have "all_signed pf [] db"
    by (rule all_signed_grow) (simp_all add: create_frame [OF assms(5)] subset_insertI)
  then have "all_signed pf [(i, ?blob)] db"
    using create_frame [OF assms(5)] by (simp add: all_signed_def)
  then have s2: "all_signed pf [(i, ?blob)] ?db2" by (rule hook_steps_signed)
  then obtain blob s where r: "(i, blob) \<in> set (secrets ?db2)" "decrypt_secret pf blob = Inr s"
    "rq_signature r = buildSignatureHeader pf s (rq_body r) (rq_sentAt r div 1000)"
    using assms(6,7) by (auto simp: all_signed_def signed_def)
  have "typed_hook_db db"
    by (rule createEndpoint_typed [OF hook_steps_typed [OF typed_empty] assms(4,5)])
  then have "typed_hook_db ?db2" by (rule hook_steps_typed)
  then have "distinct (map fst (secrets ?db2))"
    by (simp add: typed_hook_db_def secrets_def comp_def)
  then have "blob = ?blob"
    using r(1) s2 by (auto simp: all_signed_def dest: eq_key_imp_eq_value)
  then show ?thesis
    using r(2,3) decrypt_encrypt [OF assms(1-3)] verify_built [OF assms(1)] secret by simp
qed

section \<open>The retries end\<close>

text \<open>The stored secret of an endpoint does not open: the key was changed or the row is damaged.\<close>

definition sealed :: "platform \<Rightarrow> (uuid \<times> string) list \<Rightarrow> uuid \<Rightarrow> bool" where
  "sealed pf S i \<longleftrightarrow> (\<exists>blob. (i, blob) \<in> set S \<and> isl (decrypt_secret pf blob))"

text \<open>What one attempt does to the delivery it takes: settled, scheduled again with one attempt more and
  a delay of the ladder, or, when the secret of its endpoint does not open, left where the claim put
  it.\<close>

definition max_backoff :: int where
  "max_backoff = 7200000"

definition advanced :: "(uuid \<Rightarrow> bool) \<Rightarrow> instant \<Rightarrow> delivery_row \<Rightarrow> delivery_row \<Rightarrow> bool" where
  "advanced shut now d d' \<longleftrightarrow> wd_id d' = wd_id d \<and> wd_endpointId d' = wd_endpointId d \<and>
     (wd_status d' \<in> {Wd_delivered, Wd_failed} \<or> wd_status d' = Wd_delivering \<and> shut (wd_endpointId d) \<or>
      wd_status d' = Wd_pending \<and> wd_attempt d' = wd_attempt d + 1 \<and>
      (\<exists>t. wd_nextRetryAt d' = Some t \<and> now < t \<and> t \<le> now + max_backoff))"

lemma planRetry_delay:
  assumes "0 \<le> n" "n + 1 < DEFAULT_MAX_ATTEMPTS"
  shows "\<exists>t. rd_nextRetryAt (planRetry (n + 1) DEFAULT_MAX_ATTEMPTS now) = Some t
    \<and> now < t \<and> t \<le> now + max_backoff"
proof -
  consider "n = 0" | "n = 1" | "n = 2" | "n = 3"
    using assms unfolding DEFAULT_MAX_ATTEMPTS_def by linarith
  then show ?thesis
    by cases (simp_all add: planRetry_def DEFAULT_MAX_ATTEMPTS_def RETRY_BACKOFF_SECONDS_def max_backoff_def Let_def)
qed

lemma planRetry_exhausted:
  "rd_exhausted (planRetry n m now) \<longleftrightarrow> m \<le> n"
  by (simp add: planRetry_def Let_def)

lemma finalize_row:
  assumes "typed_hook_db db" "d \<in> set (deliveries db)" "wd_id d = i" "0 \<le> dp_attempt p" "dp_attempt p \<le> DEFAULT_MAX_ATTEMPTS"
  shows "finalize i p now db = Inr (db\<lparr>deliveries := update_where (\<lambda>d. wd_id d = i) (finalized p now) (deliveries db)\<rparr>)"
  using assms by (auto simp: finalize_def list_all_iff attempt_in_range_def typed_hook_db_def delivery_core_def exec_simps)

lemma update_where_key:
  assumes "distinct (map key xs)" "x \<in> set xs" "key x = i" "\<And>y. f y = g y \<or> y \<noteq> x"
  shows "update_where (\<lambda>y. key y = i) f xs = update_where (\<lambda>y. key y = i) g xs"
proof -
  have "f y = g y" if "y \<in> set xs" "key y = i" for y
    using that assms inj_onD [of key "set xs" y x] by (auto simp: distinct_map)
  then show ?thesis by (simp add: update_where_def)
qed

text \<open>The delivery a worker takes: the table afterwards, up to the claim.\<close>

definition moves :: "uuid \<Rightarrow> (delivery_row \<Rightarrow> delivery_row) \<Rightarrow> hook_db \<Rightarrow> hook_db \<Rightarrow> bool" where
  "moves i f db db' \<longleftrightarrow> deliveries db' = update_where (\<lambda>d. wd_id d = i) f (deliveries db)
     \<and> secrets db' = secrets db"

lemma stamp_deliveries [simp]: "deliveries (stampEndpoint i ok now db) = deliveries db"
  by (simp add: stampEndpoint_def)

lemma concluded_moves:
  assumes "typed_hook_db db" "d \<in> set (deliveries db)" "wd_id d = i"
    "0 \<le> dp_attempt p" "dp_attempt p \<le> DEFAULT_MAX_ATTEMPTS"
    "\<And>db'. deliveries (k db') = deliveries db' \<and> secrets (k db') = secrets db'"
  shows "moves i (finalized p now) db (snd (concluded (finalize i p now db) x k db))"
  using assms by (simp add: moves_def concluded_def finalize_row)

lemma post_moves:
  assumes "typed_hook_db db" "d \<in> set (deliveries db)" "wd_id d = i"
    "0 \<le> wd_attempt d" "wd_attempt d < DEFAULT_MAX_ATTEMPTS" "wd_maxAttempts d = DEFAULT_MAX_ATTEMPTS"
  shows "\<exists>p. moves i (finalized p now) db (snd (post_and_record pf net ep secret d now db))
    \<and> advanced shut now d (finalized p now d)"
proof -
  let ?db1 = "db\<lparr>requests := requests db @ [hook_request_of pf ep secret d now]\<rparr>"
  define r where "r = post_result_of (net (hook_request_of pf ep secret d now))"
  define plan where "plan = planRetry (wd_attempt d + 1) DEFAULT_MAX_ATTEMPTS now"
  have m: "moves i (finalized p now) db (snd (concluded (finalize i p now ?db1) x (stampEndpoint e ok now) ?db1))"
    if "dp_attempt p = wd_attempt d + 1" for p and x :: attempt_outcome and e ok
    using concluded_moves [of ?db1 d i p "stampEndpoint e ok now" now x] assms that by (simp add: moves_def)
  show ?thesis
  proof (cases "isSuccessStatus (po_status r)")
    case True
    let ?p = "delivered_patch (wd_attempt d + 1) r now"
    have "moves i (finalized ?p now) db (snd (post_and_record pf net ep secret d now db))"
      using m [of ?p] True assms(3) by (simp add: post_and_record_def Let_def r_def delivered_patch_def)
    then show ?thesis by (intro exI [of _ ?p]) (simp add: advanced_def finalized_def delivered_patch_def)
  next
    case False
    let ?p = "refused_patch (wd_attempt d + 1) r plan"
    have "moves i (finalized ?p now) db (snd (post_and_record pf net ep secret d now db))"
      using m [of ?p] False assms(3,6) by (simp add: post_and_record_def Let_def r_def plan_def refused_patch_def)
    moreover have "advanced shut now d (finalized ?p now d)"
      using planRetry_delay [of "wd_attempt d" now] assms(4,5)
      by (auto simp: advanced_def finalized_def refused_patch_def planRetry_exhausted plan_def)
    ultimately show ?thesis by blast
  qed
qed

text \<open>One attempt at a pending delivery.\<close>

lemma claim_pending:
  assumes t: "typed_hook_db db" and d: "d \<in> set (deliveries db)" "wd_id d = i" "wd_status d = Wd_pending"
  shows "claim_delivery i now db = (Some (d\<lparr>wd_status := Wd_delivering, wd_updatedAt := now\<rparr>),
    db\<lparr>deliveries := update_where (\<lambda>d. wd_id d = i) (\<lambda>d. d\<lparr>wd_status := Wd_delivering, wd_updatedAt := now\<rparr>)
      (deliveries db)\<rparr>)"
proof -
  have one: "x = d" if "x \<in> set (deliveries db)" "wd_id x = i" for x
    using t that d by (auto simp: typed_hook_db_def distinct_map dest: inj_onD)
  have "select_first (\<lambda>d. wd_id d = i \<and> wd_status d = Wd_pending) (deliveries db) = Some d"
  proof (cases "select_first (\<lambda>d. wd_id d = i \<and> wd_status d = Wd_pending) (deliveries db)")
    case None
    then show ?thesis using d by (auto simp: select_first_None)
  next
    case (Some x)
    then show ?thesis using one select_first_SomeD [OF Some] by simp
  qed
  moreover have "update_where (\<lambda>d. wd_id d = i \<and> wd_status d = Wd_pending) f (deliveries db)
      = update_where (\<lambda>d. wd_id d = i) f (deliveries db)" for f
  proof -
    have "(wd_id x = i \<and> wd_status x = Wd_pending) = (wd_id x = i)" if "x \<in> set (deliveries db)" for x
      using one [OF that] d(3) by blast
    then show ?thesis by (simp add: update_where_def)
  qed
  ultimately show ?thesis by (simp add: claim_delivery_def update_returning_def)
qed

lemma update_where_twice:
  assumes "\<And>r. key (g r) = key r"
  shows "update_where (\<lambda>r. key r = i) f (update_where (\<lambda>r. key r = i) g xs)
    = update_where (\<lambda>r. key r = i) (\<lambda>r. f (g r)) xs"
  using assms by (simp add: update_where_def comp_def)

lemma attempt_pending:
  assumes t: "typed_hook_db db" and d: "d \<in> set (deliveries db)" "wd_id d = i" "wd_status d = Wd_pending"
  shows "\<exists>f. moves i f db (snd (attempt_delivery pf net i now db))
    \<and> advanced (sealed pf (secrets db)) now d (f d) \<and> (\<forall>x. wd_id (f x) = wd_id x)"
proof -
  let ?c = "\<lambda>d. d\<lparr>wd_status := Wd_delivering, wd_updatedAt := now\<rparr>" and ?shut = "sealed pf (secrets db)"
  let ?db1 = "db\<lparr>deliveries := update_where (\<lambda>d. wd_id d = i) ?c (deliveries db)\<rparr>"
  note claim = claim_pending [OF t d, of now]
  have t1: "typed_hook_db ?db1" using claim_typed [OF typed_typed_but [OF t] claim] .
  have d1: "?c d \<in> set (deliveries ?db1)" "wd_id (?c d) = i" using d by (auto simp: set_update_where)
  have a: "0 \<le> wd_attempt d" "wd_attempt d < DEFAULT_MAX_ATTEMPTS" "wd_maxAttempts d = DEFAULT_MAX_ATTEMPTS"
    using t d by (auto simp: typed_hook_db_def delivery_core_def status_columns_def)
  have comb: "\<exists>f. moves i f db db2 \<and> advanced ?shut now d (f d) \<and> (\<forall>x. wd_id (f x) = wd_id x)"
    if "moves i (finalized p now) ?db1 db2" "advanced ?shut now (?c d) (finalized p now (?c d))" for p db2
    using that
    by (intro exI [of _ "\<lambda>x. finalized p now (?c x)"])
      (simp add: moves_def update_where_twice advanced_def finalized_def)
  show ?thesis
  proof (cases "select_first (live_endpoint (wd_endpointId d)) (endpoints db)")
    case None
    let ?p = "orphaned_patch (wd_attempt d + 1)"
    have "moves i (finalized ?p now) ?db1 (snd (attempt_delivery pf net i now db))"
      using concluded_moves [OF t1 d1, of ?p id now Out_failed] a None claim
      by (simp add: attempt_delivery_def orphaned_patch_def)
    then show ?thesis by (rule comb) (simp add: advanced_def finalized_def orphaned_patch_def)
  next
    case (Some ep)
    show ?thesis
    proof (cases "decrypt_secret pf (ep_secretEncrypted ep)")
      case (Inl e)
      have "wd_endpointId d = ep_id ep" "ep \<in> set (endpoints db)"
        using select_first_SomeD [OF Some] by (simp_all add: live_endpoint_def)
      then have "?shut (wd_endpointId d)" using Inl by (auto simp: sealed_def secrets_def image_iff)
      then show ?thesis using claim Some Inl
        by (intro exI [of _ ?c]) (simp add: attempt_delivery_def moves_def advanced_def)
    next
      case (Inr secret)
      have "snd (attempt_delivery pf net i now db) = snd (post_and_record pf net ep secret (?c d) now ?db1)"
        using claim Some Inr by (simp add: attempt_delivery_def)
      then show ?thesis using post_moves [OF t1 d1, of now pf net ep secret ?shut] a comb by auto
    qed
  qed
qed

text \<open>One sweep over a batch of pending deliveries.\<close>

definition round_of :: "(uuid \<Rightarrow> bool) \<Rightarrow> instant \<Rightarrow> uuid set \<Rightarrow> delivery_row \<Rightarrow> delivery_row \<Rightarrow> bool" where
  "round_of shut now S d d' \<longleftrightarrow> (if wd_id d \<in> S then advanced shut now d d' else d' = d)"

lemma moves_rows:
  assumes "moves i f db db'"
  shows "list_all2 (\<lambda>d d'. d' = (if wd_id d = i then f d else d)) (deliveries db) (deliveries db')"
  using assms by (simp add: moves_def update_where_def list_all2_conv_all_nth)

lemma batch_rows:
  assumes "typed_hook_db db" "distinct is"
    "\<forall>i \<in> set is. \<exists>d \<in> set (deliveries db). wd_id d = i \<and> wd_status d = Wd_pending"
  shows "list_all2 (round_of (sealed pf (secrets db)) now (set is)) (deliveries db)
      (deliveries (fold (\<lambda>i db. snd (attempt_delivery pf net i now db)) is db))
    \<and> secrets (fold (\<lambda>i db. snd (attempt_delivery pf net i now db)) is db) = secrets db"
  using assms
proof (induction "is" arbitrary: db)
  case Nil
  then show ?case by (simp add: round_of_def list.rel_refl)
next
  case (Cons i "is")
  let ?db1 = "snd (attempt_delivery pf net i now db)"
  obtain d where d: "d \<in> set (deliveries db)" "wd_id d = i" "wd_status d = Wd_pending"
    using Cons.prems(3) by auto
  obtain f where f: "moves i f db ?db1" "advanced (sealed pf (secrets db)) now d (f d)" "\<forall>x. wd_id (f x) = wd_id x"
    using attempt_pending [OF Cons.prems(1) d] by blast
  have one: "x = d" if "x \<in> set (deliveries db)" "wd_id x = i" for x
    using Cons.prems(1) that d by (auto simp: typed_hook_db_def distinct_map dest: inj_onD)
  have t1: "typed_hook_db ?db1" by (rule attempt_typed [OF typed_typed_but [OF Cons.prems(1)]])
  have same: "secrets ?db1 = secrets db" using f(1) by (simp add: moves_def)
  have "\<forall>j \<in> set is. \<exists>d \<in> set (deliveries ?db1). wd_id d = j \<and> wd_status d = Wd_pending"
  proof
    fix j assume "j \<in> set is"
    then obtain x where "x \<in> set (deliveries db)" "wd_id x = j" "wd_status x = Wd_pending" "j \<noteq> i"
      using Cons.prems(2,3) by fastforce
    then show "\<exists>d \<in> set (deliveries ?db1). wd_id d = j \<and> wd_status d = Wd_pending"
      using f(1) by (intro bexI [of _ x]) (auto simp: moves_def set_update_where)
  qed
  then have ih: "list_all2 (round_of (sealed pf (secrets db)) now (set is)) (deliveries ?db1)
      (deliveries (fold (\<lambda>i db. snd (attempt_delivery pf net i now db)) is ?db1))"
    "secrets (fold (\<lambda>i db. snd (attempt_delivery pf net i now db)) is ?db1) = secrets ?db1"
    using Cons.IH [OF t1] Cons.prems(2) same by simp_all
  have first: "list_all2 (\<lambda>x x'. x \<in> set (deliveries db) \<and> x' = (if wd_id x = i then f x else x))
      (deliveries db) (deliveries ?db1)"
    using moves_rows [OF f(1)] by (simp add: list_all2_conv_all_nth)
  have "list_all2 (round_of (sealed pf (secrets db)) now (set (i # is))) (deliveries db)
      (deliveries (fold (\<lambda>i db. snd (attempt_delivery pf net i now db)) is ?db1))"
  proof (rule list_all2_trans [OF _ first ih(1)])
    fix x x1 x2
    assume x: "x \<in> set (deliveries db) \<and> x1 = (if wd_id x = i then f x else x)" and r: "round_of (sealed pf (secrets db)) now (set is) x1 x2"
    have "i \<notin> set is" using Cons.prems(2) by simp
    then show "round_of (sealed pf (secrets db)) now (set (i # is)) x x2"
      using x r f(2,3) one [of x] by (cases "wd_id x = i") (auto simp: round_of_def)
  qed
  then show ?case using ih(2) f(1) by (simp add: moves_def)
qed

definition pending_rows :: "hook_db \<Rightarrow> delivery_row list" where
  "pending_rows db = filter (\<lambda>d. wd_status d = Wd_pending) (deliveries db)"

text \<open>A sweep takes some of the due deliveries, and at least one when there is one.\<close>

lemma due_batch_facts:
  assumes "typed_hook_db db"
  shows "distinct (due_batch now db)"
    "i \<in> set (due_batch now db) \<Longrightarrow> \<exists>d \<in> set (deliveries db). wd_id d = i \<and> due_delivery now d"
    "d \<in> set (deliveries db) \<Longrightarrow> due_delivery now d \<Longrightarrow> due_batch now db \<noteq> []"
proof -
  let ?due = "sort_key (\<lambda>d. the (wd_nextRetryAt d)) (select_where (due_delivery now) (deliveries db))"
  have set: "set ?due = {d \<in> set (deliveries db). due_delivery now d}" by (auto simp: select_where_def)
  have "inj_on wd_id (set (deliveries db))" "distinct (deliveries db)"
    using assms by (simp_all add: typed_hook_db_def distinct_map)
  then have "distinct (map wd_id ?due)"
    by (auto simp: distinct_map select_where_def intro: inj_on_subset)
  then show "distinct (due_batch now db)" unfolding due_batch_def take_map [symmetric] by (rule distinct_take)
  show "i \<in> set (due_batch now db) \<Longrightarrow> \<exists>d \<in> set (deliveries db). wd_id d = i \<and> due_delivery now d"
    using set_take_subset [of BATCH_SIZE ?due] set by (auto simp: due_batch_def)
  assume "d \<in> set (deliveries db)" "due_delivery now d"
  then have "set ?due \<noteq> {}" unfolding set by blast
  then have "?due \<noteq> []" unfolding set_empty .
  then show "due_batch now db \<noteq> []" by (simp add: due_batch_def BATCH_SIZE_def)
qed

lemma sweep_rows:
  assumes "typed_hook_db db"
  shows "list_all2 (\<lambda>d d'. d \<in> set (deliveries db)
        \<and> round_of (sealed pf (secrets db)) now (set (due_batch now db)) d d')
      (deliveries db) (deliveries (snd (sweep pf net now db)))"
    "secrets (snd (sweep pf net now db)) = secrets db" "typed_hook_db (snd (sweep pf net now db))"
proof -
  have "\<forall>i \<in> set (due_batch now db). \<exists>d \<in> set (deliveries db). wd_id d = i \<and> wd_status d = Wd_pending"
    using due_batch_facts(2) [OF assms] by (fastforce simp: due_delivery_def)
  note r = batch_rows [OF assms due_batch_facts(1) [OF assms] this, of pf now net]
  show "list_all2 (\<lambda>d d'. d \<in> set (deliveries db)
        \<and> round_of (sealed pf (secrets db)) now (set (due_batch now db)) d d')
      (deliveries db) (deliveries (snd (sweep pf net now db)))"
    using r by (auto simp: sweep_def sweep_db list_all2_conv_all_nth)
  show "secrets (snd (sweep pf net now db)) = secrets db" using r by (simp add: sweep_def sweep_db)
  show "typed_hook_db (snd (sweep pf net now db))" by (rule sweep_typed [OF assms])
qed

lemma batch_due:
  assumes "typed_hook_db db" "d \<in> set (deliveries db)" "wd_id d \<in> set (due_batch now db)"
  shows "due_delivery now d"
proof -
  obtain x where x: "x \<in> set (deliveries db)" "wd_id x = wd_id d" "due_delivery now x"
    using due_batch_facts(2) [OF assms(1,3)] by blast
  have "x = d" using assms(1,2) x(1,2) by (auto simp: typed_hook_db_def distinct_map dest: inj_onD)
  then show ?thesis using x(3) by simp
qed

lemma list_all2_left: "list_all2 P xs ys \<Longrightarrow> x \<in> set xs \<Longrightarrow> \<exists>y \<in> set ys. P x y"
  by (induction rule: list_all2_induct) auto

lemma list_all2_right: "list_all2 P xs ys \<Longrightarrow> y \<in> set ys \<Longrightarrow> \<exists>x \<in> set xs. P x y"
  by (induction rule: list_all2_induct) auto

text \<open>The attempts that are left.\<close>

definition left :: "delivery_row \<Rightarrow> int" where
  "left d = (if wd_status d = Wd_pending then DEFAULT_MAX_ATTEMPTS - wd_attempt d else 0)"

definition all_left :: "hook_db \<Rightarrow> int" where
  "all_left db = (\<Sum>d \<leftarrow> deliveries db. left d)"

lemma left_bounds:
  assumes "typed_hook_db db" "d \<in> set (deliveries db)"
  shows "0 \<le> left d" "left d \<le> 5" "wd_status d = Wd_pending \<Longrightarrow> 1 \<le> left d"
  using assms by (auto simp: left_def typed_hook_db_def delivery_core_def status_columns_def DEFAULT_MAX_ATTEMPTS_def)

lemma all_left_bound:
  assumes "typed_hook_db db"
  shows "all_left db \<le> 5 * int (length (pending_rows db))"
proof -
  have "(\<Sum>d \<leftarrow> ds. left d) \<le> 5 * int (length (filter (\<lambda>d. wd_status d = Wd_pending) ds))"
    if "\<forall>d \<in> set ds. left d \<le> 5" for ds
    using that by (induction ds) (auto simp: left_def)
  then show ?thesis using left_bounds(2) [OF assms] by (simp add: all_left_def pending_rows_def)
qed

lemma sum_list_drop:
  assumes "list_all2 R xs ys" "\<And>x y. R x y \<Longrightarrow> w y \<le> (w x :: int)" "x \<in> set xs" "\<And>y. R x y \<Longrightarrow> w y < w x"
  shows "(\<Sum>y \<leftarrow> ys. w y) < (\<Sum>x \<leftarrow> xs. w x)"
  using assms(1,3)
proof (induction rule: list_all2_induct)
  case (Cons a as b bs)
  have "(\<Sum>y \<leftarrow> bs. w y) \<le> (\<Sum>x \<leftarrow> as. w x)"
    using Cons.hyps(2) assms(2) by (induction rule: list_all2_induct) (auto intro: add_mono)
  then show ?case using Cons assms(2,4) by fastforce
qed simp

lemma round_left:
  assumes "typed_hook_db db" "d \<in> set (deliveries db)" "round_of shut now (set (due_batch now db)) d d'"
  shows "left d' \<le> left d" "wd_id d \<in> set (due_batch now db) \<Longrightarrow> left d' < left d"
proof -
  have taken: "left d' < left d" if "wd_id d \<in> set (due_batch now db)"
  proof -
    have p: "wd_status d = Wd_pending" using batch_due [OF assms(1,2) that] by (simp add: due_delivery_def)
    note left_bounds(3) [OF assms(1,2) p]
    then show ?thesis using assms(3) that p by (auto simp: round_of_def advanced_def left_def)
  qed
  then show "wd_id d \<in> set (due_batch now db) \<Longrightarrow> left d' < left d" .
  show "left d' \<le> left d"
    using taken assms(3) by (cases "wd_id d \<in> set (due_batch now db)") (auto simp: round_of_def)
qed

lemma sweep_left:
  assumes "typed_hook_db db" "d \<in> set (deliveries db)" "due_delivery now d"
  shows "all_left (snd (sweep pf net now db)) < all_left db"
proof -
  obtain i where "i \<in> set (due_batch now db)"
    using due_batch_facts(3) [OF assms] by (cases "due_batch now db") auto
  then obtain x where x: "x \<in> set (deliveries db)" "wd_id x \<in> set (due_batch now db)"
    using due_batch_facts(2) [OF assms(1)] by blast
  show ?thesis unfolding all_left_def
    by (rule sum_list_drop [OF sweep_rows(1) [OF assms(1)] _ x(1)]) (use round_left [OF assms(1)] x(2) in blast)+
qed

text \<open>A sweep with nothing due changes no delivery.\<close>

lemma idle_sweep:
  assumes "typed_hook_db db" "\<And>d. d \<in> set (deliveries db) \<Longrightarrow> \<not> due_delivery now d"
  shows "deliveries (snd (sweep pf net now db)) = deliveries db"
proof -
  have "due_batch now db = []"
  proof (rule ccontr)
    assume "due_batch now db \<noteq> []"
    then obtain i where "i \<in> set (due_batch now db)" by (cases "due_batch now db") auto
    then show False using due_batch_facts(2) [OF assms(1)] assms(2) by blast
  qed
  then show ?thesis by (simp add: sweep_def)
qed

text \<open>A run of sweeps, at most \<open>gap\<close> milliseconds apart, each with its own answers.\<close>

definition sweeps :: "platform \<Rightarrow> (instant \<times> (hook_request \<Rightarrow> http_answer)) list \<Rightarrow> hook_db \<Rightarrow> hook_db" where
  "sweeps pf runs db = fold (\<lambda>(now, net) db. snd (sweep pf net now db)) runs db"

fun steady :: "int \<Rightarrow> instant \<Rightarrow> instant list \<Rightarrow> bool" where
  "steady gap t [] \<longleftrightarrow> True"
| "steady gap t (u # us) \<longleftrightarrow> t \<le> u \<and> u \<le> t + gap \<and> steady gap u us"

text \<open>The clock of the run at \<open>t\<close>: nothing is scheduled further ahead than the longest delay, and from
  the next delivery to fall due the attempts left fit before the deadline.\<close>

definition booked :: "instant \<Rightarrow> hook_db \<Rightarrow> bool" where
  "booked t db \<longleftrightarrow> (\<forall>d \<in> set (deliveries db). wd_status d = Wd_pending \<longrightarrow>
     (\<exists>u. wd_nextRetryAt d = Some u \<and> u \<le> t + max_backoff))"

definition in_time :: "instant \<Rightarrow> int \<Rightarrow> instant \<Rightarrow> hook_db \<Rightarrow> bool" where
  "in_time deadline gap t db \<longleftrightarrow> (\<forall>d \<in> set (deliveries db). wd_status d \<noteq> Wd_pending)
     \<or> (\<exists>d \<in> set (deliveries db). \<exists>u. wd_status d = Wd_pending \<and> wd_nextRetryAt d = Some u
         \<and> max u t + gap + (all_left db - 1) * (gap + max_backoff) \<le> deadline)"

lemma sweep_booked:
  assumes t: "typed_hook_db db" and b: "booked t db" "t \<le> now"
  shows "booked now (snd (sweep pf net now db))"
  unfolding booked_def
proof (intro ballI impI)
  fix d' assume d': "d' \<in> set (deliveries (snd (sweep pf net now db)))" "wd_status d' = Wd_pending"
  have "\<exists>d \<in> set (deliveries db). round_of (sealed pf (secrets db)) now (set (due_batch now db)) d d'"
    using list_all2_right [OF sweep_rows(1) [OF t] d'(1)] by blast
  then obtain d where "d \<in> set (deliveries db)" "d' = d \<or> advanced (sealed pf (secrets db)) now d d'"
    by (auto simp: round_of_def split: if_splits)
  then show "\<exists>u. wd_nextRetryAt d' = Some u \<and> u \<le> now + max_backoff"
    using b d'(2) by (fastforce simp: booked_def advanced_def)
qed

lemma sweep_in_time:
  assumes t: "typed_hook_db db" and b: "booked t db" and i: "in_time deadline gap t db"
    and now: "t \<le> now" "now \<le> t + gap"
  shows "in_time deadline gap now (snd (sweep pf net now db))"
proof -
  let ?db1 = "snd (sweep pf net now db)" and ?g = "gap + max_backoff"
  have t1: "typed_hook_db ?db1" by (rule sweep_rows(3) [OF t])
  have b1: "booked now ?db1" by (rule sweep_booked [OF t b now(1)])
  show ?thesis
  proof (cases "\<forall>d \<in> set (deliveries ?db1). wd_status d \<noteq> Wd_pending")
    case False
    then obtain e v where e: "e \<in> set (deliveries ?db1)" "wd_status e = Wd_pending"
        "wd_nextRetryAt e = Some v" "v \<le> now + max_backoff"
      using b1 by (fastforce simp: booked_def)
    show ?thesis
    proof (cases "\<exists>d \<in> set (deliveries db). due_delivery now d")
      case idle: False
      then have same: "deliveries ?db1 = deliveries db" using idle_sweep [OF t] by blast
      then obtain d u where d: "d \<in> set (deliveries db)" "wd_status d = Wd_pending" "wd_nextRetryAt d = Some u"
          "max u t + gap + (all_left db - 1) * ?g \<le> deadline"
        using i e by (auto simp: in_time_def)
      have "wd_deletedAt d = None" using t d(1) by (auto simp: typed_hook_db_def delivery_core_def)
      then have "now < u" using idle d by (auto simp: due_delivery_def)
      then have "max u now + gap + (all_left ?db1 - 1) * ?g \<le> deadline"
        using d(4) now same by (simp add: all_left_def)
      then show ?thesis using d same by (auto simp: in_time_def)
    next
      case True
      then have less: "all_left ?db1 \<le> all_left db - 1" using sweep_left [OF t] by fastforce
      have "\<exists>d \<in> set (deliveries db). wd_status d = Wd_pending" using True by (auto simp: due_delivery_def)
      then obtain u where "max u t + gap + (all_left db - 1) * ?g \<le> deadline"
        using i by (auto simp: in_time_def)
      moreover have "0 \<le> ?g" using now by (simp add: max_backoff_def)
      then have "(all_left ?db1 - 1) * ?g \<le> (all_left db - 1 - 1) * ?g"
        using less by (intro mult_right_mono) simp_all
      moreover have "(all_left db - 1 - 1) * ?g = (all_left db - 1) * ?g - ?g" by (simp add: algebra_simps)
      moreover have "max v now \<le> now + max_backoff" using e(4) by (simp add: max_backoff_def)
      ultimately have "max v now + gap + (all_left ?db1 - 1) * ?g \<le> deadline" using now by linarith
      then show ?thesis using e by (auto simp: in_time_def)
    qed
  qed (simp add: in_time_def)
qed

text \<open>What becomes of a pending delivery in the meantime.\<close>

definition progress :: "(uuid \<Rightarrow> bool) \<Rightarrow> delivery_row \<Rightarrow> delivery_row \<Rightarrow> bool" where
  "progress shut d d' \<longleftrightarrow> wd_id d' = wd_id d \<and> wd_endpointId d' = wd_endpointId d \<and>
    (if wd_status d = Wd_pending
     then wd_status d' \<in> {Wd_pending, Wd_delivered, Wd_failed} \<or> wd_status d' = Wd_delivering \<and> shut (wd_endpointId d)
     else d' = d)"

lemma progress_trans: "progress shut d d1 \<Longrightarrow> progress shut d1 d2 \<Longrightarrow> progress shut d d2"
  by (auto simp: progress_def split: if_splits)

lemmas progressed_trans = list_all2_trans [of "progress shut" "progress shut" "progress shut" for shut, OF progress_trans]

lemma sweep_progress:
  assumes "typed_hook_db db"
  shows "list_all2 (progress (sealed pf (secrets db))) (deliveries db) (deliveries (snd (sweep pf net now db)))"
proof (rule list_all2_mono [OF sweep_rows(1) [OF assms]])
  fix d d' assume "d \<in> set (deliveries db) \<and> round_of (sealed pf (secrets db)) now (set (due_batch now db)) d d'"
  then show "progress (sealed pf (secrets db)) d d'"
    using batch_due [OF assms, of d now] by (auto simp: round_of_def advanced_def progress_def due_delivery_def split: if_splits)
qed

lemma sweeps_in_time:
  assumes "typed_hook_db db" "booked t db" "in_time deadline gap t db" "steady gap t (map fst runs)"
  shows "in_time deadline gap (last (t # map fst runs)) (sweeps pf runs db)
    \<and> typed_hook_db (sweeps pf runs db)
    \<and> list_all2 (progress (sealed pf (secrets db))) (deliveries db) (deliveries (sweeps pf runs db))"
  using assms
proof (induction runs arbitrary: db t)
  case Nil
  then show ?case by (simp add: sweeps_def list.rel_refl progress_def)
next
  case (Cons r runs)
  obtain now net where r: "r = (now, net)" by fastforce
  let ?db1 = "snd (sweep pf net now db)"
  have now: "t \<le> now" "now \<le> t + gap" "steady gap now (map fst runs)" using Cons.prems(4) r by auto
  have "in_time deadline gap (last (now # map fst runs)) (sweeps pf runs ?db1)
      \<and> typed_hook_db (sweeps pf runs ?db1)
      \<and> list_all2 (progress (sealed pf (secrets ?db1))) (deliveries ?db1) (deliveries (sweeps pf runs ?db1))"
    by (rule Cons.IH [OF sweep_rows(3) [OF Cons.prems(1)] sweep_booked [OF Cons.prems(1,2) now(1)]
          sweep_in_time [OF Cons.prems(1-3) now(1,2)] now(3)])
  moreover have "sweeps pf (r # runs) db = sweeps pf runs ?db1" by (simp add: sweeps_def r)
  ultimately show ?case
    using progressed_trans [OF _ _ sweep_progress [OF Cons.prems(1), of pf net now]]
      sweep_rows(2) [OF Cons.prems(1)] r by simp
qed

text \<open>C26: The retries of every delivery end, whatever the consumers answer and however many deliveries are
  waiting.  Take any reachable state whose \<open>n\<close> pending deliveries are scheduled no further ahead than the
  longest delay of two hours, and let nothing but sweeps follow, each within \<open>gap\<close> of the one before.
  Once \<open>5 n\<close> times the gap plus two hours has passed, every delivery that was pending has been
  delivered or has failed for good; the one exception is a delivery whose endpoint's stored secret
  does not open, which its claim leaves in status delivering.\<close>

theorem deliveries_settle:
  assumes "db = fold (hook_step pf) ops empty_hook_db"
    "list_all (due_delivery (t0 + max_backoff)) (pending_rows db)"
    "0 < gap" "steady gap t0 (map fst runs)"
    "t0 + 5 * int (length (pending_rows db)) * (gap + max_backoff) \<le> last (t0 # map fst runs)"
    "d \<in> set (pending_rows db)"
  shows "\<exists>d' \<in> set (deliveries (sweeps pf runs db)). wd_id d' = wd_id d
    \<and> (wd_status d' \<in> {Wd_delivered, Wd_failed}
       \<or> wd_status d' = Wd_delivering \<and> sealed pf (secrets db) (wd_endpointId d))"
proof -
  let ?n = "int (length (pending_rows db))" and ?db2 = "sweeps pf runs db" and ?g = "gap + max_backoff"
  have t: "typed_hook_db db" using hook_steps_typed [OF typed_empty] assms(1) by simp
  have d: "d \<in> set (deliveries db)" "wd_status d = Wd_pending" using assms(6) by (auto simp: pending_rows_def)
  have b: "booked t0 db"
    using assms(2) by (auto simp: booked_def pending_rows_def list_all_iff due_delivery_def split: option.splits)
  then obtain u where u: "wd_nextRetryAt d = Some u" "u \<le> t0 + max_backoff" using d by (auto simp: booked_def)
  have g: "0 \<le> ?g" using assms(3) by (simp add: max_backoff_def)
  have "all_left db * ?g \<le> 5 * ?n * ?g" using all_left_bound [OF t] g by (intro mult_right_mono) simp_all
  moreover have "max u t0 \<le> t0 + max_backoff" using u(2) by (simp add: max_backoff_def)
  moreover have "(all_left db - 1) * ?g = all_left db * ?g - ?g" by (simp add: algebra_simps)
  ultimately have "max u t0 + gap + (all_left db - 1) * ?g \<le> t0 + 5 * ?n * ?g" by linarith
  then have "in_time (t0 + 5 * ?n * ?g) gap t0 db" using d u(1) by (auto simp: in_time_def)
  note run = sweeps_in_time [OF t b this assms(4), of pf]
  have none: "wd_status x \<noteq> Wd_pending" if "x \<in> set (deliveries ?db2)" for x
  proof
    assume "wd_status x = Wd_pending"
    then have "\<not> (\<forall>d \<in> set (deliveries ?db2). wd_status d \<noteq> Wd_pending)" using that by blast
    then obtain y v where y: "y \<in> set (deliveries ?db2)" "wd_status y = Wd_pending"
        "max v (last (t0 # map fst runs)) + gap + (all_left ?db2 - 1) * ?g \<le> t0 + 5 * ?n * ?g"
      using run unfolding in_time_def by blast
    have "0 \<le> left z" if "z \<in> set (deliveries ?db2)" for z using left_bounds(1) run that by blast
    then have "left y \<le> all_left ?db2"
      unfolding all_left_def using y(1) by (intro member_le_sum_list) auto
    then have "1 \<le> all_left ?db2" using left_bounds(3) run y(1,2) by fastforce
    then have "0 \<le> (all_left ?db2 - 1) * ?g" using g by simp
    then show False using y(3) assms(3,5) by linarith
  qed
  have "list_all2 (progress (sealed pf (secrets db))) (deliveries db) (deliveries ?db2)" using run by blast
  from list_all2_left [OF this d(1)]
  obtain d' where "d' \<in> set (deliveries ?db2)" "progress (sealed pf (secrets db)) d d'" by (elim bexE)
  then show ?thesis using none d(2) by (intro bexI [of _ d']) (auto simp: progress_def)
qed

section \<open>The retry button\<close>

text \<open>An exhausted delivery whose endpoint is still there: the retry sends the request, whatever the
  answer the write of the outcome breaks the CHECK on the counter, the operator sees an error, and the
  delivery stays in status delivering, which no sweep takes up.\<close>

lemma update_where_hit: "x \<in> set tbl \<Longrightarrow> P x \<Longrightarrow> f x \<in> set (update_where P f tbl)"
  by (auto simp: set_update_where)

definition all_open :: "platform \<Rightarrow> hook_db \<Rightarrow> bool" where
  "all_open pf db \<longleftrightarrow> list_all (\<lambda>(i, blob). \<not> isl (decrypt_secret pf blob)) (secrets db)"

lemma exhausted_retry_stuck:
  assumes t: "typed_hook_db db" and o: "all_open pf db"
    and d: "d \<in> set (deliveries db)" "wd_id d = i" "wd_attempt d = wd_maxAttempts d"
    and e: "select_first (live_endpoint (wd_endpointId d)) (endpoints db) = Some ep"
  shows "fst (retryNow pf net i now db) = Inl (Failure ''webhook_deliveries_attempt_nonneg'')
    \<and> (\<exists>d' \<in> set (deliveries (snd (retryNow pf net i now db))). wd_id d' = i \<and> wd_status d' = Wd_delivering)
    \<and> length (requests (snd (retryNow pf net i now db))) = Suc (length (requests db))"
proof -
  let ?again = "\<lambda>d. d\<lparr>wd_status := Wd_pending, wd_nextRetryAt := Some now, wd_updatedAt := now\<rparr>"
  let ?c = "?again d\<lparr>wd_status := Wd_delivering, wd_updatedAt := now\<rparr>"
  let ?P = "\<lambda>d. wd_id d = i \<and> wd_deletedAt d = None" and ?Q = "\<lambda>d. wd_id d = i \<and> wd_status d = Wd_pending"
  have one: "x = d" if "x \<in> set (deliveries db)" "wd_id x = i" for x
    using t that d by (auto simp: typed_hook_db_def distinct_map dest: inj_onD)
  have del: "wd_deletedAt d = None" using t d(1) by (auto simp: typed_hook_db_def delivery_core_def)
  have m: "wd_maxAttempts d = DEFAULT_MAX_ATTEMPTS" using t d(1) by (auto simp: typed_hook_db_def delivery_core_def)
  let ?ds = "update_where ?P ?again (deliveries db)"
  have ds: "x = ?again d" if x: "x \<in> set ?ds" "wd_id x = i" for x
  proof -
    consider "x \<in> set (deliveries db)" "\<not> ?P x" | x0 where "x0 \<in> set (deliveries db)" "?P x0" "x = ?again x0"
      using in_update_where [OF x(1)] by blast
    then show ?thesis
    proof cases
      case 1
      then show ?thesis using one [of x] x(2) del by auto
    next
      case 2
      then show ?thesis using one [of x0] by auto
    qed
  qed
  have mem: "?again d \<in> set ?ds" using d del by (auto simp: set_update_where)
  obtain x where x: "select_first ?Q ?ds = Some x"
    using select_first_ex [OF mem, of ?Q] d(2) by auto
  then have "x = ?again d" using ds select_first_SomeD [OF x] by blast
  then have claim: "claim_delivery i now (db\<lparr>deliveries := ?ds\<rparr>) = (Some ?c,
      db\<lparr>deliveries := update_where ?Q (\<lambda>d. d\<lparr>wd_status := Wd_delivering, wd_updatedAt := now\<rparr>) ?ds\<rparr>)"
    using x by (simp add: claim_delivery_def update_returning_def)
  let ?db2 = "db\<lparr>deliveries := update_where ?Q (\<lambda>d. d\<lparr>wd_status := Wd_delivering, wd_updatedAt := now\<rparr>) ?ds\<rparr>"
  have c: "?c \<in> set (deliveries ?db2)"
    using update_where_hit [OF mem, of ?Q "\<lambda>d. d\<lparr>wd_status := Wd_delivering, wd_updatedAt := now\<rparr>"] d(2) by simp
  obtain secret where s: "decrypt_secret pf (ep_secretEncrypted ep) = Inr secret"
    using o select_first_SomeD(2) [OF e]
    by (cases "decrypt_secret pf (ep_secretEncrypted ep)") (auto simp: all_open_def secrets_def list_all_iff)
  have stuck: "finalize i p now (?db2\<lparr>requests := rs\<rparr>) = Inl (Failure ''webhook_deliveries_attempt_nonneg'')"
    if "dp_attempt p = wd_attempt d + 1" for p rs
  proof -
    have "\<not> list_all (\<lambda>d. wd_id d = i \<longrightarrow> attempt_in_range (dp_attempt p) d) (deliveries ?db2)"
      using c that d(2,3) by (auto simp: list_all_iff attempt_in_range_def intro!: bexI [of _ ?c])
    then show ?thesis by (simp add: finalize_def ensure_def)
  qed
  let ?db3 = "?db2\<lparr>requests := requests db @ [hook_request_of pf ep secret ?c now]\<rparr>"
  have "post_and_record pf net ep secret ?c now ?db2
      = (Inl (Failure ''webhook_deliveries_attempt_nonneg''), ?db3)"
    using stuck d(2) by (simp add: post_and_record_def Let_def concluded_def delivered_patch_def refused_patch_def)
  then have "retryNow pf net i now db = (Inl (Failure ''webhook_deliveries_attempt_nonneg''), ?db3)"
    using claim e s by (simp add: retryNow_def attempt_delivery_def)
  then show ?thesis using c d(2) by (auto intro!: bexI [of _ ?c])
qed

section \<open>A concrete run\<close>

text \<open>A platform whose cipher is the identity under a fixed tag and whose digest counts lengths; one
  endpoint, one job event, and consumers that are unreachable.\<close>

definition sample_platform :: platform where
  "sample_platform = \<lparr>pf_hmac = (\<lambda>s m. replicate 63 (CHR ''0'') @ [hex_digit ((length s + length m) mod 16)]),
     pf_key = [], pf_seal = (\<lambda>k iv p. (map of_char p, replicate 16 0)),
     pf_unseal = (\<lambda>k iv tag enc. if tag = replicate 16 0 then Some (map char_of enc) else None),
     pf_jsonb = id\<rparr>"

definition sample_t0 :: instant where "sample_t0 = 1770000000000"

definition sample_ctx :: ctx where
  "sample_ctx = \<lparr>ctx_tenantId = 1, ctx_userId = 2, ctx_role = Some Owner\<rparr>"

definition sample_endpoint :: create_endpoint_input where
  "sample_endpoint = \<lparr>ce_url = ''https://a.example'', ce_description = None, ce_events = [Hook_job_created]\<rparr>"

definition sample_create :: hook_op where
  "sample_create = Create_endpoint sample_ctx sample_endpoint [7, 200] (replicate 12 9) 5 sample_t0"

definition sample_event :: hook_op where
  "sample_event = Event 1 ''job.created'' (JObj [(''n'', JNum 3)]) (\<lambda>k. 100 + k) sample_t0"

definition unreachable :: "hook_request \<Rightarrow> http_answer" where
  "unreachable r = Unreachable ''fetch failed''"

definition accepting :: "hook_request \<Rightarrow> http_answer" where
  "accepting r = Answered 200 ''ok''"

lemma sample_sound: "sound_platform sample_platform"
  by (auto simp: sound_platform_def opens_def sample_platform_def TAG_BYTES_def list_all_iff lower_hex_def
      hex_digit_def)

lemma sample_decrypt:
  "decrypt_secret sample_platform (encrypt_secret sample_platform (replicate 12 9) p) = Inr p"
  by (rule decrypt_encrypt [OF sample_sound]) (simp_all add: IV_BYTES_def)

text \<open>The state after the first two operations.\<close>

definition sample_secret :: string where
  "sample_secret = generateSecret [7, 200]"

definition sample_row :: endpoint_row where
  "sample_row = new_endpoint sample_ctx sample_endpoint
     (encrypt_secret sample_platform (replicate 12 9) sample_secret) 5 sample_t0"

definition sample_delivery :: delivery_row where
  "sample_delivery = new_delivery 100 1 5 Hook_job_created None
     (buildEnvelope 100 Hook_job_created (JObj [(''n'', JNum 3)]) sample_t0) sample_t0"

definition sample_db :: hook_db where
  "sample_db = \<lparr>endpoints = [sample_row], deliveries = [sample_delivery], requests = []\<rparr>"

lemma sample_valid: "createWebhookEndpointSchema sample_endpoint"
  by code_simp

lemma sample_created:
  "createEndpoint sample_platform sample_ctx sample_endpoint [7, 200] (replicate 12 9) 5 sample_t0 empty_hook_db
    = Inr ((toEndpointDto sample_row, sample_secret), \<lparr>endpoints = [sample_row], deliveries = [], requests = []\<rparr>)"
  by (simp add: createEndpoint_def sample_row_def sample_secret_def insert_endpoint_def insert_into_def
      empty_hook_db_def Let_def exec_simps)

lemma sample_published:
  "hook_step sample_platform sample_event \<lparr>endpoints = [sample_row], deliveries = [], requests = []\<rparr> = sample_db"
  by (simp add: sample_event_def on_event_def hook_event_of_def webhookEventTypeValues_def publish_def
      select_where_def subscribed_def sample_row_def new_endpoint_def sample_ctx_def sample_endpoint_def
      extractEventId_def insert_delivery_def insert_into_def sample_db_def sample_delivery_def new_delivery_def
      Let_def exec_simps)

lemma sample_reached: "fold (hook_step sample_platform) [sample_create, sample_event] empty_hook_db = sample_db"
  using sample_published by (simp add: sample_create_def sample_valid sample_created)

lemma sample_open: "\<not> sealed sample_platform (secrets sample_db) 5"
  by (auto simp: sealed_def sample_db_def secrets_def sample_row_def new_endpoint_def sample_decrypt)

theorem deliveries_settle_witness:
  "\<exists>d' \<in> set (deliveries (sweeps sample_platform
        (map (\<lambda>k. (sample_t0 + k * 60000, unreachable)) [1..605]) sample_db)).
    wd_id d' = wd_id sample_delivery \<and> wd_status d' \<in> {Wd_delivered, Wd_failed}"
proof -
  have p: "pending_rows sample_db = [sample_delivery]"
    by (simp add: pending_rows_def sample_db_def sample_delivery_def new_delivery_def)
  have e: "wd_endpointId sample_delivery = 5" by (simp add: sample_delivery_def new_delivery_def)
  have due: "list_all (due_delivery (sample_t0 + max_backoff)) (pending_rows sample_db)"
    by (simp add: p due_delivery_def sample_delivery_def new_delivery_def max_backoff_def)
  have steady: "steady 60000 sample_t0 (map fst (map (\<lambda>k. (sample_t0 + k * 60000, unreachable)) [1..605]))"
    by code_simp
  have "sample_t0 + 5 * (60000 + max_backoff)
      \<le> last (sample_t0 # map fst (map (\<lambda>k. (sample_t0 + k * 60000, unreachable)) [1..605]))"
    by code_simp
  then have long: "sample_t0 + 5 * int (length (pending_rows sample_db)) * (60000 + max_backoff)
      \<le> last (sample_t0 # map fst (map (\<lambda>k. (sample_t0 + k * 60000, unreachable)) [1..605]))"
    by (simp add: p)
  show ?thesis
    using deliveries_settle [OF sample_reached [symmetric] due _ steady long, of sample_delivery] sample_open
    by (simp add: p e)
qed

theorem sent_requests_verify_witness:
  "let r = hd (requests (fold (hook_step sample_platform) [sample_event, Sweep sample_t0 accepting]
        \<lparr>endpoints = [sample_row], deliveries = [], requests = []\<rparr>))
   in verifySignature sample_platform sample_secret (rq_body r) (rq_signature r) None (sample_t0 div 1000 + 300)"
proof -
  let ?db = "\<lparr>endpoints = [sample_row], deliveries = [], requests = []\<rparr>"
  let ?rq = "hook_request_of sample_platform sample_row sample_secret
     (sample_delivery\<lparr>wd_status := Wd_delivering, wd_updatedAt := sample_t0\<rparr>) sample_t0"
  have "requests (fold (hook_step sample_platform) [sample_event, Sweep sample_t0 accepting] ?db) = [?rq]"
    using sample_published sample_decrypt
    by (simp add: sweep_def due_batch_def sample_db_def select_where_def due_delivery_def sample_delivery_def
        new_delivery_def BATCH_SIZE_def sweep_one_def attempt_delivery_def claim_delivery_def update_returning_def
        select_first_def update_where_def sample_row_def new_endpoint_def live_endpoint_def post_and_record_def
        accepting_def post_result_of_def isSuccessStatus_def concluded_def finalize_def attempt_in_range_def
        delivered_patch_def DEFAULT_MAX_ATTEMPTS_def stampEndpoint_def Let_def exec_simps)
  moreover have "verifySignature sample_platform sample_secret (rq_body ?rq) (rq_signature ?rq) None (sample_t0 div 1000 + 300)
      \<longleftrightarrow> abs (sample_t0 div 1000 + 300 - rq_sentAt ?rq div 1000) \<le> DEFAULT_TOLERANCE_SECONDS"
    by (rule sent_requests_verify [OF sample_sound, where iv = "replicate 12 9" and input = sample_endpoint
          and before = "[]" and i = 5 and rnd = "[7, 200]" and ctx = sample_ctx and now = sample_t0
          and dto = "toEndpointDto sample_row" and db = ?db and after = "[sample_event, Sweep sample_t0 accepting]"])
      (use calculation sample_valid sample_created in \<open>simp_all add: IV_BYTES_def hook_request_of_def sample_row_def
        new_endpoint_def Let_def\<close>)
  ultimately show ?thesis
    by (simp add: hook_request_of_def Let_def DEFAULT_TOLERANCE_SECONDS_def)
qed

end
