(* ===== verification/RateLimiter.thy ===== *)
theory RateLimiter
  imports Json
begin

text \<open>
  modules/redis/rate-limiter.service.ts: the counters behind the rate limits of the API keys, the
  logins and the mails.
\<close>

section \<open>Rate limiting\<close>

text \<open>The counters of the key-value store: a count and an expiry; a key past its expiry is gone.
  TTL answers -1 without expiry and otherwise the remaining seconds, rounded.\<close>

record bucket =
  bk_count :: int
  bk_expiresAt :: "instant option"

type_synonym counters = "string \<Rightarrow> bucket option"

definition bucket_at :: "instant \<Rightarrow> string \<Rightarrow> counters \<Rightarrow> bucket option" where
  "bucket_at now k c = (case c k of None \<Rightarrow> None
    | Some b \<Rightarrow> (case bk_expiresAt b of None \<Rightarrow> Some b | Some e \<Rightarrow> if e \<le> now then None else Some b))"

record rate_limit_result =
  rl_allowed :: bool
  rl_count :: int
  rl_retryAfterSeconds :: int

definition rate_check :: "instant \<Rightarrow> string \<Rightarrow> int \<Rightarrow> int \<Rightarrow> counters \<Rightarrow> rate_limit_result \<times> counters" where
  "rate_check now key limit ttlSeconds c =
    (let fullKey = ''rl:'' @ key;
         old = bucket_at now fullKey c;
         count = (case old of None \<Rightarrow> 1 | Some b \<Rightarrow> bk_count b + 1);
         expiry = (case old of None \<Rightarrow> None | Some b \<Rightarrow> bk_expiresAt b);
         ttl = (case expiry of None \<Rightarrow> -1 | Some e \<Rightarrow> (e - now + 500) div 1000);
         expiry' = (if count = 1 \<or> ttl = -1 then Some (now + ttlSeconds * 1000) else expiry)
     in (\<lparr>rl_allowed = count \<le> limit, rl_count = count,
          rl_retryAfterSeconds = if 0 < ttl then ttl else ttlSeconds\<rparr>,
         c(fullKey := Some \<lparr>bk_count = count, bk_expiresAt = expiry'\<rparr>)))"

definition rate_reset :: "string \<Rightarrow> counters \<Rightarrow> counters" where
  "rate_reset key c = c(''rl:'' @ key := None)"

end
