(* ===== verification/ApiKeys.thy ===== *)
theory ApiKeys
  imports RateLimiter
begin

text \<open>
  modules/public-api: the credentials of the /v1 surface and what stands in front of it.
  auth/api-key.util.ts mints and reads keys, management/public-api-keys.service.ts are the
  operator's handlers, auth/api-key-auth.service.ts resolves a presented key, the rate limiter
  (modules/redis/rate-limiter.service.ts) counts its calls, auth/api-key.guard.ts and
  auth/scopes.guard.ts admit a request, and v1/idempotency.service.ts replays a repeated write.
  The key derivation and the random bytes are arguments.
\<close>

section \<open>Keys\<close>

datatype api_key_env = Env_live | Env_test

fun env_text :: "api_key_env \<Rightarrow> string" where
  "env_text Env_live = ''live''"
| "env_text Env_test = ''test''"

record generated_key =
  gk_plaintext :: string
  gk_prefix :: string
  gk_hash :: string

definition generateApiKey :: "(string \<Rightarrow> string) \<Rightarrow> api_key_env \<Rightarrow> nat list \<Rightarrow> nat list \<Rightarrow> generated_key" where
  "generateApiKey hashApiKey env prefixBytes secretBytes =
    (let prefix = hex_of prefixBytes;
         plaintext = ''tc_'' @ env_text env @ ''_'' @ prefix @ ''_'' @ hex_of secretBytes
     in \<lparr>gk_plaintext = plaintext, gk_prefix = prefix, gk_hash = hashApiKey plaintext\<rparr>)"

text \<open>\<open>^tc_(live|test)_([0-9a-f]{12})_([0-9a-f]{64})$\<close> on the trimmed text.\<close>

definition parseApiKey :: "string \<Rightarrow> (api_key_env \<times> string) option" where
  "parseApiKey raw = (case split_on (CHR ''_'') (js_trim raw) of
      [tc, env, prefix, secret] \<Rightarrow>
        if tc = ''tc'' \<and> env \<in> {''live'', ''test''} \<and> length prefix = 12 \<and> list_all lower_hex prefix
           \<and> length secret = 64 \<and> list_all lower_hex secret
        then Some (if env = ''live'' then Env_live else Env_test, prefix) else None
    | _ \<Rightarrow> None)"

definition bearerToken :: "string option \<Rightarrow> string option" where
  "bearerToken header = (case truthy header of None \<Rightarrow> None
    | Some h \<Rightarrow> if map lower_char (take 7 h) \<noteq> ''bearer '' then None
        else (let t = js_trim (drop 7 h) in if t = [] then None else Some t))"

section \<open>Scopes\<close>

datatype api_scope = Jobs_read | Jobs_write | Trucks_read | Drivers_read | Impound_read

fun scope_name :: "api_scope \<Rightarrow> string" where
  "scope_name Jobs_read = ''jobs:read''"
| "scope_name Jobs_write = ''jobs:write''"
| "scope_name Trucks_read = ''trucks:read''"
| "scope_name Drivers_read = ''drivers:read''"
| "scope_name Impound_read = ''impound:read''"

definition apiScopeValues :: "api_scope list" where
  "apiScopeValues = [Jobs_read, Jobs_write, Trucks_read, Drivers_read, Impound_read]"

text \<open>The scopes column is free-form JSON; what is not a known scope name is dropped.\<close>

fun scope_of_json :: "json \<Rightarrow> api_scope option" where
  "scope_of_json (JStr s) = List.find (\<lambda>x. scope_name x = s) apiScopeValues"
| "scope_of_json _ = None"

fun sanitizeScopes :: "json \<Rightarrow> api_scope list" where
  "sanitizeScopes (JArr xs) = List.map_filter scope_of_json xs"
| "sanitizeScopes _ = []"

definition scopes_json :: "api_scope list \<Rightarrow> json" where
  "scopes_json ss = JArr (map (\<lambda>s. JStr (scope_name s)) ss)"

definition scope_guard :: "api_scope list option \<Rightarrow> api_scope list \<Rightarrow> exn + unit" where
  "scope_guard required granted = (case required of None \<Rightarrow> Inr ()
    | Some rs \<Rightarrow> (let missing = filter (\<lambda>s. s \<notin> set granted) rs in
        ensure (missing = []) (Forbidden ''insufficient_scope''
          (''API key is missing required scope(s): '' @ concat (map (\<lambda>s. scope_name s @ '', '') (butlast missing))
             @ scope_name (last missing))) (Inr ())))"

section \<open>The table and the operator's handlers\<close>

record api_key_row =
  ak_id :: uuid
  ak_tenantId :: uuid
  ak_name :: string
  ak_prefix :: string
  ak_keyHash :: string
  ak_scopes :: json
  ak_rateLimitPerMin :: int
  ak_createdBy :: uuid
  ak_lastUsedAt :: "instant option"
  ak_expiresAt :: "instant option"
  ak_revokedAt :: "instant option"
  ak_createdAt :: instant
  ak_updatedAt :: instant
  ak_deletedAt :: "instant option"

record api_key_dto =
  kd_id :: uuid
  kd_tenantId :: uuid
  kd_name :: string
  kd_prefix :: string
  kd_scopes :: "api_scope list"
  kd_rateLimitPerMin :: int
  kd_createdBy :: uuid
  kd_lastUsedAt :: "string option"
  kd_expiresAt :: "string option"
  kd_revokedAt :: "string option"
  kd_createdAt :: string
  kd_updatedAt :: string

definition toApiKeyDto :: "api_key_row \<Rightarrow> api_key_dto" where
  "toApiKeyDto k = \<lparr>kd_id = ak_id k, kd_tenantId = ak_tenantId k, kd_name = ak_name k, kd_prefix = ak_prefix k,
     kd_scopes = sanitizeScopes (ak_scopes k), kd_rateLimitPerMin = ak_rateLimitPerMin k,
     kd_createdBy = ak_createdBy k, kd_lastUsedAt = map_option toISOString (ak_lastUsedAt k),
     kd_expiresAt = map_option toISOString (ak_expiresAt k), kd_revokedAt = map_option toISOString (ak_revokedAt k),
     kd_createdAt = toISOString (ak_createdAt k), kd_updatedAt = toISOString (ak_updatedAt k)\<rparr>"

definition key_not_found :: exn where
  "key_not_found = NotFound ''API key not found''"

record create_key_input =
  ck_name :: string
  ck_scopes :: "api_scope list"
  ck_rateLimitPerMin :: "int option"
  ck_expiresAt :: "instant option"

definition list_api_keys :: "ctx \<Rightarrow> api_key_row list \<Rightarrow> api_key_dto list" where
  "list_api_keys ctx tbl = map toApiKeyDto (sort_key (\<lambda>k. - ak_createdAt k)
     (select_where (\<lambda>k. ak_tenantId k = ctx_tenantId ctx \<and> ak_deletedAt k = None) tbl))"

definition new_key_row :: "ctx \<Rightarrow> int \<Rightarrow> create_key_input \<Rightarrow> generated_key \<Rightarrow> uuid \<Rightarrow> instant \<Rightarrow> api_key_row" where
  "new_key_row ctx defaultRateLimitPerMin input g newId now = \<lparr>ak_id = newId, ak_tenantId = ctx_tenantId ctx,
     ak_name = ck_name input, ak_prefix = gk_prefix g, ak_keyHash = gk_hash g,
     ak_scopes = scopes_json (ck_scopes input),
     ak_rateLimitPerMin = (case ck_rateLimitPerMin input of None \<Rightarrow> defaultRateLimitPerMin | Some n \<Rightarrow> n),
     ak_createdBy = ctx_userId ctx, ak_lastUsedAt = None, ak_expiresAt = ck_expiresAt input,
     ak_revokedAt = None, ak_createdAt = now, ak_updatedAt = now, ak_deletedAt = None\<rparr>"

text \<open>The unique index on the prefix of the live keys (0037_public_api.sql).\<close>

definition create_api_key :: "(string \<Rightarrow> string) \<Rightarrow> int \<Rightarrow> ctx \<Rightarrow> create_key_input \<Rightarrow> nat list \<Rightarrow> nat list \<Rightarrow>
    uuid \<Rightarrow> instant \<Rightarrow> api_key_row list \<Rightarrow> exn + (api_key_dto \<times> string) \<times> api_key_row list" where
  "create_api_key hashApiKey defaultRateLimitPerMin ctx input prefixBytes secretBytes newId now tbl =
    (let g = generateApiKey hashApiKey Env_live prefixBytes secretBytes;
         row = new_key_row ctx defaultRateLimitPerMin input g newId now
     in ensure (newId \<notin> set (map ak_id tbl)) (Failure ''api_keys_pkey'')
        (ensure (\<not> list_ex (\<lambda>k. ak_deletedAt k = None \<and> ak_prefix k = gk_prefix g) tbl) (Failure ''api_keys_prefix_unique'')
          (Inr ((toApiKeyDto row, gk_plaintext g), insert_into row tbl))))"

definition own_key :: "uuid \<Rightarrow> uuid \<Rightarrow> api_key_row \<Rightarrow> bool" where
  "own_key t i k \<longleftrightarrow> ak_tenantId k = t \<and> ak_id k = i"

definition revoke_api_key :: "ctx \<Rightarrow> uuid \<Rightarrow> instant \<Rightarrow> api_key_row list \<Rightarrow> exn + api_key_dto \<times> api_key_row list" where
  "revoke_api_key ctx i now tbl =
    require (select_first (\<lambda>k. own_key (ctx_tenantId ctx) i k \<and> ak_deletedAt k = None) tbl) key_not_found (\<lambda>existing.
      if ak_revokedAt existing \<noteq> None then Inr (toApiKeyDto existing, tbl)
      else (case update_returning (own_key (ctx_tenantId ctx) i)
                (\<lambda>k. k\<lparr>ak_revokedAt := Some now, ak_updatedAt := now\<rparr>) tbl of
              (row, tbl1) \<Rightarrow> require row key_not_found (\<lambda>k. Inr (toApiKeyDto k, tbl1))))"

section \<open>Resolving a key\<close>

record resolved_key =
  rk_id :: uuid
  rk_tenantId :: uuid
  rk_createdBy :: uuid
  rk_scopes :: "api_scope list"
  rk_rateLimitPerMin :: int

definition invalid_key :: exn where
  "invalid_key = Unauthorized ''api_key_invalid'' ''Invalid or revoked API key''"

definition expired_key :: exn where
  "expired_key = Unauthorized ''api_key_expired'' ''API key has expired''"

definition resolve_key :: "(string \<Rightarrow> string) \<Rightarrow> instant \<Rightarrow> string \<Rightarrow> api_key_row list \<Rightarrow> exn + resolved_key" where
  "resolve_key hashApiKey now rawToken tbl =
    require (parseApiKey rawToken) invalid_key (\<lambda>(env, prefix).
    require (select_first (\<lambda>k. ak_prefix k = prefix \<and> ak_deletedAt k = None) tbl) invalid_key (\<lambda>row.
    ensure (hashesEqual (hashApiKey rawToken) (ak_keyHash row)) invalid_key
    (ensure (ak_revokedAt row = None) invalid_key
    (ensure (case ak_expiresAt row of None \<Rightarrow> True | Some e \<Rightarrow> now < e) expired_key
      (Inr \<lparr>rk_id = ak_id row, rk_tenantId = ak_tenantId row, rk_createdBy = ak_createdBy row,
            rk_scopes = sanitizeScopes (ak_scopes row), rk_rateLimitPerMin = ak_rateLimitPerMin row\<rparr>)))))"

definition touchLastUsed :: "uuid \<Rightarrow> instant \<Rightarrow> api_key_row list \<Rightarrow> api_key_row list" where
  "touchLastUsed i now tbl = update_where (\<lambda>k. ak_id k = i) (\<lambda>k. k\<lparr>ak_lastUsedAt := Some now\<rparr>) tbl"

section \<open>Admitting a request\<close>

definition RATE_LIMIT_WINDOW_SECONDS :: int where
  "RATE_LIMIT_WINDOW_SECONDS = 60"

datatype guard_refusal = Refused exn | Too_many_requests string int

record key_request =
  kr_tenantId :: uuid
  kr_userId :: uuid
  kr_apiKeyId :: uuid
  kr_scopes :: "api_scope list"

text \<open>The guard: the tenant and the actor of the request are those of the key.\<close>

definition api_key_guard :: "(string \<Rightarrow> string) \<Rightarrow> instant \<Rightarrow> string option \<Rightarrow> api_key_row list \<Rightarrow> counters \<Rightarrow>
    (guard_refusal + key_request) \<times> api_key_row list \<times> counters" where
  "api_key_guard hashApiKey now authorization tbl c =
    (case bearerToken authorization of
       None \<Rightarrow> (Inl (Refused (Unauthorized ''api_key_invalid'' ''Missing API key'')), tbl, c)
     | Some token \<Rightarrow>
         (case resolve_key hashApiKey now token tbl of
            Inl e \<Rightarrow> (Inl (Refused e), tbl, c)
          | Inr key \<Rightarrow>
              (case rate_check now (''apikey:'' @ uuid_text (rk_id key)) (rk_rateLimitPerMin key)
                      RATE_LIMIT_WINDOW_SECONDS c of
                 (rl, c1) \<Rightarrow>
                   if \<not> rl_allowed rl
                   then (Inl (Too_many_requests (''Rate limit of '' @ show_int (rk_rateLimitPerMin key) @ ''/min exceeded'')
                           (rl_retryAfterSeconds rl)), tbl, c1)
                   else (Inr \<lparr>kr_tenantId = rk_tenantId key, kr_userId = rk_createdBy key,
                              kr_apiKeyId = rk_id key, kr_scopes = rk_scopes key\<rparr>,
                         touchLastUsed (rk_id key) now tbl, c1))))"

section \<open>Idempotent writes\<close>

text \<open>The replay cache beside whatever else the write works on; other requests may run inside
  \<open>work\<close>, so it acts on the whole state.\<close>

record 'b idem_row =
  ik_tenantId :: uuid
  ik_apiKeyId :: uuid
  ik_key :: string
  ik_fingerprint :: string
  ik_responseStatus :: int
  ik_responseBody :: 'b

record ('b, 'w) idem_db =
  idemKeys :: "'b idem_row list"
  world :: 'w

definition idem_lookup :: "uuid \<Rightarrow> string \<Rightarrow> ('b, 'w) idem_db \<Rightarrow> 'b idem_row option" where
  "idem_lookup t key db = select_first (\<lambda>r. ik_tenantId r = t \<and> ik_key r = key) (idemKeys db)"

definition idem_replay :: "'b idem_row \<Rightarrow> string \<Rightarrow> exn + 'b" where
  "idem_replay row fingerprint = ensure (ik_fingerprint row = fingerprint)
     (Conflict ''idempotency_key_reused'' ''Idempotency-Key was already used for a different request'')
     (Inr (ik_responseBody row))"

definition idem_insert :: "'b idem_row \<Rightarrow> ('b, 'w) idem_db \<Rightarrow> exn + ('b, 'w) idem_db" where
  "idem_insert row db =
    ensure (idem_lookup (ik_tenantId row) (ik_key row) db = None) (Failure ''23505'')
      (Inr (db\<lparr>idemKeys := insert_into row (idemKeys db)\<rparr>))"

definition idem_run :: "uuid \<Rightarrow> uuid \<Rightarrow> string option \<Rightarrow> string \<Rightarrow> int \<Rightarrow>
    (('b, 'w) idem_db \<Rightarrow> (exn + 'b) \<times> ('b, 'w) idem_db) \<Rightarrow> ('b, 'w) idem_db \<Rightarrow> (exn + 'b) \<times> ('b, 'w) idem_db" where
  "idem_run t apiKeyId idempotencyKey fingerprint responseStatus work db =
    (case truthy idempotencyKey of
       None \<Rightarrow> work db
     | Some key \<Rightarrow>
         (case idem_lookup t key db of
            Some row \<Rightarrow> (idem_replay row fingerprint, db)
          | None \<Rightarrow>
              (case work db of
                 (Inl e, db1) \<Rightarrow> (Inl e, db1)
               | (Inr result, db1) \<Rightarrow>
                   (case idem_insert \<lparr>ik_tenantId = t, ik_apiKeyId = apiKeyId, ik_key = key,
                            ik_fingerprint = fingerprint, ik_responseStatus = responseStatus,
                            ik_responseBody = result\<rparr> db1 of
                      Inr db2 \<Rightarrow> (Inr result, db2)
                    | Inl e \<Rightarrow> (case idem_lookup t key db1 of
                        Some won \<Rightarrow> (idem_replay won fingerprint, db1)
                      | None \<Rightarrow> (Inl e, db1))))))"

end
