(* ===== verification/PublicV1.thy ===== *)
theory PublicV1
  imports ApiKeys Jobs
begin

text \<open>
  modules/public-api/v1: the cursors of the list endpoints (cursor.ts) and the job operations of
  public-v1.service.ts.  Reads are keyset-paginated by descending id; the status patch delegates
  to the jobs service.  What a key was minted for, what the replay cache gives a repeated write, and
  that following the cursors walks each row once, are shown here.
\<close>

section \<open>Cursors\<close>

text \<open>The UTF-8 bytes of ASCII text; bytes above 127 decode to characters no identifier has.\<close>

definition ascii_bytes :: "string \<Rightarrow> nat list" where
  "ascii_bytes s = map of_char s"

definition encodeCursor :: "string \<Rightarrow> string" where
  "encodeCursor i = base64url (ascii_bytes i)"

definition decodeCursor :: "string option \<Rightarrow> string option" where
  "decodeCursor cursor = (case truthy cursor of None \<Rightarrow> None
    | Some c \<Rightarrow> (let bs = base64_bytes c in
        if list_all (\<lambda>b. b < 128) bs \<and> UUID_RX (map char_of bs) then Some (map char_of bs) else None))"

record 'd cursor_page =
  cp_data :: "'d list"
  cp_nextCursor :: "string option"
  cp_hasMore :: bool

definition buildCursorPage :: "'d list \<Rightarrow> nat \<Rightarrow> ('d \<Rightarrow> string) \<Rightarrow> 'd cursor_page" where
  "buildCursorPage rows limit idOf =
    (let hasMore = limit < length rows;
         data = (if hasMore then take limit rows else rows)
     in \<lparr>cp_data = data,
         cp_nextCursor = if hasMore \<and> data \<noteq> [] then Some (encodeCursor (idOf (last data))) else None,
         cp_hasMore = hasMore\<rparr>)"

section \<open>Jobs\<close>

record public_job =
  pj_id :: string
  pj_jobNumber :: string
  pj_status :: job_status
  pj_serviceType :: service_type
  pj_pickupAddress :: string
  pj_dropoffAddress :: "string option"
  pj_customerId :: "uuid option"
  pj_vehicleId :: "uuid option"
  pj_assignedDriverId :: "uuid option"
  pj_assignedTruckId :: "uuid option"
  pj_rateQuotedCents :: cents
  pj_createdAt :: string
  pj_updatedAt :: string

definition toPublicJob :: "job_row \<Rightarrow> public_job" where
  "toPublicJob j = \<lparr>pj_id = uuid_text (job_id j), pj_jobNumber = job_jobNumber j, pj_status = job_status j,
     pj_serviceType = job_serviceType j, pj_pickupAddress = job_pickupAddress j,
     pj_dropoffAddress = job_dropoffAddress j, pj_customerId = job_customerId j,
     pj_vehicleId = job_vehicleId j, pj_assignedDriverId = job_assignedDriverId j,
     pj_assignedTruckId = job_assignedTruckId j, pj_rateQuotedCents = job_rateQuotedCents j,
     pj_createdAt = toISOString (job_createdAt j), pj_updatedAt = toISOString (job_updatedAt j)\<rparr>"

text \<open>Identifiers compare as 128-bit numbers.\<close>

definition before_cursor :: "string option \<Rightarrow> uuid \<Rightarrow> bool" where
  "before_cursor c i = (case c of None \<Rightarrow> True | Some s \<Rightarrow> i < read_uuid s)"

definition listJobs :: "uuid \<Rightarrow> job_status option \<Rightarrow> string option \<Rightarrow> nat \<Rightarrow> dispatch_db \<Rightarrow> public_job cursor_page" where
  "listJobs t status cursor limit db =
    (let cursorId = decodeCursor cursor;
         rows = take (limit + 1) (sort_key (\<lambda>j. - int (job_id j)) (select_where (\<lambda>j.
           job_tenantId j = t \<and> job_deletedAt j = None
           \<and> (case status of None \<Rightarrow> True | Some s \<Rightarrow> job_status j = s)
           \<and> before_cursor cursorId (job_id j)) (jobs db)))
     in buildCursorPage (map toPublicJob rows) limit pj_id)"

definition getJob :: "uuid \<Rightarrow> uuid \<Rightarrow> dispatch_db \<Rightarrow> public_job option" where
  "getJob t i db = map_option toPublicJob (select_first (live_job t i) (jobs db))"

definition patchJobStatus :: "ctx \<Rightarrow> instant \<Rightarrow> uuid \<Rightarrow> uuid \<Rightarrow> job_status \<Rightarrow> string option \<Rightarrow> dispatch_db \<Rightarrow>
    exn + public_job \<times> dispatch_db" where
  "patchJobStatus ctx now newId i status reason db =
    ensure (status \<noteq> Job_dispatched)
      (bad_transition ''Transition to 'dispatched' is not supported via the public API (requires driver assignment).'')
      (attempt (transition ctx now newId i status reason db) (\<lambda>(row, db1). Inr (toPublicJob row, db1)))"

section \<open>Cursors name rows\<close>

lemma of_char_small: "(of_char c :: nat) < 256"
  by simp

lemma ascii_round: "map char_of (ascii_bytes s) = s"
  by (induction s) (simp_all add: ascii_bytes_def)

lemma lower_hex_ascii: "lower_hex c \<Longrightarrow> (of_char c :: nat) < 128"
  by (auto simp: lower_hex_def Let_def)

lemma decode_encode_cursor: "decodeCursor (Some (encodeCursor (uuid_text i))) = Some (uuid_text i)"
proof -
  have small: "\<forall>b \<in> set (ascii_bytes (uuid_text i)). b < 256" by (auto simp: ascii_bytes_def of_char_small)
  have seven: "list_all (\<lambda>b. b < 128) (ascii_bytes (uuid_text i))"
    using uuid_text_ascii lower_hex_ascii by (fastforce simp: ascii_bytes_def list_all_iff)
  have ne: "encodeCursor (uuid_text i) \<noteq> []"
  proof
    assume e: "encodeCursor (uuid_text i) = []"
    have "base64_bytes (encodeCursor (uuid_text i)) = ascii_bytes (uuid_text i)"
      unfolding encodeCursor_def using small by simp
    then show False using e by (simp add: base64_bytes_def ascii_bytes_def uuid_text_def dashed_def map_filter_simps)
  qed
  have "base64_bytes (encodeCursor (uuid_text i)) = ascii_bytes (uuid_text i)"
    unfolding encodeCursor_def using small by simp
  then show ?thesis
    using seven ne by (simp add: decodeCursor_def truthy_def ascii_round UUID_RX_text)
qed

text \<open>The pages a client sees that follows the cursors.\<close>

fun walk_jobs :: "nat \<Rightarrow> uuid \<Rightarrow> job_status option \<Rightarrow> string option \<Rightarrow> nat \<Rightarrow> dispatch_db \<Rightarrow> public_job list" where
  "walk_jobs 0 t status cursor limit db = []"
| "walk_jobs (Suc n) t status cursor limit db =
    (let page = listJobs t status cursor limit db in
     cp_data page @ (case cp_nextCursor page of None \<Rightarrow> [] | Some c \<Rightarrow> walk_jobs n t status (Some c) limit db))"

definition listed :: "uuid \<Rightarrow> job_status option \<Rightarrow> (uuid \<Rightarrow> bool) \<Rightarrow> dispatch_db \<Rightarrow> job_row list" where
  "listed t status P db = sort_key (\<lambda>j. - int (job_id j)) (filter (\<lambda>j. job_tenantId j = t \<and> job_deletedAt j = None
     \<and> (case status of None \<Rightarrow> True | Some s \<Rightarrow> job_status j = s) \<and> P (job_id j)) (jobs db))"

lemma listJobs_page:
  "listJobs t status cursor limit db = buildCursorPage
     (map toPublicJob (take (limit + 1) (listed t status (before_cursor (decodeCursor cursor)) db))) limit pj_id"
  by (simp add: listJobs_def listed_def select_where_def Let_def)

lemma sort_key_split:
  fixes f :: "'a \<Rightarrow> 'k :: linorder"
  assumes "distinct (map f xs)" "sorted (map f xs)" "xs = ys @ y # zs"
  shows "filter (\<lambda>x. f y < f x) xs = zs"
proof -
  have "f y \<notin> f ` set zs" using assms(1,3) by simp
  then have "\<forall>x \<in> set zs. f x \<noteq> f y" by (metis image_eqI)
  moreover have "\<forall>x \<in> set ys. f x \<le> f y" "\<forall>x \<in> set zs. f y \<le> f x"
    using assms(2,3) by (auto simp: sorted_append)
  ultimately have "filter (\<lambda>x. f y < f x) ys = []" "filter (\<lambda>x. f y < f x) zs = zs"
    by (auto simp: filter_empty_conv filter_id_conv not_less order.strict_iff_order)
  then show ?thesis by (simp add: assms(3))
qed

lemma listed_narrow:
  assumes "\<And>i. Q i \<Longrightarrow> P i"
  shows "listed t status Q db = filter (\<lambda>j. Q (job_id j)) (listed t status P db)"
  using assms by (simp add: listed_def filter_sort filter_filter) (meson)

text \<open>Following the cursors from any point lists exactly the live jobs behind it, newest first.\<close>

lemma walk_from:
  assumes "distinct (map job_id (jobs db))" "\<forall>j \<in> set (jobs db). job_id j < 256 ^ 16" "0 < limit"
    "length (listed t status (before_cursor (decodeCursor cursor)) db) \<le> n * limit" "0 < n"
  shows "walk_jobs n t status cursor limit db
    = map toPublicJob (listed t status (before_cursor (decodeCursor cursor)) db)"
  using assms(4,5)
proof (induction n arbitrary: cursor)
  case (Suc n)
  let ?all = "listed t status (before_cursor (decodeCursor cursor)) db"
  show ?case
  proof (cases "length ?all \<le> limit")
    case True
    then show ?thesis by (simp add: listJobs_page buildCursorPage_def Let_def)
  next
    case False
    then have n: "0 < n" using Suc.prems(1) by (cases n) auto
    define y where "y = ?all ! (limit - 1)"
    have split: "?all = take (limit - 1) ?all @ y # drop limit ?all"
      using False assms(3) id_take_nth_drop [of "limit - 1" ?all] by (simp add: y_def)
    have tk: "take limit ?all = take (limit - 1) ?all @ [y]"
      using False assms(3) take_Suc_conv_app_nth [of "limit - 1" ?all] by (simp add: y_def)
    have mem: "y \<in> set ?all" using split by (metis in_set_conv_decomp)
    then have small: "job_id y < 256 ^ 16" and py: "before_cursor (decodeCursor cursor) (job_id y)"
      using assms(2) by (auto simp: listed_def)
    let ?next = "encodeCursor (uuid_text (job_id y))"
    have dec: "before_cursor (decodeCursor (Some ?next)) = (\<lambda>i. i < job_id y)"
      using read_uuid_text [OF small] by (simp add: decode_encode_cursor before_cursor_def fun_eq_iff)
    have le: "i < job_id y \<Longrightarrow> before_cursor (decodeCursor cursor) i" for i
      using py by (auto simp: before_cursor_def split: option.splits)
    have "listed t status (\<lambda>i. i < job_id y) db = filter (\<lambda>j. job_id j < job_id y) ?all"
      using le by (rule listed_narrow)
    also have "\<dots> = filter (\<lambda>j. - int (job_id y) < - int (job_id j)) ?all" by simp
    also have "\<dots> = drop limit ?all"
    proof (rule sort_key_split [OF _ _ split])
      show "distinct (map (\<lambda>j. - int (job_id j)) ?all)"
        using assms(1) by (simp add: listed_def distinct_map inj_on_def)
      show "sorted (map (\<lambda>j. - int (job_id j)) ?all)" by (simp add: listed_def)
    qed
    finally have rest: "listed t status (before_cursor (decodeCursor (Some ?next))) db = drop limit ?all"
      by (simp add: dec)
    have "walk_jobs n t status (Some ?next) limit db = map toPublicJob (drop limit ?all)"
      using Suc.IH [of "Some ?next"] rest n Suc.prems(1) by simp
    moreover have "cp_nextCursor (listJobs t status cursor limit db) = Some ?next"
      "cp_data (listJobs t status cursor limit db) = map toPublicJob (take limit ?all)"
      using False tk by (simp_all add: listJobs_page buildCursorPage_def Let_def take_map toPublicJob_def min_def)
    ultimately show ?thesis by (simp flip: map_append)
  qed
qed simp

text \<open>C27: Paging through the jobs of a tenant loses and repeats nothing.  A client that starts without
  a cursor and follows the cursor of each page, with any positive page size and any status filter,
  sees every live matching job of its tenant exactly once, newest identifier first; each cursor is
  decoded to the identifier it was made of.\<close>

theorem pages_list_each_job_once:
  assumes "distinct (map job_id (jobs db))" "\<forall>j \<in> set (jobs db). job_id j < 256 ^ 16" "0 < limit"
  shows "walk_jobs (Suc (length (jobs db))) t status None limit db
    = map toPublicJob (sort_key (\<lambda>j. - int (job_id j)) (filter (\<lambda>j. job_tenantId j = t \<and> job_deletedAt j = None
        \<and> (status = None \<or> status = Some (job_status j))) (jobs db)))"
proof -
  have "length (listed t status (\<lambda>_. True) db) \<le> length (jobs db)" by (simp add: listed_def)
  also have "\<dots> \<le> Suc (length (jobs db)) * limit" using assms(3) by (cases limit) simp_all
  finally have n: "length (listed t status (\<lambda>_. True) db) \<le> Suc (length (jobs db)) * limit" .
  have none: "before_cursor (decodeCursor None) = (\<lambda>_. True)"
    by (simp add: decodeCursor_def truthy_def before_cursor_def fun_eq_iff)
  have "walk_jobs (Suc (length (jobs db))) t status None limit db
      = map toPublicJob (listed t status (before_cursor (decodeCursor None)) db)"
    by (rule walk_from [OF assms]) (use n in \<open>simp_all only: none zero_less_Suc\<close>)
  moreover have "(case status of None \<Rightarrow> True | Some s \<Rightarrow> job_status j = s) \<longleftrightarrow> (status = None \<or> status = Some (job_status j))"
    for j :: job_row
    by (auto split: option.split)
  ultimately show ?thesis by (simp only: listed_def none simp_thms)
qed

definition sample_job :: "uuid \<Rightarrow> uuid \<Rightarrow> job_status \<Rightarrow> job_row" where
  "sample_job i t st = \<lparr>job_id = i, job_tenantId = t, job_jobNumber = ''n'', job_status = st,
     job_serviceType = Tow, job_dutyClass = Light, job_customerId = None, job_vehicleId = None,
     job_accountId = None, job_pickupAddress = ''p'', job_dropoffAddress = None, job_authorizedBy = By_police,
     job_authorizedByName = None, job_rateQuotedCents = 100, job_enrouteMiles = None, job_intowMiles = None,
     job_tierOffer = None, job_tierOfferEnforcementStatus = Tier_none, job_notes = None,
     job_cancelledReason = None, job_assignedDriverId = None, job_assignedTruckId = None,
     job_assignedShiftId = None, job_assignedAt = None, job_createdByUserId = None, job_createdAt = 0,
     job_updatedAt = 0, job_deletedAt = None\<rparr>"

definition sample_board :: dispatch_db where
  "sample_board = \<lparr>jobs = [sample_job 3 1 Job_new, sample_job 9 2 Job_new, sample_job 5 1 Job_new, sample_job 4 1 Job_completed],
     drivers = [], trucks = [], driverShifts = [], jobStatusTransitions = [], jobDriverAssignments = [],
     customers = [], vehicles = [], jobNumberSequences = [], events = []\<rparr>"

theorem pages_list_each_job_once_witness:
  "map pj_id (walk_jobs (Suc (length (jobs sample_board))) 1 (Some Job_new) None 1 sample_board)
    = [uuid_text 5, uuid_text 3]"
proof -
  have "walk_jobs (Suc (length (jobs sample_board))) 1 (Some Job_new) None 1 sample_board
      = map toPublicJob (sort_key (\<lambda>j. - int (job_id j)) (filter (\<lambda>j. job_tenantId j = 1 \<and> job_deletedAt j = None
          \<and> (Some Job_new = None \<or> Some Job_new = Some (job_status j))) (jobs sample_board)))"
    by (rule pages_list_each_job_once) (simp_all add: sample_board_def sample_job_def)
  moreover have "sort_key (\<lambda>j. - int (job_id j)) (filter (\<lambda>j. job_tenantId j = 1 \<and> job_deletedAt j = None
      \<and> (Some Job_new = None \<or> Some Job_new = Some (job_status j))) (jobs sample_board))
      = [sample_job 5 1 Job_new, sample_job 3 1 Job_new]"
    by (simp add: sample_board_def sample_job_def)
  ultimately show ?thesis by (simp only: list.map toPublicJob_def sample_job_def public_job.simps job_row.simps)
qed

text \<open>The identifiers a client sees on the pages are distinct.\<close>

lemma pages_show_distinct_ids:
  assumes "distinct (map job_id (jobs db))" "\<forall>j \<in> set (jobs db). job_id j < 256 ^ 16"
  shows "distinct (map pj_id (map toPublicJob (listed t status P db)))"
proof -
  have "map pj_id (map toPublicJob (listed t status P db)) = map uuid_text (map job_id (listed t status P db))"
    by (simp add: toPublicJob_def)
  moreover have "distinct (map job_id (listed t status P db))"
    using assms(1) by (simp add: listed_def distinct_map inj_on_def)
  moreover have "\<forall>i \<in> set (map job_id (listed t status P db)). i < 256 ^ 16"
    using assms(2) by (auto simp: listed_def)
  ultimately show ?thesis
    using uuids.distinct_enc [of "map job_id (listed t status P db)"] by (simp only:)
qed

section \<open>Keys\<close>

text \<open>A minted key reads back as its prefix, and admits its tenant with its scopes until it is revoked
  or expires.\<close>

lemma parse_generated:
  assumes "length prefixBytes = 6" "\<forall>b \<in> set prefixBytes. b < 256"
    "length secretBytes = 32" "\<forall>b \<in> set secretBytes. b < 256"
  shows "parseApiKey (gk_plaintext (generateApiKey hashApiKey env prefixBytes secretBytes))
    = Some (env, hex_of prefixBytes)"
proof -
  let ?p = "hex_of prefixBytes" and ?s = "hex_of secretBytes"
  have hex: "list_all lower_hex ?p" "list_all lower_hex ?s" using assms by (simp_all add: hex_of_lower)
  have us: "CHR ''_'' \<notin> set ?p" "CHR ''_'' \<notin> set ?s" using hex not_lower_hex by (auto simp: list_all_iff)
  let ?k = "''tc'' @ CHR ''_'' # (env_text env @ CHR ''_'' # (?p @ CHR ''_'' # ?s))"
  have env: "CHR ''_'' \<notin> set (env_text env)" "list_all (\<lambda>c. \<not> is_space c) (env_text env)"
    by (cases env; simp add: is_space_def)+
  have "list_all (\<lambda>c. \<not> is_space c) ?k"
    using hex env lower_hex_no_space by (auto simp: list_all_iff is_space_def Let_def)
  then have "js_trim ?k = ?k" by (rule js_trim_none)
  moreover have "split_on (CHR ''_'') ?k = [''tc'', env_text env, ?p, ?s]"
    using us env(1) by (simp add: split_on_sep split_on_none del: append_Cons)
  ultimately show ?thesis
    using hex assms by (cases env) (simp_all add: generateApiKey_def parseApiKey_def Let_def)
qed

lemma sanitize_scopes_json: "sanitizeScopes (scopes_json ss) = ss"
proof -
  have "scope_of_json (JStr (scope_name s)) = Some s" for s
    by (cases s) (simp_all add: apiScopeValues_def)
  then show ?thesis by (simp add: scopes_json_def) (induction ss, simp_all add: map_filter_simps)
qed

lemma minted_key_admits:
  assumes "create_api_key h dflt ctx input prefixBytes secretBytes i now tbl = Inr ((dto, key), tbl1)"
    "length prefixBytes = 6" "\<forall>b \<in> set prefixBytes. b < 256" "length secretBytes = 32" "\<forall>b \<in> set secretBytes. b < 256"
    "case ck_expiresAt input of None \<Rightarrow> True | Some e \<Rightarrow> later < e"
  shows "resolve_key h later key tbl1 = Inr \<lparr>rk_id = i, rk_tenantId = ctx_tenantId ctx, rk_createdBy = ctx_userId ctx,
     rk_scopes = ck_scopes input,
     rk_rateLimitPerMin = (case ck_rateLimitPerMin input of None \<Rightarrow> dflt | Some n \<Rightarrow> n)\<rparr>"
proof -
  let ?g = "generateApiKey h Env_live prefixBytes secretBytes"
  let ?row = "new_key_row ctx dflt input ?g i now"
  have k: "key = gk_plaintext ?g" "tbl1 = tbl @ [?row]"
    and free: "\<not> (\<exists>k \<in> set tbl. ak_deletedAt k = None \<and> ak_prefix k = gk_prefix ?g)"
    using assms(1) by (auto simp: create_api_key_def Let_def insert_into_def list_ex_iff)
  have "select_first (\<lambda>k. ak_prefix k = hex_of prefixBytes \<and> ak_deletedAt k = None) tbl = None"
    using free by (auto simp: select_first_None generateApiKey_def Let_def)
  then have "select_first (\<lambda>k. ak_prefix k = hex_of prefixBytes \<and> ak_deletedAt k = None) tbl1 = Some ?row"
    unfolding k(2) by (induction tbl) (auto simp: select_first_def new_key_row_def generateApiKey_def Let_def split: if_splits)
  moreover have "hashesEqual (h key) (ak_keyHash ?row)"
    by (simp add: hashesEqual_def new_key_row_def k(1) generateApiKey_def Let_def)
  ultimately show ?thesis
    using parse_generated [OF assms(2-5)] assms(6)
    by (simp add: resolve_key_def k(1) exec_simps new_key_row_def sanitize_scopes_json)
qed

lemma revoked_key_refused:
  assumes "parseApiKey key = Some (env, p)"
    "select_first (\<lambda>k. ak_prefix k = p \<and> ak_deletedAt k = None) tbl = Some row" "ak_revokedAt row \<noteq> None"
  shows "resolve_key h now key tbl = Inl invalid_key"
  using assms by (auto simp: resolve_key_def exec_simps ensure_def)

text \<open>Revoking is permanent: no handler clears the column.\<close>

lemma revoke_revokes:
  assumes "revoke_api_key ctx i now tbl = Inr (dto, tbl1)" "distinct (map ak_id tbl)"
    "k \<in> set tbl1" "ak_id k = i" "ak_tenantId k = ctx_tenantId ctx"
  shows "ak_revokedAt k \<noteq> None"
proof -
  obtain k0 where k0: "own_key (ctx_tenantId ctx) i k0" "k0 \<in> set tbl"
    "if ak_revokedAt k0 \<noteq> None then tbl1 = tbl
     else tbl1 = update_where (own_key (ctx_tenantId ctx) i) (\<lambda>k. k\<lparr>ak_revokedAt := Some now, ak_updatedAt := now\<rparr>) tbl"
    using assms(1) select_first_SomeD
    by (fastforce simp: revoke_api_key_def update_returning_def split: if_splits)
  show ?thesis
  proof (cases "ak_revokedAt k0 = None")
    case True
    then show ?thesis using k0(3) assms(3-5) by (auto simp: own_key_def dest!: in_update_where)
  next
    case False
    then have "k \<in> set tbl" using k0(3) assms(3) by simp
    then have "k = k0" using k0 assms(2,4) by (auto simp: own_key_def distinct_map dest: inj_onD)
    then show ?thesis using False by simp
  qed
qed

section \<open>Replays\<close>

text \<open>A repeated write with the same key and fingerprint gets the first answer and writes nothing, one
  with another fingerprint a conflict, as long as the cached row is there.\<close>

lemma repeated_write_replays:
  assumes "idem_run t k (Some key) fp st work db = (Inr b, db1)" "key \<noteq> []"
  shows "idem_run t k2 (Some key) fp st2 work2 db1 = (Inr b, db1)"
proof -
  have "\<exists>row. idem_lookup t key db1 = Some row \<and> idem_replay row fp = Inr b"
  proof (cases "idem_lookup t key db")
    case (Some row)
    then show ?thesis using assms by (simp add: idem_run_def truthy_def)
  next
    case None
    obtain r db2 where w: "work db = (r, db2)" by fastforce
    obtain b0 where r: "r = Inr b0" using assms None w by (cases r) (simp_all add: idem_run_def truthy_def)
    let ?row = "\<lparr>ik_tenantId = t, ik_apiKeyId = k, ik_key = key, ik_fingerprint = fp, ik_responseStatus = st, ik_responseBody = b0\<rparr>"
    show ?thesis
    proof (cases "idem_lookup t key db2")
      case won: None
      then have "db1 = db2\<lparr>idemKeys := idemKeys db2 @ [?row]\<rparr>" "b = b0"
        using assms None w r by (auto simp: idem_run_def truthy_def idem_insert_def insert_into_def exec_simps)
      moreover have "select_first P (xs @ [x]) = Some x" if "select_first P xs = None" "P x" for P and xs :: "'a idem_row list" and x
        using that by (induction xs) (auto simp: select_first_def split: if_splits)
      ultimately show ?thesis using won by (simp add: idem_lookup_def idem_replay_def exec_simps)
    next
      case (Some won)
      then show ?thesis using assms None w r by (simp add: idem_run_def truthy_def idem_insert_def ensure_def)
    qed
  qed
  then show ?thesis using assms(2) by (auto simp: idem_run_def truthy_def)
qed

lemma reused_key_conflicts:
  assumes "idem_lookup t key db = Some row" "ik_fingerprint row \<noteq> fp" "key \<noteq> []"
  shows "idem_run t k (Some key) fp st work db
    = (Inl (Conflict ''idempotency_key_reused'' ''Idempotency-Key was already used for a different request''), db)"
  using assms by (simp add: idem_run_def truthy_def idem_replay_def ensure_def)

text \<open>Two requests in flight: the cached answer is that of the winner, but the write of the loser has
  run as well.\<close>

lemma concurrent_writes_both_run:
  assumes "idem_lookup t key db = None" "key \<noteq> []"
    "\<And>d. work1 d = (Inr b1, d\<lparr>world := Suc (world d)\<rparr>)"
  shows "idem_run t k (Some key) fp st (\<lambda>d. work1 (snd (idem_run t k (Some key) fp st work1 d))) db
    = (Inr b1, snd (idem_run t k (Some key) fp st work1 db)\<lparr>world := Suc (Suc (world db))\<rparr>)"
proof -
  have "select_first P (xs @ [x]) = Some x" if "select_first P xs = None" "P x" for P and xs :: "'a idem_row list" and x
    using that by (induction xs) (auto simp: select_first_def split: if_splits)
  then show ?thesis
    using assms by (simp add: idem_run_def truthy_def idem_insert_def insert_into_def exec_simps idem_lookup_def
        idem_replay_def ensure_def)
qed

section \<open>Rate limits\<close>

text \<open>The window is fixed, not sliding: the counter starts over when it expires, so twice the limit
  passes within a fraction of a window.\<close>

lemma window_starts_over:
  assumes "c (''rl:'' @ k) = Some \<lparr>bk_count = limit, bk_expiresAt = Some e\<rparr>" "e \<le> now" "1 \<le> limit"
  shows "rl_allowed (fst (rate_check now k limit ttl c)) \<and> rl_count (fst (rate_check now k limit ttl c)) = 1"
  using assms by (simp add: rate_check_def bucket_at_def Let_def)

lemma exhausted_window_refuses:
  assumes "bucket_at now (''rl:'' @ k) c = Some b" "limit \<le> bk_count b"
  shows "\<not> rl_allowed (fst (rate_check now k limit ttl c))"
  using assms by (simp add: rate_check_def Let_def)

end
