(* ===== verification/Auth.thy ===== *)
theory Auth
  imports RateLimiter Json
begin

text \<open>
  modules/auth: accounts and sessions.  jwt.service.ts signs and verifies the tokens of the several
  surfaces, auth.service.ts is signup, login with lockout and the second factor, refresh with rotation
  and theft detection, logout, password reset and e-mail verification.  Signing, hashing, the password
  check and the one-time codes are arguments (\<open>auth_env\<close>), and so are the random tokens and
  identifiers; mails are left out.  A handler runs several transactions: what an earlier one committed
  stays when a later step throws.
\<close>

section \<open>Tokens\<close>

datatype jwt_key = Key_access | Key_refresh | Key_mfa | Key_driver | Key_portal | Key_bidder | Key_developer

record auth_env =
  ae_sign :: "jwt_key \<Rightarrow> string \<Rightarrow> int \<Rightarrow> json \<Rightarrow> instant \<Rightarrow> string"
  ae_verify :: "jwt_key \<Rightarrow> string \<Rightarrow> instant \<Rightarrow> string \<Rightarrow> json option"
  ae_hashToken :: "string \<Rightarrow> string"
  ae_passwordOk :: "string \<Rightarrow> string \<Rightarrow> bool"
  ae_totpOk :: "instant \<Rightarrow> string \<Rightarrow> string \<Rightarrow> bool"
  ae_totpDecrypt :: "string \<Rightarrow> string"
  ae_mfaLoginGateEnabled :: bool
  ae_accessTtl :: string
  ae_refreshTtl :: string
  ae_driverTtl :: string
  ae_portalTtl :: string
  ae_bidderTtl :: string
  ae_developerTtl :: string

fun role_text :: "role \<Rightarrow> string" where
  "role_text Owner = ''owner''"
| "role_text Admin = ''admin''"
| "role_text Manager = ''manager''"
| "role_text Dispatcher = ''dispatcher''"
| "role_text Driver = ''driver''"
| "role_text Accounting = ''accounting''"
| "role_text Auditor = ''auditor''"

text \<open>\<open>typeof payload.k === 'string'\<close>, the empty string included.\<close>

definition claim_text :: "string \<Rightarrow> json \<Rightarrow> string option" where
  "claim_text k p = (case json_get k p of Some (JStr s) \<Rightarrow> Some s | _ \<Rightarrow> None)"

text \<open>\<open>^(\d+)([smhd])$\<close>, else \<open>parseInt\<close>: the sign and the leading digits, as seconds.\<close>

definition parse_int :: "string \<Rightarrow> int option" where
  "parse_int s =
    (let body = (if s \<noteq> [] \<and> (hd s = CHR ''+'' \<or> hd s = CHR ''-'') then tl s else s);
         digits = takeWhile is_digit body; n = int (read_digits digits) in
     if digits = [] then None else Some (if hd s = CHR ''-'' then - n else n))"

definition parseDuration :: "string \<Rightarrow> int option" where
  "parseDuration input =
    (let s = js_trim input; digits = takeWhile is_digit s; n = int (read_digits digits);
         u = drop (length digits) s in
     if digits \<noteq> [] \<and> u = ''s'' then Some n
     else if digits \<noteq> [] \<and> u = ''m'' then Some (n * 60)
     else if digits \<noteq> [] \<and> u = ''h'' then Some (n * 3600)
     else if digits \<noteq> [] \<and> u = ''d'' then Some (n * 86400)
     else parse_int s)"

text \<open>The configured lifetimes are durations; the error of a malformed one is not modelled.\<close>

definition seconds_of :: "string \<Rightarrow> int" where
  "seconds_of s = (case parseDuration s of None \<Rightarrow> 0 | Some n \<Rightarrow> n)"

definition user_claims :: "uuid \<Rightarrow> uuid \<Rightarrow> string \<Rightarrow> (string \<times> json) list" where
  "user_claims sub tid role = [(''sub'', JStr (uuid_text sub)), (''tid'', JStr (uuid_text tid)), (''role'', JStr role)]"

definition signAccess :: "auth_env \<Rightarrow> uuid \<Rightarrow> uuid \<Rightarrow> string \<Rightarrow> uuid \<Rightarrow> instant \<Rightarrow> string" where
  "signAccess env sub tid role jti now = ae_sign env Key_access '''' (seconds_of (ae_accessTtl env))
     (JObj (user_claims sub tid role @ [(''jti'', JStr (uuid_text jti))])) now"

definition verifyAccess :: "auth_env \<Rightarrow> instant \<Rightarrow> string \<Rightarrow> json option" where
  "verifyAccess env now token = ae_verify env Key_access '''' now token"

definition signMfaChallenge :: "auth_env \<Rightarrow> uuid \<Rightarrow> uuid \<Rightarrow> string \<Rightarrow> instant \<Rightarrow> string" where
  "signMfaChallenge env sub tid role now = ae_sign env Key_mfa ''-mfa'' 300
     (JObj (user_claims sub tid role @ [(''mfa'', JBool True)])) now"

definition signMfaSetupRequired :: "auth_env \<Rightarrow> uuid \<Rightarrow> uuid \<Rightarrow> string \<Rightarrow> instant \<Rightarrow> string" where
  "signMfaSetupRequired env sub tid role now = ae_sign env Key_mfa ''-mfa-setup'' 900
     (JObj (user_claims sub tid role @ [(''mfa_setup'', JBool True)])) now"

text \<open>The subject and tenant of an accepted token.\<close>

definition accepted_claims :: "string \<Rightarrow> json option \<Rightarrow> (string \<times> string) option" where
  "accepted_claims marker payload = (case payload of None \<Rightarrow> None
    | Some p \<Rightarrow> if json_get marker p \<noteq> Some (JBool True) then None
        else (case (claim_text ''sub'' p, claim_text ''tid'' p) of (Some s, Some t) \<Rightarrow> Some (s, t) | _ \<Rightarrow> None))"

definition verifyMfaChallenge :: "auth_env \<Rightarrow> instant \<Rightarrow> string \<Rightarrow> (string \<times> string) option" where
  "verifyMfaChallenge env now token = accepted_claims ''mfa'' (ae_verify env Key_mfa ''-mfa'' now token)"

definition verifyMfaSetupRequired :: "auth_env \<Rightarrow> instant \<Rightarrow> string \<Rightarrow> (string \<times> string) option" where
  "verifyMfaSetupRequired env now token = accepted_claims ''mfa_setup'' (ae_verify env Key_mfa ''-mfa-setup'' now token)"

subsection \<open>Drivers, portal customers, bidders and developers\<close>

definition signDriver :: "auth_env \<Rightarrow> uuid \<Rightarrow> uuid \<Rightarrow> uuid \<Rightarrow> instant \<Rightarrow> string" where
  "signDriver env driverId tid jti now = ae_sign env Key_driver ''-driver'' (seconds_of (ae_driverTtl env))
     (JObj [(''driverId'', JStr (uuid_text driverId)), (''tid'', JStr (uuid_text tid)),
            (''jti'', JStr (uuid_text jti)), (''sub'', JStr ''driver'')]) now"

text \<open>The literal subject, the tenant and the bound identifier of a driver's or bidder's token.\<close>

definition bound_claims :: "string \<Rightarrow> string \<Rightarrow> json option \<Rightarrow> (string \<times> string) option" where
  "bound_claims subject k payload = (case payload of None \<Rightarrow> None
    | Some p \<Rightarrow> if json_get ''sub'' p \<noteq> Some (JStr subject) then None
        else (case (claim_text ''tid'' p, claim_text k p) of (Some t, Some i) \<Rightarrow> Some (t, i) | _ \<Rightarrow> None))"

definition verifyDriver :: "auth_env \<Rightarrow> instant \<Rightarrow> string \<Rightarrow> (string \<times> string) option" where
  "verifyDriver env now token = bound_claims ''driver'' ''driverId'' (ae_verify env Key_driver ''-driver'' now token)"

definition signPortal :: "auth_env \<Rightarrow> uuid \<Rightarrow> uuid \<Rightarrow> uuid \<Rightarrow> uuid \<Rightarrow> instant \<Rightarrow> string" where
  "signPortal env sub cid tid jti now = ae_sign env Key_portal ''-portal'' (seconds_of (ae_portalTtl env))
     (JObj [(''cid'', JStr (uuid_text cid)), (''tid'', JStr (uuid_text tid)),
            (''sub'', JStr (uuid_text sub)), (''jti'', JStr (uuid_text jti))]) now"

definition verifyPortal :: "auth_env \<Rightarrow> instant \<Rightarrow> string \<Rightarrow> (string \<times> string \<times> string) option" where
  "verifyPortal env now token = (case ae_verify env Key_portal ''-portal'' now token of None \<Rightarrow> None
    | Some p \<Rightarrow> (case (claim_text ''sub'' p, claim_text ''tid'' p, claim_text ''cid'' p) of
        (Some s, Some t, Some c) \<Rightarrow> Some (s, t, c) | _ \<Rightarrow> None))"

definition signBidder :: "auth_env \<Rightarrow> uuid \<Rightarrow> uuid \<Rightarrow> uuid \<Rightarrow> instant \<Rightarrow> string" where
  "signBidder env bidderId tid jti now = ae_sign env Key_bidder ''-bidder'' (seconds_of (ae_bidderTtl env))
     (JObj [(''bidderId'', JStr (uuid_text bidderId)), (''tid'', JStr (uuid_text tid)),
            (''jti'', JStr (uuid_text jti)), (''sub'', JStr ''bidder'')]) now"

definition verifyBidder :: "auth_env \<Rightarrow> instant \<Rightarrow> string \<Rightarrow> (string \<times> string) option" where
  "verifyBidder env now token = bound_claims ''bidder'' ''bidderId'' (ae_verify env Key_bidder ''-bidder'' now token)"

definition signDeveloper :: "auth_env \<Rightarrow> uuid \<Rightarrow> instant \<Rightarrow> string" where
  "signDeveloper env sub now = ae_sign env Key_developer ''-developer'' (seconds_of (ae_developerTtl env))
     (JObj [(''sub'', JStr (uuid_text sub)), (''devel'', JBool True)]) now"

definition verifyDeveloper :: "auth_env \<Rightarrow> instant \<Rightarrow> string \<Rightarrow> string option" where
  "verifyDeveloper env now token = (case ae_verify env Key_developer ''-developer'' now token of None \<Rightarrow> None
    | Some p \<Rightarrow> if json_get ''devel'' p \<noteq> Some (JBool True) then None else claim_text ''sub'' p)"

section \<open>Tables\<close>

datatype tenant_status = Tenant_active | Tenant_suspended | Tenant_cancelled

record tenant_account =
  tac_id :: uuid
  tac_slug :: string
  tac_name :: string
  tac_status :: tenant_status
  tac_deletedAt :: "instant option"

record user_row =
  usr_id :: uuid
  usr_tenantId :: uuid
  usr_email :: string
  usr_emailVerifiedAt :: "instant option"
  usr_passwordHash :: string
  usr_firstName :: string
  usr_lastName :: string
  usr_role :: role
  usr_isActive :: bool
  usr_totpSecretEncrypted :: "string option"
  usr_mfaEnabled :: bool
  usr_mfaEnrolledAt :: "instant option"
  usr_mfaRecoveryCodes :: "string list"
  usr_mfaFailedAttempts :: int
  usr_mfaLockedUntil :: "instant option"
  usr_failedLoginCount :: int
  usr_lockedUntil :: "instant option"
  usr_lastLoginAt :: "instant option"
  usr_localePreference :: "string option"
  usr_updatedAt :: instant
  usr_deletedAt :: "instant option"

record session_row =
  ses_id :: uuid
  ses_tenantId :: uuid
  ses_userId :: uuid
  ses_refreshTokenHash :: string
  ses_userAgent :: "string option"
  ses_ipAddress :: "string option"
  ses_expiresAt :: instant
  ses_revokedAt :: "instant option"
  ses_rotatedFromId :: "uuid option"
  ses_lastUsedAt :: "instant option"
  ses_updatedAt :: instant

record mail_token_row =
  mt_id :: uuid
  mt_tenantId :: uuid
  mt_userId :: uuid
  mt_tokenHash :: string
  mt_expiresAt :: instant
  mt_consumedAt :: "instant option"

record auth_db =
  tenantAccounts :: "tenant_account list"
  users :: "user_row list"
  sessions :: "session_row list"
  resetTokens :: "mail_token_row list"
  verificationTokens :: "mail_token_row list"
  rateCounters :: counters

definition find_user :: "uuid \<Rightarrow> auth_db \<Rightarrow> user_row option" where
  "find_user i db = select_first (\<lambda>u. usr_id u = i) (users db)"

definition find_tenant :: "uuid \<Rightarrow> auth_db \<Rightarrow> tenant_account option" where
  "find_tenant i db = select_first (\<lambda>t. tac_id t = i) (tenantAccounts db)"

definition live_tenant :: "uuid \<Rightarrow> auth_db \<Rightarrow> tenant_account option" where
  "live_tenant i db = select_first (\<lambda>t. tac_id t = i \<and> tac_deletedAt t = None) (tenantAccounts db)"

definition update_user :: "uuid \<Rightarrow> (user_row \<Rightarrow> user_row) \<Rightarrow> auth_db \<Rightarrow> auth_db" where
  "update_user i f db = db\<lparr>users := update_where (\<lambda>u. usr_id u = i) f (users db)\<rparr>"

section \<open>Sessions\<close>

record request_meta =
  rm_ipAddress :: "string option"
  rm_userAgent :: "string option"

record issued_tokens =
  it_accessToken :: string
  it_refreshToken :: string
  it_expiresIn :: int

text \<open>The identifiers a mint draws: session, access token, refresh token.\<close>

record mint_ids =
  mi_session :: uuid
  mi_access :: uuid
  mi_refresh :: uuid

definition mintTokensInTransaction :: "auth_env \<Rightarrow> uuid \<Rightarrow> uuid \<Rightarrow> string \<Rightarrow> request_meta \<Rightarrow> uuid option \<Rightarrow>
    mint_ids \<Rightarrow> instant \<Rightarrow> auth_db \<Rightarrow> issued_tokens \<times> auth_db" where
  "mintTokensInTransaction env tenantId userId role meta rotatedFromId ids now db =
    (let ttl = seconds_of (ae_refreshTtl env);
         jti = uuid_text (mi_refresh ids);
         refreshToken = ae_sign env Key_refresh ''-refresh'' ttl
           (JObj (user_claims userId tenantId role @ [(''jti'', JStr jti)])) now
     in (\<lparr>it_accessToken = signAccess env userId tenantId role (mi_access ids) now,
          it_refreshToken = refreshToken, it_expiresIn = seconds_of (ae_accessTtl env)\<rparr>,
         db\<lparr>sessions := insert_into \<lparr>ses_id = mi_session ids, ses_tenantId = tenantId, ses_userId = userId,
              ses_refreshTokenHash = ae_hashToken env jti, ses_userAgent = rm_userAgent meta,
              ses_ipAddress = rm_ipAddress meta, ses_expiresAt = now + ttl * 1000, ses_revokedAt = None,
              ses_rotatedFromId = rotatedFromId, ses_lastUsedAt = Some now, ses_updatedAt = now\<rparr> (sessions db)\<rparr>))"

definition issueTokens :: "auth_env \<Rightarrow> uuid \<Rightarrow> uuid \<Rightarrow> string \<Rightarrow> request_meta \<Rightarrow> mint_ids \<Rightarrow> instant \<Rightarrow>
    auth_db \<Rightarrow> issued_tokens \<times> auth_db" where
  "issueTokens env tenantId userId role meta ids now db =
    mintTokensInTransaction env tenantId userId role meta None ids now db"

definition revoke_where :: "(session_row \<Rightarrow> bool) \<Rightarrow> instant \<Rightarrow> auth_db \<Rightarrow> auth_db" where
  "revoke_where P now db = db\<lparr>sessions := update_where (\<lambda>s. P s \<and> ses_revokedAt s = None)
     (\<lambda>s. s\<lparr>ses_revokedAt := Some now, ses_updatedAt := now\<rparr>) (sessions db)\<rparr>"

section \<open>Answers\<close>

record user_dto =
  ud_id :: uuid
  ud_email :: string
  ud_firstName :: string
  ud_lastName :: string
  ud_role :: role
  ud_emailVerifiedAt :: "string option"
  ud_mfaEnabled :: bool
  ud_localePreference :: "string option"

definition toUserDto :: "user_row \<Rightarrow> user_dto" where
  "toUserDto u = \<lparr>ud_id = usr_id u, ud_email = usr_email u, ud_firstName = usr_firstName u,
     ud_lastName = usr_lastName u, ud_role = usr_role u,
     ud_emailVerifiedAt = map_option toISOString (usr_emailVerifiedAt u), ud_mfaEnabled = usr_mfaEnabled u,
     ud_localePreference = usr_localePreference u\<rparr>"

datatype login_response =
    Needs_tenant_selection "(string \<times> string) list"
  | Mfa_required string
  | Mfa_setup_required string role
  | Authenticated user_dto tenant_account issued_tokens

text \<open>Sessions for a user another flow vouches for: an accepted invitation, an identity provider.\<close>

definition issueSessionForUser :: "auth_env \<Rightarrow> user_row \<Rightarrow> tenant_account \<Rightarrow> string \<Rightarrow> request_meta \<Rightarrow> mint_ids \<Rightarrow>
    instant \<Rightarrow> auth_db \<Rightarrow> login_response \<times> auth_db" where
  "issueSessionForUser env u t role meta ids now db =
    (case issueTokens env (tac_id t) (usr_id u) role meta ids now db of
       (tokens, db1) \<Rightarrow> (Authenticated (toUserDto u) (t\<lparr>tac_status := Tenant_active\<rparr>) tokens, db1))"

definition issueSsoTokens :: "auth_env \<Rightarrow> uuid \<Rightarrow> uuid \<Rightarrow> string \<Rightarrow> request_meta \<Rightarrow> mint_ids \<Rightarrow> instant \<Rightarrow>
    auth_db \<Rightarrow> issued_tokens \<times> auth_db" where
  "issueSsoTokens env tenantId userId role meta ids now db = issueTokens env tenantId userId role meta ids now db"

definition invalid_credentials :: exn where
  "invalid_credentials = Unauthorized ''invalid_credentials'' ''Invalid email or password''"

definition role_permissions :: "role \<Rightarrow> string list" where
  "role_permissions r = (case r of
      Owner \<Rightarrow> [''tenant:read'', ''tenant:write'', ''users:read'', ''users:write'', ''jobs:read'', ''jobs:write'',
        ''drivers:read'', ''drivers:write'', ''invoices:read'', ''invoices:write'', ''integrations:read'',
        ''integrations:write'', ''settings:read'', ''settings:write'']
    | Admin \<Rightarrow> [''tenant:read'', ''tenant:write'', ''users:read'', ''users:write'', ''jobs:read'', ''jobs:write'',
        ''drivers:read'', ''drivers:write'', ''invoices:read'', ''invoices:write'', ''integrations:read'',
        ''integrations:write'', ''settings:read'', ''settings:write'']
    | Manager \<Rightarrow> [''tenant:read'', ''users:read'', ''jobs:read'', ''jobs:write'', ''drivers:read'',
        ''drivers:write'', ''invoices:read'']
    | Dispatcher \<Rightarrow> [''tenant:read'', ''jobs:read'', ''jobs:write'', ''drivers:read'']
    | Driver \<Rightarrow> [''tenant:read'', ''jobs:read'']
    | Accounting \<Rightarrow> [''tenant:read'', ''invoices:read'', ''invoices:write'']
    | Auditor \<Rightarrow> [''tenant:read'', ''jobs:read'', ''invoices:read''])"

definition auth_me :: "uuid \<Rightarrow> auth_db \<Rightarrow> exn + user_dto \<times> tenant_account \<times> string list" where
  "auth_me userId db =
    require (Option.bind (find_user userId db) (\<lambda>u. map_option (\<lambda>t. (u, t)) (find_tenant (usr_tenantId u) db)))
      (Unauthorized ''unauthorized'' ''User not found'')
      (\<lambda>(u, t). Inr (toUserDto u, t, role_permissions (usr_role u)))"

section \<open>Signup\<close>

definition js_words :: "string \<Rightarrow> string list" where
  "js_words s = filter (\<lambda>w. w \<noteq> []) (split_on (CHR '' '') (map (\<lambda>c. if is_space c then CHR '' '' else c) s))"

definition splitName :: "string \<Rightarrow> string \<times> string" where
  "splitName full = (case js_words full of [] \<Rightarrow> ([], [])
    | w # ws \<Rightarrow> (w, concat (map (\<lambda>(k, v). if k = 0 then v else CHR '' '' # v) (List.enumerate 0 ws))))"

definition VERIFY_TOKEN_TTL_HOURS :: int where "VERIFY_TOKEN_TTL_HOURS = 24"
definition RESET_TOKEN_TTL_MINUTES :: int where "RESET_TOKEN_TTL_MINUTES = 60"

definition mail_token :: "uuid \<Rightarrow> uuid \<Rightarrow> uuid \<Rightarrow> string \<Rightarrow> instant \<Rightarrow> mail_token_row" where
  "mail_token i t u h expires = \<lparr>mt_id = i, mt_tenantId = t, mt_userId = u, mt_tokenHash = h,
     mt_expiresAt = expires, mt_consumedAt = None\<rparr>"

record signup_input =
  si_tenantSlug :: string
  si_tenantName :: string
  si_ownerEmail :: string
  si_ownerName :: string

record signup_ids =
  sg_tenant :: uuid
  sg_user :: uuid
  sg_token :: uuid
  sg_mint :: mint_ids

definition new_user :: "uuid \<Rightarrow> uuid \<Rightarrow> string \<Rightarrow> string \<Rightarrow> string \<times> string \<Rightarrow> role \<Rightarrow> instant \<Rightarrow> user_row" where
  "new_user i t email passwordHash name r now = \<lparr>usr_id = i, usr_tenantId = t, usr_email = email,
     usr_emailVerifiedAt = None, usr_passwordHash = passwordHash, usr_firstName = fst name,
     usr_lastName = snd name, usr_role = r, usr_isActive = True, usr_totpSecretEncrypted = None,
     usr_mfaEnabled = False, usr_mfaEnrolledAt = None, usr_mfaRecoveryCodes = [], usr_mfaFailedAttempts = 0,
     usr_mfaLockedUntil = None, usr_failedLoginCount = 0, usr_lockedUntil = None, usr_lastLoginAt = None,
     usr_localePreference = None, usr_updatedAt = now, usr_deletedAt = None\<rparr>"

text \<open>\<open>passwordHash\<close> is the salted hash of the password, \<open>plainToken\<close> the token mailed out.\<close>

definition signup :: "auth_env \<Rightarrow> signup_input \<Rightarrow> string \<Rightarrow> string \<Rightarrow> request_meta \<Rightarrow> signup_ids \<Rightarrow> instant \<Rightarrow>
    auth_db \<Rightarrow> (exn + login_response) \<times> auth_db" where
  "signup env input passwordHash plainToken meta ids now db =
    (if select_first (\<lambda>t. tac_slug t = si_tenantSlug input) (tenantAccounts db) \<noteq> None
     then (Inl (Conflict ''conflict''
             (''Tenant slug '' @ [CHR 0x22] @ si_tenantSlug input @ [CHR 0x22] @ '' is already taken'')), db)
     else (let tenant = \<lparr>tac_id = sg_tenant ids, tac_slug = si_tenantSlug input, tac_name = si_tenantName input,
                 tac_status = Tenant_active, tac_deletedAt = None\<rparr>;
               user = new_user (sg_user ids) (sg_tenant ids) (si_ownerEmail input) passwordHash
                 (splitName (si_ownerName input)) Owner now;
               token = mail_token (sg_token ids) (sg_tenant ids) (sg_user ids) (ae_hashToken env plainToken)
                 (now + VERIFY_TOKEN_TTL_HOURS * 60 * 60 * 1000);
               db1 = db\<lparr>tenantAccounts := insert_into tenant (tenantAccounts db),
                 users := insert_into user (users db),
                 verificationTokens := insert_into token (verificationTokens db)\<rparr>
           in case issueTokens env (sg_tenant ids) (sg_user ids) ''owner'' meta (sg_mint ids) now db1 of
                (tokens, db2) \<Rightarrow> (Inr (Authenticated (toUserDto user) tenant tokens), db2)))"

definition checkSlugAvailability :: "string \<Rightarrow> instant \<Rightarrow> auth_db \<Rightarrow> bool \<times> string" where
  "checkSlugAvailability slug now db =
    (let taken = (\<lambda>s. list_ex (\<lambda>t. tac_slug t = s) (tenantAccounts db))
     in if \<not> taken slug then (True, slug)
        else (case List.find (\<lambda>s. \<not> taken s)
                (map (\<lambda>i. take 40 (slug @ ''-'' @ show_nat i)) [2..<51]) of
                Some s \<Rightarrow> (False, s)
              | None \<Rightarrow> (False, take 40 (slug @ ''-'' @ show_int now))))"

section \<open>Login\<close>

definition MAX_FAILED_LOGINS :: int where "MAX_FAILED_LOGINS = 5"
definition LOCKOUT_MINUTES :: int where "LOCKOUT_MINUTES = 15"
definition LOGIN_RATE_LIMIT :: int where "LOGIN_RATE_LIMIT = 5"
definition LOGIN_RATE_TTL_SECONDS :: int where "LOGIN_RATE_TTL_SECONDS = 15 * 60"

definition recordFailedLogin :: "uuid \<Rightarrow> instant \<Rightarrow> auth_db \<Rightarrow> auth_db" where
  "recordFailedLogin i now db = (case find_user i db of None \<Rightarrow> db
    | Some u \<Rightarrow> (let n = usr_failedLoginCount u + 1 in
        update_user i (\<lambda>v. v\<lparr>usr_failedLoginCount := n,
          usr_lockedUntil := (if MAX_FAILED_LOGINS \<le> n then Some (now + LOCKOUT_MINUTES * 60 * 1000)
            else usr_lockedUntil u),
          usr_updatedAt := now\<rparr>) db))"

record login_input =
  li_email :: string
  li_tenantSlug :: "string option"
  li_password :: string

definition login_candidates :: "login_input \<Rightarrow> auth_db \<Rightarrow> (user_row \<times> tenant_account) list" where
  "login_candidates input db = (case truthy (li_tenantSlug input) of
      Some slug \<Rightarrow>
        (case select_first (\<lambda>t. tac_slug t = slug \<and> tac_deletedAt t = None) (tenantAccounts db) of
           None \<Rightarrow> []
         | Some t \<Rightarrow>
             (case select_first (\<lambda>u. usr_tenantId u = tac_id t \<and> usr_email u = li_email input
                     \<and> usr_deletedAt u = None) (users db) of
                None \<Rightarrow> [] | Some u \<Rightarrow> [(u, t)]))
    | None \<Rightarrow> List.map_filter (\<lambda>u. case live_tenant (usr_tenantId u) db of
          None \<Rightarrow> None
        | Some t \<Rightarrow> if tac_status t = Tenant_active then Some (u, t) else None)
        (select_where (\<lambda>u. usr_email u = li_email input \<and> usr_deletedAt u = None) (users db)))"

definition locked :: "instant option \<Rightarrow> instant \<Rightarrow> bool" where
  "locked lockedUntil now = (case lockedUntil of None \<Rightarrow> False | Some t \<Rightarrow> now < t)"

text \<open>After the password was accepted: the second factor where the gate is on, else the session.\<close>

definition complete_login :: "auth_env \<Rightarrow> user_row \<Rightarrow> tenant_account \<Rightarrow> request_meta \<Rightarrow> mint_ids \<Rightarrow> instant \<Rightarrow>
    auth_db \<Rightarrow> login_response \<times> auth_db" where
  "complete_login env u t meta ids now db =
    (if ae_mfaLoginGateEnabled env \<and> usr_mfaEnabled u
     then (Mfa_required (signMfaChallenge env (usr_id u) (usr_tenantId u) (role_text (usr_role u)) now), db)
     else if ae_mfaLoginGateEnabled env \<and> (usr_role u = Owner \<or> usr_role u = Admin)
     then (Mfa_setup_required (signMfaSetupRequired env (usr_id u) (usr_tenantId u) (role_text (usr_role u)) now)
             (usr_role u), db)
     else (case issueTokens env (usr_tenantId u) (usr_id u) (role_text (usr_role u)) meta ids now db of
             (tokens, db1) \<Rightarrow> (Authenticated (toUserDto u) t tokens, db1)))"

definition login_as :: "auth_env \<Rightarrow> string \<Rightarrow> string \<Rightarrow> user_row \<times> tenant_account \<Rightarrow> request_meta \<Rightarrow> mint_ids \<Rightarrow>
    instant \<Rightarrow> auth_db \<Rightarrow> (exn + login_response) \<times> auth_db" where
  "login_as env rateKey plain candidate meta ids now db = (case candidate of (u, t) \<Rightarrow>
     if \<not> usr_isActive u then (Inl invalid_credentials, db)
     else if locked (usr_lockedUntil u) now
     then (Inl (Forbidden ''account_locked'' ''Account locked due to repeated failed logins. Try again later.''), db)
     else if \<not> ae_passwordOk env (usr_passwordHash u) plain
     then (Inl invalid_credentials, recordFailedLogin (usr_id u) now db)
     else (let db1 = db\<lparr>rateCounters := rate_reset rateKey (rateCounters db)\<rparr>;
               db2 = update_user (usr_id u) (\<lambda>v. v\<lparr>usr_lastLoginAt := Some now, usr_failedLoginCount := 0,
                 usr_lockedUntil := None, usr_updatedAt := now\<rparr>) db1
           in case complete_login env u t meta ids now db2 of (r, db3) \<Rightarrow> (Inr r, db3)))"

definition login :: "auth_env \<Rightarrow> login_input \<Rightarrow> request_meta \<Rightarrow> mint_ids \<Rightarrow> instant \<Rightarrow> auth_db \<Rightarrow>
    (exn + login_response) \<times> auth_db" where
  "login env input meta ids now db =
    (let rateKey = ''login:'' @ map lower_char (li_email input) in
     case rate_check now rateKey LOGIN_RATE_LIMIT LOGIN_RATE_TTL_SECONDS (rateCounters db) of (rate, c) \<Rightarrow>
       (let db1 = db\<lparr>rateCounters := c\<rparr> in
        if \<not> rl_allowed rate
        then (Inl (Forbidden ''rate_limited'' (''Too many login attempts. Try again in ''
                @ show_int (- ((- rl_retryAfterSeconds rate) div 60)) @ '' minutes.'')), db1)
        else (case login_candidates input db1 of
                [] \<Rightarrow> (Inl invalid_credentials, db1)
              | [candidate] \<Rightarrow> login_as env rateKey (li_password input) candidate meta ids now db1
              | candidates \<Rightarrow> (Inr (Needs_tenant_selection (map (\<lambda>(u, t). (tac_slug t, tac_name t)) candidates)), db1))))"

section \<open>The second factor\<close>

definition MFA_MAX_FAILED_ATTEMPTS :: int where "MFA_MAX_FAILED_ATTEMPTS = 5"
definition MFA_LOCKOUT_MINUTES :: int where "MFA_LOCKOUT_MINUTES = 15"

definition recordMfaFailure :: "uuid \<Rightarrow> instant \<Rightarrow> auth_db \<Rightarrow> auth_db" where
  "recordMfaFailure i now db = (case find_user i db of None \<Rightarrow> db
    | Some u \<Rightarrow> (let n = usr_mfaFailedAttempts u + 1 in
        update_user i (\<lambda>v. v\<lparr>usr_mfaFailedAttempts := n,
          usr_mfaLockedUntil := (if MFA_MAX_FAILED_ATTEMPTS \<le> n then Some (now + MFA_LOCKOUT_MINUTES * 60 * 1000)
            else usr_mfaLockedUntil u),
          usr_updatedAt := now\<rparr>) db))"

definition clearMfaFailures :: "uuid \<Rightarrow> instant \<Rightarrow> auth_db \<Rightarrow> auth_db" where
  "clearMfaFailures i now db = update_user i
     (\<lambda>v. v\<lparr>usr_mfaFailedAttempts := 0, usr_mfaLockedUntil := None, usr_updatedAt := now\<rparr>) db"

definition six_digits :: "string \<Rightarrow> bool" where
  "six_digits s \<longleftrightarrow> length s = 6 \<and> list_all is_digit s"

text \<open>The first stored hash that matches is dropped.\<close>

fun consume_code :: "string \<Rightarrow> string list \<Rightarrow> string list option" where
  "consume_code h [] = None"
| "consume_code h (x # xs) = (if hashesEqual x h then Some xs else map_option ((#) x) (consume_code h xs))"

definition tryMfaCode :: "auth_env \<Rightarrow> user_row \<Rightarrow> string \<Rightarrow> instant \<Rightarrow> auth_db \<Rightarrow> bool \<times> auth_db" where
  "tryMfaCode env u code now db = (case truthy (usr_totpSecretEncrypted u) of
      None \<Rightarrow> (False, db)
    | Some sealed \<Rightarrow>
        if six_digits code \<and> ae_totpOk env now (ae_totpDecrypt env sealed) code then (True, db)
        else (case consume_code (ae_hashToken env code) (usr_mfaRecoveryCodes u) of
                None \<Rightarrow> (False, db)
              | Some rest \<Rightarrow> (True, update_user (usr_id u)
                  (\<lambda>v. v\<lparr>usr_mfaRecoveryCodes := rest, usr_updatedAt := now\<rparr>) db)))"

definition user_of_claims :: "string \<Rightarrow> auth_db \<Rightarrow> user_row option" where
  "user_of_claims sub db = select_first (\<lambda>u. uuid_text (usr_id u) = sub \<and> usr_deletedAt u = None) (users db)"

definition challenged :: "string \<Rightarrow> auth_db \<Rightarrow> (user_row \<times> tenant_account) option" where
  "challenged sub db = Option.bind (user_of_claims sub db) (\<lambda>u.
     Option.bind (live_tenant (usr_tenantId u) db) (\<lambda>t.
       if tac_status t = Tenant_active \<and> usr_mfaEnabled u \<and> truthy (usr_totpSecretEncrypted u) \<noteq> None
       then Some (u, t) else None))"

definition mfaChallenge :: "auth_env \<Rightarrow> string \<Rightarrow> string \<Rightarrow> request_meta \<Rightarrow> mint_ids \<Rightarrow> instant \<Rightarrow> auth_db \<Rightarrow>
    (exn + login_response) \<times> auth_db" where
  "mfaChallenge env challengeToken code meta ids now db =
    (case verifyMfaChallenge env now challengeToken of
       None \<Rightarrow> (Inl (Unauthorized ''token_invalid'' ''Invalid or expired MFA challenge''), db)
     | Some (sub, tid) \<Rightarrow>
         (case challenged sub db of
            None \<Rightarrow> (Inl (Unauthorized ''mfa_invalid_code'' ''MFA challenge no longer valid''), db)
          | Some (u, t) \<Rightarrow>
              if locked (usr_mfaLockedUntil u) now
              then (Inl (Forbidden ''account_locked'' ''Too many failed MFA attempts. Try again in a few minutes.''), db)
              else (case tryMfaCode env u code now db of
                      (False, db1) \<Rightarrow> (Inl (Unauthorized ''mfa_invalid_code'' ''Invalid TOTP or recovery code''),
                         recordMfaFailure (usr_id u) now db1)
                    | (True, db1) \<Rightarrow>
                        (case issueTokens env (usr_tenantId u) (usr_id u) (role_text (usr_role u)) meta ids now
                                (clearMfaFailures (usr_id u) now db1) of
                           (tokens, db2) \<Rightarrow> (Inr (Authenticated (toUserDto u) t tokens), db2)))))"

definition bad_setup_token :: exn where
  "bad_setup_token = Unauthorized ''token_invalid''
     ''Setup token is invalid or expired. Sign in again to restart enrollment.''"

definition formatRecoveryCode :: "string \<Rightarrow> string" where
  "formatRecoveryCode raw = (if length raw \<noteq> 10 then raw else take 5 raw @ ''-'' @ drop 5 raw)"

text \<open>\<open>sealed\<close> is the encrypted secret, \<open>codes\<close> the ten recovery codes drawn.\<close>

definition mfaSetupWithToken :: "auth_env \<Rightarrow> string \<Rightarrow> string \<Rightarrow> string list \<Rightarrow> instant \<Rightarrow> auth_db \<Rightarrow>
    exn + string list \<times> auth_db" where
  "mfaSetupWithToken env setupToken sealed codes now db =
    require (verifyMfaSetupRequired env now setupToken) bad_setup_token (\<lambda>(sub, tid).
    require (user_of_claims sub db) (Unauthorized ''unauthorized'' ''User no longer exists'') (\<lambda>u.
    ensure (\<not> usr_mfaEnabled u) (Conflict ''conflict'' ''MFA is already enrolled for this account'')
      (Inr (map formatRecoveryCode codes, update_user (usr_id u) (\<lambda>v. v\<lparr>usr_totpSecretEncrypted := Some sealed,
         usr_mfaRecoveryCodes := map (ae_hashToken env) codes, usr_mfaFailedAttempts := 0,
         usr_mfaLockedUntil := None, usr_updatedAt := now\<rparr>) db))))"

definition mfaVerifyEnrollment :: "auth_env \<Rightarrow> string \<Rightarrow> string \<Rightarrow> request_meta \<Rightarrow> mint_ids \<Rightarrow> instant \<Rightarrow> auth_db \<Rightarrow>
    (exn + login_response) \<times> auth_db" where
  "mfaVerifyEnrollment env setupToken totpCode meta ids now db =
    (case verifyMfaSetupRequired env now setupToken of
       None \<Rightarrow> (Inl bad_setup_token, db)
     | Some (sub, tid) \<Rightarrow>
         (case Option.bind (user_of_claims sub db) (\<lambda>u. map_option (\<lambda>s. (u, s)) (truthy (usr_totpSecretEncrypted u))) of
            None \<Rightarrow> (Inl (BadRequest ''bad_request'' ''No MFA setup in progress. Restart enrollment.''), db)
          | Some (u, sealed) \<Rightarrow>
              if locked (usr_mfaLockedUntil u) now
              then (Inl (Forbidden ''account_locked'' ''Too many failed MFA attempts. Try again in a few minutes.''), db)
              else if \<not> ae_totpOk env now (ae_totpDecrypt env sealed) totpCode
              then (Inl (BadRequest ''mfa_invalid_code'' ''Invalid TOTP code. Try again.''),
                    (case select_first (\<lambda>v. uuid_text (usr_id v) = sub) (users db) of
                       None \<Rightarrow> db | Some v \<Rightarrow> recordMfaFailure (usr_id v) now db))
              else (case live_tenant (usr_tenantId u) db of
                      None \<Rightarrow> (Inl (Forbidden ''unauthorized'' ''Tenant is no longer active''), db)
                    | Some t \<Rightarrow>
                        if tac_status t \<noteq> Tenant_active
                        then (Inl (Forbidden ''unauthorized'' ''Tenant is no longer active''), db)
                        else (let db1 = update_user (usr_id u) (\<lambda>v. v\<lparr>usr_mfaEnabled := True,
                                 usr_mfaEnrolledAt := Some now, usr_mfaFailedAttempts := 0,
                                 usr_mfaLockedUntil := None, usr_updatedAt := now\<rparr>) db
                              in case issueTokens env (usr_tenantId u) (usr_id u) (role_text (usr_role u)) meta ids now db1 of
                                   (tokens, db2) \<Rightarrow>
                                     (Inr (Authenticated (toUserDto (u\<lparr>usr_mfaEnabled := True\<rparr>)) t tokens), db2)))))"

definition mfaDisable :: "auth_env \<Rightarrow> uuid \<Rightarrow> string \<Rightarrow> instant \<Rightarrow> auth_db \<Rightarrow> exn + unit \<times> auth_db" where
  "mfaDisable env userId plain now db =
    require (find_user userId db) (Unauthorized ''unauthorized'' ''User not found'') (\<lambda>u.
    ensure (ae_passwordOk env (usr_passwordHash u) plain)
      (Unauthorized ''invalid_credentials'' ''Password does not match'')
      (Inr ((), update_user (usr_id u) (\<lambda>v. v\<lparr>usr_mfaEnabled := False, usr_totpSecretEncrypted := None,
         usr_updatedAt := now\<rparr>) db)))"

section \<open>Refresh, with theft detection\<close>

definition bad_refresh :: exn where
  "bad_refresh = Unauthorized ''token_invalid'' ''Invalid or expired refresh token''"

record refresh_claims =
  rc_sub :: string
  rc_tid :: string
  rc_jti :: string
  rc_role :: string

text \<open>\<open>!sub || ...\<close>: a missing or empty claim.\<close>

definition refresh_claims_of :: "json \<Rightarrow> refresh_claims option" where
  "refresh_claims_of p =
    (case (truthy (claim_text ''sub'' p), truthy (claim_text ''tid'' p), truthy (claim_text ''jti'' p),
           truthy (claim_text ''role'' p)) of
       (Some s, Some t, Some j, Some r) \<Rightarrow> Some \<lparr>rc_sub = s, rc_tid = t, rc_jti = j, rc_role = r\<rparr>
     | _ \<Rightarrow> None)"

datatype refresh_outcome = Mint uuid | Theft | Invalid string string

definition session_of :: "auth_env \<Rightarrow> string \<Rightarrow> string \<Rightarrow> session_row \<Rightarrow> bool" where
  "session_of env jti sub s \<longleftrightarrow> ses_refreshTokenHash s = ae_hashToken env jti \<and> uuid_text (ses_userId s) = sub"

text \<open>The first transaction: it commits the revocation, also that of a theft.\<close>

definition validate_refresh :: "auth_env \<Rightarrow> refresh_claims \<Rightarrow> instant \<Rightarrow> auth_db \<Rightarrow> refresh_outcome \<times> auth_db" where
  "validate_refresh env c now db =
    (case select_first (session_of env (rc_jti c) (rc_sub c)) (sessions db) of
       None \<Rightarrow> (Invalid ''token_invalid'' ''Refresh token not recognized'', db)
     | Some s \<Rightarrow>
         if ses_revokedAt s \<noteq> None
         then (Theft, revoke_where (\<lambda>x. uuid_text (ses_userId x) = rc_sub c) now db)
         else if ses_expiresAt s \<le> now then (Invalid ''token_expired'' ''Refresh token expired'', db)
         else (case select_first (\<lambda>u. uuid_text (usr_id u) = rc_sub c) (users db) of
                 None \<Rightarrow> (Invalid ''unauthorized'' ''User no longer active'', db)
               | Some u \<Rightarrow>
                   if \<not> usr_isActive u then (Invalid ''unauthorized'' ''User no longer active'', db)
                   else (Mint (ses_id s), db\<lparr>sessions := update_where (\<lambda>x. ses_id x = ses_id s)
                          (\<lambda>x. x\<lparr>ses_revokedAt := Some now, ses_lastUsedAt := Some now, ses_updatedAt := now\<rparr>)
                          (sessions db)\<rparr>)))"

text \<open>The role of the new tokens is the one the old token carries.\<close>

definition refresh :: "auth_env \<Rightarrow> string \<Rightarrow> request_meta \<Rightarrow> mint_ids \<Rightarrow> instant \<Rightarrow> auth_db \<Rightarrow>
    (exn + issued_tokens) \<times> auth_db" where
  "refresh env refreshToken meta ids now db =
    (case ae_verify env Key_refresh ''-refresh'' now refreshToken of
       None \<Rightarrow> (Inl bad_refresh, db)
     | Some p \<Rightarrow>
         (case refresh_claims_of p of
            None \<Rightarrow> (Inl (Unauthorized ''token_invalid'' ''Refresh token missing required claims''), db)
          | Some c \<Rightarrow>
              (case validate_refresh env c now db of
                 (Theft, db1) \<Rightarrow> (Inl (Unauthorized ''token_reused''
                    ''Refresh token reuse detected; all sessions revoked''), db1)
               | (Invalid code msg, db1) \<Rightarrow> (Inl (Unauthorized code msg), db1)
               | (Mint sid, db1) \<Rightarrow>
                   (case mintTokensInTransaction env (read_uuid (rc_tid c)) (read_uuid (rc_sub c)) (rc_role c) meta
                           (Some sid) ids now db1 of
                      (tokens, db2) \<Rightarrow> (Inr tokens, db2)))))"

section \<open>Logout\<close>

definition logout :: "auth_env \<Rightarrow> string option \<Rightarrow> uuid \<Rightarrow> uuid \<Rightarrow> instant \<Rightarrow> auth_db \<Rightarrow> auth_db" where
  "logout env refreshToken tenantId userId now db = (case truthy refreshToken of
      None \<Rightarrow> revoke_where (\<lambda>s. ses_tenantId s = tenantId \<and> ses_userId s = userId) now db
    | Some token \<Rightarrow>
        (case Option.bind (ae_verify env Key_refresh ''-refresh'' now token) (\<lambda>p. truthy (claim_text ''jti'' p)) of
           None \<Rightarrow> db
         | Some jti \<Rightarrow> revoke_where (\<lambda>s. ses_tenantId s = tenantId \<and> ses_userId s = userId
              \<and> ses_refreshTokenHash s = ae_hashToken env jti) now db))"

section \<open>Password reset and e-mail verification\<close>

definition FORGOT_RATE_LIMIT :: int where "FORGOT_RATE_LIMIT = 3"
definition FORGOT_RATE_TTL_SECONDS :: int where "FORGOT_RATE_TTL_SECONDS = 60 * 60"
definition RESEND_VERIFY_RATE_LIMIT :: int where "RESEND_VERIFY_RATE_LIMIT = 3"
definition RESEND_VERIFY_RATE_TTL_SECONDS :: int where "RESEND_VERIFY_RATE_TTL_SECONDS = 60 * 60"

text \<open>One token per account with the address; identifiers and plain tokens are drawn per account.\<close>

definition forgotPassword :: "auth_env \<Rightarrow> string \<Rightarrow> (nat \<Rightarrow> uuid) \<Rightarrow> (nat \<Rightarrow> string) \<Rightarrow> instant \<Rightarrow> auth_db \<Rightarrow> auth_db" where
  "forgotPassword env email newIds plains now db =
    (case rate_check now (''forgot:'' @ map lower_char email) FORGOT_RATE_LIMIT FORGOT_RATE_TTL_SECONDS (rateCounters db) of
       (rate, c) \<Rightarrow>
         (let db1 = db\<lparr>rateCounters := c\<rparr> in
          if \<not> rl_allowed rate then db1
          else db1\<lparr>resetTokens := resetTokens db1 @ map (\<lambda>(k, u). mail_token (newIds k) (usr_tenantId u) (usr_id u)
                 (ae_hashToken env (plains k)) (now + RESET_TOKEN_TTL_MINUTES * 60 * 1000))
               (List.enumerate 0 (select_where (\<lambda>u. usr_email u = email \<and> usr_deletedAt u = None) (users db1)))\<rparr>))"

definition usable_token :: "string \<Rightarrow> instant \<Rightarrow> mail_token_row \<Rightarrow> bool" where
  "usable_token h now r \<longleftrightarrow> mt_tokenHash r = h \<and> mt_consumedAt r = None \<and> now < mt_expiresAt r"

definition resetPassword :: "auth_env \<Rightarrow> string \<Rightarrow> string \<Rightarrow> instant \<Rightarrow> auth_db \<Rightarrow> exn + unit \<times> auth_db" where
  "resetPassword env token newHash now db =
    require (Option.bind (select_first (usable_token (ae_hashToken env token) now) (resetTokens db))
        (\<lambda>r. map_option (\<lambda>u. (r, u)) (find_user (mt_userId r) db)))
      (BadRequest ''token_invalid'' ''Reset token is invalid or expired'') (\<lambda>(r, u).
      (let db1 = db\<lparr>resetTokens := update_where (\<lambda>x. mt_id x = mt_id r)
             (\<lambda>x. x\<lparr>mt_consumedAt := Some now\<rparr>) (resetTokens db)\<rparr>;
           db2 = update_user (usr_id u) (\<lambda>v. v\<lparr>usr_passwordHash := newHash, usr_failedLoginCount := 0,
             usr_lockedUntil := None, usr_updatedAt := now\<rparr>) db1
       in Inr ((), revoke_where (\<lambda>s. ses_userId s = usr_id u) now db2)))"

definition bad_verification :: exn where
  "bad_verification = BadRequest ''token_invalid'' ''Verification token is invalid or expired''"

text \<open>A missing tenant is answered with an error, after the verification has committed.\<close>

definition verifyEmail :: "auth_env \<Rightarrow> string \<Rightarrow> instant \<Rightarrow> auth_db \<Rightarrow> (exn + unit) \<times> auth_db" where
  "verifyEmail env token now db =
    (case Option.bind (select_first (usable_token (ae_hashToken env token) now) (verificationTokens db))
            (\<lambda>r. find_user (mt_userId r) db) of
       None \<Rightarrow> (Inl bad_verification, db)
     | Some u \<Rightarrow>
         (let db1 = update_user (usr_id u) (\<lambda>v. v\<lparr>usr_emailVerifiedAt := Some now, usr_updatedAt := now\<rparr>) db;
              db2 = db1\<lparr>verificationTokens := delete_where (\<lambda>r. mt_userId r = usr_id u) (verificationTokens db1)\<rparr>
          in (if find_tenant (usr_tenantId u) db2 = None then Inl bad_verification else Inr (), db2)))"

definition resendVerification :: "auth_env \<Rightarrow> uuid \<Rightarrow> uuid \<Rightarrow> string \<Rightarrow> instant \<Rightarrow> auth_db \<Rightarrow> (exn + unit) \<times> auth_db" where
  "resendVerification env userId newId plain now db =
    (case rate_check now (''resend-verify:'' @ uuid_text userId) RESEND_VERIFY_RATE_LIMIT
            RESEND_VERIFY_RATE_TTL_SECONDS (rateCounters db) of
       (rate, c) \<Rightarrow>
         (let db1 = db\<lparr>rateCounters := c\<rparr> in
          if \<not> rl_allowed rate
          then (Inl (Forbidden ''rate_limited'' ''Too many verification emails. Try again later.''), db1)
          else (case find_user userId db1 of
                  None \<Rightarrow> (Inr (), db1)
                | Some u \<Rightarrow>
                    if usr_emailVerifiedAt u \<noteq> None \<or> find_tenant (usr_tenantId u) db1 = None then (Inr (), db1)
                    else (Inr (), db1\<lparr>verificationTokens := insert_into
                           (mail_token newId (usr_tenantId u) (usr_id u) (ae_hashToken env plain)
                             (now + VERIFY_TOKEN_TTL_HOURS * 60 * 60 * 1000)) (verificationTokens db1)\<rparr>))))"

section \<open>The component as a machine\<close>

datatype auth_op =
    Signup signup_input string string request_meta signup_ids instant
  | Login login_input request_meta mint_ids instant
  | Mfa_challenge string string request_meta mint_ids instant
  | Mfa_setup string string "string list" instant
  | Mfa_verify string string request_meta mint_ids instant
  | Mfa_disable uuid string instant
  | Refresh string request_meta mint_ids instant
  | Logout "string option" uuid uuid instant
  | Forgot string "nat \<Rightarrow> uuid" "nat \<Rightarrow> string" instant
  | Reset string string instant
  | Verify_email string instant
  | Resend uuid uuid string instant
  | Invited user_row tenant_account string request_meta mint_ids instant
  | Sso uuid uuid string request_meta mint_ids instant

fun auth_step :: "auth_env \<Rightarrow> auth_op \<Rightarrow> auth_db \<Rightarrow> auth_db" where
  "auth_step env (Signup input h plain meta ids now) db = snd (signup env input h plain meta ids now db)"
| "auth_step env (Login input meta ids now) db = snd (login env input meta ids now db)"
| "auth_step env (Mfa_challenge token code meta ids now) db = snd (mfaChallenge env token code meta ids now db)"
| "auth_step env (Mfa_setup token sealed codes now) db = committed db (mfaSetupWithToken env token sealed codes now db)"
| "auth_step env (Mfa_verify token code meta ids now) db = snd (mfaVerifyEnrollment env token code meta ids now db)"
| "auth_step env (Mfa_disable u plain now) db = committed db (mfaDisable env u plain now db)"
| "auth_step env (Refresh token meta ids now) db = snd (refresh env token meta ids now db)"
| "auth_step env (Logout token t u now) db = logout env token t u now db"
| "auth_step env (Forgot email newIds plains now) db = forgotPassword env email newIds plains now db"
| "auth_step env (Reset token newHash now) db = committed db (resetPassword env token newHash now db)"
| "auth_step env (Verify_email token now) db = snd (verifyEmail env token now db)"
| "auth_step env (Resend u newId plain now) db = snd (resendVerification env u newId plain now db)"
| "auth_step env (Invited u t role meta ids now) db = snd (issueSessionForUser env u t role meta ids now db)"
| "auth_step env (Sso t u role meta ids now) db = snd (issueSsoTokens env t u role meta ids now db)"

end
