(* ===== verification/AuthProperties.thy ===== *)
theory AuthProperties
  imports Auth
begin

text \<open>
  What the accounts promise: the session table only grows and never un-revokes a session
  (\<open>grows\<close>), so a refresh token mints once and its reuse signs the user out everywhere; a locked
  account stays locked through any run of other operations (\<open>lock_holds\<close>); and the small print of
  the refresh (the role is that of the old token) and of the login by slug.
\<close>

section \<open>The session table only grows\<close>

definition kept :: "session_row \<Rightarrow> session_row \<Rightarrow> bool" where
  "kept s s' \<longleftrightarrow> ses_refreshTokenHash s' = ses_refreshTokenHash s \<and> ses_userId s' = ses_userId s
     \<and> (ses_revokedAt s \<noteq> None \<longrightarrow> ses_revokedAt s' \<noteq> None)"

definition grows :: "session_row list \<Rightarrow> session_row list \<Rightarrow> bool" where
  "grows l l' \<longleftrightarrow> (\<exists>old new. l' = old @ new \<and> list_all2 kept l old)"

lemma kept_refl [simp]: "kept s s"
  by (simp add: kept_def)

lemma kept_trans: "kept a b \<Longrightarrow> kept b c \<Longrightarrow> kept a c"
  by (simp add: kept_def)

lemma grows_refl [simp]: "grows l l"
  unfolding grows_def by (rule exI [of _ l]) (simp add: list_all2_refl)

lemma grows_trans [trans]:
  assumes "grows a b" "grows b c"
  shows "grows a c"
proof -
  obtain o1 n1 where b: "b = o1 @ n1" "list_all2 kept a o1"
    using assms(1) by (auto simp: grows_def)
  obtain o2 n2 where c: "c = o2 @ n2" "list_all2 kept b o2"
    using assms(2) by (auto simp: grows_def)
  obtain p q where o2: "o2 = p @ q" "list_all2 kept o1 p"
    using c(2) unfolding b(1) list_all2_append1 by blast
  have "list_all2 kept a p"
    using b(2) o2(2) by (rule list_all2_trans [rotated 1]) (rule kept_trans)
  then show ?thesis
    unfolding grows_def c(1) o2(1) append_assoc by blast
qed

lemma grows_insert [intro]: "grows l (insert_into r l)"
  unfolding grows_def insert_into_def by (rule exI [of _ l]) (simp add: list_all2_refl)

lemma grows_update [intro]:
  assumes "\<And>s. s \<in> set l \<Longrightarrow> P s \<Longrightarrow> kept s (f s)"
  shows "grows l (update_where P f l)"
  unfolding grows_def
  by (rule exI [of _ "update_where P f l"])
    (simp add: update_where_def list_all2_map2 list.rel_refl_strong assms)

lemma grows_select:
  assumes g: "grows l l'" and s: "select_first (session_of env j u) l = Some s"
  obtains s' where "select_first (session_of env j u) l' = Some s'" "kept s s'"
proof -
  obtain old new where l': "l' = old @ new" and k: "list_all2 kept l old"
    using g by (auto simp: grows_def)
  have "\<exists>s'. select_first (session_of env j u) (old @ new) = Some s' \<and> kept s s'"
    using k s
  proof (induction rule: list_all2_induct)
    case Nil
    then show ?case by (simp add: exec_simps)
  next
    case (Cons x xs y ys)
    have "session_of env j u y \<longleftrightarrow> session_of env j u x"
      using Cons.hyps(1) by (simp add: session_of_def kept_def)
    then show ?case
      using Cons by (auto simp: select_first_Cons split: if_splits)
  qed
  then show ?thesis
    using that l' by blast
qed

subsection \<open>Every operation grows it\<close>

lemma sessions_updates [simp]:
  "sessions (update_user i f db) = sessions db"
  "sessions (recordFailedLogin i now db) = sessions db"
  "sessions (recordMfaFailure i now db) = sessions db"
  "sessions (clearMfaFailures i now db) = sessions db"
  by (simp_all add: update_user_def recordFailedLogin_def recordMfaFailure_def clearMfaFailures_def Let_def
      split: option.split)

lemma sessions_tryMfaCode [simp]: "sessions (snd (tryMfaCode env u code now db)) = sessions db"
  by (simp add: tryMfaCode_def split: option.split)

lemma grows_mint [simp]:
  "grows (sessions db) (sessions (snd (mintTokensInTransaction env t u r meta rf ids now db)))"
  by (auto simp: mintTokensInTransaction_def Let_def)

lemma grows_issue [simp]: "grows (sessions db) (sessions (snd (issueTokens env t u r meta ids now db)))"
  by (simp add: issueTokens_def)

lemma grows_revoke [simp]: "grows (sessions db) (sessions (revoke_where P now db))"
  by (auto simp: revoke_where_def kept_def)

lemma issue_grown:
  "issueTokens env t u r meta ids now d = (x, d') \<Longrightarrow> grows l (sessions d) \<Longrightarrow> grows l (sessions d')"
  using grows_trans [OF _ grows_issue [of d env t u r meta ids now]] by simp

lemma mint_grown:
  "mintTokensInTransaction env t u r meta rf ids now d = (x, d') \<Longrightarrow> grows l (sessions d) \<Longrightarrow> grows l (sessions d')"
  using grows_trans [OF _ grows_mint [of d env t u r meta rf ids now]] by simp

lemma tried_sessions: "tryMfaCode env u code now db = (b, d) \<Longrightarrow> sessions d = sessions db"
  using sessions_tryMfaCode [of env u code now db] by simp

lemma grows_complete:
  "complete_login env u t meta ids now db = (r, d) \<Longrightarrow> grows (sessions db) (sessions d)"
  by (auto simp: complete_login_def split: if_splits prod.splits elim!: issue_grown)

lemma grows_login_as:
  "grows (sessions db) (sessions (snd (login_as env k p c meta ids now db)))"
  by (cases c) (auto simp: login_as_def Let_def split: prod.split dest: grows_complete)

lemma grows_login: "grows (sessions db) (sessions (snd (login env input meta ids now db)))"
proof -
  have "grows (sessions db) (sessions (snd (login_as env k p c meta ids now (db\<lparr>rateCounters := rc\<rparr>))))" for k p c rc
    using grows_login_as [of "db\<lparr>rateCounters := rc\<rparr>"] by simp
  then show ?thesis
    by (simp add: login_def Let_def split: prod.split list.split)
qed

lemma grows_challenge: "grows (sessions db) (sessions (snd (mfaChallenge env token code meta ids now db)))"
proof -
  have "grows (sessions db) (sessions d2)"
    if "tryMfaCode env u code now db = (b, d1)"
      "issueTokens env t i r meta ids now (clearMfaFailures j now d1) = (x, d2)" for u b d1 t i r j x d2
    using issue_grown [OF that(2)] tried_sessions [OF that(1)] by simp
  then show ?thesis
    by (auto simp: mfaChallenge_def tried_sessions split: option.split prod.split bool.split)
qed

lemma grows_enrollment: "grows (sessions db) (sessions (snd (mfaVerifyEnrollment env token code meta ids now db)))"
proof -
  have "grows (sessions db) (sessions d2)"
    if "issueTokens env t i r meta ids now (update_user j f db) = (x, d2)" for t i r j f x d2
    using issue_grown [OF that] by simp
  then show ?thesis
    by (simp add: mfaVerifyEnrollment_def Let_def split: option.split prod.split)
qed

lemma grows_validate: "grows (sessions db) (sessions (snd (validate_refresh env c now db)))"
proof -
  have "kept s (s\<lparr>ses_revokedAt := Some now, ses_lastUsedAt := Some now, ses_updatedAt := now\<rparr>)" for s
    by (simp add: kept_def)
  then show ?thesis
    by (auto simp: validate_refresh_def split: option.split)
qed

lemma grows_refresh: "grows (sessions db) (sessions (snd (refresh env token meta ids now db)))"
proof (cases "Option.bind (ae_verify env Key_refresh ''-refresh'' now token) refresh_claims_of")
  case None
  then show ?thesis
    by (auto simp: refresh_def split: option.split)
next
  case (Some c)
  then obtain p where p: "ae_verify env Key_refresh ''-refresh'' now token = Some p" "refresh_claims_of p = Some c"
    by (auto simp: bind_eq_Some_conv)
  obtain r db1 where v: "validate_refresh env c now db = (r, db1)"
    by fastforce
  have g: "grows (sessions db) (sessions db1)"
    using grows_validate [of db env c now] v by simp
  show ?thesis
    using g by (cases r) (auto simp: refresh_def p v split: prod.split elim!: mint_grown)
qed

lemma grows_step: "grows (sessions db) (sessions (auth_step env op db))"
proof (cases op)
  case (Signup input h plain meta ids now)
  then show ?thesis
    by (auto simp: signup_def Let_def split: prod.split elim!: issue_grown)
next
  case (Mfa_setup token sealed codes now)
  then show ?thesis
    by (auto simp: mfaSetupWithToken_def require_def ensure_def split: option.split)
next
  case (Mfa_disable u plain now)
  then show ?thesis
    by (auto simp: mfaDisable_def require_def ensure_def split: option.split)
next
  case (Reset token newHash now)
  then show ?thesis
    by (auto simp: resetPassword_def require_def Let_def update_user_def revoke_where_def kept_def split: option.split)
qed (auto simp: grows_login grows_challenge grows_enrollment grows_refresh issueSessionForUser_def issueSsoTokens_def logout_def forgotPassword_def
    verifyEmail_def resendVerification_def Let_def split: option.split prod.split elim!: issue_grown)

lemma grows_run: "grows (sessions db) (sessions (fold (auth_step env) ops db))"
  by (induction ops arbitrary: db) (auto intro: grows_trans [OF grows_step])

section \<open>A refresh token mints once\<close>

definition spent :: "auth_env \<Rightarrow> refresh_claims \<Rightarrow> auth_db \<Rightarrow> bool" where
  "spent env c db \<longleftrightarrow> (case select_first (session_of env (rc_jti c) (rc_sub c)) (sessions db) of
     None \<Rightarrow> False | Some s \<Rightarrow> ses_revokedAt s \<noteq> None)"

lemma spent_grows: "grows (sessions db) (sessions db') \<Longrightarrow> spent env c db \<Longrightarrow> spent env c db'"
  by (auto simp: spent_def kept_def split: option.splits elim!: grows_select)

lemma spent_run: "spent env c db \<Longrightarrow> spent env c (fold (auth_step env) ops db)"
  using spent_grows grows_run by blast

lemma select_first_updated:
  assumes "\<And>r. P (f r) = P r"
  shows "select_first P (update_where Q f tbl) = map_option (\<lambda>r. if Q r then f r else r) (select_first P tbl)"
  using assms by (induction tbl) (auto simp: select_first_def update_where_def)

text \<open>The session of a token that has minted is revoked.\<close>

lemma validated_spent:
  assumes v: "validate_refresh env c now db = (Mint sid, d)"
  shows "spent env c d"
proof -
  have "session_of env j u (x\<lparr>ses_revokedAt := r, ses_lastUsedAt := r, ses_updatedAt := n\<rparr>) = session_of env j u x"
    for j u x r n
    by (simp add: session_of_def)
  then show ?thesis
    using v by (auto simp: validate_refresh_def spent_def select_first_updated split: option.splits if_splits)
qed

lemma minted_is_spent:
  assumes r: "refresh env token meta ids now db = (Inr tokens, d)"
  obtains p c where "ae_verify env Key_refresh ''-refresh'' now token = Some p" "refresh_claims_of p = Some c"
    "spent env c d"
proof -
  obtain p c sid d1 where p: "ae_verify env Key_refresh ''-refresh'' now token = Some p" "refresh_claims_of p = Some c"
      and v: "validate_refresh env c now db = (Mint sid, d1)"
      and m: "mintTokensInTransaction env (read_uuid (rc_tid c)) (read_uuid (rc_sub c)) (rc_role c) meta
        (Some sid) ids now d1 = (tokens, d)"
    using r by (auto simp: refresh_def split: option.splits prod.splits refresh_outcome.splits)
  have "grows (sessions d1) (sessions d)"
    using mint_grown [OF m] by simp
  then show ?thesis
    using that p spent_grows validated_spent [OF v] by blast
qed

lemma spent_refresh:
  assumes "spent env c db" "ae_verify env Key_refresh ''-refresh'' now token = Some p" "refresh_claims_of p = Some c"
  shows "refresh env token meta ids now db =
    (Inl (Unauthorized ''token_reused'' ''Refresh token reuse detected; all sessions revoked''),
     revoke_where (\<lambda>x. uuid_text (ses_userId x) = rc_sub c) now db)"
  using assms by (auto simp: refresh_def validate_refresh_def spent_def split: option.splits)

lemma revoked_all: "s \<in> set (sessions (revoke_where P now db)) \<Longrightarrow> P s \<Longrightarrow>
    (\<And>x r n. P (x\<lparr>ses_revokedAt := r, ses_updatedAt := n\<rparr>) = P x) \<Longrightarrow> ses_revokedAt s \<noteq> None"
  by (auto simp: revoke_where_def set_update_where)

lemma claims_sub: "refresh_claims_of p = Some c \<Longrightarrow> claim_text ''sub'' p = Some (rc_sub c)"
  by (auto simp: refresh_claims_of_def truthy_def split: option.splits if_splits)

text \<open>C28: a refresh token is good for one mint.  Once it has minted, no later presentation of it mints
  again, whatever operations ran in between.\<close>

theorem refresh_token_mints_once:
  assumes fixed: "\<forall>t q. ae_verify env Key_refresh ''-refresh'' t token = Some q \<longrightarrow> q = p"
    and minted: "refresh env token meta ids now db = (Inr tokens, db1)"
  shows "fst (refresh env token meta' ids' now' (fold (auth_step env) ops db1)) \<noteq> Inr tokens'"
proof (cases "ae_verify env Key_refresh ''-refresh'' now' token")
  case None
  then show ?thesis
    by (simp add: refresh_def)
next
  case (Some q)
  obtain p' c where c: "ae_verify env Key_refresh ''-refresh'' now token = Some p'" "refresh_claims_of p' = Some c"
      "spent env c db1"
    using minted by (rule minted_is_spent)
  have "refresh_claims_of q = Some c"
    using c(1,2) Some fixed by metis
  then show ?thesis
    using spent_refresh [OF spent_run [OF c(3)] Some] by simp
qed

text \<open>C29: presenting a refresh token that has already minted ends every session of its user: after
  the refusal no session of the subject is left unrevoked.\<close>

theorem reuse_ends_every_session:
  assumes fixed: "\<forall>t q. ae_verify env Key_refresh ''-refresh'' t token = Some q \<longrightarrow> q = p"
    and minted: "refresh env token meta ids now db = (Inr tokens, db1)"
    and again: "ae_verify env Key_refresh ''-refresh'' now' token \<noteq> None"
    and s: "s \<in> set (sessions (snd (refresh env token meta' ids' now' (fold (auth_step env) ops db1))))"
    and owner: "claim_text ''sub'' p = Some (uuid_text (ses_userId s))"
  shows "ses_revokedAt s \<noteq> None"
proof -
  obtain p' c where c: "ae_verify env Key_refresh ''-refresh'' now token = Some p'" "refresh_claims_of p' = Some c"
      "spent env c db1"
    using minted by (rule minted_is_spent)
  have p: "ae_verify env Key_refresh ''-refresh'' now' token = Some p" "refresh_claims_of p = Some c"
    using c(1,2) again fixed by auto
  have "s \<in> set (sessions (revoke_where (\<lambda>x. uuid_text (ses_userId x) = rc_sub c) now' (fold (auth_step env) ops db1)))"
    using s spent_refresh [OF spent_run [OF c(3)] p] by simp
  then show ?thesis
    by (rule revoked_all) (use owner claims_sub [OF p(2)] in simp_all)
qed

section \<open>The lock of an account\<close>

definition lock_holds :: "uuid \<Rightarrow> instant \<Rightarrow> auth_db \<Rightarrow> bool" where
  "lock_holds i T db \<longleftrightarrow> (\<forall>u \<in> set (users db). usr_id u = i \<longrightarrow> usr_lockedUntil u = Some T)"

text \<open>An operation that leaves the lock of account \<open>i\<close> to run: a login before \<open>T\<close>, a signup under another
  identifier, a password reset whose token is not one of this account; every other operation.\<close>

fun quiet :: "auth_env \<Rightarrow> uuid \<Rightarrow> instant \<Rightarrow> auth_db \<Rightarrow> auth_op \<Rightarrow> bool" where
  "quiet env i T db (Signup input h plain meta ids now) \<longleftrightarrow> sg_user ids \<noteq> i"
| "quiet env i T db (Login input meta ids now) \<longleftrightarrow> now < T"
| "quiet env i T db (Reset token newHash now) \<longleftrightarrow>
     (case select_first (usable_token (ae_hashToken env token) now) (resetTokens db) of None \<Rightarrow> True | Some r \<Rightarrow> mt_userId r \<noteq> i)"
| "quiet env i T db op \<longleftrightarrow> True"

fun quiet_run :: "auth_env \<Rightarrow> uuid \<Rightarrow> instant \<Rightarrow> auth_db \<Rightarrow> auth_op list \<Rightarrow> bool" where
  "quiet_run env i T db [] \<longleftrightarrow> True"
| "quiet_run env i T db (op # ops) \<longleftrightarrow> quiet env i T db op \<and> quiet_run env i T (auth_step env op db) ops"

lemma lock_holds_users: "users db' = users db \<Longrightarrow> lock_holds i T db' = lock_holds i T db"
  by (simp add: lock_holds_def)

lemma lock_holds_update:
  assumes "lock_holds i T db" "\<And>u. usr_id (f u) = usr_id u"
    "j = i \<Longrightarrow> (\<And>u. usr_lockedUntil u = Some T \<Longrightarrow> usr_lockedUntil (f u) = Some T)"
  shows "lock_holds i T (update_user j f db)"
  using assms by (auto simp: lock_holds_def update_user_def set_update_where)

lemma users_mint [simp]:
  "users (snd (mintTokensInTransaction env t u r meta rf ids now db)) = users db"
  "users (snd (issueTokens env t u r meta ids now db)) = users db"
  by (simp_all add: mintTokensInTransaction_def issueTokens_def Let_def)

lemma users_minted:
  "mintTokensInTransaction env t u r meta rf ids now db = (x, d) \<Longrightarrow> users d = users db"
  "issueTokens env t u r meta ids now db = (x, d) \<Longrightarrow> users d = users db"
  using users_mint(1) [of env t u r meta rf ids now db] users_mint(2) [of env t u r meta ids now db] by simp_all

lemma lock_minted:
  "issueTokens env t u r meta ids now db = (x, d) \<Longrightarrow> lock_holds i T db \<Longrightarrow> lock_holds i T d"
  using lock_holds_users [OF users_minted(2)] by simp

lemma lock_holds_inserted:
  "lock_holds i T db \<Longrightarrow> users db' = insert_into u (users db) \<Longrightarrow> usr_id u \<noteq> i \<Longrightarrow> lock_holds i T db'"
  by (auto simp: lock_holds_def)

lemma users_revoke [simp]: "users (revoke_where P now db) = users db"
  by (simp add: revoke_where_def)

lemma users_validate: "users (snd (validate_refresh env c now db)) = users db"
  by (simp add: validate_refresh_def split: option.split)

lemma users_refresh: "users (snd (refresh env token meta ids now db)) = users db"
proof (cases "Option.bind (ae_verify env Key_refresh ''-refresh'' now token) refresh_claims_of")
  case None
  then show ?thesis
    by (auto simp: refresh_def split: option.split)
next
  case (Some c)
  then obtain p where p: "ae_verify env Key_refresh ''-refresh'' now token = Some p" "refresh_claims_of p = Some c"
    by (auto simp: bind_eq_Some_conv)
  obtain r db1 where v: "validate_refresh env c now db = (r, db1)"
    by fastforce
  have "users db1 = users db"
    using users_validate [of env c now db] v by simp
  then show ?thesis
    by (cases r) (simp_all add: refresh_def p v users_minted split: prod.split)
qed

lemma complete_login_users: "complete_login env u t meta ids now db = (r, d) \<Longrightarrow> users d = users db"
  by (auto simp: complete_login_def users_minted split: if_splits prod.splits)

lemma complete_login_user: "complete_login env u t meta ids now db = (Authenticated dto t' tok, d) \<Longrightarrow> ud_id dto = usr_id u"
  by (auto simp: complete_login_def toUserDto_def split: if_splits prod.splits)

lemma lock_holds_failure: "lock_holds i T db \<Longrightarrow> i \<noteq> j \<Longrightarrow> lock_holds i T (recordFailedLogin j now db)"
  by (auto simp: recordFailedLogin_def Let_def intro!: lock_holds_update split: option.split)

lemma lock_holds_mfa:
  assumes "lock_holds i T db"
  shows "lock_holds i T (recordMfaFailure j now db)" "lock_holds i T (clearMfaFailures j now db)"
    "tryMfaCode env u code now db = (b, d) \<Longrightarrow> lock_holds i T d"
  using assms by (auto simp: recordMfaFailure_def clearMfaFailures_def tryMfaCode_def Let_def
      intro!: lock_holds_update split: option.splits if_splits)

text \<open>Who may log in is a row of the table; where its lock holds it goes no further.\<close>

lemma candidates_rows: "(u, t) \<in> set (login_candidates input db) \<Longrightarrow> u \<in> set (users db)"
  by (auto simp: login_candidates_def List.map_filter_def split: option.splits if_splits)
    (metis select_first_Some)

lemma login_as_locked:
  "locked (usr_lockedUntil u) now \<Longrightarrow> \<exists>e. login_as env k p (u, t) meta ids now db = (Inl e, db)"
  by (simp add: login_as_def)

lemma login_as_keeps:
  assumes h: "lock_holds i T db" and u: "u \<in> set (users db)" and now: "now < T"
  shows "lock_holds i T (snd (login_as env k p (u, t) meta ids now db))"
proof (cases "usr_id u = i")
  case True
  then have "locked (usr_lockedUntil u) now"
    using h u now by (simp add: lock_holds_def locked_def)
  then show ?thesis
    using login_as_locked h by (metis snd_conv)
next
  case False
  have "lock_holds i T (update_user (usr_id u) f (db\<lparr>rateCounters := rc\<rparr>))" if "\<And>v. usr_id (f v) = usr_id v" for f rc
    using h False that by (auto simp: lock_holds_def update_user_def set_update_where)
  then have "lock_holds i T d" if "complete_login env u t meta ids now (update_user (usr_id u) f (db\<lparr>rateCounters := rc\<rparr>)) = (r, d)"
      "\<And>v. usr_id (f v) = usr_id v" for f rc r d
    using lock_holds_users [OF complete_login_users [OF that(1)]] that(2) by blast
  then show ?thesis
    using lock_holds_failure [OF h] False h by (simp add: login_as_def Let_def split: prod.split)
qed

lemma login_keeps:
  assumes h: "lock_holds i T db" and now: "now < T"
  shows "lock_holds i T (snd (login env input meta ids now db))"
proof -
  have l: "lock_holds i T (db\<lparr>rateCounters := c\<rparr>)" for c
    using h by (simp add: lock_holds_def)
  have "lock_holds i T (snd (login_as env k p x meta ids now (db\<lparr>rateCounters := c\<rparr>)))"
    if "login_candidates input (db\<lparr>rateCounters := c\<rparr>) = [x]" for c k p x
    using login_as_keeps [OF l _ now] candidates_rows [of "fst x" "snd x" input "db\<lparr>rateCounters := c\<rparr>"] that
    by (cases x) simp
  then show ?thesis
    using l by (simp add: login_def Let_def split: prod.split list.split)
qed

lemma reset_of_another:
  assumes h: "lock_holds i T db"
    and q: "case select_first (usable_token (ae_hashToken env token) now) (resetTokens db) of None \<Rightarrow> True | Some r \<Rightarrow> mt_userId r \<noteq> i"
  shows "lock_holds i T (committed db (resetPassword env token newHash now db))"
proof (rule committed_intro)
  fix x db' assume "resetPassword env token newHash now db = Inr (x, db')"
  then obtain r u where r: "select_first (usable_token (ae_hashToken env token) now) (resetTokens db) = Some r"
      and u: "find_user (mt_userId r) db = Some u"
      and db': "users db' = users (update_user (usr_id u) (\<lambda>v. v\<lparr>usr_passwordHash := newHash, usr_failedLoginCount := 0,
        usr_lockedUntil := None, usr_updatedAt := now\<rparr>) db)"
    by (auto simp: resetPassword_def Let_def bind_eq_Some_conv update_user_def)
  have "usr_id u = mt_userId r" using u by (auto simp: find_user_def dest: select_first_Some)
  then have "usr_id u \<noteq> i" using q r by simp
  then have "lock_holds i T (update_user (usr_id u) (\<lambda>v. v\<lparr>usr_passwordHash := newHash, usr_failedLoginCount := 0,
        usr_lockedUntil := None, usr_updatedAt := now\<rparr>) db)"
    by (intro lock_holds_update [OF h]) simp_all
  then show "lock_holds i T db'" using lock_holds_users [OF db'] by simp
qed (rule h)

lemma lock_step:
  assumes h: "lock_holds i T db" and q: "quiet env i T db op"
  shows "lock_holds i T (auth_step env op db)"
proof (cases op)
  case (Signup input h' plain meta ids now)
  then show ?thesis
    using h q by (simp add: signup_def Let_def split: prod.split)
      (fastforce elim!: lock_minted intro: lock_holds_inserted [OF h] simp: new_user_def)
next
  case (Login input meta ids now)
  then show ?thesis
    using login_keeps [OF h] q by simp
next
  case (Mfa_challenge token code meta ids now)
  then show ?thesis
    using h by (simp add: mfaChallenge_def split: option.split prod.split bool.split)
      (blast intro: lock_minted lock_holds_mfa)
next
  case (Mfa_setup token sealed codes now)
  then show ?thesis
    using h by (auto simp: mfaSetupWithToken_def require_def ensure_def intro!: lock_holds_update split: option.split)
next
  case (Mfa_verify token code meta ids now)
  then show ?thesis
    using h by (simp add: mfaVerifyEnrollment_def Let_def split: option.split prod.split)
      (fastforce intro: lock_minted lock_holds_mfa lock_holds_update)
next
  case (Mfa_disable u plain now)
  then show ?thesis
    using h by (auto simp: mfaDisable_def require_def ensure_def intro!: lock_holds_update split: option.split)
next
  case (Refresh token meta ids now)
  then show ?thesis
    using h lock_holds_users [OF users_refresh] by simp
next
  case (Verify_email token now)
  have "lock_holds i T (d\<lparr>verificationTokens := x\<rparr>)" if "lock_holds i T d" for d :: auth_db and x
    using that by (simp add: lock_holds_def)
  then show ?thesis
    using h Verify_email by (simp add: verifyEmail_def Let_def lock_holds_update split: option.split)
next
  case (Logout token t u now)
  then show ?thesis
    using h lock_holds_users [OF users_revoke] by (simp add: logout_def split: option.split)
next
  case (Forgot email newIds plains now)
  then show ?thesis
    using h by (simp add: forgotPassword_def Let_def lock_holds_def split: prod.split)
next
  case (Resend u newId plain now)
  then show ?thesis
    using h by (simp add: resendVerification_def Let_def lock_holds_def split: option.split prod.split)
next
  case (Invited u t role meta ids now)
  then show ?thesis
    using h by (auto simp: issueSessionForUser_def split: prod.split elim!: lock_minted)
next
  case (Sso t u role meta ids now)
  then show ?thesis
    using h lock_holds_users [OF users_mint(2)] by (simp add: issueSsoTokens_def)
next
  case (Reset token newHash now)
  then show ?thesis
    using reset_of_another [OF h] q by simp
qed

lemma lock_run:
  "lock_holds i T db \<Longrightarrow> quiet_run env i T db ops \<Longrightarrow> lock_holds i T (fold (auth_step env) ops db)"
  by (induction ops arbitrary: db) (auto intro: lock_step)

text \<open>A reset of the account's own password ends its lock at once.\<close>

lemma own_reset_unlocks:
  assumes "resetPassword env token newHash now db = Inr (x, db')"
    "select_first (usable_token (ae_hashToken env token) now) (resetTokens db) = Some r"
    "u \<in> set (users db')" "usr_id u = mt_userId r"
  shows "usr_lockedUntil u = None"
proof -
  obtain v where v: "find_user (mt_userId r) db = Some v"
      and db': "users db' = update_where (\<lambda>w. usr_id w = usr_id v) (\<lambda>w. w\<lparr>usr_passwordHash := newHash, usr_failedLoginCount := 0,
        usr_lockedUntil := None, usr_updatedAt := now\<rparr>) (users db)"
    using assms(1,2) by (auto simp: resetPassword_def Let_def update_user_def)
  have "usr_id v = mt_userId r" using v by (auto simp: find_user_def dest: select_first_Some)
  then show ?thesis using assms(3,4) unfolding db' by (auto simp: set_update_where)
qed

text \<open>C30: a locked account stays out.  Until its lock ends, whatever other operations run - further
  guesses, second factors, refreshes, other people's logins and password resets - no login is
  answered with a session of that account, the right password included.  The one way in before that
  is a reset of the account's own password, which clears the lock (lemma own_reset_unlocks), so the
  run has none.\<close>

theorem locked_account_stays_out:
  assumes h: "lock_holds i T db"
    and ops: "quiet_run env i T db ops"
    and now: "now < T"
    and r: "login env input meta ids now (fold (auth_step env) ops db) = (Inr (Authenticated dto t tok), db')"
  shows "ud_id dto \<noteq> i"
proof -
  let ?db = "fold (auth_step env) ops db"
  obtain c k u t' where c: "login_candidates input (?db\<lparr>rateCounters := c\<rparr>) = [(u, t')]"
      and l: "login_as env k (li_password input) (u, t') meta ids now (?db\<lparr>rateCounters := c\<rparr>)
        = (Inr (Authenticated dto t tok), db')"
    using r by (auto simp: login_def Let_def split: prod.splits if_splits list.splits)
  have "u \<in> set (users ?db)"
    using candidates_rows [of u t' input "?db\<lparr>rateCounters := c\<rparr>"] c by simp
  moreover have "\<not> locked (usr_lockedUntil u) now"
    using login_as_locked l by (metis prod.inject sum.distinct(1))
  ultimately have "usr_id u \<noteq> i"
    using lock_run [OF h ops] now by (auto simp: lock_holds_def locked_def)
  moreover have "ud_id dto = usr_id u"
    using l by (auto simp: login_as_def Let_def dest: complete_login_user split: if_splits prod.splits)
  ultimately show ?thesis
    by simp
qed

text \<open>The fifth wrong password since the last success locks the account for a quarter of an hour, and so
  does every wrong password after that lock: the count is not reset when a lock ends.\<close>

lemma fifth_failure_locks:
  assumes "find_user i db = Some u" "4 \<le> usr_failedLoginCount u"
  shows "lock_holds i (now + 900000) (recordFailedLogin i now db)"
proof -
  have "lock_holds i T (update_user i (\<lambda>v. v\<lparr>usr_failedLoginCount := n, usr_lockedUntil := Some T, usr_updatedAt := now\<rparr>) db)"
    for n T
    by (simp add: lock_holds_def update_user_def set_update_where ball_Un)
  then show ?thesis
    using assms by (simp add: recordFailedLogin_def Let_def MAX_FAILED_LOGINS_def LOCKOUT_MINUTES_def)
qed

section \<open>Small print\<close>

text \<open>The role of a refreshed access token is the one in the refresh token, whatever the user's is now.\<close>

lemma refresh_keeps_role:
  assumes "refresh env token meta ids now db = (Inr tokens, d)"
    "ae_verify env Key_refresh ''-refresh'' now token = Some p" "refresh_claims_of p = Some c"
  shows "it_accessToken tokens = signAccess env (read_uuid (rc_sub c)) (read_uuid (rc_tid c)) (rc_role c) (mi_access ids) now"
  using assms by (auto simp: refresh_def mintTokensInTransaction_def Let_def split: prod.splits refresh_outcome.splits)

text \<open>With a slug the status of the tenant is not looked at.\<close>

lemma slug_login_ignores_status:
  assumes "li_tenantSlug input = Some slug" "slug \<noteq> []"
    "select_first (\<lambda>t. tac_slug t = slug \<and> tac_deletedAt t = None) (tenantAccounts db) = Some t"
    "select_first (\<lambda>u. usr_tenantId u = tac_id t \<and> usr_email u = li_email input \<and> usr_deletedAt u = None) (users db) = Some u"
  shows "login_candidates input db = [(u, t)]"
  using assms by (simp add: login_candidates_def truthy_def)

section \<open>A run at work\<close>

definition demo_payload :: json where
  "demo_payload = JObj (user_claims 1 2 ''manager'' @ [(''jti'', JStr (uuid_text 3))])"

definition demo_env :: auth_env where
  "demo_env = \<lparr>ae_sign = (\<lambda>k aud ttl payload now. ''signed''),
     ae_verify = (\<lambda>k aud now token. if token = ''old'' \<and> now < 100 then Some demo_payload else None),
     ae_hashToken = id, ae_passwordOk = (\<lambda>h p. h = p), ae_totpOk = (\<lambda>now s c. False),
     ae_totpDecrypt = id, ae_mfaLoginGateEnabled = False, ae_accessTtl = ''15m'', ae_refreshTtl = ''30d'',
     ae_driverTtl = ''12h'', ae_portalTtl = ''1h'', ae_bidderTtl = ''1h'', ae_developerTtl = ''1h''\<rparr>"

definition demo_user :: user_row where
  "demo_user = new_user 1 2 ''ann'' ''pass'' (''Ann'', ''Lee'') Manager 0"

definition demo_session :: session_row where
  "demo_session = \<lparr>ses_id = 9, ses_tenantId = 2, ses_userId = 1, ses_refreshTokenHash = uuid_text 3,
     ses_userAgent = None, ses_ipAddress = None, ses_expiresAt = 100, ses_revokedAt = None,
     ses_rotatedFromId = None, ses_lastUsedAt = None, ses_updatedAt = 0\<rparr>"

definition demo_db :: auth_db where
  "demo_db = \<lparr>tenantAccounts = [\<lparr>tac_id = 2, tac_slug = ''acme'', tac_name = ''Acme'',
       tac_status = Tenant_active, tac_deletedAt = None\<rparr>],
     users = [demo_user], sessions = [demo_session, demo_session\<lparr>ses_id := 10, ses_refreshTokenHash := ''x''\<rparr>],
     resetTokens = [], verificationTokens = [], rateCounters = Map.empty\<rparr>"

definition demo_meta :: request_meta where
  "demo_meta = \<lparr>rm_ipAddress = None, rm_userAgent = None\<rparr>"

definition demo_ids :: mint_ids where
  "demo_ids = \<lparr>mi_session = 20, mi_access = 21, mi_refresh = 22\<rparr>"

lemma uuid_text_not_Nil [simp]: "uuid_text i \<noteq> []" "[] \<noteq> uuid_text i"
proof -
  have "UUID_RX (uuid_text i)"
    by (rule UUID_RX_text)
  then show "uuid_text i \<noteq> []" "[] \<noteq> uuid_text i"
    by (auto simp: UUID_RX_def)
qed

lemma demo_claims:
  "refresh_claims_of demo_payload = Some \<lparr>rc_sub = uuid_text 1, rc_tid = uuid_text 2, rc_jti = uuid_text 3, rc_role = ''manager''\<rparr>"
  by (simp add: demo_payload_def refresh_claims_of_def user_claims_def claim_text_def truthy_def)

lemma demo_minted: "\<exists>tokens d. refresh demo_env ''old'' demo_meta demo_ids 5 demo_db = (Inr tokens, d)"
  by (simp add: refresh_def demo_env_def demo_claims validate_refresh_def demo_db_def session_of_def
      demo_session_def demo_user_def new_user_def exec_simps mintTokensInTransaction_def Let_def)

lemma demo_fixed: "\<forall>t q. ae_verify demo_env Key_refresh ''-refresh'' t ''old'' = Some q \<longrightarrow> q = demo_payload"
  by (simp add: demo_env_def)

theorem refresh_token_mints_once_witness:
  "\<exists>tokens d. refresh demo_env ''old'' demo_meta demo_ids 5 demo_db = (Inr tokens, d) \<and>
     (\<forall>t. fst (refresh demo_env ''old'' demo_meta demo_ids 7 (auth_step demo_env (Login
        \<lparr>li_email = ''ann'', li_tenantSlug = None, li_password = ''pass''\<rparr> demo_meta demo_ids 6) d)) \<noteq> Inr t)"
proof -
  obtain tokens d where m: "refresh demo_env ''old'' demo_meta demo_ids 5 demo_db = (Inr tokens, d)"
    using demo_minted by blast
  show ?thesis
    using m refresh_token_mints_once [OF demo_fixed m, where ops = "[Login
      \<lparr>li_email = ''ann'', li_tenantSlug = None, li_password = ''pass''\<rparr> demo_meta demo_ids 6]"]
    by auto
qed

theorem reuse_ends_every_session_witness:
  "\<exists>d. snd (refresh demo_env ''old'' demo_meta demo_ids 5 demo_db) = d \<and>
     (\<forall>s \<in> set (sessions (snd (refresh demo_env ''old'' demo_meta demo_ids 7 d))).
        ses_userId s = 1 \<longrightarrow> ses_revokedAt s \<noteq> None)"
proof -
  obtain tokens d where m: "refresh demo_env ''old'' demo_meta demo_ids 5 demo_db = (Inr tokens, d)"
    using demo_minted by blast
  have v: "ae_verify demo_env Key_refresh ''-refresh'' 7 ''old'' \<noteq> None"
    by (simp add: demo_env_def)
  have "claim_text ''sub'' demo_payload = Some (uuid_text 1)"
    using claims_sub [OF demo_claims] by simp
  then show ?thesis
    using m reuse_ends_every_session [OF demo_fixed m v, where ops = "[]"] by auto
qed

text \<open>The same account with its lock still on: the right password is refused.\<close>

definition demo_locked :: auth_db where
  "demo_locked = demo_db\<lparr>users := [demo_user\<lparr>usr_lockedUntil := Some 50\<rparr>, demo_user\<lparr>usr_id := 5, usr_email := ''bob''\<rparr>]\<rparr>"

definition demo_bob :: login_input where
  "demo_bob = \<lparr>li_email = ''bob'', li_tenantSlug = None, li_password = ''pass''\<rparr>"

lemma demo_bob_in: "\<exists>t tok d. login demo_env demo_bob demo_meta demo_ids 10 demo_locked =
    (Inr (Authenticated (toUserDto (demo_user\<lparr>usr_id := 5, usr_email := ''bob''\<rparr>)) t tok), d)"
  by (simp add: login_def demo_bob_def demo_locked_def demo_db_def demo_env_def rate_check_def bucket_at_def Let_def
      LOGIN_RATE_LIMIT_def login_candidates_def truthy_def select_where_def demo_user_def new_user_def live_tenant_def
      exec_simps List.map_filter_def login_as_def locked_def complete_login_def issueTokens_def mintTokensInTransaction_def)

theorem locked_account_stays_out_witness:
  "\<exists>dto t tok d. login demo_env demo_bob demo_meta demo_ids 10 demo_locked = (Inr (Authenticated dto t tok), d) \<and> ud_id dto \<noteq> 1"
proof -
  obtain t tok d where l: "login demo_env demo_bob demo_meta demo_ids 10 demo_locked =
      (Inr (Authenticated (toUserDto (demo_user\<lparr>usr_id := 5, usr_email := ''bob''\<rparr>)) t tok), d)"
    using demo_bob_in by blast
  have h: "lock_holds 1 50 demo_locked"
    by (simp add: lock_holds_def demo_locked_def demo_user_def new_user_def)
  show ?thesis
    using l locked_account_stays_out [OF h, where ops = "[]" and now = 10] by fastforce
qed

end
