(* ===== verification/DoubleOrder.thy ===== *)
theory DoubleOrder
  imports Doubles
begin

text \<open>
  Comparing doubles as JavaScript does, and the doubles that stand for integers: a double is
  determined by the number it was rounded from, so that sums, differences, products and quotients
  that are integers of at most 53 bits are again the integer's own double.
\<close>

section \<open>Comparing doubles\<close>

definition dless :: "dbl \<Rightarrow> dbl \<Rightarrow> bool" where
  "dless x y \<longleftrightarrow> (let e = min (expo x) (expo y) in
     significand x * 2 ^ nat (expo x - e) < significand y * 2 ^ nat (expo y - e))"

definition dmin :: "dbl \<Rightarrow> dbl \<Rightarrow> dbl" where
  "dmin x y = (if dless y x then y else x)"

definition dmax :: "dbl \<Rightarrow> dbl \<Rightarrow> dbl" where
  "dmax x y = (if dless x y then y else x)"

section \<open>Doubles in order\<close>

lemma dbl_val_at:
  assumes "e \<le> expo x"
  shows "dbl_val x = of_int (significand x * 2 ^ nat (expo x - e)) * 2 powi e"
proof -
  have "(2 :: real) powi expo x = 2 powi (expo x - e) * 2 powi e"
    by (simp add: power_int_add [symmetric])
  then show ?thesis
    using assms by (simp add: dbl_val_def power_int_def)
qed

lemma dless_val: "dless x y \<longleftrightarrow> dbl_val x < dbl_val y"
proof -
  let ?e = "min (expo x) (expo y)"
  have "dbl_val x < dbl_val y \<longleftrightarrow> (of_int (significand x * 2 ^ nat (expo x - ?e)) :: real) * 2 powi ?e
      < of_int (significand y * 2 ^ nat (expo y - ?e)) * 2 powi ?e"
    using dbl_val_at [of ?e x] dbl_val_at [of ?e y] by (simp only: min.cobounded1 min.cobounded2)
  also have "\<dots> \<longleftrightarrow> dless x y"
    by (simp only: mult_less_cancel_right_pos zero_less_power_int zero_less_numeral of_int_less_iff dless_def Let_def)
  finally show ?thesis by simp
qed

lemma num_val: "\<bar>n\<bar> \<le> 2 ^ 53 \<Longrightarrow> dbl_val (num n) = of_int n"
  unfolding num_def by (rule nearest_exact) simp_all

lemma num_01 [simp]: "dbl_val (num 0) = 0" "dbl_val (num 1) = 1"
  using num_val [of 0] num_val [of 1] by simp_all

lemma dmin_val: "dbl_val (dmin x y) = min (dbl_val x) (dbl_val y)"
  by (simp add: dmin_def dless_val)

lemma dmax_val: "dbl_val (dmax x y) = max (dbl_val x) (dbl_val y)"
  by (simp add: dmax_def dless_val)

lemma nearest_sgn:
  assumes "0 < q"
  shows "sgn (dbl_val (nearest p q)) = sgn (of_int p :: real)"
proof -
  define v where "v = dbl_val (nearest p q)"
  define x where "x = (of_int p / of_int q :: real)"
  have "\<bar>v - x\<bar> \<le> \<bar>x\<bar> / 2 ^ 53"
    unfolding v_def x_def by (rule nearest_error [OF assms])
  then have d: "\<bar>v - x\<bar> \<le> \<bar>x\<bar> / 2"
    by simp
  have "sgn v = sgn x"
  proof (cases "x = 0")
    case True
    then show ?thesis using d by simp
  next
    case False
    have "v - x \<le> \<bar>x\<bar> / 2" "x - v \<le> \<bar>x\<bar> / 2"
      using abs_le_D1 [OF d] abs_le_D2 [OF d] by simp_all
    then have "0 < x \<Longrightarrow> 0 < v" "x < 0 \<Longrightarrow> v < 0"
      by linarith+
    then show ?thesis using False by (cases "0 < x") (simp_all add: sgn_if)
  qed
  also have "sgn x = sgn (of_int p)"
    using assms by (simp add: sgn_divide x_def)
  finally show ?thesis
    by (simp add: v_def)
qed

lemma sgn_fraction:
  assumes "0 < q" "of_int p / of_int q = (x :: real)"
  shows "sgn (dbl_val (nearest p q)) = sgn x"
  using nearest_sgn [OF assms(1), of p] assms by (auto simp: sgn_divide)

lemma dmul_sgn: "sgn (dbl_val (dmul x y)) = sgn (dbl_val x) * sgn (dbl_val y)"
  by (rule dmul_fraction [of x y]) (metis sgn_fraction sgn_mult)

lemma powi_nonpos: "e \<le> 0 \<Longrightarrow> (2 :: real) powi e = 1 / of_int (2 ^ nat (- e))"
  using powi_split(2) [of e] by (cases "e = 0") simp_all

lemma dsub_fraction:
  obtains p q where "0 < q" "dsub x y = nearest p q" "of_int p / of_int q = dbl_val x - dbl_val y"
proof -
  define e where "e = min (min (expo x) (expo y)) 0"
  define p where "p = significand x * 2 ^ nat (expo x - e) - significand y * 2 ^ nat (expo y - e)"
  have le: "e \<le> expo x" "e \<le> expo y" "e \<le> 0"
    by (simp_all add: e_def)
  have "dbl_val x - dbl_val y = of_int p * 2 powi e"
    unfolding p_def dbl_val_at [OF le(1)] dbl_val_at [OF le(2)] by (simp add: left_diff_distrib)
  then have "of_int p / of_int (2 ^ nat (- e)) = dbl_val x - dbl_val y"
    using powi_nonpos [OF le(3)] by simp
  moreover have "dsub x y = nearest p (2 ^ nat (- e))"
    by (simp add: dsub_def Let_def p_def e_def)
  ultimately show thesis
    by (intro that [of "2 ^ nat (- e)" p]) simp_all
qed

lemma dsub_sgn: "sgn (dbl_val (dsub x y)) = sgn (dbl_val x - dbl_val y)"
  by (rule dsub_fraction [of x y]) (metis sgn_fraction)

lemma dadd_sgn: "sgn (dbl_val (dadd x y)) = sgn (dbl_val x + dbl_val y)"
  unfolding dadd_def dsub_sgn by (simp add: dbl_val_def)

lemma significand_zero: "significand x = 0 \<longleftrightarrow> dbl_val x = 0"
  by (simp add: dbl_val_def)

section \<open>Whole numbers\<close>

lemma round_even_cong:
  assumes "0 < b" "0 < b'" "a * b' = a' * b"
  shows "round_even a b = round_even a' b'"
proof -
  let ?d = "a div b" and ?r = "a mod b"
  have "b * (a' div b' * b' + a' mod b') = b' * (?d * b + ?r)"
    using assms(3) by (simp add: mult.commute)
  have d: "a' div b' = ?d"
    using assms by (metis div_mult_mult2 div_mult_mult1_if less_irrefl mult.commute)
  have r: "a' mod b' * b = ?r * b'"
    using assms(3) d by (simp add: minus_div_mult_eq_mod [symmetric] left_diff_distrib algebra_simps)
  have r2: "(2 * (a' mod b')) * b = (2 * ?r) * b'"
    using r by (simp add: mult.assoc)
  have scale: "x < y \<longleftrightarrow> x * c < y * c" if "0 < c" for x y c :: int
    using that by simp
  have half: "2 * (a' mod b') < b' \<longleftrightarrow> 2 * ?r < b" "b' < 2 * (a' mod b') \<longleftrightarrow> b < 2 * ?r"
    unfolding scale [OF assms(1), of "2 * (a' mod b')" b'] scale [OF assms(2), of "2 * ?r" b]
      scale [OF assms(1), of b' "2 * (a' mod b')"] scale [OF assms(2), of b "2 * ?r"] r2
    by (simp_all add: mult.commute [of b b'])
  show ?thesis
    unfolding round_even_def Let_def half d ..
qed

lemma powi_window:
  assumes "0 < (x :: real)" "2 ^ 52 \<le> x * 2 powi (- e)" "x * 2 powi (- e') < 2 ^ 53"
  shows "e \<le> e'"
proof (rule ccontr)
  assume "\<not> e \<le> e'"
  then have "(2 :: real) powi (- e) \<le> 2 powi (- e' - 1)"
    by (intro power_int_increasing) simp_all
  then have "x * 2 powi (- e) \<le> x * (2 powi (- e') / 2)"
    using assms(1) by (intro mult_left_mono) (simp_all add: power_int_diff)
  then show False using assms(2,3) by simp
qed

lemma nearest_cong:
  assumes "0 < q" "0 < q'" "(of_int p :: real) / of_int q = of_int p' / of_int q'"
  shows "nearest p q = nearest p' q'"
proof (cases "p = 0")
  case True
  then have "p' = 0" using assms by simp
  then show ?thesis using True by (simp add: nearest_def)
next
  case False
  then have p': "p' \<noteq> 0" using assms by auto
  define x where "x = (of_int \<bar>p\<bar> / of_int q :: real)"
  have x': "x = of_int \<bar>p'\<bar> / of_int q'"
  proof -
    have "x = \<bar>of_int p / of_int q\<bar>" using assms(1) by (simp add: x_def)
    then show ?thesis using assms(2,3) by simp
  qed
  have pos: "0 < x" using False assms(1) by (simp add: x_def)
  have ab: "0 < \<bar>p\<bar>" "0 < \<bar>p'\<bar>" using False p' by simp_all
  have e: "binade \<bar>p\<bar> q = binade \<bar>p'\<bar> q'"
    using powi_window [OF pos] binade_bounds [OF ab(1) assms(1), folded x_def]
      binade_bounds [OF ab(2) assms(2), folded x'] by (intro antisym) blast+
  obtain a b where s: "scaled \<bar>p\<bar> q (binade \<bar>p'\<bar> q') = (a, b)" by fastforce
  obtain a' b' where s': "scaled \<bar>p'\<bar> q' (binade \<bar>p'\<bar> q') = (a', b')" by fastforce
  have v: "of_int a / of_int b = (of_int a' / of_int b' :: real)" "0 < b" "0 < b'"
    using scaled_val [OF assms(1), of "\<bar>p\<bar>" "binade \<bar>p'\<bar> q'", folded x_def]
      scaled_val [OF assms(2), of "\<bar>p'\<bar>" "binade \<bar>p'\<bar> q'", folded x'] s s' by simp_all
  then have "(of_int (a * b') :: real) = of_int (a' * b)"
    by (simp add: field_simps)
  then have "a * b' = a' * b" by (simp only: of_int_eq_iff)
  then have r: "round_even a b = round_even a' b'"
    using v by (intro round_even_cong) simp_all
  have neg: "p < 0 \<longleftrightarrow> p' < 0"
  proof -
    have "p < 0 \<longleftrightarrow> (of_int p :: real) / of_int q < 0" using assms(1) by (simp add: divide_less_0_iff)
    also have "\<dots> \<longleftrightarrow> p' < 0" unfolding assms(3) using assms(2) by (simp add: divide_less_0_iff)
    finally show ?thesis .
  qed
  then have "sgn p = sgn p'" using False p' by (auto simp: sgn_if)
  then show ?thesis using False p' e s s' r by (simp add: nearest_def)
qed

lemma nearest_num: "0 < q \<Longrightarrow> of_int p / of_int q = (of_int n :: real) \<Longrightarrow> nearest p q = num n"
  unfolding num_def by (rule nearest_cong) simp_all

lemma dsub_num:
  assumes "dbl_val x = of_int a" "dbl_val y = of_int b"
  shows "dsub x y = num (a - b)"
  using assms by (metis dsub_fraction nearest_num of_int_diff)

lemma dadd_num:
  assumes "dbl_val x = of_int a" "dbl_val y = of_int b"
  shows "dadd x y = num (a + b)"
  unfolding dadd_def using dsub_num [OF assms(1), of "Dbl (- significand y) (expo y)" "- b"] assms(2)
  by (simp add: dbl_val_def)

lemma dmul_num:
  assumes "dbl_val x = of_int a" "dbl_val y = of_int b"
  shows "dmul x y = num (a * b)"
  using assms by (metis dmul_fraction nearest_num of_int_mult)

lemma num_add: "\<bar>a\<bar> \<le> 2 ^ 53 \<Longrightarrow> \<bar>b\<bar> \<le> 2 ^ 53 \<Longrightarrow> dadd (num a) (num b) = num (a + b)"
  by (intro dadd_num num_val)

lemma num_diff: "\<bar>a\<bar> \<le> 2 ^ 53 \<Longrightarrow> \<bar>b\<bar> \<le> 2 ^ 53 \<Longrightarrow> dsub (num a) (num b) = num (a - b)"
  by (intro dsub_num num_val)

lemma num_mult: "\<bar>a\<bar> \<le> 2 ^ 53 \<Longrightarrow> \<bar>b\<bar> \<le> 2 ^ 53 \<Longrightarrow> dmul (num a) (num b) = num (a * b)"
  by (intro dmul_num num_val)

lemma num_less: "\<bar>a\<bar> \<le> 2 ^ 53 \<Longrightarrow> \<bar>b\<bar> \<le> 2 ^ 53 \<Longrightarrow> dless (num a) (num b) \<longleftrightarrow> a < b"
  by (simp add: dless_val num_val)

lemma num_inj: "\<bar>a\<bar> \<le> 2 ^ 53 \<Longrightarrow> \<bar>b\<bar> \<le> 2 ^ 53 \<Longrightarrow> num a = num b \<longleftrightarrow> a = b"
  by (metis num_val of_int_eq_iff)

lemma num_quotient:
  assumes "\<bar>a * b\<bar> \<le> 2 ^ 53" "\<bar>b\<bar> \<le> 2 ^ 53" "b \<noteq> 0"
  shows "ddiv (num (a * b)) (num b) = num a"
proof -
  have "dbl_val (num b) \<noteq> 0" using num_val [OF assms(2)] assms(3) by simp
  then obtain p q where "0 < q" "ddiv (num (a * b)) (num b) = nearest p q"
    "of_int p / of_int q = dbl_val (num (a * b)) / dbl_val (num b)"
    by (rule ddiv_fraction)
  then show ?thesis
    using num_val [OF assms(1)] num_val [OF assms(2)] assms(3) nearest_num [of q p a] by simp
qed

lemma dfloor_num: "\<bar>n\<bar> \<le> 2 ^ 53 \<Longrightarrow> dfloor (num n) = n"
  by (simp add: dfloor_floor num_val)

text \<open>A \<open>Date\<close> keeps the integer part of the number it is made from.\<close>

definition time_clip :: "dbl \<Rightarrow> int" where
  "time_clip x = (if significand x < 0 then - dfloor (Dbl (- significand x) (expo x)) else dfloor x)"

lemma time_clip_num:
  assumes "\<bar>n\<bar> \<le> 2 ^ 53"
  shows "time_clip (num n) = n"
proof -
  have "dfloor (Dbl (- significand (num n)) (expo (num n))) = \<lfloor>- dbl_val (num n)\<rfloor>"
    unfolding dfloor_floor by (simp add: dbl_val_def)
  then show ?thesis
    using num_val [OF assms] dfloor_num [OF assms] by (simp add: time_clip_def)
qed

end
