(* ===== verification/DynamicPricing.thy ===== *)
theory DynamicPricing
  imports InvoiceLogic DoubleOrder
begin

text \<open>
  modules/dynamic-pricing: the surge tiers.  dynamic-pricing-helpers.ts stacks the active tiers and
  spreads the surge over them, reads the time-of-day curve, judges demand against its baseline and
  finds the date of a holiday; tier-resolution.service.ts reads the tables and applies the stack to a
  price.  Multipliers are the doubles JavaScript computes with.  The tenant's wall clock
  (Intl.DateTimeFormat) and the parsed tenant settings are arguments.
\<close>

section \<open>Stacking tiers\<close>

datatype pricing_category = Weather | Traffic | On_calendar | Time_of_day | Special_event

record tier =
  ti_id :: uuid
  ti_name :: string
  ti_category :: pricing_category
  ti_multiplier :: dbl

record stacking_result =
  sk_effectiveMultiplier :: dbl
  sk_appliedTiers :: "tier list"
  sk_suppressedTiers :: "tier list"
  sk_capped :: bool

text \<open>The map from category to tier keeps the order in which the categories came up.\<close>

definition stack_step :: "tier \<Rightarrow> tier list \<times> tier list \<Rightarrow> tier list \<times> tier list" where
  "stack_step t s = (case s of (applied, suppressed) \<Rightarrow>
     (case select_first (\<lambda>u. ti_category u = ti_category t) applied of
        None \<Rightarrow> (insert_into t applied, suppressed)
      | Some incumbent \<Rightarrow>
          if dless (ti_multiplier incumbent) (ti_multiplier t)
          then (update_where (\<lambda>u. ti_category u = ti_category t) (\<lambda>_. t) applied, suppressed @ [incumbent])
          else (applied, suppressed @ [t])))"

definition raw_product :: "tier list \<Rightarrow> dbl" where
  "raw_product applied = foldl (\<lambda>acc t. dmul acc (ti_multiplier t)) (num 1) applied"

definition stackTiers :: "tier list \<Rightarrow> dbl \<Rightarrow> exn + stacking_result" where
  "stackTiers tiers cap =
    ensure (dless (num 0) cap) (Failure ''stackTiers: cap must be > 0'')
      (case fold stack_step tiers ([], []) of (applied, suppressed) \<Rightarrow>
         (let raw = raw_product applied; effective = dmin raw cap
          in Inr \<lparr>sk_effectiveMultiplier = effective, sk_appliedTiers = applied,
                 sk_suppressedTiers = suppressed, sk_capped = dless effective raw\<rparr>))"

definition marginal :: "tier \<Rightarrow> dbl" where
  "marginal t = dmax (dsub (ti_multiplier t) (num 1)) (num 0)"

definition total_marginal :: "tier list \<Rightarrow> dbl" where
  "total_marginal ts = foldl (\<lambda>acc t. dadd acc (marginal t)) (num 0) ts"

text \<open>Each tier its rounded share, the last one what is left.\<close>

fun share_out :: "cents \<Rightarrow> dbl \<Rightarrow> cents \<Rightarrow> tier list \<Rightarrow> (uuid \<times> cents) list" where
  "share_out delta whole allocated [] = []"
| "share_out delta whole allocated [t] = [(ti_id t, delta - allocated)]"
| "share_out delta whole allocated (t # u # ts) =
    (let share = Math_round (dmul (num delta) (ddiv (marginal t) whole))
     in (ti_id t, share) # share_out delta whole (allocated + share) (u # ts))"

definition applyStackToBase :: "cents \<Rightarrow> stacking_result \<Rightarrow> cents \<times> (uuid \<rightharpoonup> cents)" where
  "applyStackToBase baseCents stack =
    (let finalRaw = Math_round (dmul (num baseCents) (sk_effectiveMultiplier stack));
         finalCents = (if finalRaw < baseCents then baseCents else finalRaw);
         delta = finalCents - baseCents;
         applied = sk_appliedTiers stack;
         whole = total_marginal applied;
         shares = (if delta \<le> 0 \<or> significand whole = 0 then map (\<lambda>t. (ti_id t, 0)) applied
           else share_out delta whole 0 applied)
     in (finalCents, map_of (rev shares)))"

section \<open>Curves, demand and holidays\<close>

datatype curve_mode = Hours_24 | Week_7x24
datatype curve_data = Daily "dbl list" | Weekly "dbl list list"

definition positive_or_one :: "dbl \<Rightarrow> dbl" where
  "positive_or_one v = (if dless (num 0) v then v else num 1)"

fun resolveCurveMultiplier :: "curve_data \<Rightarrow> curve_mode \<Rightarrow> nat \<Rightarrow> nat \<Rightarrow> dbl" where
  "resolveCurveMultiplier (Daily arr) Hours_24 dow hour =
    (if length arr \<noteq> 24 \<or> 24 \<le> hour then num 1 else positive_or_one (arr ! hour))"
| "resolveCurveMultiplier (Weekly grid) Week_7x24 dow hour =
    (if length grid \<noteq> 7 \<or> 7 \<le> dow then num 1
     else if length (grid ! dow) \<noteq> 24 \<or> 24 \<le> hour then num 1
     else positive_or_one (grid ! dow ! hour))"
| "resolveCurveMultiplier _ _ dow hour = num 1"

definition DEFAULT_24_HOUR_CURVE :: "decimal list" where
  "DEFAULT_24_HOUR_CURVE = map (\<lambda>h. if 22 \<le> h \<or> h < 6 then (13, 1) else (1, 0)) [0..<24]"

definition DEFAULT_7X24_CURVE :: "decimal list list" where
  "DEFAULT_7X24_CURVE = map (\<lambda>dow. map (\<lambda>h. if 22 \<le> h \<or> h < 6 then (13, 1)
      else if (dow = 0 \<or> dow = 6) \<and> (20 \<le> h \<or> h < 2) then (115, 2) else (1, 0)) [0..<24]) [0..<(7::nat)]"

definition trailingBaseline :: "int list \<Rightarrow> dbl option" where
  "trailingBaseline counts = (if counts = [] then None
     else Some (ddiv (num (sum_list counts)) (num (int (length counts)))))"

definition pickDemandSurgeTier :: "int \<Rightarrow> dbl \<Rightarrow> int list \<Rightarrow> dbl list \<Rightarrow> (int \<times> dbl) option" where
  "pickDemandSurgeTier current baseline thresholdsPct multipliers =
    (if \<not> dless (num 0) baseline then None
     else let ratioPct = dmul (ddiv (num current) baseline) (num 100) in
       fold (\<lambda>(thr, mult) best. if dless ratioPct (num thr) then best else Some (thr, mult))
         (zip thresholdsPct multipliers) None)"

datatype holiday_occurrence = On_fixed_date | On_nth_weekday
datatype holiday_spec = Month_day int int | Month_weekday int int int

text \<open>Dates are UTC midnights, kept as their day number; \<open>Date.UTC\<close> carries months and days over.\<close>

definition utc_day :: "int \<Rightarrow> int \<Rightarrow> int \<Rightarrow> int" where
  "utc_day y m d = day_of_civil (y + (m - 1) div 12) ((m - 1) mod 12 + 1) 1 + d - 1"

definition getUTCDay :: "int \<Rightarrow> int" where
  "getUTCDay n = (n + 4) mod 7"

fun resolveHolidayDate :: "holiday_occurrence \<Rightarrow> holiday_spec \<Rightarrow> int \<Rightarrow> int option" where
  "resolveHolidayDate On_fixed_date (Month_day month day) year =
    (let dt = utc_day year month day in
     case civil_of_day dt of (_, m, d) \<Rightarrow> if m \<noteq> month \<or> d \<noteq> day then None else Some dt)"
| "resolveHolidayDate On_nth_weekday (Month_weekday month weekday ordinal) year =
    (if ordinal = 0 then None
     else if ordinal = -1 then
       (let last = utc_day year (month + 1) 1 - 1;
            offset = (getUTCDay last - weekday + 7) mod 7
        in case civil_of_day last of (_, _, d) \<Rightarrow> Some (utc_day year month (d - offset)))
     else (let first = utc_day year month 1;
               offset = (weekday - getUTCDay first + 7) mod 7;
               day = 1 + offset + (ordinal - 1) * 7;
               dt = utc_day year month day
           in case civil_of_day dt of (_, m, _) \<Rightarrow> if m \<noteq> month then None else Some dt))"
| "resolveHolidayDate _ _ year = None"

definition DEFAULT_US_HOLIDAYS :: "(string \<times> holiday_occurrence \<times> holiday_spec \<times> decimal) list" where
  "DEFAULT_US_HOLIDAYS =
    [(''New Year's Eve'', On_fixed_date, Month_day 12 31, (18, 1)),
     (''New Year's Day'', On_fixed_date, Month_day 1 1, (20, 1)),
     (''MLK Day'', On_nth_weekday, Month_weekday 1 1 3, (12, 1)),
     (''Presidents Day'', On_nth_weekday, Month_weekday 2 1 3, (12, 1)),
     (''Memorial Day'', On_nth_weekday, Month_weekday 5 1 (-1), (13, 1)),
     (''Juneteenth'', On_fixed_date, Month_day 6 19, (12, 1)),
     (''Independence Day'', On_fixed_date, Month_day 7 4, (15, 1)),
     (''Labor Day'', On_nth_weekday, Month_weekday 9 1 1, (13, 1)),
     (''Columbus Day'', On_nth_weekday, Month_weekday 10 1 2, (12, 1)),
     (''Veterans Day'', On_fixed_date, Month_day 11 11, (12, 1)),
     (''Thanksgiving'', On_nth_weekday, Month_weekday 11 4 4, (15, 1)),
     (''Day After Thanksgiving'', On_nth_weekday, Month_weekday 11 5 4, (13, 1)),
     (''Christmas Eve'', On_fixed_date, Month_day 12 24, (15, 1)),
     (''Christmas Day'', On_fixed_date, Month_day 12 25, (20, 1))]"

section \<open>The tier tables\<close>

record tier_row =
  tr_id :: uuid
  tr_tenantId :: uuid
  tr_name :: string
  tr_category :: pricing_category
  tr_multiplier :: int  \<comment> \<open>numeric(5, 3), in thousandths\<close>
  tr_scopeYardIds :: "uuid list option"
  tr_isActive :: bool
  tr_deletedAt :: "instant option"

record curve_row =
  cv_id :: uuid
  cv_tenantId :: uuid
  cv_mode :: curve_mode
  cv_curveData :: curve_data
  cv_isActive :: bool
  cv_deletedAt :: "instant option"

text \<open>The tenant's settings as parsed (the cap, three where unset or malformed) and its time zone.\<close>

record pricing_db =
  pricingTiers :: "tier_row list"
  pricingCurves :: "curve_row list"
  capMultiplier :: "uuid \<Rightarrow> dbl"
  timezone :: "uuid \<Rightarrow> string"

record tier_share =
  ts_tierId :: uuid
  ts_name :: string
  ts_category :: pricing_category
  ts_multiplier :: dbl
  ts_contributionCents :: cents

record resolved_stack =
  rst_baseCents :: cents
  rst_finalCents :: cents
  rst_capMultiplier :: dbl
  rst_effectiveMultiplier :: dbl
  rst_capped :: bool
  rst_tiers :: "tier_share list"

definition in_scope :: "uuid option \<Rightarrow> tier_row \<Rightarrow> bool" where
  "in_scope yardId t = (case tr_scopeYardIds t of None \<Rightarrow> True
    | Some [] \<Rightarrow> True
    | Some scope \<Rightarrow> (case yardId of None \<Rightarrow> False | Some y \<Rightarrow> y \<in> set scope))"

definition active_tiers :: "uuid \<Rightarrow> uuid option \<Rightarrow> 'a pricing_db_scheme \<Rightarrow> tier_row list" where
  "active_tiers tenantId yardId db = filter (in_scope yardId)
     (select_where (\<lambda>t. tr_tenantId t = tenantId \<and> tr_isActive t \<and> tr_deletedAt t = None) (pricingTiers db))"

text \<open>\<open>clock\<close> gives the day of the week and the hour of an instant in a time zone.\<close>

definition curve_multiplier :: "(string \<Rightarrow> instant \<Rightarrow> nat \<times> nat) \<Rightarrow> uuid \<Rightarrow> instant \<Rightarrow> tier_row list \<Rightarrow>
    'a pricing_db_scheme \<Rightarrow> dbl option" where
  "curve_multiplier clock tenantId time scope db =
    (if \<not> list_ex (\<lambda>t. tr_category t = Time_of_day) scope then None
     else map_option (\<lambda>c. case clock (timezone db tenantId) time of (dow, hour) \<Rightarrow>
            resolveCurveMultiplier (cv_curveData c) (cv_mode c) dow hour)
          (select_first (\<lambda>c. cv_tenantId c = tenantId \<and> cv_isActive c \<and> cv_deletedAt c = None) (pricingCurves db)))"

definition stack_input :: "dbl option \<Rightarrow> tier_row \<Rightarrow> tier" where
  "stack_input curve t = \<lparr>ti_id = tr_id t, ti_name = tr_name t, ti_category = tr_category t,
     ti_multiplier = (case curve of Some v \<Rightarrow> if tr_category t = Time_of_day then v else Number (tr_multiplier t, 3)
       | None \<Rightarrow> Number (tr_multiplier t, 3))\<rparr>"

definition resolveStack :: "(string \<Rightarrow> instant \<Rightarrow> nat \<times> nat) \<Rightarrow> uuid \<Rightarrow> uuid option \<Rightarrow> instant \<Rightarrow> cents \<Rightarrow>
    'a pricing_db_scheme \<Rightarrow> exn + resolved_stack" where
  "resolveStack clock tenantId yardId time baseCents db =
    (let scope = active_tiers tenantId yardId db;
         curve = curve_multiplier clock tenantId time scope db;
         cap = capMultiplier db tenantId
     in attempt (stackTiers (map (stack_input curve) scope) cap) (\<lambda>stack.
          case applyStackToBase baseCents stack of (finalCents, shares) \<Rightarrow>
            Inr \<lparr>rst_baseCents = baseCents, rst_finalCents = finalCents, rst_capMultiplier = cap,
                 rst_effectiveMultiplier = sk_effectiveMultiplier stack, rst_capped = sk_capped stack,
                 rst_tiers = map (\<lambda>t. \<lparr>ts_tierId = ti_id t, ts_name = ti_name t, ts_category = ti_category t,
                    ts_multiplier = ti_multiplier t,
                    ts_contributionCents = (case shares (ti_id t) of None \<Rightarrow> 0 | Some c \<Rightarrow> c)\<rparr>)
                   (sk_appliedTiers stack)\<rparr>))"

end
