(* ===== verification/RateEngine.thy ===== *)
theory RateEngine
  imports DynamicPricing WebText
begin

text \<open>
  modules/rates/rate-engine.service.ts: the price of a call at intake.  A quote picks the account's
  rate sheet, the tenant's default or the built-in one, takes the base price from the master rate
  sheet and the account's override where there is one, adds mileage, surcharge windows and fixed
  items, and applies the dynamic-pricing stack.  A sheet's JSON definition is kept as parsed
  (\<open>None\<close> where the schema rejects it); the great-circle distance is an argument.
\<close>

section \<open>Rate sheets\<close>

record surcharge_window =
  sw_code :: string
  sw_label :: string
  sw_startHHmm :: string
  sw_endHHmm :: string
  sw_crossesMidnight :: bool
  sw_amountCents :: cents
  sw_daysOfWeek :: "int list"

record service_rate =
  sv_serviceType :: service_type
  sv_baseCents :: cents
  sv_perMileCentsByClass :: "vehicle_class \<rightharpoonup> cents"
  sv_flatFeesByClass :: "vehicle_class \<rightharpoonup> cents"

record fixed_line =
  fl_code :: string
  fl_label :: string
  fl_amountCents :: cents

record rate_sheet_definition =
  rd_freeMilesIncluded :: dbl
  rd_services :: "service_rate list"
  rd_surcharges :: "surcharge_window list"
  rd_fixedLineItems :: "fixed_line list"

definition mileage_rates :: "cents \<Rightarrow> cents \<Rightarrow> cents \<Rightarrow> cents \<Rightarrow> cents \<Rightarrow> cents \<Rightarrow> cents \<Rightarrow> vehicle_class \<rightharpoonup> cents" where
  "mileage_rates light medium heavy motorcycle commercial rv unknown c = Some (case c of Light_duty \<Rightarrow> light
     | Medium_duty \<Rightarrow> medium | Heavy_duty \<Rightarrow> heavy | Motorcycle \<Rightarrow> motorcycle | Commercial \<Rightarrow> commercial
     | Rv \<Rightarrow> rv | Unknown_class \<Rightarrow> unknown)"

definition flat_service :: "service_type \<Rightarrow> cents \<Rightarrow> service_rate" where
  "flat_service s base = \<lparr>sv_serviceType = s, sv_baseCents = base, sv_perMileCentsByClass = Map.empty,
     sv_flatFeesByClass = Map.empty\<rparr>"

definition FALLBACK_DEFINITION :: rate_sheet_definition where
  "FALLBACK_DEFINITION = \<lparr>rd_freeMilesIncluded = num 0,
     rd_services =
       [(flat_service Tow 9500)\<lparr>sv_perMileCentsByClass := mileage_rates 450 700 1100 450 900 800 450\<rparr>,
        flat_service Jump_start 7500, flat_service Lockout 6500, flat_service Tire_change 8500,
        flat_service Fuel 7500, flat_service Winch 15000,
        (flat_service Recovery 25000)\<lparr>sv_perMileCentsByClass := mileage_rates 600 900 1500 600 1200 1200 600\<rparr>,
        (flat_service Impound 12500)\<lparr>sv_perMileCentsByClass := mileage_rates 450 700 1100 450 900 800 450\<rparr>,
        flat_service Other_service 10000],
     rd_surcharges = [], rd_fixedLineItems = []\<rparr>"

section \<open>Tables\<close>

datatype override_type = Flat_price | Percent_discount | Flat_dollar_discount
datatype availability = Available | Not_covered | Pre_approval_required

text \<open>A class column: one class, or the sentinel 'any'.\<close>

datatype rate_class = Any_class | Class vehicle_class

record account_sheet_row =
  as_id :: uuid
  as_tenantId :: uuid
  as_defaultRateSheetId :: "uuid option"
  as_deletedAt :: "instant option"

record rate_sheet_row =
  rs_id :: uuid
  rs_tenantId :: uuid
  rs_name :: string
  rs_definition :: "rate_sheet_definition option"
  rs_deletedAt :: "instant option"

record default_sheet_row =
  ds_tenantId :: uuid
  ds_rateSheetId :: uuid

record catalog_row =
  ct_id :: uuid
  ct_tenantId :: uuid
  ct_code :: string
  ct_applicableVehicleClasses :: "vehicle_class list"
  ct_deletedAt :: "instant option"

record service_rate_row =
  sr_tenantId :: uuid
  sr_serviceId :: uuid
  sr_vehicleClass :: rate_class
  sr_priceCents :: cents

record override_row =
  ov_tenantId :: uuid
  ov_accountId :: uuid
  ov_serviceCatalogId :: uuid
  ov_vehicleClass :: "rate_class option"
  ov_overrideType :: override_type
  ov_overrideValueCents :: cents
  ov_overridePercent :: "int option"  \<comment> \<open>numeric(5, 2), in hundredths\<close>
  ov_isActive :: bool

record availability_row =
  av_tenantId :: uuid
  av_accountId :: uuid
  av_serviceCatalogId :: uuid
  av_availability :: availability

record rate_db = pricing_db +
  rateAccounts :: "account_sheet_row list"
  rateSheets :: "rate_sheet_row list"
  tenantDefaultRateSheets :: "default_sheet_row list"
  serviceCatalog :: "catalog_row list"
  serviceRates :: "service_rate_row list"
  accountRateOverrides :: "override_row list"
  accountServiceAvailability :: "availability_row list"

definition isServiceAvailableForAccount :: "uuid \<Rightarrow> uuid \<Rightarrow> uuid \<Rightarrow> 'a rate_db_scheme \<Rightarrow> availability" where
  "isServiceAvailableForAccount tenantId accountId serviceCatalogId db =
    (case select_first (\<lambda>r. av_tenantId r = tenantId \<and> av_accountId r = accountId
            \<and> av_serviceCatalogId r = serviceCatalogId) (accountServiceAvailability db) of
       None \<Rightarrow> Available | Some r \<Rightarrow> av_availability r)"

section \<open>Base price\<close>

fun SERVICE_TYPE_CATALOG_CODE :: "service_type \<Rightarrow> string option" where
  "SERVICE_TYPE_CATALOG_CODE Tow = Some ''TOW''"
| "SERVICE_TYPE_CATALOG_CODE Jump_start = Some ''JUMP_START_SERVICE''"
| "SERVICE_TYPE_CATALOG_CODE Lockout = Some ''LOCKOUT_SERVICE''"
| "SERVICE_TYPE_CATALOG_CODE Tire_change = Some ''TIRE_SERVICE''"
| "SERVICE_TYPE_CATALOG_CODE Fuel = Some ''FUEL_DELIVERY_SERVICE''"
| "SERVICE_TYPE_CATALOG_CODE Winch = Some ''WINCHING''"
| "SERVICE_TYPE_CATALOG_CODE Recovery = Some ''LABOR''"
| "SERVICE_TYPE_CATALOG_CODE Impound = Some ''DAILY_IMPOUND_RATE''"
| "SERVICE_TYPE_CATALOG_CODE Repo = None"
| "SERVICE_TYPE_CATALOG_CODE Other_service = None"

definition catalog_entry :: "uuid \<Rightarrow> service_type \<Rightarrow> 'a rate_db_scheme \<Rightarrow> catalog_row option" where
  "catalog_entry tenantId s db = Option.bind (SERVICE_TYPE_CATALOG_CODE s) (\<lambda>code.
     select_first (\<lambda>c. ct_tenantId c = tenantId \<and> ct_code c = code \<and> ct_deletedAt c = None) (serviceCatalog db))"

definition resolveMasterRateBase :: "uuid \<Rightarrow> service_type \<Rightarrow> vehicle_class \<Rightarrow> 'a rate_db_scheme \<Rightarrow> cents option" where
  "resolveMasterRateBase tenantId s v db = Option.bind (catalog_entry tenantId s db) (\<lambda>c.
     let applicable = ct_applicableVehicleClasses c;
         lookup = (if applicable = [] then Any_class else Class v)
     in if applicable \<noteq> [] \<and> v \<notin> set applicable then None
        else map_option sr_priceCents (select_first (\<lambda>r. sr_tenantId r = tenantId \<and> sr_serviceId r = ct_id c
               \<and> sr_vehicleClass r = lookup) (serviceRates db)))"

definition resolveAccountOverride :: "uuid \<Rightarrow> uuid \<Rightarrow> service_type \<Rightarrow> vehicle_class \<Rightarrow> 'a rate_db_scheme \<Rightarrow>
    override_row option" where
  "resolveAccountOverride tenantId accountId s v db = Option.bind (catalog_entry tenantId s db) (\<lambda>c.
     select_first (\<lambda>r. ov_tenantId r = tenantId \<and> ov_accountId r = accountId \<and> ov_serviceCatalogId r = ct_id c
        \<and> ov_isActive r
        \<and> (if ct_applicableVehicleClasses c = [] then ov_vehicleClass r \<in> {None, Some Any_class}
           else ov_vehicleClass r = Some (Class v))) (accountRateOverrides db))"

definition resolveAccountOverridePriceCents :: "override_type \<Rightarrow> cents \<Rightarrow> int option \<Rightarrow> cents option \<Rightarrow> cents option" where
  "resolveAccountOverridePriceCents overrideType overrideValueCents overridePercent masterPriceCents =
    (if overrideType = Flat_price then Some (max 0 overrideValueCents)
     else case masterPriceCents of None \<Rightarrow> None
       | Some m \<Rightarrow>
           if overrideType = Flat_dollar_discount then Some (max 0 (m - overrideValueCents))
           else (let pct = (case overridePercent of None \<Rightarrow> num 0 | Some p \<Rightarrow> Number (p, 2))
                 in Some (max 0 (Math_round (dmul (num m) (dsub (num 1) (ddiv pct (num 100))))))))"

section \<open>Surcharge windows\<close>

definition parseHHmm :: "string \<Rightarrow> int" where
  "parseHHmm s = (case split_on (CHR '':'') s of
      h # m # _ \<Rightarrow> int (read_digits h) * 60 + int (read_digits m)
    | _ \<Rightarrow> int (read_digits s) * 60)"

definition minute_of_day :: "instant \<Rightarrow> int" where
  "minute_of_day t = t mod day_ms div 60000"

definition windowMatches :: "surcharge_window \<Rightarrow> instant \<Rightarrow> bool" where
  "windowMatches w t =
    (if sw_daysOfWeek w \<noteq> [] \<and> getUTCDay (t div day_ms) \<notin> set (sw_daysOfWeek w) then False
     else (let minutes = minute_of_day t; start = parseHHmm (sw_startHHmm w); finish = parseHHmm (sw_endHHmm w)
           in if sw_crossesMidnight w then start \<le> minutes \<or> minutes < finish
              else start \<le> minutes \<and> minutes < finish))"

section \<open>Quotes\<close>

datatype quote_source = From_account | From_tenant_default | From_fallback

text \<open>The entries of the calculation trace, with the values their texts show.\<close>

datatype trace_entry =
    Used_account_sheet string uuid
  | Account_sheet_invalid uuid
  | Account_sheet_missing uuid
  | Account_without_sheet uuid
  | Used_default_sheet string uuid
  | Default_sheet_invalid uuid
  | Used_fallback
  | No_distance
  | Distance dbl
  | Master_base service_type vehicle_class cents
  | Override_applied override_type service_type vehicle_class cents "cents option"
  | Override_without_master
  | Service_missing service_type
  | Mileage dbl dbl cents cents
  | Within_free_miles dbl
  | Surcharge_applied string instant
  | Pricing_applied nat dbl "dbl option" cents

record line_item =
  ql_code :: string
  ql_label :: string
  ql_amountCents :: cents
  ql_quantity :: "dbl option"
  ql_unit :: "string option"

definition plain_line :: "string \<Rightarrow> string \<Rightarrow> cents \<Rightarrow> line_item" where
  "plain_line code label amount = \<lparr>ql_code = code, ql_label = label, ql_amountCents = amount,
     ql_quantity = None, ql_unit = None\<rparr>"

record quote_input =
  qi_tenantId :: uuid
  qi_serviceType :: service_type
  qi_vehicleClass :: vehicle_class
  qi_pickup :: "(dbl \<times> dbl) option"
  qi_dropoff :: "(dbl \<times> dbl) option"
  qi_scheduledAt :: "instant option"
  qi_accountId :: "uuid option"

record rate_quote =
  rq_serviceType :: service_type
  rq_vehicleClass :: vehicle_class
  rq_rateSheetId :: "uuid option"
  rq_rateSheetName :: "string option"
  rq_source :: quote_source
  rq_distanceMiles :: dbl
  rq_lineItems :: "line_item list"
  rq_subtotalCents :: cents
  rq_totalCents :: cents
  rq_calculationTrace :: "trace_entry list"
  rq_dynamicPricing :: "resolved_stack option"

text \<open>The sheet a lookup settles on, with the entries it leaves in the trace.\<close>

type_synonym resolved_sheet = "(uuid \<times> string \<times> rate_sheet_definition) option \<times> trace_entry list"

definition live_sheet :: "uuid \<Rightarrow> uuid \<Rightarrow> 'a rate_db_scheme \<Rightarrow> rate_sheet_row option" where
  "live_sheet tenantId i db = select_first (\<lambda>s. rs_tenantId s = tenantId \<and> rs_id s = i \<and> rs_deletedAt s = None)
     (rateSheets db)"

definition account_sheet :: "uuid \<Rightarrow> uuid option \<Rightarrow> 'a rate_db_scheme \<Rightarrow> resolved_sheet" where
  "account_sheet tenantId accountId db = (case accountId of None \<Rightarrow> (None, [])
    | Some a \<Rightarrow>
        (case Option.bind (select_first (\<lambda>r. as_tenantId r = tenantId \<and> as_id r = a \<and> as_deletedAt r = None)
                 (rateAccounts db)) as_defaultRateSheetId of
           None \<Rightarrow> (None, [Account_without_sheet a])
         | Some i \<Rightarrow>
             (case live_sheet tenantId i db of
                None \<Rightarrow> (None, [Account_sheet_missing i])
              | Some s \<Rightarrow>
                  (case rs_definition s of
                     None \<Rightarrow> (None, [Account_sheet_invalid (rs_id s)])
                   | Some d \<Rightarrow> (Some (rs_id s, rs_name s, d), [Used_account_sheet (rs_name s) (rs_id s)])))))"

definition default_sheet :: "uuid \<Rightarrow> 'a rate_db_scheme \<Rightarrow> resolved_sheet" where
  "default_sheet tenantId db =
    (case Option.bind (select_first (\<lambda>r. ds_tenantId r = tenantId) (tenantDefaultRateSheets db))
            (\<lambda>r. live_sheet tenantId (ds_rateSheetId r) db) of
       None \<Rightarrow> (None, [])
     | Some s \<Rightarrow>
         (case rs_definition s of
            None \<Rightarrow> (None, [Default_sheet_invalid (rs_id s)])
          | Some d \<Rightarrow> (Some (rs_id s, rs_name s, d), [Used_default_sheet (rs_name s) (rs_id s)])))"

definition pick_sheet :: "uuid \<Rightarrow> uuid option \<Rightarrow> 'a rate_db_scheme \<Rightarrow>
    (uuid \<times> string) option \<times> rate_sheet_definition \<times> quote_source \<times> trace_entry list" where
  "pick_sheet tenantId accountId db =
    (case account_sheet tenantId accountId db of
       (Some (i, n, d), trace) \<Rightarrow> (Some (i, n), d, From_account, trace)
     | (None, trace) \<Rightarrow>
         (case default_sheet tenantId db of
            (Some (i, n, d), trace') \<Rightarrow> (Some (i, n), d, From_tenant_default, trace @ trace')
          | (None, trace') \<Rightarrow> (None, FALLBACK_DEFINITION, From_fallback, trace @ trace' @ [Used_fallback])))"

definition distance_miles :: "(dbl \<Rightarrow> dbl \<Rightarrow> dbl \<Rightarrow> dbl \<Rightarrow> dbl) \<Rightarrow> quote_input \<Rightarrow> dbl option" where
  "distance_miles haversine input = (case (qi_pickup input, qi_dropoff input) of
      (Some (lat1, lng1), Some (lat2, lng2)) \<Rightarrow> Some (haversine lat1 lng1 lat2 lng2) | _ \<Rightarrow> None)"

definition base_price :: "quote_input \<Rightarrow> 'a rate_db_scheme \<Rightarrow> cents option \<times> trace_entry list" where
  "base_price input db =
    (let s = qi_serviceType input; v = qi_vehicleClass input; t = qi_tenantId input;
         master = resolveMasterRateBase t s v db;
         trace = (case master of None \<Rightarrow> [] | Some m \<Rightarrow> [Master_base s v m])
     in case Option.bind (qi_accountId input) (\<lambda>a. resolveAccountOverride t a s v db) of
          None \<Rightarrow> (master, trace)
        | Some ov \<Rightarrow>
            (case resolveAccountOverridePriceCents (ov_overrideType ov) (ov_overrideValueCents ov)
                    (ov_overridePercent ov) master of
               Some p \<Rightarrow> (Some p, trace @ [Override_applied (ov_overrideType ov) s v p master])
             | None \<Rightarrow> (master, trace @ [Override_without_master])))"

fun labelFor :: "service_type \<Rightarrow> string" where
  "labelFor Tow = ''Tow''"
| "labelFor Jump_start = ''Jump start''"
| "labelFor Lockout = ''Lockout''"
| "labelFor Tire_change = ''Tire change''"
| "labelFor Fuel = ''Fuel delivery''"
| "labelFor Winch = ''Winch''"
| "labelFor Recovery = ''Recovery''"
| "labelFor Impound = ''Impound''"
| "labelFor Repo = ''Repossession''"
| "labelFor Other_service = ''Other service''"

fun classLabel :: "vehicle_class \<Rightarrow> string" where
  "classLabel Light_duty = ''Light-duty''"
| "classLabel Medium_duty = ''Medium-duty''"
| "classLabel Heavy_duty = ''Heavy-duty''"
| "classLabel Motorcycle = ''Motorcycle''"
| "classLabel Commercial = ''Commercial''"
| "classLabel Rv = ''RV''"
| "classLabel Unknown_class = ''Unknown class''"

text \<open>\<open>x.toFixed(2)\<close> of a nonnegative number, as text.\<close>

definition fixed2 :: "dbl \<Rightarrow> string" where
  "fixed2 x = (let c = toFixed 2 x in show_int (c div 100) @ ''.'' @ pad_nat 2 (nat (c mod 100)))"

definition mileage_line :: "dbl \<Rightarrow> cents \<Rightarrow> cents \<Rightarrow> line_item" where
  "mileage_line billable perMile amount = \<lparr>ql_code = ''mileage'',
     ql_label = ''Mileage ('' @ fixed2 billable @ '' mi @ $'' @ fixed2 (ddiv (num perMile) (num 100)) @ ''/mi)'',
     ql_amountCents = amount, ql_quantity = Some (nearest (toFixed 2 billable) 100), ql_unit = Some ''mi''\<rparr>"

definition mileage_items :: "rate_sheet_definition \<Rightarrow> service_rate \<Rightarrow> vehicle_class \<Rightarrow> dbl option \<Rightarrow>
    line_item list \<times> trace_entry list" where
  "mileage_items d service v distance =
    (case (sv_perMileCentsByClass service v, distance) of
       (Some perMile, Some miles) \<Rightarrow>
         if perMile = 0 \<or> \<not> dless (num 0) miles then ([], [])
         else (let free = rd_freeMilesIncluded d;
                   billable = dmax (num 0) (dsub miles free);
                   amount = Math_round (dmul billable (num perMile))
               in if dless (num 0) billable
                  then ([mileage_line billable perMile amount], [Mileage billable free perMile amount])
                  else ([], [Within_free_miles free]))
     | _ \<Rightarrow> ([], []))"

definition service_items :: "rate_sheet_definition \<Rightarrow> quote_input \<Rightarrow> cents option \<Rightarrow> dbl option \<Rightarrow>
    line_item list \<times> trace_entry list" where
  "service_items d input price distance =
    (let s = qi_serviceType input; v = qi_vehicleClass input; label = labelFor s @ '' base fee'' in
     case select_first (\<lambda>r. sv_serviceType r = s) (rd_services d) of
       None \<Rightarrow>
         (case select_first (\<lambda>r. sv_serviceType r = s) (rd_services FALLBACK_DEFINITION) of
            None \<Rightarrow> ([], [Service_missing s])
          | Some fb \<Rightarrow> ([plain_line ''base'' label (case price of None \<Rightarrow> sv_baseCents fb | Some p \<Rightarrow> p)],
                       [Service_missing s]))
     | Some service \<Rightarrow>
         (case mileage_items d service v distance of (mileage, trace) \<Rightarrow>
            (plain_line ''base'' label (case price of None \<Rightarrow> sv_baseCents service | Some p \<Rightarrow> p)
              # (case sv_flatFeesByClass service v of
                   None \<Rightarrow> []
                 | Some flat \<Rightarrow> if 0 < flat then [plain_line ''class_flat'' (classLabel v @ '' flat fee'') flat] else [])
              @ mileage, trace)))"

definition surcharge_items :: "rate_sheet_definition \<Rightarrow> instant \<Rightarrow> line_item list \<times> trace_entry list" where
  "surcharge_items d t = (let ws = filter (\<lambda>w. windowMatches w t) (rd_surcharges d) in
     (map (\<lambda>w. plain_line (sw_code w) (sw_label w) (sw_amountCents w)) ws,
      map (\<lambda>w. Surcharge_applied (sw_label w) t) ws))"

definition fixed_items :: "rate_sheet_definition \<Rightarrow> line_item list" where
  "fixed_items d = map (\<lambda>f. plain_line (fl_code f) (fl_label f) (fl_amountCents f)) (rd_fixedLineItems d)"

definition join_plus :: "string list \<Rightarrow> string" where
  "join_plus ns = (case ns of [] \<Rightarrow> [] | n # rest \<Rightarrow> n @ concat (map (\<lambda>x. '' + '' @ x) rest))"

text \<open>The items before the stack, and the sheet, distance and trace they come from.\<close>

definition quote_items :: "(dbl \<Rightarrow> dbl \<Rightarrow> dbl \<Rightarrow> dbl \<Rightarrow> dbl) \<Rightarrow> instant \<Rightarrow> quote_input \<Rightarrow> 'a rate_db_scheme \<Rightarrow>
    ((uuid \<times> string) option \<times> quote_source) \<times> dbl option \<times> line_item list \<times> trace_entry list" where
  "quote_items haversine now input db =
    (case pick_sheet (qi_tenantId input) (qi_accountId input) db of (sheet, d, source, trace1) \<Rightarrow>
     (let distance = distance_miles haversine input;
          trace2 = (case distance of None \<Rightarrow> [No_distance] | Some x \<Rightarrow> [Distance x]);
          scheduled = (case qi_scheduledAt input of None \<Rightarrow> now | Some t \<Rightarrow> t)
      in case base_price input db of (price, trace3) \<Rightarrow>
         (case service_items d input price distance of (items, trace4) \<Rightarrow>
         (case surcharge_items d scheduled of (extra, trace5) \<Rightarrow>
            ((sheet, source), distance, items @ extra @ fixed_items d,
             trace1 @ trace2 @ trace3 @ trace4 @ trace5)))))"

definition quote :: "(dbl \<Rightarrow> dbl \<Rightarrow> dbl \<Rightarrow> dbl \<Rightarrow> dbl) \<Rightarrow> (string \<Rightarrow> instant \<Rightarrow> nat \<times> nat) \<Rightarrow> instant \<Rightarrow>
    quote_input \<Rightarrow> 'a rate_db_scheme \<Rightarrow> exn + rate_quote" where
  "quote haversine clock now input db =
    (case quote_items haversine now input db of ((sheet, source), distance, items, trace) \<Rightarrow>
     (let subtotal = sum_list (map ql_amountCents items) in
      attempt (resolveStack clock (qi_tenantId input) None now subtotal db) (\<lambda>stack.
        let surged = rst_tiers stack \<noteq> [] \<and> subtotal < rst_finalCents stack;
            surge = rst_finalCents stack - subtotal
        in Inr \<lparr>rq_serviceType = qi_serviceType input, rq_vehicleClass = qi_vehicleClass input,
             rq_rateSheetId = map_option fst sheet, rq_rateSheetName = map_option snd sheet, rq_source = source,
             rq_distanceMiles = (case distance of None \<Rightarrow> num 0 | Some x \<Rightarrow> x),
             rq_lineItems = items @ (if surged then [plain_line ''DYNAMIC_PRICING''
                 (''Dynamic pricing ('' @ join_plus (map ts_name (rst_tiers stack)) @ '')'') surge] else []),
             rq_subtotalCents = subtotal,
             rq_totalCents = (if surged then rst_finalCents stack else subtotal),
             rq_calculationTrace = trace @ (if surged then [Pricing_applied (length (rst_tiers stack))
                 (rst_effectiveMultiplier stack) (if rst_capped stack then Some (rst_capMultiplier stack) else None)
                 surge] else []),
             rq_dynamicPricing = (if surged then Some stack else None)\<rparr>)))"

end
