(* ===== verification/PricingProperties.thy ===== *)
theory PricingProperties
  imports RateEngine
begin

text \<open>
  What pricing promises: the stack takes the best tier of each category, the surge stays within the
  cap and is spread over the tiers to the cent, the lines of a quote add up to its total, a quote is
  always produced, and a holiday given by its weekday is found.  Some small print about windows and
  the default holidays follows.
\<close>

section \<open>Rounding below one\<close>

text \<open>Rounding does not lift a value of at most one above one.\<close>

lemma nearest_le_one:
  assumes "0 < q" "0 < p" "p \<le> q"
  shows "dbl_val (nearest p q) \<le> 1"
proof (cases "p = q")
  case True
  then show ?thesis
    using nearest_exact [OF assms(1), of p 1] by simp
next
  case False
  let ?e = "binade p q"
  obtain a b where ab: "scaled p q ?e = (a, b)" by fastforce
  define x where "x = (of_int p / of_int q :: real)"
  have x: "0 < x" "x < 1"
    using assms False by (simp_all add: x_def)
  have b: "0 < b" "of_int a / of_int b = x * 2 powi (- ?e)"
    using scaled_val [OF assms(1), of p ?e] ab by (simp_all add: x_def)
  have bounds: "2 ^ 52 \<le> x * 2 powi (- ?e)" "x * 2 powi (- ?e) < 2 ^ 53"
    using binade_bounds [of p q] assms by (simp_all add: x_def)
  have "x * 2 powi (- ?e) < 1 * 2 powi (- ?e)"
    using x by (intro mult_strict_right_mono) simp_all
  then have "(2 :: real) ^ 52 < 2 powi (- ?e)"
    using bounds(1) by (simp only: mult_1)
  then have u: "(2 :: real) powi 52 < 2 powi (- ?e)"
    by simp
  have e: "?e \<le> - 53"
  proof (rule ccontr)
    assume "\<not> ?e \<le> - 53"
    then have "- ?e \<le> 52"
      by linarith
    then have "(2 :: real) powi (- ?e) \<le> 2 powi 52"
      by (intro power_int_increasing) simp_all
    then show False
      using u by linarith
  qed
  have "of_int (round_even a b) \<le> (2 ^ 53 :: real) + 1 / 2"
    using round_even_error [OF b(1), of a] bounds(2) b(2) by linarith
  then have "real_of_int (round_even a b) < of_int (2 ^ 53 + 1)"
    by simp
  then have r: "round_even a b \<le> 2 ^ 53"
    by (simp only: of_int_less_iff)
  have "dbl_val (nearest p q) = of_int (round_even a b) * 2 powi ?e"
    using dbl_val_nearest [of p q] assms ab by simp
  also have "\<dots> \<le> 2 ^ 53 * 2 powi ?e"
    using r by (intro mult_right_mono) (simp_all add: of_int_le_iff [of _ "2 ^ 53", symmetric, where ?'a = real])
  also have "\<dots> \<le> 2 ^ 53 * 2 powi (- 53)"
    using e by (intro mult_left_mono power_int_increasing) simp_all
  also have "\<dots> = 1"
    by (simp add: power_int_minus)
  finally show ?thesis .
qed

lemma dmul_le_one:
  assumes "0 \<le> dbl_val x" "dbl_val x \<le> 1" "0 \<le> dbl_val y" "dbl_val y \<le> 1"
  shows "dbl_val (dmul x y) \<le> 1"
proof -
  obtain p q where pq: "0 < q" "dmul x y = nearest p q" "of_int p / of_int q = dbl_val x * dbl_val y"
    by (rule dmul_fraction)
  have le: "dbl_val x * dbl_val y \<le> 1"
    using assms by (simp add: mult_le_one)
  have ge: "0 \<le> dbl_val x * dbl_val y"
    using assms by simp
  have "(of_int p :: real) \<le> of_int q" "0 \<le> (of_int p :: real)"
    using le ge pq(1) unfolding pq(3) [symmetric] by (simp_all add: divide_le_eq zero_le_divide_iff)
  then have "p \<le> q" "0 \<le> p"
    by simp_all
  then show ?thesis
    using nearest_le_one [OF pq(1), of p] pq(2) by (cases "p = 0") (auto simp: nearest_def dbl_val_def)
qed

section \<open>The stack\<close>

definition best_of :: "tier list \<Rightarrow> tier list \<Rightarrow> bool" where
  "best_of tiers applied \<longleftrightarrow> distinct (map ti_category applied) \<and> set applied \<subseteq> set tiers \<and>
     (\<forall>t \<in> set tiers. \<exists>u \<in> set applied. ti_category u = ti_category t
        \<and> dbl_val (ti_multiplier t) \<le> dbl_val (ti_multiplier u))"

lemma select_category:
  "distinct (map ti_category applied) \<Longrightarrow> u \<in> set applied \<Longrightarrow>
    select_first (\<lambda>v. ti_category v = ti_category u) applied = Some u"
  by (induction applied) (auto simp: select_first_Cons)

lemma replace_category:
  assumes "distinct (map ti_category applied)" "u \<in> set applied" "ti_category u = ti_category t"
  shows "set (update_where (\<lambda>v. ti_category v = ti_category t) (\<lambda>_. t) applied) = insert t (set applied - {u})"
proof -
  have inj: "inj_on ti_category (set applied)"
    using assms(1) by (simp add: distinct_map)
  have "x = u" if "x \<in> set applied" "ti_category x = ti_category t" for x
    by (rule inj_onD [OF inj]) (simp_all add: that assms(2,3))
  then have "{r \<in> set applied. ti_category r = ti_category t} = {u}"
    using assms(2,3) by blast
  moreover from this have "{r \<in> set applied. ti_category r \<noteq> ti_category t} = set applied - {u}"
    by blast
  ultimately show ?thesis
    by (simp only: set_update_where) simp
qed

lemma best_of_step:
  assumes b: "best_of tiers applied"
  shows "best_of (tiers @ [t]) (fst (stack_step t (applied, suppressed)))"
proof (cases "select_first (\<lambda>u. ti_category u = ti_category t) applied")
  case None
  then have "ti_category t \<notin> ti_category ` set applied"
    by (auto simp: select_first_None)
  then show ?thesis
    using b None by (auto simp: stack_step_def best_of_def insert_into_def)
next
  case (Some inc)
  have inc: "ti_category inc = ti_category t" "inc \<in> set applied"
    using select_first_SomeD [OF Some] by simp_all
  show ?thesis
  proof (cases "dless (ti_multiplier inc) (ti_multiplier t)")
    case True
    have "map ti_category (update_where (\<lambda>u. ti_category u = ti_category t) (\<lambda>_. t) applied) = map ti_category applied"
      by (rule map_update_where) simp
    moreover have "set (update_where (\<lambda>u. ti_category u = ti_category t) (\<lambda>_. t) applied) = insert t (set applied - {inc})"
      using b inc by (intro replace_category) (simp_all add: best_of_def)
    moreover have "\<exists>u \<in> insert t (set applied - {inc}). ti_category u = ti_category v
        \<and> dbl_val (ti_multiplier v) \<le> dbl_val (ti_multiplier u)" if v: "v \<in> set tiers" for v
    proof -
      obtain u where u: "u \<in> set applied" "ti_category u = ti_category v"
          "dbl_val (ti_multiplier v) \<le> dbl_val (ti_multiplier u)"
        using b v by (auto simp: best_of_def)
      show ?thesis
      proof (cases "u = inc")
        case True
        then show ?thesis
          using u inc \<open>dless (ti_multiplier inc) (ti_multiplier t)\<close> by (auto simp: dless_val intro!: bexI [of _ t])
      next
        case False
        then show ?thesis using u by blast
      qed
    qed
    ultimately show ?thesis
      using b Some True by (auto simp: stack_step_def best_of_def)
  next
    case False
    then show ?thesis
      using b Some inc by (auto simp: stack_step_def best_of_def dless_val not_less)
  qed
qed

lemma best_of_fold:
  "best_of done (fst s) \<Longrightarrow> best_of (done @ tiers) (fst (fold stack_step tiers s))"
proof (induction tiers arbitrary: "done" s)
  case Nil
  then show ?case by simp
next
  case (Cons t tiers)
  show ?case
    using Cons.IH [OF best_of_step [OF Cons.prems]] by (cases s) simp
qed

lemma stack_best:
  assumes "stackTiers tiers cap = Inr st"
  shows "best_of tiers (sk_appliedTiers st)" "dbl_val (sk_effectiveMultiplier st)
    = min (dbl_val (raw_product (sk_appliedTiers st))) (dbl_val cap)"
proof -
  obtain applied suppressed where f: "fold stack_step tiers ([], []) = (applied, suppressed)"
    by fastforce
  have "best_of [] (fst ([], [] :: tier list))"
    by (simp add: best_of_def)
  from best_of_fold [OF this, of tiers] have "best_of tiers applied"
    by (simp add: f)
  then show "best_of tiers (sk_appliedTiers st)" "dbl_val (sk_effectiveMultiplier st)
      = min (dbl_val (raw_product (sk_appliedTiers st))) (dbl_val cap)"
    using assms by (auto simp: stackTiers_def f Let_def dmin_val)
qed

text \<open>The stack takes, of the tiers of a category, one with the highest multiplier: each active tier
  is represented by exactly one applied tier of its category, whose multiplier is at least its own.\<close>

theorem stack_takes_the_best:
  assumes "stackTiers tiers cap = Inr st" "t \<in> set tiers"
  shows "\<exists>u \<in> set tiers. filter (\<lambda>a. ti_category a = ti_category t) (sk_appliedTiers st) = [u]
    \<and> dbl_val (ti_multiplier t) \<le> dbl_val (ti_multiplier u)"
proof -
  have b: "best_of tiers (sk_appliedTiers st)"
    by (rule stack_best [OF assms(1)])
  then obtain u where u: "u \<in> set (sk_appliedTiers st)" "ti_category u = ti_category t"
      "dbl_val (ti_multiplier t) \<le> dbl_val (ti_multiplier u)"
    using assms(2) by (auto simp: best_of_def)
  have "filter (\<lambda>a. ti_category a = ti_category u) l = [u]" if "distinct (map ti_category l)" "u \<in> set l" for l
    using that by (induction l) (auto simp: filter_empty_conv intro: rev_image_eqI)
  then show ?thesis
    using b u by (auto simp: best_of_def intro!: bexI [of _ u])
qed

section \<open>The surge and its shares\<close>

lemma raw_product_bounds:
  assumes "\<And>t. t \<in> set ts \<Longrightarrow> 0 \<le> dbl_val (ti_multiplier t)"
  shows "0 \<le> dbl_val (raw_product ts)"
    "(\<And>t. t \<in> set ts \<Longrightarrow> dbl_val (ti_multiplier t) \<le> 1) \<Longrightarrow> dbl_val (raw_product ts) \<le> 1"
proof -
  have nn: "0 \<le> dbl_val (dmul a b)" if "0 \<le> dbl_val a" "0 \<le> dbl_val b" for a b
    using dmul_sgn [of a b] that by (auto simp: sgn_if split: if_splits)
  have "0 \<le> dbl_val a \<Longrightarrow> 0 \<le> dbl_val (foldl (\<lambda>acc t. dmul acc (ti_multiplier t)) a ts)" for a
    using assms by (induction ts arbitrary: a) (auto intro: nn)
  then show "0 \<le> dbl_val (raw_product ts)"
    by (simp add: raw_product_def)
  have "0 \<le> dbl_val a \<Longrightarrow> dbl_val a \<le> 1 \<Longrightarrow> dbl_val (foldl (\<lambda>acc t. dmul acc (ti_multiplier t)) a ts) \<le> 1"
    if "\<And>t. t \<in> set ts \<Longrightarrow> dbl_val (ti_multiplier t) \<le> 1" for a
    using assms that by (induction ts arbitrary: a) (auto intro: nn dmul_le_one)
  then show "(\<And>t. t \<in> set ts \<Longrightarrow> dbl_val (ti_multiplier t) \<le> 1) \<Longrightarrow> dbl_val (raw_product ts) \<le> 1"
    by (simp add: raw_product_def)
qed

lemma marginal_val: "0 \<le> dbl_val (marginal t)" "0 < dbl_val (marginal t) \<longleftrightarrow> 1 < dbl_val (ti_multiplier t)"
proof -
  have s: "sgn (dbl_val (dsub (ti_multiplier t) (num 1))) = sgn (dbl_val (ti_multiplier t) - 1)"
    by (simp add: dsub_sgn)
  show "0 \<le> dbl_val (marginal t)"
    by (simp add: marginal_def dmax_val)
  show "0 < dbl_val (marginal t) \<longleftrightarrow> 1 < dbl_val (ti_multiplier t)"
    using s by (auto simp: marginal_def dmax_val less_max_iff_disj sgn_if split: if_splits)
qed

lemma total_marginal_pos:
  assumes "t \<in> set ts" "1 < dbl_val (ti_multiplier t)"
  shows "0 < dbl_val (total_marginal ts)"
proof -
  have add: "0 \<le> dbl_val a \<Longrightarrow> 0 \<le> dbl_val b \<Longrightarrow> 0 \<le> dbl_val (dadd a b) \<and>
      (0 < dbl_val a \<or> 0 < dbl_val b \<longrightarrow> 0 < dbl_val (dadd a b))" for a b
    using dadd_sgn [of a b] by (auto simp: sgn_if split: if_splits)
  have keep: "0 < dbl_val a \<Longrightarrow> 0 < dbl_val (foldl (\<lambda>acc t. dadd acc (marginal t)) a ts)" for a ts
    by (induction ts arbitrary: a) (auto intro: add [THEN conjunct2, rule_format] marginal_val(1) less_imp_le)
  have "0 \<le> dbl_val a \<Longrightarrow> 0 < dbl_val (foldl (\<lambda>acc t. dadd acc (marginal t)) a ts)" for a
    using assms(1)
  proof (induction ts arbitrary: a)
    case Nil
    then show ?case by simp
  next
    case (Cons u ts)
    have nn: "0 \<le> dbl_val (dadd a (marginal u))"
      using add [OF Cons.prems(1) marginal_val(1) [of u]] by simp
    show ?case
    proof (cases "u = t")
      case True
      then have "0 < dbl_val (dadd a (marginal u))"
        using add [OF Cons.prems(1) marginal_val(1) [of u]] marginal_val(2) [of t] assms(2) by simp
      then show ?thesis
        using keep by simp
    next
      case False
      then show ?thesis
        using Cons.IH [OF nn] Cons.prems(2) by simp
    qed
  qed
  then show ?thesis
    by (simp add: total_marginal_def)
qed

lemma share_out_ids: "map fst (share_out d w al ts) = map ti_id ts"
  by (induction d w al ts rule: share_out.induct) (simp_all add: Let_def)

lemma share_out_sum: "ts \<noteq> [] \<Longrightarrow> sum_list (map snd (share_out d w al ts)) = d - al"
  by (induction d w al ts rule: share_out.induct) (simp_all add: Let_def)

lemma lookup_sum:
  assumes "distinct (map fst xs)"
  shows "sum_list (map (\<lambda>k. case map_of (rev xs) k of None \<Rightarrow> 0 | Some c \<Rightarrow> c) (map fst xs)) = sum_list (map snd xs)"
proof -
  have "map_of (rev xs) (fst x) = Some (snd x)" if "x \<in> set xs" for x
    using that assms by (intro map_of_is_SomeI) (simp_all add: rev_map [symmetric])
  then show ?thesis
    by (auto simp: comp_def intro!: arg_cong [of _ _ sum_list])
qed

text \<open>A stack whose multipliers are at most one leaves a price alone.\<close>

lemma no_surge:
  assumes "0 \<le> base" "base < 2 ^ 52" "dbl_val eff \<le> 1" "0 \<le> dbl_val eff"
  shows "Math_round (dmul (num base) eff) \<le> base"
proof -
  define b where "b = (of_int base :: real)"
  have b: "0 \<le> b" "b < 2 ^ 52" "dbl_val (num base) = b"
    using assms(1,2) num_val [of base] by (simp_all add: b_def)
  have p: "b * dbl_val eff \<le> b" "0 \<le> b * dbl_val eff"
    using mult_left_le [OF assms(3) b(1)] b(1) assms(4) by simp_all
  have "\<bar>dbl_val (dmul (num base) eff) - b * dbl_val eff\<bar> \<le> \<bar>b * dbl_val eff\<bar> / 2 ^ 53"
    using dmul_error [of "num base" eff] b(3) by simp
  moreover have "\<bar>b * dbl_val eff\<bar> / 2 ^ 53 < 1 / 2"
    using p b(2) by simp
  ultimately have "dbl_val (dmul (num base) eff) + 1 / 2 < b + 1"
    using p by linarith
  then show ?thesis
    unfolding Math_round_floor b_def by linarith
qed

lemma contributions_sum:
  assumes st: "stackTiers tiers cap = Inr st" and nn: "\<And>t. t \<in> set tiers \<Longrightarrow> 0 \<le> dbl_val (ti_multiplier t)"
    and base: "0 \<le> base" "base < 2 ^ 52" and ids: "distinct (map ti_id tiers)"
    and a: "applyStackToBase base st = (final, shares)"
  shows "sum_list (map (\<lambda>t. case shares (ti_id t) of None \<Rightarrow> 0 | Some c \<Rightarrow> c) (sk_appliedTiers st)) = final - base"
proof -
  let ?ts = "sk_appliedTiers st"
  define delta where "delta = final - base"
  define xs where "xs = (if delta \<le> 0 \<or> significand (total_marginal ?ts) = 0 then map (\<lambda>t. (ti_id t, 0)) ?ts
    else share_out delta (total_marginal ?ts) 0 ?ts)"
  have sh: "shares = map_of (rev xs)" and ge: "0 \<le> delta"
      and f: "final = max base (Math_round (dmul (num base) (sk_effectiveMultiplier st)))"
    using a by (auto simp: applyStackToBase_def Let_def xs_def delta_def max_def)
  have b: "best_of tiers ?ts"
    by (rule stack_best [OF st])
  have fst_xs: "map fst xs = map ti_id ?ts"
    by (simp add: xs_def share_out_ids comp_def)
  have "distinct (map ti_id ?ts)"
    using b ids inj_on_subset [of ti_id "set tiers" "set ?ts"] by (simp add: best_of_def distinct_map)
  then have "sum_list (map (\<lambda>k. case map_of (rev xs) k of None \<Rightarrow> 0 | Some c \<Rightarrow> c) (map ti_id ?ts)) = sum_list (map snd xs)"
    using lookup_sum [of xs] fst_xs by simp
  moreover have "sum_list (map snd xs) = delta"
  proof (cases "delta \<le> 0")
    case True
    then show ?thesis
      using ge by (simp add: xs_def comp_def)
  next
    case False
    then have up: "base < Math_round (dmul (num base) (sk_effectiveMultiplier st))"
      using f by (simp add: delta_def)
    have nn': "0 \<le> dbl_val (ti_multiplier t)" if "t \<in> set ?ts" for t
      using that nn b by (auto simp: best_of_def)
    have cap: "0 < dbl_val cap"
      using st by (auto simp: stackTiers_def dless_val)
    have "\<not> dbl_val (sk_effectiveMultiplier st) \<le> 1"
      using no_surge [OF base] up raw_product_bounds(1) [OF nn'] cap stack_best(2) [OF st] by fastforce
    then have "\<not> dbl_val (raw_product ?ts) \<le> 1"
      using stack_best(2) [OF st] by simp
    then obtain t where t: "t \<in> set ?ts" "1 < dbl_val (ti_multiplier t)"
      using raw_product_bounds(2) [OF nn'] by (meson not_le)
    then have "significand (total_marginal ?ts) \<noteq> 0" "?ts \<noteq> []"
      using total_marginal_pos [OF t] by (auto simp: significand_zero)
    then show ?thesis
      using False by (simp add: xs_def share_out_sum)
  qed
  ultimately show ?thesis
    unfolding sh delta_def by (simp add: comp_def)
qed

lemma nearest_nonneg: "0 \<le> p \<Longrightarrow> 0 < q \<Longrightarrow> 0 \<le> dbl_val (nearest p q)"
  using nearest_sgn [of q p] by (auto simp: sgn_if split: if_splits)

lemma positive_or_one_nonneg: "0 \<le> dbl_val (positive_or_one v)"
  by (simp add: positive_or_one_def dless_val)

lemma curve_nonneg: "0 \<le> dbl_val (resolveCurveMultiplier data mode dow hour)"
  by (cases "(data, mode, dow, hour)" rule: resolveCurveMultiplier.cases) (simp_all add: positive_or_one_nonneg)

lemma stack_input_nonneg:
  assumes "0 < tr_multiplier t" "curve = curve_multiplier clock tenantId time scope db"
  shows "0 \<le> dbl_val (ti_multiplier (stack_input curve t))"
  using assms by (auto simp: stack_input_def curve_multiplier_def nearest_nonneg curve_nonneg
      split: option.splits prod.splits if_splits)

lemma active_tiers_rows: "t \<in> set (active_tiers tenantId yardId db) \<Longrightarrow> t \<in> set (pricingTiers db)"
  by (simp add: active_tiers_def)

lemma stack_input_id [simp]: "ti_id (stack_input curve t) = tr_id t"
  by (simp add: stack_input_def)

lemma resolved_stack:
  assumes "resolveStack clock tenantId yardId time base db = Inr r"
  obtains scope curve st final shares where "scope = active_tiers tenantId yardId db"
    "curve = curve_multiplier clock tenantId time scope db"
    "stackTiers (map (stack_input curve) scope) (capMultiplier db tenantId) = Inr st"
    "applyStackToBase base st = (final, shares)" "rst_finalCents r = final"
    "map ts_contributionCents (rst_tiers r)
      = map (\<lambda>t. case shares (ti_id t) of None \<Rightarrow> 0 | Some c \<Rightarrow> c) (sk_appliedTiers st)"
proof -
  let ?scope = "active_tiers tenantId yardId db"
  let ?curve = "curve_multiplier clock tenantId time ?scope db"
  obtain st where st: "stackTiers (map (stack_input ?curve) ?scope) (capMultiplier db tenantId) = Inr st"
    using assms by (auto simp: resolveStack_def Let_def)
  obtain final shares where a: "applyStackToBase base st = (final, shares)"
    by fastforce
  have "rst_finalCents r = final" "map ts_contributionCents (rst_tiers r)
      = map (\<lambda>t. case shares (ti_id t) of None \<Rightarrow> 0 | Some c \<Rightarrow> c) (sk_appliedTiers st)"
    using assms by (auto simp: resolveStack_def Let_def st a attempt_def comp_def)
  then show thesis
    using that [OF refl refl st a] by simp
qed

lemma active_nonneg:
  assumes "\<forall>t \<in> set (pricingTiers db). 0 < tr_multiplier t" "scope = active_tiers tenantId yardId db"
    "curve = curve_multiplier clock tenantId time scope db" "t \<in> set (map (stack_input curve) scope)"
  shows "0 \<le> dbl_val (ti_multiplier t)"
proof -
  obtain row where row: "row \<in> set scope" "t = stack_input curve row"
    using assms(4) by auto
  then have "0 < tr_multiplier row"
    using assms(1,2) active_tiers_rows by blast
  then show ?thesis
    using row(2) stack_input_nonneg [OF _ assms(3)] by blast
qed

text \<open>C31: The surge of a price is spread over the applied tiers to the cent: what the tiers are said to
  contribute adds up to the difference between the final price and the price before.\<close>

theorem surge_shared_to_the_cent:
  assumes r: "resolveStack clock tenantId yardId time base db = Inr r"
    and ids: "distinct (map tr_id (pricingTiers db))"
    and pos: "\<forall>t \<in> set (pricingTiers db). 0 < tr_multiplier t"
    and base: "0 \<le> base" "base < 2 ^ 52"
  shows "sum_list (map ts_contributionCents (rst_tiers r)) = rst_finalCents r - base"
proof -
  obtain scope curve st final shares where scope: "scope = active_tiers tenantId yardId db"
      and curve: "curve = curve_multiplier clock tenantId time scope db"
      and st: "stackTiers (map (stack_input curve) scope) (capMultiplier db tenantId) = Inr st"
      and a: "applyStackToBase base st = (final, shares)" and f: "rst_finalCents r = final"
      and c: "map ts_contributionCents (rst_tiers r)
        = map (\<lambda>t. case shares (ti_id t) of None \<Rightarrow> 0 | Some c \<Rightarrow> c) (sk_appliedTiers st)"
    using r by (rule resolved_stack)
  have "distinct (map tr_id scope)"
    using ids by (simp add: scope active_tiers_def select_where_def distinct_map_filter)
  then have d: "distinct (map ti_id (map (stack_input curve) scope))"
    by (simp add: comp_def)
  from contributions_sum [OF st active_nonneg [OF pos scope curve] base d a] show ?thesis
    using c f by simp
qed

text \<open>C32: The surge stays within the tenant's cap: a price never falls below the price before, and exceeds
  the cap's multiple of it by at most the rounding of one cent.\<close>

theorem surge_within_cap:
  assumes r: "resolveStack clock tenantId yardId time base db = Inr r"
    and pos: "\<forall>t \<in> set (pricingTiers db). 0 < tr_multiplier t"
    and base: "0 \<le> base" "base < 2 ^ 52" "of_int base * dbl_val (capMultiplier db tenantId) \<le> 2 ^ 43"
  shows "base \<le> rst_finalCents r \<and>
    of_int (rst_finalCents r) \<le> max (of_int base) (of_int base * dbl_val (capMultiplier db tenantId)) + 0.501"
proof -
  define cap where "cap = dbl_val (capMultiplier db tenantId)"
  obtain scope curve st final shares where scope: "scope = active_tiers tenantId yardId db"
      and curve: "curve = curve_multiplier clock tenantId time scope db"
      and st: "stackTiers (map (stack_input curve) scope) (capMultiplier db tenantId) = Inr st"
      and a: "applyStackToBase base st = (final, shares)" and rf: "rst_finalCents r = final"
    using r by (rule resolved_stack)
  have f: "rst_finalCents r = max base (Math_round (dmul (num base) (sk_effectiveMultiplier st)))"
    using a rf by (auto simp: applyStackToBase_def Let_def max_def)
  define e where "e = dbl_val (sk_effectiveMultiplier st)"
  define b where "b = (of_int base :: real)"
  have nn: "0 \<le> dbl_val (ti_multiplier t)" if "t \<in> set (sk_appliedTiers st)" for t
    using that stack_best(1) [OF st] active_nonneg [OF pos scope curve] by (auto simp only: best_of_def)
  have cap0: "0 < cap"
    using st by (auto simp: stackTiers_def dless_val cap_def)
  have e: "0 \<le> e" "e \<le> cap"
    using raw_product_bounds(1) [OF nn] stack_best(2) [OF st] cap0 by (simp_all add: e_def cap_def)
  have b: "0 \<le> b" "dbl_val (num base) = b" "b * cap \<le> 2 ^ 43"
    using base num_val [of base] by (simp_all add: b_def cap_def)
  have be: "0 \<le> b * e" "b * e \<le> b * cap"
    using b(1) e by (simp_all add: mult_left_mono)
  define x where "x = dbl_val (dmul (num base) (sk_effectiveMultiplier st))"
  have "\<bar>x - b * e\<bar> \<le> \<bar>b * e\<bar> / 2 ^ 53"
    using dmul_error [of "num base" "sk_effectiveMultiplier st"] b(2) by (simp add: x_def e_def)
  moreover have "\<bar>b * e\<bar> / 2 ^ 53 \<le> 0.001"
    using be b(3) by simp
  ultimately have "x \<le> b * cap + 0.001"
    using be by linarith
  moreover have "of_int (Math_round (dmul (num base) (sk_effectiveMultiplier st))) \<le> x + 1 / 2"
    unfolding Math_round_floor x_def by linarith
  ultimately have "of_int (rst_finalCents r) \<le> max b (b * cap) + 0.501"
    unfolding f by (auto simp: max_def b_def)
  then show ?thesis
    using f by (simp add: b_def cap_def)
qed

section \<open>Quotes\<close>

text \<open>The lines of a quote add up to its total, which is never below the subtotal.\<close>

theorem quote_adds_up:
  assumes "quote haversine clock now input db = Inr q"
  shows "sum_list (map ql_amountCents (rq_lineItems q)) = rq_totalCents q \<and> rq_subtotalCents q \<le> rq_totalCents q"
  using assms by (auto simp: quote_def Let_def plain_line_def split: prod.splits if_splits)

text \<open>Whatever is missing - account, sheet, class, distance - a quote is produced.\<close>

lemma quote_never_throws:
  assumes "dless (num 0) (capMultiplier db (qi_tenantId input))"
  shows "\<exists>q. quote haversine clock now input db = Inr q"
  using assms by (simp add: quote_def resolveStack_def stackTiers_def Let_def ensure_def attempt_def split: prod.split)

text \<open>The engine passes no yard, so a tier scoped to yards never prices a call.\<close>

lemma scoped_tier_never_quoted:
  "t \<in> set (active_tiers tenantId None db) \<Longrightarrow> tr_scopeYardIds t = None \<or> tr_scopeYardIds t = Some []"
  by (auto simp: active_tiers_def in_scope_def split: option.splits list.splits)

text \<open>A window for Friday nights, 22:00 to 06:00, covers the hours after midnight of the night before.\<close>

lemma overnight_window_wrong_night:
  assumes w: "sw_daysOfWeek w = [5]" "sw_crossesMidnight w" "sw_startHHmm w = ''22:00''" "sw_endHHmm w = ''06:00''"
  shows "windowMatches w t \<longleftrightarrow> getUTCDay (t div day_ms) = 5 \<and> (1320 \<le> minute_of_day t \<or> minute_of_day t < 360)"
proof -
  have "parseHHmm ''22:00'' = 1320" "parseHHmm ''06:00'' = 360"
    by (simp_all add: parseHHmm_def read_digits_def digit_val_def)
  then show ?thesis
    using w by (simp add: windowMatches_def Let_def)
qed

section \<open>Holidays\<close>

lemma days_in_month_range: "1 \<le> m \<Longrightarrow> m \<le> 12 \<Longrightarrow> 28 \<le> days_in_month y m \<and> days_in_month y m \<le> 31"
  using twelve_months [of m] by (cases "leap y") (auto simp: days_in_month_def month_start_def Let_def)

lemma day_of_civil_add: "day_of_civil y m d = day_of_civil y m 1 + (d - 1)"
  by (simp add: day_of_civil_def)

lemma utc_day_month: "1 \<le> m \<Longrightarrow> m \<le> 12 \<Longrightarrow> utc_day y m d = day_of_civil y m d"
  using day_of_civil_add [of y m d] by (simp add: utc_day_def div_pos_pos_trivial mod_pos_pos_trivial)

text \<open>The first of the next month follows the last of this one.\<close>

lemma utc_day_next_month:
  assumes "1 \<le> m" "m \<le> 12"
  shows "utc_day y (m + 1) d = day_of_civil y m (days_in_month y m + d)"
proof (cases "m = 12")
  case True
  have "days_before_year (y + 1) = days_before_year y + month_start (leap y) 13"
    by (simp add: year_length month_start_def Let_def)
  then show ?thesis
    using True by (simp add: utc_day_def day_of_civil_def days_in_month_def month_start_def Let_def)
next
  case False
  then show ?thesis
    using assms utc_day_month [of "m + 1" y d] by (simp add: day_of_civil_def days_in_month_def)
qed

lemma civil_past_month:
  assumes m: "1 \<le> m" "m \<le> 12" and d: "days_in_month y m < d" "d \<le> 35"
  shows "fst (snd (civil_of_day (day_of_civil y m d))) \<noteq> m"
proof -
  let ?d = "d - days_in_month y m"
  have d': "1 \<le> ?d" "?d \<le> 28"
    using d days_in_month_range [OF m, of y] by simp_all
  have eq: "day_of_civil y m d = utc_day y (m + 1) ?d"
    using utc_day_next_month [OF m, of y ?d] by simp
  show ?thesis
  proof (cases "m = 12")
    case True
    have "valid_civil (y + 1) 1 ?d"
      using d' days_in_month_range [of 1 "y + 1"] by (simp add: valid_civil_def)
    moreover have "day_of_civil y m d = day_of_civil (y + 1) 1 ?d"
      using True eq by (simp add: utc_day_def day_of_civil_def)
    ultimately show ?thesis
      using True civil_of_day_of_civil [of "y + 1" 1 ?d] by simp
  next
    case False
    have "valid_civil y (m + 1) ?d"
      using m False d' days_in_month_range [of "m + 1" y] by (simp add: valid_civil_def)
    then show ?thesis
      using m False eq utc_day_month [of "m + 1" y ?d] civil_of_day_of_civil [of y "m + 1" ?d] by simp
  qed
qed

lemma weekday_offset: "0 \<le> w \<Longrightarrow> w \<le> 6 \<Longrightarrow> (a + (w - a mod 7) mod 7) mod 7 = (w :: int)"
  by (simp add: mod_simps)

lemma weekday_back: "0 \<le> w \<Longrightarrow> w \<le> 6 \<Longrightarrow> (a - (a - w) mod 7) mod 7 = (w :: int)"
  by (simp add: mod_simps)

lemma same_weekday_same_week:
  assumes "(a + j) mod 7 = (a + k) mod (7 :: int)" "j div 7 = k div 7"
  shows "j = k"
proof -
  have "7 dvd j - k"
    using assms(1) by (simp add: mod_eq_dvd_iff)
  then show ?thesis
    using assms(2) by presburger
qed

text \<open>A holiday given as the n-th weekday of a month is found exactly when the month has such a day: the
  result is the day of the month with that weekday that has n - 1 weeks before it in the month.\<close>

theorem nth_weekday_found:
  assumes m: "1 \<le> m" "m \<le> 12" and w: "0 \<le> w" "w \<le> 6" and n: "1 \<le> n" "n \<le> 5"
  shows "resolveHolidayDate On_nth_weekday (Month_weekday m w n) y = Some d \<longleftrightarrow>
    (\<exists>k. valid_civil y m k \<and> d = day_of_civil y m k \<and> getUTCDay d = w \<and> (k - 1) div 7 = n - 1)"
proof -
  define F where "F = day_of_civil y m 1"
  define off where "off = (w - getUTCDay F) mod 7"
  define k where "k = 1 + off + (n - 1) * 7"
  have off: "0 \<le> off" "off < 7"
    by (simp_all add: off_def)
  have k: "1 \<le> k" "k \<le> 35" "(k - 1) div 7 = n - 1"
    using off n by (simp_all add: k_def)
  have day: "day_of_civil y m j = F + (j - 1)" for j
    by (simp add: F_def day_of_civil_add [of y m j])
  have wk: "getUTCDay (F + (k - 1)) = w"
  proof -
    have "(F + (k - 1) + 4) mod 7 = (F + 4 + off + (n - 1) * 7) mod 7"
      by (simp add: k_def algebra_simps)
    also have "\<dots> = (F + 4 + off) mod 7"
      by (rule mod_mult_self1)
    also have "\<dots> = w"
      using weekday_offset [OF w, of "F + 4"] by (simp add: off_def getUTCDay_def)
    finally show ?thesis by (simp add: getUTCDay_def)
  qed
  have uniq: "j = k" if "getUTCDay (F + (j - 1)) = w" "(j - 1) div 7 = n - 1" for j
  proof -
    have "(F + 4 + (j - 1)) mod 7 = (F + 4 + (k - 1)) mod 7" "(j - 1) div 7 = (k - 1) div 7"
      using that wk k(3) by (simp_all add: getUTCDay_def algebra_simps)
    from same_weekday_same_week [OF this] show ?thesis by simp
  qed
  have k_alt: "off + n * 7 - 6 = k"
    by (simp add: k_def)
  have r: "resolveHolidayDate On_nth_weekday (Month_weekday m w n) y
      = (if fst (snd (civil_of_day (day_of_civil y m k))) \<noteq> m then None else Some (day_of_civil y m k))"
    using n m by (simp add: Let_def utc_day_month F_def [symmetric] off_def [symmetric] k_alt
        split: prod.split)
  have only: "(\<exists>j. valid_civil y m j \<and> d = day_of_civil y m j \<and> getUTCDay d = w \<and> (j - 1) div 7 = n - 1)
      \<longleftrightarrow> valid_civil y m k \<and> d = day_of_civil y m k" (is "?L \<longleftrightarrow> ?R")
  proof
    assume ?L
    then obtain j where j: "valid_civil y m j" "d = day_of_civil y m j" "getUTCDay d = w" "(j - 1) div 7 = n - 1"
      by blast
    have "j = k"
      using uniq [OF _ j(4)] j(2,3) day by simp
    then show ?R
      using j by simp
  next
    assume ?R
    then show ?L
      using wk k(3) day by auto
  qed
  show ?thesis
  proof (cases "k \<le> days_in_month y m")
    case True
    then have "valid_civil y m k"
      using m k(1) by (simp add: valid_civil_def)
    then show ?thesis
      unfolding only r using civil_of_day_of_civil [of y m k] by auto
  next
    case False
    then have "fst (snd (civil_of_day (day_of_civil y m k))) \<noteq> m" "\<not> valid_civil y m k"
      using civil_past_month [OF m _ k(2), of y] by (simp_all add: valid_civil_def)
    then show ?thesis
      unfolding only r by simp
  qed
qed

lemma last_weekday_found:
  assumes m: "1 \<le> m" "m \<le> 12" and w: "0 \<le> w" "w \<le> 6"
  shows "\<exists>k. resolveHolidayDate On_nth_weekday (Month_weekday m w (-1)) y = Some (day_of_civil y m k) \<and>
    valid_civil y m k \<and> getUTCDay (day_of_civil y m k) = w \<and> days_in_month y m < k + 7"
proof -
  define L where "L = day_of_civil y m (days_in_month y m)"
  define off where "off = (getUTCDay L - w) mod 7"
  define k where "k = days_in_month y m - off"
  have off: "0 \<le> off" "off < 7"
    by (simp_all add: off_def)
  have dim: "28 \<le> days_in_month y m"
    using days_in_month_range [OF m] by simp
  have last: "utc_day y (m + 1) 1 - 1 = L"
    using utc_day_next_month [OF m, of y 1] day_of_civil_add [of y m "days_in_month y m + 1"]
      day_of_civil_add [of y m "days_in_month y m"] by (simp add: L_def)
  have "civil_of_day L = (y, m, days_in_month y m)"
    unfolding L_def using m dim by (intro civil_of_day_of_civil) (simp add: valid_civil_def)
  then have "resolveHolidayDate On_nth_weekday (Month_weekday m w (-1)) y = Some (day_of_civil y m k)"
    using m by (simp add: Let_def last off_def [symmetric] k_def [symmetric] utc_day_month)
  moreover have "valid_civil y m k" "days_in_month y m < k + 7"
    using m dim off by (simp_all add: valid_civil_def k_def)
  moreover have "day_of_civil y m k = L - off"
    using day_of_civil_add [of y m k] day_of_civil_add [of y m "days_in_month y m"] by (simp add: L_def k_def)
  then have "getUTCDay (day_of_civil y m k) = w"
  proof -
    have "off = (L + 4 - w) mod 7"
      by (simp add: off_def getUTCDay_def mod_simps)
    then have "(L - off + 4) mod 7 = w"
      using weekday_back [OF w, of "L + 4"] by (simp add: algebra_simps)
    then show ?thesis
      using \<open>day_of_civil y m k = L - off\<close> by (simp add: getUTCDay_def)
  qed
  ultimately show ?thesis by blast
qed

text \<open>The date of a default holiday.\<close>

definition default_holiday :: "string \<Rightarrow> int \<Rightarrow> int option" where
  "default_holiday name y = Option.bind (map_of DEFAULT_US_HOLIDAYS name)
     (\<lambda>(occurrence, spec, multiplier). resolveHolidayDate occurrence spec y)"

text \<open>The default for the day after Thanksgiving is the fourth Friday of November.  In a year whose
  November starts on a Friday that is six days before Thanksgiving.\<close>

theorem friday_before_thanksgiving:
  assumes "getUTCDay (day_of_civil y 11 1) = 5"
  shows "\<exists>d. default_holiday ''Thanksgiving'' y = Some d \<and> default_holiday ''Day After Thanksgiving'' y = Some (d - 6)"
proof -
  let ?d = "day_of_civil y 11 28"
  have at: "?d = day_of_civil y 11 1 + 27" "day_of_civil y 11 22 = day_of_civil y 11 1 + 21"
    by (simp_all add: day_of_civil_def)
  have wd: "getUTCDay ?d = 4" "getUTCDay (day_of_civil y 11 22) = 5"
    using assms unfolding at getUTCDay_def by presburger+
  have valid: "valid_civil y 11 28" "valid_civil y 11 22"
    using days_in_month_range [of 11 y] by (simp_all add: valid_civil_def)
  have "resolveHolidayDate On_nth_weekday (Month_weekday 11 4 4) y = Some ?d"
    using nth_weekday_found [of 11 4 4 y ?d] wd valid by auto
  moreover have "resolveHolidayDate On_nth_weekday (Month_weekday 11 5 4) y = Some (?d - 6)"
    using nth_weekday_found [of 11 5 4 y "day_of_civil y 11 22"] wd valid at by auto
  ultimately show ?thesis
    by (simp add: default_holiday_def DEFAULT_US_HOLIDAYS_def)
qed

section \<open>Two tiers at work\<close>

definition demo_tier :: "uuid \<Rightarrow> pricing_category \<Rightarrow> int \<Rightarrow> tier_row" where
  "demo_tier i c m = \<lparr>tr_id = i, tr_tenantId = 7, tr_name = ''storm'', tr_category = c, tr_multiplier = m,
     tr_scopeYardIds = None, tr_isActive = True, tr_deletedAt = None\<rparr>"

definition demo_pricing :: pricing_db where
  "demo_pricing = \<lparr>pricingTiers = [demo_tier 1 Weather 1500, demo_tier 2 On_calendar 1200, demo_tier 3 Weather 1300],
     pricingCurves = [], capMultiplier = (\<lambda>_. num 3), timezone = (\<lambda>_. ''America/New_York'')\<rparr>"

lemma resolveStack_total:
  assumes "dless (num 0) (capMultiplier db tenantId)"
  shows "\<exists>r. resolveStack clock tenantId yardId time base db = Inr r"
  using assms by (simp add: resolveStack_def stackTiers_def Let_def ensure_def attempt_def split: prod.split)

lemma demo_cap: "dbl_val (capMultiplier demo_pricing 7) = 3" "dless (num 0) (capMultiplier demo_pricing 7)"
  using num_val [of 3] by (simp_all add: demo_pricing_def dless_val)

lemma demo_rows: "distinct (map tr_id (pricingTiers demo_pricing))" "\<forall>t \<in> set (pricingTiers demo_pricing). 0 < tr_multiplier t"
  by (simp_all add: demo_pricing_def demo_tier_def)

theorem surge_shared_to_the_cent_witness:
  "\<exists>r. resolveStack (\<lambda>_ _. (0, 0)) 7 None 0 10000 demo_pricing = Inr r
    \<and> sum_list (map ts_contributionCents (rst_tiers r)) = rst_finalCents r - 10000"
proof -
  obtain r where r: "resolveStack (\<lambda>_ _. (0, 0)) 7 None 0 10000 demo_pricing = Inr r"
    using resolveStack_total [OF demo_cap(2)] by blast
  show ?thesis
    using r surge_shared_to_the_cent [OF r demo_rows] by simp
qed

theorem surge_within_cap_witness:
  "\<exists>r. resolveStack (\<lambda>_ _. (0, 0)) 7 None 0 10000 demo_pricing = Inr r \<and> 10000 \<le> rst_finalCents r
    \<and> of_int (rst_finalCents r) \<le> (30000.501 :: real)"
proof -
  obtain r where r: "resolveStack (\<lambda>_ _. (0, 0)) 7 None 0 10000 demo_pricing = Inr r"
    using resolveStack_total [OF demo_cap(2)] by blast
  show ?thesis
    using r surge_within_cap [OF r demo_rows(2)] by (simp add: demo_cap)
qed

text \<open>Thanksgiving 2026 is the 26th of November.\<close>

theorem nth_weekday_found_witness:
  "resolveHolidayDate On_nth_weekday (Month_weekday 11 4 4) 2026 = Some (day_of_civil 2026 11 26)"
proof -
  have "valid_civil 2026 11 26" "getUTCDay (day_of_civil 2026 11 26) = 4"
    by (simp_all add: valid_civil_def days_in_month_def month_start_def leap_def Let_def getUTCDay_def
        day_of_civil_def days_before_year_def epoch_day_def)
  then show ?thesis
    using nth_weekday_found [of 11 4 4 2026 "day_of_civil 2026 11 26"] by auto
qed

end
