(* ===== verification/Hos.thy ===== *)
theory Hos
  imports DoubleOrder JsText
begin

text \<open>
  modules/dot/hos-rules.logic.ts: the hours-of-service rules of 49 CFR 395.3 over a driver's
  duty-status segments.  Durations are the doubles JavaScript computes, minutes as
  milliseconds divided by 60000.  Dates are those of four-digit years, so no sum leaves the range of
  \<open>Date\<close>.
\<close>

datatype hos_status = Off_duty | Sleeper | Driving | On_duty_not_driving

datatype hos_rule = Driving_limit_11h | Duty_window_14h | Break_30min | Cycle_60h_7d | Cycle_70h_8d

datatype hos_severity = Hos_warning | Hos_violation

record hos_cycle =
  cy_rule :: hos_rule
  cy_limitMin :: int
  cy_days :: int

definition drivingLimitMin :: int where "drivingLimitMin = 11 * 60"
definition dutyWindowMin :: int where "dutyWindowMin = 14 * 60"
definition breakAfterDrivingMin :: int where "breakAfterDrivingMin = 8 * 60"
definition breakMinDurationMin :: int where "breakMinDurationMin = 30"
definition offDutyResetMin :: int where "offDutyResetMin = 10 * 60"

definition hos_cycles :: "hos_cycle list" where
  "hos_cycles = [\<lparr>cy_rule = Cycle_60h_7d, cy_limitMin = 60 * 60, cy_days = 7\<rparr>,
     \<lparr>cy_rule = Cycle_70h_8d, cy_limitMin = 70 * 60, cy_days = 8\<rparr>]"

definition warnRatio :: dbl where "warnRatio = nearest 9 10"

record hos_segment =
  hs_status :: hos_status
  hs_startAt :: instant
  hs_endAt :: "instant option"

record hos_alert =
  hv_rule :: hos_rule
  hv_at :: instant
  hv_severity :: hos_severity
  hv_detail :: string

record hos_week =
  hw_totalDrivingMinutes :: dbl
  hw_totalOnDutyMinutes :: dbl
  hw_violations :: "hos_alert list"

text \<open>A segment that has ended.\<close>

record seg =
  sg_status :: hos_status
  sg_startAt :: instant
  sg_endAt :: instant
  sg_durationMin :: dbl

definition minutesBetween :: "instant \<Rightarrow> instant \<Rightarrow> dbl" where
  "minutesBetween a b = ddiv (dsub (num b) (num a)) (num 60000)"

definition addMinutes :: "instant \<Rightarrow> dbl \<Rightarrow> instant" where
  "addMinutes d m = time_clip (dadd (num d) (dmul m (num 60000)))"

definition isOffDuty :: "hos_status \<Rightarrow> bool" where
  "isOffDuty s \<longleftrightarrow> s = Off_duty \<or> s = Sleeper"

definition isOnDuty :: "hos_status \<Rightarrow> bool" where
  "isOnDuty s \<longleftrightarrow> s = Driving \<or> s = On_duty_not_driving"

section \<open>Duty periods\<close>

text \<open>The period of each segment, \<open>-1\<close> before the first on-duty one.\<close>

fun assign_from :: "int \<Rightarrow> dbl \<Rightarrow> bool \<Rightarrow> seg list \<Rightarrow> int list" where
  "assign_from period offRun started [] = []"
| "assign_from period offRun started (s # segs) =
    (if isOffDuty (sg_status s)
     then (if started then period else -1) # assign_from period (dadd offRun (sg_durationMin s)) started segs
     else let period' = (if \<not> started \<or> \<not> dless offRun (num offDutyResetMin) then period + 1 else period)
          in period' # assign_from period' (num 0) True segs)"

definition assignPeriods :: "seg list \<Rightarrow> int list" where
  "assignPeriods segs = assign_from (-1) (num 0) False segs"

definition driving_alert :: "seg \<Rightarrow> dbl \<Rightarrow> hos_alert" where
  "driving_alert s cumulativeDriving = \<lparr>hv_rule = Driving_limit_11h,
     hv_at = addMinutes (sg_startAt s) (dsub (num drivingLimitMin) cumulativeDriving),
     hv_severity = Hos_violation,
     hv_detail = ''Driving beyond 11 hours in the duty period (395.3(a)(3)(i)).''\<rparr>"

definition window_alert :: "instant \<Rightarrow> hos_alert" where
  "window_alert windowEnds = \<lparr>hv_rule = Duty_window_14h, hv_at = windowEnds, hv_severity = Hos_violation,
     hv_detail = ''Driving past the 14-hour on-duty window (395.3(a)(2)).''\<rparr>"

definition break_alert :: "seg \<Rightarrow> dbl \<Rightarrow> hos_alert" where
  "break_alert s drivingSinceBreak = \<lparr>hv_rule = Break_30min,
     hv_at = addMinutes (sg_startAt s) (dsub (num breakAfterDrivingMin) drivingSinceBreak),
     hv_severity = Hos_violation,
     hv_detail = ''Drove past 8 cumulative hours without a 30-minute break (395.3(a)(3)(ii)).''\<rparr>"

record period_scan =
  cumulativeDriving :: dbl
  drivingSinceBreak :: dbl
  firedDriving :: bool
  firedWindow :: bool
  firedBreak :: bool

text \<open>One turn of the loop over a period's segments: the alerts it pushes and the state it leaves.\<close>

definition scan_segment :: "instant \<Rightarrow> period_scan \<Rightarrow> seg \<Rightarrow> hos_alert list \<times> period_scan" where
  "scan_segment windowEnds st s =
    (let dur = sg_durationMin s;
         since = (if sg_status s \<noteq> Driving \<and> \<not> dless dur (num breakMinDurationMin) then num 0
           else drivingSinceBreak st);
         cum = cumulativeDriving st
     in if sg_status s \<noteq> Driving then ([], st\<lparr>drivingSinceBreak := since\<rparr>)
        else let w = (\<not> firedWindow st \<and> windowEnds < sg_endAt s);
                 d = (\<not> firedDriving st \<and> dless (num drivingLimitMin) (dadd cum dur));
                 b = (\<not> firedBreak st \<and> dless (num breakAfterDrivingMin) (dadd since dur))
             in ((if w then [window_alert windowEnds] else []) @ (if d then [driving_alert s cum] else [])
                   @ (if b then [break_alert s since] else []),
                 \<lparr>cumulativeDriving = dadd cum dur, drivingSinceBreak = dadd since dur,
                  firedDriving = firedDriving st \<or> d, firedWindow = firedWindow st \<or> w,
                  firedBreak = firedBreak st \<or> b\<rparr>))"

fun scan_period :: "instant \<Rightarrow> period_scan \<Rightarrow> seg list \<Rightarrow> hos_alert list" where
  "scan_period windowEnds st [] = []"
| "scan_period windowEnds st (s # segs) =
    (case scan_segment windowEnds st s of (out, st') \<Rightarrow> out @ scan_period windowEnds st' segs)"

definition period_start :: period_scan where
  "period_start = \<lparr>cumulativeDriving = num 0, drivingSinceBreak = num 0, firedDriving = False,
     firedWindow = False, firedBreak = False\<rparr>"

definition period_alerts :: "seg list \<Rightarrow> hos_alert list" where
  "period_alerts members = (case members of [] \<Rightarrow> []
     | m # _ \<Rightarrow> scan_period (addMinutes (sg_startAt m) (num dutyWindowMin)) period_start members)"

definition period_members :: "seg list \<Rightarrow> int list \<Rightarrow> int \<Rightarrow> seg list" where
  "period_members segs periodOf p = map fst (filter (\<lambda>(s, q). q = p) (zip segs periodOf))"

text \<open>A JavaScript \<open>Set\<close> keeps its values in the order they first came.\<close>

definition set_of_values :: "'a list \<Rightarrow> 'a list" where
  "set_of_values xs = rev (remdups (rev xs))"

definition evaluateDutyPeriods :: "seg list \<Rightarrow> hos_alert list" where
  "evaluateDutyPeriods segs =
    (let periodOf = assignPeriods segs; periods = set_of_values (filter (\<lambda>p. 0 \<le> p) periodOf)
     in concat (map (\<lambda>p. period_alerts (period_members segs periodOf p)) periods))"

section \<open>Rolling cycles\<close>

definition on_duty_minutes :: "seg list \<Rightarrow> instant \<Rightarrow> instant \<Rightarrow> dbl" where
  "on_duty_minutes segs after until = foldl (\<lambda>acc s. dadd acc (sg_durationMin s)) (num 0)
     (filter (\<lambda>s. isOnDuty (sg_status s) \<and> after < sg_endAt s \<and> sg_endAt s \<le> until) segs)"

definition cycle_alert :: "hos_cycle \<Rightarrow> hos_severity \<Rightarrow> instant \<Rightarrow> hos_alert" where
  "cycle_alert c sev t = \<lparr>hv_rule = cy_rule c, hv_at = t, hv_severity = sev, hv_detail =
     (let h = show_int (cy_limitMin c div 60); d = show_int (cy_days c) in case sev of
        Hos_violation \<Rightarrow> ''On-duty time exceeded '' @ h @ ''h in '' @ d @ '' days (395.3(b)).''
      | Hos_warning \<Rightarrow> ''Approaching the '' @ h @ ''h/'' @ d @ ''-day on-duty limit (395.3(b)).'')\<rparr>"

fun scan_cycle :: "hos_cycle \<Rightarrow> seg list \<Rightarrow> bool \<Rightarrow> seg list \<Rightarrow> hos_alert list" where
  "scan_cycle c segs firedWarn [] = []"
| "scan_cycle c segs firedWarn (d # ds) =
    (let onDuty = on_duty_minutes segs (sg_endAt d - cy_days c * 24 * 60 * 60000) (sg_endAt d)
     in if dless (num (cy_limitMin c)) onDuty then [cycle_alert c Hos_violation (sg_endAt d)]
        else if \<not> firedWarn \<and> \<not> dless onDuty (dmul (num (cy_limitMin c)) warnRatio)
        then cycle_alert c Hos_warning (sg_endAt d) # scan_cycle c segs True ds
        else scan_cycle c segs firedWarn ds)"

definition evaluateCycles :: "seg list \<Rightarrow> hos_alert list" where
  "evaluateCycles segs =
    concat (map (\<lambda>c. scan_cycle c segs False (filter (\<lambda>s. sg_status s = Driving) segs)) hos_cycles)"

section \<open>The evaluation of a log\<close>

definition closed_seg :: "hos_segment \<Rightarrow> seg option" where
  "closed_seg s = map_option (\<lambda>e. \<lparr>sg_status = hs_status s, sg_startAt = hs_startAt s, sg_endAt = e,
     sg_durationMin = minutesBetween (hs_startAt s) e\<rparr>) (hs_endAt s)"

definition duty_log :: "hos_segment list \<Rightarrow> seg list" where
  "duty_log input = sort_key sg_startAt
     (filter (\<lambda>s. dless (num 0) (sg_durationMin s)) (List.map_filter closed_seg input))"

definition total_minutes :: "(hos_status \<Rightarrow> bool) \<Rightarrow> seg list \<Rightarrow> dbl" where
  "total_minutes P segs = foldl (\<lambda>acc s. if P (sg_status s) then dadd acc (sg_durationMin s) else acc) (num 0) segs"

definition validateHosWeek :: "hos_segment list \<Rightarrow> hos_week" where
  "validateHosWeek input = (let segs = duty_log input in
     \<lparr>hw_totalDrivingMinutes = total_minutes (\<lambda>st. st = Driving) segs,
      hw_totalOnDutyMinutes = total_minutes isOnDuty segs,
      hw_violations = sort_key hv_at (evaluateDutyPeriods segs @ evaluateCycles segs)\<rparr>)"

end
