(* ===== verification/Dot.thy ===== *)
theory Dot
  imports Hos Json
begin

text \<open>
  modules/dot: the completeness of a driver-qualification file (dq-file.logic.ts), the handlers of
  DotService over the tenant's compliance tables (dot.service.ts) and the daily expiry scan
  (dot-expiry.cron.ts).  Ids and the clock are arguments; a handler returns the stored row, of which
  the to...Dto functions drop the bookkeeping columns and print the dates; creation and update stamps that nothing
  reads are left out of the rows.  The audit packet (a PDF)
  and the open-defects report over the fleet tables are not modelled.
\<close>

section \<open>The driver-qualification file\<close>

datatype dq_item = Employment_application | Drivers_license | License_expiry | Medical_certificate
  | Mvr | Drug_test | Road_test

definition DQ_EXPIRY_WARNING_DAYS :: int where "DQ_EXPIRY_WARNING_DAYS = 60"

record dq_driver_facts =
  df_licenseNumber :: "string option"
  df_licenseExpiresAt :: "string option"
  df_medicalCardExpiresAt :: "string option"
  df_drugTestLastAt :: "string option"
  df_roadTestCompletedAt :: "string option"

record dq_extension_facts =
  ef_employmentAppSignedAt :: "string option"
  ef_mvrPulledAt :: "string option"
  ef_mvrExpiresAt :: "string option"

record dq_expiring =
  de_item :: dq_item
  de_expiresAt :: string
  de_daysLeft :: int

record dq_result =
  dq_complete :: bool
  dq_missing :: "dq_item list"
  dq_expiring :: "dq_expiring list"

text \<open>\<open>new Date(v)\<close> of what \<open>toISOString\<close> prints for a four-digit year; the columns hold no other
  long form.\<close>

definition parse_stamp :: "string \<Rightarrow> instant option" where
  "parse_stamp s = (if length s = 24 \<and> s ! 10 = CHR ''T'' \<and> s ! 13 = CHR '':'' \<and> s ! 16 = CHR '':''
       \<and> s ! 19 = CHR ''.'' \<and> s ! 23 = CHR ''Z''
     then (case (parse_midnight (take 10 s), read_nat (take 2 (drop 11 s)), read_nat (take 2 (drop 14 s)),
         read_nat (take 2 (drop 17 s)), read_nat (take 3 (drop 20 s))) of
       (Some d, Some h, Some m, Some sec, Some ms) \<Rightarrow>
         if h < 24 \<and> m < 60 \<and> sec < 60
         then Some (d + ((int h * 60 + int m) * 60 + int sec) * 1000 + int ms) else None
     | _ \<Rightarrow> None) else None)"

definition dq_parse :: "string option \<Rightarrow> instant option" where
  "dq_parse v = Option.bind (truthy v) (\<lambda>s. if length s = 10 then parse_midnight s else parse_stamp s)"

definition dq_daysUntil :: "instant \<Rightarrow> instant \<Rightarrow> int" where
  "dq_daysUntil target today = dfloor (ddiv (dsub (num target) (num today)) (num 86400000))"

definition dq_dated_item :: "instant \<Rightarrow> dq_item \<times> string option \<Rightarrow> dq_item list \<times> dq_expiring list" where
  "dq_dated_item today iv = (case iv of (item, value) \<Rightarrow>
     (case dq_parse value of
        None \<Rightarrow> (if item \<noteq> Mvr then [item] else [], [])
      | Some when \<Rightarrow> let left = dq_daysUntil when today in
          if left < 0 then ([item], [])
          else if left \<le> DQ_EXPIRY_WARNING_DAYS
          then ([], [\<lparr>de_item = item, de_expiresAt = the value, de_daysLeft = left\<rparr>]) else ([], [])))"

definition dqFileStatus :: "dq_driver_facts \<Rightarrow> dq_extension_facts option \<Rightarrow> instant \<Rightarrow> dq_result" where
  "dqFileStatus driver ext today =
    (let field = (\<lambda>f. truthy (Option.bind ext f));
         absent = (\<lambda>v item. if v = None then [item] else []);
         present = absent (field ef_employmentAppSignedAt) Employment_application
           @ absent (truthy (df_licenseNumber driver)) Drivers_license
           @ absent (truthy (df_drugTestLastAt driver)) Drug_test
           @ absent (truthy (df_roadTestCompletedAt driver)) Road_test
           @ absent (field ef_mvrPulledAt) Mvr;
         dated = [(License_expiry, df_licenseExpiresAt driver), (Medical_certificate, df_medicalCardExpiresAt driver)]
           @ (if field ef_mvrPulledAt \<noteq> None then [(Mvr, Option.bind ext ef_mvrExpiresAt)] else []);
         found = map (dq_dated_item today) dated;
         missing = set_of_values (present @ concat (map fst found))
     in \<lparr>dq_complete = (missing = []), dq_missing = missing, dq_expiring = concat (map snd found)\<rparr>)"

section \<open>The tables\<close>

datatype dq_file_status = Dq_incomplete | Dq_complete | Dq_on_hold

datatype carrier_type = Authorized_for_hire | Private_carrier | Exempt_carrier
datatype safety_rating = Satisfactory | Conditional | Unsatisfactory | Unrated
datatype incident_severity = Property_damage | Injury | Fatality
datatype drug_test_type = Pre_employment | Random_test | Reasonable_suspicion | Post_accident
  | Return_to_duty | Follow_up
datatype drug_result = Negative_result | Positive_result | Refused_test | Cancelled_test

record dot_driver_row =
  dd_id :: uuid
  dd_tenantId :: uuid
  dd_firstName :: string
  dd_lastName :: string
  dd_facts :: dq_driver_facts
  dd_deletedAt :: "instant option"

record carrier_values =
  cv_usdotNumber :: "string option"
  cv_mcNumber :: "string option"
  cv_legalName :: string
  cv_dbaName :: "string option"
  cv_carrierType :: carrier_type
  cv_operatingClassification :: "string list"
  cv_safetyRating :: "safety_rating option"
  cv_lastAuditedAt :: "instant option"

record carrier_row =
  cr_id :: uuid
  cr_tenantId :: uuid
  cr_values :: carrier_values
  cr_createdBy :: "uuid option"
  cr_updatedAt :: instant
  cr_deletedAt :: "instant option"

record qualification_row =
  dqr_id :: uuid
  dqr_tenantId :: uuid
  dqr_driverId :: uuid
  dqr_dqFileStatus :: dq_file_status
  dqr_employmentAppSignedAt :: "instant option"
  dqr_mvrPulledAt :: "instant option"
  dqr_mvrExpiresAt :: "instant option"
  dqr_notes :: "string option"
  dqr_createdBy :: "uuid option"
  dqr_updatedAt :: instant
  dqr_deletedAt :: "instant option"

text \<open>A date column holds the day's number.\<close>

record hos_row =
  hr_id :: uuid
  hr_tenantId :: uuid
  hr_driverId :: uuid
  hr_logDate :: int
  hr_status :: hos_status
  hr_startAt :: instant
  hr_endAt :: "instant option"
  hr_milesDriven :: "int option"
  hr_vehicleId :: "uuid option"
  hr_locationText :: "string option"
  hr_remarks :: "string option"
  hr_createdBy :: "uuid option"
  hr_deletedAt :: "instant option"

record drug_test_row =
  dt_id :: uuid
  dt_tenantId :: uuid
  dt_driverId :: uuid
  dt_testType :: drug_test_type
  dt_collectedAt :: instant
  dt_result :: drug_result
  dt_lab :: "string option"
  dt_docKey :: "string option"
  dt_notes :: "string option"
  dt_createdBy :: "uuid option"
  dt_deletedAt :: "instant option"

record incident_row =
  ir_id :: uuid
  ir_tenantId :: uuid
  ir_jobId :: "uuid option"
  ir_driverId :: "uuid option"
  ir_truckId :: "uuid option"
  ir_occurredAt :: instant
  ir_locationText :: "string option"
  ir_severity :: incident_severity
  ir_fatalities :: int
  ir_injuries :: int
  ir_hazmatRelease :: bool
  ir_towedAway :: bool
  ir_narrative :: "string option"
  ir_dotReportable :: bool
  ir_createdBy :: "uuid option"
  ir_deletedAt :: "instant option"

record dot_db =
  dotDrivers :: "dot_driver_row list"
  dotCarrierProfile :: "carrier_row list"
  dotDriverQualifications :: "qualification_row list"
  dotHosLogs :: "hos_row list"
  dotDrugAlcoholTests :: "drug_test_row list"
  dotIncidentReports :: "incident_row list"

section \<open>Carrier profile\<close>

definition live_carrier :: "uuid \<Rightarrow> carrier_row \<Rightarrow> bool" where
  "live_carrier t r \<longleftrightarrow> cr_tenantId r = t \<and> cr_deletedAt r = None"

definition getCarrierProfile :: "ctx \<Rightarrow> dot_db \<Rightarrow> carrier_row option" where
  "getCarrierProfile ctx db = select_first (live_carrier (ctx_tenantId ctx)) (dotCarrierProfile db)"

definition upsertCarrierProfile :: "ctx \<Rightarrow> uuid \<Rightarrow> instant \<Rightarrow> carrier_values \<Rightarrow> dot_db \<Rightarrow> exn + carrier_row \<times> dot_db" where
  "upsertCarrierProfile ctx newId now input db =
    (case select_first (live_carrier (ctx_tenantId ctx)) (dotCarrierProfile db) of
       Some existing \<Rightarrow>
         (let P = (\<lambda>r. cr_tenantId r = ctx_tenantId ctx \<and> cr_id r = cr_id existing);
              f = (\<lambda>r. r\<lparr>cr_values := input, cr_updatedAt := now\<rparr>)
          in Inr (f existing, db\<lparr>dotCarrierProfile := update_where P f (dotCarrierProfile db)\<rparr>))
     | None \<Rightarrow>
         (let row = \<lparr>cr_id = newId, cr_tenantId = ctx_tenantId ctx, cr_values = input,
                cr_createdBy = Some (ctx_userId ctx), cr_updatedAt = now, cr_deletedAt = None\<rparr>
          in Inr (row, db\<lparr>dotCarrierProfile := insert_into row (dotCarrierProfile db)\<rparr>)))"

section \<open>Driver qualifications\<close>

definition live_driver :: "uuid \<Rightarrow> dot_driver_row \<Rightarrow> bool" where
  "live_driver t d \<longleftrightarrow> dd_tenantId d = t \<and> dd_deletedAt d = None"

definition live_qualification :: "uuid \<Rightarrow> qualification_row \<Rightarrow> bool" where
  "live_qualification t q \<longleftrightarrow> dqr_tenantId q = t \<and> dqr_deletedAt q = None"

text \<open>A field of the payload that is absent leaves the column alone; null clears it.\<close>

record dq_event =
  ev_driverId :: uuid
  ev_dqFileStatus :: "dq_file_status option"
  ev_employmentAppSignedAt :: "instant option option"
  ev_mvrPulledAt :: "instant option option"
  ev_mvrExpiresAt :: "instant option option"
  ev_notes :: "string option option"

definition apply_dq_event :: "dq_event \<Rightarrow> qualification_row \<Rightarrow> qualification_row" where
  "apply_dq_event e q = q\<lparr>dqr_dqFileStatus := patched (ev_dqFileStatus e) (dqr_dqFileStatus q),
     dqr_employmentAppSignedAt := patched (ev_employmentAppSignedAt e) (dqr_employmentAppSignedAt q),
     dqr_mvrPulledAt := patched (ev_mvrPulledAt e) (dqr_mvrPulledAt q),
     dqr_mvrExpiresAt := patched (ev_mvrExpiresAt e) (dqr_mvrExpiresAt q),
     dqr_notes := patched (ev_notes e) (dqr_notes q)\<rparr>"

definition recordDqEvent :: "ctx \<Rightarrow> uuid \<Rightarrow> instant \<Rightarrow> dq_event \<Rightarrow> dot_db \<Rightarrow> exn + qualification_row \<times> dot_db" where
  "recordDqEvent ctx newId now input db =
    (let t = ctx_tenantId ctx in
     require (select_first (\<lambda>d. live_driver t d \<and> dd_id d = ev_driverId input) (dotDrivers db))
       (NotFound ''driver not found'') (\<lambda>_.
     (case select_first (\<lambda>q. live_qualification t q \<and> dqr_driverId q = ev_driverId input) (dotDriverQualifications db) of
        Some existing \<Rightarrow>
          (let P = (\<lambda>q. dqr_tenantId q = t \<and> dqr_id q = dqr_id existing);
               f = (\<lambda>q. (apply_dq_event input q)\<lparr>dqr_updatedAt := now\<rparr>)
           in Inr (f existing, db\<lparr>dotDriverQualifications := update_where P f (dotDriverQualifications db)\<rparr>))
      | None \<Rightarrow>
          (let row = apply_dq_event input \<lparr>dqr_id = newId, dqr_tenantId = t, dqr_driverId = ev_driverId input,
                 dqr_dqFileStatus = Dq_incomplete, dqr_employmentAppSignedAt = None, dqr_mvrPulledAt = None,
                 dqr_mvrExpiresAt = None, dqr_notes = None, dqr_createdBy = Some (ctx_userId ctx),
                 dqr_updatedAt = now, dqr_deletedAt = None\<rparr>
           in Inr (row, db\<lparr>dotDriverQualifications := insert_into row (dotDriverQualifications db)\<rparr>)))))"

record dq_view =
  vw_driverId :: uuid
  vw_ext :: "dq_extension_facts option"
  vw_dqFileStatus :: dq_file_status
  vw_status :: dq_result

definition ext_facts :: "qualification_row \<Rightarrow> dq_extension_facts" where
  "ext_facts q = \<lparr>ef_employmentAppSignedAt = map_option toISOString (dqr_employmentAppSignedAt q),
     ef_mvrPulledAt = map_option toISOString (dqr_mvrPulledAt q),
     ef_mvrExpiresAt = map_option toISOString (dqr_mvrExpiresAt q)\<rparr>"

definition buildDqView :: "dot_driver_row \<Rightarrow> qualification_row option \<Rightarrow> instant \<Rightarrow> dq_view" where
  "buildDqView d q today = (let ext = map_option ext_facts q in
     \<lparr>vw_driverId = dd_id d, vw_ext = ext,
      vw_dqFileStatus = (case q of None \<Rightarrow> Dq_incomplete | Some r \<Rightarrow> dqr_dqFileStatus r),
      vw_status = dqFileStatus (dd_facts d) ext today\<rparr>)"

text \<open>\<open>new Map(rows.map(...))\<close>: the last row of a driver wins.\<close>

definition dq_by_driver :: "qualification_row list \<Rightarrow> uuid \<Rightarrow> qualification_row option" where
  "dq_by_driver rows d = select_first (\<lambda>q. dqr_driverId q = d) (rev rows)"

definition listDriverDqViews :: "ctx \<Rightarrow> instant \<Rightarrow> (dot_driver_row list \<Rightarrow> dot_driver_row list) \<Rightarrow> dot_db \<Rightarrow> dq_view list" where
  "listDriverDqViews ctx today by_name db =
    (let t = ctx_tenantId ctx; dqRows = select_where (live_qualification t) (dotDriverQualifications db)
     in map (\<lambda>d. buildDqView d (dq_by_driver dqRows (dd_id d)) today)
          (by_name (select_where (live_driver t) (dotDrivers db))))"

definition getDriverDqView :: "ctx \<Rightarrow> instant \<Rightarrow> uuid \<Rightarrow> dot_db \<Rightarrow> exn + dq_view" where
  "getDriverDqView ctx today driverId db = (let t = ctx_tenantId ctx in
     require (select_first (\<lambda>d. live_driver t d \<and> dd_id d = driverId) (dotDrivers db)) (NotFound ''driver not found'')
       (\<lambda>d. Inr (buildDqView d
          (select_first (\<lambda>q. live_qualification t q \<and> dqr_driverId q = driverId) (dotDriverQualifications db)) today)))"

definition dqDeficiencyReport :: "ctx \<Rightarrow> instant \<Rightarrow> (dot_driver_row list \<Rightarrow> dot_driver_row list) \<Rightarrow> dot_db \<Rightarrow> dq_view list" where
  "dqDeficiencyReport ctx today by_name db =
    filter (\<lambda>v. \<not> dq_complete (vw_status v) \<or> dq_expiring (vw_status v) \<noteq> []) (listDriverDqViews ctx today by_name db)"

section \<open>Hours of service\<close>

definition pg_date :: "string \<Rightarrow> (int \<Rightarrow> exn + 'a) \<Rightarrow> exn + 'a" where
  "pg_date s k = require (parse_midnight s) (Failure ''date/time field value out of range'') (\<lambda>ms. k (ms div day_ms))"

record hos_payload =
  hp_driverId :: uuid
  hp_logDate :: string
  hp_status :: hos_status
  hp_startAt :: instant
  hp_endAt :: "instant option"
  hp_milesDriven :: "int option"
  hp_vehicleId :: "uuid option"
  hp_locationText :: "string option"
  hp_remarks :: "string option"

definition recordHosEntry :: "ctx \<Rightarrow> uuid \<Rightarrow> hos_payload \<Rightarrow> dot_db \<Rightarrow> exn + hos_row \<times> dot_db" where
  "recordHosEntry ctx newId input db = pg_date (hp_logDate input) (\<lambda>logDate.
     let row = \<lparr>hr_id = newId, hr_tenantId = ctx_tenantId ctx, hr_driverId = hp_driverId input, hr_logDate = logDate,
           hr_status = hp_status input, hr_startAt = hp_startAt input, hr_endAt = hp_endAt input,
           hr_milesDriven = hp_milesDriven input, hr_vehicleId = hp_vehicleId input,
           hr_locationText = hp_locationText input, hr_remarks = hp_remarks input,
           hr_createdBy = Some (ctx_userId ctx), hr_deletedAt = None\<rparr>
     in Inr (row, db\<lparr>dotHosLogs := insert_into row (dotHosLogs db)\<rparr>))"

definition live_hos :: "uuid \<Rightarrow> hos_row \<Rightarrow> bool" where
  "live_hos t r \<longleftrightarrow> hr_tenantId r = t \<and> hr_deletedAt r = None"

text \<open>The filter's dates as day numbers.\<close>

definition listHosEntries :: "ctx \<Rightarrow> uuid option \<Rightarrow> int option \<Rightarrow> int option \<Rightarrow> dot_db \<Rightarrow> hos_row list" where
  "listHosEntries ctx driverId from_day to_day db =
    sort_key hr_logDate (sort_key hr_startAt (select_where (\<lambda>r. live_hos (ctx_tenantId ctx) r
      \<and> (case driverId of None \<Rightarrow> True | Some d \<Rightarrow> hr_driverId r = d)
      \<and> (case from_day of None \<Rightarrow> True | Some f \<Rightarrow> f \<le> hr_logDate r)
      \<and> (case to_day of None \<Rightarrow> True | Some u \<Rightarrow> hr_logDate r \<le> u)) (dotHosLogs db)))"

definition toSegment :: "hos_row \<Rightarrow> hos_segment" where
  "toSegment r = \<lparr>hs_status = hr_status r, hs_startAt = hr_startAt r, hs_endAt = hr_endAt r\<rparr>"

definition hos_rows :: "uuid \<Rightarrow> uuid \<Rightarrow> int \<Rightarrow> (int \<Rightarrow> bool) \<Rightarrow> dot_db \<Rightarrow> hos_row list" where
  "hos_rows t driverId from_day upto_ok db = sort_key hr_startAt (select_where (\<lambda>r. live_hos t r
     \<and> hr_driverId r = driverId \<and> from_day \<le> hr_logDate r \<and> upto_ok (hr_logDate r)) (dotHosLogs db))"

definition getHosWeek :: "ctx \<Rightarrow> uuid \<Rightarrow> int \<Rightarrow> int \<Rightarrow> dot_db \<Rightarrow> hos_week" where
  "getHosWeek ctx driverId from_day to_day db =
    validateHosWeek (map toSegment (hos_rows (ctx_tenantId ctx) driverId from_day (\<lambda>d. d \<le> to_day) db))"

record hos_report_row =
  rp_driverId :: uuid
  rp_violationCount :: nat
  rp_violations :: "hos_alert list"

definition hosViolationsReport :: "ctx \<Rightarrow> instant \<Rightarrow> int \<Rightarrow> dot_db \<Rightarrow> hos_report_row list" where
  "hosViolationsReport ctx now days db =
    (let t = ctx_tenantId ctx; since = (now - days * 86400000) div day_ms;
         row = (\<lambda>d. let rows = hos_rows t (dd_id d) since (\<lambda>_. True) db; r = validateHosWeek (map toSegment rows)
           in if rows = [] \<or> hw_violations r = [] then None
              else Some \<lparr>rp_driverId = dd_id d, rp_violationCount = length (hw_violations r), rp_violations = hw_violations r\<rparr>)
     in sort_key (\<lambda>r. - int (rp_violationCount r))
          (List.map_filter row (select_where (live_driver t) (dotDrivers db))))"

section \<open>Drug tests and incidents\<close>

record drug_payload =
  dp_driverId :: uuid
  dp_testType :: drug_test_type
  dp_collectedAt :: instant
  dp_result :: drug_result
  dp_lab :: "string option"
  dp_docKey :: "string option"
  dp_notes :: "string option"

definition recordDrugTest :: "ctx \<Rightarrow> uuid \<Rightarrow> drug_payload \<Rightarrow> dot_db \<Rightarrow> exn + drug_test_row \<times> dot_db" where
  "recordDrugTest ctx newId input db =
    (let row = \<lparr>dt_id = newId, dt_tenantId = ctx_tenantId ctx, dt_driverId = dp_driverId input,
           dt_testType = dp_testType input, dt_collectedAt = dp_collectedAt input, dt_result = dp_result input,
           dt_lab = dp_lab input, dt_docKey = dp_docKey input, dt_notes = dp_notes input,
           dt_createdBy = Some (ctx_userId ctx), dt_deletedAt = None\<rparr>
     in Inr (row, db\<lparr>dotDrugAlcoholTests := insert_into row (dotDrugAlcoholTests db)\<rparr>))"

definition listDrugTests :: "ctx \<Rightarrow> uuid option \<Rightarrow> drug_test_type option \<Rightarrow> drug_result option \<Rightarrow> dot_db \<Rightarrow> drug_test_row list" where
  "listDrugTests ctx driverId testType result db =
    sort_key (\<lambda>r. - dt_collectedAt r) (select_where (\<lambda>r. dt_tenantId r = ctx_tenantId ctx \<and> dt_deletedAt r = None
      \<and> (case driverId of None \<Rightarrow> True | Some d \<Rightarrow> dt_driverId r = d)
      \<and> (case testType of None \<Rightarrow> True | Some k \<Rightarrow> dt_testType r = k)
      \<and> (case result of None \<Rightarrow> True | Some k \<Rightarrow> dt_result r = k)) (dotDrugAlcoholTests db))"

record incident_payload =
  ip_jobId :: "uuid option"
  ip_driverId :: "uuid option"
  ip_truckId :: "uuid option"
  ip_occurredAt :: instant
  ip_locationText :: "string option"
  ip_severity :: incident_severity
  ip_fatalities :: int
  ip_injuries :: int
  ip_hazmatRelease :: bool
  ip_towedAway :: bool
  ip_narrative :: "string option"
  ip_dotReportable :: "bool option"

definition derivedReportable :: "incident_payload \<Rightarrow> bool" where
  "derivedReportable i \<longleftrightarrow> 0 < ip_fatalities i \<or> 0 < ip_injuries i \<or> ip_towedAway i
     \<or> ip_severity i = Injury \<or> ip_severity i = Fatality"

definition recordIncident :: "ctx \<Rightarrow> uuid \<Rightarrow> incident_payload \<Rightarrow> dot_db \<Rightarrow> exn + incident_row \<times> dot_db" where
  "recordIncident ctx newId i db =
    (let row = \<lparr>ir_id = newId, ir_tenantId = ctx_tenantId ctx, ir_jobId = ip_jobId i, ir_driverId = ip_driverId i,
           ir_truckId = ip_truckId i, ir_occurredAt = ip_occurredAt i, ir_locationText = ip_locationText i,
           ir_severity = ip_severity i, ir_fatalities = ip_fatalities i, ir_injuries = ip_injuries i,
           ir_hazmatRelease = ip_hazmatRelease i, ir_towedAway = ip_towedAway i, ir_narrative = ip_narrative i,
           ir_dotReportable = patched (ip_dotReportable i) (derivedReportable i),
           ir_createdBy = Some (ctx_userId ctx), ir_deletedAt = None\<rparr>
     in Inr (row, db\<lparr>dotIncidentReports := insert_into row (dotIncidentReports db)\<rparr>))"

definition listIncidents :: "ctx \<Rightarrow> dot_db \<Rightarrow> incident_row list" where
  "listIncidents ctx db = sort_key (\<lambda>r. - ir_occurredAt r)
     (select_where (\<lambda>r. ir_tenantId r = ctx_tenantId ctx \<and> ir_deletedAt r = None) (dotIncidentReports db))"

section \<open>The expiry scan\<close>

record expiry_tick =
  et_driversScanned :: nat
  et_alertsRaised :: nat
  et_byItem :: "dq_item \<Rightarrow> nat"

definition expiry_tick :: "instant \<Rightarrow> dot_db \<Rightarrow> expiry_tick" where
  "expiry_tick now db =
    (let drivers = select_where (\<lambda>d. dd_deletedAt d = None) (dotDrivers db);
         dqRows = select_where (\<lambda>q. dqr_deletedAt q = None) (dotDriverQualifications db);
         expiring = concat (map (\<lambda>d. filter (\<lambda>e. de_item e \<in> {License_expiry, Medical_certificate, Mvr})
           (dq_expiring (dqFileStatus (dd_facts d) (map_option ext_facts (dq_by_driver dqRows (dd_id d))) now))) drivers)
     in \<lparr>et_driversScanned = length drivers, et_alertsRaised = length expiring,
         et_byItem = (\<lambda>i. length (filter (\<lambda>e. de_item e = i) expiring))\<rparr>)"

section \<open>The operations\<close>

datatype dot_op = Upsert_carrier carrier_values | Record_dq dq_event | Record_hos hos_payload
  | Record_drug drug_payload | Record_incident incident_payload

fun dot_step :: "ctx \<Rightarrow> uuid \<Rightarrow> instant \<Rightarrow> dot_op \<Rightarrow> dot_db \<Rightarrow> dot_db" where
  "dot_step ctx newId now (Upsert_carrier i) db = committed db (upsertCarrierProfile ctx newId now i db)"
| "dot_step ctx newId now (Record_dq i) db = committed db (recordDqEvent ctx newId now i db)"
| "dot_step ctx newId now (Record_hos i) db = committed db (recordHosEntry ctx newId i db)"
| "dot_step ctx newId now (Record_drug i) db = committed db (recordDrugTest ctx newId i db)"
| "dot_step ctx newId now (Record_incident i) db = committed db (recordIncident ctx newId i db)"

end
