(* ===== verification/HosShifts.thy ===== *)
theory HosShifts
  imports Hos "HOL-Library.Sublist" "HOL-Library.Multiset"
begin

text \<open>
  The hours-of-service evaluation against a reference definition: \<open>shifts\<close> splits the log where the
  driver has rested ten hours, the program numbers the segments instead.  A log is kept in whole
  minutes (the entry form's resolution), where the doubles are exact.  What holds of a shift is
  then what holds of a stretch of the log without a rest.
\<close>

section \<open>Logs in whole minutes\<close>

definition seg_minutes :: "seg \<Rightarrow> int" where
  "seg_minutes s = (sg_endAt s - sg_startAt s) div 60000"

definition minutes :: "seg list \<Rightarrow> int" where
  "minutes segs = sum_list (map seg_minutes segs)"

definition driven :: "seg \<Rightarrow> int" where
  "driven s = (if sg_status s = Driving then seg_minutes s else 0)"

definition driving_minutes :: "seg list \<Rightarrow> int" where
  "driving_minutes segs = sum_list (map driven segs)"

abbreviation off :: "seg \<Rightarrow> bool" where
  "off s \<equiv> isOffDuty (sg_status s)"

text \<open>Ten hours off duty in a row.\<close>

definition rested :: "seg list \<Rightarrow> bool" where
  "rested segs \<longleftrightarrow> (\<exists>rs. sublist rs segs \<and> (\<forall>r \<in> set rs. off r) \<and> 600 \<le> minutes rs)"

text \<open>No single segment of half an hour away from the wheel.\<close>

definition unbroken :: "seg list \<Rightarrow> bool" where
  "unbroken segs \<longleftrightarrow> (\<forall>s \<in> set segs. \<not> (sg_status s \<noteq> Driving \<and> 30 \<le> seg_minutes s))"

definition timed :: "seg \<Rightarrow> bool" where
  "timed s \<longleftrightarrow> sg_durationMin s = num (seg_minutes s) \<and> 0 < seg_minutes s \<and> \<bar>sg_startAt s\<bar> \<le> 2 ^ 52"

definition whole_time :: "instant \<Rightarrow> bool" where
  "whole_time t \<longleftrightarrow> t mod 60000 = 0 \<and> \<bar>t\<bar> \<le> 2 ^ 52"

definition logged :: "hos_segment \<Rightarrow> int" where
  "logged s = (case hs_endAt s of None \<Rightarrow> 0 | Some e \<Rightarrow> max 0 ((e - hs_startAt s) div 60000))"

definition whole_minutes :: "hos_segment list \<Rightarrow> bool" where
  "whole_minutes segments \<longleftrightarrow>
    list_all (\<lambda>s. whole_time (hs_startAt s) \<and> (case hs_endAt s of None \<Rightarrow> True | Some e \<Rightarrow> whole_time e)) segments
    \<and> sum_list (map logged segments) \<le> 2 ^ 53"

lemma minutes_simps [simp]:
  "minutes [] = 0" "minutes (s # segs) = seg_minutes s + minutes segs" "minutes (xs @ ys) = minutes xs + minutes ys"
  by (simp_all add: minutes_def)

lemma driving_simps [simp]:
  "driving_minutes [] = 0" "driving_minutes (s # segs) = driven s + driving_minutes segs"
  "driving_minutes (xs @ ys) = driving_minutes xs + driving_minutes ys"
  by (simp_all add: driving_minutes_def)

lemma minutes_nonneg: "(\<And>s. s \<in> set segs \<Longrightarrow> timed s) \<Longrightarrow> 0 \<le> minutes segs"
  by (induction segs) (auto simp: timed_def intro: add_nonneg_nonneg less_imp_le)

lemma timed_span: "timed s \<Longrightarrow> 0 < seg_minutes s"
  by (simp add: timed_def)

lemma minutesBetween_whole:
  assumes "whole_time a" "whole_time b"
  shows "minutesBetween a b = num ((b - a) div 60000)"
proof -
  have ab: "\<bar>a\<bar> \<le> 2 ^ 53" "\<bar>b\<bar> \<le> 2 ^ 53" "\<bar>b - a\<bar> \<le> 2 ^ 53" using assms by (auto simp: whole_time_def)
  have "(b - a) mod 60000 = 0" using assms by (simp add: whole_time_def mod_diff_eq [symmetric])
  then obtain k where k: "b - a = k * 60000" by (metis dvd_eq_mod_eq_0 dvdE mult.commute)
  have "ddiv (num (k * 60000)) (num 60000) = num k"
    using ab(3) unfolding k by (intro num_quotient) simp_all
  then show ?thesis using ab k by (simp add: minutesBetween_def num_diff)
qed

lemma duty_log_timed:
  assumes "whole_minutes segments" "s \<in> set (duty_log segments)"
  shows "timed s"
proof -
  obtain r e where r: "r \<in> set segments" "hs_endAt r = Some e"
    and s: "s = \<lparr>sg_status = hs_status r, sg_startAt = hs_startAt r, sg_endAt = e,
      sg_durationMin = minutesBetween (hs_startAt r) e\<rparr>" and pos: "dless (num 0) (sg_durationMin s)"
    using assms(2) by (auto simp: duty_log_def List.map_filter_def closed_seg_def)
  have w: "whole_time (hs_startAt r)" "whole_time e"
    using assms(1) r by (auto simp: whole_minutes_def list_all_iff split: option.splits)
  have d: "sg_durationMin s = num (seg_minutes s)"
    using minutesBetween_whole [OF w] s by (simp add: seg_minutes_def)
  have "\<bar>e - hs_startAt r\<bar> \<le> 2 ^ 53" using w by (auto simp: whole_time_def)
  then have "\<bar>seg_minutes s\<bar> \<le> 2 ^ 53" using s by (auto simp: seg_minutes_def)
  then have "0 < seg_minutes s" using pos d by (simp add: num_less)
  then show ?thesis using d w s by (simp add: timed_def whole_time_def)
qed

lemma minutes_sort: "minutes (sort_key f xs) = minutes xs"
proof -
  have "mset (map seg_minutes (sort_key f xs)) = mset (map seg_minutes xs)" by simp
  then show ?thesis unfolding minutes_def by (metis sum_mset_sum_list)
qed

lemma duty_log_minutes:
  assumes "whole_minutes segments"
  shows "minutes (duty_log segments) \<le> 2 ^ 53"
proof -
  have "minutes (filter (\<lambda>s. dless (num 0) (sg_durationMin s)) (List.map_filter closed_seg segments))
      \<le> sum_list (map logged segments)"
    by (induction segments)
      (auto simp: List.map_filter_def closed_seg_def logged_def seg_minutes_def split: option.splits)
  then show ?thesis using assms by (simp add: duty_log_def minutes_sort whole_minutes_def)
qed

lemma duty_log_sorted: "sorted (map sg_startAt (duty_log segments))"
  by (simp add: duty_log_def)

section \<open>The longest run\<close>

text \<open>The largest weight of a run that a reset does not interrupt; a run is under way with weight \<open>a\<close>.\<close>

fun peak :: "(seg \<Rightarrow> bool) \<Rightarrow> (seg \<Rightarrow> int) \<Rightarrow> int \<Rightarrow> seg list \<Rightarrow> int" where
  "peak R w a [] = a"
| "peak R w a (s # segs) = (if R s then max a (peak R w 0 segs) else peak R w (a + w s) segs)"

lemma peak_ge: "(\<And>s. s \<in> set segs \<Longrightarrow> 0 \<le> w s) \<Longrightarrow> a \<le> peak R w a segs"
proof (induction segs arbitrary: a)
  case Nil
  then show ?case by simp
next
  case (Cons s segs)
  have "a + w s \<le> peak R w (a + w s) segs" using Cons by simp
  then show ?case using Cons.prems [of s] by simp
qed

lemma peak_run:
  assumes "0 \<le> a" "\<And>s. s \<in> set segs \<Longrightarrow> 0 \<le> w s"
  shows "l \<le> peak R w a segs \<longleftrightarrow>
    (\<exists>ys. prefix ys segs \<and> (\<forall>y \<in> set ys. \<not> R y) \<and> l \<le> a + sum_list (map w ys))
    \<or> (\<exists>ys. sublist ys segs \<and> (\<forall>y \<in> set ys. \<not> R y) \<and> l \<le> sum_list (map w ys))"
  using assms
proof (induction segs arbitrary: a)
  case Nil
  then show ?case by auto
next
  case (Cons s segs)
  let ?run = "\<lambda>a ys. (\<forall>y \<in> set ys. \<not> R y) \<and> l \<le> a + sum_list (map w ys)"
  have pre: "(\<exists>ys. prefix ys (s # segs) \<and> ?run a ys)
      \<longleftrightarrow> l \<le> a \<or> (\<not> R s \<and> (\<exists>ys. prefix ys segs \<and> ?run (a + w s) ys))"
    (is "?L \<longleftrightarrow> ?M") for a
  proof
    assume ?L
    then show ?M by (auto simp: prefix_Cons ac_simps)
  next
    assume ?M
    then show ?L
    proof
      assume "l \<le> a"
      then show ?L by (intro exI [of _ "[]"]) simp
    next
      assume "\<not> R s \<and> (\<exists>ys. prefix ys segs \<and> ?run (a + w s) ys)"
      then obtain ys where "\<not> R s" "prefix ys segs" "?run (a + w s) ys" by blast
      then show ?L by (intro exI [of _ "s # ys"]) (simp add: ac_simps)
    qed
  qed
  have sub: "(\<exists>ys. sublist ys (s # segs) \<and> ?run 0 ys)
      \<longleftrightarrow> (\<exists>ys. prefix ys (s # segs) \<and> ?run 0 ys) \<or> (\<exists>ys. sublist ys segs \<and> ?run 0 ys)"
    by (auto simp: sublist_Cons_right)
  have low: "(\<exists>ys. prefix ys segs \<and> ?run 0 ys) \<longrightarrow> (\<exists>ys. sublist ys segs \<and> ?run 0 ys)"
    by (blast intro: prefix_imp_sublist)
  have up: "(\<exists>ys. prefix ys segs \<and> ?run (0 + w s) ys) \<longrightarrow> (\<exists>ys. prefix ys segs \<and> ?run (a + w s) ys)"
    using Cons.prems(1) by fastforce
  have w: "0 \<le> w s" "\<And>x. x \<in> set segs \<Longrightarrow> 0 \<le> w x" using Cons.prems(2) by simp_all
  have IH0: "l \<le> peak R w 0 segs \<longleftrightarrow> (\<exists>ys. sublist ys segs \<and> ?run 0 ys)"
    using Cons.IH [of 0] w(2) low by auto
  have IHs: "l \<le> peak R w (a + w s) segs \<longleftrightarrow>
      (\<exists>ys. prefix ys segs \<and> ?run (a + w s) ys) \<or> (\<exists>ys. sublist ys segs \<and> ?run 0 ys)"
    using Cons.IH [of "a + w s"] Cons.prems(1) w by simp
  have zero: "l \<le> 0 \<longrightarrow> l \<le> a" using Cons.prems(1) by simp
  have nil: "l \<le> a \<longrightarrow> (\<exists>ys. prefix ys segs \<and> ?run (a + w s) ys)"
    using w(1) by (intro impI exI [of _ "[]"]) simp
  have goal: "l \<le> peak R w a (s # segs) \<longleftrightarrow>
      (\<exists>ys. prefix ys (s # segs) \<and> ?run a ys) \<or> (\<exists>ys. sublist ys (s # segs) \<and> ?run 0 ys)"
    unfolding sub pre using IH0 IHs zero nil up by (cases "R s") auto
  then show ?case by simp
qed

lemma peak_sublist:
  assumes "\<And>s. s \<in> set segs \<Longrightarrow> 0 \<le> w s"
  shows "l \<le> peak R w 0 segs \<longleftrightarrow>
    (\<exists>ys. sublist ys segs \<and> (\<forall>y \<in> set ys. \<not> R y) \<and> l \<le> sum_list (map w ys))"
  using peak_run [of 0 segs w l R] assms by (auto intro: prefix_imp_sublist)

section \<open>Scanning a period\<close>

definition scan :: "int \<Rightarrow> int \<Rightarrow> bool \<Rightarrow> bool \<Rightarrow> bool \<Rightarrow> period_scan" where
  "scan c b fd fw fb = \<lparr>cumulativeDriving = num c, drivingSinceBreak = num b,
     firedDriving = fd, firedWindow = fw, firedBreak = fb\<rparr>"

definition breaks :: "seg \<Rightarrow> bool" where
  "breaks s \<longleftrightarrow> sg_status s \<noteq> Driving \<and> 30 \<le> seg_minutes s"

definition rules :: "hos_alert list \<Rightarrow> hos_rule set" where
  "rules vs = hv_rule ` set vs"

lemma rules_simps [simp]:
  "rules [] = {}" "rules (v # vs) = insert (hv_rule v) (rules vs)" "rules (us @ vs) = rules us \<union> rules vs"
  "rules (concat vss) = (\<Union>vs \<in> set vss. rules vs)"
  by (auto simp: rules_def)

lemma scan_segment_rest:
  assumes "timed s" "seg_minutes s \<le> 2 ^ 53" "sg_status s \<noteq> Driving"
  shows "scan_segment e (scan c b fd fw fb) s = ([], scan c (if breaks s then 0 else b) fd fw fb)"
  using assms by (simp add: scan_segment_def scan_def breaks_def timed_def num_less Let_def breakMinDurationMin_def)

lemma scan_segment_drive:
  assumes "timed s" "sg_status s = Driving" "0 \<le> c" "0 \<le> b" "c + seg_minutes s \<le> 2 ^ 53" "b + seg_minutes s \<le> 2 ^ 53"
  obtains out where "scan_segment e (scan c b fd fw fb) s = (out, scan (c + seg_minutes s) (b + seg_minutes s)
      (fd \<or> 660 < c + seg_minutes s) (fw \<or> e < sg_endAt s) (fb \<or> 480 < b + seg_minutes s))"
    "rules out = {r. r = Duty_window_14h \<and> \<not> fw \<and> e < sg_endAt s}
      \<union> {r. r = Driving_limit_11h \<and> \<not> fd \<and> 660 < c + seg_minutes s} \<union> {r. r = Break_30min \<and> \<not> fb \<and> 480 < b + seg_minutes s}"
proof -
  have n: "dadd (num c) (num (seg_minutes s)) = num (c + seg_minutes s)" "dadd (num b) (num (seg_minutes s)) = num (b + seg_minutes s)"
    "dless (num 660) (num (c + seg_minutes s)) \<longleftrightarrow> 660 < c + seg_minutes s"
    "dless (num 480) (num (b + seg_minutes s)) \<longleftrightarrow> 480 < b + seg_minutes s"
    using assms by (simp_all add: num_add num_less timed_def)
  let ?out = "fst (scan_segment e (scan c b fd fw fb) s)"
  show thesis
  proof (rule that [of ?out])
    show "scan_segment e (scan c b fd fw fb) s = (?out, scan (c + seg_minutes s) (b + seg_minutes s)
      (fd \<or> 660 < c + seg_minutes s) (fw \<or> e < sg_endAt s) (fb \<or> 480 < b + seg_minutes s))"
      using assms(1,2) n
      by (auto simp: scan_segment_def scan_def timed_def Let_def drivingLimitMin_def breakAfterDrivingMin_def)
    show "rules ?out = {r. r = Duty_window_14h \<and> \<not> fw \<and> e < sg_endAt s}
      \<union> {r. r = Driving_limit_11h \<and> \<not> fd \<and> 660 < c + seg_minutes s} \<union> {r. r = Break_30min \<and> \<not> fb \<and> 480 < b + seg_minutes s}"
      using assms(1,2) n
      by (auto simp: scan_segment_def scan_def timed_def Let_def drivingLimitMin_def breakAfterDrivingMin_def
          window_alert_def driving_alert_def break_alert_def)
  qed
qed

lemma driven_nonneg: "timed s \<Longrightarrow> 0 \<le> driven s"
  by (simp add: driven_def timed_def)

lemma driving_nonneg: "(\<And>s. s \<in> set segs \<Longrightarrow> timed s) \<Longrightarrow> 0 \<le> driving_minutes segs"
  by (induction segs) (auto intro: add_nonneg_nonneg driven_nonneg)

lemma fired_union:
  assumes "d1 \<or> d2 \<longleftrightarrow> d" "w1 \<or> w2 \<longleftrightarrow> w" "b1 \<or> b2 \<longleftrightarrow> b"
  shows "{r. r = W \<and> w1} \<union> {r. r = D \<and> d1} \<union> {r. r = B \<and> b1}
      \<union> ({r. r = D \<and> d2} \<union> {r. r = W \<and> w2} \<union> {r. r = B \<and> b2})
    = {r. r = D \<and> d} \<union> {r. r = W \<and> w} \<union> {r. r = B \<and> b}"
  using assms by auto

lemma scan_period_rules:
  assumes "\<And>s. s \<in> set segs \<Longrightarrow> timed s" "0 \<le> c" "0 \<le> b" "c + minutes segs \<le> 2 ^ 53" "b + minutes segs \<le> 2 ^ 53"
    "fd \<or> c \<le> 660" "fb \<or> b \<le> 480"
  shows "rules (scan_period e (scan c b fd fw fb) segs) =
    {r. r = Driving_limit_11h \<and> \<not> fd \<and> 660 < c + driving_minutes segs}
    \<union> {r. r = Duty_window_14h \<and> \<not> fw \<and> (\<exists>s \<in> set segs. sg_status s = Driving \<and> e < sg_endAt s)}
    \<union> {r. r = Break_30min \<and> \<not> fb \<and> 480 < peak breaks driven b segs}"
  using assms
proof (induction segs arbitrary: c b fd fw fb)
  case Nil
  then show ?case by auto
next
  case (Cons s segs)
  have ts: "timed s" "\<And>x. x \<in> set segs \<Longrightarrow> timed x" using Cons.prems(1) by simp_all
  have sp: "0 < seg_minutes s" "0 \<le> minutes segs" using ts minutes_nonneg [of segs] by (auto simp: timed_def)
  have sum: "c + seg_minutes s + minutes segs \<le> 2 ^ 53" "b + seg_minutes s + minutes segs \<le> 2 ^ 53"
    using Cons.prems(4,5) by simp_all
  show ?case
  proof (cases "sg_status s = Driving")
    case False
    let ?b = "if breaks s then 0 else b"
    have step: "scan_segment e (scan c b fd fw fb) s = ([], scan c ?b fd fw fb)"
      using ts(1) False sp sum Cons.prems(2) by (intro scan_segment_rest) simp_all
    have IH: "rules (scan_period e (scan c ?b fd fw fb) segs) =
      {r. r = Driving_limit_11h \<and> \<not> fd \<and> 660 < c + driving_minutes segs}
      \<union> {r. r = Duty_window_14h \<and> \<not> fw \<and> (\<exists>s \<in> set segs. sg_status s = Driving \<and> e < sg_endAt s)}
      \<union> {r. r = Break_30min \<and> \<not> fb \<and> 480 < peak breaks driven ?b segs}"
      using ts sp sum Cons.prems(2,3,6,7) by (intro Cons.IH) auto
    have d: "driven s = 0" using False by (simp add: driven_def)
    have pk: "480 < peak breaks driven b (s # segs) \<longleftrightarrow> 480 < peak breaks driven ?b segs" if "\<not> fb"
      using that Cons.prems(7) d by auto
    have B: "\<not> fb \<and> 480 < peak breaks driven b (s # segs) \<longleftrightarrow> \<not> fb \<and> 480 < peak breaks driven ?b segs"
      using pk by blast
    have W: "(\<exists>x \<in> set (s # segs). sg_status x = Driving \<and> e < sg_endAt x)
        \<longleftrightarrow> (\<exists>s \<in> set segs. sg_status s = Driving \<and> e < sg_endAt s)"
      using False by simp
    have "rules (scan_period e (scan c b fd fw fb) (s # segs)) = rules (scan_period e (scan c ?b fd fw fb) segs)"
      using step by simp
    then show ?thesis
      unfolding IH B W driving_simps d by simp
  next
    case True
    have nb: "\<not> breaks s" "driven s = seg_minutes s" using True by (simp_all add: breaks_def driven_def)
    obtain out where step: "scan_segment e (scan c b fd fw fb) s = (out, scan (c + seg_minutes s) (b + seg_minutes s)
        (fd \<or> 660 < c + seg_minutes s) (fw \<or> e < sg_endAt s) (fb \<or> 480 < b + seg_minutes s))"
      and out: "rules out = {r. r = Duty_window_14h \<and> \<not> fw \<and> e < sg_endAt s}
        \<union> {r. r = Driving_limit_11h \<and> \<not> fd \<and> 660 < c + seg_minutes s} \<union> {r. r = Break_30min \<and> \<not> fb \<and> 480 < b + seg_minutes s}"
      using scan_segment_drive [OF ts(1) True Cons.prems(2,3), of e fd fw fb] sp sum by auto
    have IH: "rules (scan_period e (scan (c + seg_minutes s) (b + seg_minutes s)
        (fd \<or> 660 < c + seg_minutes s) (fw \<or> e < sg_endAt s) (fb \<or> 480 < b + seg_minutes s)) segs) =
      {r. r = Driving_limit_11h \<and> \<not> (fd \<or> 660 < c + seg_minutes s) \<and> 660 < c + seg_minutes s + driving_minutes segs}
      \<union> {r. r = Duty_window_14h \<and> \<not> (fw \<or> e < sg_endAt s) \<and> (\<exists>s \<in> set segs. sg_status s = Driving \<and> e < sg_endAt s)}
      \<union> {r. r = Break_30min \<and> \<not> (fb \<or> 480 < b + seg_minutes s) \<and> 480 < peak breaks driven (b + seg_minutes s) segs}"
      using ts sp sum Cons.prems(2,3) by (intro Cons.IH) auto
    have dr: "0 \<le> driving_minutes segs" using ts(2) by (rule driving_nonneg)
    have pk: "b + seg_minutes s \<le> peak breaks driven (b + seg_minutes s) segs"
      using ts(2) by (intro peak_ge) (simp add: driven_nonneg)
    have D: "(\<not> fd \<and> 660 < c + seg_minutes s) \<or> (\<not> (fd \<or> 660 < c + seg_minutes s) \<and> 660 < c + seg_minutes s + driving_minutes segs)
        \<longleftrightarrow> \<not> fd \<and> 660 < c + driving_minutes (s # segs)"
      using dr nb by auto
    have W: "(\<not> fw \<and> e < sg_endAt s) \<or> (\<not> (fw \<or> e < sg_endAt s) \<and> (\<exists>s \<in> set segs. sg_status s = Driving \<and> e < sg_endAt s))
        \<longleftrightarrow> \<not> fw \<and> (\<exists>x \<in> set (s # segs). sg_status x = Driving \<and> e < sg_endAt x)"
      using True by auto
    have B: "(\<not> fb \<and> 480 < b + seg_minutes s) \<or> (\<not> (fb \<or> 480 < b + seg_minutes s) \<and> 480 < peak breaks driven (b + seg_minutes s) segs)
        \<longleftrightarrow> \<not> fb \<and> 480 < peak breaks driven b (s # segs)"
      using pk nb by auto
    have "rules (scan_period e (scan c b fd fw fb) (s # segs)) = rules out \<union> rules (scan_period e (scan (c + seg_minutes s) (b + seg_minutes s)
        (fd \<or> 660 < c + seg_minutes s) (fw \<or> e < sg_endAt s) (fb \<or> 480 < b + seg_minutes s)) segs)"
      using step by simp
    then show ?thesis
      unfolding out IH by (simp only: fired_union [OF D W B])
  qed
qed

text \<open>What one period reports, its first segment on duty.\<close>

definition window_passed :: "seg list \<Rightarrow> bool" where
  "window_passed segs \<longleftrightarrow> (\<exists>u \<in> set segs. \<exists>s \<in> set segs.
     \<not> off u \<and> sg_status s = Driving \<and> sg_startAt u + 14 * 60 * 60000 < sg_endAt s)"

lemma addMinutes_num:
  assumes "\<bar>t\<bar> \<le> 2 ^ 52" "0 \<le> m" "m \<le> 2 ^ 30"
  shows "addMinutes t (num m) = t + m * 60000"
proof -
  have "\<bar>m * 60000\<bar> \<le> 2 ^ 52" using assms(2,3) by simp
  then show ?thesis using assms by (simp add: addMinutes_def num_mult num_add time_clip_num)
qed

lemma period_alerts_rules:
  assumes "\<And>s. s \<in> set segs \<Longrightarrow> timed s" "minutes segs \<le> 2 ^ 53" "segs \<noteq> []" "\<not> off (hd segs)"
    "sorted (map sg_startAt segs)"
  shows "rules (period_alerts segs) = {r. r = Driving_limit_11h \<and> 660 < driving_minutes segs}
    \<union> {r. r = Duty_window_14h \<and> window_passed segs} \<union> {r. r = Break_30min \<and> 480 < peak breaks driven 0 segs}"
proof -
  obtain m rest where segs: "segs = m # rest" using assms(3) by (cases segs) auto
  let ?e = "sg_startAt m + 14 * 60 * 60000"
  have e: "addMinutes (sg_startAt m) (num dutyWindowMin) = ?e"
    using assms(1) [of m] segs addMinutes_num [of "sg_startAt m" 840] by (simp add: timed_def dutyWindowMin_def)
  have w: "window_passed segs \<longleftrightarrow> (\<exists>s \<in> set segs. sg_status s = Driving \<and> ?e < sg_endAt s)"
  proof
    assume "window_passed segs"
    then obtain u s where u: "u \<in> set segs" "s \<in> set segs" "sg_status s = Driving"
      "sg_startAt u + 14 * 60 * 60000 < sg_endAt s" by (auto simp: window_passed_def)
    have "sg_startAt m \<le> sg_startAt u" using assms(5) u(1) segs by auto
    then have "?e < sg_endAt s" using u(4) by simp
    then show "\<exists>s \<in> set segs. sg_status s = Driving \<and> ?e < sg_endAt s" using u(2,3) by blast
  next
    assume "\<exists>s \<in> set segs. sg_status s = Driving \<and> ?e < sg_endAt s"
    then show "window_passed segs" using assms(4) segs by (auto simp: window_passed_def)
  qed
  have "period_alerts segs = scan_period ?e (scan 0 0 False False False) segs"
    using e by (simp add: period_alerts_def segs scan_def period_start_def)
  then show ?thesis
    using scan_period_rules [of segs 0 0 False False ?e False] assms(1,2) unfolding w by auto
qed

section \<open>The reference split\<close>

text \<open>The rest of a period under way, with \<open>o\<close> minutes of rest behind it, and what follows.\<close>

fun cut_shift :: "int \<Rightarrow> seg list \<Rightarrow> seg list \<times> seg list" where
  "cut_shift w [] = ([], [])"
| "cut_shift w (s # segs) =
    (if off s then (case cut_shift (w + seg_minutes s) segs of (a, b) \<Rightarrow> (s # a, b))
     else if 600 \<le> w then ([], s # segs)
     else (case cut_shift 0 segs of (a, b) \<Rightarrow> (s # a, b)))"

lemma cut_append: "cut_shift w segs = (a, b) \<Longrightarrow> segs = a @ b"
  by (induction w segs arbitrary: a b rule: cut_shift.induct) (auto split: prod.splits if_splits)

function shifts :: "seg list \<Rightarrow> seg list list" where
  "shifts [] = []"
| "shifts (s # segs) = (if off s then shifts segs
     else (case cut_shift 0 segs of (a, b) \<Rightarrow> (s # a) # shifts b))"
  by pat_completeness auto

termination
proof (relation "measure length")
  fix s segs a b
  assume "(a, b) = cut_shift 0 segs"
  then have "segs = a @ b" by (metis cut_append)
  then show "(b, s # segs) \<in> measure length" by simp
qed simp_all

text \<open>A period runs from an on-duty segment to an on-duty segment without a rest, and ends off duty;
  the rest before the next one is long enough.\<close>

definition shift_form :: "seg list \<Rightarrow> bool \<Rightarrow> bool" where
  "shift_form x again \<longleftrightarrow> (\<exists>core night. x = core @ night \<and> core \<noteq> [] \<and> \<not> off (hd core) \<and> \<not> off (last core)
     \<and> (\<forall>s \<in> set night. off s) \<and> peak (\<lambda>s. \<not> off s) seg_minutes 0 core < 600 \<and> (again \<longrightarrow> 600 \<le> minutes night))"

lemma cut_form:
  assumes "cut_shift w segs = (a, b)"
  obtains core night where "a = core @ night" "\<forall>s \<in> set night. off s" "core = [] \<or> \<not> off (last core)"
    "core = [] \<or> peak (\<lambda>s. \<not> off s) seg_minutes w core < 600"
    "b \<noteq> [] \<Longrightarrow> \<not> off (hd b) \<and> 600 \<le> (if core = [] then w else 0) + minutes night"
proof -
  have "\<exists>core night. a = core @ night \<and> (\<forall>s \<in> set night. off s) \<and> (core = [] \<or> \<not> off (last core))
    \<and> (core = [] \<or> peak (\<lambda>s. \<not> off s) seg_minutes w core < 600)
    \<and> (b \<noteq> [] \<longrightarrow> \<not> off (hd b) \<and> 600 \<le> (if core = [] then w else 0) + minutes night)"
    using assms
  proof (induction w segs arbitrary: a b rule: cut_shift.induct)
    case (1 w)
    then show ?case by simp
  next
    case (2 w s segs)
    show ?case
    proof (cases "off s")
      case True
      obtain a' where a': "cut_shift (w + seg_minutes s) segs = (a', b)" "a = s # a'"
        using 2(3) True by (auto split: prod.splits)
      obtain core night where c: "a' = core @ night" "\<forall>s \<in> set night. off s" "core = [] \<or> \<not> off (last core)"
        "core = [] \<or> peak (\<lambda>s. \<not> off s) seg_minutes (w + seg_minutes s) core < 600"
        "b \<noteq> [] \<longrightarrow> \<not> off (hd b) \<and> 600 \<le> (if core = [] then w + seg_minutes s else 0) + minutes night"
        using 2(1) [OF True a'(1)] by blast
      show ?thesis
      proof (cases "core = []")
        case True
        then show ?thesis
          using c a'(2) \<open>off s\<close> by - (rule exI [of _ "[]"], rule exI [of _ "s # night"], simp add: add.assoc)
      next
        case False
        then show ?thesis
          using c a'(2) \<open>off s\<close> by - (rule exI [of _ "s # core"], rule exI [of _ night], simp)
      qed
    next
      case on: False
      show ?thesis
      proof (cases "600 \<le> w")
        case True
        then show ?thesis using 2(3) on by auto
      next
        case False
        obtain a' where a': "cut_shift 0 segs = (a', b)" "a = s # a'"
          using 2(3) on False by (auto split: prod.splits)
        obtain core night where c: "a' = core @ night" "\<forall>s \<in> set night. off s" "core = [] \<or> \<not> off (last core)"
          "core = [] \<or> peak (\<lambda>s. \<not> off s) seg_minutes 0 core < 600"
          "b \<noteq> [] \<longrightarrow> \<not> off (hd b) \<and> 600 \<le> (if core = [] then 0 else 0) + minutes night"
          using 2(2) [OF on False a'(1)] by blast
        then show ?thesis
          using a'(2) on False by - (rule exI [of _ "s # core"], rule exI [of _ night], auto split: if_splits)
      qed
    qed
  qed
  then show thesis using that by blast
qed

fun well_split :: "seg list list \<Rightarrow> bool" where
  "well_split [] \<longleftrightarrow> True"
| "well_split (x # xs) \<longleftrightarrow> shift_form x (xs \<noteq> []) \<and> well_split xs"

lemma shifts_hd: "segs \<noteq> [] \<Longrightarrow> \<not> off (hd segs) \<Longrightarrow> shifts segs \<noteq> []"
  by (cases segs) (simp_all split: prod.splits)

lemma shifts_well_split: "well_split (shifts segs)"
proof (induction segs rule: shifts.induct)
  case 1
  then show ?case by simp
next
  case (2 s segs)
  show ?case
  proof (cases "off s")
    case True
    then show ?thesis using 2(1) by simp
  next
    case False
    obtain a b where ab: "cut_shift 0 segs = (a, b)" by fastforce
    obtain core night where c: "a = core @ night" "\<forall>s \<in> set night. off s" "core = [] \<or> \<not> off (last core)"
      "core = [] \<or> peak (\<lambda>s. \<not> off s) seg_minutes 0 core < 600"
      "b \<noteq> [] \<Longrightarrow> \<not> off (hd b) \<and> 600 \<le> (if core = [] then 0 else 0) + minutes night"
      using cut_form [OF ab] by metis
    have more: "shifts b \<noteq> [] \<longrightarrow> 600 \<le> minutes night" using c(5) by (cases "b = []") auto
    have "shift_form (s # a) (shifts b \<noteq> [])"
      unfolding shift_form_def
      using c(1-4) more False by - (rule exI [of _ "s # core"], rule exI [of _ night], auto)
    then show ?thesis using 2(2) [OF False ab [symmetric]] False ab by simp
  qed
qed

lemma shifts_concat: "\<exists>pre. segs = pre @ concat (shifts segs) \<and> (\<forall>s \<in> set pre. off s)"
proof (induction segs rule: shifts.induct)
  case 1
  then show ?case by simp
next
  case (2 s segs)
  show ?case
  proof (cases "off s")
    case True
    then obtain pre where "segs = pre @ concat (shifts segs)" "\<forall>s \<in> set pre. off s" using 2(1) by blast
    then show ?thesis using True by (intro exI [of _ "s # pre"]) simp
  next
    case False
    obtain a b where ab: "cut_shift 0 segs = (a, b)" by fastforce
    have form: "b \<noteq> [] \<Longrightarrow> \<not> off (hd b)" using cut_form [OF ab] by metis
    obtain pre where pre: "b = pre @ concat (shifts b)" "\<forall>s \<in> set pre. off s"
      using 2(2) [OF False ab [symmetric]] by blast
    have "pre = []"
    proof (rule ccontr)
      assume "pre \<noteq> []"
      then have "b \<noteq> []" "hd b = hd pre" using pre(1) by (auto, metis hd_append2)
      then show False using form pre(2) \<open>pre \<noteq> []\<close> by simp
    qed
    then show ?thesis using pre False ab cut_append [OF ab] by auto
  qed
qed

section \<open>The numbering agrees with the split\<close>

fun labels :: "int \<Rightarrow> seg list list \<Rightarrow> int list" where
  "labels p [] = []"
| "labels p (x # xs) = replicate (length x) p @ labels (p + 1) xs"

lemma assign_cut:
  assumes "\<forall>s \<in> set segs. timed s" "0 \<le> w" "w + minutes segs \<le> 2 ^ 53" "cut_shift w segs = (a, b)"
  shows "assign_from p (num w) True segs = replicate (length a) p @ assign_from p (num 0) False b"
  using assms
proof (induction w segs arbitrary: a b rule: cut_shift.induct)
  case (1 w)
  then show ?case by simp
next
  case (2 w s segs)
  have t: "timed s" "\<forall>x \<in> set segs. timed x" using 2(3) by simp_all
  have m: "0 < seg_minutes s" "0 \<le> minutes segs" using t minutes_nonneg [of segs] by (auto simp: timed_def)
  have w: "w + seg_minutes s \<le> 2 ^ 53" "w \<le> 2 ^ 53" "minutes segs \<le> 2 ^ 53" using 2(4,5) m by simp_all
  have n: "dadd (num w) (sg_durationMin s) = num (w + seg_minutes s)"
    using t(1) w m 2(4) by (simp add: timed_def num_add)
  have l: "dless (num w) (num offDutyResetMin) \<longleftrightarrow> w < 600"
    using w 2(4) by (simp add: offDutyResetMin_def num_less)
  show ?case
  proof (cases "off s")
    case True
    obtain a' where a': "cut_shift (w + seg_minutes s) segs = (a', b)" "a = s # a'"
      using 2(6) True by (auto split: prod.splits)
    have "assign_from p (num (w + seg_minutes s)) True segs = replicate (length a') p @ assign_from p (num 0) False b"
      using 2(4,5) m t(2) a'(1) by (intro 2(1) [OF True]) simp_all
    then show ?thesis using True a'(2) n by simp
  next
    case on: False
    show ?thesis
    proof (cases "600 \<le> w")
      case True
      then have "a = []" "b = s # segs" using 2(6) on by simp_all
      then show ?thesis using on l True by simp
    next
      case False
      obtain a' where a': "cut_shift 0 segs = (a', b)" "a = s # a'"
        using 2(6) on False by (auto split: prod.splits)
      have "assign_from p (num 0) True segs = replicate (length a') p @ assign_from p (num 0) False b"
        using w t(2) a'(1) by (intro 2(2) [OF on False]) simp_all
      then show ?thesis using on False a'(2) l by simp
    qed
  qed
qed

lemma assign_labels:
  assumes "\<forall>s \<in> set segs. timed s" "minutes segs \<le> 2 ^ 53"
  shows "assign_from p d False segs = replicate (length (takeWhile off segs)) (-1) @ labels (p + 1) (shifts segs)"
  using assms
proof (induction segs arbitrary: p d rule: shifts.induct)
  case 1
  then show ?case by simp
next
  case (2 s segs)
  have t: "timed s" "\<forall>x \<in> set segs. timed x" using 2(3) by simp_all
  have m: "0 < seg_minutes s" "0 \<le> minutes segs" "minutes segs \<le> 2 ^ 53"
    using t minutes_nonneg [of segs] 2(4) by (auto simp: timed_def)
  show ?case
  proof (cases "off s")
    case True
    then show ?thesis using 2(1) [OF True t(2) m(3)] by simp
  next
    case False
    obtain a b where ab: "cut_shift 0 segs = (a, b)" by fastforce
    have segs: "segs = a @ b" by (rule cut_append [OF ab])
    have form: "b \<noteq> [] \<Longrightarrow> \<not> off (hd b)" using cut_form [OF ab] by metis
    have tb: "\<forall>x \<in> set b. timed x" "minutes b \<le> 2 ^ 53"
      using t(2) m(3) minutes_nonneg [of a] segs by auto
    have lead: "takeWhile off b = []" using form by (cases b) auto
    have "assign_from (p + 1) (num 0) True segs = replicate (length a) (p + 1) @ assign_from (p + 1) (num 0) False b"
      using t(2) m(3) ab by (intro assign_cut) simp_all
    also have "assign_from (p + 1) (num 0) False b = labels (p + 1 + 1) (shifts b)"
      using 2(2) [OF False ab [symmetric] tb] lead by simp
    finally show ?thesis using False ab by (simp add: Let_def)
  qed
qed

lemma members_append:
  "length xs = length ps \<Longrightarrow> period_members (xs @ ys) (ps @ qs) p = period_members xs ps p @ period_members ys qs p"
  by (simp add: period_members_def)

lemma members_replicate:
  "period_members xs (replicate (length xs) q) p = (if q = p then xs else [])"
  by (cases "q = p") (induction xs, simp_all add: period_members_def)+

lemma members_labels:
  "period_members (concat xs) (labels q xs) (q + int i) = (if i < length xs then xs ! i else [])"
proof (induction xs arbitrary: q i)
  case Nil
  then show ?case by (simp add: period_members_def)
next
  case (Cons x xs)
  have IH: "period_members (concat xs) (labels (q + 1) xs) (q + 1 + int j) = (if j < length xs then xs ! j else [])" for j
    by (rule Cons.IH)
  have below: "period_members (concat xs) (labels (q + 1) xs) q = []"
  proof -
    have "\<forall>r \<in> set (labels k xs). k \<le> r" for k by (induction xs arbitrary: k) (auto, force)
    then have "\<forall>r \<in> set (labels (q + 1) xs). r \<noteq> q" by fastforce
    then show ?thesis by (auto simp: period_members_def filter_empty_conv dest: set_zip_rightD)
  qed
  show ?case
  proof (cases i)
    case 0
    then show ?thesis using below by (simp add: members_append members_replicate)
  next
    case (Suc j)
    then show ?thesis using IH [of j] by (simp add: members_append members_replicate ac_simps)
  qed
qed

lemma set_of_values_labels:
  "list_all (\<lambda>x. x \<noteq> []) xs \<Longrightarrow> set_of_values (labels q xs) = map (\<lambda>i. q + int i) [0..<length xs]"
proof (induction xs arbitrary: q)
  case Nil
  then show ?case by (simp add: set_of_values_def)
next
  case (Cons x xs)
  have above: "\<forall>r \<in> set (labels k xs). k \<le> r" for k by (induction xs arbitrary: k) (auto, force)
  have rep: "remdups (ys @ replicate n q) = remdups ys @ [q]" if "q \<notin> set ys" "0 < n" for ys :: "int list" and n
    using that
  proof (induction ys)
    case Nil
    then show ?case by (induction n) (auto split: if_splits)
  next
    case (Cons y ys)
    then show ?case by auto
  qed
  have "q \<notin> set (rev (labels (q + 1) xs))" using above [of "q + 1"] by fastforce
  then have "set_of_values (labels q (x # xs)) = q # set_of_values (labels (q + 1) xs)"
    using Cons.prems rep by (simp add: set_of_values_def)
  also have "\<dots> = q # map (\<lambda>i. q + 1 + int i) [0..<length xs]" using Cons by simp
  also have "\<dots> = map (\<lambda>i. q + int i) (0 # map Suc [0..<length xs])" by simp
  finally show ?case by (simp only: map_Suc_upt upt_rec [of 0 "length (x # xs)"]) simp
qed

lemma shift_form_ne: "well_split xs \<Longrightarrow> list_all (\<lambda>x. x \<noteq> []) xs"
  by (induction xs) (auto simp: shift_form_def)

text \<open>The numbered periods are the shifts.\<close>

lemma evaluateDutyPeriods_shifts:
  assumes "\<forall>s \<in> set segs. timed s" "minutes segs \<le> 2 ^ 53"
  shows "evaluateDutyPeriods segs = concat (map period_alerts (shifts segs))"
proof -
  let ?xs = "shifts segs" and ?pre = "takeWhile off segs"
  have ne: "list_all (\<lambda>x. x \<noteq> []) ?xs" by (rule shift_form_ne [OF shifts_well_split])
  have labels: "assignPeriods segs = replicate (length ?pre) (-1) @ labels 0 ?xs"
    using assign_labels [OF assms, of "-1"] by (simp add: assignPeriods_def)
  have above: "\<forall>r \<in> set (labels k xs). k \<le> r" for k xs by (induction xs arbitrary: k) (auto, force)
  have pos: "filter (\<lambda>p. 0 \<le> p) (assignPeriods segs) = labels 0 ?xs"
    using above [of 0 ?xs] by (simp add: labels filter_id_conv)
  have segs: "segs = ?pre @ concat ?xs"
  proof -
    obtain pre where pre: "segs = pre @ concat ?xs" "\<forall>s \<in> set pre. off s" using shifts_concat by blast
    have "takeWhile off (concat ?xs) = []"
      using shifts_well_split [of segs] by (cases ?xs) (auto simp: shift_form_def neq_Nil_conv)
    then have "?pre = pre" using pre by (metis append_Nil2 takeWhile_append2)
    then show ?thesis using pre(1) by simp
  qed
  have mem: "period_members segs (assignPeriods segs) (0 + int i) = ?xs ! i" if "i < length ?xs" for i
  proof -
    have "period_members segs (assignPeriods segs) (0 + int i)
        = period_members ?pre (replicate (length ?pre) (-1)) (0 + int i)
          @ period_members (concat ?xs) (labels 0 ?xs) (0 + int i)"
      by (subst (1) segs) (simp only: labels members_append length_replicate)
    then show ?thesis
      using members_labels [of ?xs 0 i] members_replicate [of ?pre "-1" "0 + int i"] that by simp
  qed
  have each: "map (\<lambda>i. period_alerts (period_members segs (assignPeriods segs) (0 + int i))) [0..<length ?xs]
      = map (\<lambda>i. period_alerts (?xs ! i)) [0..<length ?xs]"
    by (intro map_cong refl) (simp only: mem set_upt atLeastLessThan_iff)
  have "evaluateDutyPeriods segs = concat (map (\<lambda>i. period_alerts (?xs ! i)) [0..<length ?xs])"
    unfolding each [symmetric] by (simp add: evaluateDutyPeriods_def Let_def pos set_of_values_labels [OF ne] comp_def)
  also have "map (\<lambda>i. period_alerts (?xs ! i)) [0..<length ?xs] = map period_alerts ?xs"
    by (rule nth_equalityI) simp_all
  finally show ?thesis .
qed

section \<open>Stretches without a rest\<close>

lemma rested_peak:
  assumes "\<forall>s \<in> set segs. timed s"
  shows "rested segs \<longleftrightarrow> 600 \<le> peak (\<lambda>s. \<not> off s) seg_minutes 0 segs"
proof -
  have "0 \<le> seg_minutes s" if "s \<in> set segs" for s using assms that by (simp add: timed_def less_imp_le)
  then show ?thesis
    by (simp add: peak_sublist rested_def minutes_def)
qed

lemma rested_mono: "sublist xs ys \<Longrightarrow> rested xs \<Longrightarrow> rested ys"
  unfolding rested_def by (meson sublist_order.order.trans)

lemma suffix_onto:
  assumes "suffix ys (core @ night)" "ys \<noteq> []" "\<not> off (hd ys)" "\<forall>s \<in> set night. off s"
  shows "suffix night ys"
  using assms unfolding suffix_append
  by (metis in_set_conv_decomp list.set_sel(1) set_mono_suffix subsetD suffixI)

text \<open>A stretch without a rest, begun on duty, lies within one shift.\<close>

lemma stretch_in_shift:
  assumes "well_split xs" "sublist ys (concat xs)" "\<not> rested ys" "ys \<noteq> []" "\<not> off (hd ys)"
  obtains x where "x \<in> set xs" "sublist ys x"
proof -
  have "\<exists>x \<in> set xs. sublist ys x" using assms
  proof (induction xs)
    case Nil
    then show ?case by simp
  next
    case (Cons x xs)
    consider "sublist ys x" | "sublist ys (concat xs)"
      | us vs where "ys = us @ vs" "suffix us x" "prefix vs (concat xs)"
      using Cons.prems(2) by (auto simp: sublist_append)
    then show ?case
    proof cases
      case 1
      then show ?thesis by simp
    next
      case 2
      then show ?thesis using Cons by simp
    next
      case (3 us vs)
      consider "us = []" | "vs = []" | "us \<noteq> []" "vs \<noteq> []" by blast
      then show ?thesis
      proof cases
        case 1
        then have "sublist ys (concat xs)" using 3 by (simp add: prefix_imp_sublist)
        then show ?thesis using Cons by simp
      next
        case 2
        then show ?thesis using 3 by (auto intro: suffix_imp_sublist)
      next
        case both: 3
        then have "xs \<noteq> []" using 3(3) by auto
        then obtain core night where x: "x = core @ night" "\<forall>s \<in> set night. off s" "600 \<le> minutes night"
          using Cons.prems(1) by (auto simp: shift_form_def)
        have "suffix night us"
          using 3(1,2) both(1) Cons.prems(5) x by (intro suffix_onto [of us core]) simp_all
        then have "sublist night ys" using 3(1) by (auto simp: sublist_append intro: suffix_imp_sublist)
        then have "rested ys" using x by (auto simp: rested_def)
        then show ?thesis using Cons.prems(3) by simp
      qed
    qed
  qed
  then show thesis using that by blast
qed

text \<open>A property of stretches that more log only makes truer, and that segments off duty at the
  ends do not affect, holds of a shift exactly when it holds of a stretch without a rest.\<close>

lemma shift_iff_stretch:
  assumes timed: "\<forall>s \<in> set segs. timed s"
    and mono: "\<And>xs ys. set ys \<subseteq> set segs \<Longrightarrow> sublist xs ys \<Longrightarrow> Q xs \<Longrightarrow> Q ys"
    and front: "\<And>xs. Q xs \<Longrightarrow> Q (dropWhile off xs)"
    and behind: "\<And>xs night. \<forall>s \<in> set night. off s \<Longrightarrow> Q (xs @ night) \<Longrightarrow> Q xs"
    and work: "\<not> Q []"
  shows "(\<exists>x \<in> set (shifts segs). Q x) \<longleftrightarrow> (\<exists>ys. sublist ys segs \<and> \<not> rested ys \<and> Q ys)"
proof
  obtain pre where segs: "segs = pre @ concat (shifts segs)" "\<forall>s \<in> set pre. off s" using shifts_concat by blast
  have sub: "sublist x segs" if mem: "x \<in> set (shifts segs)" for x
  proof -
    obtain us vs where "shifts segs = us @ x # vs" using split_list [OF mem] by blast
    then have "segs = (pre @ concat us) @ x @ concat vs" using segs(1) by simp
    then show ?thesis unfolding sublist_def by blast
  qed
  {
    assume "\<exists>x \<in> set (shifts segs). Q x"
    then obtain x where x: "x \<in> set (shifts segs)" "Q x" by blast
    have wf: "\<exists>again. shift_form x again" if "well_split xs" "x \<in> set xs" for xs
      using that by (induction xs) auto
    obtain core night where c: "x = core @ night" "\<forall>s \<in> set night. off s" "peak (\<lambda>s. \<not> off s) seg_minutes 0 core < 600"
      using wf [OF shifts_well_split x(1)] by (auto simp: shift_form_def)
    have cs: "sublist core segs"
      using sub [OF x(1)] c(1) by (meson sublist_appendI sublist_order.order.trans sublist_append_rightI)
    then have "\<forall>s \<in> set core. timed s" using timed by (meson set_mono_sublist subsetD)
    then have "\<not> rested core" using c(3) by (simp add: rested_peak)
    moreover have "Q core" using behind [OF c(2)] x(2) c(1) by simp
    ultimately show "\<exists>ys. sublist ys segs \<and> \<not> rested ys \<and> Q ys" using cs by blast
  }
  {
    assume "\<exists>ys. sublist ys segs \<and> \<not> rested ys \<and> Q ys"
    then obtain ys where ys: "sublist ys segs" "\<not> rested ys" "Q ys" by blast
    define zs where "zs = dropWhile off ys"
    have zy: "sublist zs ys" by (simp add: zs_def suffix_imp_sublist suffix_dropWhile)
    have z: "sublist zs segs" "\<not> rested zs" "Q zs" "zs \<noteq> []" "\<not> off (hd zs)"
    proof -
      show "sublist zs segs" using zy ys(1) by (rule sublist_order.order.trans)
      show "\<not> rested zs" using rested_mono [OF zy] ys(2) by blast
      show "Q zs" using front [OF ys(3)] by (simp add: zs_def)
      then show "zs \<noteq> []" using work by auto
      then show "\<not> off (hd zs)" unfolding zs_def by (rule hd_dropWhile)
    qed
    have "sublist zs (concat (shifts segs))"
    proof -
      have "sublist zs (pre @ concat (shifts segs))" using z(1) segs(1) by simp
      then consider "sublist zs pre" | "sublist zs (concat (shifts segs))"
        | us vs where "zs = us @ vs" "suffix us pre" "prefix vs (concat (shifts segs))"
        by (auto simp: sublist_append)
      then show ?thesis
      proof cases
        case 1
        then have "hd zs \<in> set pre" using z(4) by (meson list.set_sel(1) set_mono_sublist subsetD)
        then show ?thesis using z(5) segs(2) by simp
      next
        case 2
        then show ?thesis .
      next
        case (3 us vs)
        have "us = []"
        proof (rule ccontr)
          assume "us \<noteq> []"
          then have "hd zs \<in> set pre" using 3 by (metis hd_append2 list.set_sel(1) set_mono_suffix subsetD)
          then show False using z(5) segs(2) by simp
        qed
        then show ?thesis using 3 by (simp add: prefix_imp_sublist)
      qed
    qed
    then obtain x where x: "x \<in> set (shifts segs)" "sublist zs x"
      using stretch_in_shift [OF shifts_well_split] z by metis
    have "Q x" using mono [OF _ x(2) z(3)] set_mono_sublist [OF sub [OF x(1)]] by simp
    then show "\<exists>x \<in> set (shifts segs). Q x" using x(1) by blast
  }
qed

end
