(* ===== verification/HosProperties.thy ===== *)
theory HosProperties
  imports HosShifts
begin

text \<open>
  What the hours-of-service evaluation reports, stated over the log itself: a rule is broken exactly
  when some stretch of the log that holds no ten hours' rest breaks it, and a rolling cycle exactly
  when the on-duty time of its days exceeds the limit.
\<close>

section \<open>What is reported\<close>

definition reported :: "hos_rule \<Rightarrow> hos_segment list \<Rightarrow> bool" where
  "reported r segments \<longleftrightarrow> r \<in> rules (hw_violations (validateHosWeek segments))"

lemma scan_cycle_rules: "rules (scan_cycle c segs fw ds) \<subseteq> {cy_rule c}"
  by (induction ds arbitrary: fw) (auto simp: cycle_alert_def Let_def)

lemma cycles_rules: "rules (evaluateCycles segs) \<subseteq> {Cycle_60h_7d, Cycle_70h_8d}"
  using scan_cycle_rules by (fastforce simp: evaluateCycles_def hos_cycles_def)

lemma minutes_part:
  assumes "\<forall>s \<in> set segs. timed s" "sublist xs segs"
  shows "minutes xs \<le> minutes segs"
proof -
  obtain us vs where segs: "segs = us @ xs @ vs" using assms(2) by (auto simp: sublist_def)
  have "0 \<le> minutes us" "0 \<le> minutes vs" using assms(1) segs by (auto intro!: minutes_nonneg)
  then show ?thesis using segs by simp
qed

lemma sorted_part: "sublist xs segs \<Longrightarrow> sorted (map f segs) \<Longrightarrow> sorted (map f xs)"
  by (auto simp: sublist_def sorted_append)

lemma shift_facts:
  assumes "x \<in> set (shifts segs)"
  shows "sublist x segs" "x \<noteq> []" "\<not> off (hd x)"
proof -
  obtain pre where pre: "segs = pre @ concat (shifts segs)" using shifts_concat by blast
  obtain us vs where "shifts segs = us @ x # vs" using split_list [OF assms] by blast
  then have "segs = (pre @ concat us) @ x @ concat vs" using pre by simp
  then show "sublist x segs" unfolding sublist_def by blast
  have "\<exists>again. shift_form x again" if "well_split xs" "x \<in> set xs" for xs
    using that by (induction xs) auto
  then have "\<exists>again. shift_form x again" using assms shifts_well_split by blast
  then show "x \<noteq> []" "\<not> off (hd x)" by (auto simp: shift_form_def)
qed

lemma duty_rules:
  assumes "whole_minutes segments"
  shows "rules (evaluateDutyPeriods (duty_log segments)) = (\<Union>x \<in> set (shifts (duty_log segments)).
    {r. r = Driving_limit_11h \<and> 660 < driving_minutes x} \<union> {r. r = Duty_window_14h \<and> window_passed x}
    \<union> {r. r = Break_30min \<and> 480 < peak breaks driven 0 x})"
proof -
  let ?segs = "duty_log segments"
  have t: "\<forall>s \<in> set ?segs. timed s" using duty_log_timed [OF assms] by blast
  have m: "minutes ?segs \<le> 2 ^ 53" using duty_log_minutes [OF assms] .
  have "rules (period_alerts x) = {r. r = Driving_limit_11h \<and> 660 < driving_minutes x}
    \<union> {r. r = Duty_window_14h \<and> window_passed x} \<union> {r. r = Break_30min \<and> 480 < peak breaks driven 0 x}"
    if "x \<in> set (shifts ?segs)" for x
  proof (rule period_alerts_rules)
    note f = shift_facts [OF that]
    show "timed s" if "s \<in> set x" for s using t set_mono_sublist [OF f(1)] that by blast
    show "minutes x \<le> 2 ^ 53" using minutes_part [OF t f(1)] m by simp
    show "x \<noteq> []" "\<not> off (hd x)" by (fact f)+
    show "sorted (map sg_startAt x)" by (rule sorted_part [OF f(1) duty_log_sorted])
  qed
  then show ?thesis by (simp add: evaluateDutyPeriods_shifts [OF t m])
qed

lemma reported_period:
  assumes "whole_minutes segments" "r \<notin> {Cycle_60h_7d, Cycle_70h_8d}"
  shows "reported r segments \<longleftrightarrow> (\<exists>x \<in> set (shifts (duty_log segments)).
    (r = Driving_limit_11h \<and> 660 < driving_minutes x) \<or> (r = Duty_window_14h \<and> window_passed x)
    \<or> (r = Break_30min \<and> 480 < peak breaks driven 0 x))"
proof -
  have "reported r segments \<longleftrightarrow> r \<in> rules (evaluateDutyPeriods (duty_log segments))"
    using cycles_rules [of "duty_log segments"] assms(2)
    by (auto simp: reported_def validateHosWeek_def Let_def rules_def)
  then show ?thesis unfolding duty_rules [OF assms(1)] by blast
qed

lemma off_driven: "off s \<Longrightarrow> driven s = 0"
  by (simp add: driven_def isOffDuty_def split: if_splits) auto

lemma driving_drop: "driving_minutes (dropWhile off xs) = driving_minutes xs"
  by (induction xs) (simp_all add: off_driven)

lemma driving_rest: "\<forall>s \<in> set night. off s \<Longrightarrow> driving_minutes night = 0"
  by (induction night) (simp_all add: off_driven)

lemma driving_part:
  assumes "\<forall>s \<in> set segs. timed s" "sublist xs segs"
  shows "driving_minutes xs \<le> driving_minutes segs"
proof -
  obtain us vs where segs: "segs = us @ xs @ vs" using assms(2) by (auto simp: sublist_def)
  have "0 \<le> driving_minutes us" "0 \<le> driving_minutes vs" using assms(1) segs by (auto intro!: driving_nonneg)
  then show ?thesis using segs by simp
qed

lemma driving_limit_stretch:
  assumes "whole_minutes segments"
  shows "reported Driving_limit_11h segments \<longleftrightarrow>
    (\<exists>ys. sublist ys (duty_log segments) \<and> \<not> rested ys \<and> 11 * 60 < driving_minutes ys)"
proof -
  have t: "\<forall>s \<in> set (duty_log segments). timed s" using duty_log_timed [OF assms] by blast
  have "(\<exists>x \<in> set (shifts (duty_log segments)). 660 < driving_minutes x) \<longleftrightarrow>
      (\<exists>ys. sublist ys (duty_log segments) \<and> \<not> rested ys \<and> 660 < driving_minutes ys)"
  proof (rule shift_iff_stretch [OF t])
    fix xs ys assume "set ys \<subseteq> set (duty_log segments)" "sublist xs ys" "660 < driving_minutes xs"
    then show "660 < driving_minutes ys" using driving_part [of ys xs] t by fastforce
  qed (simp_all add: driving_drop driving_rest)
  then show ?thesis using reported_period [OF assms] by simp
qed

text \<open>C33: For logs in whole minutes, the eleven-hour rule is reported exactly when the driver drove more
  than eleven hours in some stretch of the log that holds no ten hours off duty in a row.\<close>

theorem driving_limit_reported:
  assumes "whole_minutes segments"
  shows "reported Driving_limit_11h segments \<longleftrightarrow>
    (\<exists>ys. sublist ys (duty_log segments) \<and> \<not> rested ys \<and> 11 * 60 < driving_minutes ys)"
  by (rule driving_limit_stretch [OF assms])

lemma window_mono: "sublist xs ys \<Longrightarrow> window_passed xs \<Longrightarrow> window_passed ys"
  unfolding window_passed_def by (meson set_mono_sublist subsetD)

lemma on_dropWhile: "s \<in> set xs \<Longrightarrow> \<not> off s \<Longrightarrow> s \<in> set (dropWhile off xs)"
  by (induction xs) auto

lemma driving_on: "sg_status s = Driving \<Longrightarrow> \<not> off s"
  by (simp add: isOffDuty_def)

text \<open>The fourteen-hour rule is reported exactly when, in some stretch of the log without a
  ten-hour rest, the driver is still driving fourteen hours after an on-duty segment of it began.\<close>

theorem duty_window_reported:
  assumes "whole_minutes segments"
  shows "reported Duty_window_14h segments \<longleftrightarrow>
    (\<exists>ys. sublist ys (duty_log segments) \<and> \<not> rested ys \<and> window_passed ys)"
proof -
  have t: "\<forall>s \<in> set (duty_log segments). timed s" using duty_log_timed [OF assms] by blast
  have "(\<exists>x \<in> set (shifts (duty_log segments)). window_passed x) \<longleftrightarrow>
      (\<exists>ys. sublist ys (duty_log segments) \<and> \<not> rested ys \<and> window_passed ys)"
  proof (rule shift_iff_stretch [OF t])
    show "window_passed (dropWhile off xs)" if "window_passed xs" for xs
      using that driving_on on_dropWhile unfolding window_passed_def by blast
    show "window_passed xs" if "\<forall>s \<in> set night. off s" "window_passed (xs @ night)" for xs night
      using that unfolding window_passed_def by (metis Un_iff driving_on set_append)
    show "window_passed ys" if "sublist xs ys" "window_passed xs" for xs ys
      using that by (rule window_mono)
  qed (simp add: window_passed_def)
  then show ?thesis using reported_period [OF assms] by simp
qed

lemma breaks_drop: "480 < peak breaks driven 0 (dropWhile off xs) \<longleftrightarrow> 480 < peak breaks driven 0 xs"
  by (induction xs) (auto simp: off_driven)

lemma breaks_night: "\<forall>s \<in> set night. off s \<Longrightarrow> 480 < peak breaks driven a night \<Longrightarrow> 480 < a"
proof (induction night arbitrary: a)
  case Nil
  then show ?case by simp
next
  case (Cons s night)
  show ?case
  proof (cases "breaks s")
    case True
    then show ?thesis using Cons.IH [of 0] Cons.prems by (auto simp: less_max_iff_disj)
  next
    case False
    then show ?thesis using Cons.IH [of a] Cons.prems by (simp add: off_driven)
  qed
qed

lemma breaks_behind:
  "\<forall>s \<in> set night. off s \<Longrightarrow> 480 < peak breaks driven a (xs @ night) \<Longrightarrow> 480 < peak breaks driven a xs"
proof (induction xs arbitrary: a)
  case Nil
  then show ?case using breaks_night by simp
next
  case (Cons s xs)
  show ?case
    using Cons.IH [OF Cons.prems(1), of 0] Cons.IH [OF Cons.prems(1), of "a + driven s"] Cons.prems(2)
    by (simp add: less_max_iff_disj split: if_splits) blast
qed

lemma breaks_stretch:
  assumes "\<forall>s \<in> set segs. timed s"
  shows "480 < peak breaks driven 0 segs \<longleftrightarrow> (\<exists>ys. sublist ys segs \<and> unbroken ys \<and> 480 < driving_minutes ys)"
proof -
  have "481 \<le> peak breaks driven 0 segs \<longleftrightarrow>
      (\<exists>ys. sublist ys segs \<and> (\<forall>y \<in> set ys. \<not> breaks y) \<and> 481 \<le> sum_list (map driven ys))"
    using assms by (intro peak_sublist) (simp add: driven_nonneg)
  moreover have "480 < x \<longleftrightarrow> 481 \<le> x" for x :: int by linarith
  ultimately show ?thesis by (simp add: unbroken_def breaks_def driving_minutes_def)
qed

text \<open>C34: For logs in whole minutes, the half-hour-break rule is reported exactly when, in some stretch of
  the log without a ten-hour rest, the driver drove more than eight hours with no single non-driving segment of at
  least thirty minutes in between.\<close>

theorem break_reported:
  assumes "whole_minutes segments"
  shows "reported Break_30min segments \<longleftrightarrow>
    (\<exists>ys. sublist ys (duty_log segments) \<and> \<not> rested ys \<and> unbroken ys \<and> 8 * 60 < driving_minutes ys)"
proof -
  let ?segs = "duty_log segments"
  have t: "\<forall>s \<in> set ?segs. timed s" using duty_log_timed [OF assms] by blast
  have part: "\<forall>s \<in> set ys. timed s" if "sublist ys ?segs" for ys
    using t set_mono_sublist [OF that] by blast
  have "(\<exists>x \<in> set (shifts ?segs). 480 < peak breaks driven 0 x) \<longleftrightarrow>
      (\<exists>ys. sublist ys ?segs \<and> \<not> rested ys \<and> 480 < peak breaks driven 0 ys)"
  proof (rule shift_iff_stretch [OF t])
    fix xs ys assume "set ys \<subseteq> set ?segs" and sub: "sublist xs ys" and Q: "480 < peak breaks driven 0 xs"
    then have ty: "\<forall>s \<in> set ys. timed s" using t by blast
    then have tx: "\<forall>s \<in> set xs. timed s" using set_mono_sublist [OF sub] by blast
    show "480 < peak breaks driven 0 ys"
      using Q sub unfolding breaks_stretch [OF ty] breaks_stretch [OF tx] by (meson sublist_order.order.trans)
  qed (simp_all add: breaks_drop breaks_behind)
  also have "\<dots> \<longleftrightarrow> (\<exists>ys. sublist ys ?segs \<and> \<not> rested ys \<and> unbroken ys \<and> 480 < driving_minutes ys)"
  proof
    assume "\<exists>ys. sublist ys ?segs \<and> \<not> rested ys \<and> 480 < peak breaks driven 0 ys"
    then obtain ys where ys: "sublist ys ?segs" "\<not> rested ys" "480 < peak breaks driven 0 ys" by blast
    then obtain zs where "sublist zs ys" "unbroken zs" "480 < driving_minutes zs"
      using breaks_stretch [OF part [OF ys(1)]] by blast
    then show "\<exists>ys. sublist ys ?segs \<and> \<not> rested ys \<and> unbroken ys \<and> 480 < driving_minutes ys"
      using ys rested_mono by (meson sublist_order.order.trans)
  next
    assume "\<exists>ys. sublist ys ?segs \<and> \<not> rested ys \<and> unbroken ys \<and> 480 < driving_minutes ys"
    then show "\<exists>ys. sublist ys ?segs \<and> \<not> rested ys \<and> 480 < peak breaks driven 0 ys"
      using breaks_stretch [OF part] by blast
  qed
  finally show ?thesis using reported_period [OF assms] by simp
qed

section \<open>The cycles and the totals\<close>

lemma sum_minutes:
  assumes "\<forall>s \<in> set segs. timed s" "0 \<le> a" "a + minutes segs \<le> 2 ^ 53"
  shows "foldl (\<lambda>acc s. dadd acc (sg_durationMin s)) (num a) segs = num (a + minutes segs)"
  using assms
proof (induction segs arbitrary: a)
  case Nil
  then show ?case by simp
next
  case (Cons s segs)
  have p: "0 < seg_minutes s" "0 \<le> minutes segs"
    using Cons.prems(1) minutes_nonneg [of segs] by (auto simp: timed_def)
  then have "dadd (num a) (sg_durationMin s) = num (a + seg_minutes s)"
    using Cons.prems by (simp add: timed_def num_add)
  moreover have "foldl (\<lambda>acc s. dadd acc (sg_durationMin s)) (num (a + seg_minutes s)) segs
      = num (a + seg_minutes s + minutes segs)"
    using Cons.prems p by (intro Cons.IH) simp_all
  ultimately show ?case by (simp add: add.assoc)
qed

lemma minutes_filter: "\<forall>s \<in> set segs. timed s \<Longrightarrow> minutes (filter P segs) \<le> minutes segs"
  by (induction segs) (auto simp: timed_def)

definition on_duty_time :: "seg list \<Rightarrow> int \<Rightarrow> instant \<Rightarrow> int" where
  "on_duty_time segs days t = minutes (filter (\<lambda>s. isOnDuty (sg_status s)
     \<and> t - days * 24 * 60 * 60000 < sg_endAt s \<and> sg_endAt s \<le> t) segs)"

lemma on_duty_num:
  assumes "\<forall>s \<in> set segs. timed s" "minutes segs \<le> 2 ^ 53"
  shows "on_duty_minutes segs (t - days * 24 * 60 * 60000) t = num (on_duty_time segs days t)"
    "0 \<le> on_duty_time segs days t" "on_duty_time segs days t \<le> 2 ^ 53"
proof -
  let ?in = "filter (\<lambda>s. isOnDuty (sg_status s) \<and> t - days * 24 * 60 * 60000 < sg_endAt s \<and> sg_endAt s \<le> t) segs"
  have i: "\<forall>s \<in> set ?in. timed s" using assms(1) by simp
  have le: "minutes ?in \<le> 2 ^ 53"
    using minutes_filter [OF assms(1)] assms(2) by (rule order.trans)
  show "on_duty_minutes segs (t - days * 24 * 60 * 60000) t = num (on_duty_time segs days t)"
    using sum_minutes [OF i, of 0] le by (simp add: on_duty_minutes_def on_duty_time_def)
  show "0 \<le> on_duty_time segs days t" "on_duty_time segs days t \<le> 2 ^ 53"
    using minutes_nonneg [of ?in] i le by (auto simp: on_duty_time_def)
qed

lemma scan_cycle_breach:
  assumes "\<forall>s \<in> set segs. timed s" "minutes segs \<le> 2 ^ 53" "\<bar>cy_limitMin c\<bar> \<le> 2 ^ 53"
  shows "(\<exists>v \<in> set (scan_cycle c segs fw ds). hv_severity v = Hos_violation) \<longleftrightarrow>
    (\<exists>d \<in> set ds. cy_limitMin c < on_duty_time segs (cy_days c) (sg_endAt d))"
proof (induction ds arbitrary: fw)
  case Nil
  then show ?case by simp
next
  case (Cons d ds)
  note n = on_duty_num [OF assms(1,2), where t = "sg_endAt d" and days = "cy_days c"]
  have "dless (num (cy_limitMin c)) (num (on_duty_time segs (cy_days c) (sg_endAt d))) \<longleftrightarrow>
      cy_limitMin c < on_duty_time segs (cy_days c) (sg_endAt d)"
    using n(2,3) assms(3) by (intro num_less) simp_all
  then show ?case using Cons n(1) by (simp add: Let_def cycle_alert_def)
qed

text \<open>C35: For logs in whole minutes, a rolling cycle is reported as violated exactly when some driving
  segment ends with more on-duty time behind it, over the days of the cycle, than the cycle allows.\<close>

theorem cycle_reported:
  assumes "whole_minutes segments" "c \<in> set hos_cycles"
  shows "(\<exists>v \<in> set (hw_violations (validateHosWeek segments)). hv_rule v = cy_rule c \<and> hv_severity v = Hos_violation)
    \<longleftrightarrow> (\<exists>d \<in> set (duty_log segments). sg_status d = Driving
          \<and> cy_limitMin c < on_duty_time (duty_log segments) (cy_days c) (sg_endAt d))"
proof -
  let ?segs = "duty_log segments" and ?ds = "filter (\<lambda>s. sg_status s = Driving) (duty_log segments)"
  have t: "\<forall>s \<in> set ?segs. timed s" using duty_log_timed [OF assms(1)] by blast
  have m: "minutes ?segs \<le> 2 ^ 53" using duty_log_minutes [OF assms(1)] .
  have c: "cy_rule c \<in> {Cycle_60h_7d, Cycle_70h_8d}" "\<bar>cy_limitMin c\<bar> \<le> 2 ^ 53"
    using assms(2) by (auto simp: hos_cycles_def)
  have own: "cy_rule c' = cy_rule c \<Longrightarrow> c' \<in> set hos_cycles \<Longrightarrow> c' = c" for c'
    using assms(2) by (auto simp: hos_cycles_def)
  have no: "hv_rule v \<noteq> cy_rule c" if "v \<in> set (evaluateDutyPeriods ?segs)" for v
  proof -
    have "hv_rule v \<in> rules (evaluateDutyPeriods ?segs)" using that by (simp add: rules_def)
    then show ?thesis using c(1) unfolding duty_rules [OF assms(1)] by auto
  qed
  have rule: "hv_rule v = cy_rule c'" if "v \<in> set (scan_cycle c' ?segs False ?ds)" for v c'
    using that scan_cycle_rules [of c' ?segs False ?ds] by (auto simp: rules_def)
  have "(\<exists>v \<in> set (hw_violations (validateHosWeek segments)). hv_rule v = cy_rule c \<and> hv_severity v = Hos_violation)
    \<longleftrightarrow> (\<exists>v \<in> set (evaluateCycles ?segs). hv_rule v = cy_rule c \<and> hv_severity v = Hos_violation)"
    using no by (auto simp: validateHosWeek_def Let_def)
  also have "\<dots> \<longleftrightarrow> (\<exists>v \<in> set (scan_cycle c ?segs False ?ds). hv_severity v = Hos_violation)"
    using rule own assms(2) by (fastforce simp: evaluateCycles_def)
  finally show ?thesis unfolding scan_cycle_breach [OF t m c(2)] by (simp add: Bex_def conj_assoc)
qed

lemma sum_kind:
  assumes "\<forall>s \<in> set segs. timed s" "0 \<le> a" "a + minutes segs \<le> 2 ^ 53"
  shows "foldl (\<lambda>acc s. if P (sg_status s) then dadd acc (sg_durationMin s) else acc) (num a) segs
    = num (a + minutes (filter (\<lambda>s. P (sg_status s)) segs))"
proof -
  have "foldl (\<lambda>acc s. if P (sg_status s) then dadd acc (sg_durationMin s) else acc) x segs
      = foldl (\<lambda>acc s. dadd acc (sg_durationMin s)) x (filter (\<lambda>s. P (sg_status s)) segs)" for x
    by (induction segs arbitrary: x) simp_all
  then show ?thesis
    using sum_minutes [of "filter (\<lambda>s. P (sg_status s)) segs" a] assms minutes_filter [OF assms(1), of "\<lambda>s. P (sg_status s)"]
    by simp
qed

text \<open>The order in which the entries were recorded does not matter.\<close>

lemma sort_key_same_set:
  assumes "distinct (map f xs)" "distinct (map f ys)" "set xs = set ys"
  shows "sort_key f xs = sort_key f ys"
proof (rule map_sorted_distinct_set_unique)
  show "inj_on f (set (sort_key f xs) \<union> set (sort_key f ys))" using assms by (simp add: distinct_map)
  show "sorted (map f (sort_key f xs))" "sorted (map f (sort_key f ys))" by simp_all
  show "distinct (map f (sort_key f xs))" "distinct (map f (sort_key f ys))"
    using assms by (simp_all add: distinct_map)
  show "set (sort_key f xs) = set (sort_key f ys)" using assms(3) by simp
qed

section \<open>Some logs\<close>

text \<open>An entry from minute \<open>a\<close> to minute \<open>b\<close>.\<close>

definition entry :: "hos_status \<Rightarrow> int \<Rightarrow> int \<Rightarrow> hos_segment" where
  "entry st a b = \<lparr>hs_status = st, hs_startAt = a * 60000, hs_endAt = Some (b * 60000)\<rparr>"

definition seg_of :: "hos_status \<Rightarrow> int \<Rightarrow> int \<Rightarrow> seg" where
  "seg_of st a b = \<lparr>sg_status = st, sg_startAt = a * 60000, sg_endAt = b * 60000, sg_durationMin = num (b - a)\<rparr>"

lemma closed_entry:
  assumes "\<bar>a\<bar> \<le> 2 ^ 36" "\<bar>b\<bar> \<le> 2 ^ 36"
  shows "closed_seg (entry st a b) = Some (seg_of st a b)"
proof -
  have "whole_time (a * 60000)" "whole_time (b * 60000)" using assms by (simp_all add: whole_time_def)
  moreover have "(b * 60000 - a * 60000) div 60000 = b - a"
    by (simp only: left_diff_distrib [symmetric] nonzero_mult_div_cancel_right zero_neq_numeral [symmetric]) simp
  ultimately show ?thesis by (simp add: closed_seg_def entry_def seg_of_def minutesBetween_whole)
qed

lemmas log_simps = duty_log_def List.map_filter_simps closed_entry seg_of_def num_less

lemmas seg_simps = seg_of_def seg_minutes_def isOffDuty_def isOnDuty_def driven_def breaks_def

text \<open>Seven hours at the wheel, half an hour off, five hours more; ten hours in the yard and five at
  the wheel; eight hours at the wheel, twice twenty minutes away from it, one hour more; and sixty-one
  hours of work before one at the wheel.\<close>

definition long_day :: "hos_segment list" where
  "long_day = [entry Driving 0 420, entry Off_duty 420 450, entry Driving 450 750]"

definition late_drive :: "hos_segment list" where
  "late_drive = [entry On_duty_not_driving 0 600, entry Driving 600 900]"

definition split_break :: "hos_segment list" where
  "split_break = [entry Driving 0 480, entry Off_duty 480 500, entry On_duty_not_driving 500 520, entry Driving 520 580]"

definition long_week :: "hos_segment list" where
  "long_week = [entry On_duty_not_driving 0 3660, entry Driving 3660 3720]"

lemma logs_whole: "whole_minutes long_day" "whole_minutes late_drive" "whole_minutes split_break" "whole_minutes long_week"
  by (simp_all add: whole_minutes_def long_day_def late_drive_def split_break_def long_week_def entry_def
      whole_time_def logged_def)

lemma logs_sorted:
  "duty_log long_day = [seg_of Driving 0 420, seg_of Off_duty 420 450, seg_of Driving 450 750]"
  "duty_log late_drive = [seg_of On_duty_not_driving 0 600, seg_of Driving 600 900]"
  "duty_log split_break = [seg_of Driving 0 480, seg_of Off_duty 480 500, seg_of On_duty_not_driving 500 520, seg_of Driving 520 580]"
  "duty_log long_week = [seg_of On_duty_not_driving 0 3660, seg_of Driving 3660 3720]"
  by (simp_all add: long_day_def late_drive_def split_break_def long_week_def log_simps)

lemma not_rested:
  assumes "whole_minutes segments" "peak (\<lambda>s. \<not> off s) seg_minutes 0 (duty_log segments) < 600"
  shows "\<not> rested (duty_log segments)"
  using assms rested_peak [of "duty_log segments"] duty_log_timed [OF assms(1)] by simp

lemma logs_not_rested: "\<not> rested (duty_log long_day)" "\<not> rested (duty_log late_drive)" "\<not> rested (duty_log split_break)"
proof -
  show "\<not> rested (duty_log long_day)" by (rule not_rested [OF logs_whole(1)]) (simp add: logs_sorted seg_simps)
  show "\<not> rested (duty_log late_drive)" by (rule not_rested [OF logs_whole(2)]) (simp add: logs_sorted seg_simps)
  show "\<not> rested (duty_log split_break)" by (rule not_rested [OF logs_whole(3)]) (simp add: logs_sorted seg_simps)
qed

theorem driving_limit_reported_witness: "whole_minutes long_day \<and> reported Driving_limit_11h long_day"
proof
  have "sublist (duty_log long_day) (duty_log long_day) \<and> \<not> rested (duty_log long_day)
      \<and> 11 * 60 < driving_minutes (duty_log long_day)"
    using logs_not_rested by (simp add: logs_sorted seg_simps)
  then show "reported Driving_limit_11h long_day"
    using driving_limit_reported [OF logs_whole(1)] by blast
qed (rule logs_whole)

theorem duty_window_reported_witness: "whole_minutes late_drive \<and> reported Duty_window_14h late_drive"
proof
  have "sublist (duty_log late_drive) (duty_log late_drive) \<and> \<not> rested (duty_log late_drive)
      \<and> window_passed (duty_log late_drive)"
    using logs_not_rested by (simp add: window_passed_def logs_sorted seg_simps)
  then show "reported Duty_window_14h late_drive"
    using duty_window_reported [OF logs_whole(2)] by blast
qed (rule logs_whole)

text \<open>Forty minutes in a row away from the wheel, in two entries, are not a break.\<close>

theorem break_reported_witness: "whole_minutes split_break \<and> reported Break_30min split_break"
proof
  have "sublist (duty_log split_break) (duty_log split_break) \<and> \<not> rested (duty_log split_break)
      \<and> unbroken (duty_log split_break) \<and> 8 * 60 < driving_minutes (duty_log split_break)"
    using logs_not_rested by (simp add: unbroken_def logs_sorted seg_simps)
  then show "reported Break_30min split_break"
    using break_reported [OF logs_whole(3)] by blast
qed (rule logs_whole)

theorem cycle_reported_witness:
  "whole_minutes long_week \<and> \<lparr>cy_rule = Cycle_60h_7d, cy_limitMin = 60 * 60, cy_days = 7\<rparr> \<in> set hos_cycles
    \<and> (\<exists>v \<in> set (hw_violations (validateHosWeek long_week)). hv_rule v = Cycle_60h_7d \<and> hv_severity v = Hos_violation)"
proof (intro conjI)
  let ?c = "\<lparr>cy_rule = Cycle_60h_7d, cy_limitMin = 60 * 60, cy_days = 7\<rparr>"
  show c: "?c \<in> set hos_cycles" by (simp add: hos_cycles_def)
  have "\<exists>d \<in> set (duty_log long_week). sg_status d = Driving
      \<and> cy_limitMin ?c < on_duty_time (duty_log long_week) (cy_days ?c) (sg_endAt d)"
    by (simp add: logs_sorted on_duty_time_def seg_simps)
  then show "\<exists>v \<in> set (hw_violations (validateHosWeek long_week)). hv_rule v = Cycle_60h_7d \<and> hv_severity v = Hos_violation"
    using cycle_reported [OF logs_whole(4) c] by simp
qed (rule logs_whole)

end
