(* ===== verification/DotProperties.thy ===== *)
theory DotProperties
  imports Dot HosProperties
begin

text \<open>
  What the compliance module promises: when a driver's file counts as complete, that a tenant keeps
  one carrier profile and a driver one live qualification row whatever is recorded, and that
  tenants do not see each other's records.  Some small print on the log's week follows.
\<close>

section \<open>Stamps read back\<close>

lemma iso_date_form:
  assumes "plain_day n"
  shows "length (iso_date n) = 10"
proof -
  obtain y m d where c: "civil_of_day n = (y, m, d)" by (cases "civil_of_day n") auto
  have y: "0 \<le> y" "y \<le> 9999" using plain_day_year [OF assms c] .
  have v: "valid_civil y m d" using civil_of_day_valid [of n] c by simp
  then have m: "1 \<le> m" "m \<le> 12" "1 \<le> d" "d \<le> 31"
    using days_in_month_le [of m y] by (auto simp: valid_civil_def)
  then show ?thesis using y c by (simp add: iso_date_def)
qed

lemma clock_parts:
  assumes "0 \<le> (ms :: int)" "ms < 86400000"
  shows "ms div 3600000 < 24" "ms div 60000 mod 60 < 60" "ms div 1000 mod 60 < 60"
    "((ms div 3600000 * 60 + ms div 60000 mod 60) * 60 + ms div 1000 mod 60) * 1000 + ms mod 1000 = ms"
proof -
  define q where "q = ms div 1000"
  have a: "ms div 60000 = q div 60" "ms div 3600000 = q div 60 div 60"
  proof -
    show 1: "ms div 60000 = q div 60" using zdiv_zmult2_eq [of 60 ms 1000] by (simp add: q_def)
    have "ms div 3600000 = ms div 60000 div 60" using zdiv_zmult2_eq [of 60 ms 60000] by simp
    then show "ms div 3600000 = q div 60 div 60" using 1 by simp
  qed
  have b: "ms = q * 1000 + ms mod 1000" "q = q div 60 * 60 + q mod 60"
    "q div 60 = q div 60 div 60 * 60 + q div 60 mod 60"
    by (simp_all add: q_def)
  show "((ms div 3600000 * 60 + ms div 60000 mod 60) * 60 + ms div 1000 mod 60) * 1000 + ms mod 1000 = ms"
    unfolding a q_def [symmetric] using b by simp
  have "ms div 3600000 \<le> 86399999 div 3600000" using assms by (intro zdiv_mono1) simp_all
  then show "ms div 3600000 < 24" by simp
qed simp_all

lemma parse_stamp_toISOString:
  assumes "plain_instant t"
  shows "parse_stamp (toISOString t) = Some t"
proof -
  define ms where "ms = t mod day_ms"
  define h where "h = ms div 3600000"
  define m where "m = ms div 60000 mod 60"
  define sec where "sec = ms div 1000 mod 60"
  define frac where "frac = ms mod 1000"
  have ms: "0 \<le> ms" "ms < 86400000" by (simp_all add: ms_def day_ms_def)
  have p: "h < 24" "m < 60" "sec < 60" "((h * 60 + m) * 60 + sec) * 1000 + frac = ms"
    unfolding h_def m_def sec_def frac_def by (rule clock_parts [OF ms])+
  have nn: "0 \<le> h" "0 \<le> m" "0 \<le> sec" "0 \<le> frac" "frac < 1000"
    using ms by (simp_all add: h_def m_def sec_def frac_def pos_imp_zdiv_nonneg_iff)
  let ?D = "iso_date (t div day_ms)" and ?h = "pad_nat 2 (nat h)" and ?m = "pad_nat 2 (nat m)"
    and ?s = "pad_nat 2 (nat sec)" and ?f = "pad_nat 3 (nat frac)"
  have day: "plain_day (t div day_ms)" using assms by (simp add: plain_instant_def)
  have len: "length ?D = 10" "length ?h = 2" "length ?m = 2" "length ?s = 2" "length ?f = 3"
    using iso_date_form [OF day] p(1-3) nn length_pad_nat [of "nat frac" 3] by simp_all
  have s: "toISOString t = ?D @ ''T'' @ ?h @ '':'' @ ?m @ '':'' @ ?s @ ''.'' @ ?f @ ''Z''"
    by (simp add: toISOString_def Let_def ms_def h_def m_def sec_def frac_def)
  have parts: "length (toISOString t) = 24" "toISOString t ! 10 = CHR ''T''" "toISOString t ! 13 = CHR '':''"
    "toISOString t ! 16 = CHR '':''" "toISOString t ! 19 = CHR ''.''" "toISOString t ! 23 = CHR ''Z''"
    "take 10 (toISOString t) = ?D" "take 2 (drop 11 (toISOString t)) = ?h" "take 2 (drop 14 (toISOString t)) = ?m"
    "take 2 (drop 17 (toISOString t)) = ?s" "take 3 (drop 20 (toISOString t)) = ?f"
    unfolding s using len by (simp_all add: nth_append)
  have "t = t div day_ms * day_ms + ms" by (simp add: ms_def)
  then show ?thesis
    unfolding parse_stamp_def parts read_pad_nat parse_iso_date [OF day] using p nn by (simp add: nat_less_iff)
qed

section \<open>When a file is complete\<close>

lemma ddiv_sgn: "dbl_val y \<noteq> 0 \<Longrightarrow> sgn (dbl_val (ddiv x y)) = sgn (dbl_val x) * sgn (dbl_val y)"
proof -
  assume "dbl_val y \<noteq> 0"
  then obtain p q where "0 < q" "ddiv x y = nearest p q" "of_int p / of_int q = dbl_val x / dbl_val y"
    by (rule ddiv_fraction)
  then show ?thesis using sgn_fraction by (simp add: sgn_divide)
qed

lemma dq_daysUntil_neg:
  assumes "\<bar>w\<bar> \<le> 2 ^ 53" "\<bar>today\<bar> \<le> 2 ^ 53"
  shows "dq_daysUntil w today < 0 \<longleftrightarrow> w < today"
proof -
  have v: "dbl_val (num 86400000) = 86400000" using num_val [of 86400000] by simp
  have "sgn (dbl_val (ddiv (dsub (num w) (num today)) (num 86400000))) = sgn (of_int w - of_int today :: real)"
    using ddiv_sgn [of "num 86400000"] v dsub_sgn [of "num w" "num today"] num_val [OF assms(1)] num_val [OF assms(2)]
    by simp
  moreover have "dq_daysUntil w today < 0 \<longleftrightarrow> dbl_val (ddiv (dsub (num w) (num today)) (num 86400000)) < 0"
    by (simp add: dq_daysUntil_def dfloor_floor floor_less_iff)
  ultimately show ?thesis by (auto simp: sgn_if split: if_splits)
qed

lemma dq_dated_missing:
  assumes "dq_parse v = r" "\<And>w. r = Some w \<Longrightarrow> \<bar>w\<bar> \<le> 2 ^ 53" "\<bar>today\<bar> \<le> 2 ^ 53"
  shows "fst (dq_dated_item today (item, v)) = [] \<longleftrightarrow> (case r of None \<Rightarrow> item = Mvr | Some w \<Rightarrow> today \<le> w)"
  using assms dq_daysUntil_neg [of _ today]
  by (auto simp: dq_dated_item_def Let_def not_less split: option.splits)

lemma plain_small: "plain_day n \<Longrightarrow> \<bar>n * day_ms\<bar> \<le> 2 ^ 53"
  by (simp add: plain_day_def day_ms_def abs_le_iff)

lemma plain_instant_small:
  assumes "plain_instant t" shows "\<bar>t\<bar> \<le> 2 ^ 53"
proof -
  have "-719528 \<le> t div 86400000" "t div 86400000 \<le> 2932896"
    using assms by (simp_all add: plain_instant_def plain_day_def day_ms_def)
  then show ?thesis using div_bounds [of 86400000 t] by simp
qed

lemma toISOString_length: "plain_instant t \<Longrightarrow> length (toISOString t) = 24"
  using parse_stamp_toISOString [of t] by (auto simp: parse_stamp_def split: if_splits)

lemma parse_date_column:
  assumes "\<And>n. d = Some n \<Longrightarrow> plain_day n"
  shows "dq_parse (map_option iso_date d) = map_option (\<lambda>n. n * day_ms) d"
  using assms iso_date_form parse_iso_date
  by (cases d) (auto simp: dq_parse_def truthy_def, metis length_0_conv zero_neq_numeral)

lemma parse_stamp_column:
  assumes "\<And>t. d = Some t \<Longrightarrow> plain_instant t"
  shows "dq_parse (map_option toISOString d) = d"
proof (cases d)
  case None
  then show ?thesis by (simp add: dq_parse_def truthy_def)
next
  case (Some t)
  then have t: "plain_instant t" using assms by simp
  then have "toISOString t \<noteq> []" using toISOString_length by fastforce
  then show ?thesis using Some t parse_stamp_toISOString toISOString_length by (simp add: dq_parse_def truthy_def)
qed

lemma truthy_stamp:
  assumes "\<And>t. d = Some t \<Longrightarrow> plain_instant t"
  shows "truthy (map_option toISOString d) = None \<longleftrightarrow> d = None"
proof (cases d)
  case (Some t)
  then have "toISOString t \<noteq> []" using assms toISOString_length [of t] by fastforce
  then show ?thesis using Some by (simp add: truthy_def)
qed (simp add: truthy_def)

lemma set_of_values_Nil: "set_of_values xs = [] \<longleftrightarrow> xs = []"
  by (simp add: set_of_values_def)

definition in_force :: "instant \<Rightarrow> instant option \<Rightarrow> bool" where
  "in_force today d \<longleftrightarrow> (case d of None \<Rightarrow> False | Some w \<Rightarrow> today \<le> w)"

text \<open>The instants a qualification row holds, and the date columns of a driver, all of four-digit years.\<close>

definition plain_qualification :: "qualification_row \<Rightarrow> bool" where
  "plain_qualification q \<longleftrightarrow> (\<forall>t \<in> set_option (dqr_employmentAppSignedAt q) \<union> set_option (dqr_mvrPulledAt q)
     \<union> set_option (dqr_mvrExpiresAt q). plain_instant t)"

text \<open>C36: A driver's file is complete exactly when the application is signed and the MVR pulled and not
  expired, the license number and both test dates are on file, and the license and the medical
  certificate expire no earlier than now, a date counting from its first instant.\<close>

theorem dq_complete_exactly:
  assumes "dd_facts d = \<lparr>df_licenseNumber = licence, df_licenseExpiresAt = map_option iso_date lic,
      df_medicalCardExpiresAt = map_option iso_date med, df_drugTestLastAt = drug, df_roadTestCompletedAt = road\<rparr>"
    and "\<forall>n \<in> set_option lic \<union> set_option med. plain_day n" "\<forall>q \<in> set_option qual. plain_qualification q"
    and "plain_instant today"
  shows "dq_complete (vw_status (buildDqView d qual today)) \<longleftrightarrow>
    (\<exists>q. qual = Some q \<and> dqr_employmentAppSignedAt q \<noteq> None \<and> dqr_mvrPulledAt q \<noteq> None
       \<and> (dqr_mvrExpiresAt q = None \<or> in_force today (dqr_mvrExpiresAt q)))
    \<and> truthy licence \<noteq> None \<and> truthy drug \<noteq> None \<and> truthy road \<noteq> None
    \<and> in_force today (map_option (\<lambda>n. n * day_ms) lic) \<and> in_force today (map_option (\<lambda>n. n * day_ms) med)"
proof -
  have td: "\<bar>today\<bar> \<le> 2 ^ 53" using assms(4) by (rule plain_instant_small)
  have p_lic: "dq_parse (map_option iso_date lic) = map_option (\<lambda>n. n * day_ms) lic"
    using assms(2) by (intro parse_date_column) simp
  have p_med: "dq_parse (map_option iso_date med) = map_option (\<lambda>n. n * day_ms) med"
    using assms(2) by (intro parse_date_column) simp
  have lm: "fst (dq_dated_item today (License_expiry, map_option iso_date lic)) = []
      \<longleftrightarrow> in_force today (map_option (\<lambda>n. n * day_ms) lic)"
    using dq_dated_missing [OF p_lic _ td, where item = License_expiry] assms(2) plain_small
    by (auto simp: in_force_def split: option.splits)
  have mm: "fst (dq_dated_item today (Medical_certificate, map_option iso_date med)) = []
      \<longleftrightarrow> in_force today (map_option (\<lambda>n. n * day_ms) med)"
    using dq_dated_missing [OF p_med _ td, where item = Medical_certificate] assms(2) plain_small
    by (auto simp: in_force_def split: option.splits)
  show ?thesis
  proof (cases qual)
    case None
    then show ?thesis
      by (simp add: buildDqView_def Let_def dqFileStatus_def assms(1) set_of_values_Nil truthy_def)
  next
    case (Some q)
    then have pq: "plain_qualification q" using assms(3) by simp
    have sa: "truthy (map_option toISOString (dqr_employmentAppSignedAt q)) = None \<longleftrightarrow> dqr_employmentAppSignedAt q = None"
      using pq by (intro truthy_stamp) (simp add: plain_qualification_def)
    have pa: "truthy (map_option toISOString (dqr_mvrPulledAt q)) = None \<longleftrightarrow> dqr_mvrPulledAt q = None"
      using pq by (intro truthy_stamp) (simp add: plain_qualification_def)
    have pe: "\<And>t. dqr_mvrExpiresAt q = Some t \<Longrightarrow> plain_instant t"
      using pq by (simp add: plain_qualification_def)
    have em: "fst (dq_dated_item today (Mvr, map_option toISOString (dqr_mvrExpiresAt q))) = []
        \<longleftrightarrow> dqr_mvrExpiresAt q = None \<or> in_force today (dqr_mvrExpiresAt q)"
      using dq_dated_missing [OF parse_stamp_column [OF pe] _ td, where item = Mvr] pe plain_instant_small
      by (auto simp: in_force_def split: option.splits)
    show ?thesis
      using sa pa em lm mm
      by (auto simp: Some buildDqView_def Let_def dqFileStatus_def assms(1) set_of_values_Nil ext_facts_def)
  qed
qed

text \<open>On the last day of the medical certificate the file is already incomplete.\<close>

definition last_day_driver :: dot_driver_row where
  "last_day_driver = \<lparr>dd_id = 1, dd_tenantId = 1, dd_firstName = ''Ann'', dd_lastName = ''Lee'',
     dd_facts = \<lparr>df_licenseNumber = Some ''D1'', df_licenseExpiresAt = map_option iso_date (Some 21000),
       df_medicalCardExpiresAt = map_option iso_date (Some 20574), df_drugTestLastAt = Some ''2026-01-05'',
       df_roadTestCompletedAt = Some ''2026-01-05''\<rparr>, dd_deletedAt = None\<rparr>"

definition last_day_file :: qualification_row where
  "last_day_file = \<lparr>dqr_id = 2, dqr_tenantId = 1, dqr_driverId = 1, dqr_dqFileStatus = Dq_complete,
     dqr_employmentAppSignedAt = Some 0, dqr_mvrPulledAt = Some 0, dqr_mvrExpiresAt = None, dqr_notes = None,
     dqr_createdBy = None, dqr_updatedAt = 0, dqr_deletedAt = None\<rparr>"

lemma dq_complete_exactly_witness:
  "dq_complete (vw_status (buildDqView last_day_driver (Some last_day_file) (20574 * 86400000)))
   \<and> \<not> dq_complete (vw_status (buildDqView last_day_driver (Some last_day_file) (20574 * 86400000 + 1)))"
proof -
  have facts: "dd_facts last_day_driver = \<lparr>df_licenseNumber = Some ''D1'', df_licenseExpiresAt = map_option iso_date (Some 21000),
       df_medicalCardExpiresAt = map_option iso_date (Some 20574), df_drugTestLastAt = Some ''2026-01-05'',
       df_roadTestCompletedAt = Some ''2026-01-05''\<rparr>"
    by (simp add: last_day_driver_def)
  have hyps: "\<forall>n \<in> set_option (Some 21000) \<union> set_option (Some 20574). plain_day n"
    "\<forall>q \<in> set_option (Some last_day_file). plain_qualification q"
    "plain_instant (20574 * 86400000)" "plain_instant (20574 * 86400000 + 1)"
    by (simp_all add: plain_day_def plain_qualification_def plain_instant_def last_day_file_def day_ms_def)
  show ?thesis
    using dq_complete_exactly [OF facts hyps(1,2,3)] dq_complete_exactly [OF facts hyps(1,2,4)]
    by (simp add: in_force_def truthy_def last_day_file_def day_ms_def)
qed

section \<open>One profile, one file\<close>

lemma committed_pair: "committed s (Inr p) = snd p"
  by (cases p) simp

lemmas dot_defs = upsertCarrierProfile_def recordDqEvent_def recordHosEntry_def recordDrugTest_def
  recordIncident_def pg_date_def Let_def

lemma apply_dq_event_key [row_simps]:
  "dqr_id (apply_dq_event e q) = dqr_id q" "dqr_tenantId (apply_dq_event e q) = dqr_tenantId q"
  "dqr_driverId (apply_dq_event e q) = dqr_driverId q" "dqr_deletedAt (apply_dq_event e q) = dqr_deletedAt q"
  by (simp_all add: apply_dq_event_def)

definition one_profile :: "dot_db \<Rightarrow> bool" where
  "one_profile db \<longleftrightarrow> (\<forall>t. length (filter (live_carrier t) (dotCarrierProfile db)) \<le> 1)"

definition one_file :: "dot_db \<Rightarrow> bool" where
  "one_file db \<longleftrightarrow> (\<forall>t d. length (filter (\<lambda>q. live_qualification t q \<and> dqr_driverId q = d) (dotDriverQualifications db)) \<le> 1)"

lemma upsert_one_profile:
  assumes "one_profile db"
  shows "one_profile (committed db (upsertCarrierProfile ctx newId now i db))"
proof -
  have one: "length (filter (live_carrier t) (dotCarrierProfile db)) \<le> 1" for t
    using assms by (simp add: one_profile_def)
  show ?thesis
  proof (cases "select_first (live_carrier (ctx_tenantId ctx)) (dotCarrierProfile db)")
    case None
    have "length (filter (live_carrier t) (insert_into
        \<lparr>cr_id = newId, cr_tenantId = ctx_tenantId ctx, cr_values = i, cr_createdBy = Some (ctx_userId ctx),
         cr_updatedAt = now, cr_deletedAt = None\<rparr> (dotCarrierProfile db))) \<le> 1" for t
      using one [of t] None by (intro insert_keeps_one) (simp_all add: live_carrier_def)
    then show ?thesis using None by (simp add: upsertCarrierProfile_def Let_def one_profile_def)
  next
    case (Some r)
    have "length (filter (live_carrier t) (update_where Q (\<lambda>r. r\<lparr>cr_values := i, cr_updatedAt := now\<rparr>) (dotCarrierProfile db))) \<le> 1" for t Q
      using one by (rule update_keeps_one) (simp add: live_carrier_def)
    then show ?thesis using Some by (simp add: upsertCarrierProfile_def Let_def one_profile_def)
  qed
qed

lemma record_one_file:
  assumes "one_file db"
  shows "one_file (committed db (recordDqEvent ctx newId now i db))"
proof -
  let ?P = "\<lambda>t d q. live_qualification t q \<and> dqr_driverId q = d"
  let ?t = "ctx_tenantId ctx"
  have one: "length (filter (?P t d) (dotDriverQualifications db)) \<le> 1" for t d
    using assms by (simp add: one_file_def)
  show ?thesis
  proof (cases "select_first (\<lambda>d. live_driver ?t d \<and> dd_id d = ev_driverId i) (dotDrivers db)")
    case None
    then show ?thesis using assms by (simp add: recordDqEvent_def Let_def exec_simps)
  next
    case driver: (Some drv)
    show ?thesis
    proof (cases "select_first (?P ?t (ev_driverId i)) (dotDriverQualifications db)")
      case None
      have "length (filter (?P t d) (insert_into (apply_dq_event i \<lparr>dqr_id = newId, dqr_tenantId = ?t,
          dqr_driverId = ev_driverId i, dqr_dqFileStatus = Dq_incomplete, dqr_employmentAppSignedAt = None,
          dqr_mvrPulledAt = None, dqr_mvrExpiresAt = None, dqr_notes = None, dqr_createdBy = Some (ctx_userId ctx),
          dqr_updatedAt = now, dqr_deletedAt = None\<rparr>) (dotDriverQualifications db))) \<le> 1" for t d
        using one [of t d] None by (intro insert_keeps_one) (simp_all add: live_qualification_def row_simps)
      then show ?thesis using None driver by (simp add: recordDqEvent_def Let_def exec_simps one_file_def)
    next
      case (Some q)
      have "length (filter (?P t d) (update_where Q (\<lambda>q. (apply_dq_event i q)\<lparr>dqr_updatedAt := now\<rparr>) (dotDriverQualifications db))) \<le> 1" for t d Q
        using one by (rule update_keeps_one) (simp add: live_qualification_def row_simps)
      then show ?thesis using Some driver by (simp add: recordDqEvent_def Let_def exec_simps one_file_def)
    qed
  qed
qed

type_synonym dot_call = "ctx \<times> uuid \<times> instant \<times> dot_op"

fun dot_exec :: "dot_call \<Rightarrow> dot_db \<Rightarrow> dot_db" where
  "dot_exec (ctx, newId, now, op) db = dot_step ctx newId now op db"

lemma dot_exec_one:
  assumes "one_profile db" "one_file db"
  shows "one_profile (dot_exec call db)" "one_file (dot_exec call db)"
proof -
  obtain ctx newId now op where call: "call = (ctx, newId, now, op)" by (cases call) auto
  show "one_profile (dot_exec call db)"
    using assms upsert_one_profile
    by (cases op) (auto simp: call dot_defs one_profile_def require_def split: option.split)
  show "one_file (dot_exec call db)"
    using assms record_one_file
    by (cases op) (auto simp: call dot_defs one_file_def require_def split: option.split)
qed

text \<open>Whatever the tenants record, in whatever order, a tenant has at most one live carrier profile
  and a driver at most one live qualification file; the unique indexes are never what enforces it.\<close>

theorem one_profile_one_file:
  assumes "one_profile db" "one_file db"
  shows "one_profile (fold dot_exec calls db) \<and> one_file (fold dot_exec calls db)"
  using assms by (induction calls arbitrary: db) (auto simp: dot_exec_one simp del: dot_exec.simps)

definition no_records :: dot_db where
  "no_records = \<lparr>dotDrivers = [last_day_driver], dotCarrierProfile = [], dotDriverQualifications = [], dotHosLogs = [],
     dotDrugAlcoholTests = [], dotIncidentReports = []\<rparr>"

lemma one_profile_one_file_witness:
  "let op = Record_dq \<lparr>ev_driverId = 1, ev_dqFileStatus = None, ev_employmentAppSignedAt = Some (Some 5),
         ev_mvrPulledAt = None, ev_mvrExpiresAt = None, ev_notes = None\<rparr>;
       c = \<lparr>ctx_tenantId = 1, ctx_userId = 9, ctx_role = None\<rparr>;
       db = fold dot_exec [(c, 7, 10, op), (c, 8, 11, op)] no_records
   in one_profile db \<and> one_file db \<and> map dqr_id (dotDriverQualifications db) = [7]"
proof -
  let ?op = "Record_dq \<lparr>ev_driverId = 1, ev_dqFileStatus = None, ev_employmentAppSignedAt = Some (Some 5),
         ev_mvrPulledAt = None, ev_mvrExpiresAt = None, ev_notes = None\<rparr>"
  let ?c = "\<lparr>ctx_tenantId = 1, ctx_userId = 9, ctx_role = None\<rparr>"
  have start: "one_profile no_records" "one_file no_records"
    by (simp_all add: one_profile_def one_file_def no_records_def)
  have "map dqr_id (dotDriverQualifications (fold dot_exec [(?c, 7, 10, ?op), (?c, 8, 11, ?op)] no_records)) = [7]"
    by (simp add: no_records_def dot_defs exec_simps live_driver_def last_day_driver_def live_qualification_def
        insert_into_def update_where_def row_simps)
  then show ?thesis
    using one_profile_one_file [OF start, of "[(?c, 7, 10, ?op), (?c, 8, 11, ?op)]"] by (simp add: Let_def)
qed

section \<open>Tenant isolation\<close>

fun dot_caller :: "dot_call \<Rightarrow> uuid" where
  "dot_caller (ctx, newId, now, op) = ctx_tenantId ctx"

definition dot_rows :: "uuid \<Rightarrow> dot_db \<Rightarrow> dot_db" where
  "dot_rows t db = \<lparr>dotDrivers = filter (\<lambda>r. dd_tenantId r = t) (dotDrivers db),
     dotCarrierProfile = filter (\<lambda>r. cr_tenantId r = t) (dotCarrierProfile db),
     dotDriverQualifications = filter (\<lambda>r. dqr_tenantId r = t) (dotDriverQualifications db),
     dotHosLogs = filter (\<lambda>r. hr_tenantId r = t) (dotHosLogs db),
     dotDrugAlcoholTests = filter (\<lambda>r. dt_tenantId r = t) (dotDrugAlcoholTests db),
     dotIncidentReports = filter (\<lambda>r. ir_tenantId r = t) (dotIncidentReports db)\<rparr>"

lemma carrier_rows:
  "filter (\<lambda>r. cr_tenantId r = u) (update_where (\<lambda>r. cr_tenantId r = t \<and> cr_id r = k) (\<lambda>r. r\<lparr>cr_values := i, cr_updatedAt := now\<rparr>) tbl)
    = (if u = t then update_where (\<lambda>r. cr_tenantId r = t \<and> cr_id r = k) (\<lambda>r. r\<lparr>cr_values := i, cr_updatedAt := now\<rparr>)
        (filter (\<lambda>r. cr_tenantId r = u) tbl) else filter (\<lambda>r. cr_tenantId r = u) tbl)"
  by (rule filter_update_where_tenant) simp_all

lemma file_rows:
  "filter (\<lambda>r. dqr_tenantId r = u) (update_where (\<lambda>r. dqr_tenantId r = t \<and> dqr_id r = k) (\<lambda>q. (apply_dq_event i q)\<lparr>dqr_updatedAt := now\<rparr>) tbl)
    = (if u = t then update_where (\<lambda>r. dqr_tenantId r = t \<and> dqr_id r = k) (\<lambda>q. (apply_dq_event i q)\<lparr>dqr_updatedAt := now\<rparr>)
        (filter (\<lambda>r. dqr_tenantId r = u) tbl) else filter (\<lambda>r. dqr_tenantId r = u) tbl)"
  by (rule filter_update_where_tenant) (simp_all add: row_simps)

lemma own_lookup:
  "select_first (live_carrier t) (filter (\<lambda>r. cr_tenantId r = t) cs) = select_first (live_carrier t) cs"
  "select_first (\<lambda>d. live_driver t d \<and> dd_id d = k) (filter (\<lambda>r. dd_tenantId r = t) ds)
    = select_first (\<lambda>d. live_driver t d \<and> dd_id d = k) ds"
  "select_first (\<lambda>q. live_qualification t q \<and> dqr_driverId q = k) (filter (\<lambda>r. dqr_tenantId r = t) qs)
    = select_first (\<lambda>q. live_qualification t q \<and> dqr_driverId q = k) qs"
  by (rule select_first_filter, simp add: live_carrier_def live_driver_def live_qualification_def)+

lemma dot_own_rows: "dot_rows (dot_caller call) (dot_exec call db) = dot_exec call (dot_rows (dot_caller call) db)"
proof -
  obtain ctx newId now op where call: "call = (ctx, newId, now, op)" by (cases call) auto
  show ?thesis
    by (cases op)
      (simp_all add: call dot_rows_def dot_defs own_lookup carrier_rows file_rows filter_insert_into require_def
        row_simps split: option.split)
qed

lemma dot_other_rows:
  assumes "t \<noteq> dot_caller call"
  shows "dot_rows t (dot_exec call db) = dot_rows t db"
proof -
  obtain ctx newId now op where call: "call = (ctx, newId, now, op)" by (cases call) auto
  show ?thesis using assms
    by (cases op)
      (simp_all add: call dot_rows_def dot_defs carrier_rows file_rows filter_insert_into require_def
        row_simps split: option.split)
qed

interpretation dot_rls: tenant_isolation dot_exec dot_caller dot_rows
  by unfold_locales (rule dot_own_rows, rule dot_other_rows)

text \<open>What the other tenants record does not change what a tenant's compliance tables hold.\<close>

theorem dot_noninterference:
  "dot_rows t (fold dot_exec calls db) = fold dot_exec (filter (\<lambda>c. dot_caller c = t) calls) (dot_rows t db)"
  by (rule dot_rls.noninterference)

section \<open>A night across the week's edge\<close>

text \<open>Seven hours at the wheel until midnight and five more from half past: twelve hours without a
  rest.  A week that begins on the second day does not see the first entry.\<close>

definition hos_entry_row :: "uuid \<Rightarrow> int \<Rightarrow> int \<Rightarrow> int \<Rightarrow> hos_row" where
  "hos_entry_row i day a b = \<lparr>hr_id = i, hr_tenantId = 3, hr_driverId = 4, hr_logDate = day, hr_status = Driving,
     hr_startAt = a * 60000, hr_endAt = Some (b * 60000), hr_milesDriven = None, hr_vehicleId = None,
     hr_locationText = None, hr_remarks = None, hr_createdBy = None, hr_deletedAt = None\<rparr>"

definition night_db :: dot_db where
  "night_db = no_records\<lparr>dotHosLogs := [hos_entry_row 1 0 1020 1440, hos_entry_row 2 1 1470 1770]\<rparr>"

lemma night_logs:
  "map toSegment (hos_rows 3 4 0 (\<lambda>d. d \<le> 6) night_db) = [entry Driving 1020 1440, entry Driving 1470 1770]"
  "map toSegment (hos_rows 3 4 1 (\<lambda>d. d \<le> 7) night_db) = [entry Driving 1470 1770]"
  by (simp_all add: hos_rows_def night_db_def hos_entry_row_def live_hos_def select_where_def toSegment_def entry_def)

lemma week_edge_hides_driving:
  assumes "ctx_tenantId ctx = 3"
  shows "Driving_limit_11h \<in> rules (hw_violations (getHosWeek ctx 4 0 6 night_db))
    \<and> Driving_limit_11h \<notin> rules (hw_violations (getHosWeek ctx 4 1 7 night_db))"
proof
  let ?two = "[entry Driving 1020 1440, entry Driving 1470 1770]" and ?one = "[entry Driving 1470 1770]"
  have whole: "whole_minutes ?two" "whole_minutes ?one"
    by (simp_all add: whole_minutes_def entry_def whole_time_def logged_def)
  have logs: "duty_log ?two = [seg_of Driving 1020 1440, seg_of Driving 1470 1770]"
    "duty_log ?one = [seg_of Driving 1470 1770]"
    by (simp_all add: log_simps)
  have two: "reported Driving_limit_11h ?two"
  proof -
    have "\<not> rested (duty_log ?two)"
      by (rule not_rested [OF whole(1)]) (simp add: logs seg_simps)
    moreover have "11 * 60 < driving_minutes (duty_log ?two)" by (simp add: logs seg_simps)
    ultimately show ?thesis using reported_period [OF whole(1)] driving_limit_stretch [OF whole(1)] by blast
  qed
  then show "Driving_limit_11h \<in> rules (hw_violations (getHosWeek ctx 4 0 6 night_db))"
    using assms by (simp add: getHosWeek_def night_logs reported_def)
  have "\<not> reported Driving_limit_11h ?one"
  proof
    assume "reported Driving_limit_11h ?one"
    then obtain ys where "sublist ys (duty_log ?one)" "660 < driving_minutes ys"
      using driving_limit_stretch [OF whole(2)] by auto
    then show False
      using driving_part [of "duty_log ?one" ys] duty_log_timed [OF whole(2)] by (simp add: logs seg_simps)
  qed
  then show "Driving_limit_11h \<notin> rules (hw_violations (getHosWeek ctx 4 1 7 night_db))"
    using assms by (simp add: getHosWeek_def night_logs reported_def)
qed

end
