(* ===== verification/Yard.thy ===== *)
theory Yard
  imports Impound DispatchDb Json
begin

text \<open>
  modules/yard: facilities and their stalls (yard-facility.service.ts, yard-stall.service.ts and
  yard-stall.logic.ts), storage rate cards (rate-card.service.ts, storage-rate.logic.ts), the daily
  billing run (storage-billing.service.ts and its cron) and the release wizard
  (release-workflow.logic.ts, release-workflow.service.ts), over tables that extend those of the
  impound module.  Handlers return the stored row.  A date column holds the day's number, whose order
  is that of the YYYY-MM-DD texts the program compares.  What a request schema or a CHECK of the
  same condition guarantees is taken as given.  Lists, details and the gate search are not modelled.
\<close>

section \<open>Vehicle classes and rates\<close>

datatype storage_class = St_passenger | St_light_truck | St_heavy | St_motorcycle | St_trailer | St_rv

record vehicle_class_input =
  vc_dispatchClass :: "vehicle_class option"
  vc_bodyClass :: "string option"
  vc_gvwrLbs :: "int option"
  vc_axleCount :: "int option"

definition js_includes :: "string \<Rightarrow> string \<Rightarrow> bool" where
  "js_includes s n \<longleftrightarrow> list_ex (\<lambda>k. take (length n) (drop k s) = n) [0..<Suc (length s)]"

definition includesAny :: "string option \<Rightarrow> string list \<Rightarrow> bool" where
  "includesAny hay needles = (case truthy hay of None \<Rightarrow> False
     | Some h \<Rightarrow> list_ex (js_includes (map WebText.lower_char h)) needles)"

definition classifyVehicle :: "vehicle_class_input \<Rightarrow> storage_class" where
  "classifyVehicle i =
    (let d = vc_dispatchClass i; body = includesAny (vc_bodyClass i);
         at_least = (\<lambda>v n. case v of None \<Rightarrow> False | Some x \<Rightarrow> (n :: int) \<le> x)
     in if d = Some Motorcycle \<or> body [''motorcycle'', ''moped''] then St_motorcycle
        else if body [''trailer''] then St_trailer
        else if d = Some Rv \<or> body [''rv'', ''motorhome'', ''recreational''] then St_rv
        else if at_least (vc_gvwrLbs i) 26001 \<or> at_least (vc_axleCount i) 3 \<or> d = Some Heavy_duty
          \<or> d = Some Commercial then St_heavy
        else if d = Some Medium_duty \<or> at_least (vc_gvwrLbs i) 10001
          \<or> body [''pickup'', ''truck'', ''van'', ''suv''] then St_light_truck
        else St_passenger)"

record vehicle_facts =
  vf_vehicleClass :: vehicle_class
  vf_bodyClass :: "string option"
  vf_isElectric :: bool

definition classifyFromVehicle :: "vehicle_facts option \<Rightarrow> storage_class \<times> bool" where
  "classifyFromVehicle v =
    (classifyVehicle \<lparr>vc_dispatchClass = map_option vf_vehicleClass v, vc_bodyClass = Option.bind v vf_bodyClass,
       vc_gvwrLbs = None, vc_axleCount = None\<rparr>,
     case v of None \<Rightarrow> False | Some x \<Rightarrow> vf_isElectric x)"

record rate_card_row =
  rc_id :: uuid
  rc_tenantId :: uuid
  rc_facilityId :: uuid
  rc_name :: string
  rc_vehicleClass :: storage_class
  rc_dailyRateCents :: cents
  rc_freeDays :: int
  rc_maxDailyRateCents :: "cents option"
  rc_effectiveFrom :: int
  rc_effectiveTo :: "int option"
  rc_createdBy :: "uuid option"
  rc_updatedAt :: instant
  rc_deletedAt :: "instant option"

definition covers :: "int \<Rightarrow> rate_card_row \<Rightarrow> bool" where
  "covers day c \<longleftrightarrow> rc_effectiveFrom c \<le> day \<and> (case rc_effectiveTo c of None \<Rightarrow> True | Some u \<Rightarrow> day \<le> u)"

definition resolveRate :: "rate_card_row list \<Rightarrow> int \<Rightarrow> rate_card_row option" where
  "resolveRate cards chargeDate = (case filter (covers chargeDate) cards of [] \<Rightarrow> None
     | c # cs \<Rightarrow> Some (foldl (\<lambda>best c. if rc_effectiveFrom best < rc_effectiveFrom c then c else best) c cs))"

text \<open>9999-12-31\<close>

definition end_of_time :: int where
  "end_of_time = 2932896"

definition rateWindowsOverlap :: "int \<times> int option \<Rightarrow> int \<times> int option \<Rightarrow> bool" where
  "rateWindowsOverlap a b = (case (a, b) of ((af, at'), (bf, bt)) \<Rightarrow>
     (let aEnd = (case at' of None \<Rightarrow> end_of_time | Some u \<Rightarrow> u); bEnd = (case bt of None \<Rightarrow> end_of_time | Some u \<Rightarrow> u)
      in af \<le> bEnd \<and> bf \<le> aEnd))"

definition computeDailyStorageCharge :: "rate_card_row \<Rightarrow> int \<Rightarrow> cents option" where
  "computeDailyStorageCharge c dayIndex =
    (if dayIndex < 0 then None else if dayIndex < rc_freeDays c then None
     else let capped = (case rc_maxDailyRateCents c of None \<Rightarrow> rc_dailyRateCents c
            | Some m \<Rightarrow> min (rc_dailyRateCents c) m)
          in Some (max 0 capped))"

section \<open>Stalls\<close>

datatype stall_type = Stall_standard | Stall_oversized | Stall_covered | Stall_secure | Stall_hazmat | Stall_ev

record stall_row =
  sl_id :: uuid
  sl_tenantId :: uuid
  sl_facilityId :: uuid
  sl_label :: string
  sl_rowLabel :: "string option"
  sl_colLabel :: "string option"
  sl_x :: int
  sl_y :: int
  sl_stallType :: stall_type
  sl_occupiedByImpoundId :: "uuid option"
  sl_occupiedSince :: "instant option"
  sl_notes :: "string option"
  sl_updatedAt :: instant
  sl_deletedAt :: "instant option"

definition validateStallAssignment :: "stall_row \<Rightarrow> uuid \<Rightarrow> storage_class \<Rightarrow> bool \<Rightarrow> string option" where
  "validateStallAssignment stall impoundId cls isElectric =
    (if sl_deletedAt stall \<noteq> None then Some ''Stall has been removed.''
     else if sl_occupiedByImpoundId stall \<noteq> None \<and> sl_occupiedByImpoundId stall \<noteq> Some impoundId
     then Some ''Stall is already occupied by another vehicle.''
     else if sl_stallType stall = Stall_ev \<and> \<not> isElectric then Some ''EV stall requires an electric vehicle.''
     else if sl_stallType stall = Stall_standard \<and> cls \<in> {St_heavy, St_rv, St_trailer}
     then Some ''This vehicle is too large for a standard stall; use an oversized stall.''
     else None)"

section \<open>The release state machine\<close>

datatype release_status = Rw_initiated | Rw_id_verified | Rw_lienholder_authorized | Rw_payment_collected
  | Rw_gate_released | Rw_cancelled

datatype release_action = Verify_id | Authorize_lienholder | Collect_payment | Gate_release | Cancel_release

record release_state =
  rs_status :: release_status
  rs_hasIdVerified :: bool
  rs_hasLienholderAuth :: bool
  rs_hasPayment :: bool

text \<open>\<open>None\<close> when the action is allowed, otherwise the reason.\<close>

definition evaluateReleaseTransition :: "release_state \<Rightarrow> release_action \<Rightarrow> string option" where
  "evaluateReleaseTransition st action =
    (if rs_status st = Rw_cancelled
     then (if action = Cancel_release then None else Some ''Workflow is cancelled and cannot be modified.'')
     else if rs_status st = Rw_gate_released
     then (if action = Gate_release then None else Some ''Vehicle has already been released through the gate.'')
     else case action of
       Verify_id \<Rightarrow> None
     | Authorize_lienholder \<Rightarrow> if rs_hasIdVerified st then None
         else Some ''ID must be verified before recording lienholder authorization.''
     | Collect_payment \<Rightarrow> if rs_hasIdVerified st then None else Some ''ID must be verified before collecting payment.''
     | Gate_release \<Rightarrow> if \<not> rs_hasIdVerified st then Some ''ID must be verified before gate release.''
         else if \<not> rs_hasPayment st \<and> \<not> rs_hasLienholderAuth st
         then Some ''Payment must be collected or lienholder authorization recorded before gate release.''
         else None
     | Cancel_release \<Rightarrow> None)"

datatype payer_id_type = Id_drivers_license | Id_state_id | Id_passport | Id_military_id | Id_other

datatype yard_pay_method = Ym_cash | Ym_card | Ym_check | Ym_ach | Ym_waived | Ym_other

record workflow_row =
  wf_id :: uuid
  wf_tenantId :: uuid
  wf_impoundId :: uuid
  wf_status :: release_status
  wf_initiatedByUserId :: "uuid option"
  wf_completedAt :: "instant option"
  wf_cancelledAt :: "instant option"
  wf_cancelReason :: "string option"
  wf_payerName :: "string option"
  wf_payerIdType :: "payer_id_type option"
  wf_payerIdLast4 :: "string option"
  wf_lienholderAuthRef :: "string option"
  wf_paymentAmountCents :: "cents option"
  wf_paymentMethod :: "yard_pay_method option"
  wf_gateReleasedByUserId :: "uuid option"
  wf_gateReleasedAt :: "instant option"
  wf_updatedAt :: instant

definition stateOf :: "workflow_row \<Rightarrow> release_state" where
  "stateOf w = \<lparr>rs_status = wf_status w, rs_hasIdVerified = (wf_payerIdLast4 w \<noteq> None),
     rs_hasLienholderAuth = (wf_lienholderAuthRef w \<noteq> None), rs_hasPayment = (wf_paymentAmountCents w \<noteq> None)\<rparr>"

section \<open>Tables\<close>

record facility_row =
  fc_id :: uuid
  fc_tenantId :: uuid
  fc_name :: string
  fc_address :: json
  fc_gateHours :: json
  fc_notes :: "string option"
  fc_isActive :: bool
  fc_createdBy :: "uuid option"
  fc_updatedAt :: instant
  fc_deletedAt :: "instant option"

datatype stall_photo_type = Ph_overview | Ph_vehicle_in | Ph_vehicle_out | Ph_condition

record stall_photo_row =
  sp_id :: uuid
  sp_tenantId :: uuid
  sp_stallId :: uuid
  sp_photoUrl :: string
  sp_photoType :: stall_photo_type
  sp_capturedByUserId :: "uuid option"

datatype run_status = Run_pending | Run_completed | Run_failed

record billing_run_row =
  br_id :: uuid
  br_tenantId :: uuid
  br_ranAt :: instant
  br_periodStart :: int
  br_periodEnd :: int
  br_vehiclesCharged :: int
  br_totalChargedCents :: cents
  br_status :: run_status
  br_errorText :: "string option"

record charge_row =
  ch_id :: uuid
  ch_tenantId :: uuid
  ch_impoundId :: uuid
  ch_chargeDate :: int
  ch_vehicleClass :: storage_class
  ch_rateCardId :: "uuid option"
  ch_amountCents :: cents
  ch_billingRunId :: "uuid option"

record stored_vehicle_row =
  sv_id :: uuid
  sv_tenantId :: uuid
  sv_facts :: vehicle_facts

record yard_db = impound_db +
  yardVehicles :: "stored_vehicle_row list"
  yardFacilities :: "facility_row list"
  yardStalls :: "stall_row list"
  yardStallPhotos :: "stall_photo_row list"
  storageRateCards :: "rate_card_row list"
  storageCharges :: "charge_row list"
  storageBillingRuns :: "billing_run_row list"
  releaseWorkflows :: "workflow_row list"

definition invalid_state :: "string \<Rightarrow> exn" where
  "invalid_state m = Conflict ''INVALID_STATE'' m"

section \<open>Facilities\<close>

definition live_facility :: "uuid \<Rightarrow> uuid \<Rightarrow> facility_row \<Rightarrow> bool" where
  "live_facility t i f \<longleftrightarrow> fc_tenantId f = t \<and> fc_id f = i \<and> fc_deletedAt f = None"

record create_facility_input =
  cf_name :: string
  cf_address :: "json option"
  cf_gateHours :: "json option"
  cf_notes :: "string option"
  cf_isActive :: bool

definition createFacility :: "ctx \<Rightarrow> instant \<Rightarrow> uuid \<Rightarrow> create_facility_input \<Rightarrow> yard_db \<Rightarrow> exn + facility_row \<times> yard_db" where
  "createFacility ctx now newId i db =
    (let row = \<lparr>fc_id = newId, fc_tenantId = ctx_tenantId ctx, fc_name = cf_name i,
           fc_address = (case cf_address i of None \<Rightarrow> JObj [] | Some a \<Rightarrow> a),
           fc_gateHours = (case cf_gateHours i of None \<Rightarrow> JObj [] | Some a \<Rightarrow> a), fc_notes = cf_notes i,
           fc_isActive = cf_isActive i, fc_createdBy = Some (ctx_userId ctx), fc_updatedAt = now, fc_deletedAt = None\<rparr>
     in Inr (row, db\<lparr>yardFacilities := insert_into row (yardFacilities db)\<rparr>))"

record update_facility_input =
  uf_name :: "string option"
  uf_address :: "json option"
  uf_gateHours :: "json option"
  uf_notes :: "string option option"
  uf_isActive :: "bool option"

definition updateFacility :: "ctx \<Rightarrow> instant \<Rightarrow> uuid \<Rightarrow> update_facility_input \<Rightarrow> yard_db \<Rightarrow> exn + facility_row \<times> yard_db" where
  "updateFacility ctx now i inp db =
    (let P = live_facility (ctx_tenantId ctx) i in
     require (select_first P (yardFacilities db)) (NotFound ''Facility not found'') (\<lambda>_.
     (let (updated, tbl) = update_returning P (\<lambda>f. f\<lparr>fc_name := patched (uf_name inp) (fc_name f),
            fc_address := patched (uf_address inp) (fc_address f), fc_gateHours := patched (uf_gateHours inp) (fc_gateHours f),
            fc_notes := patched (uf_notes inp) (fc_notes f), fc_isActive := patched (uf_isActive inp) (fc_isActive f),
            fc_updatedAt := now\<rparr>) (yardFacilities db)
      in require updated (NotFound ''Facility not found'') (\<lambda>row. Inr (row, db\<lparr>yardFacilities := tbl\<rparr>)))))"

definition live_stall :: "uuid \<Rightarrow> stall_row \<Rightarrow> bool" where
  "live_stall t s \<longleftrightarrow> sl_tenantId s = t \<and> sl_deletedAt s = None"

definition softDeleteFacility :: "ctx \<Rightarrow> instant \<Rightarrow> uuid \<Rightarrow> yard_db \<Rightarrow> exn + unit \<times> yard_db" where
  "softDeleteFacility ctx now i db = (let t = ctx_tenantId ctx in
     require (select_first (live_facility t i) (yardFacilities db)) (NotFound ''Facility not found'') (\<lambda>_.
     ensure (select_first (\<lambda>s. live_stall t s \<and> sl_facilityId s = i) (yardStalls db) = None)
       (invalid_state ''Cannot delete a facility that still has stalls; remove the stalls first.'')
     (Inr ((), db\<lparr>yardFacilities := update_where (\<lambda>f. fc_tenantId f = t \<and> fc_id f = i)
         (\<lambda>f. f\<lparr>fc_deletedAt := Some now\<rparr>) (yardFacilities db)\<rparr>))))"

section \<open>The stall map\<close>

definition own_stall :: "uuid \<Rightarrow> uuid \<Rightarrow> stall_row \<Rightarrow> bool" where
  "own_stall t i s \<longleftrightarrow> live_stall t s \<and> sl_id s = i"

text \<open>The unique index on (tenant_id, facility_id, lower(label)) over live stalls.\<close>

definition label_taken :: "uuid \<Rightarrow> uuid \<Rightarrow> uuid \<Rightarrow> string \<Rightarrow> stall_row list \<Rightarrow> bool" where
  "label_taken t fac but label ss \<longleftrightarrow> list_ex (\<lambda>s. live_stall t s \<and> sl_facilityId s = fac \<and> sl_id s \<noteq> but
     \<and> map WebText.lower_char (sl_label s) = map WebText.lower_char label) ss"

record create_stall_input =
  cs_label :: string
  cs_rowLabel :: "string option"
  cs_colLabel :: "string option"
  cs_x :: int
  cs_y :: int
  cs_stallType :: stall_type
  cs_notes :: "string option"

definition createStall :: "ctx \<Rightarrow> instant \<Rightarrow> uuid \<Rightarrow> uuid \<Rightarrow> create_stall_input \<Rightarrow> yard_db \<Rightarrow> exn + stall_row \<times> yard_db" where
  "createStall ctx now newId fac i db = (let t = ctx_tenantId ctx in
     require (select_first (live_facility t fac) (yardFacilities db)) (NotFound ''Facility not found in this tenant'') (\<lambda>_.
     ensure (\<not> label_taken t fac newId (cs_label i) (yardStalls db)) (Failure ''yard_stalls_facility_label_unique'')
     (let row = \<lparr>sl_id = newId, sl_tenantId = t, sl_facilityId = fac, sl_label = cs_label i, sl_rowLabel = cs_rowLabel i,
            sl_colLabel = cs_colLabel i, sl_x = cs_x i, sl_y = cs_y i, sl_stallType = cs_stallType i,
            sl_occupiedByImpoundId = None, sl_occupiedSince = None, sl_notes = cs_notes i, sl_updatedAt = now,
            sl_deletedAt = None\<rparr>
      in Inr (row, db\<lparr>yardStalls := insert_into row (yardStalls db)\<rparr>))))"

record update_stall_input =
  us_label :: "string option"
  us_rowLabel :: "string option option"
  us_colLabel :: "string option option"
  us_x :: "int option"
  us_y :: "int option"
  us_stallType :: "stall_type option"
  us_notes :: "string option option"

definition updateStall :: "ctx \<Rightarrow> instant \<Rightarrow> uuid \<Rightarrow> update_stall_input \<Rightarrow> yard_db \<Rightarrow> exn + stall_row \<times> yard_db" where
  "updateStall ctx now i inp db = (let t = ctx_tenantId ctx; P = own_stall t i in
     require (select_first P (yardStalls db)) (NotFound ''Stall not found'') (\<lambda>existing.
     ensure (\<not> label_taken t (sl_facilityId existing) i (patched (us_label inp) (sl_label existing)) (yardStalls db))
       (Failure ''yard_stalls_facility_label_unique'')
     (let (updated, tbl) = update_returning P (\<lambda>s. s\<lparr>sl_label := patched (us_label inp) (sl_label s),
            sl_rowLabel := patched (us_rowLabel inp) (sl_rowLabel s), sl_colLabel := patched (us_colLabel inp) (sl_colLabel s),
            sl_x := patched (us_x inp) (sl_x s), sl_y := patched (us_y inp) (sl_y s),
            sl_stallType := patched (us_stallType inp) (sl_stallType s), sl_notes := patched (us_notes inp) (sl_notes s),
            sl_updatedAt := now\<rparr>) (yardStalls db)
      in require updated (NotFound ''Stall not found'') (\<lambda>row. Inr (row, db\<lparr>yardStalls := tbl\<rparr>)))))"

definition softDeleteStall :: "ctx \<Rightarrow> instant \<Rightarrow> uuid \<Rightarrow> yard_db \<Rightarrow> exn + unit \<times> yard_db" where
  "softDeleteStall ctx now i db = (let t = ctx_tenantId ctx in
     require (select_first (own_stall t i) (yardStalls db)) (NotFound ''Stall not found'') (\<lambda>existing.
     ensure (sl_occupiedByImpoundId existing = None)
       (invalid_state ''Cannot remove an occupied stall; release the vehicle first.'')
     (Inr ((), db\<lparr>yardStalls := update_where (\<lambda>s. sl_tenantId s = t \<and> sl_id s = i)
         (\<lambda>s. s\<lparr>sl_deletedAt := Some now\<rparr>) (yardStalls db)\<rparr>))))"

definition vehicle_of :: "uuid \<Rightarrow> impound_row \<Rightarrow> yard_db \<Rightarrow> vehicle_facts option" where
  "vehicle_of t r db = Option.bind (imp_vehicleId r) (\<lambda>v.
     map_option sv_facts (select_first (\<lambda>x. sv_tenantId x = t \<and> sv_id x = v) (yardVehicles db)))"

definition free_stalls_of :: "uuid \<Rightarrow> instant \<Rightarrow> uuid \<Rightarrow> stall_row list \<Rightarrow> stall_row list" where
  "free_stalls_of t now impoundId = update_where (\<lambda>s. live_stall t s \<and> sl_occupiedByImpoundId s = Some impoundId)
     (\<lambda>s. s\<lparr>sl_occupiedByImpoundId := None, sl_occupiedSince := None, sl_updatedAt := now\<rparr>)"

text \<open>The unique index on the occupant over live stalls.\<close>

definition occupant_taken :: "uuid \<Rightarrow> uuid \<Rightarrow> stall_row list \<Rightarrow> bool" where
  "occupant_taken but impoundId ss \<longleftrightarrow> list_ex (\<lambda>s. sl_deletedAt s = None \<and> sl_id s \<noteq> but
     \<and> sl_occupiedByImpoundId s = Some impoundId) ss"

definition assignVehicle :: "ctx \<Rightarrow> instant \<Rightarrow> uuid \<Rightarrow> uuid \<Rightarrow> yard_db \<Rightarrow> exn + stall_row \<times> yard_db" where
  "assignVehicle ctx now stallId impoundId db = (let t = ctx_tenantId ctx in
     require (select_first (own_stall t stallId) (yardStalls db)) (NotFound ''Stall not found'') (\<lambda>stall.
     require (select_first (live_impound t impoundId) (impoundRecords db))
       (NotFound ''Impound record not found in this tenant'') (\<lambda>record.
     (case classifyFromVehicle (vehicle_of t record db) of (cls, isElectric) \<Rightarrow>
     (case validateStallAssignment stall impoundId cls isElectric of
        Some reason \<Rightarrow> Inl (Conflict ''STALL_ASSIGNMENT_BLOCKED'' reason)
      | None \<Rightarrow>
        (let freed = free_stalls_of t now impoundId (yardStalls db);
             (updated, tbl) = update_returning (\<lambda>s. sl_tenantId s = t \<and> sl_id s = stallId)
               (\<lambda>s. s\<lparr>sl_occupiedByImpoundId := Some impoundId, sl_occupiedSince := Some now, sl_updatedAt := now\<rparr>) freed
         in ensure (\<not> occupant_taken stallId impoundId freed) (Failure ''yard_stalls_occupant_unique'')
            (require updated (NotFound ''Stall not found'') (\<lambda>row. Inr (row, db\<lparr>yardStalls := tbl\<rparr>)))))))))"

definition releaseStall :: "ctx \<Rightarrow> instant \<Rightarrow> uuid \<Rightarrow> yard_db \<Rightarrow> exn + stall_row \<times> yard_db" where
  "releaseStall ctx now stallId db = (let t = ctx_tenantId ctx in
     require (select_first (own_stall t stallId) (yardStalls db)) (NotFound ''Stall not found'') (\<lambda>stall.
     if sl_occupiedByImpoundId stall = None then Inr (stall, db)
     else (let (updated, tbl) = update_returning (\<lambda>s. sl_tenantId s = t \<and> sl_id s = stallId)
             (\<lambda>s. s\<lparr>sl_occupiedByImpoundId := None, sl_occupiedSince := None, sl_updatedAt := now\<rparr>) (yardStalls db)
           in require updated (NotFound ''Stall not found'') (\<lambda>row. Inr (row, db\<lparr>yardStalls := tbl\<rparr>)))))"

record layout_item =
  ly_id :: uuid
  ly_x :: int
  ly_y :: int
  ly_stallType :: "stall_type option"

definition place_stall :: "uuid \<Rightarrow> uuid \<Rightarrow> instant \<Rightarrow> layout_item \<Rightarrow> stall_row list \<Rightarrow> stall_row list" where
  "place_stall t fac now i = update_where (\<lambda>s. own_stall t (ly_id i) s \<and> sl_facilityId s = fac)
     (\<lambda>s. s\<lparr>sl_x := ly_x i, sl_y := ly_y i, sl_stallType := patched (ly_stallType i) (sl_stallType s), sl_updatedAt := now\<rparr>)"

definition bulkLayout :: "ctx \<Rightarrow> instant \<Rightarrow> uuid \<Rightarrow> layout_item list \<Rightarrow> yard_db \<Rightarrow> exn + stall_row list \<times> yard_db" where
  "bulkLayout ctx now fac items db = (let t = ctx_tenantId ctx in
     require (select_first (live_facility t fac) (yardFacilities db)) (NotFound ''Facility not found'') (\<lambda>_.
     (let tbl = fold (place_stall t fac now) items (yardStalls db)
      in Inr (sort_key sl_y (sort_key sl_x (select_where (\<lambda>s. live_stall t s \<and> sl_facilityId s = fac) tbl)),
              db\<lparr>yardStalls := tbl\<rparr>))))"

definition registerPhoto :: "ctx \<Rightarrow> uuid \<Rightarrow> uuid \<Rightarrow> string \<Rightarrow> stall_photo_type \<Rightarrow> yard_db \<Rightarrow> exn + stall_photo_row \<times> yard_db" where
  "registerPhoto ctx newId stallId url kind db = (let t = ctx_tenantId ctx in
     require (select_first (own_stall t stallId) (yardStalls db)) (NotFound ''Stall not found'') (\<lambda>_.
     (let row = \<lparr>sp_id = newId, sp_tenantId = t, sp_stallId = stallId, sp_photoUrl = url, sp_photoType = kind,
            sp_capturedByUserId = Some (ctx_userId ctx)\<rparr>
      in Inr (row, db\<lparr>yardStallPhotos := insert_into row (yardStallPhotos db)\<rparr>))))"

section \<open>Rate cards\<close>

definition live_card :: "uuid \<Rightarrow> rate_card_row \<Rightarrow> bool" where
  "live_card t c \<longleftrightarrow> rc_tenantId c = t \<and> rc_deletedAt c = None"

definition assertNoOverlap :: "uuid \<Rightarrow> uuid \<Rightarrow> storage_class \<Rightarrow> int \<times> int option \<Rightarrow> uuid option \<Rightarrow> rate_card_row list \<Rightarrow> bool" where
  "assertNoOverlap t fac cls window but cards \<longleftrightarrow>
    list_all (\<lambda>c. Some (rc_id c) = but \<or> \<not> rateWindowsOverlap window (rc_effectiveFrom c, rc_effectiveTo c))
      (select_where (\<lambda>c. live_card t c \<and> rc_facilityId c = fac \<and> rc_vehicleClass c = cls) cards)"

fun storage_class_text :: "storage_class \<Rightarrow> string" where
  "storage_class_text St_passenger = ''passenger''"
| "storage_class_text St_light_truck = ''light_truck''"
| "storage_class_text St_heavy = ''heavy''"
| "storage_class_text St_motorcycle = ''motorcycle''"
| "storage_class_text St_trailer = ''trailer''"
| "storage_class_text St_rv = ''rv''"

definition window_overlap :: "storage_class \<Rightarrow> exn" where
  "window_overlap cls = Conflict ''RATE_WINDOW_OVERLAP'' (''Effective window overlaps an existing ''
     @ storage_class_text cls @ '' rate card for this facility.'')"

record create_card_input =
  cc_name :: string
  cc_vehicleClass :: storage_class
  cc_dailyRateCents :: cents
  cc_freeDays :: int
  cc_maxDailyRateCents :: "cents option"
  cc_effectiveFrom :: int
  cc_effectiveTo :: "int option"

definition window_order :: "int \<Rightarrow> int option \<Rightarrow> bool" where
  "window_order f u \<longleftrightarrow> (case u of None \<Rightarrow> True | Some v \<Rightarrow> f \<le> v)"

definition createRateCard :: "ctx \<Rightarrow> instant \<Rightarrow> uuid \<Rightarrow> uuid \<Rightarrow> create_card_input \<Rightarrow> yard_db \<Rightarrow> exn + rate_card_row \<times> yard_db" where
  "createRateCard ctx now newId fac i db = (let t = ctx_tenantId ctx in
     ensure (window_order (cc_effectiveFrom i) (cc_effectiveTo i))
       (BadRequest ''VALIDATION'' ''effectiveTo must be on or after effectiveFrom'') (
     require (select_first (live_facility t fac) (yardFacilities db)) (NotFound ''Facility not found'') (\<lambda>_.
     ensure (assertNoOverlap t fac (cc_vehicleClass i) (cc_effectiveFrom i, cc_effectiveTo i) None (storageRateCards db))
       (window_overlap (cc_vehicleClass i))
     (let row = \<lparr>rc_id = newId, rc_tenantId = t, rc_facilityId = fac, rc_name = cc_name i, rc_vehicleClass = cc_vehicleClass i,
            rc_dailyRateCents = cc_dailyRateCents i, rc_freeDays = cc_freeDays i, rc_maxDailyRateCents = cc_maxDailyRateCents i,
            rc_effectiveFrom = cc_effectiveFrom i, rc_effectiveTo = cc_effectiveTo i, rc_createdBy = Some (ctx_userId ctx),
            rc_updatedAt = now, rc_deletedAt = None\<rparr>
      in Inr (row, db\<lparr>storageRateCards := insert_into row (storageRateCards db)\<rparr>)))))"

record update_card_input =
  uc_name :: "string option"
  uc_dailyRateCents :: "cents option"
  uc_freeDays :: "int option"
  uc_maxDailyRateCents :: "cents option option"
  uc_effectiveFrom :: "int option"
  uc_effectiveTo :: "int option option"

definition own_card :: "uuid \<Rightarrow> uuid \<Rightarrow> rate_card_row \<Rightarrow> bool" where
  "own_card t i c \<longleftrightarrow> live_card t c \<and> rc_id c = i"

definition updateRateCard :: "ctx \<Rightarrow> instant \<Rightarrow> uuid \<Rightarrow> update_card_input \<Rightarrow> yard_db \<Rightarrow> exn + rate_card_row \<times> yard_db" where
  "updateRateCard ctx now i inp db = (let t = ctx_tenantId ctx; P = own_card t i in
     require (select_first P (storageRateCards db)) (NotFound ''Rate card not found'') (\<lambda>existing.
     (let nextFrom = patched (uc_effectiveFrom inp) (rc_effectiveFrom existing);
          nextTo = patched (uc_effectiveTo inp) (rc_effectiveTo existing)
      in ensure (window_order nextFrom nextTo) (invalid_state ''effectiveTo must be on or after effectiveFrom.'') (
         ensure (assertNoOverlap t (rc_facilityId existing) (rc_vehicleClass existing) (nextFrom, nextTo) (Some i) (storageRateCards db))
           (window_overlap (rc_vehicleClass existing))
         (let (updated, tbl) = update_returning P (\<lambda>c. c\<lparr>rc_name := patched (uc_name inp) (rc_name c),
                rc_dailyRateCents := patched (uc_dailyRateCents inp) (rc_dailyRateCents c),
                rc_freeDays := patched (uc_freeDays inp) (rc_freeDays c),
                rc_maxDailyRateCents := patched (uc_maxDailyRateCents inp) (rc_maxDailyRateCents c),
                rc_effectiveFrom := patched (uc_effectiveFrom inp) (rc_effectiveFrom c),
                rc_effectiveTo := patched (uc_effectiveTo inp) (rc_effectiveTo c), rc_updatedAt := now\<rparr>) (storageRateCards db)
          in require updated (NotFound ''Rate card not found'') (\<lambda>row. Inr (row, db\<lparr>storageRateCards := tbl\<rparr>)))))))"

definition softDeleteRateCard :: "ctx \<Rightarrow> instant \<Rightarrow> uuid \<Rightarrow> yard_db \<Rightarrow> exn + unit \<times> yard_db" where
  "softDeleteRateCard ctx now i db = (let t = ctx_tenantId ctx in
     require (select_first (own_card t i) (storageRateCards db)) (NotFound ''Rate card not found'') (\<lambda>_.
     Inr ((), db\<lparr>storageRateCards := update_where (\<lambda>c. rc_tenantId c = t \<and> rc_id c = i)
         (\<lambda>c. c\<lparr>rc_deletedAt := Some now\<rparr>) (storageRateCards db)\<rparr>)))"

end
