(* ===== verification/YardOps.thy ===== *)
theory YardOps
  imports Yard
begin

text \<open>
  The daily storage billing (yard/billing/storage-billing.service.ts, storage-billing.cron.ts) and the
  release wizard (yard/release/release-workflow.service.ts).  A billing run commits its summary row
  first and its charges in a second transaction; an infrastructure failure of the second is an
  argument.
\<close>

section \<open>The billing run\<close>

record billing_scan =
  bs_scanned :: nat
  bs_written :: nat
  bs_total :: cents
  bs_charged :: "uuid list"
  bs_charges :: "charge_row list"

definition charged_on :: "uuid \<Rightarrow> int \<Rightarrow> charge_row list \<Rightarrow> bool" where
  "charged_on impoundId day cs \<longleftrightarrow> list_ex (\<lambda>c. ch_impoundId c = impoundId \<and> ch_chargeDate c = day) cs"

definition vehicle_any :: "impound_row \<Rightarrow> yard_db \<Rightarrow> vehicle_facts option" where
  "vehicle_any r db = Option.bind (imp_vehicleId r) (\<lambda>v.
     map_option sv_facts (select_first (\<lambda>x. sv_id x = v) (yardVehicles db)))"

text \<open>What a placement owes for the day: the record, its class, the card and the amount.\<close>

definition day_charge :: "uuid \<Rightarrow> int \<Rightarrow> yard_db \<Rightarrow> uuid \<times> uuid \<Rightarrow> (impound_row \<times> storage_class \<times> rate_card_row \<times> cents) option" where
  "day_charge t day db p = (case p of (fac, impoundId) \<Rightarrow>
     Option.bind (select_first (\<lambda>r. imp_id r = impoundId \<and> imp_deletedAt r = None) (impoundRecords db)) (\<lambda>r.
     if imp_releasedAt r \<noteq> None \<or> \<not> in_storage (imp_status r) then None
     else let dayIndex = day - imp_storageStartedAt r div day_ms in
       if dayIndex < 0 then None
       else let cls = fst (classifyFromVehicle (vehicle_any r db)) in
         Option.bind (resolveRate (select_where (\<lambda>c. live_card t c \<and> rc_facilityId c = fac \<and> rc_vehicleClass c = cls)
             (storageRateCards db)) day) (\<lambda>rc.
         map_option (\<lambda>amount. (r, cls, rc, amount)) (computeDailyStorageCharge rc dayIndex))))"

definition charge_placement :: "uuid \<Rightarrow> uuid \<Rightarrow> int \<Rightarrow> (nat \<Rightarrow> uuid) \<Rightarrow> yard_db \<Rightarrow> uuid \<times> uuid \<Rightarrow> billing_scan \<Rightarrow> billing_scan" where
  "charge_placement t runId day ids db p st =
    (let st' = st\<lparr>bs_scanned := bs_scanned st + 1\<rparr> in
     case day_charge t day db p of
       None \<Rightarrow> st'
     | Some (r, cls, rc, amount) \<Rightarrow>
         if charged_on (imp_id r) day (bs_charges st) then st'
         else st'\<lparr>bs_written := bs_written st + 1, bs_total := bs_total st + amount,
           bs_charged := List.insert (imp_id r) (bs_charged st),
           bs_charges := insert_into \<lparr>ch_id = ids (bs_scanned st), ch_tenantId = t, ch_impoundId = imp_id r,
             ch_chargeDate = day, ch_vehicleClass = cls, ch_rateCardId = Some (rc_id rc), ch_amountCents = amount,
             ch_billingRunId = Some runId\<rparr> (bs_charges st)\<rparr>)"

definition placements :: "uuid \<Rightarrow> yard_db \<Rightarrow> (uuid \<times> uuid) list" where
  "placements t db = List.map_filter (\<lambda>s. map_option (\<lambda>i. (sl_facilityId s, i)) (sl_occupiedByImpoundId s))
     (select_where (live_stall t) (yardStalls db))"

definition scan_placements :: "uuid \<Rightarrow> uuid \<Rightarrow> int \<Rightarrow> (nat \<Rightarrow> uuid) \<Rightarrow> yard_db \<Rightarrow> billing_scan" where
  "scan_placements t runId day ids db = fold (charge_placement t runId day ids db) (placements t db)
     \<lparr>bs_scanned = 0, bs_written = 0, bs_total = 0, bs_charged = [], bs_charges = storageCharges db\<rparr>"

record tick_result =
  tk_runId :: uuid
  tk_vehiclesScanned :: nat
  tk_vehiclesCharged :: nat
  tk_chargesWritten :: nat
  tk_totalChargedCents :: cents

definition runForTenant :: "uuid \<Rightarrow> instant \<Rightarrow> uuid \<Rightarrow> (nat \<Rightarrow> uuid) \<Rightarrow> string option \<Rightarrow> yard_db \<Rightarrow> (exn + tick_result) \<times> yard_db" where
  "runForTenant t now runId ids infra db =
    (let day = now div day_ms;
         pending = \<lparr>br_id = runId, br_tenantId = t, br_ranAt = now, br_periodStart = day, br_periodEnd = day,
           br_vehiclesCharged = 0, br_totalChargedCents = 0, br_status = Run_pending, br_errorText = None\<rparr>;
         db1 = db\<lparr>storageBillingRuns := insert_into pending (storageBillingRuns db)\<rparr>
     in case infra of
          Some message \<Rightarrow> (Inl (Failure message), db1\<lparr>storageBillingRuns := update_where (\<lambda>r. br_id r = runId)
            (\<lambda>r. r\<lparr>br_status := Run_failed, br_errorText := Some (take 1000 message)\<rparr>) (storageBillingRuns db1)\<rparr>)
        | None \<Rightarrow> (let st = scan_placements t runId day ids db1; n = length (bs_charged st) in
            (Inr \<lparr>tk_runId = runId, tk_vehiclesScanned = bs_scanned st, tk_vehiclesCharged = n,
                 tk_chargesWritten = bs_written st, tk_totalChargedCents = bs_total st\<rparr>,
             db1\<lparr>storageCharges := bs_charges st,
               storageBillingRuns := update_where (\<lambda>r. br_id r = runId) (\<lambda>r. r\<lparr>br_status := Run_completed,
                 br_vehiclesCharged := int n, br_totalChargedCents := bs_total st\<rparr>) (storageBillingRuns db1)\<rparr>)))"

definition tenantsWithOccupiedStalls :: "yard_db \<Rightarrow> uuid list" where
  "tenantsWithOccupiedStalls db = remdups (map sl_tenantId (select_where (\<lambda>s. sl_deletedAt s = None) (yardStalls db)))"

record sweep_totals =
  sw_processed :: nat
  sw_failed :: nat
  sw_written :: nat
  sw_total :: cents

definition MAX_ATTEMPTS :: nat where "MAX_ATTEMPTS = 3"

text \<open>The attempts of one tenant, \<open>k\<close> of them left; each has its own run id and outcome.\<close>

fun bill_tenant :: "nat \<Rightarrow> uuid \<Rightarrow> instant \<Rightarrow> (nat \<Rightarrow> uuid) \<Rightarrow> (nat \<Rightarrow> nat \<Rightarrow> uuid) \<Rightarrow> (nat \<Rightarrow> string option) \<Rightarrow>
    sweep_totals \<times> yard_db \<Rightarrow> sweep_totals \<times> yard_db" where
  "bill_tenant 0 t now runIds ids infra (s, db) = (s\<lparr>sw_failed := sw_failed s + 1\<rparr>, db)"
| "bill_tenant (Suc k) t now runIds ids infra (s, db) =
    (case runForTenant t now (runIds k) (ids k) (infra k) db of
       (Inl e, db') \<Rightarrow> bill_tenant k t now runIds ids infra (s, db')
     | (Inr r, db') \<Rightarrow> (s\<lparr>sw_processed := sw_processed s + 1, sw_written := sw_written s + tk_chargesWritten r,
          sw_total := sw_total s + tk_totalChargedCents r\<rparr>, db'))"

definition billing_sweep :: "instant \<Rightarrow> (uuid \<Rightarrow> nat \<Rightarrow> uuid) \<Rightarrow> (uuid \<Rightarrow> nat \<Rightarrow> nat \<Rightarrow> uuid) \<Rightarrow> (uuid \<Rightarrow> nat \<Rightarrow> string option) \<Rightarrow>
    yard_db \<Rightarrow> sweep_totals \<times> yard_db" where
  "billing_sweep now runIds ids infra db =
    fold (\<lambda>t. bill_tenant MAX_ATTEMPTS t now (runIds t) (ids t) (infra t)) (tenantsWithOccupiedStalls db)
      (\<lparr>sw_processed = 0, sw_failed = 0, sw_written = 0, sw_total = 0\<rparr>, db)"

section \<open>The release wizard\<close>

definition own_workflow :: "uuid \<Rightarrow> uuid \<Rightarrow> workflow_row \<Rightarrow> bool" where
  "own_workflow t i w \<longleftrightarrow> wf_tenantId w = t \<and> wf_id w = i"

definition live_workflow_of :: "uuid \<Rightarrow> uuid \<Rightarrow> workflow_row \<Rightarrow> bool" where
  "live_workflow_of t i w \<longleftrightarrow> wf_tenantId w = t \<and> wf_impoundId w = i \<and> wf_status w \<noteq> Rw_cancelled"

definition workflow_not_found :: exn where
  "workflow_not_found = NotFound ''Release workflow not found''"

definition release_blocked :: "string \<Rightarrow> exn" where
  "release_blocked reason = Conflict ''RELEASE_BLOCKED'' reason"

definition initiateRelease :: "ctx \<Rightarrow> instant \<Rightarrow> uuid \<Rightarrow> uuid \<Rightarrow> yard_db \<Rightarrow> exn + workflow_row \<times> yard_db" where
  "initiateRelease ctx now newId impoundId db = (let t = ctx_tenantId ctx in
     require (select_first (live_impound t impoundId) (impoundRecords db))
       (NotFound ''Impound record not found in this tenant'') (\<lambda>_.
     (case select_first (live_workflow_of t impoundId) (releaseWorkflows db) of
        Some existing \<Rightarrow> Inr (existing, db)
      | None \<Rightarrow>
        (let row = \<lparr>wf_id = newId, wf_tenantId = t, wf_impoundId = impoundId, wf_status = Rw_initiated,
               wf_initiatedByUserId = Some (ctx_userId ctx), wf_completedAt = None, wf_cancelledAt = None,
               wf_cancelReason = None, wf_payerName = None, wf_payerIdType = None, wf_payerIdLast4 = None,
               wf_lienholderAuthRef = None, wf_paymentAmountCents = None, wf_paymentMethod = None,
               wf_gateReleasedByUserId = None, wf_gateReleasedAt = None, wf_updatedAt = now\<rparr>
         in Inr (row, db\<lparr>releaseWorkflows := insert_into row (releaseWorkflows db)\<rparr>)))))"

definition release_step :: "ctx \<Rightarrow> instant \<Rightarrow> uuid \<Rightarrow> release_action \<Rightarrow> (workflow_row \<Rightarrow> bool) \<Rightarrow> (workflow_row \<Rightarrow> workflow_row) \<Rightarrow>
    yard_db \<Rightarrow> exn + workflow_row \<times> yard_db" where
  "release_step ctx now i action alreadyDone patch db = (let P = own_workflow (ctx_tenantId ctx) i in
     require (select_first P (releaseWorkflows db)) workflow_not_found (\<lambda>w.
     if alreadyDone w \<and> wf_status w \<noteq> Rw_cancelled \<and> wf_status w \<noteq> Rw_gate_released then Inr (w, db)
     else (case evaluateReleaseTransition (stateOf w) action of
        Some reason \<Rightarrow> Inl (release_blocked reason)
      | None \<Rightarrow> (let (updated, tbl) = update_returning P (\<lambda>w. (patch w)\<lparr>wf_updatedAt := now\<rparr>) (releaseWorkflows db)
          in require updated workflow_not_found (\<lambda>row. Inr (row, db\<lparr>releaseWorkflows := tbl\<rparr>))))))"

definition verifyReleaseId :: "ctx \<Rightarrow> instant \<Rightarrow> uuid \<Rightarrow> string \<Rightarrow> payer_id_type \<Rightarrow> string \<Rightarrow> yard_db \<Rightarrow> exn + workflow_row \<times> yard_db" where
  "verifyReleaseId ctx now i payer idType last4 = release_step ctx now i Verify_id (\<lambda>w. wf_payerIdLast4 w \<noteq> None)
     (\<lambda>w. w\<lparr>wf_status := Rw_id_verified, wf_payerName := Some payer, wf_payerIdType := Some idType,
        wf_payerIdLast4 := Some last4\<rparr>)"

definition authorizeLienholder :: "ctx \<Rightarrow> instant \<Rightarrow> uuid \<Rightarrow> string \<Rightarrow> yard_db \<Rightarrow> exn + workflow_row \<times> yard_db" where
  "authorizeLienholder ctx now i ref = release_step ctx now i Authorize_lienholder (\<lambda>w. wf_lienholderAuthRef w \<noteq> None)
     (\<lambda>w. w\<lparr>wf_status := Rw_lienholder_authorized, wf_lienholderAuthRef := Some ref\<rparr>)"

definition collectReleasePayment :: "ctx \<Rightarrow> instant \<Rightarrow> uuid \<Rightarrow> cents \<Rightarrow> yard_pay_method \<Rightarrow> yard_db \<Rightarrow> exn + workflow_row \<times> yard_db" where
  "collectReleasePayment ctx now i amount m = release_step ctx now i Collect_payment (\<lambda>w. wf_paymentAmountCents w \<noteq> None)
     (\<lambda>w. w\<lparr>wf_status := Rw_payment_collected, wf_paymentAmountCents := Some amount, wf_paymentMethod := Some m\<rparr>)"

definition cancelRelease :: "ctx \<Rightarrow> instant \<Rightarrow> uuid \<Rightarrow> string \<Rightarrow> yard_db \<Rightarrow> exn + workflow_row \<times> yard_db" where
  "cancelRelease ctx now i reason db = (let P = own_workflow (ctx_tenantId ctx) i in
     require (select_first P (releaseWorkflows db)) workflow_not_found (\<lambda>w.
     if wf_status w = Rw_cancelled then Inr (w, db)
     else (case evaluateReleaseTransition (stateOf w) Cancel_release of
        Some why \<Rightarrow> Inl (release_blocked why)
      | None \<Rightarrow> (let (updated, tbl) = update_returning P (\<lambda>w. w\<lparr>wf_status := Rw_cancelled, wf_cancelledAt := Some now,
             wf_cancelReason := Some reason, wf_updatedAt := now\<rparr>) (releaseWorkflows db)
          in require updated workflow_not_found (\<lambda>row. Inr (row, db\<lparr>releaseWorkflows := tbl\<rparr>))))))"

definition gateRelease :: "ctx \<Rightarrow> instant \<Rightarrow> uuid \<Rightarrow> yard_db \<Rightarrow> exn + workflow_row \<times> yard_db" where
  "gateRelease ctx now i db = (let t = ctx_tenantId ctx; P = own_workflow t i in
     require (select_first P (releaseWorkflows db)) workflow_not_found (\<lambda>w.
     if wf_status w = Rw_gate_released then Inr (w, db)
     else (case evaluateReleaseTransition (stateOf w) Gate_release of
        Some why \<Rightarrow> Inl (release_blocked why)
      | None \<Rightarrow>
        (let (updated, tbl) = update_returning P (\<lambda>w. w\<lparr>wf_status := Rw_gate_released,
               wf_gateReleasedByUserId := Some (ctx_userId ctx), wf_gateReleasedAt := Some now, wf_completedAt := Some now,
               wf_updatedAt := now\<rparr>) (releaseWorkflows db)
         in require updated workflow_not_found (\<lambda>row.
           let imp = wf_impoundId w; record = select_first (live_impound t imp) (impoundRecords db);
               closes = (case record of None \<Rightarrow> False | Some r \<Rightarrow> in_storage (imp_status r));
               payer = (case wf_payerName row of None \<Rightarrow> ''Unknown'' | Some p \<Rightarrow> p);
               paid = (case wf_paymentAmountCents row of None \<Rightarrow> 0 | Some a \<Rightarrow> a)
           in Inr (row, db\<lparr>releaseWorkflows := tbl,
                yardStalls := free_stalls_of t now imp (yardStalls db),
                impoundRecords := (if closes then update_where (own_impound t imp) (\<lambda>r. r\<lparr>imp_status := Released,
                    imp_releasedAt := Some now, imp_updatedAt := now\<rparr>) (impoundRecords db) else impoundRecords db),
                impoundEvents := impoundEvents db @ [(t, IMPOUND_RELEASED imp payer paid)]\<rparr>))))))"

section \<open>Everything that happens in the yard\<close>

datatype yard_op =
    Create_facility create_facility_input | Update_facility uuid update_facility_input | Delete_facility uuid
  | Create_stall uuid create_stall_input | Update_stall uuid update_stall_input | Delete_stall uuid
  | Assign_vehicle uuid uuid | Release_stall uuid | Bulk_layout uuid "layout_item list"
  | Register_photo uuid string stall_photo_type
  | Create_card uuid create_card_input | Update_card uuid update_card_input | Delete_card uuid
  | Initiate_release uuid | Verify_release uuid string payer_id_type string | Authorize_release uuid string
  | Pay_release uuid cents yard_pay_method | Cancel_workflow uuid string | Open_gate uuid

fun yard_step :: "ctx \<Rightarrow> instant \<Rightarrow> uuid \<Rightarrow> yard_op \<Rightarrow> yard_db \<Rightarrow> yard_db" where
  "yard_step ctx now newId (Create_facility i) db = committed db (createFacility ctx now newId i db)"
| "yard_step ctx now newId (Update_facility k i) db = committed db (updateFacility ctx now k i db)"
| "yard_step ctx now newId (Delete_facility k) db = committed db (softDeleteFacility ctx now k db)"
| "yard_step ctx now newId (Create_stall f i) db = committed db (createStall ctx now newId f i db)"
| "yard_step ctx now newId (Update_stall k i) db = committed db (updateStall ctx now k i db)"
| "yard_step ctx now newId (Delete_stall k) db = committed db (softDeleteStall ctx now k db)"
| "yard_step ctx now newId (Assign_vehicle k imp) db = committed db (assignVehicle ctx now k imp db)"
| "yard_step ctx now newId (Release_stall k) db = committed db (releaseStall ctx now k db)"
| "yard_step ctx now newId (Bulk_layout f is) db = committed db (bulkLayout ctx now f is db)"
| "yard_step ctx now newId (Register_photo k u p) db = committed db (registerPhoto ctx newId k u p db)"
| "yard_step ctx now newId (Create_card f i) db = committed db (createRateCard ctx now newId f i db)"
| "yard_step ctx now newId (Update_card k i) db = committed db (updateRateCard ctx now k i db)"
| "yard_step ctx now newId (Delete_card k) db = committed db (softDeleteRateCard ctx now k db)"
| "yard_step ctx now newId (Initiate_release imp) db = committed db (initiateRelease ctx now newId imp db)"
| "yard_step ctx now newId (Verify_release k p y l) db = committed db (verifyReleaseId ctx now k p y l db)"
| "yard_step ctx now newId (Authorize_release k r) db = committed db (authorizeLienholder ctx now k r db)"
| "yard_step ctx now newId (Pay_release k a m) db = committed db (collectReleasePayment ctx now k a m db)"
| "yard_step ctx now newId (Cancel_workflow k r) db = committed db (cancelRelease ctx now k r db)"
| "yard_step ctx now newId (Open_gate k) db = committed db (gateRelease ctx now k db)"

definition empty_yard :: yard_db where
  "empty_yard = \<lparr>impoundYards = [], impoundRecords = [], impoundHolds = [], impoundFees = [], impoundReleases = [],
     impoundEvents = [], yardVehicles = [], yardFacilities = [], yardStalls = [], yardStallPhotos = [],
     storageRateCards = [], storageCharges = [], storageBillingRuns = [], releaseWorkflows = []\<rparr>"

text \<open>The yard's handlers with fresh ids, billing runs of any tenant at any time, and whatever the
  impound module and the vehicle records do to their own tables.\<close>

inductive yard_reach :: "yard_db \<Rightarrow> bool" where
  start: "yard_reach empty_yard"
| handler: "yard_reach db \<Longrightarrow> newId \<notin> rc_id ` set (storageRateCards db) \<Longrightarrow> newId \<notin> wf_id ` set (releaseWorkflows db) \<Longrightarrow>
    yard_reach (yard_step ctx now newId op db)"
| billing: "yard_reach db \<Longrightarrow> runId \<notin> br_id ` set (storageBillingRuns db) \<Longrightarrow> Some runId \<notin> ch_billingRunId ` set (storageCharges db) \<Longrightarrow>
    yard_reach (snd (runForTenant t now runId ids infra db))"
| elsewhere: "yard_reach db \<Longrightarrow> yard_reach (db\<lparr>impoundYards := ys, impoundRecords := rs, impoundHolds := hs,
    impoundFees := fs, impoundReleases := rel, impoundEvents := es, yardVehicles := vs\<rparr>)"

end
