(* ===== verification/YardInv.thy ===== *)
theory YardInv
  imports YardOps
begin

text \<open>
  Which tables each handler of the yard writes, and the invariants of the release workflows and of the
  rate cards that every handler keeps.
\<close>

section \<open>Which tables a handler touches\<close>

lemmas yard_handlers = createFacility_def updateFacility_def softDeleteFacility_def createStall_def updateStall_def
  softDeleteStall_def assignVehicle_def releaseStall_def bulkLayout_def registerPhoto_def createRateCard_def
  updateRateCard_def softDeleteRateCard_def initiateRelease_def verifyReleaseId_def authorizeLienholder_def
  collectReleasePayment_def release_step_def cancelRelease_def gateRelease_def

fun workflow_op :: "yard_op \<Rightarrow> bool" where
  "workflow_op (Initiate_release i) \<longleftrightarrow> True"
| "workflow_op (Verify_release k p y l) \<longleftrightarrow> True"
| "workflow_op (Authorize_release k r) \<longleftrightarrow> True"
| "workflow_op (Pay_release k a m) \<longleftrightarrow> True"
| "workflow_op (Cancel_workflow k r) \<longleftrightarrow> True"
| "workflow_op (Open_gate k) \<longleftrightarrow> True"
| "workflow_op _ \<longleftrightarrow> False"

fun card_op :: "yard_op \<Rightarrow> bool" where
  "card_op (Create_card f i) \<longleftrightarrow> True"
| "card_op (Update_card k i) \<longleftrightarrow> True"
| "card_op (Delete_card k) \<longleftrightarrow> True"
| "card_op _ \<longleftrightarrow> False"

text \<open>Each handler writes its own tables.\<close>

definition ledger :: "yard_db \<Rightarrow> charge_row list \<times> billing_run_row list" where
  "ledger db = (storageCharges db, storageBillingRuns db)"

definition accounts :: "yard_db \<Rightarrow> workflow_row list \<times> rate_card_row list \<times> charge_row list \<times> billing_run_row list" where
  "accounts db = (releaseWorkflows db, storageRateCards db, ledger db)"

lemma keeps_accounts:
  "keeps accounts db (createFacility ctx now newId a1 db)"
  "keeps accounts db (updateFacility ctx now k a2 db)"
  "keeps accounts db (softDeleteFacility ctx now k db)"
  "keeps accounts db (createStall ctx now newId f a3 db)"
  "keeps accounts db (updateStall ctx now k a4 db)"
  "keeps accounts db (softDeleteStall ctx now k db)"
  "keeps accounts db (assignVehicle ctx now k imp db)"
  "keeps accounts db (releaseStall ctx now k db)"
  "keeps accounts db (bulkLayout ctx now f ly db)"
  "keeps accounts db (registerPhoto ctx newId k u ph db)"
  by (auto simp: yard_handlers accounts_def ledger_def Let_def update_returning_def intro!: keeps_rules)

lemma keeps_cards:
  "keeps (\<lambda>db. (storageRateCards db, ledger db)) db (initiateRelease ctx now newId imp db)"
  "keeps (\<lambda>db. (storageRateCards db, ledger db)) db (release_step ctx now k a done patch db)"
  "keeps (\<lambda>db. (storageRateCards db, ledger db)) db (cancelRelease ctx now k r db)"
  "keeps (\<lambda>db. (storageRateCards db, ledger db)) db (gateRelease ctx now k db)"
  by (auto simp: yard_handlers ledger_def Let_def update_returning_def intro!: keeps_rules)

lemma keeps_workflows:
  "keeps (\<lambda>db. (releaseWorkflows db, ledger db)) db (createRateCard ctx now newId f a5 db)"
  "keeps (\<lambda>db. (releaseWorkflows db, ledger db)) db (updateRateCard ctx now k a6 db)"
  "keeps (\<lambda>db. (releaseWorkflows db, ledger db)) db (softDeleteRateCard ctx now k db)"
  by (auto simp: yard_handlers ledger_def Let_def update_returning_def intro!: keeps_rules)

lemmas frames = keeps_accounts [unfolded keeps_def accounts_def prod.inject]
  keeps_cards [unfolded keeps_def prod.inject] keeps_workflows [unfolded keeps_def prod.inject]

lemma workflows_frame: "\<not> workflow_op op \<Longrightarrow> releaseWorkflows (yard_step ctx now newId op db) = releaseWorkflows db"
  by (cases op) (simp_all add: frames)

lemma cards_frame: "\<not> card_op op \<Longrightarrow> storageRateCards (yard_step ctx now newId op db) = storageRateCards db"
  by (cases op) (simp_all add: frames verifyReleaseId_def authorizeLienholder_def collectReleasePayment_def)

lemma ledger_frame: "ledger (yard_step ctx now newId op db) = ledger db"
  by (cases op) (simp_all add: frames verifyReleaseId_def authorizeLienholder_def collectReleasePayment_def)

lemma run_frame: "releaseWorkflows (snd (runForTenant t now runId ids infra db)) = releaseWorkflows db"
    "storageRateCards (snd (runForTenant t now runId ids infra db)) = storageRateCards db"
  by (simp_all add: runForTenant_def Let_def split: option.split)

section \<open>The gate\<close>

text \<open>A released workflow has a verified identity and a payment or an authorization on record.\<close>

definition gate_ok :: "workflow_row \<Rightarrow> bool" where
  "gate_ok w \<longleftrightarrow> (wf_status w = Rw_gate_released \<longrightarrow> wf_payerIdLast4 w \<noteq> None
     \<and> (wf_paymentAmountCents w \<noteq> None \<or> wf_lienholderAuthRef w \<noteq> None))"

definition workflow_inv :: "workflow_row list \<Rightarrow> bool" where
  "workflow_inv ws \<longleftrightarrow> distinct (map wf_id ws) \<and> (\<forall>w \<in> set ws. gate_ok w)
     \<and> (\<forall>t i. length (filter (live_workflow_of t i) ws) \<le> 1)"

lemma workflow_inv_update:
  assumes "workflow_inv ws" "select_first (own_workflow t i) ws = Some w"
    and key: "\<And>x. wf_id (f x) = wf_id x" "\<And>x. wf_tenantId (f x) = wf_tenantId x" "\<And>x. wf_impoundId (f x) = wf_impoundId x"
    and ok: "gate_ok (f w)" "wf_status (f w) \<noteq> Rw_cancelled \<Longrightarrow> wf_status w \<noteq> Rw_cancelled"
  shows "workflow_inv (update_where (own_workflow t i) f ws)"
proof -
  have d: "distinct (map wf_id ws)" and g: "\<forall>w \<in> set ws. gate_ok w"
    and one: "\<And>t i. length (filter (live_workflow_of t i) ws) \<le> 1"
    using assms(1) by (simp_all add: workflow_inv_def)
  have sel: "r = w" if "r \<in> set ws" "own_workflow t i r" for r
    using that select_first_SomeD [OF assms(2)] d by (auto simp: own_workflow_def distinct_map dest: inj_onD)
  have "set (update_where (own_workflow t i) f ws) = insert (f w) (set ws - {w})"
    by (rule set_update_found [OF d assms(2)]) (simp add: own_workflow_def)
  then have "\<forall>r \<in> set (update_where (own_workflow t i) f ws). gate_ok r" using g ok(1) by simp
  moreover have "length (filter (live_workflow_of u k) (update_where (own_workflow t i) f ws)) \<le> 1" for u k
  proof -
    have "length (filter (live_workflow_of u k) (update_where (own_workflow t i) f ws)) \<le> length (filter (live_workflow_of u k) ws)"
      using sel ok(2) key by (intro length_filter_update_in) (auto simp: live_workflow_of_def)
    then show ?thesis using one [of u k] by simp
  qed
  ultimately show ?thesis using d key(1) by (simp add: workflow_inv_def map_update_where)
qed

lemma release_step_outcome:
  assumes r: "release_step ctx now i action alreadyDone patch db = Inr (x, db')"
  shows "db' = db \<or> (\<exists>w. select_first (own_workflow (ctx_tenantId ctx) i) (releaseWorkflows db) = Some w
    \<and> evaluateReleaseTransition (stateOf w) action = None
    \<and> releaseWorkflows db' = update_where (own_workflow (ctx_tenantId ctx) i) (\<lambda>w. (patch w)\<lparr>wf_updatedAt := now\<rparr>) (releaseWorkflows db))"
proof -
  from r obtain w where w: "select_first (own_workflow (ctx_tenantId ctx) i) (releaseWorkflows db) = Some w"
    by (auto simp: release_step_def Let_def)
  then show ?thesis
    using r by (cases "evaluateReleaseTransition (stateOf w) action")
      (auto simp: release_step_def Let_def update_returning_def w require_def split: if_splits)
qed

lemma transition_live:
  "evaluateReleaseTransition (stateOf w) a = None \<Longrightarrow> a \<noteq> Cancel_release \<Longrightarrow> wf_status w \<noteq> Rw_cancelled"
  by (auto simp: evaluateReleaseTransition_def stateOf_def)

lemma transition_gate:
  "evaluateReleaseTransition (stateOf w) Gate_release = None \<Longrightarrow> wf_status w \<noteq> Rw_gate_released \<Longrightarrow>
    wf_payerIdLast4 w \<noteq> None \<and> (wf_paymentAmountCents w \<noteq> None \<or> wf_lienholderAuthRef w \<noteq> None)"
  by (auto simp: evaluateReleaseTransition_def stateOf_def split: if_splits)

lemma initiate_inv:
  assumes "workflow_inv (releaseWorkflows db)" "newId \<notin> wf_id ` set (releaseWorkflows db)"
  shows "workflow_inv (releaseWorkflows (committed db (initiateRelease ctx now newId imp db)))"
proof (rule committed_intro)
  fix x db' assume r: "initiateRelease ctx now newId imp db = Inr (x, db')"
  show "workflow_inv (releaseWorkflows db')"
  proof (cases "select_first (live_workflow_of (ctx_tenantId ctx) imp) (releaseWorkflows db)")
    case (Some w)
    then show ?thesis using r assms(1) by (auto simp: initiateRelease_def Let_def)
  next
    case None
    then have "releaseWorkflows db' = insert_into x (releaseWorkflows db)" and row: "wf_id x = newId"
        "wf_tenantId x = ctx_tenantId ctx" "wf_impoundId x = imp" "wf_status x = Rw_initiated"
      using r by (auto simp: initiateRelease_def Let_def)
    have "length (filter (live_workflow_of t i) (insert_into x (releaseWorkflows db))) \<le> 1" for t i
      using assms(1) None row by (intro insert_keeps_one) (auto simp: workflow_inv_def live_workflow_of_def)
    then show ?thesis
      using assms row unfolding workflow_inv_def \<open>releaseWorkflows db' = _\<close> by (simp add: insert_into_def gate_ok_def)
  qed
qed (use assms(1) in simp)

lemma cancel_outcome:
  assumes r: "cancelRelease ctx now i reason db = Inr (x, db')"
  shows "db' = db \<or> (\<exists>w. select_first (own_workflow (ctx_tenantId ctx) i) (releaseWorkflows db) = Some w
    \<and> evaluateReleaseTransition (stateOf w) Cancel_release = None
    \<and> releaseWorkflows db' = update_where (own_workflow (ctx_tenantId ctx) i) (\<lambda>w. w\<lparr>wf_status := Rw_cancelled,
        wf_cancelledAt := Some now, wf_cancelReason := Some reason, wf_updatedAt := now\<rparr>) (releaseWorkflows db))"
proof -
  from r obtain w where w: "select_first (own_workflow (ctx_tenantId ctx) i) (releaseWorkflows db) = Some w"
    by (auto simp: cancelRelease_def Let_def)
  then show ?thesis
    using r by (cases "evaluateReleaseTransition (stateOf w) Cancel_release")
      (auto simp: cancelRelease_def Let_def update_returning_def w require_def split: if_splits)
qed

lemma gate_outcome:
  assumes r: "gateRelease ctx now i db = Inr (x, db')"
  shows "db' = db \<or> (\<exists>w. select_first (own_workflow (ctx_tenantId ctx) i) (releaseWorkflows db) = Some w
    \<and> (wf_status w \<noteq> Rw_gate_released \<and> evaluateReleaseTransition (stateOf w) Gate_release = None)
    \<and> releaseWorkflows db' = update_where (own_workflow (ctx_tenantId ctx) i) (\<lambda>w. w\<lparr>wf_status := Rw_gate_released,
         wf_gateReleasedByUserId := Some (ctx_userId ctx), wf_gateReleasedAt := Some now, wf_completedAt := Some now,
         wf_updatedAt := now\<rparr>) (releaseWorkflows db))"
proof -
  from r obtain w where w: "select_first (own_workflow (ctx_tenantId ctx) i) (releaseWorkflows db) = Some w"
    by (auto simp: gateRelease_def Let_def)
  show ?thesis
  proof (cases "wf_status w = Rw_gate_released")
    case True
    then show ?thesis using r by (simp add: gateRelease_def Let_def w)
  next
    case False
    then show ?thesis
      using r by (cases "evaluateReleaseTransition (stateOf w) Gate_release")
        (auto simp: gateRelease_def Let_def update_returning_def w require_def)
  qed
qed

lemma workflow_inv_outcome:
  assumes "workflow_inv ws"
    and "db' = db \<or> (\<exists>w. select_first (own_workflow t i) ws = Some w \<and> Q w \<and> releaseWorkflows db' = update_where (own_workflow t i) f ws)"
    and "releaseWorkflows db = ws"
    and key: "\<And>x. wf_id (f x) = wf_id x" "\<And>x. wf_tenantId (f x) = wf_tenantId x" "\<And>x. wf_impoundId (f x) = wf_impoundId x"
    and ok: "\<And>w. Q w \<Longrightarrow> gate_ok (f w)" "\<And>w. Q w \<Longrightarrow> wf_status (f w) \<noteq> Rw_cancelled \<Longrightarrow> wf_status w \<noteq> Rw_cancelled"
  shows "workflow_inv (releaseWorkflows db')"
  using assms(2)
proof (elim disjE exE conjE)
  fix w assume "select_first (own_workflow t i) ws = Some w" "Q w" "releaseWorkflows db' = update_where (own_workflow t i) f ws"
  then show ?thesis using workflow_inv_update [OF assms(1), of t i w f] key ok by simp
qed (use assms in simp)

lemma release_step_inv:
  assumes inv: "workflow_inv (releaseWorkflows db)" and "action \<noteq> Cancel_release"
    and key: "\<And>x. wf_id (patch x) = wf_id x" "\<And>x. wf_tenantId (patch x) = wf_tenantId x" "\<And>x. wf_impoundId (patch x) = wf_impoundId x"
    and st: "\<And>x. wf_status (patch x) \<noteq> Rw_gate_released"
  shows "workflow_inv (releaseWorkflows (committed db (release_step ctx now i action alreadyDone patch db)))"
proof (rule committed_intro)
  fix x db' assume "release_step ctx now i action alreadyDone patch db = Inr (x, db')"
  note out = release_step_outcome [OF this]
  show "workflow_inv (releaseWorkflows db')"
    by (rule workflow_inv_outcome [OF inv out])
      (use transition_live assms(2) in \<open>simp_all add: key st gate_ok_def\<close>)
qed (use inv in simp)

lemma cancel_inv:
  assumes inv: "workflow_inv (releaseWorkflows db)"
  shows "workflow_inv (releaseWorkflows (committed db (cancelRelease ctx now i reason db)))"
proof (rule committed_intro)
  fix x db' assume "cancelRelease ctx now i reason db = Inr (x, db')"
  note out = cancel_outcome [OF this]
  show "workflow_inv (releaseWorkflows db')"
    by (rule workflow_inv_outcome [OF inv out]) (simp_all add: gate_ok_def evaluateReleaseTransition_def stateOf_def)
qed (use inv in simp)

lemma gate_inv:
  assumes inv: "workflow_inv (releaseWorkflows db)"
  shows "workflow_inv (releaseWorkflows (committed db (gateRelease ctx now i db)))"
proof (rule committed_intro)
  fix x db' assume "gateRelease ctx now i db = Inr (x, db')"
  note out = gate_outcome [OF this]
  show "workflow_inv (releaseWorkflows db')"
    by (rule workflow_inv_outcome [OF inv out]) (use transition_live [of _ Gate_release] transition_gate in \<open>simp_all add: gate_ok_def\<close>)
qed (use inv in simp)

lemma step_workflow_inv:
  assumes "workflow_inv (releaseWorkflows db)" "newId \<notin> wf_id ` set (releaseWorkflows db)"
  shows "workflow_inv (releaseWorkflows (yard_step ctx now newId op db))"
proof (cases "workflow_op op")
  case False
  then show ?thesis using assms(1) by (simp add: workflows_frame)
next
  case True
  then show ?thesis
    using initiate_inv [OF assms] cancel_inv [OF assms(1)] gate_inv [OF assms(1)]
    by (cases op) (simp_all add: verifyReleaseId_def authorizeLienholder_def collectReleasePayment_def release_step_inv [OF assms(1)])
qed

lemma reach_workflow_inv: "yard_reach db \<Longrightarrow> workflow_inv (releaseWorkflows db)"
proof (induction rule: yard_reach.induct)
  case start
  then show ?case by (simp add: workflow_inv_def empty_yard_def)
next
  case (handler db newId ctx now op)
  then show ?case by (intro step_workflow_inv)
qed (simp_all add: run_frame)

section \<open>Rate cards\<close>

definition conflict :: "rate_card_row \<Rightarrow> rate_card_row \<Rightarrow> bool" where
  "conflict c d \<longleftrightarrow> rc_tenantId c = rc_tenantId d \<and> rc_facilityId c = rc_facilityId d
     \<and> rc_vehicleClass c = rc_vehicleClass d \<and> rc_deletedAt c = None \<and> rc_deletedAt d = None
     \<and> rateWindowsOverlap (rc_effectiveFrom c, rc_effectiveTo c) (rc_effectiveFrom d, rc_effectiveTo d)"

definition card_inv :: "rate_card_row list \<Rightarrow> bool" where
  "card_inv cs \<longleftrightarrow> distinct (map rc_id cs) \<and> (\<forall>c \<in> set cs. \<forall>d \<in> set cs. conflict c d \<longrightarrow> rc_id c = rc_id d)"

lemma conflict_sym: "conflict c d \<Longrightarrow> conflict d c"
  by (auto simp: conflict_def rateWindowsOverlap_def Let_def)

lemma no_overlap_no_conflict:
  assumes "assertNoOverlap (rc_tenantId c) (rc_facilityId c) (rc_vehicleClass c) (rc_effectiveFrom c, rc_effectiveTo c) but cs"
    and "d \<in> set cs" "Some (rc_id d) \<noteq> but"
  shows "\<not> conflict c d"
  using assms by (auto simp: assertNoOverlap_def conflict_def live_card_def list_all_iff)

lemma card_inv_insert:
  assumes "card_inv cs" "rc_id c \<notin> rc_id ` set cs" "\<And>d. d \<in> set cs \<Longrightarrow> \<not> conflict c d"
  shows "card_inv (insert_into c cs)"
  unfolding card_inv_def
proof (intro conjI ballI impI)
  show "distinct (map rc_id (insert_into c cs))" using assms(1,2) by (simp add: card_inv_def insert_into_def)
next
  fix a b assume "a \<in> set (insert_into c cs)" "b \<in> set (insert_into c cs)" "conflict a b"
  then show "rc_id a = rc_id b" using assms(1,3) conflict_sym by (auto simp: card_inv_def)
qed

lemma card_inv_update:
  assumes "card_inv cs" "\<And>x. rc_id (f x) = rc_id x" "\<And>x y. P x \<Longrightarrow> P y \<Longrightarrow> rc_id x = rc_id y"
    and free: "\<And>c d. c \<in> set cs \<Longrightarrow> P c \<Longrightarrow> d \<in> set cs \<Longrightarrow> rc_id d \<noteq> rc_id c \<Longrightarrow> \<not> conflict (f c) d"
  shows "card_inv (update_where P f cs)"
  unfolding card_inv_def
proof (intro conjI ballI impI)
  show "distinct (map rc_id (update_where P f cs))" using assms(1,2) by (simp add: card_inv_def map_update_where)
next
  fix a b assume ab: "a \<in> set (update_where P f cs)" "b \<in> set (update_where P f cs)" "conflict a b"
  show "rc_id a = rc_id b"
    using in_update_where [OF ab(1)] in_update_where [OF ab(2)]
  proof (elim disjE conjE bexE)
    assume "a \<in> set cs" "b \<in> set cs" then show ?thesis using ab(3) assms(1) by (simp add: card_inv_def)
  next
    fix y assume "a \<in> set cs" "y \<in> set cs" "P y" "b = f y"
    then show ?thesis using free [of y a] conflict_sym [OF ab(3)] assms(2) [of y] by auto
  next
    fix x assume "x \<in> set cs" "P x" "a = f x" "b \<in> set cs"
    then show ?thesis using free [of x b] ab(3) assms(2) [of x] by metis
  next
    fix x y assume "P x" "P y" "a = f x" "b = f y"
    then show ?thesis using assms(2) [of x] assms(2) [of y] assms(3) [of x y] by simp
  qed
qed

lemma create_card_inv:
  assumes "card_inv (storageRateCards db)" "newId \<notin> rc_id ` set (storageRateCards db)"
  shows "card_inv (storageRateCards (committed db (createRateCard ctx now newId fac i db)))"
proof (rule committed_intro)
  fix x db' assume r: "createRateCard ctx now newId fac i db = Inr (x, db')"
  then have db': "storageRateCards db' = insert_into x (storageRateCards db)" and id: "rc_id x = newId"
    and free: "assertNoOverlap (rc_tenantId x) (rc_facilityId x) (rc_vehicleClass x) (rc_effectiveFrom x, rc_effectiveTo x) None
      (storageRateCards db)"
    by (auto simp: createRateCard_def Let_def)
  show "card_inv (storageRateCards db')"
    unfolding db' using assms no_overlap_no_conflict [OF free] id by (intro card_inv_insert) auto
qed (use assms in simp)

lemma update_card_inv:
  assumes inv: "card_inv (storageRateCards db)"
  shows "card_inv (storageRateCards (committed db (updateRateCard ctx now i inp db)))"
proof (rule committed_intro)
  fix x db' assume r: "updateRateCard ctx now i inp db = Inr (x, db')"
  let ?P = "own_card (ctx_tenantId ctx) i"
  let ?f = "\<lambda>c. c\<lparr>rc_name := patched (uc_name inp) (rc_name c), rc_dailyRateCents := patched (uc_dailyRateCents inp) (rc_dailyRateCents c),
     rc_freeDays := patched (uc_freeDays inp) (rc_freeDays c), rc_maxDailyRateCents := patched (uc_maxDailyRateCents inp) (rc_maxDailyRateCents c),
     rc_effectiveFrom := patched (uc_effectiveFrom inp) (rc_effectiveFrom c), rc_effectiveTo := patched (uc_effectiveTo inp) (rc_effectiveTo c),
     rc_updatedAt := now\<rparr>"
  from r obtain e where e: "select_first ?P (storageRateCards db) = Some e"
    and free: "assertNoOverlap (ctx_tenantId ctx) (rc_facilityId e) (rc_vehicleClass e) (patched (uc_effectiveFrom inp) (rc_effectiveFrom e),
       patched (uc_effectiveTo inp) (rc_effectiveTo e)) (Some i) (storageRateCards db)"
    and db': "storageRateCards db' = update_where ?P ?f (storageRateCards db)"
    by (auto simp: updateRateCard_def Let_def update_returning_def)
  have same: "c = e" if "c \<in> set (storageRateCards db)" "?P c" for c
    using that select_first_Some [OF e] inv by (auto simp: own_card_def card_inv_def distinct_map dest: inj_onD)
  have "\<not> conflict (?f c) d" if "c \<in> set (storageRateCards db)" "?P c" "d \<in> set (storageRateCards db)" "rc_id d \<noteq> rc_id c" for c d
  proof (rule no_overlap_no_conflict)
    show "assertNoOverlap (rc_tenantId (?f c)) (rc_facilityId (?f c)) (rc_vehicleClass (?f c))
        (rc_effectiveFrom (?f c), rc_effectiveTo (?f c)) (Some i) (storageRateCards db)"
      using free same [OF that(1,2)] that(2) by (simp add: own_card_def live_card_def)
  qed (use that in \<open>auto simp: own_card_def\<close>)
  then show "card_inv (storageRateCards db')"
    unfolding db' using inv by (intro card_inv_update) (auto simp: own_card_def)
qed (use assms in simp)

lemma delete_card_inv:
  assumes "card_inv (storageRateCards db)"
  shows "card_inv (storageRateCards (committed db (softDeleteRateCard ctx now i db)))"
proof (rule committed_intro)
  fix x db' assume "softDeleteRateCard ctx now i db = Inr (x, db')"
  then have db': "storageRateCards db' = update_where (\<lambda>c. rc_tenantId c = ctx_tenantId ctx \<and> rc_id c = i)
      (\<lambda>c. c\<lparr>rc_deletedAt := Some now\<rparr>) (storageRateCards db)"
    by (auto simp: softDeleteRateCard_def Let_def)
  show "card_inv (storageRateCards db')"
    unfolding db' using assms by (rule card_inv_update) (auto simp: conflict_def)
qed (use assms in simp)

lemma reach_card_inv: "yard_reach db \<Longrightarrow> card_inv (storageRateCards db)"
proof (induction rule: yard_reach.induct)
  case start
  then show ?case by (simp add: card_inv_def empty_yard_def)
next
  case (handler db newId ctx now op)
  show ?case
  proof (cases "card_op op")
    case False
    then show ?thesis using handler by (simp add: cards_frame)
  next
    case True
    then show ?thesis
      using create_card_inv [OF handler.IH handler.hyps(2)] update_card_inv [OF handler.IH] delete_card_inv [OF handler.IH]
      by (cases op) simp_all
  qed
qed (simp_all add: run_frame)

lemma covering_cards_conflict:
  assumes "covers day c" "covers day d" "day \<le> end_of_time" "live_card t c" "live_card t d"
    and "rc_facilityId c = rc_facilityId d" "rc_vehicleClass c = rc_vehicleClass d"
  shows "conflict c d"
  using assms by (auto simp: covers_def conflict_def live_card_def rateWindowsOverlap_def Let_def split: option.splits)

lemma resolveRate_covers: "resolveRate cs day = Some c \<Longrightarrow> c \<in> set cs \<and> covers day c"
proof -
  have fold_in: "foldl (\<lambda>best c. if rc_effectiveFrom best < rc_effectiveFrom c then c else best) b xs \<in> insert b (set xs)" for b xs
    by (induction xs arbitrary: b) (auto split: if_splits)
  assume r: "resolveRate cs day = Some c"
  then obtain b xs where "filter (covers day) cs = b # xs"
      "c = foldl (\<lambda>best c. if rc_effectiveFrom best < rc_effectiveFrom c then c else best) b xs"
    by (auto simp: resolveRate_def split: list.splits)
  then have "c \<in> set (filter (covers day) cs)" using fold_in [of b xs] by simp
  then show ?thesis by simp
qed

lemma resolveRate_total: "c \<in> set cs \<Longrightarrow> covers day c \<Longrightarrow> resolveRate cs day \<noteq> None"
  by (auto simp: resolveRate_def filter_empty_conv split: list.splits)

end
