(* ===== verification/YardLedger.thy ===== *)
theory YardLedger
  imports YardInv
begin

text \<open>
  The storage ledger: what a billing run adds to the charges and how its summary row reads, and why a
  second run of the same day adds nothing.
\<close>

section \<open>The ledger\<close>

definition charges_of :: "uuid \<Rightarrow> charge_row list \<Rightarrow> charge_row list" where
  "charges_of run cs = filter (\<lambda>c. ch_billingRunId c = Some run) cs"

definition charge_key :: "charge_row \<Rightarrow> uuid \<times> int" where
  "charge_key c = (ch_impoundId c, ch_chargeDate c)"

definition run_adds_up :: "charge_row list \<Rightarrow> billing_run_row \<Rightarrow> bool" where
  "run_adds_up cs r \<longleftrightarrow> br_vehiclesCharged r = int (length (charges_of (br_id r) cs))
     \<and> br_totalChargedCents r = sum_list (map ch_amountCents (charges_of (br_id r) cs))"

definition ledger_inv :: "charge_row list \<times> billing_run_row list \<Rightarrow> bool" where
  "ledger_inv l \<longleftrightarrow> distinct (map charge_key (fst l)) \<and> (\<forall>r \<in> set (snd l). run_adds_up (fst l) r)"

lemma charged_on_key: "charged_on i day cs \<longleftrightarrow> (i, day) \<in> charge_key ` set cs"
  by (auto simp: charged_on_def charge_key_def list_ex_iff)

lemma day_charge_record: "day_charge t day db p = Some (r, cls, rc, amount) \<Longrightarrow> snd p = imp_id r"
  by (auto simp: day_charge_def Let_def bind_eq_Some_conv split: prod.splits if_splits dest: select_first_Some)

text \<open>The scan's state: what the run has charged so far is what the table gained.\<close>

definition scan_ok :: "uuid \<Rightarrow> int \<Rightarrow> charge_row list \<Rightarrow> billing_scan \<Rightarrow> bool" where
  "scan_ok run day cs0 st \<longleftrightarrow> distinct (map charge_key (bs_charges st))
     \<and> (\<forall>k. k \<noteq> run \<longrightarrow> charges_of k (bs_charges st) = charges_of k cs0)
     \<and> bs_total st = sum_list (map ch_amountCents (charges_of run (bs_charges st)))
     \<and> bs_written st = length (charges_of run (bs_charges st)) \<and> length (bs_charged st) = bs_written st
     \<and> (\<forall>i \<in> set (bs_charged st). charged_on i day (bs_charges st))"

lemma charge_placement_ok:
  assumes ok: "scan_ok run day cs0 st"
  shows "scan_ok run day cs0 (charge_placement t run day ids db p st)"
proof (cases "day_charge t day db p")
  case None
  then show ?thesis using ok by (simp add: charge_placement_def Let_def scan_ok_def)
next
  case (Some q)
  obtain r cls rc amount where q: "q = (r, cls, rc, amount)" by (cases q)
  show ?thesis
  proof (cases "charged_on (imp_id r) day (bs_charges st)")
    case True
    then show ?thesis using ok Some q by (simp add: charge_placement_def Let_def scan_ok_def)
  next
    case False
    then have "imp_id r \<notin> set (bs_charged st)" using ok by (auto simp: scan_ok_def)
    then show ?thesis
      using ok Some q False by (auto simp: charge_placement_def Let_def scan_ok_def charges_of_def insert_into_def charged_on_key charge_key_def)
  qed
qed

lemma scan_placements_ok:
  assumes "distinct (map charge_key (storageCharges db))" "Some run \<notin> ch_billingRunId ` set (storageCharges db)"
  shows "scan_ok run day (storageCharges db) (scan_placements t run day ids db)"
proof -
  have none: "charges_of run (storageCharges db) = []"
    using assms(2) by (auto simp: charges_of_def filter_empty_conv image_iff)
  have "scan_ok run day cs0 st \<Longrightarrow> scan_ok run day cs0 (fold (charge_placement t run day ids db) ps st)" for cs0 st ps
    by (induction ps arbitrary: st) (simp_all add: charge_placement_ok)
  moreover have "scan_ok run day (storageCharges db) \<lparr>bs_scanned = 0, bs_written = 0, bs_total = 0, bs_charged = [], bs_charges = storageCharges db\<rparr>"
    using assms(1) none by (simp add: scan_ok_def)
  ultimately show ?thesis unfolding scan_placements_def .
qed

text \<open>The database once the run has committed its summary row.\<close>

definition opened :: "uuid \<Rightarrow> instant \<Rightarrow> uuid \<Rightarrow> yard_db \<Rightarrow> yard_db" where
  "opened t now runId db = db\<lparr>storageBillingRuns := insert_into \<lparr>br_id = runId, br_tenantId = t, br_ranAt = now,
     br_periodStart = now div day_ms, br_periodEnd = now div day_ms, br_vehiclesCharged = 0, br_totalChargedCents = 0,
     br_status = Run_pending, br_errorText = None\<rparr> (storageBillingRuns db)\<rparr>"

definition scanned :: "uuid \<Rightarrow> instant \<Rightarrow> uuid \<Rightarrow> (nat \<Rightarrow> uuid) \<Rightarrow> yard_db \<Rightarrow> billing_scan" where
  "scanned t now runId ids db = scan_placements t runId (now div day_ms) ids (opened t now runId db)"

text \<open>A run ends by rewriting its own summary row.\<close>

definition closing :: "uuid \<Rightarrow> (billing_run_row \<Rightarrow> billing_run_row) \<Rightarrow> billing_run_row list \<Rightarrow> billing_run_row list" where
  "closing runId = update_where (\<lambda>r. br_id r = runId)"

lemma run_completes:
  "runForTenant t now runId ids None db = (let st = scanned t now runId ids db; n = length (bs_charged st) in
     (Inr \<lparr>tk_runId = runId, tk_vehiclesScanned = bs_scanned st, tk_vehiclesCharged = n, tk_chargesWritten = bs_written st,
        tk_totalChargedCents = bs_total st\<rparr>,
      (opened t now runId db)\<lparr>storageCharges := bs_charges st, storageBillingRuns := closing runId
        (\<lambda>r. r\<lparr>br_status := Run_completed, br_vehiclesCharged := int n, br_totalChargedCents := bs_total st\<rparr>)
        (storageBillingRuns (opened t now runId db))\<rparr>))"
  by (simp add: runForTenant_def Let_def scanned_def opened_def closing_def)

lemma run_fails:
  "runForTenant t now runId ids (Some m) db = (Inl (Failure m), (opened t now runId db)\<lparr>storageBillingRuns := closing runId
     (\<lambda>r. r\<lparr>br_status := Run_failed, br_errorText := Some (take 1000 m)\<rparr>) (storageBillingRuns (opened t now runId db))\<rparr>)"
  by (simp add: runForTenant_def Let_def opened_def closing_def)

lemma closing_runs:
  assumes "runId \<notin> br_id ` set (storageBillingRuns db)" "r \<in> set (closing runId f (storageBillingRuns (opened t now runId db)))"
  shows "r \<in> set (storageBillingRuns db) \<and> br_id r \<noteq> runId
    \<or> (\<exists>p. br_id p = runId \<and> br_vehiclesCharged p = 0 \<and> br_totalChargedCents p = 0 \<and> r = f p)"
proof -
  obtain p where p: "storageBillingRuns (opened t now runId db) = insert_into p (storageBillingRuns db)" "br_id p = runId"
    "br_vehiclesCharged p = 0" "br_totalChargedCents p = 0"
    by (simp add: opened_def)
  have "\<forall>x \<in> set (storageBillingRuns db). br_id x \<noteq> runId" using assms(1) by auto
  then show ?thesis
    using in_update_where [OF assms(2) [unfolded closing_def p(1)]] p(2-4) by auto
qed

lemma run_ledger_inv:
  assumes inv: "ledger_inv (ledger db)"
    and fresh: "runId \<notin> br_id ` set (storageBillingRuns db)" "Some runId \<notin> ch_billingRunId ` set (storageCharges db)"
  shows "ledger_inv (ledger (snd (runForTenant t now runId ids infra db)))"
proof (cases infra)
  case (Some message)
  have none: "charges_of runId (storageCharges db) = []"
    using fresh(2) by (auto simp: charges_of_def filter_empty_conv image_iff)
  have "run_adds_up (storageCharges db) r"
    if "r \<in> set (closing runId (\<lambda>r. r\<lparr>br_status := Run_failed, br_errorText := Some (take 1000 message)\<rparr>)
      (storageBillingRuns (opened t now runId db)))" for r
    using closing_runs [OF fresh(1) that] none inv by (auto simp: run_adds_up_def ledger_inv_def ledger_def)
  then show ?thesis using inv by (simp add: Some run_fails ledger_def ledger_inv_def opened_def)
next
  case None
  define st where "st = scanned t now runId ids db"
  have ok: "scan_ok runId (now div day_ms) (storageCharges db) st"
    using scan_placements_ok [of "opened t now runId db" runId "now div day_ms" t ids] inv fresh(2)
    by (simp add: st_def scanned_def opened_def ledger_def ledger_inv_def)
  have old: "run_adds_up (bs_charges st) r" if "r \<in> set (storageBillingRuns db)" "br_id r \<noteq> runId" for r
    using that ok inv by (simp add: ledger_inv_def ledger_def run_adds_up_def scan_ok_def)
  have "run_adds_up (bs_charges st) r"
    if "r \<in> set (closing runId (\<lambda>r. r\<lparr>br_status := Run_completed, br_vehiclesCharged := int (length (bs_charged st)),
      br_totalChargedCents := bs_total st\<rparr>) (storageBillingRuns (opened t now runId db)))" for r
    using closing_runs [OF fresh(1) that]
  proof (elim disjE exE conjE)
    fix p assume "br_id p = runId" "r = p\<lparr>br_status := Run_completed, br_vehiclesCharged := int (length (bs_charged st)),
      br_totalChargedCents := bs_total st\<rparr>"
    then show ?thesis using ok by (simp add: run_adds_up_def scan_ok_def)
  qed (rule old)
  then show ?thesis using ok by (simp add: None run_completes Let_def ledger_def ledger_inv_def scan_ok_def st_def)
qed

lemma reach_ledger_inv: "yard_reach db \<Longrightarrow> ledger_inv (ledger db)"
proof (induction rule: yard_reach.induct)
  case start
  then show ?case by (simp add: ledger_inv_def ledger_def empty_yard_def)
next
  case (handler db newId ctx now op)
  then show ?case by (simp only: ledger_frame)
next
  case (billing db runId t now ids infra)
  then show ?case by (intro run_ledger_inv)
next
  case elsewhere
  then show ?case by (simp add: ledger_def)
qed

section \<open>A second run\<close>

text \<open>What a charge is computed from.\<close>

definition same_yard :: "yard_db \<Rightarrow> yard_db \<Rightarrow> bool" where
  "same_yard db' db \<longleftrightarrow> yardStalls db' = yardStalls db \<and> yardVehicles db' = yardVehicles db
     \<and> impoundRecords db' = impoundRecords db \<and> storageRateCards db' = storageRateCards db"

lemma day_charge_same: "same_yard db' db \<Longrightarrow> day_charge t day db' p = day_charge t day db p"
proof -
  assume same: "same_yard db' db"
  then have "vehicle_any r db' = vehicle_any r db" for r by (simp add: vehicle_any_def same_yard_def)
  then show ?thesis using same by (cases p) (simp add: day_charge_def same_yard_def Let_def cong: if_cong)
qed

definition settled :: "uuid \<Rightarrow> int \<Rightarrow> yard_db \<Rightarrow> charge_row list \<Rightarrow> uuid \<times> uuid \<Rightarrow> bool" where
  "settled t day db cs p \<longleftrightarrow> (\<forall>q. day_charge t day db p = Some q \<longrightarrow> charged_on (snd p) day cs)"

lemma charge_placement_settles:
  "settled t day db (bs_charges (charge_placement t run day ids db p st)) p"
  "settled t day db (bs_charges st) p' \<Longrightarrow> settled t day db (bs_charges (charge_placement t run day ids db p st)) p'"
  by (auto simp: charge_placement_def Let_def settled_def charged_on_def insert_into_def dest: day_charge_record split: option.splits)

lemma scan_settles: "p \<in> set ps \<or> settled t day db (bs_charges st) p \<Longrightarrow>
    settled t day db (bs_charges (fold (charge_placement t run day ids db) ps st)) p"
  by (induction ps arbitrary: st) (auto simp: charge_placement_settles)

lemma charge_settled:
  "settled t day db (bs_charges st) p \<Longrightarrow> charge_placement t run day ids db p st = st\<lparr>bs_scanned := bs_scanned st + 1\<rparr>"
  by (auto simp: charge_placement_def Let_def settled_def dest: day_charge_record split: option.splits)

lemma scan_settled:
  "\<forall>p \<in> set ps. settled t day db (bs_charges st) p \<Longrightarrow>
    fold (charge_placement t run day ids db) ps st = st\<lparr>bs_scanned := bs_scanned st + length ps\<rparr>"
  by (induction ps arbitrary: st) (simp_all add: charge_settled)

lemma placements_same: "same_yard db' db \<Longrightarrow> placements t db' = placements t db"
  by (simp add: placements_def same_yard_def)

lemma settled_same: "same_yard db' db \<Longrightarrow> settled t day db' = settled t day db"
  by (simp add: settled_def [abs_def] day_charge_same)

lemma opened_same: "same_yard (opened t now runId db) db"
  by (simp add: opened_def same_yard_def)

text \<open>What a run that meets no failure leaves: its scan's charges, every placement settled.\<close>

lemma run_settles:
  assumes "runForTenant t now runId ids None db = (Inr r, db')"
  shows "\<forall>p \<in> set (placements t db'). settled t (now div day_ms) db' (storageCharges db') p"
proof
  have "same_yard db' (opened t now runId db)" and cs: "storageCharges db' = bs_charges (scanned t now runId ids db)"
    using assms by (auto simp: run_completes Let_def same_yard_def)
  note same = placements_same [OF this(1)] settled_same [OF this(1)]
  fix p assume "p \<in> set (placements t db')"
  then have "settled t (now div day_ms) (opened t now runId db) (bs_charges (scanned t now runId ids db)) p"
    unfolding scanned_def scan_placements_def by (intro scan_settles) (simp add: same)
  then show "settled t (now div day_ms) db' (storageCharges db') p" by (simp add: same cs)
qed

lemma run_settled:
  assumes "\<forall>p \<in> set (placements t db). settled t (now div day_ms) db (storageCharges db) p"
  shows "fst (runForTenant t now runId ids None db) = Inr \<lparr>tk_runId = runId, tk_vehiclesScanned = length (placements t db),
      tk_vehiclesCharged = 0, tk_chargesWritten = 0, tk_totalChargedCents = 0\<rparr>
    \<and> storageCharges (snd (runForTenant t now runId ids None db)) = storageCharges db"
proof -
  note same = placements_same [OF opened_same, of t t now runId db] settled_same [OF opened_same, of t _ t now runId db]
  have cs: "storageCharges (opened t now runId db) = storageCharges db" by (simp add: opened_def)
  have "scanned t now runId ids db = \<lparr>bs_scanned = length (placements t db), bs_written = 0, bs_total = 0,
      bs_charged = [], bs_charges = storageCharges db\<rparr>"
    unfolding scanned_def scan_placements_def by (subst scan_settled) (use assms in \<open>simp_all add: same cs\<close>)
  then show ?thesis by (simp add: run_completes Let_def)
qed

end
