(* ===== verification/YardProperties.thy ===== *)
theory YardProperties
  imports YardLedger
begin

text \<open>
  What the yard promises on every reachable database: the rate cards of a facility and class never
  claim the same day, a vehicle is charged at most once a day and each billing run's total is the sum
  of its charges, a second run of the day charges nothing, and a vehicle leaves through the gate only
  with a verified identity and a payment or a lienholder's authorization.  An active hold does not
  stop it.
\<close>

section \<open>A worked yard\<close>

text \<open>A run of handlers whose new ids are fresh.\<close>

fun yard_run :: "ctx \<Rightarrow> instant \<Rightarrow> (uuid \<times> yard_op) list \<Rightarrow> yard_db \<Rightarrow> yard_db option" where
  "yard_run ctx now [] db = Some db"
| "yard_run ctx now ((n, op) # ops) db = (if n \<in> set (map rc_id (storageRateCards db)) \<union> set (map wf_id (releaseWorkflows db)) then None
     else yard_run ctx now ops (yard_step ctx now n op db))"

lemma yard_run_reach: "yard_reach db \<Longrightarrow> yard_run ctx now ops db = Some db' \<Longrightarrow> yard_reach db'"
  by (induction ctx now ops db rule: yard_run.induct) (auto split: if_splits intro: yard_reach.handler)

definition lot_ctx :: ctx where
  "lot_ctx = \<lparr>ctx_tenantId = 2, ctx_userId = 3, ctx_role = Some Dispatcher\<rparr>"

definition lot_record :: impound_row where
  "lot_record = \<lparr>imp_id = 60, imp_tenantId = 2, imp_yardId = 50, imp_jobId = None, imp_vehicleId = None, imp_vehicleMake = None,
     imp_vehicleModel = None, imp_vehicleYear = None, imp_vehicleColor = None, imp_vehicleVin = None, imp_licensePlate = None,
     imp_licenseState = None, imp_status = Stored, imp_arrivedAt = 0, imp_storageStartedAt = 0, imp_releasedAt = None,
     imp_dailyFeeCents = 0, imp_intakeMileage = None, imp_intakePhotoKeys = [], imp_conditionNotes = None, imp_lienEligible = False,
     imp_lienEligibleAt = None, imp_accruedFeeCents = 0, imp_lastAccruedOn = None, imp_createdBy = None, imp_updatedAt = 0,
     imp_deletedAt = None\<rparr>"

definition lot_hold :: hold_row where
  "lot_hold = \<lparr>hold_id = 61, hold_tenantId = 2, hold_impoundRecordId = 60, hold_holdType = Hold_police,
     hold_authorityName = None, hold_authorityReference = None, hold_reason = None, hold_placedBy = None, hold_placedAt = 0,
     hold_releasedAt = None, hold_releasedBy = None, hold_notes = None, hold_updatedAt = 0, hold_deletedAt = None\<rparr>"

definition lot_start :: yard_db where
  "lot_start = empty_yard\<lparr>impoundYards := [], impoundRecords := [lot_record], impoundHolds := [lot_hold], impoundFees := [],
     impoundReleases := [], impoundEvents := [], yardVehicles := []\<rparr>"

definition lot_setup :: "(uuid \<times> yard_op) list" where
  "lot_setup = [(10, Create_facility \<lparr>cf_name = ''A'', cf_address = None, cf_gateHours = None, cf_notes = None, cf_isActive = True\<rparr>),
     (11, Create_stall 10 \<lparr>cs_label = ''1'', cs_rowLabel = None, cs_colLabel = None, cs_x = 0, cs_y = 0,
        cs_stallType = Stall_standard, cs_notes = None\<rparr>),
     (12, Assign_vehicle 11 60),
     (13, Create_card 10 \<lparr>cc_name = ''C'', cc_vehicleClass = St_passenger, cc_dailyRateCents = 3500, cc_freeDays = 0,
        cc_maxDailyRateCents = None, cc_effectiveFrom = 0, cc_effectiveTo = None\<rparr>),
     (14, Initiate_release 60), (15, Verify_release 14 ''Owner'' Id_passport ''1234''), (16, Pay_release 14 3500 Ym_cash)]"

definition lot_ready :: yard_db where
  "lot_ready = the (yard_run lot_ctx 1000 lot_setup lot_start)"

definition lot_billed :: yard_db where
  "lot_billed = snd (runForTenant 2 (3 * day_ms) 40 (\<lambda>k. 100 + k) None lot_ready)"

definition lot_gone :: yard_db where
  "lot_gone = yard_step lot_ctx 2000 17 (Open_gate 14) lot_ready"

lemma lot_values:
  "yard_run lot_ctx 1000 lot_setup lot_start \<noteq> None"
  "map wf_id (releaseWorkflows lot_ready) = [14]"
  "map wf_status (releaseWorkflows lot_gone) = [Rw_gate_released]"
  "map (\<lambda>c. (rc_id c, rc_facilityId c, rc_vehicleClass c, live_card 2 c, covers 3 c)) (storageRateCards lot_ready)
     = [(13, 10, St_passenger, True, True)]"
  "map (\<lambda>r. (br_id r, br_vehiclesCharged r, br_totalChargedCents r)) (storageBillingRuns lot_billed) = [(40, 1, 3500)]"
  "storageBillingRuns lot_ready = []" "storageCharges lot_ready = []"
  "isl (fst (runForTenant 2 (3 * day_ms) 40 (\<lambda>k. 100 + k) None lot_ready)) = False"
  "length (placements 2 lot_billed) = 1"
  by code_simp+

lemma lot_hold_values:
  "case select_first (own_workflow 2 14) (releaseWorkflows lot_ready) of None \<Rightarrow> False
     | Some w \<Rightarrow> wf_impoundId w = 60 \<and> wf_status w \<noteq> Rw_gate_released \<and> evaluateReleaseTransition (stateOf w) Gate_release = None"
  "case select_first (live_impound 2 60) (impoundRecords lot_ready) of None \<Rightarrow> False | Some r \<Rightarrow> in_storage (imp_status r)"
  "active_holds 2 60 lot_ready \<noteq> []"
  by code_simp+

lemma lot_reach: "yard_reach lot_ready" "yard_reach lot_billed" "yard_reach lot_gone"
proof -
  have "yard_reach lot_start" unfolding lot_start_def by (rule yard_reach.elsewhere, rule yard_reach.start)
  moreover have "yard_run lot_ctx 1000 lot_setup lot_start = Some lot_ready" using lot_values(1) by (auto simp: lot_ready_def)
  ultimately show r: "yard_reach lot_ready" by (rule yard_run_reach)
  show "yard_reach lot_billed"
    unfolding lot_billed_def using r by (rule yard_reach.billing) (simp_all add: lot_values)
  have "wf_id ` set (releaseWorkflows lot_ready) = {14}" "rc_id ` set (storageRateCards lot_ready) = {13}"
    using lot_values(2,4) by (auto simp: map_eq_Cons_conv)
  then show "yard_reach lot_gone"
    unfolding lot_gone_def using r by (intro yard_reach.handler) simp_all
qed

section \<open>The promises\<close>

text \<open>On every reachable database a release workflow that reads gate_released has a verified identity
  and a payment or a lienholder's authorization on record, and a vehicle has at most one live workflow.\<close>

theorem gate_opened_with_papers:
  assumes "yard_reach db"
  shows "(\<forall>w \<in> set (releaseWorkflows db). wf_status w = Rw_gate_released \<longrightarrow> wf_payerIdLast4 w \<noteq> None
      \<and> (wf_paymentAmountCents w \<noteq> None \<or> wf_lienholderAuthRef w \<noteq> None))
    \<and> (\<forall>t i. length (filter (live_workflow_of t i) (releaseWorkflows db)) \<le> 1)"
  using reach_workflow_inv [OF assms] by (auto simp: workflow_inv_def gate_ok_def)

theorem gate_opened_with_papers_witness:
  "\<exists>w \<in> set (releaseWorkflows lot_gone). wf_status w = Rw_gate_released \<and> wf_payerIdLast4 w \<noteq> None"
proof -
  obtain w where "w \<in> set (releaseWorkflows lot_gone)" "wf_status w = Rw_gate_released"
    using lot_values(3) by (auto simp: map_eq_Cons_conv)
  then show ?thesis using gate_opened_with_papers [OF lot_reach(3)] by blast
qed

text \<open>C37: On every reachable database the rate of a facility, a class and a day up to 9999-12-31 is the one
  live card whose window covers the day: the resolver returns a card exactly when it is live and covers
  the day, so neither the order of the rows nor the tie-break on the later start decides a charge.\<close>

theorem rate_is_the_covering_card:
  assumes "yard_reach db" "day \<le> end_of_time"
  shows "resolveRate (select_where (\<lambda>c. live_card t c \<and> rc_facilityId c = fac \<and> rc_vehicleClass c = cls) (storageRateCards db)) day = Some c
    \<longleftrightarrow> c \<in> set (storageRateCards db) \<and> live_card t c \<and> rc_facilityId c = fac \<and> rc_vehicleClass c = cls \<and> covers day c"
    (is "resolveRate ?cs day = _ \<longleftrightarrow> ?R")
proof
  assume "resolveRate ?cs day = Some c"
  then show ?R using resolveRate_covers by fastforce
next
  assume c: ?R
  then obtain d where d: "resolveRate ?cs day = Some d" using resolveRate_total [of c ?cs day] by auto
  then have d': "d \<in> set (storageRateCards db)" "conflict d c"
    using resolveRate_covers [OF d] c assms(2) by (auto intro: covering_cards_conflict)
  have "rc_id d = rc_id c" and "distinct (map rc_id (storageRateCards db))"
    using reach_card_inv [OF assms(1)] c d' by (auto simp: card_inv_def)
  then show "resolveRate ?cs day = Some c" using d d'(1) c by (auto simp: distinct_map dest: inj_onD)
qed

theorem rate_is_the_covering_card_witness:
  "\<exists>c \<in> set (storageRateCards lot_ready). resolveRate (select_where (\<lambda>c. live_card 2 c \<and> rc_facilityId c = 10
     \<and> rc_vehicleClass c = St_passenger) (storageRateCards lot_ready)) 3 = Some c"
proof -
  obtain c where c: "c \<in> set (storageRateCards lot_ready)" "rc_facilityId c = 10" "rc_vehicleClass c = St_passenger"
      "live_card 2 c" "covers 3 c"
    using lot_values(4) by (auto simp: map_eq_Cons_conv)
  then have "resolveRate (select_where (\<lambda>c. live_card 2 c \<and> rc_facilityId c = 10
     \<and> rc_vehicleClass c = St_passenger) (storageRateCards lot_ready)) 3 = Some c"
    by (subst rate_is_the_covering_card [OF lot_reach(1)]) (simp_all add: end_of_time_def)
  then show ?thesis using c(1) by blast
qed

text \<open>C38: On every reachable database no impounded vehicle is charged storage twice for one day, and each
  billing run's count of vehicles and total are those of the charges that carry its id; a run that
  failed has charged nothing.\<close>

theorem storage_ledger_adds_up:
  assumes "yard_reach db"
  shows "distinct (map (\<lambda>c. (ch_impoundId c, ch_chargeDate c)) (storageCharges db))
    \<and> (\<forall>r \<in> set (storageBillingRuns db).
        br_vehiclesCharged r = int (length (filter (\<lambda>c. ch_billingRunId c = Some (br_id r)) (storageCharges db)))
      \<and> br_totalChargedCents r = sum_list (map ch_amountCents (filter (\<lambda>c. ch_billingRunId c = Some (br_id r)) (storageCharges db))))"
  using reach_ledger_inv [OF assms] by (simp add: ledger_inv_def ledger_def run_adds_up_def charges_of_def charge_key_def [abs_def])

theorem storage_ledger_adds_up_witness:
  "sum_list (map ch_amountCents (filter (\<lambda>c. ch_billingRunId c = Some 40) (storageCharges lot_billed))) = 3500"
proof -
  obtain r where "r \<in> set (storageBillingRuns lot_billed)" "br_id r = 40" "br_totalChargedCents r = 3500"
    using lot_values(5) by (auto simp: map_eq_Cons_conv)
  then show ?thesis using storage_ledger_adds_up [OF lot_reach(2)] by auto
qed

text \<open>C39: Once a billing run of a tenant has succeeded, another run on the same UTC day, whatever its
  clock and ids, scans every occupied stall and charges nothing: the charges are those of the first run.\<close>

theorem second_run_charges_nothing:
  assumes "runForTenant t now run1 ids1 None db = (Inr r, db1)" "now' div day_ms = now div day_ms"
  shows "fst (runForTenant t now' run2 ids2 None db1) = Inr \<lparr>tk_runId = run2,
      tk_vehiclesScanned = length (placements t db1), tk_vehiclesCharged = 0, tk_chargesWritten = 0, tk_totalChargedCents = 0\<rparr>
    \<and> storageCharges (snd (runForTenant t now' run2 ids2 None db1)) = storageCharges db1"
  by (rule run_settled) (use run_settles [OF assms(1)] assms(2) in simp)

theorem second_run_charges_nothing_witness:
  "fst (runForTenant 2 (3 * day_ms + 5) 41 (\<lambda>k. 200 + k) None lot_billed) = Inr \<lparr>tk_runId = 41, tk_vehiclesScanned = 1,
     tk_vehiclesCharged = 0, tk_chargesWritten = 0, tk_totalChargedCents = 0\<rparr>"
proof -
  obtain r where "runForTenant 2 (3 * day_ms) 40 (\<lambda>k. 100 + k) None lot_ready = (Inr r, lot_billed)"
    using lot_values(8) unfolding lot_billed_def
    by (cases "runForTenant 2 (3 * day_ms) 40 (\<lambda>k. 100 + k) None lot_ready"; cases "fst (runForTenant 2 (3 * day_ms) 40 (\<lambda>k. 100 + k) None lot_ready)") auto
  from second_run_charges_nothing [OF this, of "3 * day_ms + 5" 41 "\<lambda>k. 200 + k"] show ?thesis
    by (simp add: lot_values(9) day_ms_def)
qed

text \<open>C40: A police or other hold does not stop the gate: on a workflow with its papers on record the gate
  release succeeds and its impound record reads released with the hold still active, although the
  impound module's own release of that record is refused for any request.\<close>

theorem gate_opens_despite_hold:
  assumes "select_first (own_workflow (ctx_tenantId ctx) i) (releaseWorkflows db) = Some w"
    and "wf_status w \<noteq> Rw_gate_released" "evaluateReleaseTransition (stateOf w) Gate_release = None"
    and "select_first (live_impound (ctx_tenantId ctx) (wf_impoundId w)) (impoundRecords db) = Some r" "in_storage (imp_status r)"
    and "active_holds (ctx_tenantId ctx) (wf_impoundId w) db \<noteq> []"
  shows "(\<exists>row db'. gateRelease ctx now i db = Inr (row, db')
      \<and> (\<exists>r' \<in> set (impoundRecords db'). imp_id r' = wf_impoundId w \<and> imp_status r' = Released \<and> imp_releasedAt r' = Some now)
      \<and> active_holds (ctx_tenantId ctx) (wf_impoundId w) db' \<noteq> [])
    \<and> isl (releaseRecord ctx now newId (wf_impoundId w) inp db)"
proof
  have r: "live_impound (ctx_tenantId ctx) (wf_impoundId w) r" "r \<in> set (impoundRecords db)"
    using select_first_Some [OF assms(4)] by auto
  let ?r = "r\<lparr>imp_status := Released, imp_releasedAt := Some now, imp_updatedAt := now\<rparr>"
  have "?r \<in> set (update_where (own_impound (ctx_tenantId ctx) (wf_impoundId w))
      (\<lambda>r. r\<lparr>imp_status := Released, imp_releasedAt := Some now, imp_updatedAt := now\<rparr>) (impoundRecords db))"
    using r by (auto simp: set_update_where own_impound_def live_impound_def)
  moreover have "imp_id r = wf_impoundId w" using r(1) by (simp add: live_impound_def)
  ultimately show "\<exists>row db'. gateRelease ctx now i db = Inr (row, db')
      \<and> (\<exists>r' \<in> set (impoundRecords db'). imp_id r' = wf_impoundId w \<and> imp_status r' = Released \<and> imp_releasedAt r' = Some now)
      \<and> active_holds (ctx_tenantId ctx) (wf_impoundId w) db' \<noteq> []"
    using assms by (simp add: gateRelease_def Let_def update_returning_def require_def active_holds_def)
      (rule bexI [of _ ?r], simp_all)
  show "isl (releaseRecord ctx now newId (wf_impoundId w) inp db)"
  proof -
    obtain ok reasons where g: "evaluateReleaseGate \<lparr>gi_recordStatus = imp_status r,
        gi_activeHoldCount = length (active_holds (ctx_tenantId ctx) (wf_impoundId w) db),
        gi_idVerified = ri_idVerified inp, gi_ownershipDocVerified = ri_ownershipDocVerified inp\<rparr> = (ok, reasons)"
      by fastforce
    have "\<not> ok"
      using evaluateReleaseGate_ok [of "\<lparr>gi_recordStatus = imp_status r,
        gi_activeHoldCount = length (active_holds (ctx_tenantId ctx) (wf_impoundId w) db),
        gi_idVerified = ri_idVerified inp, gi_ownershipDocVerified = ri_ownershipDocVerified inp\<rparr>"] assms(6) unfolding g by simp
    then show ?thesis using assms(4) g by (simp add: releaseRecord_def Let_def require_def ensure_def)
  qed
qed

theorem gate_opens_despite_hold_witness:
  "\<exists>row db'. gateRelease lot_ctx 2000 14 lot_ready = Inr (row, db') \<and> active_holds 2 60 db' \<noteq> []"
proof -
  obtain w where w: "select_first (own_workflow 2 14) (releaseWorkflows lot_ready) = Some w" "wf_impoundId w = 60"
      "wf_status w \<noteq> Rw_gate_released" "evaluateReleaseTransition (stateOf w) Gate_release = None"
    using lot_hold_values(1) by (auto split: option.splits)
  obtain r where "select_first (live_impound 2 60) (impoundRecords lot_ready) = Some r" "in_storage (imp_status r)"
    using lot_hold_values(2) by (auto split: option.splits)
  moreover have t: "ctx_tenantId lot_ctx = 2" by (simp add: lot_ctx_def)
  ultimately have "\<exists>row db'. gateRelease lot_ctx 2000 14 lot_ready = Inr (row, db')
      \<and> (\<exists>r' \<in> set (impoundRecords db'). imp_id r' = 60 \<and> imp_status r' = Released \<and> imp_releasedAt r' = Some 2000)
      \<and> active_holds 2 60 db' \<noteq> []"
    using gate_opens_despite_hold [of lot_ctx 14 lot_ready w r 2000 18] w lot_hold_values(3) unfolding t by simp
  then show ?thesis by blast
qed

text \<open>The body class is matched anywhere in the text: a light-duty vehicle with a service body is an RV
  to the yard and is refused a standard stall.\<close>

theorem service_body_taken_for_rv:
  "classifyFromVehicle (Some \<lparr>vf_vehicleClass = Light_duty, vf_bodyClass = Some ''service body'', vf_isElectric = False\<rparr>) = (St_rv, False)"
  by code_simp

end
