(* ===== verification/Spec2Isabelle.thy ===== *)
theory Spec2Isabelle
  imports DispatchProperties ImpoundProperties LienProperties InvoiceProperties
    PaymentsProperties AuctionProperties WebhookProperties PublicV1 AuthProperties
    PricingProperties DotProperties YardProperties
begin

text \<open>
  A verification library of the tow-dispatch platform: the services under
  src/apps/api/src/modules that carry its business rules, over the tables of
  src/packages/db/src/schema and the contracts of src/packages/shared/src.

  The program.  A call becomes a job, priced by a quote; a dispatcher assigns it to a driver's shift
  and it moves through its statuses; a completed job becomes an invoice, which is issued, paid by hand
  or by card and ages.  A vehicle that is kept becomes an impound record, which accrues a fee a day,
  and either is released through a gate or becomes a lien case, whose statutory notices and waiting
  times lead to a sale, and a listing on the remarketing auction.  Users log in with sessions and
  second factors, integrations with API keys, and what happens is sent to their webhooks.  Every row
  belongs to a tenant.

  How a handler is modelled.  A handler of NestJS runs in one transaction (TenantAwareDb,
  database/tenant-aware-db.service.ts), so it is a function from the tables to \<open>Inl\<close> of the exception
  thrown, the tables unchanged, or \<open>Inr\<close> of the result and the tables (Prelude: \<open>ensure\<close>, \<open>require\<close>,
  \<open>attempt\<close>, \<open>committed\<close>).  A handler that runs several transactions returns the tables beside the
  result or exception, since the earlier ones stay.  Row-level security is the tenant written into
  every row predicate; a CHECK constraint or unique index is a check on the write.  Tables are lists
  of records in insertion order; the four statements are \<open>select_first\<close>, \<open>select_where\<close>,
  \<open>update_where\<close> and \<open>insert_into\<close>.  Tables of a module extend those of the modules it reads, as
  extensible records.  The clock, fresh identifiers and random values are arguments, and so is what
  is not in the repository: the payment provider's answers, digests, ciphers, password hashing,
  one-time codes, the time-zone database.

  The theories, by module.
  \<^item> Prelude, JsText, WebText, Json, Calendar, Dates, Doubles: the language and its library.  Strings
    and decimal digits, hex, base64 and UUID texts, JSON texts, the Gregorian calendar with its
    day-number conversions, YYYY-MM-DD arithmetic (impound-fees.logic.ts), and binary64 arithmetic
    with its rounding errors.  Locales: \<open>tenant_isolation\<close>,
    \<open>status_machine\<close>, \<open>codec\<close>, \<open>day_codec\<close>.
  \<^item> Sequences: numbers handed out by the upsert of a sequence row (locale \<open>numbering\<close>), used for
    job and invoice numbers.
  \<^item> JobStateMachine, DispatchDb, Jobs, Shifts: jobs/job-state-machine.ts, jobs/jobs.service.ts and
    dispatch/drivers.service.ts, handler by handler.  Dispatch and DispatchSafety run all operations
    of all tenants together (\<open>reachable\<close>) and DispatchProperties states what holds on every board: the
    status log explains each status, numbers and open shifts are unique, tenants do not interfere.
  \<^item> ImpoundFees, Impound: impound-fees.logic.ts, impound-release.logic.ts, impound.service.ts and the
    nightly accrual cron.  ImpoundBilling and ImpoundProperties: each stored day is billed exactly
    once and the running total is the sum of the fees.
  \<^item> LienConfig, LienRules, LienCases: the statutory table of 50 states and DC (state-rules.config.ts),
    the pure engine (lien-rules.logic.ts), the service and the observation-only sweep.  LienInv and
    LienProperties: waiting times and notice windows of a case that reaches its sale.
  \<^item> InvoiceLogic, Invoices, InvoiceOps: the invoice state machine, the tax engine, the lines of a quote,
    and billing/invoices.service.ts.  InvoiceInv, InvoiceRuns and InvoiceProperties: the ledger of
    every reachable database balances, recording payments refines an account book, an issued invoice
    is fixed, the aging report groups by party and age, an edited address does not change the tax
    before the first payment.
  \<^item> Payments, PaymentsInv, PaymentsProperties: payments/payments.service.ts with its webhook, run
    together with billing.  A run collects the invoices that a delivery leaves behind their payments, a
    failure reported after the capture or a refund whose second transaction fails; the ledger of all
    others balances, whatever the provider delivers in whatever order (\<open>payments_run\<close>).
  \<^item> Auction, AuctionProperties: auction-bid.logic.ts, auction.service.ts, bidder-auth.service.ts and the
    lifecycle cron.
  \<^item> Webhooks, WebhookInv, WebhookProperties: the outgoing webhooks of modules/public-api, with the
    separate transactions of the delivery worker.
  \<^item> RateLimiter, ApiKeys, PublicV1: the rate limiter, keys, scopes, guards and idempotent writes of the
    public API, and the cursors and job operations of /v1.
  \<^item> Auth, AuthProperties: auth.service.ts and jwt.service.ts: refresh tokens mint once, reuse ends every
    session, a locked account stays out.
  \<^item> DynamicPricing, RateEngine, PricingProperties: dynamic-pricing-helpers.ts, tier-resolution.service.ts
    and rates/rate-engine.service.ts: the surge is spread to the cent and stays within its cap, a quote
    adds up, a holiday given by its weekday is found.  DoubleOrder: comparison of doubles and exactness
    on whole numbers.
  \<^item> Hos, HosShifts, HosProperties: dot/hos-rules.logic.ts.  The program numbers the segments of a duty
    log and scans each period; the reference definition \<open>shifts\<close> splits the log at ten hours' rest, and
    each rule is reported exactly when a stretch without such a rest breaks it.  Dot, DotProperties:
    dq-file.logic.ts, dot.service.ts and the expiry scan; one profile and one file per driver, tenants
    apart.
  \<^item> Yard, YardOps: modules/yard: facilities, stalls, storage rate cards, the daily billing run with its
    two transactions and retries, the release wizard.  YardInv holds the invariants of workflows and
    rate cards, YardLedger those of the charges; YardProperties: one rate a day, a ledger that adds up,
    a second run that charges nothing, and a gate that a hold does not close.

  The lemmas.  Each component has an invariant (or a relation between the tables before and after)
  preserved by every operation, proved once per kind of effect and then for every run by induction;
  the properties (numbered C1 to C40) are consequences of these and of the behaviour of single
  handlers, each followed by a witness that applies it to concrete rows where it has hypotheses.

  Bounds and fuel.  Dates stay within the range of a Date object and, where they are printed, within
  four-digit years (\<open>plain_day\<close>).  The accrual loop of the program stops after 3660 days; the model
  keeps that guard, and the properties that say every day is billed carry it as their hypothesis.
  Doubles are exact in the normal range; the amounts of the program stay below 2 ^ 53 and far from
  overflow.  Values beyond a Postgres numeric column are errors of the model, as they are in the
  program.  The delivery worker takes batches of one hundred, the longest due first; the termination
  property holds for any number of waiting deliveries, with a time bound that grows with it.  The walk over the pages of /v1 is given one step per row, which suffices since
  each page but the last lists a row.

  Not modelled.  The interleaving of concurrent transactions inside one handler, except where a
  handler itself commits in parts; foreign keys; audit triggers; the read-only lists and detail views
  of most services; mails, log lines, PDF rendering, object storage.  The controllers, modules and
  configuration only route requests.  The web, iOS and Android applications, the seed scripts and SQL
  migrations hold no rules the services rely on beyond the constraints named above.  The remaining
  backend modules (accounting synchronisation, tracking, tier offers, notifications, dashboards,
  telematics, identity providers and the like) are mostly queries and calls to outside services; they
  are listed in the manifest as not modelled.
\<close>

end
